(* ===== verification/Vnidrop_Prelude.thy ===== *)
theory Vnidrop_Prelude
  imports Main "HOL-Library.Word"
begin

text \<open>
  Shared vocabulary of the development: the error type of the core
  (\<^verbatim>\<open>crates/vnidrop/src/error.rs\<close>), procedures that may fail and that change a state
  whether or not they fail (Rust's \<open>Result\<close> with the \<open>?\<close> operator), two-state relations
  kept by procedures, and SQLite tables as lists of rows with the three statement forms
  the stores use (\<open>SELECT .. WHERE\<close>, \<open>UPDATE .. WHERE\<close>, \<open>DELETE .. WHERE\<close>).
\<close>

named_theorems proc_defs "definitions of the procedure combinators"
named_theorems store_defs "definitions of the store operations"

type_synonym u64 = "64 word"
type_synonym u32 = "32 word"
type_synonym u16 = "16 word"

section \<open>Errors\<close>

datatype vnidrop_error =
    Initialization string
  | Ticket string
  | Filesystem string
  | FilesystemPermission string
  | DestinationExists string
  | StorageFull string
  | Network string
  | DeviceUnavailable string
  | OfferTimeout string
  | RelayPolicyIncompatible string
  | ProtocolIncompatible string
  | TransferError string
  | Permission string
  | Repository string
  | CancelledError string
  | InvalidInput string
  | InvalidTransition string
  | SecureStorageLocked string
  | SecureStorageMissing string
  | SecureStorageCorrupted string
  | SecureStorageUnavailable string
  | Internal string

section \<open>Fallible procedures on a state\<close>

text \<open>
  A procedure returns a result (\<open>Inl\<close> is Rust's \<open>Err\<close>) and the state it leaves behind:
  an error does not undo what was done before it.
\<close>

type_synonym ('s, 'a) proc = "'s \<Rightarrow> (vnidrop_error + 'a) \<times> 's"

definition ok :: "'a \<Rightarrow> ('s, 'a) proc" where
  [proc_defs]: "ok x s = (Inr x, s)"

definition err :: "vnidrop_error \<Rightarrow> ('s, 'a) proc" where
  [proc_defs]: "err e s = (Inl e, s)"

definition gets :: "('s \<Rightarrow> 'a) \<Rightarrow> ('s, 'a) proc" where
  [proc_defs]: "gets f s = (Inr (f s), s)"

definition modify :: "('s \<Rightarrow> 's) \<Rightarrow> ('s, unit) proc" where
  [proc_defs]: "modify f s = (Inr (), f s)"

text \<open>Rust's \<open>m?\<close> followed by the rest of the body.\<close>

definition bind :: "('s, 'a) proc \<Rightarrow> ('a \<Rightarrow> ('s, 'b) proc) \<Rightarrow> ('s, 'b) proc" where
  [proc_defs]: "bind m f s = (case m s of (Inl e, s') \<Rightarrow> (Inl e, s') | (Inr x, s') \<Rightarrow> f x s')"

definition next_do :: "('s, 'a) proc \<Rightarrow> ('s, 'b) proc \<Rightarrow> ('s, 'b) proc" where
  [proc_defs]: "next_do m m' = bind m (\<lambda>_. m')"

text \<open>Looking at the result of a call without propagating its error (\<open>match\<close>, \<open>let _ =\<close>).\<close>

definition attempt :: "('s, 'a) proc \<Rightarrow> (vnidrop_error + 'a \<Rightarrow> ('s, 'b) proc) \<Rightarrow> ('s, 'b) proc" where
  [proc_defs]: "attempt m f s = (case m s of (r, s') \<Rightarrow> f r s')"

fun for_each :: "'a list \<Rightarrow> ('a \<Rightarrow> ('s, unit) proc) \<Rightarrow> ('s, unit) proc" where
  "for_each [] f = ok ()"
| "for_each (x # xs) f = next_do (f x) (for_each xs f)"

text \<open>A loop that carries a value.\<close>

fun for_fold :: "'a list \<Rightarrow> ('a \<Rightarrow> 'b \<Rightarrow> ('s, 'b) proc) \<Rightarrow> 'b \<Rightarrow> ('s, 'b) proc" where
  "for_fold [] f acc = ok acc"
| "for_fold (x # xs) f acc = bind (f x acc) (for_fold xs f)"

text \<open>A pure \<open>Result\<close> inside a procedure.\<close>

definition lift :: "vnidrop_error + 'a \<Rightarrow> ('s, 'a) proc" where
  [proc_defs]: "lift r s = (r, s)"

abbreviation result :: "(vnidrop_error + 'a) \<times> 's \<Rightarrow> vnidrop_error + 'a" where
  "result \<equiv> fst"

abbreviation state_of :: "(vnidrop_error + 'a) \<times> 's \<Rightarrow> 's" where
  "state_of \<equiv> snd"

definition succeeds :: "('s, 'a) proc \<Rightarrow> 's \<Rightarrow> 'a \<Rightarrow> 's \<Rightarrow> bool" where
  "succeeds m s x s' \<longleftrightarrow> m s = (Inr x, s')"

lemma bind_eq_Inr:
  "bind m f s = (Inr y, t) \<longleftrightarrow> (\<exists>x s'. m s = (Inr x, s') \<and> f x s' = (Inr y, t))"
  by (auto simp: bind_def split: prod.splits sum.splits)

lemma bind_ok [simp]: "bind (ok x) f = f x"
  by (rule ext) (simp add: proc_defs)

lemma bind_err [simp]: "bind (err e) f = err e"
  by (rule ext) (simp add: proc_defs)

lemma ok_eq_Inr [simp]: "ok x s = (Inr y, t) \<longleftrightarrow> x = y \<and> s = t"
  by (simp add: ok_def)

lemma err_not_Inr [simp]: "err e s \<noteq> (Inr y, t)"
  by (simp add: err_def)

section \<open>Two-state relations kept by procedures\<close>

text \<open>
  \<open>stable R m\<close>: whatever the start state and whether or not \<open>m\<close> fails, the final state is
  related to the start state by \<open>R\<close>. For a preorder \<open>R\<close> this composes through every
  combinator, which is what makes both invariants (\<open>I s \<longrightarrow> I s'\<close>) and history
  properties (immutable columns, monotone counters) of long operations short to prove.
\<close>

definition stable :: "('s \<Rightarrow> 's \<Rightarrow> bool) \<Rightarrow> ('s, 'a) proc \<Rightarrow> bool" where
  "stable R m \<longleftrightarrow> (\<forall>s. R s (snd (m s)))"

lemma stableI: "(\<And>s. R s (snd (m s))) \<Longrightarrow> stable R m"
  by (simp add: stable_def)

lemma stableD: "stable R m \<Longrightarrow> m s = (r, t) \<Longrightarrow> R s t"
  by (metis snd_conv stable_def)

lemma stable_mono: "stable R m \<Longrightarrow> (\<And>s t. R s t \<Longrightarrow> Q s t) \<Longrightarrow> stable Q m"
  by (simp add: stable_def)

locale state_preorder =
  fixes R :: "'s \<Rightarrow> 's \<Rightarrow> bool"
  assumes refl: "R s s"
    and trans: "R s t \<Longrightarrow> R t u \<Longrightarrow> R s u"
begin

lemma stable_ok: "stable R (ok x)"
  by (simp add: stable_def ok_def refl)

lemma stable_err: "stable R (err e)"
  by (simp add: stable_def err_def refl)

lemma stable_gets: "stable R (gets f)"
  by (simp add: stable_def gets_def refl)

lemma stable_modify: "(\<And>s. R s (f s)) \<Longrightarrow> stable R (modify f)"
  by (simp add: stable_def modify_def)

lemma stable_bind:
  assumes "stable R m" and "\<And>x. stable R (f x)"
  shows "stable R (bind m f)"
proof (rule stableI)
  fix s
  obtain r t where m: "m s = (r, t)" by (cases "m s")
  have "R s t" by (rule stableD [OF assms(1) m])
  then show "R s (snd (bind m f s))"
    using assms(2) m by (auto simp: bind_def stable_def intro: trans split: sum.splits)
qed

lemma stable_next: "stable R m \<Longrightarrow> stable R m' \<Longrightarrow> stable R (next_do m m')"
  by (simp add: next_do_def stable_bind)

lemma stable_attempt:
  assumes "stable R m" and "\<And>r. stable R (f r)"
  shows "stable R (attempt m f)"
proof (rule stableI)
  fix s
  obtain r t where m: "m s = (r, t)" by (cases "m s")
  have "R s t" by (rule stableD [OF assms(1) m])
  then show "R s (snd (attempt m f s))"
    using assms(2) [of r] m by (auto simp: attempt_def stable_def intro: trans)
qed

lemma stable_for_each: "(\<And>x. stable R (f x)) \<Longrightarrow> stable R (for_each xs f)"
  by (induction xs) (simp_all add: stable_ok stable_next)

lemma stable_for_fold: "(\<And>x acc. stable R (f x acc)) \<Longrightarrow> stable R (for_fold xs f acc)"
  by (induction xs arbitrary: acc) (simp_all add: stable_ok stable_bind)

lemma stable_lift: "stable R (lift r)"
  by (simp add: stable_def lift_def refl)

lemma stable_if: "stable R m \<Longrightarrow> stable R m' \<Longrightarrow> stable R (if b then m else m')"
  by simp

lemma stable_option:
  "stable R m \<Longrightarrow> (\<And>x. stable R (f x)) \<Longrightarrow> stable R (case v of None \<Rightarrow> m | Some x \<Rightarrow> f x)"
  by (cases v) simp_all

lemma stable_sum:
  "(\<And>x. stable R (f x)) \<Longrightarrow> (\<And>y. stable R (g y)) \<Longrightarrow> stable R (case v of Inl x \<Rightarrow> f x | Inr y \<Rightarrow> g y)"
  by (cases v) simp_all

lemma stable_prod: "(\<And>x y. stable R (f x y)) \<Longrightarrow> stable R (case p of (x, y) \<Rightarrow> f x y)"
  by (cases p) simp

lemma stable_list:
  "stable R m \<Longrightarrow> (\<And>x xs. stable R (f x xs)) \<Longrightarrow> stable R (case l of [] \<Rightarrow> m | x # xs \<Rightarrow> f x xs)"
  by (cases l) simp_all

lemmas stable_rules =
  stable_ok stable_err stable_gets stable_bind stable_next stable_attempt
  stable_for_each stable_for_fold stable_lift stable_if stable_option stable_sum stable_prod
  stable_list

end

section \<open>Tables as lists of rows\<close>

text \<open>
  A table is the list of its rows in insertion order. \<open>UPDATE t SET .. WHERE P\<close> is
  \<open>update_where P u\<close> and reports \<open>affected P\<close> rows; \<open>DELETE\<close> keeps the other rows.
\<close>

definition update_where :: "('r \<Rightarrow> bool) \<Rightarrow> ('r \<Rightarrow> 'r) \<Rightarrow> 'r list \<Rightarrow> 'r list" where
  "update_where P u rows = map (\<lambda>r. if P r then u r else r) rows"

definition delete_where :: "('r \<Rightarrow> bool) \<Rightarrow> 'r list \<Rightarrow> 'r list" where
  "delete_where P rows = filter (\<lambda>r. \<not> P r) rows"

definition affected :: "('r \<Rightarrow> bool) \<Rightarrow> 'r list \<Rightarrow> nat" where
  "affected P rows = length (filter P rows)"

definition find_by :: "('r \<Rightarrow> 'k) \<Rightarrow> 'k \<Rightarrow> 'r list \<Rightarrow> 'r option" where
  "find_by key k rows = List.find (\<lambda>r. key r = k) rows"

definition exists_where :: "('r \<Rightarrow> bool) \<Rightarrow> 'r list \<Rightarrow> bool" where
  "exists_where P rows = list_ex P rows"

lemma set_update_where: "set (update_where P u rows) = (\<lambda>r. if P r then u r else r) ` set rows"
  by (simp add: update_where_def)

lemma set_delete_where [simp]: "set (delete_where P rows) = {r \<in> set rows. \<not> P r}"
  by (simp add: delete_where_def)

lemma exists_where_iff [simp]: "exists_where P rows \<longleftrightarrow> (\<exists>r \<in> set rows. P r)"
  by (simp add: exists_where_def list_ex_iff)

lemma affected_0_iff [simp]: "affected P rows = 0 \<longleftrightarrow> (\<forall>r \<in> set rows. \<not> P r)"
  by (simp add: affected_def filter_empty_conv)

lemma update_where_none: "(\<forall>r \<in> set rows. \<not> P r) \<Longrightarrow> update_where P u rows = rows"
  by (induction rows) (simp_all add: update_where_def)

lemma find_by_SomeD: "find_by key k rows = Some r \<Longrightarrow> r \<in> set rows \<and> key r = k"
  by (auto simp: find_by_def find_Some_iff)

lemma find_by_None_iff: "find_by key k rows = None \<longleftrightarrow> k \<notin> key ` set rows"
  by (auto simp: find_by_def find_None_iff)

text \<open>Updates that keep the key column keep the keys, and act on the row a key finds.\<close>

lemma map_update_where:
  "(\<And>r. P r \<Longrightarrow> key (u r) = key r) \<Longrightarrow> map key (update_where P u rows) = map key rows"
  by (induction rows) (simp_all add: update_where_def)

lemma find_update_where:
  "(\<And>r. P r \<Longrightarrow> key (u r) = key r) \<Longrightarrow>
   find_by key k (update_where P u rows) =
     map_option (\<lambda>r. if P r then u r else r) (find_by key k rows)"
  by (induction rows) (auto simp: update_where_def find_by_def)

lemma bex_update_where:
  "(\<And>r. Q (u r) = Q r) \<Longrightarrow> (\<exists>r \<in> set (update_where P u rows). Q r) \<longleftrightarrow> (\<exists>r \<in> set rows. Q r)"
  by (induction rows) (auto simp: update_where_def)

lemma update_where_other:
  "(\<And>r. key (u r) = key r) \<Longrightarrow> key q \<noteq> k \<Longrightarrow>
   q \<in> set (update_where (\<lambda>r. key r = k) u rows) \<longleftrightarrow> q \<in> set rows"
  by (induction rows) (auto simp: update_where_def)

lemma update_where_hit:
  assumes "\<And>r. key (u r) = key r" and "q \<in> set (update_where (\<lambda>r. key r = k) u rows)" and "key q = k"
  obtains r where "r \<in> set rows" and "key r = k" and "q = u r"
proof -
  from assms(2) obtain r where r: "r \<in> set rows" "q = (if key r = k then u r else r)"
    by (auto simp: set_update_where)
  then have "key r = k" using assms(1,3) by (auto split: if_splits)
  with r that show ?thesis by simp
qed

lemma affected_key_le_1:
  assumes "distinct (map key rows)"
  shows "affected (\<lambda>r. key r = k \<and> P r) rows \<le> 1"
  using assms
proof (induction rows)
  case (Cons r rows)
  have "affected (\<lambda>r. key r = k \<and> P r) rows = 0" if "key r = k"
    using Cons.prems that by (auto simp: image_iff)
  with Cons show ?case by (auto simp: affected_def)
qed (simp add: affected_def)

lemma find_by_unique:
  "distinct (map key rows) \<Longrightarrow> r \<in> set rows \<Longrightarrow> find_by key (key r) rows = Some r"
  by (induction rows) (auto simp: find_by_def)

lemma distinct_delete_where:
  "distinct (map key rows) \<Longrightarrow> distinct (map key (delete_where P rows))"
  by (simp add: delete_where_def distinct_map_filter)

lemma find_delete_where:
  "distinct (map key rows) \<Longrightarrow>
   find_by key k (delete_where P rows) =
     (case find_by key k rows of None \<Rightarrow> None | Some r \<Rightarrow> if P r then None else Some r)"
proof (induction rows)
  case Nil
  show ?case by (simp add: delete_where_def find_by_def)
next
  case (Cons r rows)
  show ?case
  proof (cases "key r = k \<and> P r")
    case True
    with Cons.prems have "k \<notin> key ` set (delete_where P rows)" by auto
    then have "find_by key k (delete_where P rows) = None" by (simp add: find_by_None_iff)
    with True show ?thesis by (simp add: delete_where_def find_by_def)
  next
    case False
    with Cons show ?thesis by (auto simp: delete_where_def find_by_def split: option.splits)
  qed
qed

lemma find_append_new:
  "k \<notin> key ` set rows \<Longrightarrow> find_by key k (rows @ [r]) = (if key r = k then Some r else None)"
  by (induction rows) (auto simp: find_by_def)

lemma find_append_old:
  "find_by key k rows = Some r \<Longrightarrow> find_by key k (rows @ [x]) = Some r"
  by (induction rows) (auto simp: find_by_def)

end
