(* ===== verification/Transfer_State.thy ===== *)
theory Transfer_State
  imports Vnidrop_Prelude
begin

text \<open>
  The state enumerations and their transition rules: invitation transfers and receiver
  requests (\<^verbatim>\<open>transfer_state.rs\<close>), targeted transfers and roles (\<^verbatim>\<open>targeted_transfer/state.rs\<close>
  and the string codecs at the end of \<^verbatim>\<open>targeted_transfer/store.rs\<close>). The lemmas show that
  every codec round-trips and that both transition tables are acyclic up to the one
  deliberate resume loop, with the terminal states the rest of the core relies on.
\<close>

section \<open>Invitation transfers\<close>

datatype TransferDirection = Send | Receive

definition direction_as_str :: "TransferDirection \<Rightarrow> string" where
  "direction_as_str d = (case d of Send \<Rightarrow> ''send'' | Receive \<Rightarrow> ''receive'')"

definition direction_try_from :: "string \<Rightarrow> TransferDirection option" where
  "direction_try_from v =
     (if v = ''send'' then Some Send else if v = ''receive'' then Some Receive else None)"

datatype TransferStatus =
  TsImporting | TsSharing | TsReceiving | TsDone | TsFailed | TsCancelled | TsStopped

definition status_as_str :: "TransferStatus \<Rightarrow> string" where
  "status_as_str s = (case s of
      TsImporting \<Rightarrow> ''importing'' | TsSharing \<Rightarrow> ''sharing'' | TsReceiving \<Rightarrow> ''receiving''
    | TsDone \<Rightarrow> ''done'' | TsFailed \<Rightarrow> ''failed'' | TsCancelled \<Rightarrow> ''cancelled''
    | TsStopped \<Rightarrow> ''stopped'')"

definition status_try_from :: "string \<Rightarrow> TransferStatus option" where
  "status_try_from v =
     (if v = ''importing'' then Some TsImporting
      else if v = ''sharing'' then Some TsSharing
      else if v = ''receiving'' then Some TsReceiving
      else if v = ''done'' then Some TsDone
      else if v = ''failed'' then Some TsFailed
      else if v = ''cancelled'' then Some TsCancelled
      else if v = ''stopped'' then Some TsStopped
      else None)"

definition can_transition_to :: "TransferStatus \<Rightarrow> TransferStatus \<Rightarrow> bool" where
  "can_transition_to s next = (case s of
      TsImporting \<Rightarrow> next = TsSharing \<or> next = TsFailed \<or> next = TsCancelled
    | TsSharing \<Rightarrow> next = TsStopped \<or> next = TsFailed
    | TsReceiving \<Rightarrow> next = TsDone \<or> next = TsFailed \<or> next = TsCancelled
    | _ \<Rightarrow> False)"

datatype ReceiverRequestStatus =
  RrRequested | RrAccepted | RrRefused | RrExpired | RrCompleted | RrFailed

definition request_as_str :: "ReceiverRequestStatus \<Rightarrow> string" where
  "request_as_str s = (case s of
      RrRequested \<Rightarrow> ''requested'' | RrAccepted \<Rightarrow> ''accepted'' | RrRefused \<Rightarrow> ''refused''
    | RrExpired \<Rightarrow> ''expired'' | RrCompleted \<Rightarrow> ''completed'' | RrFailed \<Rightarrow> ''failed'')"

definition request_try_from :: "string \<Rightarrow> ReceiverRequestStatus option" where
  "request_try_from v =
     (if v = ''requested'' then Some RrRequested
      else if v = ''accepted'' then Some RrAccepted
      else if v = ''refused'' then Some RrRefused
      else if v = ''expired'' then Some RrExpired
      else if v = ''completed'' then Some RrCompleted
      else if v = ''failed'' then Some RrFailed
      else None)"

section \<open>Targeted transfers\<close>

datatype TargetedTransferState =
    Preparing | Offering | AwaitingApproval | Approved | Connecting | Transferring
  | Interrupted | Completed | Declined | Cancelled | Failed | Deleted

datatype TargetedTransferRole = Sender | Receiver

definition state_as_str :: "TargetedTransferState \<Rightarrow> string" where
  "state_as_str s = (case s of
      Preparing \<Rightarrow> ''preparing'' | Offering \<Rightarrow> ''offering''
    | AwaitingApproval \<Rightarrow> ''awaiting_approval'' | Approved \<Rightarrow> ''approved''
    | Connecting \<Rightarrow> ''connecting'' | Transferring \<Rightarrow> ''transferring''
    | Interrupted \<Rightarrow> ''interrupted'' | Completed \<Rightarrow> ''completed'' | Declined \<Rightarrow> ''declined''
    | Cancelled \<Rightarrow> ''cancelled'' | Failed \<Rightarrow> ''failed'' | Deleted \<Rightarrow> ''deleted'')"

definition parse_state :: "string \<Rightarrow> vnidrop_error + TargetedTransferState" where
  "parse_state v =
     (if v = ''preparing'' then Inr Preparing
      else if v = ''offering'' then Inr Offering
      else if v = ''awaiting_approval'' then Inr AwaitingApproval
      else if v = ''approved'' then Inr Approved
      else if v = ''connecting'' then Inr Connecting
      else if v = ''transferring'' then Inr Transferring
      else if v = ''interrupted'' then Inr Interrupted
      else if v = ''completed'' then Inr Completed
      else if v = ''declined'' then Inr Declined
      else if v = ''cancelled'' then Inr Cancelled
      else if v = ''failed'' then Inr Failed
      else if v = ''deleted'' then Inr Deleted
      else Inl (Repository (''unknown targeted transfer state: '' @ v)))"

definition role_as_str :: "TargetedTransferRole \<Rightarrow> string" where
  "role_as_str r = (case r of Sender \<Rightarrow> ''sender'' | Receiver \<Rightarrow> ''receiver'')"

definition parse_role :: "string \<Rightarrow> vnidrop_error + TargetedTransferRole" where
  "parse_role v =
     (if v = ''sender'' then Inr Sender
      else if v = ''receiver'' then Inr Receiver
      else Inl (Repository (''unknown targeted transfer role: '' @ v)))"

definition transition_allowed :: "TargetedTransferState \<Rightarrow> TargetedTransferState \<Rightarrow> bool" where
  "transition_allowed s next =
     ((next = Deleted \<and> s \<noteq> Deleted)
      \<or> (case s of
           Preparing \<Rightarrow> next \<in> {Offering, Cancelled, Failed}
         | Offering \<Rightarrow> next \<in> {AwaitingApproval, Cancelled, Failed}
         | AwaitingApproval \<Rightarrow> next \<in> {Approved, Declined, Cancelled, Failed}
         | Approved \<Rightarrow> next \<in> {Connecting, Cancelled, Failed}
         | Connecting \<Rightarrow> next \<in> {Transferring, Interrupted, Cancelled, Failed}
         | Transferring \<Rightarrow> next \<in> {Completed, Interrupted, Cancelled, Failed}
         | Interrupted \<Rightarrow> next \<in> {Connecting, Cancelled, Failed}
         | _ \<Rightarrow> False))"

definition transition_text :: "TargetedTransferState \<Rightarrow> TargetedTransferState \<Rightarrow> string" where
  "transition_text s next = state_as_str s @ '' -> '' @ state_as_str next"

definition validate_transition_to ::
    "TargetedTransferState \<Rightarrow> TargetedTransferState \<Rightarrow> vnidrop_error + unit" where
  "validate_transition_to s next =
     (if transition_allowed s next then Inr () else Inl (InvalidTransition (transition_text s next)))"

section \<open>Codecs round-trip\<close>

lemmas codec_defs =
  direction_as_str_def direction_try_from_def status_as_str_def status_try_from_def
  request_as_str_def request_try_from_def state_as_str_def parse_state_def
  role_as_str_def parse_role_def

lemma parse_state_as_str [simp]: "parse_state (state_as_str s) = Inr s"
  by (cases s) (simp_all add: codec_defs)

lemma parse_role_as_str [simp]: "parse_role (role_as_str r) = Inr r"
  by (cases r) (simp_all add: codec_defs)

lemma parse_state_sound: "parse_state v = Inr s \<Longrightarrow> state_as_str s = v"
  by (auto simp: parse_state_def state_as_str_def split: if_splits)

lemma parse_role_sound: "parse_role v = Inr r \<Longrightarrow> role_as_str r = v"
  by (auto simp: parse_role_def role_as_str_def split: if_splits)

lemma status_roundtrip: "status_try_from v = Some s \<longleftrightarrow> status_as_str s = v"
  by (cases s) (auto simp: codec_defs split: if_splits)

lemma request_roundtrip: "request_try_from v = Some s \<longleftrightarrow> request_as_str s = v"
  by (cases s) (auto simp: codec_defs split: if_splits)

lemma direction_roundtrip: "direction_try_from v = Some d \<longleftrightarrow> direction_as_str d = v"
  by (cases d) (auto simp: codec_defs split: if_splits)

lemma state_roundtrip: "parse_state v = Inr s \<longleftrightarrow> state_as_str s = v"
  using parse_state_sound by auto

lemma role_roundtrip: "parse_role v = Inr r \<longleftrightarrow> role_as_str r = v"
  using parse_role_sound by auto

section \<open>Terminal states and the transition graph\<close>

text \<open>The classes of states that the SQL statements and handlers list.\<close>

definition is_terminal :: "TargetedTransferState \<Rightarrow> bool" where
  "is_terminal s \<longleftrightarrow> s \<in> {Completed, Declined, Cancelled, Failed, Deleted}"

definition is_preapproval :: "TargetedTransferState \<Rightarrow> bool" where
  "is_preapproval s \<longleftrightarrow> s \<in> {Preparing, Offering, AwaitingApproval}"

definition is_resumable :: "TargetedTransferState \<Rightarrow> bool" where
  "is_resumable s \<longleftrightarrow> s \<in> {Approved, Connecting, Transferring, Interrupted}"

lemmas state_class_defs = is_terminal_def is_preapproval_def is_resumable_def

lemma state_classes_partition:
  "is_terminal s \<or> is_preapproval s \<or> is_resumable s"
  "\<not> (is_terminal s \<and> is_preapproval s)"
  "\<not> (is_terminal s \<and> is_resumable s)"
  "\<not> (is_preapproval s \<and> is_resumable s)"
  by (cases s; simp add: state_class_defs)+

lemma terminal_only_deleted:
  "is_terminal s \<Longrightarrow> transition_allowed s next \<longleftrightarrow> next = Deleted \<and> s \<noteq> Deleted"
  by (cases s) (simp_all add: is_terminal_def transition_allowed_def)

lemma deleted_is_final: "\<not> transition_allowed Deleted next"
  by (simp add: transition_allowed_def)

lemma cancel_allowed_iff: "transition_allowed s Cancelled \<longleftrightarrow> \<not> is_terminal s"
  by (cases s) (simp_all add: is_terminal_def transition_allowed_def)

lemma delete_allowed_iff: "transition_allowed s Deleted \<longleftrightarrow> s \<noteq> Deleted"
  by (cases s) (simp_all add: transition_allowed_def)

lemma transition_irrefl: "\<not> transition_allowed s s"
  by (cases s) (simp_all add: transition_allowed_def)

text \<open>
  A rank that every transition raises, except the resume loop through \<open>Interrupted\<close>:
  the three in-flight states share a rank.
\<close>

definition state_rank :: "TargetedTransferState \<Rightarrow> nat" where
  "state_rank s = (case s of
      Preparing \<Rightarrow> 0 | Offering \<Rightarrow> 1 | AwaitingApproval \<Rightarrow> 2 | Approved \<Rightarrow> 3
    | Connecting \<Rightarrow> 4 | Transferring \<Rightarrow> 4 | Interrupted \<Rightarrow> 4
    | Completed \<Rightarrow> 5 | Declined \<Rightarrow> 5 | Cancelled \<Rightarrow> 5 | Failed \<Rightarrow> 5 | Deleted \<Rightarrow> 6)"

lemma transition_rank:
  "transition_allowed s t \<Longrightarrow>
   state_rank s < state_rank t \<or> {s, t} \<subseteq> {Connecting, Transferring, Interrupted}"
  by (cases s; cases t) (simp_all add: transition_allowed_def state_rank_def)

text \<open>The same for invitation transfers, where no state is ever revisited.\<close>

definition status_rank :: "TransferStatus \<Rightarrow> nat" where
  "status_rank s = (case s of
      TsImporting \<Rightarrow> 0 | TsReceiving \<Rightarrow> 1 | TsSharing \<Rightarrow> 1
    | TsDone \<Rightarrow> 2 | TsFailed \<Rightarrow> 2 | TsCancelled \<Rightarrow> 2 | TsStopped \<Rightarrow> 2)"

lemma can_transition_rank: "can_transition_to s t \<Longrightarrow> status_rank s < status_rank t"
  by (cases s; cases t) (simp_all add: can_transition_to_def status_rank_def)

section \<open>Properties\<close>

text \<open>
  the text a state, role, status, kind of request or direction
  is stored as is read back as exactly that value, and every other text is refused.
\<close>

theorem durable_texts_identify_states:
  "(parse_state v = Inr s \<longleftrightarrow> state_as_str s = v) \<and> (parse_role v = Inr r \<longleftrightarrow> role_as_str r = v) \<and>
   (status_try_from v = Some u \<longleftrightarrow> status_as_str u = v) \<and>
   (request_try_from v = Some q \<longleftrightarrow> request_as_str q = v) \<and>
   (direction_try_from v = Some d \<longleftrightarrow> direction_as_str d = v)"
  by (simp add: state_roundtrip role_roundtrip status_roundtrip request_roundtrip direction_roundtrip)

lemma successively_rank:
  "successively can_transition_to ss \<Longrightarrow> sorted_wrt (<) (map status_rank ss)"
  by (induction ss rule: induct_list012)
    (auto dest: can_transition_rank simp: less_trans [OF can_transition_rank])

text \<open>
  a transition of a targeted transfer raises its rank, except inside
  the resume loop of the three in-flight states; nothing leaves the deleted state, and a
  finished transfer can only be deleted.
\<close>

theorem targeted_states_progress:
  assumes "validate_transition_to s t = Inr ()"
  shows "(state_rank s < state_rank t \<or> {s, t} \<subseteq> {Connecting, Transferring, Interrupted}) \<and>
    s \<noteq> t \<and> s \<noteq> Deleted \<and> (s \<in> {Completed, Declined, Cancelled, Failed} \<longrightarrow> t = Deleted)"
proof -
  have step: "transition_allowed s t" using assms by (simp add: validate_transition_to_def split: if_splits)
  show ?thesis
    using transition_rank [OF step] step
    by (cases s) (auto simp: transition_irrefl deleted_is_final transition_allowed_def)
qed

theorem targeted_states_progress_witness:
  "state_rank Offering < state_rank Cancelled"
  using targeted_states_progress [of Offering Cancelled]
  by (simp add: validate_transition_to_def transition_allowed_def state_rank_def)

end
