(* ===== verification/Targeted_Auth.thy ===== *)
theory Targeted_Auth
  imports Transfer_State
begin

text \<open>
  The authorization capability of a targeted transfer (\<^verbatim>\<open>targeted_transfer/auth.rs\<close>): what its
  MAC covers, how it is issued, checked, encoded and rebuilt from a durable row. The crates
  the code calls (\<open>data_encoding\<close>, \<open>serde_json\<close>, \<open>blake3\<close>) are the fields of the record
  \<open>ext\<close>, a parameter of every definition that uses them; \<open>ext_ok\<close> states the documented
  behaviour relied on. Byte strings and Rust \<open>String\<close>s are \<open>char list\<close>s (one \<open>char\<close> per
  byte), so \<open>length\<close> is Rust's \<open>len()\<close>.

  The main results: the message fed to the MAC determines every bound field (so the
  length-prefixed framing is injective), an issued or rebuilt capability always verifies, and
  \<open>decode\<close> inverts \<open>encode\<close> exactly on verifying capabilities.
\<close>

record auth =
  au_transfer_id :: string
  au_protocol_transfer_id :: u64
  au_sender_endpoint_id :: string
  au_receiver_endpoint_id :: string
  au_manifest_id :: string
  au_content_hash :: string
  au_file_count :: u64
  au_total_size :: u64
  au_protocol_version :: u16
  au_transfer_name :: string
  au_blob_ticket :: string
  au_auth_secret :: string
  au_mac :: string

record auth_draft =
  ad_transfer_id :: string
  ad_protocol_transfer_id :: u64
  ad_sender_endpoint_id :: string
  ad_receiver_endpoint_id :: string
  ad_manifest_id :: string
  ad_content_hash :: string
  ad_file_count :: u64
  ad_total_size :: u64
  ad_protocol_version :: u16
  ad_transfer_name :: string
  ad_blob_ticket :: string

text \<open>The third-party functions.\<close>

record ext =
  hex_encode :: "string \<Rightarrow> string"
  hex_decode :: "string \<Rightarrow> string option"
  b64_encode :: "string \<Rightarrow> string"
  b64_decode :: "string \<Rightarrow> string option"
  json_encode :: "auth \<Rightarrow> string option"
  json_decode :: "string \<Rightarrow> auth option"
  keyed_hash :: "string \<Rightarrow> string \<Rightarrow> string"

text \<open>
  \<open>HEXLOWER\<close> and \<open>BASE64URL_NOPAD\<close> are bijections between byte strings and the canonical
  texts they accept; \<open>serde_json\<close> reads back what it wrote; \<open>blake3\<close> returns 32 bytes.
\<close>

definition ext_ok :: "ext \<Rightarrow> bool" where
  "ext_ok x \<longleftrightarrow>
     (\<forall>b t. hex_decode x t = Some b \<longleftrightarrow> t = hex_encode x b) \<and>
     (\<forall>b t. b64_decode x t = Some b \<longleftrightarrow> t = b64_encode x b) \<and>
     (\<forall>a. \<exists>t. json_encode x a = Some t \<and> json_decode x t = Some a) \<and>
     (\<forall>k m. length (keyed_hash x k m) = 32)"

section \<open>The MAC\<close>

text \<open>\<open>to_le_bytes\<close>: the \<open>n\<close> low bytes, least significant first.\<close>

definition le_bytes :: "nat \<Rightarrow> nat \<Rightarrow> string" where
  "le_bytes n v = map (\<lambda>i. char_of (v div 256 ^ i)) [0..<n]"

definition le64 :: "u64 \<Rightarrow> string" where
  "le64 w = le_bytes 8 (unat w)"

definition le16 :: "u16 \<Rightarrow> string" where
  "le16 w = le_bytes 2 (unat w)"

definition AUTH_CONTEXT :: string where
  "AUTH_CONTEXT = ''vnidrop-targeted-auth-v1''"

definition framed :: "string \<Rightarrow> string" where
  "framed f = le64 (word_of_nat (length f)) @ f"

definition mac_fields :: "auth \<Rightarrow> string list" where
  "mac_fields a =
     [au_transfer_id a, au_sender_endpoint_id a, au_receiver_endpoint_id a, au_manifest_id a,
      au_content_hash a, au_transfer_name a, au_blob_ticket a]"

definition mac_message :: "auth \<Rightarrow> string" where
  "mac_message a =
     AUTH_CONTEXT @ concat (map framed (mac_fields a))
     @ le64 (au_protocol_transfer_id a) @ le64 (au_file_count a) @ le64 (au_total_size a)
     @ le16 (au_protocol_version a)"

definition secret_bytes :: "ext \<Rightarrow> auth \<Rightarrow> vnidrop_error + string" where
  "secret_bytes x a = (case hex_decode x (au_auth_secret a) of
      None \<Rightarrow> Inl (InvalidInput ''invalid authorization secret'')
    | Some key \<Rightarrow> if length key = 32 then Inr key
                  else Inl (InvalidInput ''invalid authorization secret length''))"

definition compute_mac :: "ext \<Rightarrow> auth \<Rightarrow> vnidrop_error + string" where
  "compute_mac x a = (case secret_bytes x a of
      Inl e \<Rightarrow> Inl e
    | Inr key \<Rightarrow> Inr (keyed_hash x key (mac_message a)))"

definition verify_integrity :: "ext \<Rightarrow> auth \<Rightarrow> vnidrop_error + unit" where
  "verify_integrity x a = (case compute_mac x a of
      Inl e \<Rightarrow> Inl e
    | Inr expected \<Rightarrow> (case hex_decode x (au_mac a) of
        None \<Rightarrow> Inl (InvalidInput ''invalid authorization mac'')
      | Some presented \<Rightarrow> if presented \<noteq> expected
          then Inl (Permission ''targeted authorization mac mismatch'') else Inr ()))"

definition verify_for_receiver :: "ext \<Rightarrow> auth \<Rightarrow> string \<Rightarrow> vnidrop_error + unit" where
  "verify_for_receiver x a local_endpoint_id = (case verify_integrity x a of
      Inl e \<Rightarrow> Inl e
    | Inr _ \<Rightarrow> if au_receiver_endpoint_id a \<noteq> local_endpoint_id
        then Inl (Permission ''targeted authorization is bound to a different receiver'')
        else Inr ())"

section \<open>Issue, rebuild, encode, decode\<close>

definition with_draft :: "auth_draft \<Rightarrow> string \<Rightarrow> auth" where
  "with_draft d secret = \<lparr>
     au_transfer_id = ad_transfer_id d, au_protocol_transfer_id = ad_protocol_transfer_id d,
     au_sender_endpoint_id = ad_sender_endpoint_id d,
     au_receiver_endpoint_id = ad_receiver_endpoint_id d,
     au_manifest_id = ad_manifest_id d, au_content_hash = ad_content_hash d,
     au_file_count = ad_file_count d, au_total_size = ad_total_size d,
     au_protocol_version = ad_protocol_version d, au_transfer_name = ad_transfer_name d,
     au_blob_ticket = ad_blob_ticket d, au_auth_secret = secret, au_mac = ''''\<rparr>"

definition seal :: "ext \<Rightarrow> auth \<Rightarrow> vnidrop_error + auth" where
  "seal x a = (case compute_mac x a of
      Inl e \<Rightarrow> Inl e
    | Inr m \<Rightarrow> Inr (a\<lparr>au_mac := hex_encode x m\<rparr>))"

text \<open>\<open>issue\<close> draws the secret from the OS; \<open>random\<close> is the 32 bytes it drew.\<close>

definition issue :: "ext \<Rightarrow> string \<Rightarrow> auth_draft \<Rightarrow> vnidrop_error + auth" where
  "issue x random d = seal x (with_draft d (hex_encode x random))"

definition reconstruct_authorization :: "ext \<Rightarrow> auth_draft \<Rightarrow> string \<Rightarrow> vnidrop_error + auth" where
  "reconstruct_authorization x d material = seal x (with_draft d (hex_encode x material))"

definition AUTH_PREFIX :: string where
  "AUTH_PREFIX = ''vndta1:''"

definition encode :: "ext \<Rightarrow> auth \<Rightarrow> vnidrop_error + string" where
  "encode x a = (case json_encode x a of
      None \<Rightarrow> Inl (Internal ''serialization failed'')
    | Some bytes \<Rightarrow> Inr (AUTH_PREFIX @ b64_encode x bytes))"

definition strip_prefix :: "string \<Rightarrow> string \<Rightarrow> string option" where
  "strip_prefix p v = (if take (length p) v = p then Some (drop (length p) v) else None)"

definition decode :: "ext \<Rightarrow> string \<Rightarrow> vnidrop_error + auth" where
  "decode x v = (case strip_prefix AUTH_PREFIX v of
      None \<Rightarrow> Inl (InvalidInput ''not a targeted authorization'')
    | Some encoded \<Rightarrow> (case b64_decode x encoded of
        None \<Rightarrow> Inl (InvalidInput ''invalid targeted authorization encoding'')
      | Some bytes \<Rightarrow> (case json_decode x bytes of
          None \<Rightarrow> Inl (InvalidInput ''invalid targeted authorization payload'')
        | Some a \<Rightarrow> (case verify_integrity x a of Inl e \<Rightarrow> Inl e | Inr _ \<Rightarrow> Inr a))))"

lemmas auth_defs = secret_bytes_def compute_mac_def verify_integrity_def

section \<open>The framing is injective\<close>

lemma length_le_bytes [simp]: "length (le_bytes n v) = n"
  by (simp add: le_bytes_def)

lemma length_le64 [simp]: "length (le64 w) = 8" and length_le16 [simp]: "length (le16 w') = 2"
  by (simp_all add: le64_def le16_def)

lemma le_bytes_inj:
  assumes "le_bytes n v = le_bytes n w" and "v < 256 ^ n" and "w < 256 ^ n"
  shows "v = w"
  using assms
proof (induction n arbitrary: v w)
  case 0
  then show ?case by simp
next
  case (Suc n)
  have split: "le_bytes (Suc n) u = char_of u # le_bytes n (u div 256)" for u
    by (simp add: le_bytes_def upt_conv_Cons map_Suc_upt [symmetric] div_mult2_eq comp_def
        del: upt_Suc map_Suc_upt)
  from Suc.prems(1) have "of_char (char_of v :: char) = (of_char (char_of w :: char) :: nat)"
    and tl: "le_bytes n (v div 256) = le_bytes n (w div 256)"
    by (simp_all add: split)
  then have mod: "v mod 256 = w mod 256" by simp
  have "v div 256 = w div 256"
    using Suc.prems(2,3) by (intro Suc.IH [OF tl]) (simp_all add: less_mult_imp_div_less mult.commute)
  with mod show ?case by (metis div_mult_mod_eq)
qed

lemma le64_inj [simp]: "le64 v = le64 w \<longleftrightarrow> v = w"
proof
  assume "le64 v = le64 w"
  then have "unat v = unat w"
    using unsigned_less [of v, where 'a = nat] unsigned_less [of w, where 'a = nat]
    by (intro le_bytes_inj [of 8]) (simp_all add: le64_def)
  then show "v = w" by (simp add: word_unat_eq_iff)
qed simp

lemma le16_inj [simp]: "le16 v = le16 w \<longleftrightarrow> v = w"
proof
  assume "le16 v = le16 w"
  then have "unat v = unat w"
    using unsigned_less [of v, where 'a = nat] unsigned_less [of w, where 'a = nat]
    by (intro le_bytes_inj [of 2]) (simp_all add: le16_def)
  then show "v = w" by (simp add: word_unat_eq_iff)
qed simp

lemma framed_prefix_inj:
  assumes "framed f @ s = framed g @ t" and "length f < 2 ^ 64" and "length g < 2 ^ 64"
  shows "f = g \<and> s = t"
proof -
  have "le64 (word_of_nat (length f)) = le64 (word_of_nat (length g))"
    and rest: "f @ s = g @ t"
    using assms(1) by (simp_all add: framed_def append_eq_append_conv)
  then have "(word_of_nat (length f) :: u64) = word_of_nat (length g)" by simp
  then have "unat (word_of_nat (length f) :: u64) = unat (word_of_nat (length g) :: u64)" by simp
  with assms(2,3) have "length f = length g" by (simp add: unat_of_nat)
  with rest show ?thesis by simp
qed

lemma concat_framed_inj:
  assumes "concat (map framed fs) @ s = concat (map framed gs) @ t"
    and "length fs = length gs"
    and "\<forall>f \<in> set fs. length f < 2 ^ 64" and "\<forall>g \<in> set gs. length g < 2 ^ 64"
  shows "fs = gs \<and> s = t"
  using assms(2,1,3,4)
proof (induction fs gs rule: list_induct2)
  case Nil
  then show ?case by simp
next
  case (Cons f fs g gs)
  from Cons.prems have "framed f @ (concat (map framed fs) @ s) = framed g @ (concat (map framed gs) @ t)"
    by simp
  from framed_prefix_inj [OF this] Cons.prems
  have "f = g" and "concat (map framed fs) @ s = concat (map framed gs) @ t" by simp_all
  with Cons show ?case by simp
qed

text \<open>The fields bound by the MAC: everything but the secret and the MAC itself.\<close>

definition same_bound :: "auth \<Rightarrow> auth \<Rightarrow> bool" where
  "same_bound a b \<longleftrightarrow> a\<lparr>au_auth_secret := [], au_mac := []\<rparr> = b\<lparr>au_auth_secret := [], au_mac := []\<rparr>"

definition in_memory :: "auth \<Rightarrow> bool" where
  "in_memory a \<longleftrightarrow> (\<forall>f \<in> set (mac_fields a). length f < 2 ^ 64)"

lemma same_bound_iff:
  "same_bound a b \<longleftrightarrow>
     mac_fields a = mac_fields b \<and> au_protocol_transfer_id a = au_protocol_transfer_id b \<and>
     au_file_count a = au_file_count b \<and> au_total_size a = au_total_size b \<and>
     au_protocol_version a = au_protocol_version b"
  by (cases a; cases b) (auto simp: same_bound_def mac_fields_def)

lemma mac_message_inj:
  assumes "mac_message a = mac_message b" and "in_memory a" and "in_memory b"
  shows "same_bound a b"
proof -
  let ?tail = "\<lambda>a. le64 (au_protocol_transfer_id a) @ le64 (au_file_count a)
    @ le64 (au_total_size a) @ le16 (au_protocol_version a)"
  have "concat (map framed (mac_fields a)) @ ?tail a = concat (map framed (mac_fields b)) @ ?tail b"
    using assms(1) by (simp add: mac_message_def)
  then have "mac_fields a = mac_fields b \<and> ?tail a = ?tail b"
    using assms(2,3) by (intro concat_framed_inj) (simp_all add: in_memory_def mac_fields_def)
  then show ?thesis by (simp add: same_bound_iff)
qed

lemma mac_message_cong: "same_bound a b \<Longrightarrow> mac_message a = mac_message b"
  by (simp add: same_bound_iff mac_message_def)

lemma mac_message_secret [simp]:
  "mac_message (a\<lparr>au_auth_secret := s\<rparr>) = mac_message a"
  "mac_message (a\<lparr>au_mac := m\<rparr>) = mac_message a"
  by (simp_all add: mac_message_def mac_fields_def)

section \<open>Issued capabilities verify; codecs invert\<close>

lemma compute_mac_mac [simp]: "compute_mac x (a\<lparr>au_mac := m\<rparr>) = compute_mac x a"
  by (simp add: compute_mac_def secret_bytes_def split: option.splits)

lemma hex_decode_encode [simp]: "ext_ok x \<Longrightarrow> hex_decode x (hex_encode x b) = Some b"
  by (simp add: ext_ok_def)

lemma hex_decodeD: "ext_ok x \<Longrightarrow> hex_decode x t = Some b \<Longrightarrow> t = hex_encode x b"
  by (simp add: ext_ok_def)

lemma seal_verifies: "ext_ok x \<Longrightarrow> seal x a = Inr b \<Longrightarrow> verify_integrity x b = Inr ()"
  by (auto simp: seal_def verify_integrity_def split: sum.splits)

lemma seal_total:
  assumes "ext_ok x" and "length key = 32"
  shows "seal x (with_draft d (hex_encode x key)) =
     Inr ((with_draft d (hex_encode x key))
       \<lparr>au_mac := hex_encode x (keyed_hash x key (mac_message (with_draft d (hex_encode x key))))\<rparr>)"
  using assms by (simp add: seal_def compute_mac_def secret_bytes_def with_draft_def)

lemma verified_is_sealed:
  assumes "ext_ok x" and "verify_integrity x a = Inr ()"
  shows "seal x a = Inr a"
  using assms
  by (auto simp: seal_def verify_integrity_def dest: hex_decodeD split: sum.splits option.splits if_splits)

lemma strip_prefix_append [simp]: "strip_prefix p (p @ v) = Some v"
  by (simp add: strip_prefix_def)

lemma strip_prefixD: "strip_prefix p v = Some w \<Longrightarrow> v = p @ w"
  by (metis append_take_drop_id option.distinct(1) option.inject strip_prefix_def)

lemma encode_total: "ext_ok x \<Longrightarrow> \<exists>v. encode x a = Inr v"
  by (auto simp: ext_ok_def encode_def split: option.splits)

lemma decode_encode:
  assumes "ext_ok x" and "encode x a = Inr v"
  shows "decode x v = (case verify_integrity x a of Inl e \<Rightarrow> Inl e | Inr _ \<Rightarrow> Inr a)"
proof -
  from assms(1) obtain t where "json_encode x a = Some t" and "json_decode x t = Some a"
    unfolding ext_ok_def by blast
  moreover have "b64_decode x (b64_encode x t) = Some t" using assms(1) by (simp add: ext_ok_def)
  ultimately show ?thesis using assms(2) by (auto simp: encode_def decode_def)
qed

lemma decode_verifies: "decode x v = Inr a \<Longrightarrow> verify_integrity x a = Inr ()"
  by (auto simp: decode_def split: option.splits sum.splits)

lemma encode_inj:
  assumes "ext_ok x" and "encode x a = Inr v" and "encode x b = Inr v"
  shows "a = b"
proof -
  obtain s where s: "json_encode x a = Some s" "json_decode x s = Some a"
    using assms(1) unfolding ext_ok_def by blast
  obtain t where t: "json_encode x b = Some t" "json_decode x t = Some b"
    using assms(1) unfolding ext_ok_def by blast
  have "b64_encode x s = b64_encode x t" using assms(2,3) s t by (auto simp: encode_def)
  then have "s = t" using assms(1) unfolding ext_ok_def by (metis option.inject)
  with s t show ?thesis by simp
qed

lemma issuedD:
  assumes "ext_ok x" and "length key = 32" and "issue x key d = Inr a"
  shows "verify_integrity x a = Inr () \<and> same_bound a (with_draft d []) \<and> secret_bytes x a = Inr key"
proof -
  have a: "a = (with_draft d (hex_encode x key))
      \<lparr>au_mac := hex_encode x (keyed_hash x key (mac_message (with_draft d (hex_encode x key))))\<rparr>"
    using seal_total [OF assms(1,2), of d] assms(3) by (simp add: issue_def)
  have "verify_integrity x a = Inr ()"
    using assms(3) unfolding issue_def by (rule seal_verifies [OF assms(1)])
  moreover have "same_bound a (with_draft d [])" by (simp add: a same_bound_def with_draft_def)
  moreover have "secret_bytes x a = Inr key"
    using assms(1,2) by (simp add: a secret_bytes_def with_draft_def)
  ultimately show ?thesis by blast
qed

lemma reconstruct_verified:
  assumes "ext_ok x" and "verify_integrity x a = Inr ()" and "secret_bytes x a = Inr material"
    and "same_bound a (with_draft d [])"
  shows "reconstruct_authorization x d material = Inr a"
proof -
  have s: "au_auth_secret a = hex_encode x material"
    using assms(1,3) by (auto simp: secret_bytes_def dest: hex_decodeD split: option.splits if_splits)
  have "with_draft d (hex_encode x material) = a\<lparr>au_mac := []\<rparr>"
    using assms(4) s by (cases a) (simp add: same_bound_def with_draft_def)
  moreover have "seal x (a\<lparr>au_mac := []\<rparr>) = seal x a"
    by (simp add: seal_def split: sum.split)
  ultimately show ?thesis
    using verified_is_sealed [OF assms(1,2)] by (simp add: reconstruct_authorization_def)
qed

section \<open>Reference codecs\<close>

text \<open>Concrete third-party functions that satisfy \<open>ext_ok\<close>; they are no part of the program.\<close>

text \<open>
  A field is written as its length in unary, a mark and its characters; numbers are fields of
  that length. The hexadecimal and base64 codecs are the identity, the hash is the key and the
  message cut to 32 characters.
\<close>

definition unary_field :: "string \<Rightarrow> string" where
  "unary_field f = replicate (length f) (CHR 0x01) @ CHR 0x02 # f"

definition read_field :: "string \<Rightarrow> string \<times> string" where
  "read_field s = (let n = length (takeWhile (\<lambda>c. c = CHR 0x01) s); rest = drop (Suc n) s in
     (take n rest, drop n rest))"

lemma read_unary_field [simp]: "read_field (unary_field f @ s) = (f, s)"
proof -
  have "takeWhile (\<lambda>c. c = CHR 0x01) (replicate n (CHR 0x01) @ CHR 0x02 # t) = replicate n (CHR 0x01)"
    for n and t :: string by (induction n) auto
  moreover have "drop (Suc n) (replicate n (CHR 0x01) @ CHR 0x02 # t) = t" for n and t :: string
    by (induction n) auto
  ultimately show ?thesis by (simp add: read_field_def unary_field_def Let_def)
qed

fun read_fields :: "nat \<Rightarrow> string \<Rightarrow> string list" where
  "read_fields 0 s = []"
| "read_fields (Suc n) s = (case read_field s of (f, rest) \<Rightarrow> f # read_fields n rest)"

lemma read_all_fields [simp]: "read_fields (length fs) (concat (map unary_field fs) @ s) = fs"
  by (induction fs) auto

definition number_field :: "'a :: len word \<Rightarrow> string" where
  "number_field w = replicate (unat w) (CHR 0x03)"

lemma length_number_field [simp]: "word_of_nat (length (number_field w)) = w"
  by (simp add: number_field_def)

definition auth_fields :: "auth \<Rightarrow> string list" where
  "auth_fields a =
     [au_transfer_id a, number_field (au_protocol_transfer_id a), au_sender_endpoint_id a,
      au_receiver_endpoint_id a, au_manifest_id a, au_content_hash a,
      number_field (au_file_count a), number_field (au_total_size a),
      number_field (au_protocol_version a), au_transfer_name a, au_blob_ticket a,
      au_auth_secret a, au_mac a]"

definition auth_of_fields :: "string list \<Rightarrow> auth option" where
  "auth_of_fields fs = (case fs of
      [tid, pid, sender, receiver, manifest, content, count, bytes, version, name, blob, secret, mac] \<Rightarrow>
        Some \<lparr>au_transfer_id = tid, au_protocol_transfer_id = word_of_nat (length pid),
          au_sender_endpoint_id = sender, au_receiver_endpoint_id = receiver,
          au_manifest_id = manifest, au_content_hash = content,
          au_file_count = word_of_nat (length count), au_total_size = word_of_nat (length bytes),
          au_protocol_version = word_of_nat (length version), au_transfer_name = name,
          au_blob_ticket = blob, au_auth_secret = secret, au_mac = mac\<rparr>
    | _ \<Rightarrow> None)"

definition ref_ext :: ext where
  "ref_ext = \<lparr>
     hex_encode = (\<lambda>b. b), hex_decode = Some, b64_encode = (\<lambda>b. b), b64_decode = Some,
     json_encode = (\<lambda>a. Some (concat (map unary_field (auth_fields a)))),
     json_decode = (\<lambda>s. auth_of_fields (read_fields 13 s)),
     keyed_hash = (\<lambda>k m. take 32 (k @ m @ replicate 32 (CHR 0x00)))\<rparr>"

lemma ref_ext_ok: "ext_ok ref_ext"
proof -
  have "auth_of_fields (read_fields 13 (concat (map unary_field (auth_fields a)))) = Some a" for a
  proof -
    have len: "length (auth_fields a) = 13" by (simp add: auth_fields_def)
    have "read_fields 13 (concat (map unary_field (auth_fields a))) = auth_fields a"
      using read_all_fields [of "auth_fields a" "[]", unfolded len] by simp
    then show ?thesis by (cases a) (simp add: auth_fields_def auth_of_fields_def)
  qed
  then show ?thesis by (auto simp: ext_ok_def ref_ext_def)
qed

definition ref_secret :: string where
  "ref_secret = replicate 32 (CHR ''k'')"

definition ref_draft :: auth_draft where
  "ref_draft = \<lparr>
     ad_transfer_id = ''t1'', ad_protocol_transfer_id = 7, ad_sender_endpoint_id = ''alice'',
     ad_receiver_endpoint_id = ''bob'', ad_manifest_id = ''hash'', ad_content_hash = ''hash'',
     ad_file_count = 1, ad_total_size = 5, ad_protocol_version = 3, ad_transfer_name = ''report'',
     ad_blob_ticket = ''blob''\<rparr>"

definition ref_auth :: auth where
  "ref_auth = (case issue ref_ext ref_secret ref_draft of Inr a \<Rightarrow> a | Inl _ \<Rightarrow> with_draft ref_draft [])"

lemma ref_issue: "issue ref_ext ref_secret ref_draft = Inr ref_auth"
  using seal_total [OF ref_ext_ok, of ref_secret ref_draft]
  by (simp add: issue_def ref_auth_def ref_secret_def ref_ext_def)

section \<open>Properties\<close>

text \<open>
  C10: an authorization issued from any draft with any 32 random bytes is accepted by its own
  codec: it encodes, and decoding the text gives back exactly the issued capability, whose MAC
  verifies and whose fields are the draft's.
\<close>

theorem issued_authorization_roundtrip:
  assumes "ext_ok x" and "length key = 32"
  shows "\<exists>a v. issue x key d = Inr a \<and> encode x a = Inr v \<and> decode x v = Inr a \<and>
    verify_integrity x a = Inr () \<and> same_bound a (with_draft d []) \<and> secret_bytes x a = Inr key"
proof -
  obtain a where a: "issue x key d = Inr a" using seal_total [OF assms] by (simp add: issue_def)
  obtain v where e: "encode x a = Inr v" using encode_total [OF assms(1)] by blast
  note d = issuedD [OF assms a]
  have "decode x v = Inr a" using decode_encode [OF assms(1) e] d by simp
  with a e d show ?thesis by blast
qed

theorem issued_authorization_roundtrip_witness:
  "\<exists>a v. issue ref_ext ref_secret ref_draft = Inr a \<and> encode ref_ext a = Inr v \<and>
     decode ref_ext v = Inr a \<and> verify_integrity ref_ext a = Inr () \<and>
     same_bound a (with_draft ref_draft []) \<and> secret_bytes ref_ext a = Inr ref_secret"
  by (rule issued_authorization_roundtrip [OF ref_ext_ok]) (simp add: ref_secret_def)

text \<open>
  C38: tampering with any bound field of a capability changes the bytes that are fed to the
  keyed hash: two capabilities with the same MAC input agree in every field but the secret and
  the MAC, whatever characters the fields hold.
\<close>

theorem mac_input_determines_capability:
  assumes "mac_message a = mac_message b" and "in_memory a" and "in_memory b"
  shows "au_transfer_id a = au_transfer_id b \<and> au_protocol_transfer_id a = au_protocol_transfer_id b \<and>
    au_sender_endpoint_id a = au_sender_endpoint_id b \<and>
    au_receiver_endpoint_id a = au_receiver_endpoint_id b \<and>
    au_manifest_id a = au_manifest_id b \<and> au_content_hash a = au_content_hash b \<and>
    au_file_count a = au_file_count b \<and> au_total_size a = au_total_size b \<and>
    au_protocol_version a = au_protocol_version b \<and> au_transfer_name a = au_transfer_name b \<and>
    au_blob_ticket a = au_blob_ticket b"
  using mac_message_inj [OF assms] by (simp add: same_bound_iff mac_fields_def)

theorem mac_input_determines_capability_witness:
  "in_memory ref_auth \<and> mac_message ref_auth = mac_message (ref_auth\<lparr>au_mac := ''x''\<rparr>) \<and>
   au_total_size ref_auth = au_total_size (ref_auth\<lparr>au_mac := ''x''\<rparr>)"
proof -
  let ?b = "ref_auth\<lparr>au_mac := ''x''\<rparr>"
  have "mac_fields ref_auth = mac_fields (with_draft ref_draft [])"
    using issuedD [OF ref_ext_ok _ ref_issue] by (simp add: ref_secret_def same_bound_iff)
  then have m: "in_memory ref_auth"
    by (simp add: in_memory_def) (simp add: mac_fields_def with_draft_def ref_draft_def)
  then have "in_memory ?b" by (simp add: in_memory_def mac_fields_def)
  with mac_input_determines_capability [of ref_auth ?b] m show ?thesis by simp
qed

text \<open>
  what a device stores is enough: from the row's public columns and the 32 secret bytes
  kept in custody, \<open>reconstruct_authorization\<close> gives back the very capability that was
  verified, bit for bit.
\<close>

theorem reconstruct_gives_back:
  assumes "ext_ok x" and "verify_integrity x a = Inr ()" and "secret_bytes x a = Inr material"
    and "same_bound a (with_draft d [])"
  shows "reconstruct_authorization x d material = Inr a"
  by (rule reconstruct_verified [OF assms])

theorem reconstruct_gives_back_witness:
  "reconstruct_authorization ref_ext ref_draft ref_secret = Inr ref_auth"
  using issuedD [OF ref_ext_ok _ ref_issue]
  by (intro reconstruct_gives_back [OF ref_ext_ok]) (simp_all add: ref_secret_def)

end
