(* ===== verification/Targeted_Store.thy ===== *)
theory Targeted_Store
  imports Targeted_Auth "HOL-Library.Product_Lexorder" "HOL-Library.List_Lexorder"
    "HOL-Library.Char_ord"
begin

text \<open>
  The durable targeted-transfer store: its tables (\<^verbatim>\<open>targeted_transfer/schema.rs\<close>), its queries
  (\<^verbatim>\<open>targeted_transfer/store.rs\<close>) and its outboxes and terminal transactions
  (\<^verbatim>\<open>targeted_transfer/store_outbox.rs\<close>), one definition per method in the files' order.

  The database is a record of tables. The pool has a single connection, so a query or a
  transaction is atomic: \<open>transact\<close> runs its body on the tables and, when the body ends in an
  error, leaves them as they were (rollback). Whether the database itself fails is not under
  the program's control: \<open>db_faults\<close> is the schedule of outcomes of the coming calls
  (\<open>Some reason\<close> is a failing call), consumed one per call, and every lemma of the library
  holds for every schedule. \<open>now\<close> is the clock read by the call. \<open>u64\<close> columns are stored
  bit for bit in SQLite's signed integers, so SQL comparisons read them with \<open>sint\<close>.
\<close>

section \<open>Tables\<close>

record row =
  tr_id :: string
  tr_protocol_transfer_id :: u64
  tr_sender_endpoint_id :: string
  tr_receiver_endpoint_id :: string
  tr_manifest_id :: string
  tr_content_hash :: string
  tr_transfer_name :: string
  tr_file_count :: u64
  tr_total_size :: u64
  tr_verified_bytes :: u64
  tr_blob_ticket :: "string option"
  tr_secret_handle :: "string option"
  tr_role :: TargetedTransferRole
  tr_state :: TargetedTransferState
  tr_created_at :: int
  tr_updated_at :: int

record intent =
  in_transfer_id :: string
  in_sender_endpoint_id :: string
  in_receiver_endpoint_id :: string
  in_manifest_id :: string
  in_content_hash :: string
  in_transfer_name :: string
  in_file_count :: u64
  in_total_size :: u64
  in_protocol_version :: u16
  in_accepted_at :: int

record offer =
  po_transfer_id :: string
  po_sender_endpoint_id :: string
  po_receiver_endpoint_id :: string
  po_manifest_id :: string
  po_content_hash :: string
  po_transfer_name :: string
  po_file_count :: u64
  po_total_size :: u64
  po_protocol_version :: u16
  po_received_at :: int

record outbox =
  ob_transfer_id :: string
  ob_created_at :: int
  ob_next_attempt_at :: int

record release =
  rl_transfer_id :: string
  rl_created_at :: int

record targeted_transfer =
  tt_id :: string
  tt_role :: TargetedTransferRole
  tt_sender_endpoint_id :: string
  tt_receiver_endpoint_id :: string
  tt_manifest_id :: string
  tt_transfer_name :: string
  tt_file_count :: u64
  tt_total_size :: u64
  tt_verified_bytes :: u64
  tt_state :: TargetedTransferState
  tt_created_at :: int
  tt_updated_at :: int

record db =
  targeted_transfers :: "row list"
  accepted_offer_intents :: "intent list"
  authorization_delivery_outbox :: "outbox list"
  completion_outbox :: "outbox list"
  payload_release_outbox :: "release list"
  schema_migrations :: "string list"
  db_faults :: "string option list"

section \<open>Calls to the database\<close>

definition transact :: "('z db_scheme \<Rightarrow> (vnidrop_error + 'a) \<times> 'z db_scheme) \<Rightarrow> ('z db_scheme, 'a) proc" where
  "transact f s = (let s0 = s\<lparr>db_faults := tl (db_faults s)\<rparr> in
     case db_faults s of
       Some reason # _ \<Rightarrow> (Inl (Repository reason), s0)
     | _ \<Rightarrow> (case f s0 of (Inl e, _) \<Rightarrow> (Inl e, s0) | (Inr x, s1) \<Rightarrow> (Inr x, s1)))"

definition select :: "('z db_scheme \<Rightarrow> 'a) \<Rightarrow> ('z db_scheme, 'a) proc" where
  "select f = transact (\<lambda>s. (Inr (f s), s))"

definition exec :: "('z db_scheme \<Rightarrow> 'z db_scheme) \<Rightarrow> ('z db_scheme, unit) proc" where
  "exec f = transact (\<lambda>s. (Inr (), f s))"

abbreviation on_transfers :: "(row list \<Rightarrow> row list) \<Rightarrow> 'z db_scheme \<Rightarrow> 'z db_scheme" where
  "on_transfers f s \<equiv> s\<lparr>targeted_transfers := f (targeted_transfers s)\<rparr>"

abbreviation on_intents :: "(intent list \<Rightarrow> intent list) \<Rightarrow> 'z db_scheme \<Rightarrow> 'z db_scheme" where
  "on_intents f s \<equiv> s\<lparr>accepted_offer_intents := f (accepted_offer_intents s)\<rparr>"

abbreviation on_deliveries :: "(outbox list \<Rightarrow> outbox list) \<Rightarrow> 'z db_scheme \<Rightarrow> 'z db_scheme" where
  "on_deliveries f s \<equiv> s\<lparr>authorization_delivery_outbox := f (authorization_delivery_outbox s)\<rparr>"

abbreviation on_completions :: "(outbox list \<Rightarrow> outbox list) \<Rightarrow> 'z db_scheme \<Rightarrow> 'z db_scheme" where
  "on_completions f s \<equiv> s\<lparr>completion_outbox := f (completion_outbox s)\<rparr>"

abbreviation on_releases :: "(release list \<Rightarrow> release list) \<Rightarrow> 'z db_scheme \<Rightarrow> 'z db_scheme" where
  "on_releases f s \<equiv> s\<lparr>payload_release_outbox := f (payload_release_outbox s)\<rparr>"

text \<open>\<open>UPDATE targeted_transfers SET u WHERE P\<close>, reporting the rows affected.\<close>

definition sql_update :: "(row \<Rightarrow> bool) \<Rightarrow> (row \<Rightarrow> row) \<Rightarrow> ('z db_scheme, nat) proc" where
  "sql_update P u = transact (\<lambda>s.
     (Inr (affected P (targeted_transfers s)), on_transfers (update_where P u) s))"

text \<open>The primary key and the \<open>UNIQUE\<close> column of \<open>targeted_transfers\<close>.\<close>

definition row_conflicts :: "row \<Rightarrow> row list \<Rightarrow> bool" where
  "row_conflicts r rows \<longleftrightarrow> exists_where
     (\<lambda>q. tr_id q = tr_id r \<or> tr_protocol_transfer_id q = tr_protocol_transfer_id r) rows"

definition unique_violation :: vnidrop_error where
  "unique_violation = Repository ''UNIQUE constraint failed''"

text \<open>\<open>DELETE FROM targeted_transfers\<close> with \<open>ON DELETE CASCADE\<close> on the three outboxes.\<close>

definition cascade_delete :: "(row \<Rightarrow> bool) \<Rightarrow> 'z db_scheme \<Rightarrow> 'z db_scheme" where
  "cascade_delete P s = (let gone = map tr_id (filter P (targeted_transfers s)) in
     on_releases (delete_where (\<lambda>ob. List.member gone (rl_transfer_id ob)))
      (on_completions (delete_where (\<lambda>ob. List.member gone (ob_transfer_id ob)))
       (on_deliveries (delete_where (\<lambda>ob. List.member gone (ob_transfer_id ob)))
        (on_transfers (delete_where P) s))))"

definition insert_or_ignore :: "('r \<Rightarrow> string) \<Rightarrow> 'r \<Rightarrow> 'r list \<Rightarrow> 'r list" where
  "insert_or_ignore key r rows = (if exists_where (\<lambda>q. key q = key r) rows then rows else rows @ [r])"

definition insert_or_replace :: "('r \<Rightarrow> string) \<Rightarrow> 'r \<Rightarrow> 'r list \<Rightarrow> 'r list" where
  "insert_or_replace key r rows = delete_where (\<lambda>q. key q = key r) rows @ [r]"

definition delivery_for :: "string \<Rightarrow> outbox \<Rightarrow> bool" where
  "delivery_for tid ob = (ob_transfer_id ob = tid)"

definition release_for :: "string \<Rightarrow> release \<Rightarrow> bool" where
  "release_for tid ob = (rl_transfer_id ob = tid)"

section \<open>Schema migration\<close>

definition DELIVERY_MIGRATION :: string where
  "DELIVERY_MIGRATION = ''authorization-delivery-outbox-v1''"

definition backfill_deliveries :: "row list \<Rightarrow> outbox list \<Rightarrow> outbox list" where
  "backfill_deliveries rows = fold
     (\<lambda>r. insert_or_ignore ob_transfer_id
            \<lparr>ob_transfer_id = tr_id r, ob_created_at = tr_updated_at r, ob_next_attempt_at = 0\<rparr>)
     (filter (\<lambda>r. tr_role r = Sender \<and> tr_state r = Approved \<and>
                  tr_blob_ticket r \<noteq> None \<and> tr_secret_handle r \<noteq> None) rows)"

definition migrate_delivery_outbox :: "('z db_scheme, unit) proc" where
  "migrate_delivery_outbox = exec (\<lambda>s.
     if List.member (schema_migrations s) DELIVERY_MIGRATION then s
     else (on_deliveries (backfill_deliveries (targeted_transfers s)) s)
            \<lparr>schema_migrations := schema_migrations s @ [DELIVERY_MIGRATION]\<rparr>)"

section \<open>store.rs\<close>

definition intent_of_offer :: "int \<Rightarrow> offer \<Rightarrow> intent" where
  "intent_of_offer now ofr = \<lparr>
     in_transfer_id = po_transfer_id ofr, in_sender_endpoint_id = po_sender_endpoint_id ofr,
     in_receiver_endpoint_id = po_receiver_endpoint_id ofr, in_manifest_id = po_manifest_id ofr,
     in_content_hash = po_content_hash ofr, in_transfer_name = po_transfer_name ofr,
     in_file_count = po_file_count ofr, in_total_size = po_total_size ofr,
     in_protocol_version = po_protocol_version ofr, in_accepted_at = now\<rparr>"

definition intents_agree :: "intent \<Rightarrow> intent \<Rightarrow> bool" where
  "intents_agree i j \<longleftrightarrow>
     in_sender_endpoint_id i = in_sender_endpoint_id j \<and>
     in_receiver_endpoint_id i = in_receiver_endpoint_id j \<and>
     in_manifest_id i = in_manifest_id j \<and> in_content_hash i = in_content_hash j \<and>
     in_transfer_name i = in_transfer_name j \<and> in_file_count i = in_file_count j \<and>
     in_total_size i = in_total_size j \<and> in_protocol_version i = in_protocol_version j"

definition persist_accepted_offer_intent :: "int \<Rightarrow> offer \<Rightarrow> ('z db_scheme, unit) proc" where
  "persist_accepted_offer_intent now ofr = transact (\<lambda>s.
     let i = intent_of_offer now ofr; rows = accepted_offer_intents s in
     case find_by in_transfer_id (in_transfer_id i) rows of
       None \<Rightarrow> (Inr (), s\<lparr>accepted_offer_intents := rows @ [i]\<rparr>)
     | Some j \<Rightarrow>
         if intents_agree j i
         then (Inr (), on_intents (update_where (\<lambda>q. in_transfer_id q = in_transfer_id i)
                                     (\<lambda>q. q\<lparr>in_accepted_at := now\<rparr>)) s)
         else (Inl (InvalidInput ''accepted targeted offer conflicts with durable consent''), s))"

definition clear_accepted_offer_intent :: "string \<Rightarrow> ('z db_scheme, unit) proc" where
  "clear_accepted_offer_intent tid = exec (on_intents (delete_where (\<lambda>i. in_transfer_id i = tid)))"

definition clear_accepted_intent_if_sender :: "string \<Rightarrow> string \<Rightarrow> ('z db_scheme, unit) proc" where
  "clear_accepted_intent_if_sender tid sender = exec (on_intents
     (delete_where (\<lambda>i. in_transfer_id i = tid \<and> in_sender_endpoint_id i = sender)))"

definition list_accepted_intent_senders :: "('z db_scheme, (string \<times> string) list) proc" where
  "list_accepted_intent_senders = select (\<lambda>s.
     map (\<lambda>i. (in_transfer_id i, in_sender_endpoint_id i)) (accepted_offer_intents s))"

definition contains_protocol_id :: "u64 \<Rightarrow> ('z db_scheme, bool) proc" where
  "contains_protocol_id pid = select (\<lambda>s.
     exists_where (\<lambda>r. tr_protocol_transfer_id r = pid) (targeted_transfers s))"

definition count_sender_provider_obligations :: "('z db_scheme, nat) proc" where
  "count_sender_provider_obligations = select (\<lambda>s.
     affected (\<lambda>r. tr_role r = Sender \<and> (is_preapproval (tr_state r) \<or> is_resumable (tr_state r)))
       (targeted_transfers s))"

definition count_receiver_runtime_obligations :: "('z db_scheme, nat) proc" where
  "count_receiver_runtime_obligations = select (\<lambda>s.
     affected (\<lambda>r. tr_role r = Receiver \<and> tr_state r \<in> {Approved, Connecting, Transferring})
       (targeted_transfers s))"

definition abandon_sender_preapproval :: "string \<Rightarrow> ('z db_scheme, bool) proc" where
  "abandon_sender_preapproval tid = transact (\<lambda>s.
     let P = (\<lambda>r. tr_id r = tid \<and> tr_role r = Sender \<and> is_preapproval (tr_state r)) in
     (Inr (affected P (targeted_transfers s) = 1), cascade_delete P s))"

definition insert_row :: "row \<Rightarrow> ('z db_scheme, unit) proc" where
  "insert_row r = transact (\<lambda>s.
     if row_conflicts r (targeted_transfers s) then (Inl unique_violation, s)
     else (Inr (), on_transfers (\<lambda>rows. rows @ [r]) s))"

definition get_row :: "string \<Rightarrow> ('z db_scheme, row option) proc" where
  "get_row tid = select (\<lambda>s. find_by tr_id tid (targeted_transfers s))"

definition set_state ::
    "int \<Rightarrow> string \<Rightarrow> TargetedTransferState \<Rightarrow> TargetedTransferState \<Rightarrow> ('z db_scheme, unit) proc" where
  "set_state now tid source target = (case validate_transition_to source target of
      Inl e \<Rightarrow> err e
    | Inr _ \<Rightarrow> bind (sql_update (\<lambda>r. tr_id r = tid \<and> tr_state r = source)
                      (\<lambda>r. r\<lparr>tr_state := target, tr_updated_at := now\<rparr>))
        (\<lambda>n. if n = 0 then err (InvalidTransition (transition_text source target)) else ok ()))"

definition set_state_from_any :: "int \<Rightarrow> string \<Rightarrow> TargetedTransferState \<Rightarrow> ('z db_scheme, unit) proc" where
  "set_state_from_any now tid target = bind (get_row tid) (\<lambda>found. case found of
      None \<Rightarrow> err (InvalidInput ''unknown targeted transfer'')
    | Some r \<Rightarrow> if tr_state r = target then ok () else set_state now tid (tr_state r) target)"

definition mark_sender_completed :: "int \<Rightarrow> string \<Rightarrow> ('z db_scheme, bool) proc" where
  "mark_sender_completed now tid = transact (\<lambda>s.
     let P = (\<lambda>r. tr_id r = tid \<and> tr_role r = Sender \<and> is_resumable (tr_state r));
         undelivered = on_deliveries (delete_where (delivery_for tid)) in
     if affected P (targeted_transfers s) = 0
     then if exists_where (\<lambda>r. tr_id r = tid \<and> tr_role r = Sender \<and> tr_state r = Completed)
               (targeted_transfers s)
          then (Inr False, undelivered s)
          else (Inl (InvalidTransition ''sender transfer cannot be completed''), s)
     else (Inr True,
       on_releases (insert_or_ignore rl_transfer_id \<lparr>rl_transfer_id = tid, rl_created_at = now\<rparr>)
        (undelivered (on_transfers (update_where P
           (\<lambda>r. r\<lparr>tr_state := Completed, tr_verified_bytes := tr_total_size r,
                  tr_updated_at := now\<rparr>)) s))))"

definition finalize_sender_authorization_and_enqueue ::
    "int \<Rightarrow> string \<Rightarrow> string \<Rightarrow> string \<Rightarrow> ('z db_scheme, unit) proc" where
  "finalize_sender_authorization_and_enqueue now tid blob_ticket handle = transact (\<lambda>s.
     let P = (\<lambda>r. tr_id r = tid \<and> tr_role r = Sender \<and> tr_state r = AwaitingApproval) in
     if affected P (targeted_transfers s) = 0
     then (Inl (InvalidTransition ''sender transfer cannot be approved''), s)
     else (Inr (),
       on_deliveries (insert_or_replace ob_transfer_id
           \<lparr>ob_transfer_id = tid, ob_created_at = now, ob_next_attempt_at = now\<rparr>)
        (on_transfers (update_where P
           (\<lambda>r. r\<lparr>tr_state := Approved, tr_blob_ticket := Some blob_ticket,
                  tr_secret_handle := Some handle, tr_updated_at := now\<rparr>)) s)))"

definition intent_matches_auth :: "auth \<Rightarrow> intent \<Rightarrow> bool" where
  "intent_matches_auth a i \<longleftrightarrow>
     in_transfer_id i = au_transfer_id a \<and>
     in_sender_endpoint_id i = au_sender_endpoint_id a \<and>
     in_receiver_endpoint_id i = au_receiver_endpoint_id a \<and>
     in_manifest_id i = au_manifest_id a \<and> in_content_hash i = au_content_hash a \<and>
     in_transfer_name i = au_transfer_name a \<and> in_file_count i = au_file_count a \<and>
     in_total_size i = au_total_size a \<and> in_protocol_version i = au_protocol_version a"

definition receiver_row :: "int \<Rightarrow> auth \<Rightarrow> string \<Rightarrow> row" where
  "receiver_row now a handle = \<lparr>
     tr_id = au_transfer_id a, tr_protocol_transfer_id = au_protocol_transfer_id a,
     tr_sender_endpoint_id = au_sender_endpoint_id a,
     tr_receiver_endpoint_id = au_receiver_endpoint_id a,
     tr_manifest_id = au_manifest_id a, tr_content_hash = au_content_hash a,
     tr_transfer_name = au_transfer_name a, tr_file_count = au_file_count a,
     tr_total_size = au_total_size a, tr_verified_bytes = 0,
     tr_blob_ticket = Some (au_blob_ticket a), tr_secret_handle = Some handle,
     tr_role = Receiver, tr_state = Approved, tr_created_at = now, tr_updated_at = now\<rparr>"

definition persist_receiver_authorization_and_consume_intent ::
    "int \<Rightarrow> auth \<Rightarrow> string \<Rightarrow> ('z db_scheme, bool) proc" where
  "persist_receiver_authorization_and_consume_intent now a handle = transact (\<lambda>s.
     if \<not> exists_where (intent_matches_auth a) (accepted_offer_intents s)
     then (Inl (Permission ''authorization does not match durable receiver consent''), s)
     else if row_conflicts (receiver_row now a handle) (targeted_transfers s)
     then (Inl unique_violation, s)
     else (Inr True,
       on_intents (delete_where (\<lambda>i. in_transfer_id i = au_transfer_id a))
        (on_transfers (\<lambda>rows. rows @ [receiver_row now a handle]) s)))"

definition fail_resumable_and_clear_delivery :: "int \<Rightarrow> string \<Rightarrow> ('z db_scheme, bool) proc" where
  "fail_resumable_and_clear_delivery now tid = transact (\<lambda>s.
     let P = (\<lambda>r. tr_id r = tid \<and> is_resumable (tr_state r));
         n = affected P (targeted_transfers s);
         s' = on_transfers (update_where P (\<lambda>r. r\<lparr>tr_state := Failed, tr_updated_at := now\<rparr>)) s in
     (Inr (n = 1), if n = 1 then on_deliveries (delete_where (delivery_for tid)) s' else s'))"

definition row_to_transfer :: "row \<Rightarrow> targeted_transfer" where
  "row_to_transfer r = \<lparr>
     tt_id = tr_id r, tt_role = tr_role r, tt_sender_endpoint_id = tr_sender_endpoint_id r,
     tt_receiver_endpoint_id = tr_receiver_endpoint_id r, tt_manifest_id = tr_manifest_id r,
     tt_transfer_name = tr_transfer_name r, tt_file_count = tr_file_count r,
     tt_total_size = tr_total_size r, tt_verified_bytes = tr_verified_bytes r,
     tt_state = tr_state r, tt_created_at = tr_created_at r, tt_updated_at = tr_updated_at r\<rparr>"

definition get_transfer :: "string \<Rightarrow> ('z db_scheme, targeted_transfer option) proc" where
  "get_transfer tid = select (\<lambda>s. map_option row_to_transfer (find_by tr_id tid (targeted_transfers s)))"

definition list_transfers :: "('z db_scheme, targeted_transfer list) proc" where
  "list_transfers = select (\<lambda>s.
     map row_to_transfer (sort_key (\<lambda>r. - tr_updated_at r) (targeted_transfers s)))"

definition list_resumable_sender_rows :: "('z db_scheme, row list) proc" where
  "list_resumable_sender_rows = select (\<lambda>s. sort_key (\<lambda>r. (tr_created_at r, tr_id r))
     (filter (\<lambda>r. tr_role r = Sender \<and> is_resumable (tr_state r)) (targeted_transfers s)))"

definition list_resumable_rows :: "('z db_scheme, row list) proc" where
  "list_resumable_rows = select (\<lambda>s. sort_key (\<lambda>r. (tr_created_at r, tr_id r))
     (filter (\<lambda>r. is_resumable (tr_state r)) (targeted_transfers s)))"

definition involves :: "string \<Rightarrow> row \<Rightarrow> bool" where
  "involves peer r \<longleftrightarrow> tr_sender_endpoint_id r = peer \<or> tr_receiver_endpoint_id r = peer"

definition cancel_by_peer :: "int \<Rightarrow> string \<Rightarrow> ('z db_scheme, string list) proc" where
  "cancel_by_peer now peer = transact (\<lambda>s.
     let ids = map tr_id (filter (involves peer) (targeted_transfers s));
         P = (\<lambda>r. involves peer r \<and> \<not> is_terminal (tr_state r)) in
     (Inr (map tr_id (filter P (targeted_transfers s))),
      on_transfers (update_where P
          (\<lambda>r. r\<lparr>tr_state := Cancelled, tr_blob_ticket := None, tr_secret_handle := None,
                 tr_updated_at := now\<rparr>))
       (on_deliveries (delete_where (\<lambda>ob. List.member ids (ob_transfer_id ob)))
        (on_intents (delete_where (\<lambda>i. in_sender_endpoint_id i = peer
                                        \<or> in_receiver_endpoint_id i = peer)) s))))"

definition ids_for_peer :: "string \<Rightarrow> ('z db_scheme, string list) proc" where
  "ids_for_peer peer = select (\<lambda>s. map tr_id (filter (involves peer) (targeted_transfers s)))"

definition authorization_rows :: "('z db_scheme, row list) proc" where
  "authorization_rows = select (\<lambda>s. filter (\<lambda>r. tr_secret_handle r \<noteq> None) (targeted_transfers s))"

definition mark_interrupted_in_flight :: "int \<Rightarrow> ('z db_scheme, string list) proc" where
  "mark_interrupted_in_flight now = transact (\<lambda>s.
     let P = (\<lambda>r. tr_state r \<in> {Connecting, Transferring}) in
     (Inr (map tr_id (filter P (targeted_transfers s))),
      on_transfers (update_where P (\<lambda>r. r\<lparr>tr_state := Interrupted, tr_updated_at := now\<rparr>)) s))"

definition fail_sender_preapproval_on_restart :: "int \<Rightarrow> ('z db_scheme, row list) proc" where
  "fail_sender_preapproval_on_restart now =
     (let P = (\<lambda>r. tr_role r = Sender \<and> is_preapproval (tr_state r)) in
      bind (select (\<lambda>s. filter P (targeted_transfers s)))
       (\<lambda>rows. if rows = [] then ok rows
          else next_do (sql_update P (\<lambda>r. r\<lparr>tr_state := Failed, tr_updated_at := now\<rparr>)) (ok rows)))"

section \<open>store_outbox.rs\<close>

definition join_outbox :: "(row \<Rightarrow> bool) \<Rightarrow> int \<Rightarrow> outbox list \<Rightarrow> row list \<Rightarrow> row list" where
  "join_outbox P now os rows =
     map snd (sort_key (\<lambda>(ob, r). (ob_next_attempt_at ob, ob_created_at ob))
       (concat (map (\<lambda>ob. map (Pair ob)
            (filter (\<lambda>r. tr_id r = ob_transfer_id ob \<and> P r \<and> ob_next_attempt_at ob \<le> now) rows)) os)))"

definition list_pending_authorization_deliveries :: "int \<Rightarrow> ('z db_scheme, row list) proc" where
  "list_pending_authorization_deliveries now = select (\<lambda>s.
     join_outbox (\<lambda>r. tr_role r = Sender \<and> tr_state r = Approved) now
       (authorization_delivery_outbox s) (targeted_transfers s))"

definition clear_pending_authorization_delivery :: "string \<Rightarrow> ('z db_scheme, unit) proc" where
  "clear_pending_authorization_delivery tid = exec (on_deliveries (delete_where (delivery_for tid)))"

definition defer_pending_authorization_delivery :: "string \<Rightarrow> int \<Rightarrow> ('z db_scheme, unit) proc" where
  "defer_pending_authorization_delivery tid at = exec (on_deliveries
     (update_where (delivery_for tid) (\<lambda>ob. ob\<lparr>ob_next_attempt_at := at\<rparr>)))"

definition complete_receiver_and_enqueue :: "int \<Rightarrow> string \<Rightarrow> u64 \<Rightarrow> ('z db_scheme, unit) proc" where
  "complete_receiver_and_enqueue now tid verified_bytes = transact (\<lambda>s.
     let P = (\<lambda>r. tr_id r = tid \<and> tr_role r = Receiver \<and> tr_state r = Transferring) in
     if affected P (targeted_transfers s) = 0
     then (Inl (InvalidTransition ''receiver transfer cannot be completed''), s)
     else (Inr (),
       on_completions (insert_or_ignore ob_transfer_id
           \<lparr>ob_transfer_id = tid, ob_created_at = now, ob_next_attempt_at = now\<rparr>)
        (on_transfers (update_where P
           (\<lambda>r. r\<lparr>tr_state := Completed, tr_verified_bytes := verified_bytes,
                  tr_updated_at := now\<rparr>)) s)))"

text \<open>SQL \<open>MIN\<close> and \<open>MAX\<close> on the signed 64-bit integers.\<close>

definition sql_max :: "u64 \<Rightarrow> u64 \<Rightarrow> u64" where
  "sql_max a b = (if sint a < sint b then b else a)"

definition sql_min :: "u64 \<Rightarrow> u64 \<Rightarrow> u64" where
  "sql_min a b = (if sint b < sint a then b else a)"

definition advance_verified_bytes :: "int \<Rightarrow> string \<Rightarrow> u64 \<Rightarrow> ('z db_scheme, bool) proc" where
  "advance_verified_bytes now tid bytes = bind
     (sql_update
       (\<lambda>r. tr_id r = tid \<and> tr_role r = Receiver \<and> tr_state r = Transferring
             \<and> sint (tr_verified_bytes r) < sint bytes)
       (\<lambda>r. r\<lparr>tr_verified_bytes := sql_min (tr_total_size r) (sql_max (tr_verified_bytes r) bytes),
              tr_updated_at := now\<rparr>))
     (\<lambda>n. ok (n = 1))"

definition list_pending_completions :: "int \<Rightarrow> ('z db_scheme, row list) proc" where
  "list_pending_completions now = select (\<lambda>s.
     join_outbox (\<lambda>r. tr_role r = Receiver \<and> tr_state r = Completed) now
       (completion_outbox s) (targeted_transfers s))"

definition clear_pending_completion :: "string \<Rightarrow> ('z db_scheme, unit) proc" where
  "clear_pending_completion tid = exec (on_completions (delete_where (delivery_for tid)))"

definition defer_pending_completion :: "string \<Rightarrow> int \<Rightarrow> ('z db_scheme, unit) proc" where
  "defer_pending_completion tid at = exec (on_completions
     (update_where (delivery_for tid) (\<lambda>ob. ob\<lparr>ob_next_attempt_at := at\<rparr>)))"

definition list_completed_sender_rows :: "('z db_scheme, row list) proc" where
  "list_completed_sender_rows = select (\<lambda>s.
     concat (map (\<lambda>ob. filter (\<lambda>r. tr_id r = rl_transfer_id ob \<and> tr_role r = Sender
         \<and> tr_state r = Completed) (targeted_transfers s)) (payload_release_outbox s)))"

definition clear_pending_payload_release :: "string \<Rightarrow> ('z db_scheme, unit) proc" where
  "clear_pending_payload_release tid = exec (on_releases (delete_where (release_for tid)))"

definition authorization_secret_handles :: "('z db_scheme, string list) proc" where
  "authorization_secret_handles = select (\<lambda>s.
     List.map_filter tr_secret_handle (targeted_transfers s))"

definition clear_authorization :: "string \<Rightarrow> ('z db_scheme, unit) proc" where
  "clear_authorization tid = exec (\<lambda>s.
     on_transfers (update_where (\<lambda>r. tr_id r = tid)
         (\<lambda>r. r\<lparr>tr_blob_ticket := None, tr_secret_handle := None\<rparr>))
      (on_releases (delete_where (release_for tid))
       (on_completions (delete_where (delivery_for tid))
        (on_deliveries (delete_where (delivery_for tid)) s))))"

definition transition_terminal ::
    "int \<Rightarrow> string \<Rightarrow> TargetedTransferState \<Rightarrow> bool \<Rightarrow> ('z db_scheme, bool) proc" where
  "transition_terminal now tid target clear =
     (if target \<noteq> Cancelled \<and> target \<noteq> Deleted
      then err (InvalidInput ''terminal transition requires cancelled or deleted'')
      else transact (\<lambda>s.
        let P = (\<lambda>r. tr_id r = tid \<and> tr_state r \<noteq> target \<and>
                  (target = Deleted \<and> tr_state r \<noteq> Deleted
                   \<or> target = Cancelled \<and> \<not> is_terminal (tr_state r)));
            s1 = on_deliveries (delete_where (delivery_for tid))
                  (on_intents (delete_where (\<lambda>i. in_transfer_id i = tid)) s);
            s2 = (if clear then on_releases (delete_where (release_for tid))
                              (on_completions (delete_where (delivery_for tid)) s1) else s1) in
        (Inr (affected P (targeted_transfers s) = 1),
         on_transfers (update_where P
           (\<lambda>r. r\<lparr>tr_state := target,
                  tr_blob_ticket := (if clear then None else tr_blob_ticket r),
                  tr_secret_handle := (if clear then None else tr_secret_handle r),
                  tr_updated_at := now\<rparr>)) s2)))"

end
