(* ===== verification/Targeted_Store_Facts.thy ===== *)
theory Targeted_Store_Facts
  imports Targeted_Store
begin

text \<open>
  What every method of the targeted-transfer store keeps, whatever the database does:
  \<open>evolves\<close> (rows keep their identity and move along the transition graph; only a sender's
  pre-approval row is ever removed), \<open>keys_kept\<close> (primary keys, unique protocol ids and
  outbox foreign keys) and \<open>consented\<close> (a receiver row appears only by consuming a durable
  consent record that agrees with it). Each is a preorder on databases, an instance of the
  interface \<open>db_preorder\<close>, so it composes over the procedures of the module above the store.
\<close>

section \<open>The interfaces: preorders kept by database calls\<close>

text \<open>A relation that does not see the fault schedule composes over the calls.\<close>

locale db_state = state_preorder R for R :: "'z db_scheme \<Rightarrow> 'z db_scheme \<Rightarrow> bool" +
  assumes faults: "R s (s\<lparr>db_faults := fs\<rparr>)"
begin

lemma stable_transact:
  assumes "\<And>s x t. f s = (Inr x, t) \<Longrightarrow> R s t"
  shows "stable R (transact f)"
proof (rule stableI)
  fix s :: "'z db_scheme"
  let ?s0 = "s\<lparr>db_faults := tl (db_faults s)\<rparr>"
  have s0: "R s ?s0" by (rule faults)
  obtain r t where f: "f ?s0 = (r, t)" by (cases "f ?s0")
  have "R s t" if "r = Inr x" for x using assms f that trans [OF s0] by blast
  with f s0 show "R s (snd (transact f s))"
    by (auto simp: transact_def Let_def split: list.splits option.splits sum.splits)
qed

lemma stable_select: "stable R (select f)"
  unfolding select_def by (rule stable_transact) (simp add: refl)

lemma stable_exec: "(\<And>s. R s (f s)) \<Longrightarrow> stable R (exec f)"
  unfolding exec_def by (rule stable_transact) auto

lemma stable_sql_update: "(\<And>s. R s (on_transfers (update_where P u) s)) \<Longrightarrow> stable R (sql_update P u)"
  unfolding sql_update_def by (rule stable_transact) auto

lemmas db_rules = stable_transact stable_select stable_exec stable_sql_update

end

text \<open>
  The state of the modules above extends \<open>db\<close>; what they keep elsewhere, like the fault
  schedule, does not matter to a relation on the tables.
\<close>

definition same_tables :: "'z db_scheme \<Rightarrow> 'z db_scheme \<Rightarrow> bool" where
  "same_tables s t \<longleftrightarrow>
     targeted_transfers t = targeted_transfers s \<and>
     accepted_offer_intents t = accepted_offer_intents s \<and>
     authorization_delivery_outbox t = authorization_delivery_outbox s \<and>
     completion_outbox t = completion_outbox s \<and>
     payload_release_outbox t = payload_release_outbox s \<and>
     schema_migrations t = schema_migrations s"

locale db_preorder = state_preorder R for R :: "'z db_scheme \<Rightarrow> 'z db_scheme \<Rightarrow> bool" +
  assumes frame: "same_tables s t \<Longrightarrow> R s t"
begin

lemma stable_frame: "stable same_tables m \<Longrightarrow> stable R m"
  by (simp add: stable_def frame)

end

sublocale db_preorder \<subseteq> db_state R
  by unfold_locales (rule frame, simp add: same_tables_def)

interpretation tb: db_preorder same_tables
  by unfold_locales (auto simp: same_tables_def)

lemmas store_read_defs =
  list_accepted_intent_senders_def contains_protocol_id_def count_sender_provider_obligations_def
  count_receiver_runtime_obligations_def get_row_def get_transfer_def list_transfers_def
  list_resumable_sender_rows_def list_resumable_rows_def ids_for_peer_def authorization_rows_def
  list_pending_authorization_deliveries_def list_pending_completions_def
  list_completed_sender_rows_def authorization_secret_handles_def

lemmas store_outbox_defs =
  clear_pending_authorization_delivery_def defer_pending_authorization_delivery_def
  clear_pending_completion_def defer_pending_completion_def clear_pending_payload_release_def
  clear_accepted_offer_intent_def clear_accepted_intent_if_sender_def

context db_state
begin

lemma stable_reads:
  "stable R list_accepted_intent_senders" "stable R (contains_protocol_id p)"
  "stable R count_sender_provider_obligations" "stable R count_receiver_runtime_obligations"
  "stable R (get_row i)" "stable R (get_transfer i)" "stable R list_transfers"
  "stable R list_resumable_sender_rows" "stable R list_resumable_rows"
  "stable R (ids_for_peer e)" "stable R authorization_rows"
  "stable R (list_pending_authorization_deliveries n)" "stable R (list_pending_completions n)"
  "stable R list_completed_sender_rows" "stable R authorization_secret_handles"
  by (simp_all add: store_read_defs stable_select)

end

section \<open>Rows keep their identity and follow the transition graph\<close>

definition same_identity :: "row \<Rightarrow> row \<Rightarrow> bool" where
  "same_identity r q \<longleftrightarrow>
     tr_id q = tr_id r \<and> tr_protocol_transfer_id q = tr_protocol_transfer_id r \<and>
     tr_sender_endpoint_id q = tr_sender_endpoint_id r \<and>
     tr_receiver_endpoint_id q = tr_receiver_endpoint_id r \<and>
     tr_manifest_id q = tr_manifest_id r \<and> tr_content_hash q = tr_content_hash r \<and>
     tr_transfer_name q = tr_transfer_name r \<and> tr_file_count q = tr_file_count r \<and>
     tr_total_size q = tr_total_size r \<and> tr_role q = tr_role r \<and> tr_created_at q = tr_created_at r"

lemma same_identity_refl [simp]: "same_identity r r"
  by (simp add: same_identity_def)

lemma same_identity_trans: "same_identity a b \<Longrightarrow> same_identity b c \<Longrightarrow> same_identity a c"
  by (simp add: same_identity_def)

text \<open>
  The durable transitions: those \<open>validate_transition_to\<close> allows and the one the SQL of
  \<open>mark_sender_completed\<close> adds, from any resumable sender state to \<open>Completed\<close>.
\<close>

definition durable_edge :: "TargetedTransferRole \<Rightarrow> TargetedTransferState \<Rightarrow> TargetedTransferState \<Rightarrow> bool" where
  "durable_edge role s t \<longleftrightarrow>
     transition_allowed s t \<or> (role = Sender \<and> is_resumable s \<and> t = Completed)"

definition state_reach :: "TargetedTransferRole \<Rightarrow> TargetedTransferState \<Rightarrow> TargetedTransferState \<Rightarrow> bool" where
  "state_reach role = (durable_edge role)\<^sup>*\<^sup>*"

lemma state_reach_refl [simp]: "state_reach role s s"
  by (simp add: state_reach_def)

lemma state_reach_trans: "state_reach role s t \<Longrightarrow> state_reach role t u \<Longrightarrow> state_reach role s u"
  by (simp add: state_reach_def)

lemma state_reach_edge: "durable_edge role s t \<Longrightarrow> state_reach role s t"
  by (simp add: state_reach_def)

lemma durable_edge_from_terminal: "is_terminal s \<Longrightarrow> durable_edge role s t \<Longrightarrow> t = Deleted"
  by (auto simp: durable_edge_def terminal_only_deleted state_class_defs)

lemma state_reach_from_terminal:
  assumes "state_reach role s t" and "is_terminal s"
  shows "t = s \<or> t = Deleted"
  using assms unfolding state_reach_def
proof (induction rule: rtranclp_induct)
  case base
  show ?case by simp
next
  case (step t u)
  then have "is_terminal t" by (auto simp: is_terminal_def)
  with step show ?case by (auto dest: durable_edge_from_terminal)
qed

lemma durable_edge_preapproval: "durable_edge role s t \<Longrightarrow> is_preapproval t \<Longrightarrow> is_preapproval s"
  by (cases s; cases t) (simp_all add: durable_edge_def transition_allowed_def state_class_defs)

lemma state_reach_preapproval:
  assumes "state_reach role s t" and "is_preapproval t"
  shows "is_preapproval s"
  using assms unfolding state_reach_def
  by (induction rule: rtranclp_induct) (auto dest: durable_edge_preapproval)

definition row_evolves :: "row \<Rightarrow> row \<Rightarrow> bool" where
  "row_evolves r q \<longleftrightarrow> same_identity r q \<and> state_reach (tr_role r) (tr_state r) (tr_state q)"

lemma row_evolves_refl [simp]: "row_evolves r r"
  by (simp add: row_evolves_def)

lemma row_evolves_trans: "row_evolves a b \<Longrightarrow> row_evolves b c \<Longrightarrow> row_evolves a c"
  unfolding row_evolves_def
  by (metis same_identity_def same_identity_trans state_reach_trans)

lemma row_evolvesI:
  "same_identity r q \<Longrightarrow> tr_state q = tr_state r \<or> durable_edge (tr_role r) (tr_state r) (tr_state q)
   \<Longrightarrow> row_evolves r q"
  by (auto simp: row_evolves_def intro: state_reach_edge)

definition removable :: "row \<Rightarrow> bool" where
  "removable r \<longleftrightarrow> tr_role r = Sender \<and> is_preapproval (tr_state r)"

definition rows_evolve :: "row list \<Rightarrow> row list \<Rightarrow> bool" where
  "rows_evolve rows rows' \<longleftrightarrow>
     (\<forall>r \<in> set rows. removable r \<or> (\<exists>q \<in> set rows'. row_evolves r q))"

lemma rows_evolve_refl [simp]: "rows_evolve rows rows"
  unfolding rows_evolve_def by (blast intro: row_evolves_refl)

lemma row_evolves_removable: "row_evolves r q \<Longrightarrow> removable q \<Longrightarrow> removable r"
  unfolding row_evolves_def removable_def
  by (metis same_identity_def state_reach_preapproval)

lemma rows_evolve_trans: "rows_evolve a b \<Longrightarrow> rows_evolve b c \<Longrightarrow> rows_evolve a c"
  unfolding rows_evolve_def by (meson row_evolves_removable row_evolves_trans)

lemma rows_evolve_update [intro]:
  assumes "\<And>r. r \<in> set rows \<Longrightarrow> P r \<Longrightarrow> row_evolves r (u r)"
  shows "rows_evolve rows (update_where P u rows)"
  unfolding rows_evolve_def
proof (intro ballI disjI2)
  fix r assume r: "r \<in> set rows"
  let ?q = "if P r then u r else r"
  have "?q \<in> set (update_where P u rows)" using r by (simp only: set_update_where) (rule imageI)
  moreover have "row_evolves r ?q" using assms [OF r] by simp
  ultimately show "\<exists>q \<in> set (update_where P u rows). row_evolves r q" by blast
qed

lemma rows_evolve_delete [intro]:
  "(\<And>r. P r \<Longrightarrow> removable r) \<Longrightarrow> rows_evolve rows (delete_where P rows)"
  unfolding rows_evolve_def set_delete_where by (blast intro: row_evolves_refl)

lemma rows_evolve_append [simp]: "rows_evolve rows (rows @ new)"
  unfolding rows_evolve_def set_append by (blast intro: row_evolves_refl)

definition evolves :: "'z db_scheme \<Rightarrow> 'z db_scheme \<Rightarrow> bool" where
  "evolves s t \<longleftrightarrow> rows_evolve (targeted_transfers s) (targeted_transfers t)"

interpretation ev: db_preorder evolves
  by unfold_locales (auto simp: evolves_def same_tables_def intro: rows_evolve_trans)

lemma evolves_migrate: "stable evolves migrate_delivery_outbox"
  unfolding migrate_delivery_outbox_def by (rule ev.stable_exec) (simp add: evolves_def)

lemma evolves_intents:
  "stable evolves (persist_accepted_offer_intent n f)"
  unfolding persist_accepted_offer_intent_def
  by (rule ev.stable_transact) (auto simp: evolves_def Let_def split: option.splits if_splits)

lemma evolves_outbox:
  "stable evolves (clear_pending_authorization_delivery i)"
  "stable evolves (defer_pending_authorization_delivery i a)"
  "stable evolves (clear_pending_completion i)" "stable evolves (defer_pending_completion i a)"
  "stable evolves (clear_pending_payload_release i)"
  "stable evolves (clear_accepted_offer_intent i)"
  "stable evolves (clear_accepted_intent_if_sender i e)"
  by (simp_all add: store_outbox_defs) (rule ev.stable_exec; simp add: evolves_def)+

lemma evolves_abandon: "stable evolves (abandon_sender_preapproval i)"
  unfolding abandon_sender_preapproval_def
  by (rule ev.stable_transact)
    (auto simp: evolves_def Let_def cascade_delete_def removable_def)

lemma evolves_insert: "stable evolves (insert_row r)"
  unfolding insert_row_def by (rule ev.stable_transact) (auto simp: evolves_def split: if_splits)

lemma evolves_set_state: "stable evolves (set_state n i a b)"
  unfolding set_state_def validate_transition_to_def
  by (auto intro!: ev.stable_rules ev.stable_sql_update rows_evolve_update row_evolvesI
      simp: evolves_def same_identity_def durable_edge_def split: sum.splits)

lemma evolves_set_state_from_any: "stable evolves (set_state_from_any n i b)"
  unfolding set_state_from_any_def
  by (auto intro!: ev.stable_rules ev.stable_reads evolves_set_state split: option.splits)

lemma evolves_mark_sender_completed: "stable evolves (mark_sender_completed n i)"
  unfolding mark_sender_completed_def
  by (rule ev.stable_transact)
    (auto simp: evolves_def Let_def same_identity_def durable_edge_def
      intro!: rows_evolve_update row_evolvesI split: if_splits)

lemma evolves_finalize: "stable evolves (finalize_sender_authorization_and_enqueue n i b h)"
  unfolding finalize_sender_authorization_and_enqueue_def
  by (rule ev.stable_transact)
    (auto simp: evolves_def Let_def same_identity_def durable_edge_def transition_allowed_def
      intro!: rows_evolve_update row_evolvesI split: if_splits)

lemma evolves_persist_receiver:
  "stable evolves (persist_receiver_authorization_and_consume_intent n a h)"
  unfolding persist_receiver_authorization_and_consume_intent_def
  by (rule ev.stable_transact) (auto simp: evolves_def split: if_splits)

lemma resumable_fail_edge: "is_resumable s \<Longrightarrow> durable_edge role s Failed"
  by (cases s) (simp_all add: state_class_defs durable_edge_def transition_allowed_def)

lemma preapproval_fail_edge: "is_preapproval s \<Longrightarrow> durable_edge role s Failed"
  by (cases s) (simp_all add: state_class_defs durable_edge_def transition_allowed_def)

lemma evolves_fail_resumable: "stable evolves (fail_resumable_and_clear_delivery n i)"
  unfolding fail_resumable_and_clear_delivery_def
  by (rule ev.stable_transact)
    (auto simp: evolves_def Let_def same_identity_def intro: resumable_fail_edge
      intro!: rows_evolve_update row_evolvesI split: if_splits)

lemma evolves_cancel_by_peer: "stable evolves (cancel_by_peer n e)"
  unfolding cancel_by_peer_def
  by (rule ev.stable_transact)
    (auto simp: evolves_def Let_def same_identity_def durable_edge_def cancel_allowed_iff
      intro!: rows_evolve_update row_evolvesI)

lemma evolves_mark_interrupted: "stable evolves (mark_interrupted_in_flight n)"
  unfolding mark_interrupted_in_flight_def
  by (rule ev.stable_transact)
    (auto simp: evolves_def Let_def same_identity_def durable_edge_def transition_allowed_def
      intro!: rows_evolve_update row_evolvesI)

lemma evolves_fail_preapproval: "stable evolves (fail_sender_preapproval_on_restart n)"
  unfolding fail_sender_preapproval_on_restart_def Let_def
  by (auto intro!: ev.stable_rules ev.stable_select ev.stable_sql_update rows_evolve_update
      row_evolvesI simp: evolves_def same_identity_def preapproval_fail_edge)

lemma evolves_complete_receiver: "stable evolves (complete_receiver_and_enqueue n i v)"
  unfolding complete_receiver_and_enqueue_def
  by (rule ev.stable_transact)
    (auto simp: evolves_def Let_def same_identity_def durable_edge_def transition_allowed_def
      intro!: rows_evolve_update row_evolvesI split: if_splits)

lemma evolves_advance: "stable evolves (advance_verified_bytes n i v)"
  unfolding advance_verified_bytes_def
  by (auto intro!: ev.stable_rules ev.stable_sql_update rows_evolve_update row_evolvesI
      simp: evolves_def same_identity_def)

lemma evolves_clear_authorization: "stable evolves (clear_authorization i)"
  unfolding clear_authorization_def
  by (rule ev.stable_exec)
    (auto simp: evolves_def same_identity_def intro!: rows_evolve_update row_evolvesI)

lemma evolves_transition_terminal: "stable evolves (transition_terminal n i t c)"
proof (cases "t = Cancelled \<or> t = Deleted")
  case True
  then show ?thesis
    unfolding transition_terminal_def
    by (auto intro!: ev.stable_transact rows_evolve_update row_evolvesI
        simp: evolves_def Let_def same_identity_def durable_edge_def cancel_allowed_iff
          delete_allowed_iff)
qed (simp add: transition_terminal_def ev.stable_err)

lemmas evolves_writes =
  evolves_migrate evolves_intents evolves_outbox evolves_abandon evolves_insert evolves_set_state
  evolves_set_state_from_any evolves_mark_sender_completed evolves_finalize
  evolves_persist_receiver evolves_fail_resumable evolves_cancel_by_peer evolves_mark_interrupted
  evolves_fail_preapproval evolves_complete_receiver evolves_advance evolves_clear_authorization
  evolves_transition_terminal

lemmas evolves_rules = ev.stable_rules ev.stable_reads evolves_writes

section \<open>Primary keys, unique columns and foreign keys\<close>

definition keys_ok :: "'z db_scheme \<Rightarrow> bool" where
  "keys_ok s \<longleftrightarrow>
     distinct (map tr_id (targeted_transfers s)) \<and>
     distinct (map tr_protocol_transfer_id (targeted_transfers s)) \<and>
     distinct (map in_transfer_id (accepted_offer_intents s)) \<and>
     distinct (map ob_transfer_id (authorization_delivery_outbox s)) \<and>
     distinct (map ob_transfer_id (completion_outbox s)) \<and>
     distinct (map rl_transfer_id (payload_release_outbox s)) \<and>
     (\<forall>e \<in> set (authorization_delivery_outbox s). ob_transfer_id e \<in> tr_id ` set (targeted_transfers s)) \<and>
     (\<forall>e \<in> set (completion_outbox s). ob_transfer_id e \<in> tr_id ` set (targeted_transfers s)) \<and>
     (\<forall>e \<in> set (payload_release_outbox s). rl_transfer_id e \<in> tr_id ` set (targeted_transfers s))"

definition keys_kept :: "'z db_scheme \<Rightarrow> 'z db_scheme \<Rightarrow> bool" where
  "keys_kept s t \<longleftrightarrow> (keys_ok s \<longrightarrow> keys_ok t)"

interpretation kk: db_preorder keys_kept
  by unfold_locales (auto simp: keys_kept_def keys_ok_def same_tables_def)

lemma image_update_where:
  "(\<And>r. P r \<Longrightarrow> key (u r) = key r) \<Longrightarrow> key ` set (update_where P u rows) = key ` set rows"
  by (metis list.set_map map_update_where)

lemma distinct_insert_or_ignore [simp]:
  "distinct (map key (insert_or_ignore key r rows)) \<longleftrightarrow> distinct (map key rows)"
  by (auto simp: insert_or_ignore_def)

lemma ball_insert_or_ignore:
  "(\<forall>e \<in> set (insert_or_ignore key r rows). key e \<in> S) \<longleftrightarrow> key r \<in> S \<and> (\<forall>e \<in> set rows. key e \<in> S)"
  by (auto simp: insert_or_ignore_def)

lemma ball_insert_or_replace:
  "(\<forall>e \<in> set (insert_or_replace key r rows). key e \<in> S) \<longleftrightarrow> key r \<in> S \<and> (\<forall>e \<in> set rows. key e \<in> S)"
  by (auto simp: insert_or_replace_def)

lemma set_insert_or_ignoreD: "e \<in> set (insert_or_ignore key r rows) \<Longrightarrow> e = r \<or> e \<in> set rows"
  by (auto simp: insert_or_ignore_def split: if_splits)

lemma set_insert_or_replaceD: "e \<in> set (insert_or_replace key r rows) \<Longrightarrow> e = r \<or> e \<in> set rows"
  by (auto simp: insert_or_replace_def)

lemma ball_update_where:
  assumes "\<And>r. P r \<Longrightarrow> key (u r) = key r"
  shows "(\<forall>e \<in> set (update_where P u rows). key e \<in> S) \<longleftrightarrow> (\<forall>e \<in> set rows. key e \<in> S)"
proof -
  have "key ` set (update_where P u rows) = key ` set rows"
    using assms by (rule image_update_where)
  then show ?thesis by (simp add: image_subset_iff [symmetric])
qed

lemma row_conflicts_iff:
  "row_conflicts r rows \<longleftrightarrow>
     tr_id r \<in> tr_id ` set rows \<or> tr_protocol_transfer_id r \<in> tr_protocol_transfer_id ` set rows"
  by (simp add: row_conflicts_def image_iff eq_commute [of "tr_id r"]
      eq_commute [of "tr_protocol_transfer_id r"]) blast

lemma distinct_insert_or_replace:
  "distinct (map key rows) \<Longrightarrow> distinct (map key (insert_or_replace key r rows))"
  by (auto simp: insert_or_replace_def distinct_delete_where)

lemmas table_simps =
  map_update_where image_update_where distinct_delete_where distinct_insert_or_replace
  delivery_for_def release_for_def row_conflicts_iff ball_insert_or_ignore
  ball_insert_or_replace ball_update_where

lemma backfill_keys:
  assumes "distinct (map ob_transfer_id os)" and "\<forall>e \<in> set os. ob_transfer_id e \<in> S"
    and "tr_id ` set rows \<subseteq> S"
  shows "distinct (map ob_transfer_id (backfill_deliveries rows os)) \<and>
    (\<forall>e \<in> set (backfill_deliveries rows os). ob_transfer_id e \<in> S)"
proof -
  have "distinct (map ob_transfer_id (fold f rs os)) \<and> (\<forall>e \<in> set (fold f rs os). ob_transfer_id e \<in> S)"
    if "tr_id ` set rs \<subseteq> S" and "f = (\<lambda>r. insert_or_ignore ob_transfer_id
      \<lparr>ob_transfer_id = tr_id r, ob_created_at = tr_updated_at r, ob_next_attempt_at = 0\<rparr>)" for f rs
    using assms(1,2) that(1)
  proof (induction rs arbitrary: os)
    case (Cons r rs)
    have "distinct (map ob_transfer_id (f r os)) \<and> (\<forall>e \<in> set (f r os). ob_transfer_id e \<in> S)"
      using Cons.prems by (simp add: that(2) ball_insert_or_ignore)
    then show ?case using Cons.IH [of "f r os"] Cons.prems(3) by simp
  qed simp
  then show ?thesis
    unfolding backfill_deliveries_def using assms(3) by (metis (no_types, lifting) dual_order.trans
        filter_is_subset image_mono)
qed

lemma keys_migrate: "stable keys_kept migrate_delivery_outbox"
  unfolding migrate_delivery_outbox_def
proof (rule kk.stable_exec)
  fix s :: "'z db_scheme"
  show "keys_kept s (if List.member (schema_migrations s) DELIVERY_MIGRATION then s
     else (on_deliveries (backfill_deliveries (targeted_transfers s)) s)
            \<lparr>schema_migrations := schema_migrations s @ [DELIVERY_MIGRATION]\<rparr>)"
    using backfill_keys [of "authorization_delivery_outbox s" "tr_id ` set (targeted_transfers s)"
        "targeted_transfers s"]
    by (simp add: keys_kept_def keys_ok_def)
qed

lemma keys_intents: "stable keys_kept (persist_accepted_offer_intent n f)"
  unfolding persist_accepted_offer_intent_def
  by (rule kk.stable_transact)
    (auto simp: keys_kept_def keys_ok_def Let_def table_simps find_by_None_iff
      split: option.splits if_splits)

lemma keys_outbox:
  "stable keys_kept (clear_pending_authorization_delivery i)"
  "stable keys_kept (defer_pending_authorization_delivery i a)"
  "stable keys_kept (clear_pending_completion i)" "stable keys_kept (defer_pending_completion i a)"
  "stable keys_kept (clear_pending_payload_release i)"
  "stable keys_kept (clear_accepted_offer_intent i)"
  "stable keys_kept (clear_accepted_intent_if_sender i e)"
  by (simp_all add: store_outbox_defs)
    (rule kk.stable_exec; auto simp: keys_kept_def keys_ok_def table_simps)+

lemma keys_cascade_delete: "keys_ok s \<Longrightarrow> keys_ok (cascade_delete P s)"
proof -
  assume ok: "keys_ok s"
  have keep: "k \<in> tr_id ` set (delete_where P (targeted_transfers s))"
    if "k \<in> tr_id ` set (targeted_transfers s)" and "k \<notin> set (map tr_id (filter P (targeted_transfers s)))" for k
    using that by auto
  from ok show ?thesis
    unfolding keys_ok_def cascade_delete_def Let_def
    by (simp add: distinct_delete_where keep del: set_map set_filter)
      (use keep in auto)
qed

lemma keys_abandon: "stable keys_kept (abandon_sender_preapproval i)"
  unfolding abandon_sender_preapproval_def
  by (rule kk.stable_transact) (auto simp: keys_kept_def Let_def intro: keys_cascade_delete)

lemma keys_insert: "stable keys_kept (insert_row r)"
  unfolding insert_row_def
  by (rule kk.stable_transact)
    (auto simp: keys_kept_def keys_ok_def table_simps split: if_splits)

lemma keys_set_state: "stable keys_kept (set_state n i a b)"
  unfolding set_state_def
  by (auto intro!: kk.stable_rules kk.stable_sql_update simp: keys_kept_def keys_ok_def table_simps
      split: sum.splits)

lemma keys_set_state_from_any: "stable keys_kept (set_state_from_any n i b)"
  unfolding set_state_from_any_def
  by (auto intro!: kk.stable_rules kk.stable_reads keys_set_state split: option.splits)

lemma keys_mark_sender_completed: "stable keys_kept (mark_sender_completed n i)"
  unfolding mark_sender_completed_def
  by (rule kk.stable_transact)
    (auto simp: keys_kept_def keys_ok_def Let_def table_simps split: if_splits
      dest!: set_insert_or_ignoreD set_insert_or_replaceD)

lemma keys_finalize: "stable keys_kept (finalize_sender_authorization_and_enqueue n i b h)"
  unfolding finalize_sender_authorization_and_enqueue_def
  by (rule kk.stable_transact)
    (auto simp: keys_kept_def keys_ok_def Let_def table_simps split: if_splits
      dest!: set_insert_or_ignoreD set_insert_or_replaceD)

lemma keys_persist_receiver:
  "stable keys_kept (persist_receiver_authorization_and_consume_intent n a h)"
  unfolding persist_receiver_authorization_and_consume_intent_def
  by (rule kk.stable_transact)
    (auto simp: keys_kept_def keys_ok_def table_simps receiver_row_def
      split: if_splits)

lemma keys_fail_resumable: "stable keys_kept (fail_resumable_and_clear_delivery n i)"
  unfolding fail_resumable_and_clear_delivery_def
  by (rule kk.stable_transact)
    (auto simp: keys_kept_def keys_ok_def Let_def table_simps split: if_splits)

lemma keys_cancel_by_peer: "stable keys_kept (cancel_by_peer n e)"
  unfolding cancel_by_peer_def
  by (rule kk.stable_transact) (auto simp: keys_kept_def keys_ok_def Let_def table_simps)

lemma keys_mark_interrupted: "stable keys_kept (mark_interrupted_in_flight n)"
  unfolding mark_interrupted_in_flight_def
  by (rule kk.stable_transact) (auto simp: keys_kept_def keys_ok_def Let_def table_simps)

lemma keys_fail_preapproval: "stable keys_kept (fail_sender_preapproval_on_restart n)"
  unfolding fail_sender_preapproval_on_restart_def Let_def
  by (auto intro!: kk.stable_rules kk.stable_select kk.stable_sql_update
      simp: keys_kept_def keys_ok_def table_simps)

lemma keys_complete_receiver: "stable keys_kept (complete_receiver_and_enqueue n i v)"
  unfolding complete_receiver_and_enqueue_def
  by (rule kk.stable_transact)
    (auto simp: keys_kept_def keys_ok_def Let_def table_simps split: if_splits
      dest!: set_insert_or_ignoreD set_insert_or_replaceD)

lemma keys_advance: "stable keys_kept (advance_verified_bytes n i v)"
  unfolding advance_verified_bytes_def
  by (auto intro!: kk.stable_rules kk.stable_sql_update simp: keys_kept_def keys_ok_def table_simps)

lemma keys_clear_authorization: "stable keys_kept (clear_authorization i)"
  unfolding clear_authorization_def
  by (rule kk.stable_exec) (auto simp: keys_kept_def keys_ok_def table_simps)

lemma keys_transition_terminal: "stable keys_kept (transition_terminal n i t c)"
proof (cases "t = Cancelled \<or> t = Deleted")
  case True
  then show ?thesis
    unfolding transition_terminal_def
    by (auto intro!: kk.stable_transact simp: keys_kept_def keys_ok_def Let_def table_simps)
qed (simp add: transition_terminal_def kk.stable_err)

lemmas keys_writes =
  keys_migrate keys_intents keys_outbox keys_abandon keys_insert keys_set_state
  keys_set_state_from_any keys_mark_sender_completed keys_finalize keys_persist_receiver
  keys_fail_resumable keys_cancel_by_peer keys_mark_interrupted keys_fail_preapproval
  keys_complete_receiver keys_advance keys_clear_authorization keys_transition_terminal

lemmas keys_rules = kk.stable_rules kk.stable_reads keys_writes

section \<open>Receiver rows come from durable consent\<close>

definition intent_matches_row :: "row \<Rightarrow> intent \<Rightarrow> bool" where
  "intent_matches_row r i \<longleftrightarrow>
     in_transfer_id i = tr_id r \<and>
     in_sender_endpoint_id i = tr_sender_endpoint_id r \<and>
     in_receiver_endpoint_id i = tr_receiver_endpoint_id r \<and>
     in_manifest_id i = tr_manifest_id r \<and> in_content_hash i = tr_content_hash r \<and>
     in_transfer_name i = tr_transfer_name r \<and> in_file_count i = tr_file_count r \<and>
     in_total_size i = tr_total_size r"

definition consented :: "'z db_scheme \<Rightarrow> 'z db_scheme \<Rightarrow> bool" where
  "consented s t \<longleftrightarrow>
     set (accepted_offer_intents t) \<subseteq> set (accepted_offer_intents s) \<and>
     (\<forall>r \<in> set (targeted_transfers t). tr_role r = Receiver \<longrightarrow>
        (\<exists>q \<in> set (targeted_transfers s). same_identity q r) \<or>
        (\<exists>i \<in> set (accepted_offer_intents s). intent_matches_row r i))"

lemma intent_matches_same: "same_identity q r \<Longrightarrow> intent_matches_row q i \<longleftrightarrow> intent_matches_row r i"
  by (auto simp: same_identity_def intent_matches_row_def)

lemma consented_trans:
  assumes st: "consented s t" and tu: "consented t u"
  shows "consented s u"
  unfolding consented_def
proof (intro conjI ballI impI)
  show "set (accepted_offer_intents u) \<subseteq> set (accepted_offer_intents s)"
    using st tu by (auto simp: consented_def)
next
  fix r assume r: "r \<in> set (targeted_transfers u)" "tr_role r = Receiver"
  consider (row) q where "q \<in> set (targeted_transfers t)" "same_identity q r"
    | (intent) i where "i \<in> set (accepted_offer_intents t)" "intent_matches_row r i"
    using r tu unfolding consented_def by blast
  then show "(\<exists>q \<in> set (targeted_transfers s). same_identity q r) \<or>
      (\<exists>i \<in> set (accepted_offer_intents s). intent_matches_row r i)"
  proof cases
    case row
    then have "tr_role q = Receiver" using r(2) by (simp add: same_identity_def)
    with row(1) st consider (old) p where "p \<in> set (targeted_transfers s)" "same_identity p q"
      | (new) i where "i \<in> set (accepted_offer_intents s)" "intent_matches_row q i"
      unfolding consented_def by blast
    then show ?thesis
    proof cases
      case old
      have "same_identity p r" by (rule same_identity_trans [OF old(2) row(2)])
      with old(1) show ?thesis by blast
    next
      case new
      have "intent_matches_row r i" using new(2) intent_matches_same [OF row(2)] by simp
      with new(1) show ?thesis by blast
    qed
  next
    case intent
    then have "i \<in> set (accepted_offer_intents s)" using st unfolding consented_def by blast
    with intent(2) show ?thesis by blast
  qed
qed

lemma consented_refl [simp]: "consented s s"
  unfolding consented_def by (blast intro: same_identity_refl)

text \<open>The shapes of change a store method makes: rewriting rows, removing rows or intents.\<close>

definition rows_from :: "row list \<Rightarrow> row list \<Rightarrow> bool" where
  "rows_from rows rows' \<longleftrightarrow> (\<forall>r \<in> set rows'. \<exists>q \<in> set rows. same_identity q r)"

lemma rows_from_refl [simp]: "rows_from rows rows"
  unfolding rows_from_def by (blast intro: same_identity_refl)

lemma rows_from_delete [simp]: "rows_from rows (delete_where P rows)"
  unfolding rows_from_def set_delete_where by (blast intro: same_identity_refl)

lemma rows_from_update:
  assumes "\<And>r. P r \<Longrightarrow> same_identity r (u r)"
  shows "rows_from rows (update_where P u rows)"
  unfolding rows_from_def set_update_where
proof
  fix r assume "r \<in> (\<lambda>r. if P r then u r else r) ` set rows"
  then obtain q where q: "q \<in> set rows" "r = (if P q then u q else q)" by blast
  then have "same_identity q r" using assms [of q] by simp
  with q(1) show "\<exists>q \<in> set rows. same_identity q r" by blast
qed

lemma consentedI:
  "set (accepted_offer_intents t) \<subseteq> set (accepted_offer_intents s) \<Longrightarrow>
   rows_from (targeted_transfers s) (targeted_transfers t) \<Longrightarrow> consented s t"
  unfolding consented_def rows_from_def by blast

lemma consented_append:
  assumes "targeted_transfers t = targeted_transfers s @ [r]"
    and "set (accepted_offer_intents t) \<subseteq> set (accepted_offer_intents s)"
    and "tr_role r = Receiver \<Longrightarrow> \<exists>i \<in> set (accepted_offer_intents s). intent_matches_row r i"
  shows "consented s t"
  unfolding consented_def
proof (intro conjI ballI impI)
  show "set (accepted_offer_intents t) \<subseteq> set (accepted_offer_intents s)" by (rule assms(2))
next
  fix q assume "q \<in> set (targeted_transfers t)" and role: "tr_role q = Receiver"
  then have "q \<in> set (targeted_transfers s) \<or> q = r" by (auto simp: assms(1))
  then show "(\<exists>p \<in> set (targeted_transfers s). same_identity p q) \<or>
      (\<exists>i \<in> set (accepted_offer_intents s). intent_matches_row q i)"
    using assms(3) role same_identity_refl by blast
qed

interpretation co: db_preorder consented
proof unfold_locales
  fix s t u :: "'z db_scheme"
  show "consented s s" by simp
  show "consented s t \<Longrightarrow> consented t u \<Longrightarrow> consented s u" by (rule consented_trans)
  show "same_tables s t \<Longrightarrow> consented s t" by (rule consentedI) (simp_all add: same_tables_def)
qed

lemma consented_outbox:
  "stable consented (clear_pending_authorization_delivery i)"
  "stable consented (defer_pending_authorization_delivery i a)"
  "stable consented (clear_pending_completion i)" "stable consented (defer_pending_completion i a)"
  "stable consented (clear_pending_payload_release i)"
  "stable consented (clear_accepted_offer_intent i)"
  "stable consented (clear_accepted_intent_if_sender i e)"
  by (simp_all add: store_outbox_defs) (rule co.stable_exec; rule consentedI; auto)+

lemma consented_abandon: "stable consented (abandon_sender_preapproval i)"
  unfolding abandon_sender_preapproval_def
  by (rule co.stable_transact, rule consentedI) (auto simp: Let_def cascade_delete_def)

lemma consented_insert: "tr_role r = Sender \<Longrightarrow> stable consented (insert_row r)"
  unfolding insert_row_def
  by (rule co.stable_transact, rule consented_append) (auto split: if_splits)

lemma consented_set_state: "stable consented (set_state n i a b)"
  unfolding set_state_def
  by (auto intro!: co.stable_rules co.stable_sql_update consentedI rows_from_update
      simp: same_identity_def split: sum.splits)

lemma consented_set_state_from_any: "stable consented (set_state_from_any n i b)"
  unfolding set_state_from_any_def
  by (auto intro!: co.stable_rules co.stable_reads consented_set_state split: option.splits)

lemma consented_mark_sender_completed: "stable consented (mark_sender_completed n i)"
  unfolding mark_sender_completed_def
  by (rule co.stable_transact, rule consentedI)
    (auto simp: Let_def same_identity_def intro!: rows_from_update split: if_splits)

lemma consented_finalize: "stable consented (finalize_sender_authorization_and_enqueue n i b h)"
  unfolding finalize_sender_authorization_and_enqueue_def
  by (rule co.stable_transact, rule consentedI)
    (auto simp: Let_def same_identity_def intro!: rows_from_update split: if_splits)

lemma intent_matches_receiver_row:
  "intent_matches_auth a i \<Longrightarrow> intent_matches_row (receiver_row n a h) i"
  by (simp add: intent_matches_auth_def intent_matches_row_def receiver_row_def)

lemma consented_persist_receiver:
  "stable consented (persist_receiver_authorization_and_consume_intent n a h)"
  unfolding persist_receiver_authorization_and_consume_intent_def
proof (rule co.stable_transact)
  fix s t :: "'z db_scheme" and x
  assume *: "(if \<not> exists_where (intent_matches_auth a) (accepted_offer_intents s)
     then (Inl (Permission ''authorization does not match durable receiver consent''), s)
     else if row_conflicts (receiver_row n a h) (targeted_transfers s)
     then (Inl unique_violation, s)
     else (Inr True,
       on_intents (delete_where (\<lambda>i. in_transfer_id i = au_transfer_id a))
        (on_transfers (\<lambda>rows. rows @ [receiver_row n a h]) s))) = (Inr x, t)"
  then obtain i where i: "i \<in> set (accepted_offer_intents s)" "intent_matches_auth a i"
    by (auto split: if_splits)
  have "targeted_transfers t = targeted_transfers s @ [receiver_row n a h]"
    and "set (accepted_offer_intents t) \<subseteq> set (accepted_offer_intents s)"
    using * by (auto split: if_splits)
  then show "consented s t"
    using i by (blast intro: consented_append intent_matches_receiver_row)
qed

lemma consented_fail_resumable: "stable consented (fail_resumable_and_clear_delivery n i)"
  unfolding fail_resumable_and_clear_delivery_def
  by (rule co.stable_transact, rule consentedI)
    (auto simp: Let_def same_identity_def intro!: rows_from_update split: if_splits)

lemma consented_cancel_by_peer: "stable consented (cancel_by_peer n e)"
  unfolding cancel_by_peer_def
  by (rule co.stable_transact, rule consentedI)
    (auto simp: Let_def same_identity_def intro!: rows_from_update)

lemma consented_mark_interrupted: "stable consented (mark_interrupted_in_flight n)"
  unfolding mark_interrupted_in_flight_def
  by (rule co.stable_transact, rule consentedI)
    (auto simp: Let_def same_identity_def intro!: rows_from_update)

lemma consented_fail_preapproval: "stable consented (fail_sender_preapproval_on_restart n)"
  unfolding fail_sender_preapproval_on_restart_def Let_def
  by (auto intro!: co.stable_rules co.stable_select co.stable_sql_update consentedI rows_from_update
      simp: same_identity_def)

lemma consented_complete_receiver: "stable consented (complete_receiver_and_enqueue n i v)"
  unfolding complete_receiver_and_enqueue_def
  by (rule co.stable_transact, rule consentedI)
    (auto simp: Let_def same_identity_def intro!: rows_from_update split: if_splits)

lemma consented_advance: "stable consented (advance_verified_bytes n i v)"
  unfolding advance_verified_bytes_def
  by (auto intro!: co.stable_rules co.stable_sql_update consentedI rows_from_update
      simp: same_identity_def)

lemma consented_clear_authorization: "stable consented (clear_authorization i)"
  unfolding clear_authorization_def
  by (rule co.stable_exec, rule consentedI) (auto simp: same_identity_def intro!: rows_from_update)

lemma consented_transition_terminal: "stable consented (transition_terminal n i t c)"
proof (cases "t = Cancelled \<or> t = Deleted")
  case True
  then show ?thesis
    unfolding transition_terminal_def
    by (cases c) (auto intro!: co.stable_transact consentedI rows_from_update
        simp: Let_def same_identity_def)
qed (simp add: transition_terminal_def co.stable_err)

lemmas consented_writes =
  consented_outbox consented_abandon consented_set_state consented_set_state_from_any
  consented_mark_sender_completed consented_finalize consented_persist_receiver
  consented_fail_resumable consented_cancel_by_peer consented_mark_interrupted
  consented_fail_preapproval consented_complete_receiver consented_advance
  consented_clear_authorization consented_transition_terminal

lemmas consented_rules = co.stable_rules co.stable_reads consented_writes

section \<open>What successful calls did\<close>

lemma transact_InrD:
  "transact f s = (Inr x, t) \<Longrightarrow> f (s\<lparr>db_faults := tl (db_faults s)\<rparr>) = (Inr x, t)"
  by (auto simp: transact_def Let_def split: list.splits option.splits sum.splits prod.splits)

lemma select_InrD:
  "select f s = (Inr x, t) \<Longrightarrow>
   t = s\<lparr>db_faults := tl (db_faults s)\<rparr> \<and> x = f t"
  by (auto simp: select_def dest!: transact_InrD)

lemma get_row_InrD:
  "get_row i s = (Inr found, t) \<Longrightarrow>
   t = s\<lparr>db_faults := tl (db_faults s)\<rparr> \<and> found = find_by tr_id i (targeted_transfers s)"
  by (auto simp: get_row_def dest!: select_InrD)

lemma transact_no_fault: "db_faults s = [] \<Longrightarrow>
   transact f s = (case f s of (Inl e, _) \<Rightarrow> (Inl e, s) | (Inr x, t) \<Rightarrow> (Inr x, t))"
  by (cases s) (auto simp: transact_def split: prod.splits sum.splits)

end
