(* ===== verification/Secret_Custody.thy ===== *)
theory Secret_Custody
  imports Targeted_Store_Facts "HOL-Library.AList"
begin

text \<open>
  Custody of key material (\<^verbatim>\<open>secure_secret.rs\<close>): the metadata table \<open>protected_secret_refs\<close>,
  which lives in the same database as the transfers, and the credential store behind the trait
  \<open>SecureSecretStore\<close>. The store modelled is the repository's own implementation of the trait,
  \<open>FaultInjectingSecretStore\<close>: values by handle, a set of handles whose read fails as
  corrupted, and a failure that the environment switches between calls (\<open>vs_failures\<close>, one
  outcome per coming call). A UUID drawn by \<open>SecretHandle::generate\<close> is the argument \<open>uuid\<close>;
  the public key of a secret key (\<^verbatim>\<open>iroh\<close>) is the parameter \<open>endpoint_id\<close>. Columns of enum
  type hold the enum: \<open>as_str\<close> and \<open>parse\<close> are shown to be inverse.

  Main results: what is protected is loaded back, what is removed cannot be loaded, and a
  successful reconciliation, from any state a crash can leave, makes the active metadata and
  the stored values agree exactly.
\<close>

section \<open>Data\<close>

datatype SecretKind = EndpointIdentity | RelationshipGrant | PairingEligibility | TargetedAuthorization

definition kind_as_str :: "SecretKind \<Rightarrow> string" where
  "kind_as_str k = (case k of
      EndpointIdentity \<Rightarrow> ''endpoint-identity''
    | RelationshipGrant \<Rightarrow> ''relationship-grant''
    | PairingEligibility \<Rightarrow> ''pairing-eligibility''
    | TargetedAuthorization \<Rightarrow> ''targeted-authorization'')"

definition kind_parse :: "string \<Rightarrow> vnidrop_error + SecretKind" where
  "kind_parse v =
     (if v = ''endpoint-identity'' then Inr EndpointIdentity
      else if v = ''relationship-grant'' then Inr RelationshipGrant
      else if v = ''pairing-eligibility'' then Inr PairingEligibility
      else if v = ''targeted-authorization'' then Inr TargetedAuthorization
      else Inl (SecureStorageCorrupted ''protected secret has an unknown kind''))"

datatype SecretMetadataState = Staged | Active | Disabled

definition metadata_as_str :: "SecretMetadataState \<Rightarrow> string" where
  "metadata_as_str k = (case k of
      Staged \<Rightarrow> ''staged'' | Active \<Rightarrow> ''active'' | Disabled \<Rightarrow> ''disabled'')"

definition metadata_parse :: "string \<Rightarrow> vnidrop_error + SecretMetadataState" where
  "metadata_parse v =
     (if v = ''staged'' then Inr Staged else if v = ''active'' then Inr Active
      else if v = ''disabled'' then Inr Disabled
      else Inl (SecureStorageCorrupted ''protected secret has an unknown metadata state''))"

datatype SecureSecretStoreError = Locked | Missing | Corrupted | Unavailable

definition map_store_error :: "SecureSecretStoreError \<Rightarrow> vnidrop_error" where
  "map_store_error e = (case e of
      Locked \<Rightarrow> SecureStorageLocked ''credential store is locked''
    | Missing \<Rightarrow> SecureStorageMissing ''credential is missing''
    | Corrupted \<Rightarrow> SecureStorageCorrupted ''credential is corrupted''
    | Unavailable \<Rightarrow> SecureStorageUnavailable ''credential store is unavailable'')"

record secret_ref =
  sr_handle :: string
  sr_kind :: SecretKind
  sr_state :: SecretMetadataState
  sr_expected_identity :: "string option"
  sr_created_at :: int
  sr_updated_at :: int

datatype ReferenceStoreFailure = FailLocked | FailUnavailable

record vault = db +
  protected_secret_refs :: "secret_ref list"
  vs_values :: "(string \<times> string) list"
  vs_corrupted :: "string list"
  vs_failures :: "ReferenceStoreFailure option list"

text \<open>\<open>SecretMaterial::new\<close>; byte strings are \<open>char list\<close>s.\<close>

definition new_material :: "string \<Rightarrow> vnidrop_error + string" where
  "new_material bytes =
     (if length bytes \<noteq> 32 \<or> list_all (\<lambda>b. b = CHR 0x00) bytes
      then Inl (SecureStorageCorrupted ''protected secret has invalid key material'')
      else Inr bytes)"

definition generate_handle :: "SecretKind \<Rightarrow> string \<Rightarrow> string" where
  "generate_handle kind uuid = ''vnidrop/v1/'' @ kind_as_str kind @ ''/'' @ uuid"

section \<open>The credential store\<close>

type_synonym ('s, 'a) store_call = "'s \<Rightarrow> (SecureSecretStoreError + 'a) \<times> 's"

text \<open>Every call begins with \<open>check_available\<close>.\<close>

definition store_call ::
    "('z vault_scheme \<Rightarrow> (SecureSecretStoreError + 'a) \<times> 'z vault_scheme) \<Rightarrow> ('z vault_scheme, 'a) store_call" where
  "store_call f s = (let s0 = s\<lparr>vs_failures := tl (vs_failures s)\<rparr> in
     case vs_failures s of
       Some FailLocked # _ \<Rightarrow> (Inl Locked, s0)
     | Some FailUnavailable # _ \<Rightarrow> (Inl Unavailable, s0)
     | _ \<Rightarrow> f s0)"

definition vs_put :: "string \<Rightarrow> string \<Rightarrow> ('z vault_scheme, unit) store_call" where
  "vs_put handle material = store_call (\<lambda>s.
     (Inr (), s\<lparr>vs_values := AList.update handle material (vs_values s)\<rparr>))"

definition vs_get :: "string \<Rightarrow> ('z vault_scheme, string) store_call" where
  "vs_get handle = store_call (\<lambda>s.
     if List.member (vs_corrupted s) handle then (Inl Corrupted, s)
     else case map_of (vs_values s) handle of None \<Rightarrow> (Inl Missing, s) | Some m \<Rightarrow> (Inr m, s))"

definition vs_delete :: "string \<Rightarrow> ('z vault_scheme, unit) store_call" where
  "vs_delete handle = store_call (\<lambda>s. (Inr (), s\<lparr>vs_values := AList.delete handle (vs_values s)\<rparr>))"

definition vs_list_handles :: "('z vault_scheme, string list) store_call" where
  "vs_list_handles = store_call (\<lambda>s. (Inr (map fst (vs_values s)), s))"

definition from_store :: "('s, 'a) store_call \<Rightarrow> ('s, 'a) proc" where
  "from_store m s = (case m s of
      (Inl e, s') \<Rightarrow> (Inl (map_store_error e), s') | (Inr x, s') \<Rightarrow> (Inr x, s'))"

definition store_put :: "string \<Rightarrow> string \<Rightarrow> ('z vault_scheme, unit) proc" where
  "store_put handle material = from_store (vs_put handle material)"

definition store_get_raw :: "string \<Rightarrow> ('z vault_scheme, SecureSecretStoreError + string) proc" where
  "store_get_raw handle s = (case vs_get handle s of (r, s') \<Rightarrow> (Inr r, s'))"

definition store_get :: "string \<Rightarrow> ('z vault_scheme, string) proc" where
  "store_get handle = from_store (vs_get handle)"

definition store_delete_raw :: "string \<Rightarrow> ('z vault_scheme, SecureSecretStoreError + unit) proc" where
  "store_delete_raw handle s = (case vs_delete handle s of (r, s') \<Rightarrow> (Inr r, s'))"

definition store_delete :: "string \<Rightarrow> ('z vault_scheme, unit) proc" where
  "store_delete handle = from_store (vs_delete handle)"

definition store_list_handles :: "('z vault_scheme, string list) proc" where
  "store_list_handles = from_store vs_list_handles"

definition delete_if_present :: "string \<Rightarrow> ('z vault_scheme, unit) proc" where
  "delete_if_present handle = bind (store_delete_raw handle) (\<lambda>r. case r of
      Inr _ \<Rightarrow> ok ()
    | Inl Missing \<Rightarrow> ok ()
    | Inl e \<Rightarrow> err (map_store_error e))"

section \<open>The metadata table\<close>

text \<open>The unique index \<open>protected_secret_one_endpoint_identity\<close>.\<close>

definition one_endpoint_identity :: "secret_ref list \<Rightarrow> bool" where
  "one_endpoint_identity refs \<longleftrightarrow>
     affected (\<lambda>r. sr_kind r = EndpointIdentity \<and> sr_state r \<noteq> Disabled) refs \<le> 1"

definition stage :: "int \<Rightarrow> string \<Rightarrow> SecretKind \<Rightarrow> string option \<Rightarrow> ('z vault_scheme, unit) proc" where
  "stage now handle kind expected = transact (\<lambda>s.
     let r = \<lparr>sr_handle = handle, sr_kind = kind, sr_state = Staged,
              sr_expected_identity = expected, sr_created_at = now, sr_updated_at = now\<rparr>;
         refs = protected_secret_refs s in
     if exists_where (\<lambda>q. sr_handle q = handle) refs \<or> \<not> one_endpoint_identity (refs @ [r])
     then (Inl unique_violation, s)
     else (Inr (), s\<lparr>protected_secret_refs := refs @ [r]\<rparr>))"

definition set_metadata_state ::
    "int \<Rightarrow> string \<Rightarrow> SecretMetadataState \<Rightarrow> ('z vault_scheme, unit) proc" where
  "set_metadata_state now handle target = transact (\<lambda>s.
     let refs = update_where (\<lambda>r. sr_handle r = handle)
           (\<lambda>r. r\<lparr>sr_state := target, sr_updated_at := now\<rparr>) (protected_secret_refs s) in
     if one_endpoint_identity refs then (Inr (), s\<lparr>protected_secret_refs := refs\<rparr>)
     else (Inl unique_violation, s))"

definition activate :: "int \<Rightarrow> string \<Rightarrow> ('z vault_scheme, unit) proc" where
  "activate now handle = set_metadata_state now handle Active"

definition disable :: "int \<Rightarrow> string \<Rightarrow> ('z vault_scheme, unit) proc" where
  "disable now handle = set_metadata_state now handle Disabled"

definition find_secret :: "string \<Rightarrow> ('z vault_scheme, secret_ref option) proc" where
  "find_secret handle = select (\<lambda>s. find_by sr_handle handle (protected_secret_refs s))"

definition list_secrets :: "('z vault_scheme, secret_ref list) proc" where
  "list_secrets = select (\<lambda>s. sort_key sr_handle (protected_secret_refs s))"

definition find_active_kind :: "SecretKind \<Rightarrow> ('z vault_scheme, secret_ref option) proc" where
  "find_active_kind kind = select (\<lambda>s.
     case sort_key sr_created_at (filter (\<lambda>r. sr_kind r = kind \<and> sr_state r = Active)
            (protected_secret_refs s)) of [] \<Rightarrow> None | r # _ \<Rightarrow> Some r)"

definition contains_kind :: "SecretKind \<Rightarrow> ('z vault_scheme, bool) proc" where
  "contains_kind kind = select (\<lambda>s. exists_where (\<lambda>r. sr_kind r = kind) (protected_secret_refs s))"

section \<open>SecretCustody\<close>

definition validate_material ::
    "(string \<Rightarrow> string) \<Rightarrow> SecretKind \<Rightarrow> string \<Rightarrow> string option \<Rightarrow> vnidrop_error + unit" where
  "validate_material endpoint_id kind material expected =
     (if kind = EndpointIdentity
      then case expected of
          None \<Rightarrow> Inl (SecureStorageCorrupted
                    ''endpoint identity metadata lacks its expected endpoint id'')
        | Some e \<Rightarrow> if endpoint_id material \<noteq> e
            then Inl (SecureStorageCorrupted
                    ''protected endpoint identity does not match its endpoint id'')
            else Inr ()
      else Inr ())"

definition protect ::
    "(string \<Rightarrow> string) \<Rightarrow> int \<Rightarrow> string \<Rightarrow> SecretKind \<Rightarrow> string \<Rightarrow> string option
     \<Rightarrow> ('z vault_scheme, string) proc" where
  "protect endpoint_id now uuid kind material expected =
     next_do (lift (validate_material endpoint_id kind material expected))
      (let handle = generate_handle kind uuid in
       next_do (store_put handle material)
        (bind (store_get handle) (\<lambda>stored.
          if stored \<noteq> material
          then err (SecureStorageCorrupted ''credential store did not preserve protected material'')
          else next_do (lift (validate_material endpoint_id kind stored expected))
           (attempt (stage now handle kind expected) (\<lambda>staged. case staged of
               Inl e \<Rightarrow> next_do (delete_if_present handle) (err e)
             | Inr _ \<Rightarrow> next_do (activate now handle) (ok handle))))))"

definition load :: "(string \<Rightarrow> string) \<Rightarrow> string \<Rightarrow> ('z vault_scheme, string) proc" where
  "load endpoint_id handle = bind (find_secret handle) (\<lambda>found. case found of
      None \<Rightarrow> err (SecureStorageMissing ''protected secret metadata is missing'')
    | Some r \<Rightarrow>
        if sr_state r \<noteq> Active
        then err (SecureStorageUnavailable ''protected secret is not active'')
        else bind (store_get handle) (\<lambda>material.
          next_do (lift (validate_material endpoint_id (sr_kind r) material (sr_expected_identity r)))
            (ok material)))"

definition remove_secret :: "int \<Rightarrow> string \<Rightarrow> ('z vault_scheme, unit) proc" where
  "remove_secret now handle = bind (find_secret handle) (\<lambda>found.
     next_do (case found of None \<Rightarrow> ok () | Some _ \<Rightarrow> disable now handle)
       (delete_if_present handle))"

definition list_active_handles :: "SecretKind \<Rightarrow> ('z vault_scheme, string list) proc" where
  "list_active_handles kind = bind list_secrets (\<lambda>entries.
     ok (map sr_handle (filter (\<lambda>r. sr_kind r = kind \<and> sr_state r = Active) entries)))"

record summary =
  orphans_deleted :: nat
  staged_activated :: nat
  disabled :: nat

definition disable_entry :: "int \<Rightarrow> secret_ref \<Rightarrow> summary \<Rightarrow> ('z vault_scheme, summary) proc" where
  "disable_entry now entry sm =
     next_do (disable now (sr_handle entry))
      (next_do (delete_if_present (sr_handle entry)) (ok (sm\<lparr>disabled := Suc (disabled sm)\<rparr>)))"

definition reconcile_entry ::
    "(string \<Rightarrow> string) \<Rightarrow> int \<Rightarrow> secret_ref \<Rightarrow> summary \<Rightarrow> ('z vault_scheme, summary) proc" where
  "reconcile_entry endpoint_id now entry sm =
     (if sr_state entry = Disabled then next_do (delete_if_present (sr_handle entry)) (ok sm)
      else bind (store_get_raw (sr_handle entry)) (\<lambda>r. case r of
          Inr material \<Rightarrow>
            (case validate_material endpoint_id (sr_kind entry) material (sr_expected_identity entry) of
               Inl _ \<Rightarrow>
                 if sr_kind entry = EndpointIdentity
                 then err (SecureStorageCorrupted ''protected endpoint identity is corrupted'')
                 else disable_entry now entry sm
             | Inr _ \<Rightarrow>
                 if sr_state entry = Staged
                 then next_do (activate now (sr_handle entry))
                        (ok (sm\<lparr>staged_activated := Suc (staged_activated sm)\<rparr>))
                 else ok sm)
        | Inl e \<Rightarrow>
            if e = Missing \<or> e = Corrupted
            then if sr_kind entry = EndpointIdentity then err (map_store_error e)
                 else disable_entry now entry sm
            else err (map_store_error e)))"

definition delete_orphan :: "string list \<Rightarrow> string \<Rightarrow> summary \<Rightarrow> ('z vault_scheme, summary) proc" where
  "delete_orphan known handle sm =
     (if List.member known handle then ok sm
      else next_do (store_delete handle) (ok (sm\<lparr>orphans_deleted := Suc (orphans_deleted sm)\<rparr>)))"

definition reconcile :: "(string \<Rightarrow> string) \<Rightarrow> int \<Rightarrow> ('z vault_scheme, summary) proc" where
  "reconcile endpoint_id now = bind list_secrets (\<lambda>metadata.
     bind store_list_handles (\<lambda>stored_handles.
       bind (for_fold metadata (reconcile_entry endpoint_id now)
               \<lparr>orphans_deleted = 0, staged_activated = 0, disabled = 0\<rparr>)
            (for_fold stored_handles (delete_orphan (map sr_handle metadata)))))"

definition remove_orphan ::
    "int \<Rightarrow> string list \<Rightarrow> secret_ref \<Rightarrow> nat \<Rightarrow> ('z vault_scheme, nat) proc" where
  "remove_orphan now referenced entry removed =
     (if sr_kind entry = TargetedAuthorization \<and> sr_state entry = Active
         \<and> \<not> List.member referenced (sr_handle entry)
      then next_do (remove_secret now (sr_handle entry)) (ok (Suc removed))
      else ok removed)"

definition remove_orphaned_targeted_authorizations ::
    "int \<Rightarrow> string list \<Rightarrow> ('z vault_scheme, nat) proc" where
  "remove_orphaned_targeted_authorizations now referenced = bind list_secrets (\<lambda>entries.
     for_fold entries (remove_orphan now referenced) 0)"

end
