(* ===== verification/Secret_Custody_Facts.thy ===== *)
theory Secret_Custody_Facts
  imports Secret_Custody
begin

text \<open>
  What custody does: it never touches the transfer tables, a protected secret is loaded back,
  a removed one is not, and reconciliation makes metadata and values agree.
\<close>

section \<open>Custody leaves everything else alone\<close>

text \<open>Neither the transfer tables nor the state of the modules above custody change.\<close>

definition custody_frame :: "'z vault_scheme \<Rightarrow> 'z vault_scheme \<Rightarrow> bool" where
  "custody_frame s t \<longleftrightarrow> same_tables s t \<and> vault.more t = vault.more s"

interpretation cf: db_state custody_frame
  by unfold_locales (auto simp: custody_frame_def same_tables_def)

lemma frame_store_call:
  assumes "\<And>s. custody_frame s (snd (f s))"
  shows "custody_frame s (snd (store_call f s))"
proof -
  have "custody_frame s (s\<lparr>vs_failures := tl (vs_failures s)\<rparr>)" by (simp add: custody_frame_def same_tables_def)
  then show ?thesis
    using assms [of "s\<lparr>vs_failures := tl (vs_failures s)\<rparr>"]
    by (auto simp: store_call_def Let_def intro: cf.trans
        split: list.splits option.splits ReferenceStoreFailure.splits)
qed

lemma frame_store [intro]:
  "custody_frame s (snd (vs_put h m s))" "custody_frame s (snd (vs_get h s))"
  "custody_frame s (snd (vs_delete h s))" "custody_frame s (snd (vs_list_handles s))"
  unfolding vs_put_def vs_get_def vs_delete_def vs_list_handles_def
  by (rule frame_store_call, simp add: custody_frame_def same_tables_def split: option.splits)+

lemma snd_from_store [simp]: "snd (from_store m s) = snd (m s)"
  by (simp add: from_store_def split: prod.split sum.split)

lemma frame_from_store:
  "(\<And>s. custody_frame s (snd (m s))) \<Longrightarrow> stable custody_frame (from_store m)"
  by (simp add: stable_def)

lemma frame_store_procs:
  "stable custody_frame (store_put h m)" "stable custody_frame (store_get h)"
  "stable custody_frame (store_delete h)" "stable custody_frame store_list_handles"
  unfolding store_put_def store_get_def store_delete_def store_list_handles_def
  by (rule frame_from_store, rule frame_store)+

lemma frame_store_raw:
  "stable custody_frame (store_get_raw h)" "stable custody_frame (store_delete_raw h)"
  by (simp_all add: stable_def store_get_raw_def store_delete_raw_def case_prod_beta frame_store)

lemma frame_delete_if_present: "stable custody_frame (delete_if_present h)"
  unfolding delete_if_present_def
  by (intro cf.stable_rules frame_store_raw) (auto split: sum.splits SecureSecretStoreError.splits
      intro: cf.stable_rules)

lemma frame_metadata:
  "stable custody_frame (stage n h k x)" "stable custody_frame (set_metadata_state n h st)"
  "stable custody_frame (activate n h)" "stable custody_frame (disable n h)"
  "stable custody_frame (find_secret h)" "stable custody_frame list_secrets"
  "stable custody_frame (find_active_kind k)" "stable custody_frame (contains_kind k)"
proof -
  show set: "stable custody_frame (set_metadata_state n h st)" for st
    unfolding set_metadata_state_def
    by (rule cf.stable_transact) (auto simp: custody_frame_def same_tables_def Let_def split: if_splits)
  then show "stable custody_frame (activate n h)" "stable custody_frame (disable n h)"
    by (simp_all add: activate_def disable_def)
  show "stable custody_frame (stage n h k x)"
    unfolding stage_def
    by (rule cf.stable_transact) (auto simp: custody_frame_def same_tables_def Let_def split: if_splits)
qed (simp_all add: find_secret_def list_secrets_def find_active_kind_def contains_kind_def
      cf.stable_select)

lemmas frame_vault = cf.stable_rules frame_store_procs frame_store_raw
  frame_delete_if_present frame_metadata

lemma frame_protect: "stable custody_frame (protect ep n u k m x)"
  unfolding protect_def Let_def by (intro frame_vault)

lemma frame_load: "stable custody_frame (load ep h)"
  unfolding load_def by (intro frame_vault)

lemma frame_remove_secret: "stable custody_frame (remove_secret n h)"
  unfolding remove_secret_def by (intro frame_vault)

lemma frame_remove_orphans: "stable custody_frame (remove_orphaned_targeted_authorizations n hs)"
  unfolding remove_orphaned_targeted_authorizations_def remove_orphan_def
  by (intro frame_vault frame_remove_secret)

lemmas frame_custody = frame_vault frame_protect frame_load frame_remove_secret
  frame_remove_orphans

lemma tables_of_frame: "stable custody_frame m \<Longrightarrow> stable same_tables m"
  by (simp add: stable_def custody_frame_def)

lemmas tables_custody = tb.stable_rules frame_protect [THEN tables_of_frame]
  frame_load [THEN tables_of_frame] frame_remove_secret [THEN tables_of_frame]
  frame_remove_orphans [THEN tables_of_frame] frame_metadata [THEN tables_of_frame]

section \<open>Codecs\<close>

lemma kind_parse_as_str [simp]: "kind_parse (kind_as_str k) = Inr k"
  by (cases k) (simp_all add: kind_parse_def kind_as_str_def)

lemma kind_parse_Inr: "kind_parse v = Inr k \<Longrightarrow> v = kind_as_str k"
  by (auto simp: kind_parse_def kind_as_str_def split: if_splits)

lemma metadata_parse_as_str [simp]: "metadata_parse (metadata_as_str k) = Inr k"
  by (cases k) (simp_all add: metadata_parse_def metadata_as_str_def)

lemma metadata_parse_Inr: "metadata_parse v = Inr k \<Longrightarrow> v = metadata_as_str k"
  by (auto simp: metadata_parse_def metadata_as_str_def split: if_splits)

section \<open>What successful calls did\<close>

abbreviation tick_store :: "'z vault_scheme \<Rightarrow> 'z vault_scheme" where
  "tick_store s \<equiv> s\<lparr>vs_failures := tl (vs_failures s)\<rparr>"

abbreviation tick_db :: "'z db_scheme \<Rightarrow> 'z db_scheme" where
  "tick_db s \<equiv> s\<lparr>db_faults := tl (db_faults s)\<rparr>"

lemma bind_InrD: "bind m f s = (Inr y, t) \<Longrightarrow> \<exists>x s'. m s = (Inr x, s') \<and> f x s' = (Inr y, t)"
  by (simp add: bind_eq_Inr)

lemma next_InrD: "next_do m m' s = (Inr y, t) \<Longrightarrow> \<exists>x s'. m s = (Inr x, s') \<and> m' s' = (Inr y, t)"
  by (simp add: next_do_def bind_eq_Inr)

lemma lift_InrD: "lift r s = (Inr y, t) \<Longrightarrow> r = Inr y \<and> t = s"
  by (simp add: lift_def)

lemma store_get_rawD:
  assumes "store_get_raw h s = (Inr r, t)"
  shows "t = tick_store s"
    and "r = Inr m \<Longrightarrow> map_of (vs_values s) h = Some m \<and> h \<notin> set (vs_corrupted s)"
  using assms
  by (auto simp: store_get_raw_def vs_get_def store_call_def Let_def
      split: prod.splits list.splits option.splits ReferenceStoreFailure.splits if_splits)

lemma store_getD:
  "store_get h s = (Inr m, t) \<Longrightarrow>
   t = tick_store s \<and> map_of (vs_values s) h = Some m \<and> h \<notin> set (vs_corrupted s)"
  by (auto simp: store_get_def from_store_def vs_get_def store_call_def Let_def
      split: prod.splits list.splits option.splits ReferenceStoreFailure.splits if_splits sum.splits)

lemma store_putD:
  "store_put h m s = (Inr x, t) \<Longrightarrow>
   t = (tick_store s)\<lparr>vs_values := AList.update h m (vs_values s)\<rparr>"
  by (auto simp: store_put_def from_store_def vs_put_def store_call_def Let_def
      split: prod.splits list.splits option.splits ReferenceStoreFailure.splits if_splits sum.splits)

lemma store_deleteD:
  "store_delete h s = (Inr x, t) \<Longrightarrow>
   t = (tick_store s)\<lparr>vs_values := AList.delete h (vs_values s)\<rparr>"
  by (auto simp: store_delete_def from_store_def vs_delete_def store_call_def Let_def
      split: prod.splits list.splits option.splits ReferenceStoreFailure.splits if_splits sum.splits)

lemma store_list_handlesD:
  "store_list_handles s = (Inr hs, t) \<Longrightarrow> t = tick_store s \<and> hs = map fst (vs_values s)"
  by (auto simp: store_list_handles_def from_store_def vs_list_handles_def store_call_def Let_def
      split: prod.splits list.splits option.splits ReferenceStoreFailure.splits if_splits sum.splits)

lemma delete_if_presentD:
  "delete_if_present h s = (Inr x, t) \<Longrightarrow>
   t = (tick_store s)\<lparr>vs_values := AList.delete h (vs_values s)\<rparr>"
  by (auto simp: delete_if_present_def store_delete_raw_def vs_delete_def store_call_def Let_def
      proc_defs split: prod.splits list.splits option.splits ReferenceStoreFailure.splits sum.splits)

lemma set_metadata_stateD:
  "set_metadata_state n h st s = (Inr x, t) \<Longrightarrow>
   t = (tick_db s)\<lparr>protected_secret_refs := update_where (\<lambda>r. sr_handle r = h)
      (\<lambda>r. r\<lparr>sr_state := st, sr_updated_at := n\<rparr>) (protected_secret_refs s)\<rparr>"
  unfolding set_metadata_state_def by (drule transact_InrD) (auto simp: Let_def split: if_splits)

lemma stageD:
  "stage n h k x s = (Inr y, t) \<Longrightarrow>
   h \<notin> sr_handle ` set (protected_secret_refs s) \<and>
   t = (tick_db s)\<lparr>protected_secret_refs := protected_secret_refs s @
     [\<lparr>sr_handle = h, sr_kind = k, sr_state = Staged, sr_expected_identity = x,
       sr_created_at = n, sr_updated_at = n\<rparr>]\<rparr>"
  unfolding stage_def by (drule transact_InrD) (auto simp: Let_def split: if_splits)

lemma find_secretD:
  "find_secret h s = (Inr found, t) \<Longrightarrow>
   t = tick_db s \<and> found = find_by sr_handle h (protected_secret_refs s)"
  by (auto simp: find_secret_def dest!: select_InrD)

lemma list_secretsD:
  "list_secrets s = (Inr entries, t) \<Longrightarrow>
   t = tick_db s \<and> entries = sort_key sr_handle (protected_secret_refs s)"
  by (auto simp: list_secrets_def dest!: select_InrD)

lemma map_of_AList_delete: "map_of (AList.delete k al) k' = (if k' = k then None else map_of al k')"
  by (simp add: delete_conv)

lemma map_of_AList_update: "map_of (AList.update k v al) k' = (if k' = k then Some v else map_of al k')"
  by (simp add: update_conv)

section \<open>Protect, load, remove\<close>

text \<open>A state in which neither the database nor the credential store is failing.\<close>

definition healthy :: "'z vault_scheme \<Rightarrow> bool" where
  "healthy s \<longleftrightarrow> db_faults s = [] \<and> vs_failures s = []"

lemma load_healthy:
  assumes "healthy s" and "find_by sr_handle h (protected_secret_refs s) = Some r"
    and "sr_state r = Active" and "map_of (vs_values s) h = Some m" and "h \<notin> set (vs_corrupted s)"
    and "validate_material ep (sr_kind r) m (sr_expected_identity r) = Inr ()"
  shows "load ep h s = (Inr m, s)"
  using assms
  by (simp add: load_def find_secret_def select_def transact_no_fault healthy_def proc_defs
      store_get_def from_store_def vs_get_def store_call_def Let_def)

lemma load_InrD:
  "load ep h s = (Inr m, t) \<Longrightarrow>
   map_of (vs_values s) h = Some m \<and>
   (\<exists>r. find_by sr_handle h (protected_secret_refs s) = Some r \<and> sr_state r = Active)"
  unfolding load_def
  by (auto dest!: bind_InrD next_InrD find_secretD lift_InrD store_getD split: option.splits if_splits)

lemma protectD:
  assumes "protect ep n u k m x s = (Inr h, t)"
  shows "h = generate_handle k u"
    and "vs_values t = AList.update h m (vs_values s)"
    and "vs_corrupted t = vs_corrupted s" and "h \<notin> set (vs_corrupted s)"
    and "h \<notin> sr_handle ` set (protected_secret_refs s)"
    and "protected_secret_refs t = protected_secret_refs s @
      [\<lparr>sr_handle = h, sr_kind = k, sr_state = Active, sr_expected_identity = x,
        sr_created_at = n, sr_updated_at = n\<rparr>]"
    and "validate_material ep k m x = Inr ()"
proof -
  let ?h = "generate_handle k u"
  from assms obtain s1 s2 stored y where v: "validate_material ep k m x = Inr y"
    and put: "store_put ?h m s = (Inr (), s1)" and get: "store_get ?h s1 = (Inr stored, s2)"
    and stored: "stored = m"
    and rest: "attempt (stage n ?h k x) (\<lambda>staged. case staged of
               Inl e \<Rightarrow> next_do (delete_if_present ?h) (err e)
             | Inr _ \<Rightarrow> next_do (activate n ?h) (ok ?h)) s2 = (Inr h, t)"
    unfolding protect_def Let_def
    by (auto dest!: next_InrD bind_InrD lift_InrD split: if_splits)
  obtain r s3 where st: "stage n ?h k x s2 = (r, s3)" by (cases "stage n ?h k x s2")
  have "r = Inr ()"
  proof (cases r)
    case (Inl e)
    then show ?thesis using rest st by (auto simp: attempt_def dest!: next_InrD)
  qed simp
  with st have st: "stage n ?h k x s2 = (Inr (), s3)" by simp
  with rest obtain s4 where act: "activate n ?h s3 = (Inr (), s4)" and h: "h = ?h" "t = s4"
    by (auto simp: attempt_def dest!: next_InrD)
  note put' = store_putD [OF put] and get' = store_getD [OF get] and st' = stageD [OF st]
    and act' = set_metadata_stateD [OF act [unfolded activate_def]]
  show "h = ?h" by (rule h(1))
  show "vs_values t = AList.update h m (vs_values s)"
    using put' get' st' act' h by simp
  show "vs_corrupted t = vs_corrupted s" "h \<notin> set (vs_corrupted s)"
    using put' get' st' act' h by simp_all
  show new: "h \<notin> sr_handle ` set (protected_secret_refs s)" using put' get' st' h by simp
  from new have other: "\<forall>r \<in> set (protected_secret_refs s). sr_handle r \<noteq> h" by blast
  show "protected_secret_refs t = protected_secret_refs s @
      [\<lparr>sr_handle = h, sr_kind = k, sr_state = Active, sr_expected_identity = x,
        sr_created_at = n, sr_updated_at = n\<rparr>]"
    using put' get' st' act' h update_where_none [OF other]
    by (simp add: update_where_def)
  show "validate_material ep k m x = Inr ()" using v by simp
qed

lemma protect_load_aux:
  assumes "protect ep n u k m x s = (Inr h, t)" and "healthy t"
  shows "load ep h t = (Inr m, t)"
proof (rule load_healthy [OF assms(2)])
  note d = protectD [OF assms(1)]
  show "find_by sr_handle h (protected_secret_refs t) =
      Some \<lparr>sr_handle = h, sr_kind = k, sr_state = Active, sr_expected_identity = x,
        sr_created_at = n, sr_updated_at = n\<rparr>"
    using d(5,6) by (simp add: find_append_new)
  show "map_of (vs_values t) h = Some m" using d(2) by (simp add: map_of_AList_update)
  show "h \<notin> set (vs_corrupted t)" using d(3,4) by simp
qed (use protectD(7) [OF assms(1)] in simp_all)

lemma remove_secretD:
  assumes "remove_secret n h s = (Inr (), t)"
  shows "map_of (vs_values t) k = (if k = h then None else map_of (vs_values s) k)"
    and "map sr_handle (protected_secret_refs t) = map sr_handle (protected_secret_refs s)"
    and "\<forall>r \<in> set (protected_secret_refs t). sr_handle r = h \<longrightarrow> sr_state r = Disabled"
    and "\<forall>r. sr_handle r \<noteq> h \<longrightarrow> r \<in> set (protected_secret_refs t) \<longleftrightarrow> r \<in> set (protected_secret_refs s)"
    and "vs_corrupted t = vs_corrupted s"
proof -
  from assms obtain s1 s2 x where
    mid: "(case find_by sr_handle h (protected_secret_refs s) of None \<Rightarrow> ok () | Some _ \<Rightarrow> disable n h) s1
        = (Inr x, s2)" and s1: "s1 = tick_db s" and del: "delete_if_present h s2 = (Inr (), t)"
    unfolding remove_secret_def by (auto dest!: bind_InrD next_InrD find_secretD)
  note t = delete_if_presentD [OF del]
  have refs: "protected_secret_refs t = update_where (\<lambda>r. sr_handle r = h)
      (\<lambda>r. r\<lparr>sr_state := Disabled, sr_updated_at := n\<rparr>) (protected_secret_refs s)
      \<and> vs_values s2 = vs_values s \<and> vs_corrupted s2 = vs_corrupted s"
  proof (cases "find_by sr_handle h (protected_secret_refs s)")
    case None
    then have "\<forall>r \<in> set (protected_secret_refs s). sr_handle r \<noteq> h"
      by (auto simp: find_by_None_iff)
    moreover have "s2 = tick_db s" using None mid s1 by simp
    ultimately show ?thesis using t by (simp add: update_where_none)
  next
    case (Some r)
    with mid have "disable n h s1 = (Inr x, s2)" by simp
    then show ?thesis using set_metadata_stateD [of n h Disabled s1 x s2] s1 t by (simp add: disable_def)
  qed
  show "map_of (vs_values t) k = (if k = h then None else map_of (vs_values s) k)"
    using t refs by (simp add: map_of_AList_delete)
  show "map sr_handle (protected_secret_refs t) = map sr_handle (protected_secret_refs s)"
    using refs by (simp add: map_update_where)
  show "\<forall>r \<in> set (protected_secret_refs t). sr_handle r = h \<longrightarrow> sr_state r = Disabled"
  proof (intro ballI impI)
    fix q assume q: "q \<in> set (protected_secret_refs t)" "sr_handle q = h"
    from q(1) refs have "q \<in> set (update_where (\<lambda>r. sr_handle r = h)
      (\<lambda>r. r\<lparr>sr_state := Disabled, sr_updated_at := n\<rparr>) (protected_secret_refs s))" by simp
    from update_where_hit [OF _ this q(2)] obtain r
      where "q = r\<lparr>sr_state := Disabled, sr_updated_at := n\<rparr>" by auto
    then show "sr_state q = Disabled" by simp
  qed
  show "\<forall>r. sr_handle r \<noteq> h \<longrightarrow> r \<in> set (protected_secret_refs t) \<longleftrightarrow> r \<in> set (protected_secret_refs s)"
  proof (intro allI impI)
    fix q :: secret_ref assume "sr_handle q \<noteq> h"
    then show "q \<in> set (protected_secret_refs t) \<longleftrightarrow> q \<in> set (protected_secret_refs s)"
      using refs by (simp add: update_where_other)
  qed
  show "vs_corrupted t = vs_corrupted s" using t refs by simp
qed

section \<open>Reconciliation\<close>

text \<open>Every handle is the primary key of one metadata row.\<close>

abbreviation handles_of :: "'z vault_scheme \<Rightarrow> string list" where
  "handles_of s \<equiv> map sr_handle (protected_secret_refs s)"

text \<open>A row reconciliation is done with: gone and disabled, or active and readable.\<close>

definition settled :: "(string \<Rightarrow> string) \<Rightarrow> 'z vault_scheme \<Rightarrow> secret_ref \<Rightarrow> bool" where
  "settled ep s r \<longleftrightarrow>
     (sr_state r = Disabled \<and> map_of (vs_values s) (sr_handle r) = None) \<or>
     (sr_state r = Active \<and> sr_handle r \<notin> set (vs_corrupted s) \<and>
      (\<exists>m. map_of (vs_values s) (sr_handle r) = Some m \<and>
        validate_material ep (sr_kind r) m (sr_expected_identity r) = Inr ()))"

text \<open>What a step about one handle leaves alone.\<close>

definition only_handle :: "string set \<Rightarrow> 'z vault_scheme \<Rightarrow> 'z vault_scheme \<Rightarrow> bool" where
  "only_handle H s t \<longleftrightarrow>
     handles_of t = handles_of s \<and> vs_corrupted t = vs_corrupted s \<and>
     (\<forall>r. sr_handle r \<notin> H \<longrightarrow> r \<in> set (protected_secret_refs t) \<longleftrightarrow> r \<in> set (protected_secret_refs s)) \<and>
     (\<forall>k. k \<notin> H \<longrightarrow> map_of (vs_values t) k = map_of (vs_values s) k) \<and>
     (\<forall>k. map_of (vs_values s) k = None \<longrightarrow> map_of (vs_values t) k = None)"

lemma only_handle_trans:
  assumes "only_handle H s t" and "only_handle K t u"
  shows "only_handle (H \<union> K) s u"
  using assms unfolding only_handle_def Un_iff de_Morgan_disj by metis

lemma only_handle_same:
  "handles_of t = handles_of s \<Longrightarrow> vs_corrupted t = vs_corrupted s \<Longrightarrow>
   protected_secret_refs t = protected_secret_refs s \<Longrightarrow> vs_values t = vs_values s \<Longrightarrow> only_handle H s t"
  by (simp add: only_handle_def)

lemma only_handle_set_state:
  assumes "protected_secret_refs t = update_where (\<lambda>r. sr_handle r = h)
      (\<lambda>r. r\<lparr>sr_state := st, sr_updated_at := n\<rparr>) (protected_secret_refs s)"
    and "vs_corrupted t = vs_corrupted s"
    and "vs_values t = vs_values s \<or> vs_values t = AList.delete h (vs_values s)"
  shows "only_handle {h} s t"
  unfolding only_handle_def
proof (intro conjI allI impI)
  show "handles_of t = handles_of s" using assms(1) by (simp add: map_update_where)
  show "vs_corrupted t = vs_corrupted s" by (rule assms(2))
next
  fix r :: secret_ref assume "sr_handle r \<notin> {h}"
  then show "r \<in> set (protected_secret_refs t) \<longleftrightarrow> r \<in> set (protected_secret_refs s)"
    using assms(1) by (simp add: update_where_other)
next
  fix k
  show "k \<notin> {h} \<Longrightarrow> map_of (vs_values t) k = map_of (vs_values s) k"
    and "map_of (vs_values s) k = None \<Longrightarrow> map_of (vs_values t) k = None"
    using assms(3) by (auto simp: map_of_AList_delete)
qed

lemma settled_other:
  "only_handle H s t \<Longrightarrow> sr_handle r \<notin> H \<Longrightarrow> settled ep t r = settled ep s r"
  by (simp add: settled_def only_handle_def)

text \<open>The row of a handle after its state is set.\<close>

lemma refs_after_set_state:
  assumes "protected_secret_refs t = update_where (\<lambda>r. sr_handle r = h)
      (\<lambda>r. r\<lparr>sr_state := st, sr_updated_at := n\<rparr>) (protected_secret_refs s)"
    and "distinct (handles_of s)" and "e \<in> set (protected_secret_refs s)" and "sr_handle e = h"
    and "q \<in> set (protected_secret_refs t)" and "sr_handle q = h"
  shows "q = e\<lparr>sr_state := st, sr_updated_at := n\<rparr>"
proof -
  from assms(5) assms(1) have "q \<in> set (update_where (\<lambda>r. sr_handle r = h)
      (\<lambda>r. r\<lparr>sr_state := st, sr_updated_at := n\<rparr>) (protected_secret_refs s))" by simp
  from update_where_hit [OF _ this assms(6)] obtain r
    where r: "r \<in> set (protected_secret_refs s)" "sr_handle r = h"
      "q = r\<lparr>sr_state := st, sr_updated_at := n\<rparr>" by auto
  have "r = e" using assms(2-4) r(1,2) by (metis find_by_unique option.inject)
  with r(3) show ?thesis by simp
qed

lemma same_handle_eq:
  "distinct (handles_of s) \<Longrightarrow> e \<in> set (protected_secret_refs s) \<Longrightarrow> q \<in> set (protected_secret_refs s) \<Longrightarrow>
   sr_handle q = sr_handle e \<Longrightarrow> q = e"
  by (metis find_by_unique option.inject)

definition entry_done :: "(string \<Rightarrow> string) \<Rightarrow> secret_ref \<Rightarrow> 'z vault_scheme \<Rightarrow> 'z vault_scheme \<Rightarrow> bool" where
  "entry_done ep e s t \<longleftrightarrow> only_handle {sr_handle e} s t \<and>
     (\<forall>q \<in> set (protected_secret_refs t). sr_handle q = sr_handle e \<longrightarrow> settled ep t q)"

lemma disable_entry_done:
  assumes run: "disable_entry n e sm s = (Inr sm', t)"
    and e: "distinct (handles_of s)" "e \<in> set (protected_secret_refs s)"
  shows "entry_done ep e s t"
proof -
  from run obtain s1 where dis: "disable n (sr_handle e) s = (Inr (), s1)"
    and del: "delete_if_present (sr_handle e) s1 = (Inr (), t)"
    unfolding disable_entry_def by (auto dest!: next_InrD)
  note s1 = set_metadata_stateD [OF dis [unfolded disable_def]] and t = delete_if_presentD [OF del]
  have refs: "protected_secret_refs t = update_where (\<lambda>r. sr_handle r = sr_handle e)
      (\<lambda>r. r\<lparr>sr_state := Disabled, sr_updated_at := n\<rparr>) (protected_secret_refs s)"
    and vals: "vs_values t = AList.delete (sr_handle e) (vs_values s)"
    using s1 t by simp_all
  have "settled ep t q" if q: "q \<in> set (protected_secret_refs t)" "sr_handle q = sr_handle e" for q
    using refs_after_set_state [OF refs e refl q] vals by (simp add: settled_def map_of_AList_delete)
  moreover have "only_handle {sr_handle e} s t"
    using s1 t by (intro only_handle_set_state [OF refs]) (simp_all add: vals)
  ultimately show ?thesis by (simp add: entry_done_def)
qed

lemma reconcile_entry_done:
  assumes run: "reconcile_entry ep n e sm s = (Inr sm', t)"
    and e: "distinct (handles_of s)" "e \<in> set (protected_secret_refs s)"
  shows "entry_done ep e s t"
proof (cases "sr_state e = Disabled")
  case True
  with run have del: "delete_if_present (sr_handle e) s = (Inr (), t)"
    by (auto simp: reconcile_entry_def dest!: next_InrD)
  note t = delete_if_presentD [OF del]
  have "only_handle {sr_handle e} s t"
    using t by (simp add: only_handle_def map_of_AList_delete)
  moreover have "settled ep t q" if "q \<in> set (protected_secret_refs t)" "sr_handle q = sr_handle e" for q
    using same_handle_eq [OF e, of q] that t True by (simp add: settled_def map_of_AList_delete)
  ultimately show ?thesis by (simp add: entry_done_def)
next
  case enabled: False
  with run obtain r s1 where get: "store_get_raw (sr_handle e) s = (Inr r, s1)"
    and rest: "(case r of
          Inr material \<Rightarrow>
            (case validate_material ep (sr_kind e) material (sr_expected_identity e) of
               Inl _ \<Rightarrow>
                 if sr_kind e = EndpointIdentity
                 then err (SecureStorageCorrupted ''protected endpoint identity is corrupted'')
                 else disable_entry n e sm
             | Inr _ \<Rightarrow>
                 if sr_state e = Staged
                 then next_do (activate n (sr_handle e))
                        (ok (sm\<lparr>staged_activated := Suc (staged_activated sm)\<rparr>))
                 else ok sm)
        | Inl x \<Rightarrow>
            if x = Missing \<or> x = Corrupted
            then if sr_kind e = EndpointIdentity then err (map_store_error x)
                 else disable_entry n e sm
            else err (map_store_error x)) s1 = (Inr sm', t)"
    unfolding reconcile_entry_def by (auto dest!: bind_InrD)
  note s1 = store_get_rawD(1) [OF get]
  have same: "only_handle {sr_handle e} s s1" unfolding s1 by (rule only_handle_same) simp_all
  have e1: "distinct (handles_of s1)" "e \<in> set (protected_secret_refs s1)" using e s1 by simp_all
  have step: "entry_done ep e s t" if "entry_done ep e s1 t"
    using that only_handle_trans [OF same, of "{sr_handle e}" t] by (simp add: entry_done_def)
  show ?thesis
  proof (cases r)
    case (Inl x)
    then show ?thesis using rest by (intro step disable_entry_done [OF _ e1]) (auto split: if_splits)
  next
    case (Inr m)
    have m: "map_of (vs_values s) (sr_handle e) = Some m" "sr_handle e \<notin> set (vs_corrupted s)"
      using store_get_rawD(2) [OF get Inr] by simp_all
    show ?thesis
    proof (cases "validate_material ep (sr_kind e) m (sr_expected_identity e)")
      case (Inl x)
      with rest Inr show ?thesis by (intro step disable_entry_done [OF _ e1]) (auto split: if_splits)
    next
      case valid: (Inr u)
      show ?thesis
      proof (cases "sr_state e = Staged")
        case False
        with rest Inr valid have t: "t = s1" by simp
        have "sr_state e = Active" using enabled False by (cases "sr_state e") simp_all
        then have "settled ep t q" if "q \<in> set (protected_secret_refs t)" "sr_handle q = sr_handle e" for q
          using same_handle_eq [OF e1, of q] that t s1 m valid by (simp add: settled_def)
        with same t show ?thesis by (simp add: entry_done_def)
      next
        case True
        with rest Inr valid have act: "activate n (sr_handle e) s1 = (Inr (), t)"
          by (auto dest!: next_InrD)
        note t = set_metadata_stateD [OF act [unfolded activate_def]]
        have refs: "protected_secret_refs t = update_where (\<lambda>r. sr_handle r = sr_handle e)
            (\<lambda>r. r\<lparr>sr_state := Active, sr_updated_at := n\<rparr>) (protected_secret_refs s1)"
          using t by simp
        have "settled ep t q" if q: "q \<in> set (protected_secret_refs t)" "sr_handle q = sr_handle e" for q
          using refs_after_set_state [OF refs e1 refl q] t s1 m valid by (simp add: settled_def)
        moreover have "only_handle {sr_handle e} s1 t"
          using t by (intro only_handle_set_state [OF refs]) simp_all
        ultimately show ?thesis by (intro step) (simp add: entry_done_def)
      qed
    qed
  qed
qed

lemma reconcile_entries_done:
  assumes "for_fold L (reconcile_entry ep n) sm s = (Inr sm', t)"
    and "distinct (map sr_handle L)" and "set L \<subseteq> set (protected_secret_refs s)"
    and "distinct (handles_of s)"
  shows "only_handle (sr_handle ` set L) s t \<and>
    (\<forall>q \<in> set (protected_secret_refs t). sr_handle q \<in> sr_handle ` set L \<longrightarrow> settled ep t q)"
  using assms
proof (induction L arbitrary: sm s)
  case Nil
  then show ?case by (auto simp: only_handle_def)
next
  case (Cons e L)
  from Cons.prems(1) obtain sm1 s1 where one: "reconcile_entry ep n e sm s = (Inr sm1, s1)"
    and rest: "for_fold L (reconcile_entry ep n) sm1 s1 = (Inr sm', t)"
    by (auto dest!: bind_InrD)
  have e: "e \<in> set (protected_secret_refs s)" and fresh: "sr_handle e \<notin> sr_handle ` set L"
    using Cons.prems(2,3) by auto
  from reconcile_entry_done [OF one Cons.prems(4) e]
  have o1: "only_handle {sr_handle e} s s1"
    and d1: "\<forall>q \<in> set (protected_secret_refs s1). sr_handle q = sr_handle e \<longrightarrow> settled ep s1 q"
    by (auto simp: entry_done_def)
  have sub: "set L \<subseteq> set (protected_secret_refs s1)"
  proof
    fix x assume x: "x \<in> set L"
    then have "sr_handle x \<in> sr_handle ` set L" by (rule imageI)
    with fresh have "sr_handle x \<noteq> sr_handle e" by metis
    with x o1 Cons.prems(3) show "x \<in> set (protected_secret_refs s1)" by (auto simp: only_handle_def)
  qed
  have dist: "distinct (handles_of s1)" using o1 Cons.prems(4) by (simp add: only_handle_def)
  have IH: "only_handle (sr_handle ` set L) s1 t"
    "\<forall>q \<in> set (protected_secret_refs t). sr_handle q \<in> sr_handle ` set L \<longrightarrow> settled ep t q"
    using Cons.IH [OF rest _ sub dist] Cons.prems(2) by simp_all
  have "only_handle (sr_handle ` set (e # L)) s t" using only_handle_trans [OF o1 IH(1)] by simp
  moreover have "settled ep t q" if q: "q \<in> set (protected_secret_refs t)" "sr_handle q = sr_handle e" for q
  proof -
    have "q \<in> set (protected_secret_refs s1)" using q fresh IH(1) by (auto simp: only_handle_def)
    with d1 q have "settled ep s1 q" by blast
    then show ?thesis using settled_other [OF IH(1), of q] q fresh by simp
  qed
  ultimately show ?case using IH(2) by auto
qed

lemma orphans_done:
  assumes "for_fold hs (delete_orphan known) sm s = (Inr sm', t)"
  shows "protected_secret_refs t = protected_secret_refs s \<and> vs_corrupted t = vs_corrupted s \<and>
    (\<forall>k. map_of (vs_values t) k =
      (if k \<in> set hs \<and> k \<notin> set known then None else map_of (vs_values s) k))"
  using assms
proof (induction hs arbitrary: sm s)
  case Nil
  then show ?case by simp
next
  case (Cons h hs)
  from Cons.prems obtain sm1 s1 where one: "delete_orphan known h sm s = (Inr sm1, s1)"
    and rest: "for_fold hs (delete_orphan known) sm1 s1 = (Inr sm', t)"
    by (auto dest!: bind_InrD)
  have "protected_secret_refs s1 = protected_secret_refs s \<and> vs_corrupted s1 = vs_corrupted s \<and>
    (\<forall>k. map_of (vs_values s1) k =
      (if k = h \<and> k \<notin> set known then None else map_of (vs_values s) k))"
    using one by (auto simp: delete_orphan_def map_of_AList_delete dest!: next_InrD store_deleteD
        split: if_splits)
  then show ?case using Cons.IH [OF rest] by auto
qed

lemma reconcile_done:
  assumes run: "reconcile ep n s = (Inr sm, t)" and dist: "distinct (handles_of s)"
  shows "handles_of t = handles_of s"
    and "\<forall>r \<in> set (protected_secret_refs t). settled ep t r"
    and "map_of (vs_values t) k \<noteq> None \<longleftrightarrow>
      (\<exists>r \<in> set (protected_secret_refs t). sr_handle r = k \<and> sr_state r = Active)"
proof -
  let ?L = "sort_key sr_handle (protected_secret_refs s)"
  from run obtain s1 s2 sm1 s3 where s1: "s1 = tick_db s" and s2: "s2 = tick_store s1"
    and entries: "for_fold ?L (reconcile_entry ep n)
      \<lparr>orphans_deleted = 0, staged_activated = 0, disabled = 0\<rparr> s2 = (Inr sm1, s3)"
    and orphans: "for_fold (map fst (vs_values s1)) (delete_orphan (map sr_handle ?L)) sm1 s3 = (Inr sm, t)"
    unfolding reconcile_def by (auto dest!: bind_InrD list_secretsD store_list_handlesD)
  have L: "distinct (map sr_handle ?L)" "set ?L \<subseteq> set (protected_secret_refs s2)"
    "distinct (handles_of s2)" "sr_handle ` set ?L = set (handles_of s)"
    using dist s1 s2 by (simp_all add: distinct_map)
  from reconcile_entries_done [OF entries L(1-3)] L(4)
  have o3: "only_handle (set (handles_of s)) s2 s3"
    and d3: "\<forall>q \<in> set (protected_secret_refs s3). sr_handle q \<in> set (handles_of s) \<longrightarrow> settled ep s3 q"
    by simp_all
  from orphans_done [OF orphans]
  have t: "protected_secret_refs t = protected_secret_refs s3" "vs_corrupted t = vs_corrupted s3"
    and vals: "\<And>k. map_of (vs_values t) k =
      (if k \<in> fst ` set (vs_values s) \<and> k \<notin> set (handles_of s) then None else map_of (vs_values s3) k)"
    using s1 by (auto simp: image_image)
  show keys: "handles_of t = handles_of s" using o3 t s1 s2 by (simp add: only_handle_def)
  have in_keys: "sr_handle r \<in> set (handles_of s)" if "r \<in> set (protected_secret_refs t)" for r
    using that keys by (metis image_eqI list.set_map)
  show all: "\<forall>r \<in> set (protected_secret_refs t). settled ep t r"
  proof
    fix r assume r: "r \<in> set (protected_secret_refs t)"
    then have "settled ep s3 r" using d3 in_keys t by simp
    then show "settled ep t r" using in_keys [OF r] vals t by (simp add: settled_def)
  qed
  show "map_of (vs_values t) k \<noteq> None \<longleftrightarrow>
      (\<exists>r \<in> set (protected_secret_refs t). sr_handle r = k \<and> sr_state r = Active)"
  proof
    assume some: "map_of (vs_values t) k \<noteq> None"
    then have "map_of (vs_values s3) k \<noteq> None" and mem: "k \<notin> fst ` set (vs_values s) \<or> k \<in> set (handles_of s)"
      using vals [of k] by (auto split: if_splits)
    then have "map_of (vs_values s) k \<noteq> None" using o3 s1 s2 by (auto simp: only_handle_def)
    then have "k \<in> set (handles_of s)" using mem by (simp add: map_of_eq_None_iff)
    then obtain r where r: "r \<in> set (protected_secret_refs t)" "sr_handle r = k"
      using keys by (metis imageE list.set_map)
    then have "settled ep t r" using all by blast
    then have "sr_state r = Active" using r some by (auto simp: settled_def)
    with r show "\<exists>r \<in> set (protected_secret_refs t). sr_handle r = k \<and> sr_state r = Active" by blast
  next
    assume "\<exists>r \<in> set (protected_secret_refs t). sr_handle r = k \<and> sr_state r = Active"
    then obtain r where "r \<in> set (protected_secret_refs t)" "sr_handle r = k" "sr_state r = Active" by blast
    then show "map_of (vs_values t) k \<noteq> None" using all by (auto simp: settled_def)
  qed
qed

end
