(* ===== verification/Custody_Properties.thy ===== *)
theory Custody_Properties
  imports Secret_Custody_Facts
begin

text \<open>
  The properties of secret custody: what is protected is loaded back, what is removed is gone
  for good, and a successful reconciliation repairs every state a crash can leave without
  touching a secret that was usable.
\<close>

section \<open>Usable secrets survive reconciliation\<close>

definition usable :: "(string \<Rightarrow> string) \<Rightarrow> string \<Rightarrow> 'z vault_scheme \<Rightarrow> secret_ref \<Rightarrow> bool" where
  "usable ep m s r \<longleftrightarrow> r \<in> set (protected_secret_refs s) \<and> sr_state r = Active \<and>
     sr_handle r \<notin> set (vs_corrupted s) \<and> map_of (vs_values s) (sr_handle r) = Some m \<and>
     validate_material ep (sr_kind r) m (sr_expected_identity r) = Inr ()"

lemma usable_other: "only_handle H s t \<Longrightarrow> sr_handle r \<notin> H \<Longrightarrow> usable ep m t r = usable ep m s r"
  by (simp add: usable_def only_handle_def)

lemma reconcile_entry_usable:
  assumes run: "reconcile_entry ep n e sm s = (Inr sm', t)"
    and e: "distinct (handles_of s)" "e \<in> set (protected_secret_refs s)" and r: "usable ep m s r"
  shows "usable ep m t r"
proof (cases "sr_handle e = sr_handle r")
  case False
  have "only_handle {sr_handle e} s t"
    using reconcile_entry_done [OF run e] by (simp add: entry_done_def)
  with False r show ?thesis by (simp add: usable_other)
next
  case True
  have "r \<in> set (protected_secret_refs s)" using r by (simp add: usable_def)
  then have "e = r" using same_handle_eq [OF e(1) _ e(2)] True by simp
  obtain x s1 where g: "store_get_raw (sr_handle r) s = (Inr x, s1)"
    by (cases "vs_get (sr_handle r) s") (simp add: store_get_raw_def)
  have "x = Inr m \<or> x = Inl Locked \<or> x = Inl Unavailable"
    using g r by (auto simp: usable_def store_get_raw_def vs_get_def store_call_def Let_def
      split: prod.splits list.splits option.splits ReferenceStoreFailure.splits if_splits)
  then have "t = tick_store s"
    using run g r \<open>e = r\<close> store_get_rawD(1) [OF g]
    by (auto simp: reconcile_entry_def usable_def proc_defs)
  with r show ?thesis by (simp add: usable_def)
qed

lemma reconcile_entries_usable:
  assumes "for_fold L (reconcile_entry ep n) sm s = (Inr sm', t)"
    and "distinct (map sr_handle L)" and "set L \<subseteq> set (protected_secret_refs s)"
    and "distinct (handles_of s)" and "usable ep m s r"
  shows "usable ep m t r"
  using assms
proof (induction L arbitrary: sm s)
  case (Cons e L)
  from Cons.prems(1) obtain sm1 s1 where one: "reconcile_entry ep n e sm s = (Inr sm1, s1)"
    and rest: "for_fold L (reconcile_entry ep n) sm1 s1 = (Inr sm', t)"
    by (auto dest!: bind_InrD)
  have e: "e \<in> set (protected_secret_refs s)" and fresh: "sr_handle e \<notin> sr_handle ` set L"
    using Cons.prems(2,3) by auto
  have o1: "only_handle {sr_handle e} s s1"
    using reconcile_entry_done [OF one Cons.prems(4) e] by (simp add: entry_done_def)
  have "x \<in> set (protected_secret_refs s1)" if x: "x \<in> set L" for x
  proof -
    have "sr_handle x \<noteq> sr_handle e" using x fresh by (metis imageI)
    then show ?thesis using x o1 Cons.prems(3) by (auto simp: only_handle_def)
  qed
  moreover have "distinct (handles_of s1)" using o1 Cons.prems(4) by (simp add: only_handle_def)
  moreover have "usable ep m s1 r" by (rule reconcile_entry_usable [OF one Cons.prems(4) e Cons.prems(5)])
  ultimately show ?case using Cons.IH [OF rest] Cons.prems(2) by auto
qed simp

lemma reconcile_usable:
  assumes run: "reconcile ep n s = (Inr sm, t)" and dist: "distinct (handles_of s)"
    and r: "usable ep m s r"
  shows "usable ep m t r"
proof -
  let ?L = "sort_key sr_handle (protected_secret_refs s)"
  from run obtain s1 s2 sm1 s3 where s1: "s1 = tick_db s" and s2: "s2 = tick_store s1"
    and entries: "for_fold ?L (reconcile_entry ep n)
      \<lparr>orphans_deleted = 0, staged_activated = 0, disabled = 0\<rparr> s2 = (Inr sm1, s3)"
    and orphans: "for_fold (map fst (vs_values s1)) (delete_orphan (map sr_handle ?L)) sm1 s3 = (Inr sm, t)"
    unfolding reconcile_def by (auto dest!: bind_InrD list_secretsD store_list_handlesD)
  have "usable ep m s3 r"
    by (rule reconcile_entries_usable [OF entries])
      (use dist r s1 s2 in \<open>simp_all add: distinct_map usable_def\<close>)
  moreover have "sr_handle r \<in> set (map sr_handle ?L)" using r by (simp add: usable_def)
  ultimately show ?thesis using orphans_done [OF orphans] by (simp add: usable_def)
qed

section \<open>Properties\<close>

definition ref_vault :: "secret_ref list \<Rightarrow> (string \<times> string) list \<Rightarrow> vault" where
  "ref_vault refs vals = \<lparr>
     targeted_transfers = [], accepted_offer_intents = [], authorization_delivery_outbox = [],
     completion_outbox = [], payload_release_outbox = [], schema_migrations = [], db_faults = [],
     protected_secret_refs = refs, vs_values = vals, vs_corrupted = [], vs_failures = []\<rparr>"

definition ref_entry :: "string \<Rightarrow> SecretMetadataState \<Rightarrow> secret_ref" where
  "ref_entry h st = \<lparr>sr_handle = h, sr_kind = RelationshipGrant, sr_state = st,
     sr_expected_identity = None, sr_created_at = 0, sr_updated_at = 0\<rparr>"

text \<open>
  C33: when protecting key material succeeds, the handle is new,
  it is recorded as active, the working stores give back exactly the material under it, and no
  other secret and no other metadata row has changed.
\<close>

theorem protected_secret_is_loaded_back:
  assumes "protect ep now uuid kind m expected s = (Inr h, t)"
  shows "h \<notin> sr_handle ` set (protected_secret_refs s) \<and>
    (healthy t \<longrightarrow> load ep h t = (Inr m, t)) \<and>
    (\<exists>r \<in> set (protected_secret_refs t). sr_handle r = h \<and> sr_kind r = kind \<and> sr_state r = Active) \<and>
    (\<forall>k. k \<noteq> h \<longrightarrow> map_of (vs_values t) k = map_of (vs_values s) k) \<and>
    (\<forall>r. sr_handle r \<noteq> h \<longrightarrow> r \<in> set (protected_secret_refs t) \<longleftrightarrow> r \<in> set (protected_secret_refs s))"
  using protectD [OF assms] protect_load_aux [OF assms] by (auto simp: map_of_AList_update)

theorem protected_secret_is_loaded_back_witness:
  "\<exists>h t. protect (\<lambda>_. '''') 0 ''u'' RelationshipGrant (replicate 32 (CHR ''k'')) None (ref_vault [] []) = (Inr h, t) \<and>
     load (\<lambda>_. '''') h t = (Inr (replicate 32 (CHR ''k'')), t)"
proof -
  let ?m = "replicate 32 (CHR ''k'')" and ?h = "generate_handle RelationshipGrant ''u''"
  let ?r = "\<lparr>sr_handle = ?h, sr_kind = RelationshipGrant, sr_state = Active,
      sr_expected_identity = None, sr_created_at = 0, sr_updated_at = 0\<rparr>"
  have p: "protect (\<lambda>_. '''') 0 ''u'' RelationshipGrant ?m None (ref_vault [] []) = (Inr ?h, ref_vault [?r] [(?h, ?m)])"
    by (simp add: protect_def validate_material_def proc_defs store_put_def store_get_def from_store_def
        vs_put_def vs_get_def store_call_def stage_def activate_def set_metadata_state_def transact_def
        one_endpoint_identity_def affected_def update_where_def ref_vault_def Let_def)
  have "healthy (ref_vault [?r] [(?h, ?m)])" by (simp add: healthy_def ref_vault_def)
  with protected_secret_is_loaded_back [OF p] p show ?thesis by blast
qed

text \<open>
  C34: after a successful removal the handle can never be loaded, whatever
  the stores do later, its value is erased, and every other secret is as it was.
\<close>

theorem removed_secret_is_gone:
  assumes "remove_secret now h s = (Inr (), t)"
  shows "(\<forall>faults failures m. fst (load ep h (t\<lparr>db_faults := faults, vs_failures := failures\<rparr>)) \<noteq> Inr m) \<and>
    map_of (vs_values t) h = None \<and>
    (\<forall>k. k \<noteq> h \<longrightarrow> map_of (vs_values t) k = map_of (vs_values s) k) \<and>
    (\<forall>r. sr_handle r \<noteq> h \<longrightarrow> r \<in> set (protected_secret_refs t) \<longleftrightarrow> r \<in> set (protected_secret_refs s))"
proof -
  note d = remove_secretD [OF assms]
  have "fst (load ep h (t\<lparr>db_faults := faults, vs_failures := failures\<rparr>)) \<noteq> Inr m" for faults failures m
  proof
    assume "fst (load ep h (t\<lparr>db_faults := faults, vs_failures := failures\<rparr>)) = Inr m"
    then obtain u where "load ep h (t\<lparr>db_faults := faults, vs_failures := failures\<rparr>) = (Inr m, u)"
      by (metis prod.collapse)
    from load_InrD [OF this] d(1) [of h] show False by simp
  qed
  with d show ?thesis by simp
qed

theorem removed_secret_is_gone_witness:
  "\<exists>t. remove_secret 1 ''h'' (ref_vault [ref_entry ''h'' Active] [(''h'', ''m''), (''k'', ''n'')]) = (Inr (), t) \<and>
     map_of (vs_values t) ''h'' = None \<and> map_of (vs_values t) ''k'' = Some ''n''"
proof -
  let ?s = "ref_vault [ref_entry ''h'' Active] [(''h'', ''m''), (''k'', ''n'')]"
  obtain t where t: "remove_secret 1 ''h'' ?s = (Inr (), t)"
    by (simp add: remove_secret_def find_secret_def select_def disable_def set_metadata_state_def
        transact_def proc_defs delete_if_present_def store_delete_raw_def vs_delete_def store_call_def
        one_endpoint_identity_def affected_def update_where_def find_by_def ref_vault_def ref_entry_def Let_def)
  have "map_of (vs_values ?s) ''k'' = Some ''n''" by (simp add: ref_vault_def)
  with removed_secret_is_gone [OF t] t show ?thesis by (intro exI [of _ t]) simp
qed

text \<open>
  C35: from any state a crash can leave, a successful
  reconciliation ends with exactly the active secrets stored, each readable and valid, every
  other metadata row disabled, and no value without a row; it forgets no row, and every secret
  that was active and usable before still is, with the same material.
\<close>

theorem reconciliation_repairs_every_crash:
  assumes "reconcile ep now s = (Inr sm, t)" and "distinct (handles_of s)"
  shows "handles_of t = handles_of s \<and>
    (\<forall>r \<in> set (protected_secret_refs t).
       sr_state r = Disabled \<and> map_of (vs_values t) (sr_handle r) = None \<or> (\<exists>m. usable ep m t r)) \<and>
    (\<forall>k. map_of (vs_values t) k \<noteq> None \<longleftrightarrow>
       (\<exists>r \<in> set (protected_secret_refs t). sr_handle r = k \<and> sr_state r = Active)) \<and>
    (\<forall>m r. usable ep m s r \<longrightarrow> usable ep m t r)"
  using reconcile_done [OF assms] reconcile_usable [OF assms]
  by (auto simp: settled_def usable_def)

theorem reconciliation_repairs_every_crash_witness:
  "\<exists>sm t. reconcile (\<lambda>_. '''') 1 (ref_vault [ref_entry ''h'' Active] [(''h'', ''m''), (''orphan'', ''n'')]) = (Inr sm, t) \<and>
     map_of (vs_values t) ''orphan'' = None \<and> map_of (vs_values t) ''h'' = Some ''m''"
proof -
  let ?e = "ref_entry ''h'' Active" and ?vals = "[(''h'', ''m''), (''orphan'', ''n'')]"
  let ?s = "ref_vault [?e] ?vals"
  have lists: "list_secrets ?s = (Inr [?e], ?s)" "store_list_handles ?s = (Inr [''h'', ''orphan''], ?s)"
    by (simp_all add: list_secrets_def select_def transact_def store_list_handles_def from_store_def
        vs_list_handles_def store_call_def ref_vault_def Let_def)
  have kept: "reconcile_entry (\<lambda>_. '''') 1 ?e sm ?s = (Inr sm, ?s)" for sm
    by (simp add: reconcile_entry_def store_get_raw_def vs_get_def store_call_def proc_defs
        validate_material_def ref_vault_def Let_def) (simp add: ref_entry_def)
  have orphan: "delete_orphan [''h''] ''orphan'' sm ?s =
      (Inr (sm\<lparr>orphans_deleted := Suc (orphans_deleted sm)\<rparr>), ref_vault [?e] [(''h'', ''m'')])"
    "delete_orphan [''h''] ''h'' sm ?s = (Inr sm, ?s)" for sm
    by (simp_all add: delete_orphan_def store_delete_def from_store_def vs_delete_def store_call_def
        proc_defs ref_vault_def Let_def)
  have "sr_handle ?e = ''h''" by (simp add: ref_entry_def)
  then obtain sm t where t: "reconcile (\<lambda>_. '''') 1 ?s = (Inr sm, t)"
    by (simp add: reconcile_def proc_defs lists kept orphan)
  have d: "distinct (handles_of ?s)" by (simp add: ref_vault_def)
  note repaired = reconciliation_repairs_every_crash [OF t d]
  have "usable (\<lambda>_. '''') ''m'' ?s ?e"
    by (simp add: usable_def ref_vault_def ref_entry_def validate_material_def)
  with repaired have "usable (\<lambda>_. '''') ''m'' t ?e" by blast
  moreover have "set (handles_of t) = {''h''}"
    using repaired by (simp add: ref_vault_def ref_entry_def)
  then have "sr_handle r = ''h''" if "r \<in> set (protected_secret_refs t)" for r
    using that by auto
  then have "\<not> (\<exists>r \<in> set (protected_secret_refs t). sr_handle r = ''orphan'' \<and> sr_state r = Active)"
    by force
  then have "map_of (vs_values t) ''orphan'' = None" using repaired by blast
  ultimately show ?thesis using t by (auto simp: usable_def ref_entry_def)
qed

end
