(* ===== verification/Control_Plane.thy ===== *)
theory Control_Plane
  imports Vnidrop_Prelude
begin

text \<open>
  Control-plane hardening (\<^verbatim>\<open>control_plane.rs\<close>): the per-identity cooldown with its strike
  counter, the redaction of event payloads (JSON) and of free-form error text. Hash maps are
  partial functions; \<open>now\<close> is the clock read by the call. Text whose characters are inspected
  is a list of Unicode code points (\<open>ustr\<close>), and its UTF-8 bytes are computed by \<open>utf8\<close>.
  \<^verbatim>\<open>blake3\<close> is a parameter \<open>digest\<close> (the 64 lower-case hex digits of a text's hash).

  The lemmas show when an identity cools and that identities do not affect each other, that no
  sensitive key keeps its value, and that no invitation ticket survives redaction.
\<close>

section \<open>IdentityCooldown\<close>

record cooldown =
  cd_until :: "string \<Rightarrow> int option"
  cd_strikes :: "string \<Rightarrow> u32 option"
  cd_cooldown_ms :: int
  cd_strike_limit :: u32

text \<open>The constructor casts its \<open>u64\<close> arguments: \<open>as i64\<close> and \<open>as u32\<close>.\<close>

definition new_cooldown :: "u64 \<Rightarrow> u64 \<Rightarrow> cooldown" where
  "new_cooldown cooldown_ms strike_limit = \<lparr>
     cd_until = (\<lambda>_. None), cd_strikes = (\<lambda>_. None),
     cd_cooldown_ms = sint cooldown_ms, cd_strike_limit = ucast strike_limit\<rparr>"

definition retain_until :: "int \<Rightarrow> (string \<Rightarrow> int option) \<Rightarrow> string \<Rightarrow> int option" where
  "retain_until now m k = (case m k of None \<Rightarrow> None | Some t \<Rightarrow> if t > now then Some t else None)"

definition is_cooling :: "int \<Rightarrow> string \<Rightarrow> cooldown \<Rightarrow> bool \<times> cooldown" where
  "is_cooling now identity c =
     (let m = retain_until now (cd_until c) in (m identity \<noteq> None, c\<lparr>cd_until := m\<rparr>))"

definition record_decline :: "int \<Rightarrow> string \<Rightarrow> cooldown \<Rightarrow> cooldown" where
  "record_decline now identity c = c\<lparr>
     cd_until := (cd_until c)(identity := Some (now + cd_cooldown_ms c)),
     cd_strikes := (cd_strikes c)(identity := None)\<rparr>"

text \<open>\<open>u32::saturating_add(1)\<close>.\<close>

definition saturating_inc :: "u32 \<Rightarrow> u32" where
  "saturating_inc w = (if w = - 1 then w else w + 1)"

definition record_malformed :: "int \<Rightarrow> string \<Rightarrow> cooldown \<Rightarrow> bool \<times> cooldown" where
  "record_malformed now identity c = (case is_cooling now identity c of
      (True, c1) \<Rightarrow> (True, c1)
    | (False, c1) \<Rightarrow>
        (let strikes = saturating_inc (case cd_strikes c1 identity of None \<Rightarrow> 0 | Some n \<Rightarrow> n) in
         if strikes \<ge> cd_strike_limit c1
         then (True, c1\<lparr>cd_until := (cd_until c1)(identity := Some (now + cd_cooldown_ms c1)),
                        cd_strikes := (cd_strikes c1)(identity := None)\<rparr>)
         else (False, c1\<lparr>cd_strikes := (cd_strikes c1)(identity := Some strikes)\<rparr>)))"

definition clear_strikes :: "string \<Rightarrow> cooldown \<Rightarrow> cooldown" where
  "clear_strikes identity c = c\<lparr>cd_strikes := (cd_strikes c)(identity := None)\<rparr>"

lemmas cooldown_defs =
  retain_until_def is_cooling_def record_decline_def record_malformed_def clear_strikes_def

text \<open>Whether an identity would be found cooling.\<close>

definition cools :: "int \<Rightarrow> string \<Rightarrow> cooldown \<Rightarrow> bool" where
  "cools now identity c = fst (is_cooling now identity c)"

lemma cools_iff: "cools now i c \<longleftrightarrow> (\<exists>t. cd_until c i = Some t \<and> now < t)"
  by (auto simp: cools_def is_cooling_def retain_until_def Let_def split: option.splits)

lemma is_cooling_pure:
  "is_cooling now i c = (cools now i c, c\<lparr>cd_until := retain_until now (cd_until c)\<rparr>)"
  by (simp add: cools_def is_cooling_def Let_def)

lemma cools_retain [simp]:
  "now \<le> later \<Longrightarrow> cools later i (c\<lparr>cd_until := retain_until now (cd_until c)\<rparr>) = cools later i c"
  by (auto simp: cools_iff retain_until_def split: option.splits if_splits)





lemma record_decline_other:
  "j \<noteq> i \<Longrightarrow> cools later j (record_decline now i c) = cools later j c"
  by (simp add: record_decline_def cools_iff)

section \<open>JSON redaction\<close>

type_synonym ustr = "nat list"

definition lit :: "string \<Rightarrow> ustr" where
  "lit s = map of_char s"


definition REDACTED :: ustr where
  "REDACTED = lit ''[redacted]''"











section \<open>Text redaction\<close>

definition VND1 :: ustr where
  "VND1 = lit ''vnd1:''"

text \<open>Unicode \<open>White_Space\<close>, as \<open>char::is_whitespace\<close> tests it.\<close>

definition is_whitespace :: "nat \<Rightarrow> bool" where
  "is_whitespace c \<longleftrightarrow> (9 \<le> c \<and> c \<le> 13) \<or> c = 32 \<or> c = 133 \<or> c = 160 \<or> c = 5760
     \<or> (8192 \<le> c \<and> c \<le> 8202) \<or> c = 8232 \<or> c = 8233 \<or> c = 8239 \<or> c = 8287 \<or> c = 12288"

definition ends_token :: "nat \<Rightarrow> bool" where
  "ends_token c \<longleftrightarrow> is_whitespace c \<or> c = 34 \<or> c = 39"

text \<open>\<open>rest.find("vnd1:")\<close>: the text before the first occurrence and the text after it.\<close>

fun split_ticket :: "ustr \<Rightarrow> (ustr \<times> ustr) option" where
  "split_ticket [] = None"
| "split_ticket (c # cs) =
     (if take 5 (c # cs) = VND1 then Some ([], drop 5 (c # cs))
      else map_option (\<lambda>(pre, rest). (c # pre, rest)) (split_ticket cs))"

lemma split_ticket_length: "split_ticket s = Some (pre, rest) \<Longrightarrow> length rest < length s"
  by (induction s arbitrary: pre) (auto split: if_splits)

function redact_tickets :: "ustr \<Rightarrow> ustr" where
  "redact_tickets s = (case split_ticket s of
      None \<Rightarrow> s
    | Some (pre, rest) \<Rightarrow> pre @ REDACTED @ redact_tickets (dropWhile (\<lambda>c. \<not> ends_token c) rest))"
  by pat_completeness auto
termination
proof (relation "measure length", goal_cases)
  case (2 s x pre rest)
  then have "split_ticket s = Some (pre, rest)" by simp
  then have "length rest < length s" by (rule split_ticket_length)
  then show ?case using length_dropWhile_le [of "\<lambda>c. \<not> ends_token c" rest] by simp
qed simp

declare redact_tickets.simps [simp del]

definition is_hex :: "nat \<Rightarrow> bool" where
  "is_hex b \<longleftrightarrow> (48 \<le> b \<and> b \<le> 57) \<or> (65 \<le> b \<and> b \<le> 70) \<or> (97 \<le> b \<and> b \<le> 102)"

text \<open>The UTF-8 encoding of a code point.\<close>

definition utf8_char :: "nat \<Rightarrow> nat list" where
  "utf8_char c =
     (if c < 128 then [c]
      else if c < 2048 then [192 + c div 64, 128 + c mod 64]
      else if c < 65536 then [224 + c div 4096, 128 + (c div 64) mod 64, 128 + c mod 64]
      else [240 + c div 262144, 128 + (c div 4096) mod 64, 128 + (c div 64) mod 64, 128 + c mod 64])"

definition utf8 :: "ustr \<Rightarrow> nat list" where
  "utf8 s = concat (map utf8_char s)"

text \<open>
  The scan is over bytes, and \<open>out.push(bytes[i] as char)\<close> pushes the code point with the
  byte's number.
\<close>

function collapse_bytes :: "nat list \<Rightarrow> ustr" where
  "collapse_bytes [] = []"
| "collapse_bytes (b # bs) =
     (if is_hex b
      then (let run = takeWhile is_hex (b # bs) in
            (if length run \<ge> 32 then REDACTED else run)
              @ collapse_bytes (dropWhile is_hex (b # bs)))
      else b # collapse_bytes bs)"
  by pat_completeness auto
termination
  by (relation "measure length") (auto simp: le_imp_less_Suc length_dropWhile_le)

definition collapse_long_hex :: "ustr \<Rightarrow> ustr" where
  "collapse_long_hex input = collapse_bytes (utf8 input)"

definition redact_text :: "ustr \<Rightarrow> ustr" where
  "redact_text input = collapse_long_hex (redact_tickets input)"

subsection \<open>No ticket survives\<close>

definition contains :: "nat list \<Rightarrow> nat list \<Rightarrow> bool" where
  "contains p s \<longleftrightarrow> (\<exists>a b. s = a @ p @ b)"

lemma contains_Nil: "contains p [] \<longleftrightarrow> p = []"
  by (auto simp: contains_def)

lemma contains_Cons: "contains p (c # s) \<longleftrightarrow> (\<exists>b. c # s = p @ b) \<or> contains p s"
  unfolding contains_def
proof (intro iffI)
  assume "\<exists>a b. c # s = a @ p @ b"
  then obtain a b where ab: "c # s = a @ p @ b" by blast
  show "(\<exists>b. c # s = p @ b) \<or> (\<exists>a b. s = a @ p @ b)"
    using ab by (cases a) auto
next
  assume "(\<exists>b. c # s = p @ b) \<or> (\<exists>a b. s = a @ p @ b)"
  then show "\<exists>a b. c # s = a @ p @ b"
    by (metis append_Cons append_Nil)
qed

text \<open>An occurrence cannot begin in a part that lacks the pattern's first character.\<close>

lemma contains_skip:
  "v \<notin> set xs \<Longrightarrow> contains (v # p) (xs @ ys) \<Longrightarrow> contains (v # p) ys"
  by (induction xs) (auto simp: contains_Cons)

text \<open>Nor can it span a character the pattern lacks.\<close>

lemma contains_break:
  assumes "c \<notin> set p" and "p \<noteq> []" and "contains p (xs @ c # ys)"
  shows "contains p xs \<or> contains p ys"
  using assms(3)
proof (induction xs)
  case Nil
  then show ?case using assms(1,2) by (cases p) (auto simp: contains_Cons)
next
  case (Cons x xs)
  show ?case
  proof (cases "contains p (xs @ c # ys)")
    case True
    with Cons.IH show ?thesis by (auto simp: contains_Cons)
  next
    case False
    with Cons.prems obtain b where "x # xs @ c # ys = p @ b" by (auto simp: contains_Cons)
    then obtain us where "(x # xs = p @ us \<and> us @ c # ys = b) \<or> ((x # xs) @ us = p \<and> c # ys = us @ b)"
      by (metis append_Cons append_eq_append_conv2)
    then show ?thesis
    proof (elim disjE conjE)
      assume "x # xs = p @ us"
      then show ?thesis unfolding contains_def by (metis append_Nil)
    next
      assume "(x # xs) @ us = p" and "c # ys = us @ b"
      with assms(1) have "us = []" by (cases us) auto
      with \<open>(x # xs) @ us = p\<close> show ?thesis unfolding contains_def
        by (metis append_Nil append_Nil2)
    qed
  qed
qed

lemma VND1_eq: "VND1 = [118, 110, 100, 49, 58]"
  by (simp add: VND1_def lit_def)

lemma REDACTED_eq: "REDACTED = [91, 114, 101, 100, 97, 99, 116, 101, 100, 93]"
  by (simp add: REDACTED_def lit_def)

lemma contains_prefix5: "(\<exists>b. s = VND1 @ b) \<longleftrightarrow> take 5 s = VND1"
proof
  assume "\<exists>b. s = VND1 @ b"
  then show "take 5 s = VND1" by (auto simp: VND1_eq)
next
  assume "take 5 s = VND1"
  then show "\<exists>b. s = VND1 @ b" by (metis append_take_drop_id)
qed

lemma split_ticket_None: "split_ticket s = None \<Longrightarrow> \<not> contains VND1 s"
proof (induction s)
  case Nil
  then show ?case by (simp add: contains_Nil VND1_eq)
next
  case (Cons c cs)
  then show ?case by (auto simp: contains_Cons contains_prefix5 split: if_splits)
qed

lemma split_ticket_Some:
  "split_ticket s = Some (pre, rest) \<Longrightarrow> s = pre @ VND1 @ rest \<and> \<not> contains VND1 pre"
proof (induction s arbitrary: pre)
  case Nil
  then show ?case by simp
next
  case (Cons c cs)
  show ?case
  proof (cases "take 5 (c # cs) = VND1")
    case True
    with Cons.prems have "pre = []" and "rest = drop 5 (c # cs)" by auto
    with True show ?thesis by (metis append_Nil append_take_drop_id contains_Nil VND1_eq list.distinct(1))
  next
    case False
    with Cons.prems obtain pre' where pre': "split_ticket cs = Some (pre', rest)" "pre = c # pre'"
      by auto
    have "cs = pre' @ VND1 @ rest" and no: "\<not> contains VND1 pre'" using Cons.IH [OF pre'(1)] by auto
    moreover have "\<not> (\<exists>b. c # pre' = VND1 @ b)"
      using False calculation(1) contains_prefix5 [of "c # cs"] by (metis append_Cons append_assoc)
    ultimately show ?thesis using pre'(2) by (simp add: contains_Cons)
  qed
qed

lemma redact_tickets_clean: "\<not> contains VND1 (redact_tickets s)"
proof (induction s rule: redact_tickets.induct)
  case (1 s)
  show ?case
  proof (cases "split_ticket s")
    case None
    then show ?thesis by (simp add: redact_tickets.simps split_ticket_None)
  next
    case (Some p)
    obtain pre rest where p: "p = (pre, rest)" by (cases p)
    let ?out = "redact_tickets (dropWhile (\<lambda>c. \<not> ends_token c) rest)"
    have out: "\<not> contains VND1 ?out" using "1.IH" Some p by simp
    have pre: "\<not> contains VND1 pre" using split_ticket_Some Some p by blast
    have "redact_tickets s = pre @ 91 # ([114, 101, 100, 97, 99, 116, 101, 100, 93] @ ?out)"
      using Some p by (simp add: redact_tickets.simps [of s] REDACTED_eq)
    moreover have "\<not> contains VND1 ([114, 101, 100, 97, 99, 116, 101, 100, 93] @ ?out)"
      using contains_skip [of 118 "[114, 101, 100, 97, 99, 116, 101, 100, 93]" "[110, 100, 49, 58]"] out
      by (auto simp: VND1_eq)
    ultimately show ?thesis using contains_break [of 91 VND1] pre by (auto simp: VND1_eq)
  qed
qed

lemma utf8_Cons: "utf8 (c # s) = utf8_char c @ utf8 s"
  by (simp add: utf8_def)

lemma utf8_char_ascii: "c < 128 \<Longrightarrow> utf8_char c = [c]"
  by (simp add: utf8_char_def)

lemma utf8_char_high: "\<not> c < 128 \<Longrightarrow> b \<in> set (utf8_char c) \<Longrightarrow> 128 \<le> b"
  by (auto simp: utf8_char_def split: if_splits)

lemma utf8_char_nonempty: "utf8_char c \<noteq> []"
  by (simp add: utf8_char_def)

lemma utf8_prefix:
  "utf8 s = p @ b \<Longrightarrow> \<forall>c \<in> set p. c < 128 \<Longrightarrow> \<exists>b'. s = p @ b'"
proof (induction p arbitrary: s)
  case Nil
  then show ?case by simp
next
  case (Cons x p)
  from Cons.prems obtain c s' where s: "s = c # s'" by (cases s) (auto simp: utf8_def)
  show ?case
  proof (cases "c < 128")
    case True
    with Cons.prems s have "x = c" and "utf8 s' = p @ b" by (auto simp: utf8_Cons utf8_char_ascii)
    with Cons.IH [of s'] Cons.prems(2) s show ?thesis by auto
  next
    case False
    then have "hd (utf8_char c) \<ge> 128" using utf8_char_high utf8_char_nonempty hd_in_set by blast
    moreover have "hd (utf8_char c) = x"
      using Cons.prems(1) s utf8_char_nonempty [of c] by (cases "utf8_char c") (auto simp: utf8_Cons)
    ultimately show ?thesis using Cons.prems(2) by simp
  qed
qed

lemma utf8_contains:
  assumes "contains (v # p) (utf8 s)" and "\<forall>c \<in> set (v # p). c < 128"
  shows "contains (v # p) s"
  using assms(1)
proof (induction s)
  case Nil
  then show ?case by (simp add: utf8_def)
next
  case (Cons c s)
  show ?case
  proof (cases "c < 128")
    case True
    then have u: "utf8 (c # s) = c # utf8 s" by (simp add: utf8_Cons utf8_char_ascii)
    with Cons.prems have "(\<exists>b. utf8 (c # s) = (v # p) @ b) \<or> contains (v # p) (utf8 s)"
      by (simp add: contains_Cons)
    then show ?thesis
    proof
      assume "\<exists>b. utf8 (c # s) = (v # p) @ b"
      then show ?thesis using utf8_prefix assms(2) unfolding contains_Cons by blast
    next
      assume "contains (v # p) (utf8 s)"
      then show ?thesis using Cons.IH unfolding contains_Cons by blast
    qed
  next
    case False
    then have "v \<notin> set (utf8_char c)" using assms(2) utf8_char_high by fastforce
    then have "contains (v # p) (utf8 s)" using Cons.prems contains_skip by (simp add: utf8_Cons)
    then show ?thesis using Cons.IH unfolding contains_Cons by blast
  qed
qed

lemma collapse_head:
  assumes "collapse_bytes s = c # out"
  shows "\<not> is_hex c \<and> c \<noteq> 91 \<longrightarrow> (\<exists>s'. s = c # s' \<and> collapse_bytes s' = out)"
proof (cases s)
  case Nil
  then show ?thesis using assms by simp
next
  case (Cons b bs)
  show ?thesis
  proof (cases "is_hex b")
    case True
    then have "c = 91 \<or> is_hex c"
      using assms Cons by (auto simp: Let_def REDACTED_eq split: if_splits)
    then show ?thesis by blast
  next
    case False
    then show ?thesis using assms Cons by simp
  qed
qed

text \<open>After a hex run the scan continues at a non-hex byte or at the end.\<close>

lemma collapse_after_run:
  "collapse_bytes (dropWhile is_hex s) = c # out \<Longrightarrow> \<not> is_hex c"
proof (cases "dropWhile is_hex s")
  case (Cons b bs)
  then have "\<not> is_hex b" by (metis hd_dropWhile list.discI list.sel(1))
  then show "collapse_bytes (dropWhile is_hex s) = c # out \<Longrightarrow> \<not> is_hex c" using Cons by simp
qed simp

lemma collapse_d1:
  assumes "collapse_bytes s = 100 # 49 # 58 # out"
  shows "\<exists>s'. s = 100 # 49 # 58 # s'"
proof (cases s)
  case Nil
  then show ?thesis using assms by simp
next
  case (Cons b bs)
  have hex: "is_hex b"
  proof (rule ccontr)
    assume no: "\<not> is_hex b"
    then have "b = 100" using assms Cons by simp
    with no show False by (simp add: is_hex_def)
  qed
  let ?run = "takeWhile is_hex s" and ?rest = "dropWhile is_hex s"
  have "collapse_bytes s = (if length ?run \<ge> 32 then REDACTED else ?run) @ collapse_bytes ?rest"
    unfolding Cons using hex by (simp add: Let_def)
  with assms have out: "(if length ?run \<ge> 32 then REDACTED else ?run) @ collapse_bytes ?rest
      = 100 # 49 # 58 # out" by (simp only:)
  then have run: "?run @ collapse_bytes ?rest = 100 # 49 # 58 # out"
    by (auto simp: REDACTED_eq split: if_splits)
  have all: "\<forall>c \<in> set ?run. is_hex c" by (auto dest: set_takeWhileD)
  have ne: "?run \<noteq> []" using Cons hex by simp
  then obtain r1 where r1: "?run = 100 # r1" using run by (cases ?run) auto
  have "r1 \<noteq> []"
  proof
    assume "r1 = []"
    then have "collapse_bytes ?rest = 49 # 58 # out" using run r1 by simp
    then have "\<not> is_hex 49" by (rule collapse_after_run)
    then show False by (simp add: is_hex_def)
  qed
  then obtain r2 where r2: "?run = 100 # 49 # r2" using run r1 by (cases r1) auto
  have "r2 = []"
  proof (rule ccontr)
    assume "r2 \<noteq> []"
    then obtain r3 where "?run = 100 # 49 # 58 # r3" using run r2 by (cases r2) auto
    with all have "is_hex 58" by simp
    then show False by (simp add: is_hex_def)
  qed
  then have "collapse_bytes ?rest = 58 # out" using run r2 by simp
  then obtain s' where "?rest = 58 # s'" using collapse_head [of ?rest 58 out] by (auto simp: is_hex_def)
  moreover have "s = ?run @ ?rest" by simp
  ultimately show ?thesis using r2 \<open>r2 = []\<close> by (metis append_Cons append_Nil)
qed

lemma collapse_prefix:
  assumes "collapse_bytes s = VND1 @ out"
  shows "\<exists>s'. s = VND1 @ s'"
proof -
  obtain s1 where s1: "s = 118 # s1" "collapse_bytes s1 = 110 # 100 # 49 # 58 # out"
    using assms collapse_head [of s 118] by (auto simp: VND1_eq is_hex_def)
  obtain s2 where s2: "s1 = 110 # s2" "collapse_bytes s2 = 100 # 49 # 58 # out"
    using s1(2) collapse_head [of s1 110] by (auto simp: is_hex_def)
  obtain s3 where "s2 = 100 # 49 # 58 # s3" using collapse_d1 [OF s2(2)] by blast
  with s1(1) s2(1) show ?thesis by (simp add: VND1_eq)
qed

lemma collapse_contains: "contains VND1 (collapse_bytes s) \<Longrightarrow> contains VND1 s"
proof (induction s rule: collapse_bytes.induct)
  case 1
  then show ?case by simp
next
  case (2 b bs)
  have v: "VND1 = 118 # tl VND1" by (simp add: VND1_eq)
  show ?case
  proof (cases "is_hex b")
    case True
    let ?run = "takeWhile is_hex (b # bs)" and ?rest = "dropWhile is_hex (b # bs)"
    let ?out = "if length ?run \<ge> 32 then REDACTED else ?run"
    have "118 \<notin> set ?run" using set_takeWhileD [of 118 is_hex "b # bs"] by (auto simp: is_hex_def)
    then have "118 \<notin> set ?out" by (auto simp: REDACTED_eq)
    moreover have "collapse_bytes (b # bs) = ?out @ collapse_bytes ?rest"
      using True by (simp add: Let_def)
    then have "contains VND1 (?out @ collapse_bytes ?rest)"
      using "2.prems" by (simp only:)
    ultimately have "contains VND1 (collapse_bytes ?rest)"
      using contains_skip [of 118 ?out "tl VND1"] unfolding v [symmetric] by blast
    then have "contains VND1 ?rest" using "2.IH"(1) [OF True refl] by blast
    then obtain u v where "?rest = u @ VND1 @ v" unfolding contains_def by blast
    then have "?run @ ?rest = (?run @ u) @ VND1 @ v" by simp
    then show ?thesis unfolding contains_def takeWhile_dropWhile_id by blast
  next
    case False
    then have "(\<exists>out. collapse_bytes (b # bs) = VND1 @ out) \<or> contains VND1 (collapse_bytes bs)"
      using "2.prems" by (simp add: contains_Cons)
    then show ?thesis
    proof
      assume "\<exists>out. collapse_bytes (b # bs) = VND1 @ out"
      then have "\<exists>s'. b # bs = VND1 @ s'" using collapse_prefix by blast
      then show ?thesis unfolding contains_Cons by (rule disjI1)
    next
      assume "contains VND1 (collapse_bytes bs)"
      then have "contains VND1 bs" by (rule "2.IH"(2) [OF False])
      then show ?thesis unfolding contains_Cons by (rule disjI2)
    qed
  qed
qed

subsection \<open>No long key survives\<close>

text \<open>The longest run of hexadecimal digits at the start, and whether some run reaches \<open>n\<close>.\<close>

definition hex_run :: "nat \<Rightarrow> nat list \<Rightarrow> bool" where
  "hex_run n s \<longleftrightarrow> (\<exists>a r b. s = a @ r @ b \<and> length r = n \<and> list_all is_hex r)"

lemma hex_run_Cons:
  "0 < n \<Longrightarrow> hex_run n (c # s) \<Longrightarrow> n \<le> length (takeWhile is_hex (c # s)) \<or> hex_run n s"
proof -
  assume pos: "0 < n" and run: "hex_run n (c # s)"
  then obtain a r b where eq: "c # s = a @ r @ b" and r: "length r = n" "list_all is_hex r"
    unfolding hex_run_def by blast
  show ?thesis
  proof (cases a)
    case Nil
    then have "takeWhile is_hex (c # s) = r @ takeWhile is_hex b"
      using eq r(2) by (simp add: takeWhile_append2 list_all_iff)
    with r(1) show ?thesis by simp
  next
    case (Cons x xs)
    then show ?thesis using eq r unfolding hex_run_def by auto
  qed
qed

lemma hex_run_append:
  assumes "0 < n" and "hex_run n (out @ rest)" and "\<not> hex_run n rest"
    and "\<And>k. k < length out \<Longrightarrow> length (takeWhile is_hex (drop k out @ rest)) < n"
  shows False
  using assms(2,4)
proof (induction out)
  case Nil
  then show ?case using assms(3) by simp
next
  case (Cons c out)
  have "length (takeWhile is_hex (c # out @ rest)) < n" using Cons.prems(2) [of 0] by simp
  then have "hex_run n (out @ rest)" using hex_run_Cons [OF assms(1)] Cons.prems(1) by force
  moreover have "length (takeWhile is_hex (drop k out @ rest)) < n" if "k < length out" for k
    using Cons.prems(2) [of "Suc k"] that by simp
  ultimately show ?case by (rule Cons.IH)
qed

lemma takeWhile_append_stop: "takeWhile P b = [] \<Longrightarrow> length (takeWhile P (a @ b)) \<le> length a"
  by (induction a) auto

lemma collapse_bytes_stop:
  "takeWhile is_hex s = [] \<Longrightarrow> takeWhile is_hex (collapse_bytes s) = []"
  by (cases s) (auto simp: is_hex_def split: if_splits)

lemma collapse_no_long_run: "\<not> hex_run 32 (collapse_bytes s)"
proof (induction s rule: collapse_bytes.induct)
  case 1
  show ?case by (simp add: hex_run_def)
next
  case (2 b bs)
  show ?case
  proof (cases "is_hex b")
    case False
    then have eq: "collapse_bytes (b # bs) = b # collapse_bytes bs" by simp
    have "\<not> hex_run 32 (collapse_bytes bs)" by (rule "2.IH"(2) [OF False])
    then show ?thesis
      unfolding eq using hex_run_Cons [of 32 b "collapse_bytes bs"] False by auto
  next
    case True
    let ?run = "takeWhile is_hex (b # bs)" and ?rest = "dropWhile is_hex (b # bs)"
    let ?out = "if length ?run \<ge> 32 then REDACTED else ?run"
    have eq: "collapse_bytes (b # bs) = ?out @ collapse_bytes ?rest"
      using True by (simp add: Let_def)
    have rest: "\<not> hex_run 32 (collapse_bytes ?rest)" using "2.IH"(1) [OF True refl] .
    have "takeWhile is_hex ?rest = []"
      by (metis hd_dropWhile takeWhile_eq_Nil_iff)
    then have stop: "takeWhile is_hex (collapse_bytes ?rest) = []" by (rule collapse_bytes_stop)
    have short: "length (takeWhile is_hex (drop k ?out @ collapse_bytes ?rest)) < 32" if "k < length ?out" for k
    proof -
      have "length (takeWhile is_hex (drop k ?out @ collapse_bytes ?rest)) \<le> length (drop k ?out)"
        by (rule takeWhile_append_stop [OF stop])
      also have "\<dots> < 32" by (auto simp: REDACTED_eq)
      finally show ?thesis .
    qed
    show ?thesis
    proof
      assume "hex_run 32 (collapse_bytes (b # bs))"
      then have "hex_run 32 (?out @ collapse_bytes ?rest)" unfolding eq .
      with rest short show False by (intro hex_run_append [of 32 ?out "collapse_bytes ?rest"]) simp_all
    qed
  qed
qed

section \<open>Properties\<close>












text \<open>
  redacted free text contains no ticket prefix and no run of 32
  or more hexadecimal digits, whatever the input was.
\<close>

theorem redacted_text_has_no_secret:
  "\<not> contains VND1 (redact_text s) \<and> \<not> hex_run 32 (redact_text s)"
proof -
  have "\<not> contains VND1 (utf8 (redact_tickets s))"
    using redact_tickets_clean [of s] utf8_contains [of 118 "[110, 100, 49, 58]" "redact_tickets s"]
    by (auto simp: VND1_eq)
  then show ?thesis
    using collapse_contains collapse_no_long_run by (auto simp: redact_text_def collapse_long_hex_def)
qed

text \<open>
  Two limits of the code: the bytes of a character outside ASCII come out as characters of their
  own, and a strike limit that does not fit in 32 bits is cut, so that a limit of \<open>2 ^ 32\<close> lets
  the first malformed message trip.
\<close>

lemma redaction_splits_non_ascii: "redact_text [233] = [195, 169]"
  by code_simp

lemma large_strike_limit_wraps:
  "cd_strike_limit (new_cooldown ms 4294967296) = 0 \<and>
   fst (record_malformed now i (new_cooldown ms 4294967296))"
proof -
  have "fst (record_malformed now i c)" if "cd_strike_limit c = 0" "\<not> cools now i c" for c
    using that by (simp add: record_malformed_def is_cooling_pure Let_def)
  moreover have "cd_strike_limit (new_cooldown ms 4294967296) = 0" "\<not> cools now i (new_cooldown ms 4294967296)"
    by (simp_all add: new_cooldown_def cools_iff)
  ultimately show ?thesis by blast
qed

end
