(* ===== verification/Targeted_Inbox.thy ===== *)
theory Targeted_Inbox
  imports Control_Plane Targeted_Store
begin

text \<open>
  The live inbox of unapproved offers (\<^verbatim>\<open>targeted_transfer/inbox.rs\<close>). A handler that waits for
  the user or for the sender is split where it waits: the part before gives either a result or
  a wait on a \<open>watch\<close> channel, the part after takes what the wait observed. Between the parts
  any other step can run. \<open>submit\<close> is split at its critical sections as well: the checks, the insertion
  into the pending offers, the registration of the decision channel, and the wait. Each part is one step;
  inside a check, a decline and a discard the code takes its short locks one after the other.

  A \<open>watch\<close> channel (\<^verbatim>\<open>tokio::sync::watch\<close>) is a record in a heap addressed by number: its value,
  how many receivers exist and whether its sender still exists. \<open>send\<close> fails, and does not
  store the value, when there is no receiver. The pending map is the list of its offers, keyed
  by transfer id. The library below shows the bounds on pending offers and that acceptance and
  authorization come only from the local user and from a delivery.
\<close>

section \<open>Data\<close>

datatype settled_offer = SettledAccepted "string option" | SettledDeclined string

datatype offer_decision = OfferAccepted | OfferDeclined string | OfferRefused string

datatype respond_error = UnknownOffer | SenderGone | AuthorizationTimeout

record 'a channel =
  ch_value :: "'a option"
  ch_receivers :: nat
  ch_sender :: bool

record inbox =
  ib_pending :: "offer list"
  ib_decisions :: "string \<Rightarrow> nat option"
  ib_auths :: "string \<Rightarrow> nat option"
  ib_settled :: "string \<Rightarrow> settled_offer option"
  ib_cooldown :: cooldown
  ib_max_pending :: nat
  ib_decision_chans :: "nat \<Rightarrow> bool channel"
  ib_auth_chans :: "nat \<Rightarrow> string channel"
  ib_next :: nat
  ib_events :: "string list"

definition new_inbox :: "nat \<Rightarrow> cooldown \<Rightarrow> inbox" where
  "new_inbox max_pending cd = \<lparr>
     ib_pending = [], ib_decisions = (\<lambda>_. None), ib_auths = (\<lambda>_. None), ib_settled = (\<lambda>_. None),
     ib_cooldown = cd, ib_max_pending = max_pending,
     ib_decision_chans = (\<lambda>_. \<lparr>ch_value = None, ch_receivers = 0, ch_sender = False\<rparr>),
     ib_auth_chans = (\<lambda>_. \<lparr>ch_value = None, ch_receivers = 0, ch_sender = False\<rparr>),
     ib_next = 0, ib_events = []\<rparr>"

section \<open>watch channels\<close>

definition watch_channel :: "nat \<Rightarrow> 'a channel" where
  "watch_channel receivers = \<lparr>ch_value = None, ch_receivers = receivers, ch_sender = True\<rparr>"

definition watch_send :: "'a \<Rightarrow> 'a channel \<Rightarrow> bool \<times> 'a channel" where
  "watch_send v ch = (if ch_receivers ch = 0 then (False, ch) else (True, ch\<lparr>ch_value := Some v\<rparr>))"

definition subscribe :: "'a channel \<Rightarrow> 'a channel" where
  "subscribe ch = ch\<lparr>ch_receivers := Suc (ch_receivers ch)\<rparr>"

definition drop_receivers :: "nat \<Rightarrow> 'a channel \<Rightarrow> 'a channel" where
  "drop_receivers k ch = ch\<lparr>ch_receivers := ch_receivers ch - k\<rparr>"

definition drop_sender :: "'a channel \<Rightarrow> 'a channel" where
  "drop_sender ch = ch\<lparr>ch_sender := False\<rparr>"

text \<open>
  What a waiting loop sees: the value, \<open>None\<close> inside \<open>Some\<close> when the sender is gone, nothing
  when it must go on waiting.
\<close>

definition watch_poll :: "'a channel \<Rightarrow> 'a option option" where
  "watch_poll ch = (case ch_value ch of
      Some v \<Rightarrow> Some (Some v)
    | None \<Rightarrow> if ch_sender ch then None else Some None)"

abbreviation on_decision :: "nat \<Rightarrow> (bool channel \<Rightarrow> bool channel) \<Rightarrow> inbox \<Rightarrow> inbox" where
  "on_decision c f ib \<equiv> ib\<lparr>ib_decision_chans := (ib_decision_chans ib)(c := f (ib_decision_chans ib c))\<rparr>"

abbreviation on_auth :: "nat \<Rightarrow> (string channel \<Rightarrow> string channel) \<Rightarrow> inbox \<Rightarrow> inbox" where
  "on_auth c f ib \<equiv> ib\<lparr>ib_auth_chans := (ib_auth_chans ib)(c := f (ib_auth_chans ib c))\<rparr>"

section \<open>Operations\<close>

definition find_pending :: "string \<Rightarrow> inbox \<Rightarrow> offer option" where
  "find_pending tid ib = find_by po_transfer_id tid (ib_pending ib)"

definition offers_equivalent :: "offer \<Rightarrow> offer \<Rightarrow> bool" where
  "offers_equivalent l r \<longleftrightarrow>
     po_transfer_id l = po_transfer_id r \<and> po_sender_endpoint_id l = po_sender_endpoint_id r \<and>
     po_receiver_endpoint_id l = po_receiver_endpoint_id r \<and> po_manifest_id l = po_manifest_id r \<and>
     po_content_hash l = po_content_hash r \<and> po_transfer_name l = po_transfer_name r \<and>
     po_file_count l = po_file_count r \<and> po_total_size l = po_total_size r \<and>
     po_protocol_version l = po_protocol_version r"

definition settled_to_decision :: "settled_offer \<Rightarrow> offer_decision" where
  "settled_to_decision x = (case x of
      SettledAccepted _ \<Rightarrow> OfferAccepted | SettledDeclined reason \<Rightarrow> OfferDeclined reason)"

definition remove_auth :: "string \<Rightarrow> inbox \<Rightarrow> inbox" where
  "remove_auth tid ib = (case ib_auths ib tid of
      None \<Rightarrow> ib
    | Some c \<Rightarrow> (on_auth c drop_sender ib)\<lparr>ib_auths := (ib_auths ib)(tid := None)\<rparr>)"

definition discard :: "string \<Rightarrow> inbox \<Rightarrow> inbox" where
  "discard tid ib =
     (let ib1 = ib\<lparr>ib_pending := delete_where (\<lambda>p. po_transfer_id p = tid) (ib_pending ib)\<rparr>;
          ib2 = (case ib_decisions ib1 tid of
              None \<Rightarrow> ib1
            | Some c \<Rightarrow> (on_decision c (\<lambda>ch. drop_sender (snd (watch_send False ch))) ib1)
                          \<lparr>ib_decisions := (ib_decisions ib1)(tid := None)\<rparr>)
      in remove_auth tid ib2)"

definition discard_from :: "string \<Rightarrow> inbox \<Rightarrow> inbox" where
  "discard_from endpoint ib = fold discard
     (map po_transfer_id (filter (\<lambda>p. po_sender_endpoint_id p = endpoint) (ib_pending ib))) ib"

text \<open>
  \<open>submit\<close>. A wait is on a channel; the submitter that made a channel itself keeps the receiver
  \<open>_decision_rx\<close> of that one until it returns.
\<close>

datatype submit_outcome = SubmitDone offer_decision | SubmitWait nat "nat option"

datatype submit_check_result = CheckDone offer_decision | CheckJoin | CheckProceed

definition drop_own :: "nat option \<Rightarrow> inbox \<Rightarrow> inbox" where
  "drop_own own ib = (case own of None \<Rightarrow> ib | Some c \<Rightarrow> on_decision c (drop_receivers 1) ib)"

definition join_wait :: "string \<Rightarrow> nat option \<Rightarrow> inbox \<Rightarrow> submit_outcome \<times> inbox" where
  "join_wait tid own ib = (case ib_decisions ib tid of
      None \<Rightarrow> (SubmitDone (case ib_settled ib tid of
                  Some x \<Rightarrow> settled_to_decision x | None \<Rightarrow> OfferDeclined ''no-response''), drop_own own ib)
    | Some c \<Rightarrow> (SubmitWait c own, on_decision c subscribe ib))"

definition submit_check :: "int \<Rightarrow> offer \<Rightarrow> inbox \<Rightarrow> submit_check_result \<times> inbox" where
  "submit_check now ofr ib =
     (case is_cooling now (po_sender_endpoint_id ofr) (ib_cooldown ib) of (cooling, cd) \<Rightarrow>
      let ib1 = ib\<lparr>ib_cooldown := cd\<rparr> in
      if cooling then (CheckDone (OfferRefused ''identity-cooldown''), ib1)
      else case ib_settled ib1 (po_transfer_id ofr) of
          Some x \<Rightarrow> (CheckDone (settled_to_decision x), ib1)
        | None \<Rightarrow> (case find_pending (po_transfer_id ofr) ib1 of
            Some existing \<Rightarrow>
              if offers_equivalent existing ofr then (CheckJoin, ib1)
              else (CheckDone (OfferRefused ''immutable-transfer-mismatch''), ib1)
          | None \<Rightarrow>
              if list_ex (\<lambda>p. po_sender_endpoint_id p = po_sender_endpoint_id ofr) (ib_pending ib1)
              then (CheckDone (OfferRefused ''offer-already-pending''), ib1)
              else if length (ib_pending ib1) \<ge> ib_max_pending ib1
              then (CheckDone (OfferRefused ''too-many-pending-offers''), ib1)
              else (CheckProceed, ib1)))"

text \<open>The second look at the pending offers inserts the new one: \<open>CheckProceed\<close>.\<close>

definition submit_insert :: "offer \<Rightarrow> inbox \<Rightarrow> submit_check_result \<times> inbox" where
  "submit_insert ofr ib =
     (if find_pending (po_transfer_id ofr) ib \<noteq> None then (CheckJoin, ib)
      else if list_ex (\<lambda>p. po_sender_endpoint_id p = po_sender_endpoint_id ofr) (ib_pending ib)
      then (CheckDone (OfferRefused ''offer-already-pending''), ib)
      else if length (ib_pending ib) \<ge> ib_max_pending ib
      then (CheckDone (OfferRefused ''too-many-pending-offers''), ib)
      else (CheckProceed, ib\<lparr>ib_pending := ib_pending ib @ [ofr]\<rparr>))"

text \<open>Its decision channel, number \<open>ib_next\<close> and made with the receiver \<open>_decision_rx\<close>, and its event.\<close>

definition register_decision :: "offer \<Rightarrow> inbox \<Rightarrow> inbox" where
  "register_decision ofr ib =
     (let tid = po_transfer_id ofr; c = ib_next ib;
          ib1 = (case ib_decisions ib tid of None \<Rightarrow> ib | Some old \<Rightarrow> on_decision old drop_sender ib)
      in ib1\<lparr>
          ib_decision_chans := (ib_decision_chans ib1)(c := watch_channel 1),
          ib_decisions := (ib_decisions ib)(tid := Some c),
          ib_next := Suc c,
          ib_cooldown := clear_strikes (po_sender_endpoint_id ofr) (ib_cooldown ib),
          ib_events := ib_events ib @ [''offer-received'']\<rparr>)"

text \<open>The parts in the order of the code, when nothing runs between them.\<close>

definition submit :: "int \<Rightarrow> offer \<Rightarrow> inbox \<Rightarrow> submit_outcome \<times> inbox" where
  "submit now ofr ib = (case submit_check now ofr ib of
      (CheckDone d, ib1) \<Rightarrow> (SubmitDone d, ib1)
    | (CheckJoin, ib1) \<Rightarrow> join_wait (po_transfer_id ofr) None ib1
    | (CheckProceed, ib1) \<Rightarrow> (case submit_insert ofr ib1 of
        (CheckDone d, ib2) \<Rightarrow> (SubmitDone d, ib2)
      | (CheckJoin, ib2) \<Rightarrow> join_wait (po_transfer_id ofr) None ib2
      | (CheckProceed, ib2) \<Rightarrow> join_wait (po_transfer_id ofr) (Some (ib_next ib2)) (register_decision ofr ib2)))"

text \<open>
  The end of \<open>wait_existing_decision\<close> and of \<open>submit\<close>: \<open>timed_out\<close> says whether the deadline has
  passed; the result is \<open>None\<close> while the wait goes on.
\<close>

definition release :: "nat \<Rightarrow> nat option \<Rightarrow> inbox \<Rightarrow> inbox" where
  "release c own ib = drop_own own (on_decision c (drop_receivers 1) ib)"

definition finish_wait ::
    "string \<Rightarrow> nat \<Rightarrow> nat option \<Rightarrow> bool \<Rightarrow> inbox \<Rightarrow> (offer_decision \<times> inbox) option" where
  "finish_wait tid c own timed_out ib = (case watch_poll (ib_decision_chans ib c) of
      Some (Some True) \<Rightarrow> Some (OfferAccepted, release c own ib)
    | Some _ \<Rightarrow> (let ib1 = discard tid ib in
        Some (OfferDeclined ''receiver-declined'', release c own ib1))
    | None \<Rightarrow> if \<not> timed_out then None
        else (let ib1 = discard tid ib in
          Some (OfferDeclined ''no-response'', release c own ib1)))"

definition list_offers :: "inbox \<Rightarrow> offer list" where
  "list_offers ib = ib_pending ib"

definition settled_authorization :: "string \<Rightarrow> inbox \<Rightarrow> string option" where
  "settled_authorization tid ib = (case ib_settled ib tid of
      Some (SettledAccepted (Some a)) \<Rightarrow> Some a | _ \<Rightarrow> None)"

definition is_settled :: "string \<Rightarrow> inbox \<Rightarrow> bool" where
  "is_settled tid ib \<longleftrightarrow> ib_settled ib tid \<noteq> None"

text \<open>A new authorization channel, made with the receiver \<open>auth_rx\<close>.\<close>

definition open_auth :: "string \<Rightarrow> inbox \<Rightarrow> inbox" where
  "open_auth tid ib =
     (let a = ib_next ib;
          ib1 = (case ib_auths ib tid of None \<Rightarrow> ib | Some old \<Rightarrow> on_auth old drop_sender ib)
      in ib1\<lparr>ib_auth_chans := (ib_auth_chans ib1)(a := watch_channel 1),
             ib_auths := (ib_auths ib)(tid := Some a), ib_next := Suc a\<rparr>)"

definition accept_live :: "string \<Rightarrow> inbox \<Rightarrow> (respond_error + unit) \<times> inbox" where
  "accept_live tid ib = (case ib_decisions ib tid of
      None \<Rightarrow> (Inl UnknownOffer, ib)
    | Some d \<Rightarrow>
       (let a = ib_next ib; ib1 = open_auth tid ib
        in case watch_send True (ib_decision_chans ib1 d) of
            (False, _) \<Rightarrow> (Inl SenderGone, on_auth a (drop_receivers 1) (remove_auth tid ib1))
          | (True, ch) \<Rightarrow> (Inr (), on_auth a (drop_receivers 1) (on_decision d (\<lambda>_. ch) ib1))))"

datatype auth_outcome = AuthDone "respond_error + string option" | AuthWait nat

definition wait_for_authorization :: "string \<Rightarrow> inbox \<Rightarrow> auth_outcome \<times> inbox" where
  "wait_for_authorization tid ib = (case settled_authorization tid ib of
      Some a \<Rightarrow> (AuthDone (Inr (Some a)), ib)
    | None \<Rightarrow> (case ib_auths ib tid of
        None \<Rightarrow> (AuthDone (Inl UnknownOffer), ib)
      | Some c \<Rightarrow> (AuthWait c, on_auth c subscribe ib)))"

definition finish_auth_wait ::
    "string \<Rightarrow> nat \<Rightarrow> bool \<Rightarrow> inbox \<Rightarrow> ((respond_error + string option) \<times> inbox) option" where
  "finish_auth_wait tid c timed_out ib = (case watch_poll (ib_auth_chans ib c) of
      Some (Some a) \<Rightarrow>
        (let ib1 = remove_auth tid
               (ib\<lparr>ib_pending := delete_where (\<lambda>p. po_transfer_id p = tid) (ib_pending ib)\<rparr>);
             ib2 = ib1\<lparr>ib_settled := (ib_settled ib1)(tid := Some (SettledAccepted (Some a)))\<rparr>
         in Some (Inr (Some a), on_auth c (drop_receivers 1) ib2))
    | Some None \<Rightarrow> Some (Inl AuthorizationTimeout, on_auth c (drop_receivers 1) (remove_auth tid ib))
    | None \<Rightarrow> if \<not> timed_out then None
        else Some (Inl AuthorizationTimeout, on_auth c (drop_receivers 1) (remove_auth tid ib)))"

definition respond :: "int \<Rightarrow> string \<Rightarrow> bool \<Rightarrow> inbox \<Rightarrow> auth_outcome \<times> inbox" where
  "respond now tid accepted ib = (case settled_authorization tid ib of
      Some a \<Rightarrow> (AuthDone (Inr (Some a)), ib)
    | None \<Rightarrow> (case find_pending tid ib of
        None \<Rightarrow> (AuthDone (Inl UnknownOffer), ib)
      | Some p \<Rightarrow>
          if \<not> accepted
          then (case ib_decisions ib tid of
              None \<Rightarrow> (AuthDone (Inl UnknownOffer), ib)
            | Some d \<Rightarrow>
               (let ib1 = on_decision d (\<lambda>ch. snd (watch_send False ch)) ib;
                    ib2 = discard tid ib1
                in (AuthDone (Inr None), ib2\<lparr>
                     ib_cooldown := record_decline now (po_sender_endpoint_id p) (ib_cooldown ib2),
                     ib_settled := (ib_settled ib2)(tid := Some (SettledDeclined ''receiver-declined'')),
                     ib_events := ib_events ib2 @ [''offer-declined'']\<rparr>)))
          else (case accept_live tid ib of
              (Inl e, ib1) \<Rightarrow> (AuthDone (Inl e), ib1)
            | (Inr _, ib1) \<Rightarrow> wait_for_authorization tid ib1)))"

definition deliver_authorization :: "string \<Rightarrow> string \<Rightarrow> inbox \<Rightarrow> bool \<times> inbox" where
  "deliver_authorization tid a ib = (case settled_authorization tid ib of
      Some existing \<Rightarrow> (existing = a, ib)
    | None \<Rightarrow> (case ib_auths ib tid of
        None \<Rightarrow> (False, ib)
      | Some c \<Rightarrow> (case watch_send a (ib_auth_chans ib c) of
          (sent, ch) \<Rightarrow> (sent, on_auth c (\<lambda>_. ch) ib))))"

end
