(* ===== verification/Targeted_Inbox_Facts.thy ===== *)
theory Targeted_Inbox_Facts
  imports Targeted_Inbox
begin

text \<open>
  Runs of the inbox: any interleaving of its steps, with the history of what the user accepted,
  what was delivered and what was answered. The invariant ties every channel to the transfer it
  was made for, so that an answer "accepted" and a returned authorization trace back to the
  user's decision and to a delivery for that transfer.
\<close>

section \<open>Effects of the operations\<close>

lemma remove_auth_simps [simp]:
  "ib_pending (remove_auth tid ib) = ib_pending ib"
  "ib_decisions (remove_auth tid ib) = ib_decisions ib"
  "ib_auths (remove_auth tid ib) = (ib_auths ib)(tid := None)"
  "ib_settled (remove_auth tid ib) = ib_settled ib"
  "ib_cooldown (remove_auth tid ib) = ib_cooldown ib"
  "ib_max_pending (remove_auth tid ib) = ib_max_pending ib"
  "ib_decision_chans (remove_auth tid ib) = ib_decision_chans ib"
  "ib_next (remove_auth tid ib) = ib_next ib"
  "ch_value (ib_auth_chans (remove_auth tid ib) c) = ch_value (ib_auth_chans ib c)"
  by (auto simp: remove_auth_def drop_sender_def split: option.splits)

lemma discard_simps [simp]:
  "ib_pending (discard tid ib) = delete_where (\<lambda>p. po_transfer_id p = tid) (ib_pending ib)"
  "ib_decisions (discard tid ib) = (ib_decisions ib)(tid := None)"
  "ib_auths (discard tid ib) = (ib_auths ib)(tid := None)"
  "ib_settled (discard tid ib) = ib_settled ib"
  "ib_cooldown (discard tid ib) = ib_cooldown ib"
  "ib_max_pending (discard tid ib) = ib_max_pending ib"
  "ib_next (discard tid ib) = ib_next ib"
  "ch_value (ib_auth_chans (discard tid ib) c) = ch_value (ib_auth_chans ib c)"
  by (auto simp: discard_def Let_def split: option.splits)

lemma discard_decision_value:
  "ch_value (ib_decision_chans (discard tid ib) c) = Some True \<Longrightarrow>
   ch_value (ib_decision_chans ib c) = Some True"
  by (auto simp: discard_def Let_def drop_sender_def watch_send_def split: option.splits if_splits)

lemma channel_value_simps [simp]:
  "ch_value (subscribe ch) = ch_value ch" "ch_value (drop_receivers k ch) = ch_value ch"
  "ch_value (drop_sender ch) = ch_value ch" "ch_value (watch_channel k) = None"
  by (simp_all add: subscribe_def drop_receivers_def drop_sender_def watch_channel_def)

lemma watch_send_value: "ch_value (snd (watch_send v ch)) = Some w \<Longrightarrow> w = v \<or> ch_value ch = Some w"
  by (auto simp: watch_send_def split: if_splits)

lemma register_simps [simp]:
  "ib_pending (register_decision ofr ib) = ib_pending ib"
  "ib_decisions (register_decision ofr ib) = (ib_decisions ib)(po_transfer_id ofr := Some (ib_next ib))"
  "ib_auths (register_decision ofr ib) = ib_auths ib"
  "ib_settled (register_decision ofr ib) = ib_settled ib"
  "ib_max_pending (register_decision ofr ib) = ib_max_pending ib"
  "ib_next (register_decision ofr ib) = Suc (ib_next ib)"
  "ib_auth_chans (register_decision ofr ib) = ib_auth_chans ib"
  "ch_value (ib_decision_chans (register_decision ofr ib) c) =
     (if c = ib_next ib then None else ch_value (ib_decision_chans ib c))"
  by (auto simp: register_decision_def Let_def split: option.splits)

lemma drop_own_simps [simp]:
  "ib_pending (drop_own own ib) = ib_pending ib" "ib_decisions (drop_own own ib) = ib_decisions ib"
  "ib_auths (drop_own own ib) = ib_auths ib" "ib_settled (drop_own own ib) = ib_settled ib"
  "ib_max_pending (drop_own own ib) = ib_max_pending ib" "ib_next (drop_own own ib) = ib_next ib"
  "ib_auth_chans (drop_own own ib) = ib_auth_chans ib"
  "ch_value (ib_decision_chans (drop_own own ib) c) = ch_value (ib_decision_chans ib c)"
  by (auto simp: drop_own_def split: option.split)

lemma release_simps [simp]:
  "ib_pending (release c own ib) = ib_pending ib" "ib_decisions (release c own ib) = ib_decisions ib"
  "ib_auths (release c own ib) = ib_auths ib" "ib_settled (release c own ib) = ib_settled ib"
  "ib_max_pending (release c own ib) = ib_max_pending ib" "ib_next (release c own ib) = ib_next ib"
  "ib_auth_chans (release c own ib) = ib_auth_chans ib"
  "ch_value (ib_decision_chans (release c own ib) d) = ch_value (ib_decision_chans ib d)"
  by (simp_all add: release_def)

lemma open_auth_simps [simp]:
  "ib_pending (open_auth tid ib) = ib_pending ib"
  "ib_decisions (open_auth tid ib) = ib_decisions ib"
  "ib_auths (open_auth tid ib) = (ib_auths ib)(tid := Some (ib_next ib))"
  "ib_settled (open_auth tid ib) = ib_settled ib"
  "ib_max_pending (open_auth tid ib) = ib_max_pending ib"
  "ib_next (open_auth tid ib) = Suc (ib_next ib)"
  "ib_decision_chans (open_auth tid ib) = ib_decision_chans ib"
  "ch_value (ib_auth_chans (open_auth tid ib) c) =
     (if c = ib_next ib then None else ch_value (ib_auth_chans ib c))"
  by (auto simp: open_auth_def Let_def split: option.splits)

section \<open>The tie between channels and transfers\<close>

definition tied ::
    "inbox \<Rightarrow> string set \<Rightarrow> (string \<times> string) set \<Rightarrow> (nat \<Rightarrow> string) \<Rightarrow> (nat \<Rightarrow> string) \<Rightarrow> bool" where
  "tied ib acc del ow aw \<longleftrightarrow>
     (\<forall>t c. ib_decisions ib t = Some c \<longrightarrow> ow c = t \<and> c < ib_next ib) \<and>
     (\<forall>c. ch_value (ib_decision_chans ib c) = Some True \<longrightarrow> ow c \<in> acc \<and> c < ib_next ib) \<and>
     (\<forall>t c. ib_auths ib t = Some c \<longrightarrow> aw c = t \<and> c < ib_next ib \<and> t \<in> acc) \<and>
     (\<forall>c a. ch_value (ib_auth_chans ib c) = Some a \<longrightarrow>
        aw c \<in> acc \<and> (aw c, a) \<in> del \<and> c < ib_next ib) \<and>
     (\<forall>t x. ib_settled ib t = Some (SettledAccepted x) \<longrightarrow> t \<in> acc \<and> (\<exists>a. x = Some a \<and> (t, a) \<in> del))"

lemma tiedI:
  assumes "\<And>t c. ib_decisions ib t = Some c \<Longrightarrow> ow c = t \<and> c < ib_next ib"
    and "\<And>c. ch_value (ib_decision_chans ib c) = Some True \<Longrightarrow> ow c \<in> acc \<and> c < ib_next ib"
    and "\<And>t c. ib_auths ib t = Some c \<Longrightarrow> aw c = t \<and> c < ib_next ib \<and> t \<in> acc"
    and "\<And>c a. ch_value (ib_auth_chans ib c) = Some a \<Longrightarrow>
        aw c \<in> acc \<and> (aw c, a) \<in> del \<and> c < ib_next ib"
    and "\<And>t x. ib_settled ib t = Some (SettledAccepted x) \<Longrightarrow> t \<in> acc \<and> (\<exists>a. x = Some a \<and> (t, a) \<in> del)"
  shows "tied ib acc del ow aw"
  using assms by (simp add: tied_def)

lemma tiedD:
  assumes "tied ib acc del ow aw"
  shows "ib_decisions ib t = Some c \<Longrightarrow> ow c = t \<and> c < ib_next ib"
    and "ch_value (ib_decision_chans ib c) = Some True \<Longrightarrow> ow c \<in> acc \<and> c < ib_next ib"
    and "ib_auths ib t = Some c \<Longrightarrow> aw c = t \<and> c < ib_next ib \<and> t \<in> acc"
    and "ch_value (ib_auth_chans ib c) = Some a \<Longrightarrow> aw c \<in> acc \<and> (aw c, a) \<in> del \<and> c < ib_next ib"
    and "ib_settled ib t = Some (SettledAccepted x) \<Longrightarrow> t \<in> acc \<and> (\<exists>a. x = Some a \<and> (t, a) \<in> del)"
  using assms unfolding tied_def by blast+

lemma tied_new: "tied (new_inbox m cd) {} {} ow aw"
  by (simp add: tied_def new_inbox_def)

lemma tied_mono:
  assumes "tied ib acc del ow aw" and "acc \<subseteq> acc'" and "del \<subseteq> del'"
  shows "tied ib acc' del' ow aw"
proof (rule tiedI)
  fix t c x a
  note d = tiedD [OF assms(1)]
  show "ib_decisions ib t = Some c \<Longrightarrow> ow c = t \<and> c < ib_next ib" by (rule d)
  show "ch_value (ib_decision_chans ib c) = Some True \<Longrightarrow> ow c \<in> acc' \<and> c < ib_next ib"
    using d(2) assms(2) by blast
  show "ib_auths ib t = Some c \<Longrightarrow> aw c = t \<and> c < ib_next ib \<and> t \<in> acc'" using d(3) assms(2) by blast
  show "ch_value (ib_auth_chans ib c) = Some a \<Longrightarrow> aw c \<in> acc' \<and> (aw c, a) \<in> del' \<and> c < ib_next ib"
    using d(4) assms(2,3) by blast
  show "ib_settled ib t = Some (SettledAccepted x) \<Longrightarrow> t \<in> acc' \<and> (\<exists>a. x = Some a \<and> (t, a) \<in> del')"
    using d(5) assms(2,3) by blast
qed

text \<open>A fresh owner: channels from \<open>ib_next\<close> on have no owner that matters.\<close>

lemma tied_owner:
  assumes "tied ib acc del ow aw"
    and "\<And>c. c < ib_next ib \<Longrightarrow> ow' c = ow c" and "\<And>c. c < ib_next ib \<Longrightarrow> aw' c = aw c"
  shows "tied ib acc del ow' aw'"
proof (rule tiedI)
  fix t c x a
  note d = tiedD [OF assms(1)]
  show "ib_decisions ib t = Some c \<Longrightarrow> ow' c = t \<and> c < ib_next ib" using d(1) assms(2) by fastforce
  show "ch_value (ib_decision_chans ib c) = Some True \<Longrightarrow> ow' c \<in> acc \<and> c < ib_next ib"
    using d(2) assms(2) by fastforce
  show "ib_auths ib t = Some c \<Longrightarrow> aw' c = t \<and> c < ib_next ib \<and> t \<in> acc" using d(3) assms(3) by fastforce
  show "ch_value (ib_auth_chans ib c) = Some a \<Longrightarrow> aw' c \<in> acc \<and> (aw' c, a) \<in> del \<and> c < ib_next ib"
    using d(4) assms(3) by fastforce
  show "ib_settled ib t = Some (SettledAccepted x) \<Longrightarrow> t \<in> acc \<and> (\<exists>a. x = Some a \<and> (t, a) \<in> del)"
    by (rule d)
qed

text \<open>Operations that only drop map entries and never store \<open>True\<close> or an authorization.\<close>

lemma tied_less:
  assumes "tied ib acc del ow aw"
    and "\<And>t c. ib_decisions ib' t = Some c \<Longrightarrow> ib_decisions ib t = Some c"
    and "\<And>t c. ib_auths ib' t = Some c \<Longrightarrow> ib_auths ib t = Some c"
    and "ib_settled ib' = ib_settled ib" and "ib_next ib' = ib_next ib"
    and "\<And>c. ch_value (ib_decision_chans ib' c) = Some True \<Longrightarrow> ch_value (ib_decision_chans ib c) = Some True"
    and "\<And>c a. ch_value (ib_auth_chans ib' c) = Some a \<Longrightarrow> ch_value (ib_auth_chans ib c) = Some a"
  shows "tied ib' acc del ow aw"
proof (rule tiedI)
  fix t c x a
  note d = tiedD [OF assms(1)]
  show "ib_decisions ib' t = Some c \<Longrightarrow> ow c = t \<and> c < ib_next ib'" using d(1) [of t c] assms(2) [of t c] assms(5) by simp
  show "ch_value (ib_decision_chans ib' c) = Some True \<Longrightarrow> ow c \<in> acc \<and> c < ib_next ib'"
    using d(2) [of c] assms(6) [of c] assms(5) by simp
  show "ib_auths ib' t = Some c \<Longrightarrow> aw c = t \<and> c < ib_next ib' \<and> t \<in> acc" using d(3) [of t c] assms(3) [of t c] assms(5) by simp
  show "ch_value (ib_auth_chans ib' c) = Some a \<Longrightarrow> aw c \<in> acc \<and> (aw c, a) \<in> del \<and> c < ib_next ib'"
    using d(4) [of c a] assms(7) [of c a] assms(5) by simp
  show "ib_settled ib' t = Some (SettledAccepted x) \<Longrightarrow> t \<in> acc \<and> (\<exists>a. x = Some a \<and> (t, a) \<in> del)"
    using d(5) [of t x] assms(4) by simp
qed

lemma tied_discard: "tied ib acc del ow aw \<Longrightarrow> tied (discard tid ib) acc del ow aw"
  by (erule tied_less) (auto dest: discard_decision_value split: if_splits)

lemma tied_remove_auth: "tied ib acc del ow aw \<Longrightarrow> tied (remove_auth tid ib) acc del ow aw"
  by (erule tied_less) (auto split: if_splits)

lemma tied_drop_own: "tied ib acc del ow aw \<Longrightarrow> tied (drop_own own ib) acc del ow aw"
  by (erule tied_less) simp_all

lemma tied_release: "tied ib acc del ow aw \<Longrightarrow> tied (release c own ib) acc del ow aw"
  by (erule tied_less) simp_all

lemma tied_drop_auth: "tied ib acc del ow aw \<Longrightarrow> tied (on_auth c (drop_receivers k) ib) acc del ow aw"
  by (erule tied_less) (auto split: if_splits)

lemma tied_discard_from:
  "tied ib acc del ow aw \<Longrightarrow> tied (discard_from e ib) acc del ow aw"
proof -
  have "tied (fold discard ids ib) acc del ow aw" if "tied ib acc del ow aw" for ids ib
    using that by (induction ids arbitrary: ib) (simp_all add: tied_discard)
  then show "tied ib acc del ow aw \<Longrightarrow> tied (discard_from e ib) acc del ow aw"
    by (simp add: discard_from_def)
qed

lemma join_wait_tied:
  assumes "tied ib acc del ow aw" and "join_wait tid own ib = (out, ib')"
  shows "tied ib' acc del ow aw"
    and "out = SubmitWait c k \<Longrightarrow> ow c = tid \<and> c < ib_next ib'"
    and "out = SubmitDone OfferAccepted \<Longrightarrow> tid \<in> acc"
    and "ib_next ib' = ib_next ib" and "ib_pending ib' = ib_pending ib"
    and "ib_max_pending ib' = ib_max_pending ib"
proof -
  show "tied ib' acc del ow aw"
    by (rule tied_less [OF assms(1)])
      (use assms(2) in \<open>auto simp: join_wait_def split: option.splits if_splits\<close>)
  show "out = SubmitWait c k \<Longrightarrow> ow c = tid \<and> c < ib_next ib'"
    and "out = SubmitDone OfferAccepted \<Longrightarrow> tid \<in> acc"
    and "ib_next ib' = ib_next ib" and "ib_pending ib' = ib_pending ib"
    and "ib_max_pending ib' = ib_max_pending ib"
    using assms(2) tiedD(1,5) [OF assms(1)]
    by (auto simp: join_wait_def settled_to_decision_def split: option.splits settled_offer.splits)
qed

lemma submit_check_tied:
  assumes "tied ib acc del ow aw" and "submit_check now ofr ib = (out, ib')"
  shows "tied ib' acc del ow aw"
    and "out = CheckDone OfferAccepted \<Longrightarrow> po_transfer_id ofr \<in> acc"
    and "ib_next ib' = ib_next ib" and "ib_pending ib' = ib_pending ib"
    and "ib_max_pending ib' = ib_max_pending ib"
proof -
  obtain cooling cd where cd: "is_cooling now (po_sender_endpoint_id ofr) (ib_cooldown ib) = (cooling, cd)"
    by (cases "is_cooling now (po_sender_endpoint_id ofr) (ib_cooldown ib)")
  have ib': "ib' = ib\<lparr>ib_cooldown := cd\<rparr>"
    using assms(2) cd by (auto simp: submit_check_def Let_def split: if_splits option.splits)
  show "tied ib' acc del ow aw" unfolding ib' by (rule tied_less [OF assms(1)]) simp_all
  show "ib_next ib' = ib_next ib" "ib_pending ib' = ib_pending ib" "ib_max_pending ib' = ib_max_pending ib"
    using ib' by simp_all
  show "out = CheckDone OfferAccepted \<Longrightarrow> po_transfer_id ofr \<in> acc"
    using assms(2) cd tiedD(5) [OF assms(1)]
    by (auto simp: submit_check_def Let_def settled_to_decision_def
        split: if_splits option.splits settled_offer.splits)
qed

lemma register_tied:
  assumes "tied ib acc del ow aw"
  shows "tied (register_decision ofr ib) acc del (ow(ib_next ib := po_transfer_id ofr)) aw"
proof (rule tiedI)
  fix t c x a
  let ?ib = "register_decision ofr ib"
  note d = tiedD [OF assms]
  show "ib_decisions ?ib t = Some c \<Longrightarrow> (ow(ib_next ib := po_transfer_id ofr)) c = t \<and> c < ib_next ?ib"
    using d(1) [of t c] by (auto split: if_splits)
  show "ch_value (ib_decision_chans ?ib c) = Some True \<Longrightarrow>
      (ow(ib_next ib := po_transfer_id ofr)) c \<in> acc \<and> c < ib_next ?ib"
    using d(2) [of c] by (auto split: if_splits)
  show "ib_auths ?ib t = Some c \<Longrightarrow> aw c = t \<and> c < ib_next ?ib \<and> t \<in> acc" using d(3) [of t c] by auto
  show "ch_value (ib_auth_chans ?ib c) = Some a \<Longrightarrow> aw c \<in> acc \<and> (aw c, a) \<in> del \<and> c < ib_next ?ib"
    using d(4) [of c a] by auto
  show "ib_settled ?ib t = Some (SettledAccepted x) \<Longrightarrow> t \<in> acc \<and> (\<exists>a. x = Some a \<and> (t, a) \<in> del)"
    using d(5) [of t x] by simp
qed

text \<open>An insertion touches the pending offers only.\<close>

lemma submit_insert_run:
  assumes "submit_insert ofr ib = (out, ib')"
  obtains "out = CheckProceed" "ib' = ib\<lparr>ib_pending := ib_pending ib @ [ofr]\<rparr>"
      "find_pending (po_transfer_id ofr) ib = None"
      "\<not> list_ex (\<lambda>p. po_sender_endpoint_id p = po_sender_endpoint_id ofr) (ib_pending ib)"
      "length (ib_pending ib) < ib_max_pending ib"
  | "out = CheckJoin" "ib' = ib" | reason where "out = CheckDone (OfferRefused reason)" "ib' = ib"
  using assms by (auto simp: submit_insert_def split: if_splits)

lemma submit_insert_tied:
  assumes t: "tied ib acc del ow aw" and run: "submit_insert ofr ib = (out, ib')"
  shows "tied ib' acc del ow aw" and "out \<noteq> CheckDone OfferAccepted" and "ib_next ib' = ib_next ib"
proof -
  show "tied ib' acc del ow aw" using run by (cases rule: submit_insert_run) (use t in \<open>auto elim: tied_less\<close>)
  show "out \<noteq> CheckDone OfferAccepted" "ib_next ib' = ib_next ib"
    using run by (cases rule: submit_insert_run; simp)+
qed

lemma finish_wait_tied:
  assumes t: "tied ib acc del ow aw" and run: "finish_wait tid c own to ib = Some (d, ib')"
  shows "tied ib' acc del ow aw" and "d = OfferAccepted \<Longrightarrow> ow c \<in> acc" and "ib_next ib' = ib_next ib"
proof -
  show "tied ib' acc del ow aw"
    using run tied_release [OF t] tied_release [OF tied_discard [OF t]]
    by (auto simp: finish_wait_def Let_def split: option.splits bool.splits if_splits)
  show "d = OfferAccepted \<Longrightarrow> ow c \<in> acc" and "ib_next ib' = ib_next ib"
    using run tiedD(2) [OF t, of c]
    by (auto simp: finish_wait_def watch_poll_def Let_def split: option.splits bool.splits if_splits)
qed

lemma open_auth_tied:
  assumes "tied ib acc del ow aw"
  shows "tied (open_auth tid ib) (insert tid acc) del ow (aw(ib_next ib := tid))"
proof (rule tiedI)
  fix t c x a
  let ?ib = "open_auth tid ib"
  note d = tiedD [OF assms]
  show "ib_decisions ?ib t = Some c \<Longrightarrow> ow c = t \<and> c < ib_next ?ib" using d(1) [of t c] by auto
  show "ch_value (ib_decision_chans ?ib c) = Some True \<Longrightarrow> ow c \<in> insert tid acc \<and> c < ib_next ?ib"
    using d(2) [of c] by auto
  show "ib_auths ?ib t = Some c \<Longrightarrow>
      (aw(ib_next ib := tid)) c = t \<and> c < ib_next ?ib \<and> t \<in> insert tid acc"
    using d(3) [of t c] by (auto split: if_splits)
  show "ch_value (ib_auth_chans ?ib c) = Some a \<Longrightarrow>
      (aw(ib_next ib := tid)) c \<in> insert tid acc \<and> ((aw(ib_next ib := tid)) c, a) \<in> del \<and> c < ib_next ?ib"
    using d(4) [of c a] by (auto split: if_splits)
  show "ib_settled ?ib t = Some (SettledAccepted x) \<Longrightarrow>
      t \<in> insert tid acc \<and> (\<exists>a. x = Some a \<and> (t, a) \<in> del)"
    using d(5) [of t x] by simp
qed

text \<open>Storing \<open>True\<close> in a decision channel of an accepted transfer.\<close>

lemma tied_accept:
  assumes t: "tied ib acc del ow aw" and c: "ow c \<in> acc" "c < ib_next ib"
    and send: "watch_send True (ib_decision_chans ib c) = (sent, ch)"
  shows "tied (on_decision c (\<lambda>_. ch) ib) acc del ow aw"
proof (rule tiedI)
  fix t' c' x a
  note d = tiedD [OF t]
  let ?ib = "on_decision c (\<lambda>_. ch) ib"
  show "ib_decisions ?ib t' = Some c' \<Longrightarrow> ow c' = t' \<and> c' < ib_next ?ib" using d(1) by simp
  show "ch_value (ib_decision_chans ?ib c') = Some True \<Longrightarrow> ow c' \<in> acc \<and> c' < ib_next ?ib"
    using d(2) [of c'] c by (auto split: if_splits)
  show "ib_auths ?ib t' = Some c' \<Longrightarrow> aw c' = t' \<and> c' < ib_next ?ib \<and> t' \<in> acc" using d(3) by simp
  show "ch_value (ib_auth_chans ?ib c') = Some a \<Longrightarrow> aw c' \<in> acc \<and> (aw c', a) \<in> del \<and> c' < ib_next ?ib"
    using d(4) by simp
  show "ib_settled ?ib t' = Some (SettledAccepted x) \<Longrightarrow> t' \<in> acc \<and> (\<exists>a. x = Some a \<and> (t', a) \<in> del)"
    using d(5) by simp
qed

lemma accept_live_tied:
  assumes t: "tied ib acc del ow aw" and run: "accept_live tid ib = (res, ib')"
  shows "tied ib' (insert tid acc) del ow (aw(ib_next ib := tid))" and "ib_next ib \<le> ib_next ib'"
proof -
  show "tied ib' (insert tid acc) del ow (aw(ib_next ib := tid))"
  proof (cases "ib_decisions ib tid")
    case None
    then have "ib' = ib" using run by (simp add: accept_live_def)
    moreover have "tied ib (insert tid acc) del ow aw" by (rule tied_mono [OF t]) auto
    ultimately show ?thesis using tied_owner by fastforce
  next
    case (Some c)
    let ?aw = "aw(ib_next ib := tid)"
    have opened: "tied (open_auth tid ib) (insert tid acc) del ow ?aw" by (rule open_auth_tied [OF t])
    have c: "ow c \<in> insert tid acc" "c < ib_next (open_auth tid ib)" using tiedD(1) [OF t Some] by auto
    obtain sent ch where send: "watch_send True (ib_decision_chans (open_auth tid ib) c) = (sent, ch)"
      by (cases "watch_send True (ib_decision_chans (open_auth tid ib) c)")
    have "ib' = on_auth (ib_next ib) (drop_receivers 1)
        (if sent then on_decision c (\<lambda>_. ch) (open_auth tid ib) else remove_auth tid (open_auth tid ib))"
      using run Some send by (simp add: accept_live_def Let_def split: bool.splits)
    moreover have "tied (if sent then on_decision c (\<lambda>_. ch) (open_auth tid ib)
        else remove_auth tid (open_auth tid ib)) (insert tid acc) del ow ?aw"
      using tied_accept [OF opened c send] tied_remove_auth [OF opened] by simp
    ultimately show ?thesis using tied_drop_auth by blast
  qed
  show "ib_next ib \<le> ib_next ib'"
    using run by (auto simp: accept_live_def Let_def split: option.splits prod.splits bool.splits)
qed

lemma wait_for_authorization_tied:
  assumes t: "tied ib acc del ow aw" and run: "wait_for_authorization tid ib = (out, ib')"
  shows "tied ib' acc del ow aw" and "out = AuthWait c \<Longrightarrow> aw c = tid \<and> c < ib_next ib'"
    and "out = AuthDone (Inr (Some a)) \<Longrightarrow> tid \<in> acc \<and> (tid, a) \<in> del" and "ib_next ib' = ib_next ib"
proof -
  show "tied ib' acc del ow aw"
    by (rule tied_less [OF t])
      (use run in \<open>auto simp: wait_for_authorization_def split: option.splits if_splits\<close>)
  show "out = AuthWait c \<Longrightarrow> aw c = tid \<and> c < ib_next ib'" and "ib_next ib' = ib_next ib"
    using run tiedD(3) [OF t, of tid c] by (auto simp: wait_for_authorization_def split: option.splits)
  show "out = AuthDone (Inr (Some a)) \<Longrightarrow> tid \<in> acc \<and> (tid, a) \<in> del"
    using run tiedD(5) [OF t, of tid "Some a"]
    by (auto simp: wait_for_authorization_def settled_authorization_def
        split: option.splits settled_offer.splits)
qed

lemma finish_auth_wait_tied:
  assumes t: "tied ib acc del ow aw" and aw: "aw c = tid"
    and run: "finish_auth_wait tid c to ib = Some (res, ib')"
  shows "tied ib' acc del ow aw" and "res = Inr (Some a) \<Longrightarrow> tid \<in> acc \<and> (tid, a) \<in> del"
    and "ib_next ib' = ib_next ib"
proof -
  show "tied ib' acc del ow aw"
  proof (cases "ch_value (ib_auth_chans ib c)")
    case None
    then show ?thesis
      using run tied_drop_auth [OF tied_remove_auth [OF t]]
      by (auto simp: finish_auth_wait_def watch_poll_def split: if_splits)
  next
    case (Some v)
    let ?ib1 = "remove_auth tid
        (ib\<lparr>ib_pending := delete_where (\<lambda>p. po_transfer_id p = tid) (ib_pending ib)\<rparr>)"
    have v: "tid \<in> acc" "(tid, v) \<in> del" using tiedD(4) [OF t Some] aw by simp_all
    have "tied (ib\<lparr>ib_pending := delete_where (\<lambda>p. po_transfer_id p = tid) (ib_pending ib)\<rparr>) acc del ow aw"
      by (rule tied_less [OF t]) simp_all
    then have t1: "tied ?ib1 acc del ow aw" by (rule tied_remove_auth)
    have "tied (?ib1\<lparr>ib_settled := (ib_settled ?ib1)(tid := Some (SettledAccepted (Some v)))\<rparr>) acc del ow aw"
      using t1 v unfolding tied_def by simp
    from tied_drop_auth [OF this, of c 1] show ?thesis
      using run Some by (auto simp: finish_auth_wait_def watch_poll_def Let_def)
  qed
  show "res = Inr (Some a) \<Longrightarrow> tid \<in> acc \<and> (tid, a) \<in> del" and "ib_next ib' = ib_next ib"
    using run tiedD(4) [OF t, of c] aw
    by (auto simp: finish_auth_wait_def watch_poll_def Let_def split: option.splits if_splits)
qed

lemma deliver_tied:
  assumes t: "tied ib acc del ow aw" and run: "deliver_authorization tid a ib = (sent, ib')"
  shows "tied ib' acc (insert (tid, a) del) ow aw" and "ib_next ib' = ib_next ib"
proof -
  have t': "tied ib acc (insert (tid, a) del) ow aw" by (rule tied_mono [OF t]) auto
  have "ib' = ib \<or> (\<exists>c ch. ib_auths ib tid = Some c \<and> watch_send a (ib_auth_chans ib c) = (sent, ch)
      \<and> ib' = on_auth c (\<lambda>_. ch) ib)"
    using run by (auto simp: deliver_authorization_def split: option.splits prod.splits)
  then show "tied ib' acc (insert (tid, a) del) ow aw"
  proof (elim disjE exE conjE)
    fix c ch assume c: "ib_auths ib tid = Some c"
      and send: "watch_send a (ib_auth_chans ib c) = (sent, ch)" and ib': "ib' = on_auth c (\<lambda>_. ch) ib"
    note d = tiedD [OF t']
    have ch: "w = a \<or> ch_value (ib_auth_chans ib c) = Some w" if "ch_value ch = Some w" for w
      using watch_send_value [of a "ib_auth_chans ib c" w] send that by simp
    show ?thesis
    proof (rule tiedI)
      fix t' c' x b
      show "ib_decisions ib' t' = Some c' \<Longrightarrow> ow c' = t' \<and> c' < ib_next ib'" using d(1) ib' by simp
      show "ch_value (ib_decision_chans ib' c') = Some True \<Longrightarrow> ow c' \<in> acc \<and> c' < ib_next ib'"
        using d(2) ib' by simp
      show "ib_auths ib' t' = Some c' \<Longrightarrow> aw c' = t' \<and> c' < ib_next ib' \<and> t' \<in> acc" using d(3) ib' by simp
      show "ch_value (ib_auth_chans ib' c') = Some b \<Longrightarrow>
          aw c' \<in> acc \<and> (aw c', b) \<in> insert (tid, a) del \<and> c' < ib_next ib'"
        using d(4) [of c' b] ch [of b] d(3) [OF c] ib' by (auto split: if_splits)
      show "ib_settled ib' t' = Some (SettledAccepted x) \<Longrightarrow>
          t' \<in> acc \<and> (\<exists>b. x = Some b \<and> (t', b) \<in> insert (tid, a) del)"
        using d(5) ib' by simp
    qed
  qed (use t' in simp)
  show "ib_next ib' = ib_next ib"
    using run by (auto simp: deliver_authorization_def split: option.splits prod.splits)
qed

section \<open>Bounds\<close>

text \<open>At most \<open>ib_max_pending\<close> offers wait, one per transfer and one per sender.\<close>

definition bounded :: "inbox \<Rightarrow> bool" where
  "bounded ib \<longleftrightarrow>
     distinct (map po_transfer_id (ib_pending ib)) \<and>
     distinct (map po_sender_endpoint_id (ib_pending ib)) \<and>
     length (ib_pending ib) \<le> ib_max_pending ib"

lemma bounded_new: "bounded (new_inbox m cd)"
  by (simp add: bounded_def new_inbox_def)

lemma bounded_same:
  "bounded ib \<Longrightarrow> ib_pending ib' = ib_pending ib \<Longrightarrow> ib_max_pending ib' = ib_max_pending ib \<Longrightarrow>
   bounded ib'"
  by (simp add: bounded_def)

lemma bounded_delete:
  assumes "bounded ib" and "ib_pending ib' = delete_where (\<lambda>p. po_transfer_id p = tid) (ib_pending ib)"
    and "ib_max_pending ib' = ib_max_pending ib"
  shows "bounded ib'"
proof -
  have "length (ib_pending ib') \<le> length (ib_pending ib)"
    using assms(2) by (simp add: delete_where_def)
  moreover have "distinct (map po_transfer_id (ib_pending ib'))"
    and "distinct (map po_sender_endpoint_id (ib_pending ib'))"
    using assms(1,2) by (simp_all add: bounded_def distinct_delete_where)
  ultimately show ?thesis using assms by (auto simp: bounded_def)
qed

lemma bounded_discard: "bounded ib \<Longrightarrow> bounded (discard tid ib)"
  by (erule bounded_delete [where tid = tid]) simp_all

lemma bounded_discard_from: "bounded ib \<Longrightarrow> bounded (discard_from e ib)"
proof -
  have "bounded (fold discard ids ib)" if "bounded ib" for ids ib
    using that by (induction ids arbitrary: ib) (simp_all add: bounded_discard)
  then show "bounded ib \<Longrightarrow> bounded (discard_from e ib)" by (simp add: discard_from_def)
qed

lemma bounded_submit_check:
  assumes "bounded ib" and "submit_check now ofr ib = (out, ib')"
  shows "bounded ib'"
proof -
  obtain cd where "ib' = ib\<lparr>ib_cooldown := cd\<rparr>"
    using assms(2) by (auto simp: submit_check_def Let_def split: prod.splits if_splits option.splits)
  then show ?thesis using assms(1) by (simp add: bounded_def)
qed

lemma bounded_join_wait: "bounded ib \<Longrightarrow> join_wait tid own ib = (out, ib') \<Longrightarrow> bounded ib'"
  by (auto simp: join_wait_def split: option.splits elim: bounded_same)

lemma bounded_submit_insert:
  assumes b: "bounded ib" and run: "submit_insert ofr ib = (out, ib')"
  shows "bounded ib'"
  using run
proof (cases rule: submit_insert_run)
  case 1
  then show ?thesis using b by (auto simp: bounded_def find_pending_def find_by_None_iff list_ex_iff)
qed (use b in simp_all)

lemma bounded_register: "bounded ib \<Longrightarrow> bounded (register_decision ofr ib)"
  by (erule bounded_same) simp_all

lemma bounded_finish_wait: "bounded ib \<Longrightarrow> finish_wait tid c own to ib = Some (d, ib') \<Longrightarrow> bounded ib'"
  using bounded_discard [of ib tid]
  by (auto simp: finish_wait_def Let_def split: option.splits bool.splits if_splits elim: bounded_same)

lemma bounded_accept_live: "bounded ib \<Longrightarrow> accept_live tid ib = (res, ib') \<Longrightarrow> bounded ib'"
  by (auto simp: accept_live_def Let_def split: option.splits prod.splits bool.splits elim!: bounded_same)

lemma bounded_wait_for_authorization:
  "bounded ib \<Longrightarrow> wait_for_authorization tid ib = (out, ib') \<Longrightarrow> bounded ib'"
  by (auto simp: wait_for_authorization_def split: option.splits elim: bounded_same)

lemma bounded_finish_auth_wait:
  assumes "bounded ib" and "finish_auth_wait tid c to ib = Some (res, ib')"
  shows "bounded ib'"
proof -
  have "ib_pending ib' = ib_pending ib \<or>
      ib_pending ib' = delete_where (\<lambda>p. po_transfer_id p = tid) (ib_pending ib)"
    and same: "ib_max_pending ib' = ib_max_pending ib"
    using assms(2) by (auto simp: finish_auth_wait_def Let_def split: option.splits if_splits)
  then show ?thesis
    using bounded_delete [OF assms(1) _ same(1)] bounded_same [OF assms(1) _ same] by blast
qed

lemma bounded_deliver: "bounded ib \<Longrightarrow> deliver_authorization tid a ib = (sent, ib') \<Longrightarrow> bounded ib'"
  by (auto simp: deliver_authorization_def split: option.splits prod.splits elim: bounded_same)

text \<open>The user declines: \<open>respond\<close> with \<open>accepted = false\<close>.\<close>

lemma decline_effect:
  assumes "respond now tid False ib = (out, ib')"
  shows "ib' = ib \<or> (\<exists>d cd ev. ib_decisions ib tid = Some d \<and>
    ib' = (discard tid (on_decision d (\<lambda>ch. snd (watch_send False ch)) ib))\<lparr>
      ib_cooldown := cd,
      ib_settled := (ib_settled ib)(tid := Some (SettledDeclined ''receiver-declined'')),
      ib_events := ev\<rparr>)"
  using assms
  by (auto simp: respond_def Let_def split: option.splits if_splits)

lemma decline_tied:
  assumes t: "tied ib acc del ow aw" and run: "respond now tid False ib = (out, ib')"
  shows "tied ib' acc del ow aw" and "ib_next ib' = ib_next ib"
    and "out = AuthDone (Inr (Some a)) \<Longrightarrow> tid \<in> acc \<and> (tid, a) \<in> del"
    and "out \<noteq> AuthWait c"
proof -
  have sent: "tied (on_decision d (\<lambda>ch. snd (watch_send False ch)) ib) acc del ow aw" for d
    by (rule tied_less [OF t]) (auto simp: watch_send_def split: if_splits)
  from decline_effect [OF run] show "tied ib' acc del ow aw"
  proof (elim disjE exE conjE)
    fix d cd ev
    assume ib': "ib' = (discard tid (on_decision d (\<lambda>ch. snd (watch_send False ch)) ib))\<lparr>
      ib_cooldown := cd,
      ib_settled := (ib_settled ib)(tid := Some (SettledDeclined ''receiver-declined'')),
      ib_events := ev\<rparr>"
    from tied_discard [OF sent, of tid d] show ?thesis
      unfolding ib' tied_def by simp
  qed (use t in simp)
  from decline_effect [OF run] show "ib_next ib' = ib_next ib" by auto
  show "out = AuthDone (Inr (Some a)) \<Longrightarrow> tid \<in> acc \<and> (tid, a) \<in> del" and "out \<noteq> AuthWait c"
    using run tiedD(5) [OF t, of tid "Some a"]
    by (auto simp: respond_def settled_authorization_def Let_def
        split: option.splits settled_offer.splits if_splits)
qed

lemma bounded_decline:
  assumes b: "bounded ib" and run: "respond now tid False ib = (out, ib')"
  shows "bounded ib'"
  using decline_effect [OF run]
proof (elim disjE exE conjE)
  fix d cd ev
  assume ib': "ib' = (discard tid (on_decision d (\<lambda>ch. snd (watch_send False ch)) ib))\<lparr>
      ib_cooldown := cd,
      ib_settled := (ib_settled ib)(tid := Some (SettledDeclined ''receiver-declined'')),
      ib_events := ev\<rparr>"
  show ?thesis unfolding ib' by (rule bounded_delete [OF b, of _ tid]) simp_all
qed (use b in simp)

section \<open>Runs\<close>

text \<open>
  \<open>ir_answers\<close> is what submitters were told, \<open>ir_results\<close> the authorizations the accepting user's
  call returned, \<open>ir_accepted\<close> the transfers the user accepted, \<open>ir_delivered\<close> what senders
  delivered. \<open>ir_submits\<close> holds the calls of \<open>submit\<close> that are between two of their parts, with the part
  that comes next; any other step can run before it. The acceptance and the wait of \<open>respond\<close> are steps too.
\<close>

datatype submit_at = AtInsert | AtRegister | AtJoin "nat option"

record inbox_run =
  ir_inbox :: inbox
  ir_submits :: "(offer \<times> submit_at) list"
  ir_waits :: "(string \<times> nat \<times> nat option) list"
  ir_auth_waits :: "(string \<times> nat) list"
  ir_accepted :: "string set"
  ir_delivered :: "(string \<times> string) set"
  ir_answers :: "(string \<times> offer_decision) list"
  ir_results :: "(string \<times> string) list"

definition start_run :: "nat \<Rightarrow> cooldown \<Rightarrow> inbox_run" where
  "start_run m cd = \<lparr>ir_inbox = new_inbox m cd, ir_submits = [], ir_waits = [], ir_auth_waits = [],
     ir_accepted = {}, ir_delivered = {}, ir_answers = [], ir_results = []\<rparr>"

definition note_submit :: "string \<Rightarrow> submit_outcome \<Rightarrow> inbox \<Rightarrow> inbox_run \<Rightarrow> inbox_run" where
  "note_submit tid out ib r = (case out of
      SubmitDone d \<Rightarrow> r\<lparr>ir_inbox := ib, ir_answers := (tid, d) # ir_answers r\<rparr>
    | SubmitWait c own \<Rightarrow> r\<lparr>ir_inbox := ib, ir_waits := (tid, c, own) # ir_waits r\<rparr>)"

definition note_check :: "offer \<Rightarrow> submit_at \<Rightarrow> submit_check_result \<Rightarrow> inbox \<Rightarrow> inbox_run \<Rightarrow> inbox_run" where
  "note_check ofr next_part out ib r = (case out of
      CheckDone d \<Rightarrow> r\<lparr>ir_inbox := ib, ir_answers := (po_transfer_id ofr, d) # ir_answers r\<rparr>
    | CheckJoin \<Rightarrow> r\<lparr>ir_inbox := ib, ir_submits := (ofr, AtJoin None) # ir_submits r\<rparr>
    | CheckProceed \<Rightarrow> r\<lparr>ir_inbox := ib, ir_submits := (ofr, next_part) # ir_submits r\<rparr>)"

definition leave_part :: "offer \<Rightarrow> submit_at \<Rightarrow> inbox_run \<Rightarrow> inbox_run" where
  "leave_part ofr part r = r\<lparr>ir_submits := remove1 (ofr, part) (ir_submits r)\<rparr>"

definition note_auth :: "string \<Rightarrow> auth_outcome \<Rightarrow> inbox \<Rightarrow> inbox_run \<Rightarrow> inbox_run" where
  "note_auth tid out ib r = (case out of
      AuthDone (Inr (Some a)) \<Rightarrow> r\<lparr>ir_inbox := ib, ir_results := (tid, a) # ir_results r\<rparr>
    | AuthDone _ \<Rightarrow> r\<lparr>ir_inbox := ib\<rparr>
    | AuthWait c \<Rightarrow> r\<lparr>ir_inbox := ib, ir_auth_waits := (tid, c) # ir_auth_waits r\<rparr>)"

inductive inbox_step :: "inbox_run \<Rightarrow> inbox_run \<Rightarrow> bool" where
  check: "submit_check now ofr (ir_inbox r) = (out, ib) \<Longrightarrow>
    inbox_step r (note_check ofr AtInsert out ib r)"
| insert: "(ofr, AtInsert) \<in> set (ir_submits r) \<Longrightarrow> submit_insert ofr (ir_inbox r) = (out, ib) \<Longrightarrow>
    inbox_step r (note_check ofr AtRegister out ib (leave_part ofr AtInsert r))"
| register: "(ofr, AtRegister) \<in> set (ir_submits r) \<Longrightarrow>
    inbox_step r (note_check ofr (AtJoin (Some (ib_next (ir_inbox r)))) CheckProceed
      (register_decision ofr (ir_inbox r)) (leave_part ofr AtRegister r))"
| join: "(ofr, AtJoin own) \<in> set (ir_submits r) \<Longrightarrow> join_wait (po_transfer_id ofr) own (ir_inbox r) = (out, ib) \<Longrightarrow>
    inbox_step r (note_submit (po_transfer_id ofr) out ib (leave_part ofr (AtJoin own) r))"
| decided: "(tid, c, own) \<in> set (ir_waits r) \<Longrightarrow>
    finish_wait tid c own timed_out (ir_inbox r) = Some (d, ib) \<Longrightarrow>
    inbox_step r (r\<lparr>ir_inbox := ib, ir_waits := remove1 (tid, c, own) (ir_waits r),
      ir_answers := (tid, d) # ir_answers r\<rparr>)"
| accept: "accept_live tid (ir_inbox r) = (res, ib) \<Longrightarrow>
    inbox_step r (r\<lparr>ir_inbox := ib, ir_accepted := insert tid (ir_accepted r)\<rparr>)"
| await: "wait_for_authorization tid (ir_inbox r) = (out, ib) \<Longrightarrow>
    inbox_step r (note_auth tid out ib r)"
| authorized: "(tid, c) \<in> set (ir_auth_waits r) \<Longrightarrow>
    finish_auth_wait tid c timed_out (ir_inbox r) = Some (res, ib) \<Longrightarrow>
    inbox_step r (note_auth tid (AuthDone res) ib
      (r\<lparr>ir_auth_waits := remove1 (tid, c) (ir_auth_waits r)\<rparr>))"
| decline: "respond now tid False (ir_inbox r) = (out, ib) \<Longrightarrow> inbox_step r (note_auth tid out ib r)"
| deliver: "deliver_authorization tid a (ir_inbox r) = (sent, ib) \<Longrightarrow>
    inbox_step r (r\<lparr>ir_inbox := ib, ir_delivered := insert (tid, a) (ir_delivered r)\<rparr>)"
| drop: "inbox_step r (r\<lparr>ir_inbox := discard tid (ir_inbox r)\<rparr>)"
| drop_from: "inbox_step r (r\<lparr>ir_inbox := discard_from e (ir_inbox r)\<rparr>)"

definition run_ok :: "inbox_run \<Rightarrow> (nat \<Rightarrow> string) \<Rightarrow> (nat \<Rightarrow> string) \<Rightarrow> bool" where
  "run_ok r ow aw \<longleftrightarrow>
     tied (ir_inbox r) (ir_accepted r) (ir_delivered r) ow aw \<and>
     (\<forall>(t, c, k) \<in> set (ir_waits r). ow c = t \<and> c < ib_next (ir_inbox r)) \<and>
     (\<forall>(t, c) \<in> set (ir_auth_waits r). aw c = t \<and> c < ib_next (ir_inbox r)) \<and>
     (\<forall>t. (t, OfferAccepted) \<in> set (ir_answers r) \<longrightarrow> t \<in> ir_accepted r) \<and>
     (\<forall>(t, a) \<in> set (ir_results r). t \<in> ir_accepted r \<and> (t, a) \<in> ir_delivered r)"

lemma run_okI:
  assumes "tied (ir_inbox r) (ir_accepted r) (ir_delivered r) ow aw"
    and "\<And>t c k. (t, c, k) \<in> set (ir_waits r) \<Longrightarrow> ow c = t \<and> c < ib_next (ir_inbox r)"
    and "\<And>t c. (t, c) \<in> set (ir_auth_waits r) \<Longrightarrow> aw c = t \<and> c < ib_next (ir_inbox r)"
    and "\<And>t. (t, OfferAccepted) \<in> set (ir_answers r) \<Longrightarrow> t \<in> ir_accepted r"
    and "\<And>t a. (t, a) \<in> set (ir_results r) \<Longrightarrow> t \<in> ir_accepted r \<and> (t, a) \<in> ir_delivered r"
  shows "run_ok r ow aw"
  using assms by (auto simp: run_ok_def)

lemma run_okD:
  assumes "run_ok r ow aw"
  shows "tied (ir_inbox r) (ir_accepted r) (ir_delivered r) ow aw"
    and "(t, c, k) \<in> set (ir_waits r) \<Longrightarrow> ow c = t \<and> c < ib_next (ir_inbox r)"
    and "(t, d) \<in> set (ir_auth_waits r) \<Longrightarrow> aw d = t \<and> d < ib_next (ir_inbox r)"
    and "(t, OfferAccepted) \<in> set (ir_answers r) \<Longrightarrow> t \<in> ir_accepted r"
    and "(t, a) \<in> set (ir_results r) \<Longrightarrow> t \<in> ir_accepted r \<and> (t, a) \<in> ir_delivered r"
  using assms by (auto simp: run_ok_def)

text \<open>The inbox of a run may be replaced by a tied one with at least as many channels.\<close>

lemma run_ok_inbox:
  assumes r: "run_ok r ow aw"
    and tied: "tied ib acc del ow' aw'" and nxt: "ib_next (ir_inbox r) \<le> ib_next ib"
    and ow: "\<And>c. c < ib_next (ir_inbox r) \<Longrightarrow> ow' c = ow c"
    and aw: "\<And>c. c < ib_next (ir_inbox r) \<Longrightarrow> aw' c = aw c"
    and acc: "ir_accepted r \<subseteq> acc" and del: "ir_delivered r \<subseteq> del"
  shows "run_ok (r\<lparr>ir_inbox := ib, ir_accepted := acc, ir_delivered := del\<rparr>) ow' aw'"
proof (rule run_okI)
  fix t c k a
  note d = run_okD [OF r]
  let ?r = "r\<lparr>ir_inbox := ib, ir_accepted := acc, ir_delivered := del\<rparr>"
  show "tied (ir_inbox ?r) (ir_accepted ?r) (ir_delivered ?r) ow' aw'" using tied by simp
  show "(t, c, k) \<in> set (ir_waits ?r) \<Longrightarrow> ow' c = t \<and> c < ib_next (ir_inbox ?r)"
    using d(2) [of t c k] ow [of c] nxt by auto
  show "(t, c) \<in> set (ir_auth_waits ?r) \<Longrightarrow> aw' c = t \<and> c < ib_next (ir_inbox ?r)"
    using d(3) [of t c] aw [of c] nxt by auto
  show "(t, OfferAccepted) \<in> set (ir_answers ?r) \<Longrightarrow> t \<in> ir_accepted ?r" using d(4) [of t] acc by auto
  show "(t, a) \<in> set (ir_results ?r) \<Longrightarrow> t \<in> ir_accepted ?r \<and> (t, a) \<in> ir_delivered ?r"
    using d(5) [of t a] acc del by auto
qed

lemma run_ok_same_history:
  assumes "run_ok r ow aw" and "tied ib (ir_accepted r) (ir_delivered r) ow' aw"
    and "ib_next (ir_inbox r) \<le> ib_next ib" and "\<And>c. c < ib_next (ir_inbox r) \<Longrightarrow> ow' c = ow c"
  shows "run_ok (r\<lparr>ir_inbox := ib\<rparr>) ow' aw"
  using run_ok_inbox [OF assms(1,2,3,4)] by simp

lemma run_ok_answer:
  "run_ok r ow aw \<Longrightarrow> (d = OfferAccepted \<Longrightarrow> t \<in> ir_accepted r) \<Longrightarrow>
   run_ok (r\<lparr>ir_answers := (t, d) # ir_answers r\<rparr>) ow aw"
  by (auto simp: run_ok_def)

lemma run_ok_wait:
  "run_ok r ow aw \<Longrightarrow> ow c = t \<Longrightarrow> c < ib_next (ir_inbox r) \<Longrightarrow>
   run_ok (r\<lparr>ir_waits := (t, c, k) # ir_waits r\<rparr>) ow aw"
  by (auto simp: run_ok_def)

lemma run_ok_auth_wait:
  "run_ok r ow aw \<Longrightarrow> aw c = t \<Longrightarrow> c < ib_next (ir_inbox r) \<Longrightarrow>
   run_ok (r\<lparr>ir_auth_waits := (t, c) # ir_auth_waits r\<rparr>) ow aw"
  by (auto simp: run_ok_def)

lemma run_ok_result:
  "run_ok r ow aw \<Longrightarrow> t \<in> ir_accepted r \<Longrightarrow> (t, a) \<in> ir_delivered r \<Longrightarrow>
   run_ok (r\<lparr>ir_results := (t, a) # ir_results r\<rparr>) ow aw"
  by (auto simp: run_ok_def)

lemma run_ok_unwait:
  "run_ok r ow aw \<Longrightarrow> run_ok (r\<lparr>ir_waits := remove1 w (ir_waits r)\<rparr>) ow aw"
  "run_ok r ow aw \<Longrightarrow> run_ok (r\<lparr>ir_auth_waits := remove1 v (ir_auth_waits r)\<rparr>) ow aw"
  by (auto simp: run_ok_def dest: notin_set_remove1 set_remove1_subset [THEN subsetD])

lemma run_ok_note_submit:
  assumes r: "run_ok (r\<lparr>ir_inbox := ib\<rparr>) ow aw"
    and "out = SubmitDone OfferAccepted \<Longrightarrow> t \<in> ir_accepted r"
    and "\<And>c k. out = SubmitWait c k \<Longrightarrow> ow c = t \<and> c < ib_next ib"
  shows "run_ok (note_submit t out ib r) ow aw"
proof (cases out)
  case (SubmitDone d)
  then show ?thesis using run_ok_answer [OF r, of d t] assms(2) by (simp add: note_submit_def)
next
  case (SubmitWait c k)
  then show ?thesis using run_ok_wait [OF r, of c t k] assms(3) by (simp add: note_submit_def)
qed

lemma run_ok_note_check:
  assumes r: "run_ok (r\<lparr>ir_inbox := ib\<rparr>) ow aw" and "out = CheckDone OfferAccepted \<Longrightarrow> po_transfer_id ofr \<in> ir_accepted r"
  shows "run_ok (note_check ofr next_part out ib r) ow aw"
proof (cases out)
  case (CheckDone d)
  then show ?thesis using run_ok_answer [OF r, of d "po_transfer_id ofr"] assms(2) by (simp add: note_check_def)
qed (use r in \<open>simp_all add: note_check_def run_ok_def\<close>)

lemma run_ok_leave: "run_ok (leave_part ofr part r) ow aw \<longleftrightarrow> run_ok r ow aw"
  by (simp add: run_ok_def leave_part_def)

lemma leave_simps [simp]:
  "ir_inbox (leave_part ofr part r) = ir_inbox r" "ir_accepted (leave_part ofr part r) = ir_accepted r"
  "ir_delivered (leave_part ofr part r) = ir_delivered r"
  by (simp_all add: leave_part_def)

lemma run_ok_note_auth:
  assumes r: "run_ok (r\<lparr>ir_inbox := ib\<rparr>) ow aw"
    and "\<And>a. out = AuthDone (Inr (Some a)) \<Longrightarrow> t \<in> ir_accepted r \<and> (t, a) \<in> ir_delivered r"
    and "\<And>c. out = AuthWait c \<Longrightarrow> aw c = t \<and> c < ib_next ib"
  shows "run_ok (note_auth t out ib r) ow aw"
proof (cases out)
  case (AuthDone res)
  then show ?thesis
    using r run_ok_result [OF r, of t] assms(2)
    by (auto simp: note_auth_def split: sum.splits option.splits)
next
  case (AuthWait c)
  then show ?thesis using run_ok_auth_wait [OF r, of c t] assms(3) by (simp add: note_auth_def)
qed

lemma inbox_step_ok:
  assumes "inbox_step r r'" and "run_ok r ow aw"
  shows "\<exists>ow' aw'. run_ok r' ow' aw'"
  using assms
proof (induction rule: inbox_step.induct)
  case (check now ofr r out ib)
  note t = run_okD(1) [OF check.prems] and c = submit_check_tied [OF run_okD(1) [OF check.prems] check.hyps]
  have r: "run_ok (r\<lparr>ir_inbox := ib\<rparr>) ow aw"
    by (rule run_ok_same_history [OF check.prems c(1)]) (simp_all add: c(3))
  have "run_ok (note_check ofr AtInsert out ib r) ow aw"
    by (rule run_ok_note_check [OF r]) (use c(2) in blast)
  then show ?case by blast
next
  case (insert ofr r out ib)
  note i = submit_insert_tied [OF run_okD(1) [OF insert.prems] insert.hyps(2)]
  let ?r = "leave_part ofr AtInsert r"
  have ok: "run_ok ?r ow aw" using insert.prems by (simp add: run_ok_leave)
  have r: "run_ok (?r\<lparr>ir_inbox := ib\<rparr>) ow aw"
    by (rule run_ok_same_history [OF ok]) (simp_all add: i)
  have "run_ok (note_check ofr AtRegister out ib ?r) ow aw"
    by (rule run_ok_note_check [OF r]) (use i(2) in simp)
  then show ?case by blast
next
  case (register ofr r)
  let ?r = "leave_part ofr AtRegister r" and ?ow = "ow(ib_next (ir_inbox r) := po_transfer_id ofr)"
  have ok: "run_ok ?r ow aw" using register.prems by (simp add: run_ok_leave)
  have r: "run_ok (?r\<lparr>ir_inbox := register_decision ofr (ir_inbox r)\<rparr>) ?ow aw"
    by (rule run_ok_same_history [OF ok]) (simp_all add: register_tied [OF run_okD(1) [OF register.prems]])
  have "run_ok (note_check ofr (AtJoin (Some (ib_next (ir_inbox r)))) CheckProceed (register_decision ofr (ir_inbox r)) ?r) ?ow aw"
    by (rule run_ok_note_check [OF r]) simp
  then show ?case by blast
next
  case (join ofr own r out ib)
  note j = join_wait_tied [OF run_okD(1) [OF join.prems] join.hyps(2)]
  let ?r = "leave_part ofr (AtJoin own) r"
  have ok: "run_ok ?r ow aw" using join.prems by (simp add: run_ok_leave)
  have r: "run_ok (?r\<lparr>ir_inbox := ib\<rparr>) ow aw"
    by (rule run_ok_same_history [OF ok]) (simp_all add: j(1,4))
  have "run_ok (note_submit (po_transfer_id ofr) out ib ?r) ow aw"
    by (rule run_ok_note_submit [OF r]) (use j(2,3) in simp_all)
  then show ?case by blast
next
  case (decided tid c own r timed_out d ib)
  note f = finish_wait_tied [OF run_okD(1) [OF decided.prems] decided.hyps(2)]
  have r: "run_ok (r\<lparr>ir_inbox := ib\<rparr>) ow aw"
    by (rule run_ok_same_history [OF decided.prems f(1)]) (simp_all add: f(3))
  have "ow c = tid" using run_okD(2) [OF decided.prems decided.hyps(1)] by simp
  then have "run_ok (r\<lparr>ir_inbox := ib, ir_waits := remove1 (tid, c, own) (ir_waits r),
      ir_answers := (tid, d) # ir_answers r\<rparr>) ow aw"
    using run_ok_answer [OF run_ok_unwait(1) [OF r, of "(tid, c, own)"], of d tid] f(2) by simp
  then show ?case by blast
next
  case (accept tid r res ib)
  note a = accept_live_tied [OF run_okD(1) [OF accept.prems] accept.hyps]
  have "run_ok (r\<lparr>ir_inbox := ib, ir_accepted := insert tid (ir_accepted r),
      ir_delivered := ir_delivered r\<rparr>) ow (aw(ib_next (ir_inbox r) := tid))"
    by (rule run_ok_inbox [OF accept.prems a]) auto
  then show ?case by auto
next
  case (await tid r out ib)
  note w = wait_for_authorization_tied [OF run_okD(1) [OF await.prems] await.hyps]
  have r: "run_ok (r\<lparr>ir_inbox := ib\<rparr>) ow aw"
    by (rule run_ok_same_history [OF await.prems w(1)]) (simp_all add: w(4))
  have "run_ok (note_auth tid out ib r) ow aw"
    by (rule run_ok_note_auth [OF r]) (use w(2,3) in blast)+
  then show ?case by blast
next
  case (authorized tid c r timed_out res ib)
  have aw: "aw c = tid" using run_okD(3) [OF authorized.prems authorized.hyps(1)] by simp
  note f = finish_auth_wait_tied [OF run_okD(1) [OF authorized.prems] aw authorized.hyps(2)]
  have r: "run_ok (r\<lparr>ir_auth_waits := remove1 (tid, c) (ir_auth_waits r), ir_inbox := ib\<rparr>) ow aw"
    by (rule run_ok_same_history [OF run_ok_unwait(2) [OF authorized.prems, of "(tid, c)"]])
      (use f(1,3) in simp_all)
  have "run_ok (note_auth tid (AuthDone res) ib
      (r\<lparr>ir_auth_waits := remove1 (tid, c) (ir_auth_waits r)\<rparr>)) ow aw"
    by (rule run_ok_note_auth) (use r f(2) in auto)
  then show ?case by blast
next
  case (decline now tid r out ib)
  note d = decline_tied [OF run_okD(1) [OF decline.prems] decline.hyps]
  have r: "run_ok (r\<lparr>ir_inbox := ib\<rparr>) ow aw"
    by (rule run_ok_same_history [OF decline.prems d(1)]) (simp_all add: d(2))
  have "run_ok (note_auth tid out ib r) ow aw"
    by (rule run_ok_note_auth [OF r]) (use d(3,4) in blast)+
  then show ?case by blast
next
  case (deliver tid a r sent ib)
  note d = deliver_tied [OF run_okD(1) [OF deliver.prems] deliver.hyps]
  have "run_ok (r\<lparr>ir_inbox := ib, ir_accepted := ir_accepted r,
      ir_delivered := insert (tid, a) (ir_delivered r)\<rparr>) ow aw"
    by (rule run_ok_inbox [OF deliver.prems d(1)]) (auto simp: d(2))
  then show ?case by auto
next
  case (drop r tid)
  have "run_ok (r\<lparr>ir_inbox := discard tid (ir_inbox r)\<rparr>) ow aw"
    by (rule run_ok_same_history [OF drop.prems tied_discard [OF run_okD(1) [OF drop.prems]]]) simp_all
  then show ?case by blast
next
  case (drop_from r e)
  have nxt: "ib_next (discard_from e ib) = ib_next ib" for ib
  proof -
    have "ib_next (fold discard ids ib) = ib_next ib" for ids
      by (induction ids arbitrary: ib) simp_all
    then show ?thesis by (simp add: discard_from_def)
  qed
  have "run_ok (r\<lparr>ir_inbox := discard_from e (ir_inbox r)\<rparr>) ow aw"
    by (rule run_ok_same_history [OF drop_from.prems tied_discard_from [OF run_okD(1) [OF drop_from.prems]]])
      (simp_all add: nxt)
  then show ?case by blast
qed

lemma note_inbox [simp]:
  "ir_inbox (note_submit t out ib r) = ib" "ir_inbox (note_check ofr part c ib r) = ib"
  "ir_inbox (note_auth t x ib r) = ib"
  by (auto simp: note_submit_def note_check_def note_auth_def
      split: submit_outcome.splits submit_check_result.splits auth_outcome.splits sum.splits option.splits)

lemma inbox_step_bounded: "inbox_step r r' \<Longrightarrow> bounded (ir_inbox r) \<Longrightarrow> bounded (ir_inbox r')"
  by (induction rule: inbox_step.induct)
    (auto intro: bounded_submit_check bounded_join_wait bounded_submit_insert bounded_register bounded_finish_wait
      bounded_accept_live bounded_wait_for_authorization bounded_finish_auth_wait bounded_decline
      bounded_deliver bounded_discard bounded_discard_from)

definition reachable_run :: "nat \<Rightarrow> cooldown \<Rightarrow> inbox_run \<Rightarrow> bool" where
  "reachable_run m cd r \<longleftrightarrow> inbox_step\<^sup>*\<^sup>* (start_run m cd) r"

lemma reachable_run_ok: "reachable_run m cd r \<Longrightarrow> \<exists>ow aw. run_ok r ow aw"
  unfolding reachable_run_def
proof (induction rule: rtranclp_induct)
  case base
  have "run_ok (start_run m cd) ow aw" for ow aw
    by (rule run_okI) (simp_all add: start_run_def tied_new)
  then show ?case by blast
next
  case (step r r')
  then show ?case using inbox_step_ok by blast
qed

lemma reachable_bounded: "reachable_run m cd r \<Longrightarrow> bounded (ir_inbox r)"
  unfolding reachable_run_def
proof (induction rule: rtranclp_induct)
  case base
  show ?case by (simp add: start_run_def bounded_new)
next
  case (step r r')
  then show ?case using inbox_step_bounded by blast
qed

end
