(* ===== verification/Store_Properties.thy ===== *)
theory Store_Properties
  imports Targeted_Store_Facts
begin

text \<open>
  The properties of the durable store, method by method: durable consent, the exact condition of
  approval, progress, completion, cancellation, abandonment, the due lists of the outboxes and
  the one-time migration. \<open>ref_row\<close> and \<open>ref_db\<close> are the concrete rows and databases on which
  their hypotheses are shown to hold.
\<close>

definition ref_row :: "TargetedTransferRole \<Rightarrow> TargetedTransferState \<Rightarrow> row" where
  "ref_row role st = \<lparr>
     tr_id = ''t1'', tr_protocol_transfer_id = 7, tr_sender_endpoint_id = ''alice'',
     tr_receiver_endpoint_id = ''bob'', tr_manifest_id = ''hash'', tr_content_hash = ''hash'',
     tr_transfer_name = ''report'', tr_file_count = 1, tr_total_size = 5, tr_verified_bytes = 0,
     tr_blob_ticket = Some ''blob'', tr_secret_handle = Some ''handle'', tr_role = role,
     tr_state = st, tr_created_at = 0, tr_updated_at = 0\<rparr>"

definition ref_db :: "row list \<Rightarrow> intent list \<Rightarrow> outbox list \<Rightarrow> db" where
  "ref_db rows intents os = \<lparr>
     targeted_transfers = rows, accepted_offer_intents = intents,
     authorization_delivery_outbox = os, completion_outbox = [], payload_release_outbox = [],
     schema_migrations = [], db_faults = []\<rparr>"

definition ref_offer :: offer where
  "ref_offer = \<lparr>
     po_transfer_id = ''t1'', po_sender_endpoint_id = ''alice'', po_receiver_endpoint_id = ''bob'',
     po_manifest_id = ''hash'', po_content_hash = ''hash'', po_transfer_name = ''report'',
     po_file_count = 1, po_total_size = 5, po_protocol_version = 3, po_received_at = 0\<rparr>"

lemmas ref_store_defs = ref_row_def ref_db_def ref_offer_def

section \<open>Shared lemmas\<close>

lemma transact_faults:
  "transact f s = (Inr x, t) \<Longrightarrow> \<exists>s0. s0 = s\<lparr>db_faults := tl (db_faults s)\<rparr> \<and> f s0 = (Inr x, t)"
  by (auto dest: transact_InrD)

lemma affected_1_iff:
  assumes "distinct (map key rows)"
  shows "affected (\<lambda>r. key r = k \<and> P r) rows = 1 \<longleftrightarrow> (\<exists>r \<in> set rows. key r = k \<and> P r)"
proof -
  have "affected (\<lambda>r. key r = k \<and> P r) rows \<le> 1" by (rule affected_key_le_1 [OF assms])
  moreover have "affected (\<lambda>r. key r = k \<and> P r) rows = 0 \<longleftrightarrow> \<not> (\<exists>r \<in> set rows. key r = k \<and> P r)" by simp
  ultimately show ?thesis by linarith
qed

lemma update_rows_other:
  "q \<in> set rows \<Longrightarrow> \<not> P q \<Longrightarrow> q \<in> set (update_where P u rows)"
  by (force simp: update_where_def)

lemma update_rowsE:
  assumes "q \<in> set (update_where P u rows)"
  obtains (same) "q \<in> set rows" and "\<not> P q" | (changed) r where "r \<in> set rows" and "P r" and "q = u r"
proof -
  from assms obtain r where "r \<in> set rows" "q = (if P r then u r else r)"
    unfolding set_update_where by blast
  with same changed show ?thesis by (cases "P r") auto
qed

text \<open>With unique ids, the row an update hits is the only one with its id.\<close>

lemma keys_unique:
  "keys_ok s \<Longrightarrow> p \<in> set (targeted_transfers s) \<Longrightarrow> q \<in> set (targeted_transfers s) \<Longrightarrow>
   tr_id p = tr_id q \<Longrightarrow> p = q"
  by (auto simp: keys_ok_def distinct_map inj_on_def)

lemma others_set:
  assumes "\<And>r. tr_id (u r) = tr_id r" and "\<And>r. P r \<Longrightarrow> tr_id r = i" and "tr_id q \<noteq> i"
  shows "q \<in> set (update_where P u rows) \<longleftrightarrow> q \<in> set rows"
  using assms by (induction rows) (auto simp: update_where_def)

lemma updated_row:
  assumes "keys_ok s" and "p \<in> set (targeted_transfers s)" and "\<And>r. tr_id (u r) = tr_id r"
    and "q \<in> set (update_where P u (targeted_transfers s))" and "tr_id q = tr_id p"
  shows "q = (if P p then u p else p)"
proof -
  from assms(4) obtain r where r: "r \<in> set (targeted_transfers s)" "q = (if P r then u r else r)"
    unfolding set_update_where by blast
  then have "r = p" using keys_unique [OF assms(1) r(1) assms(2)] assms(3,5) by (simp split: if_splits)
  with r(2) show ?thesis by simp
qed

lemma update_where_in: "q \<in> set rows \<Longrightarrow> P q \<Longrightarrow> u q \<in> set (update_where P u rows)"
  unfolding update_where_def by force

section \<open>Durable consent\<close>

text \<open>
  consent, once recorded, cannot be rewritten: recording another
  acceptance for the same transfer either fails and changes nothing, or finds the same terms
  and keeps every intent's terms; a success always leaves a consent with exactly the accepted
  offer's terms.
\<close>

theorem consent_terms_are_fixed:
  assumes "persist_accepted_offer_intent now ofr s = (r, t)"
  shows "(\<forall>i \<in> set (accepted_offer_intents s). \<exists>j \<in> set (accepted_offer_intents t).
      in_transfer_id j = in_transfer_id i \<and> intents_agree i j) \<and>
    (\<forall>error. r = Inl error \<longrightarrow> accepted_offer_intents t = accepted_offer_intents s) \<and>
    (r = Inr () \<longrightarrow> (\<exists>j \<in> set (accepted_offer_intents t).
      in_transfer_id j = po_transfer_id ofr \<and> intents_agree j (intent_of_offer now ofr)))"
proof -
  let ?i = "intent_of_offer now ofr" and ?rows = "accepted_offer_intents s"
  let ?P = "\<lambda>q. in_transfer_id q = in_transfer_id ?i" and ?u = "\<lambda>q. q\<lparr>in_accepted_at := now\<rparr>"
  have cases: "(\<exists>e. r = Inl e) \<and> accepted_offer_intents t = ?rows \<or>
    r = Inr () \<and> accepted_offer_intents t = ?rows @ [?i] \<or>
    r = Inr () \<and> accepted_offer_intents t = update_where ?P ?u ?rows \<and>
      (\<exists>j. find_by in_transfer_id (in_transfer_id ?i) ?rows = Some j \<and> intents_agree j ?i)"
    using assms unfolding persist_accepted_offer_intent_def transact_def
    by (auto simp: Let_def split: list.splits option.splits if_splits)
  have agree: "in_transfer_id (?u i) = in_transfer_id i \<and> intents_agree i (?u i)" for i
    by (simp add: intents_agree_def)
  have kept: "\<exists>j \<in> set (update_where ?P ?u ?rows). in_transfer_id j = in_transfer_id i \<and> intents_agree i j"
    if "i \<in> set ?rows" for i
  proof (cases "?P i")
    case True
    then have "?u i \<in> set (update_where ?P ?u ?rows)"
      using that by (simp only: set_update_where) (rule image_eqI [of _ _ i]; simp)
    with agree show ?thesis by blast
  next
    case False
    with that have "i \<in> set (update_where ?P ?u ?rows)" by (rule update_rows_other)
    moreover have "intents_agree i i" by (simp add: intents_agree_def)
    ultimately show ?thesis by blast
  qed
  have refl: "intents_agree i i" for i by (simp add: intents_agree_def)
  have tid: "in_transfer_id ?i = po_transfer_id ofr" by (simp add: intent_of_offer_def)
  from cases show ?thesis
  proof (elim disjE conjE exE)
    fix j assume r: "r = Inr ()" and t: "accepted_offer_intents t = update_where ?P ?u ?rows"
      and j: "find_by in_transfer_id (in_transfer_id ?i) ?rows = Some j" "intents_agree j ?i"
    have "j \<in> set ?rows" "in_transfer_id j = in_transfer_id ?i" using find_by_SomeD [OF j(1)] by auto
    then have "?u j \<in> set (update_where ?P ?u ?rows)"
      by (simp only: set_update_where) (rule image_eqI [of _ _ j]; simp)
    moreover have "intents_agree (?u j) ?i" using j(2) by (simp add: intents_agree_def)
    moreover have "in_transfer_id (?u j) = po_transfer_id ofr"
      using find_by_SomeD [OF j(1)] tid by simp
    ultimately have "\<exists>j \<in> set (accepted_offer_intents t).
      in_transfer_id j = po_transfer_id ofr \<and> intents_agree j ?i"
      unfolding t by (intro bexI [of _ "?u j"]) simp_all
    moreover have "\<forall>i \<in> set ?rows. \<exists>j \<in> set (accepted_offer_intents t).
      in_transfer_id j = in_transfer_id i \<and> intents_agree i j"
      unfolding t using kept by (intro ballI)
    ultimately show ?thesis using r by simp
  qed (use refl tid in auto)
qed

theorem consent_terms_are_fixed_witness:
  "\<exists>e t. persist_accepted_offer_intent 2 (ref_offer\<lparr>po_total_size := 6\<rparr>)
       (ref_db [] [intent_of_offer 1 ref_offer] []) = (Inl e, t) \<and>
     accepted_offer_intents t = [intent_of_offer 1 ref_offer]"
proof -
  let ?s = "ref_db [] [intent_of_offer 1 ref_offer] []" and ?ofr = "ref_offer\<lparr>po_total_size := 6\<rparr>"
  obtain e t where out: "persist_accepted_offer_intent 2 ?ofr ?s = (Inl e, t)"
    by (simp add: persist_accepted_offer_intent_def transact_no_fault ref_store_defs Let_def
        intent_of_offer_def find_by_def intents_agree_def)
  have "accepted_offer_intents t = accepted_offer_intents ?s"
    using consent_terms_are_fixed [OF out] by (elim conjE) blast
  with out show ?thesis by (auto simp: ref_db_def)
qed

text \<open>
  on a working database an authorization is stored as a receiver
  row exactly when a durable consent agrees with it in every field and no row has its ids; then
  the consent is consumed and exactly the row of the authorization is added. Otherwise the
  database is unchanged.
\<close>

theorem receiver_row_needs_consent:
  assumes "db_faults s = []"
    and "persist_receiver_authorization_and_consume_intent now a handle s = (r, t)"
  shows "(r = Inr True \<longleftrightarrow>
      (\<exists>i \<in> set (accepted_offer_intents s). intent_matches_auth a i) \<and>
      (\<forall>q \<in> set (targeted_transfers s). tr_id q \<noteq> au_transfer_id a \<and>
         tr_protocol_transfer_id q \<noteq> au_protocol_transfer_id a)) \<and>
    (r = Inr True \<longrightarrow> targeted_transfers t = targeted_transfers s @ [receiver_row now a handle] \<and>
      accepted_offer_intents t = delete_where (\<lambda>i. in_transfer_id i = au_transfer_id a) (accepted_offer_intents s)) \<and>
    (r \<noteq> Inr True \<longrightarrow> t = s)"
  using assms
  by (auto simp: persist_receiver_authorization_and_consume_intent_def transact_no_fault
      row_conflicts_def receiver_row_def split: if_splits)

theorem receiver_row_needs_consent_witness:
  "let s = ref_db [] [intent_of_offer 1 ref_offer] [];
       out = persist_receiver_authorization_and_consume_intent 2 ref_auth ''h'' s in
   result out = Inr True \<and> accepted_offer_intents (state_of out) = [] \<and>
   targeted_transfers (state_of out) = [receiver_row 2 ref_auth ''h'']"
proof -
  let ?s = "ref_db [] [intent_of_offer 1 ref_offer] []"
  let ?out = "persist_receiver_authorization_and_consume_intent 2 ref_auth ''h'' ?s"
  have bound: "same_bound ref_auth (with_draft ref_draft [])"
    using issuedD [OF ref_ext_ok _ ref_issue] by (simp add: ref_secret_def)
  have m: "intent_matches_auth ref_auth (intent_of_offer 1 ref_offer)"
    using bound by (simp add: same_bound_iff mac_fields_def with_draft_def ref_draft_def
        intent_matches_auth_def intent_of_offer_def ref_offer_def)
  then have tid: "au_transfer_id ref_auth = ''t1''"
    by (simp add: intent_matches_auth_def intent_of_offer_def ref_offer_def)
  from receiver_row_needs_consent [of ?s 2 ref_auth "''h''" "result ?out" "state_of ?out"] m tid
  show ?thesis by (simp add: ref_db_def Let_def delete_where_def intent_of_offer_def ref_offer_def)
qed

section \<open>Progress\<close>

lemma sql_min_max:
  "sint (sql_min a b) = min (sint a) (sint b)" "sint (sql_max a b) = max (sint a) (sint b)"
  by (auto simp: sql_min_def sql_max_def)

lemma nth_update_where: "k < length rows \<Longrightarrow> update_where P u rows ! k = (if P (rows ! k) then u (rows ! k) else rows ! k)"
  by (simp add: update_where_def)

lemma length_update_where [simp]: "length (update_where P u rows) = length rows"
  by (simp add: update_where_def)

text \<open>
  reporting verified bytes touches no column of any row but the
  progress (and the time stamp) of receiving rows; progress never goes backwards and never
  passes the size of the transfer, whatever number is reported.
\<close>

theorem progress_is_monotone:
  assumes "advance_verified_bytes now tid bytes s = (r, t)"
    and "\<forall>q \<in> set (targeted_transfers s). sint (tr_verified_bytes q) \<le> sint (tr_total_size q)"
  shows "length (targeted_transfers t) = length (targeted_transfers s) \<and>
    (\<forall>k < length (targeted_transfers s).
      let q = targeted_transfers s ! k; q' = targeted_transfers t ! k in
      same_identity q q' \<and> tr_state q' = tr_state q \<and> tr_blob_ticket q' = tr_blob_ticket q \<and>
      tr_secret_handle q' = tr_secret_handle q \<and>
      sint (tr_verified_bytes q) \<le> sint (tr_verified_bytes q') \<and>
      sint (tr_verified_bytes q') \<le> sint (tr_total_size q') \<and>
      (tr_verified_bytes q' \<noteq> tr_verified_bytes q \<longrightarrow>
         tr_id q = tid \<and> tr_role q = Receiver \<and> tr_state q = Transferring))"
proof -
  let ?P = "\<lambda>r. tr_id r = tid \<and> tr_role r = Receiver \<and> tr_state r = Transferring
      \<and> sint (tr_verified_bytes r) < sint bytes"
  let ?u = "\<lambda>r. r\<lparr>tr_verified_bytes := sql_min (tr_total_size r) (sql_max (tr_verified_bytes r) bytes),
      tr_updated_at := now\<rparr>"
  have rows: "targeted_transfers t = targeted_transfers s \<or>
      targeted_transfers t = update_where ?P ?u (targeted_transfers s)"
    using assms(1) unfolding advance_verified_bytes_def sql_update_def transact_def
    by (auto simp: bind_def ok_def Let_def split: list.splits option.splits)
  show ?thesis
  proof (cases "targeted_transfers t = targeted_transfers s")
    case True
    then show ?thesis using assms(2) by (auto simp: Let_def)
  next
    case False
    with rows have t: "targeted_transfers t = update_where ?P ?u (targeted_transfers s)" by blast
    have "let q = targeted_transfers s ! k; q' = targeted_transfers t ! k in
      same_identity q q' \<and> tr_state q' = tr_state q \<and> tr_blob_ticket q' = tr_blob_ticket q \<and>
      tr_secret_handle q' = tr_secret_handle q \<and>
      sint (tr_verified_bytes q) \<le> sint (tr_verified_bytes q') \<and>
      sint (tr_verified_bytes q') \<le> sint (tr_total_size q') \<and>
      (tr_verified_bytes q' \<noteq> tr_verified_bytes q \<longrightarrow>
         tr_id q = tid \<and> tr_role q = Receiver \<and> tr_state q = Transferring)"
      if "k < length (targeted_transfers s)" for k
    proof -
      have "sint (tr_verified_bytes (targeted_transfers s ! k)) \<le> sint (tr_total_size (targeted_transfers s ! k))"
        using assms(2) nth_mem [OF that] by blast
      then show ?thesis
        using that by (auto simp: t nth_update_where Let_def same_identity_def sql_min_max)
    qed
    then show ?thesis by (simp add: t)
  qed
qed

theorem progress_is_monotone_witness:
  "\<exists>r t. advance_verified_bytes 9 ''t1'' 4 (ref_db [ref_row Receiver Transferring] [] []) = (r, t) \<and>
     sint (tr_verified_bytes (targeted_transfers t ! 0)) \<le> 5"
proof -
  let ?s = "ref_db [ref_row Receiver Transferring] [] []"
  obtain r t where out: "advance_verified_bytes 9 ''t1'' 4 ?s = (r, t)"
    by (cases "advance_verified_bytes 9 ''t1'' 4 ?s")
  have "\<forall>q \<in> set (targeted_transfers ?s). sint (tr_verified_bytes q) \<le> sint (tr_total_size q)"
    by (simp add: ref_store_defs)
  from progress_is_monotone [OF out this] out show ?thesis
    by (auto simp: Let_def ref_store_defs same_identity_def)
qed

section \<open>Completion and cancellation\<close>

lemma mark_completedE:
  fixes tid :: string
  defines "P \<equiv> \<lambda>r. tr_id r = tid \<and> tr_role r = Sender \<and> is_resumable (tr_state r)"
    and "settled \<equiv> \<lambda>q. tr_id q = tid \<and> tr_role q = Sender \<and> tr_state q = Completed"
  assumes "db_faults s = []" and "mark_sender_completed now tid s = (r, t)"
  obtains (completed) q where "q \<in> set (targeted_transfers s)" "P q" "r = Inr True"
      "targeted_transfers t = update_where P
        (\<lambda>r. r\<lparr>tr_state := Completed, tr_verified_bytes := tr_total_size r, tr_updated_at := now\<rparr>) (targeted_transfers s)"
      "authorization_delivery_outbox t = delete_where (delivery_for tid) (authorization_delivery_outbox s)"
      "payload_release_outbox t = insert_or_ignore rl_transfer_id \<lparr>rl_transfer_id = tid, rl_created_at = now\<rparr> (payload_release_outbox s)"
    | (again) q where "q \<in> set (targeted_transfers s)" "settled q" "\<forall>q \<in> set (targeted_transfers s). \<not> P q"
      "r = Inr False" "targeted_transfers t = targeted_transfers s"
      "authorization_delivery_outbox t = delete_where (delivery_for tid) (authorization_delivery_outbox s)"
    | (refused) "\<forall>q \<in> set (targeted_transfers s). \<not> P q \<and> \<not> settled q" "\<forall>b. r \<noteq> Inr b" "t = s"
proof (cases "affected P (targeted_transfers s) = 0")
  case False
  then obtain q where "q \<in> set (targeted_transfers s)" "P q" by auto
  with False show thesis
    using assms(3,4) unfolding P_def
    by (intro completed) (auto simp: P_def mark_sender_completed_def transact_no_fault Let_def split: if_splits)
next
  case True
  then have none: "\<forall>q \<in> set (targeted_transfers s). \<not> P q" by simp
  show thesis
  proof (cases "exists_where settled (targeted_transfers s)")
    case dn: True
    then obtain q where "q \<in> set (targeted_transfers s)" "settled q" by auto
    with True dn none show thesis
      using assms(3,4) by (intro again) (auto simp: P_def settled_def mark_sender_completed_def transact_no_fault Let_def)
  next
    case dn: False
    with True none show thesis
      using assms(3,4) by (intro refused) (auto simp: P_def settled_def mark_sender_completed_def transact_no_fault Let_def split: if_splits)
  qed
qed

text \<open>
  recording the receiver's completion succeeds exactly for
  a sender row that is approved, in flight, interrupted or already completed; afterwards the
  row is completed with all bytes verified, no delivery is pending, the release of the payload
  is queued when the state changed, and no other row changed.
\<close>

theorem sender_completion_is_recorded_once:
  assumes "keys_ok s" and "db_faults s = []" and "mark_sender_completed now tid s = (r, t)"
  shows "(r = Inr True \<longleftrightarrow> (\<exists>q \<in> set (targeted_transfers s). tr_id q = tid \<and> tr_role q = Sender \<and> is_resumable (tr_state q))) \<and>
    (r = Inr False \<longleftrightarrow> (\<exists>q \<in> set (targeted_transfers s). tr_id q = tid \<and> tr_role q = Sender \<and> tr_state q = Completed)) \<and>
    (r \<in> {Inr True, Inr False} \<longrightarrow>
       (\<forall>ob \<in> set (authorization_delivery_outbox t). ob_transfer_id ob \<noteq> tid) \<and>
       (\<forall>q \<in> set (targeted_transfers t). tr_id q = tid \<longrightarrow> tr_state q = Completed)) \<and>
    (r = Inr True \<longrightarrow> (\<exists>ob \<in> set (payload_release_outbox t). rl_transfer_id ob = tid) \<and>
       (\<forall>q \<in> set (targeted_transfers t). tr_id q = tid \<longrightarrow> tr_verified_bytes q = tr_total_size q)) \<and>
    (\<forall>q. tr_id q \<noteq> tid \<longrightarrow> q \<in> set (targeted_transfers t) \<longleftrightarrow> q \<in> set (targeted_transfers s))"
  using assms(2,3)
proof (cases rule: mark_completedE)
  case (completed q)
  have hits: "tr_state p = Completed \<and> tr_verified_bytes p = tr_total_size p"
    if "p \<in> set (targeted_transfers t)" "tr_id p = tid" for p
    using updated_row [OF assms(1) completed(1) _ that(1) [unfolded completed(4)]] that(2) completed(2) by simp
  have "\<not> (tr_id p = tid \<and> tr_state p = Completed)" if "p \<in> set (targeted_transfers s)" for p
    using keys_unique [OF assms(1) that completed(1)] completed(2) by (auto simp: is_resumable_def)
  moreover have "p \<in> set (targeted_transfers t) \<longleftrightarrow> p \<in> set (targeted_transfers s)" if "tr_id p \<noteq> tid" for p
    unfolding completed(4) using that by (intro others_set [where i = tid]) auto
  moreover have "\<exists>ob \<in> set (payload_release_outbox t). rl_transfer_id ob = tid"
    unfolding completed(6) by (auto simp: insert_or_ignore_def)
  ultimately show ?thesis using completed hits by (auto simp: delivery_for_def)
next
  case (again q)
  have "tr_state p = Completed" if "p \<in> set (targeted_transfers s)" "tr_id p = tid" for p
    using keys_unique [OF assms(1) that(1) again(1)] that(2) again(2) by simp
  then show ?thesis using again by (auto simp: delivery_for_def)
next
  case refused
  then show ?thesis by auto
qed

theorem sender_completion_is_recorded_once_witness:
  "\<exists>t. mark_sender_completed 9 ''t1'' (ref_db [ref_row Sender Connecting] [] []) = (Inr True, t) \<and>
     (\<forall>q \<in> set (targeted_transfers t). tr_id q = ''t1'' \<longrightarrow> tr_state q = Completed)"
proof -
  let ?s = "ref_db [ref_row Sender Connecting] [] []"
  obtain r t where out: "mark_sender_completed 9 ''t1'' ?s = (r, t)"
    by (cases "mark_sender_completed 9 ''t1'' ?s")
  have "keys_ok ?s" "db_faults ?s = []" by (simp_all add: keys_ok_def ref_store_defs)
  note p = sender_completion_is_recorded_once [OF this out]
  have "\<exists>q \<in> set (targeted_transfers ?s). tr_id q = ''t1'' \<and> tr_role q = Sender \<and> is_resumable (tr_state q)"
    by (simp add: ref_store_defs is_resumable_def)
  with p have "r = Inr True" by blast
  with p out show ?thesis by blast
qed

text \<open>
  a local cancellation or deletion that takes effect leaves the
  transfer's row in the requested state with neither blob ticket nor secret handle, and no
  delivery, completion, release or consent record of the transfer; it takes effect exactly when
  the state allows it and never touches another transfer.
\<close>

theorem termination_erases_everything:
  assumes "keys_ok s" and "transition_terminal now tid target True s = (Inr changed, t)"
  shows "(changed \<longleftrightarrow> (\<exists>q \<in> set (targeted_transfers s). tr_id q = tid \<and> transition_allowed (tr_state q) target)) \<and>
    (\<forall>q \<in> set (targeted_transfers t). changed \<and> tr_id q = tid \<longrightarrow>
       tr_state q = target \<and> tr_blob_ticket q = None \<and> tr_secret_handle q = None) \<and>
    (\<forall>ob \<in> set (authorization_delivery_outbox t) \<union> set (completion_outbox t). ob_transfer_id ob \<noteq> tid) \<and>
    (\<forall>ob \<in> set (payload_release_outbox t). rl_transfer_id ob \<noteq> tid) \<and>
    (\<forall>i \<in> set (accepted_offer_intents t). in_transfer_id i \<noteq> tid) \<and>
    (\<forall>q. tr_id q \<noteq> tid \<longrightarrow> q \<in> set (targeted_transfers t) \<longleftrightarrow> q \<in> set (targeted_transfers s)) \<and>
    target \<in> {Cancelled, Deleted}"
proof -
  have target: "target = Cancelled \<or> target = Deleted"
    using assms(2) by (auto simp: transition_terminal_def split: if_splits)
  let ?Q = "\<lambda>r. tr_state r \<noteq> target \<and> (target = Deleted \<and> tr_state r \<noteq> Deleted
                   \<or> target = Cancelled \<and> \<not> is_terminal (tr_state r))"
  let ?P = "\<lambda>r. tr_id r = tid \<and> ?Q r"
  let ?u = "\<lambda>r. r\<lparr>tr_state := target, tr_blob_ticket := None, tr_secret_handle := None, tr_updated_at := now\<rparr>"
  let ?rows = "targeted_transfers s"
  have out: "changed = (affected ?P ?rows = 1)" "targeted_transfers t = update_where ?P ?u ?rows"
    "authorization_delivery_outbox t = delete_where (delivery_for tid) (authorization_delivery_outbox s)"
    "completion_outbox t = delete_where (delivery_for tid) (completion_outbox s)"
    "payload_release_outbox t = delete_where (release_for tid) (payload_release_outbox s)"
    "accepted_offer_intents t = delete_where (\<lambda>i. in_transfer_id i = tid) (accepted_offer_intents s)"
    using assms(2) target
    by (auto simp: transition_terminal_def Let_def dest!: transact_InrD split: if_splits)
  have allowed: "?Q r \<longleftrightarrow> transition_allowed (tr_state r) target" for r
    using target by (auto simp: cancel_allowed_iff delete_allowed_iff is_terminal_def)
  have iff: "changed \<longleftrightarrow> (\<exists>q \<in> set ?rows. ?P q)"
    using affected_1_iff [of tr_id ?rows tid ?Q] assms(1) out(1) by (simp add: keys_ok_def)
  have hit: "tr_state q = target \<and> tr_blob_ticket q = None \<and> tr_secret_handle q = None"
    if q: "q \<in> set (update_where ?P ?u ?rows)" "tr_id q = tid" and changed for q
    using q(1)
  proof (cases rule: update_rowsE)
    case same
    obtain p where p: "p \<in> set ?rows" "?P p" using iff \<open>changed\<close> by blast
    then have "p = q" using same(1) q(2) assms(1) by (auto simp: keys_ok_def distinct_map inj_on_def)
    with same p show ?thesis by blast
  qed simp
  have other: "q \<in> set (update_where ?P ?u ?rows) \<longleftrightarrow> q \<in> set ?rows" if "tr_id q \<noteq> tid" for q
    using that by (auto simp: update_where_def)
  have effect: "changed \<longleftrightarrow> (\<exists>q \<in> set ?rows. tr_id q = tid \<and> transition_allowed (tr_state q) target)"
    unfolding iff allowed ..
  have erased: "\<forall>q \<in> set (targeted_transfers t). changed \<and> tr_id q = tid \<longrightarrow>
      tr_state q = target \<and> tr_blob_ticket q = None \<and> tr_secret_handle q = None"
    unfolding out(2) using hit by blast
  have others: "\<forall>q. tr_id q \<noteq> tid \<longrightarrow> q \<in> set (targeted_transfers t) \<longleftrightarrow> q \<in> set ?rows"
    unfolding out(2) using other by blast
  have outboxes: "\<forall>ob \<in> set (authorization_delivery_outbox t) \<union> set (completion_outbox t). ob_transfer_id ob \<noteq> tid"
    "\<forall>ob \<in> set (payload_release_outbox t). rl_transfer_id ob \<noteq> tid"
    "\<forall>i \<in> set (accepted_offer_intents t). in_transfer_id i \<noteq> tid"
    by (auto simp: out(3-6) delivery_for_def release_for_def)
  from effect erased outboxes others target show ?thesis by simp
qed

theorem termination_erases_everything_witness:
  "\<exists>t. transition_terminal 9 ''t1'' Cancelled True (ref_db [ref_row Receiver Transferring] [] []) = (Inr True, t) \<and>
     (\<forall>q \<in> set (targeted_transfers t). tr_id q = ''t1'' \<longrightarrow> tr_secret_handle q = None)"
proof -
  let ?s = "ref_db [ref_row Receiver Transferring] [] []"
  have "keys_ok ?s" by (simp add: keys_ok_def ref_store_defs)
  moreover obtain changed t where out: "transition_terminal 9 ''t1'' Cancelled True ?s = (Inr changed, t)"
    by (simp add: transition_terminal_def transact_no_fault ref_db_def Let_def)
  ultimately have p: "changed \<longleftrightarrow> (\<exists>q \<in> set (targeted_transfers ?s). tr_id q = ''t1'' \<and> transition_allowed (tr_state q) Cancelled)"
    "\<forall>q \<in> set (targeted_transfers t). changed \<and> tr_id q = ''t1'' \<longrightarrow>
       tr_state q = Cancelled \<and> tr_blob_ticket q = None \<and> tr_secret_handle q = None"
    using termination_erases_everything [of ?s 9 "''t1''" Cancelled changed t] by blast+
  have changed using p(1) by (simp add: ref_store_defs transition_allowed_def)
  with p(2) out show ?thesis by auto
qed

text \<open>
  C32: cancelling a peer's transfers leaves every transfer with
  that peer, in either role, in a terminal state, drops every consent that names the peer and
  every pending delivery to or from it, reports exactly the transfers that were stopped, and
  leaves the transfers of other peers as they were.
\<close>

theorem revoking_a_peer_stops_everything:
  assumes "cancel_by_peer now peer s = (Inr ids, t)"
  shows "(\<forall>q \<in> set (targeted_transfers t). involves peer q \<longrightarrow> is_terminal (tr_state q)) \<and>
    (\<forall>i \<in> set (accepted_offer_intents t). in_sender_endpoint_id i \<noteq> peer \<and> in_receiver_endpoint_id i \<noteq> peer) \<and>
    (\<forall>ob \<in> set (authorization_delivery_outbox t). \<forall>q \<in> set (targeted_transfers t).
       tr_id q = ob_transfer_id ob \<longrightarrow> \<not> involves peer q) \<and>
    set ids = tr_id ` {q \<in> set (targeted_transfers s). involves peer q \<and> \<not> is_terminal (tr_state q)} \<and>
    (\<forall>q. \<not> involves peer q \<longrightarrow> q \<in> set (targeted_transfers t) \<longleftrightarrow> q \<in> set (targeted_transfers s))"
proof -
  let ?P = "\<lambda>r. involves peer r \<and> \<not> is_terminal (tr_state r)"
  let ?u = "\<lambda>r. r\<lparr>tr_state := Cancelled, tr_blob_ticket := None, tr_secret_handle := None, tr_updated_at := now\<rparr>"
  let ?rows = "targeted_transfers s"
  have out: "ids = map tr_id (filter ?P ?rows)" "targeted_transfers t = update_where ?P ?u ?rows"
    "authorization_delivery_outbox t = delete_where
       (\<lambda>ob. List.member (map tr_id (filter (involves peer) ?rows)) (ob_transfer_id ob)) (authorization_delivery_outbox s)"
    "accepted_offer_intents t = delete_where (\<lambda>i. in_sender_endpoint_id i = peer \<or> in_receiver_endpoint_id i = peer) (accepted_offer_intents s)"
    using assms by (auto simp: cancel_by_peer_def Let_def dest!: transact_InrD)
  have u: "involves peer (?u r) = involves peer r" "is_terminal (tr_state (?u r))" for r
    by (simp_all add: involves_def is_terminal_def)
  have orig: "\<exists>p \<in> set ?rows. tr_id p = tr_id q \<and> involves peer p = involves peer q"
    if "q \<in> set (update_where ?P ?u ?rows)" for q
    using that by (cases rule: update_rowsE) (auto simp: involves_def)
  have dead: "is_terminal (tr_state q)" if "q \<in> set (update_where ?P ?u ?rows)" "involves peer q" for q
    using that(1) by (cases rule: update_rowsE) (use that(2) u in auto)
  have free: "\<not> involves peer q"
    if ob: "ob \<in> set (authorization_delivery_outbox t)" and q: "q \<in> set (update_where ?P ?u ?rows)"
      and eq: "tr_id q = ob_transfer_id ob" for ob q
  proof
    assume "involves peer q"
    then obtain p where "p \<in> set ?rows" "tr_id p = tr_id q" "involves peer p" using orig [OF q] by blast
    then have "List.member (map tr_id (filter (involves peer) ?rows)) (ob_transfer_id ob)"
      using eq by (force simp: image_iff)
    with ob show False by (simp add: out(3))
  qed
  have other: "q \<in> set (update_where ?P ?u ?rows) \<longleftrightarrow> q \<in> set ?rows" if "\<not> involves peer q" for q
    using that u(1) by (auto simp: update_where_def image_iff)
  have stopped: "\<forall>q \<in> set (targeted_transfers t). involves peer q \<longrightarrow> is_terminal (tr_state q)"
    unfolding out(2) using dead by blast
  have consents: "\<forall>i \<in> set (accepted_offer_intents t).
      in_sender_endpoint_id i \<noteq> peer \<and> in_receiver_endpoint_id i \<noteq> peer"
    by (simp add: out(4))
  have deliveries: "\<forall>ob \<in> set (authorization_delivery_outbox t). \<forall>q \<in> set (targeted_transfers t).
      tr_id q = ob_transfer_id ob \<longrightarrow> \<not> involves peer q"
    unfolding out(2) using free by blast
  have reported: "set ids = tr_id ` {q \<in> set ?rows. involves peer q \<and> \<not> is_terminal (tr_state q)}"
    by (simp add: out(1))
  have others: "\<forall>q. \<not> involves peer q \<longrightarrow> q \<in> set (targeted_transfers t) \<longleftrightarrow> q \<in> set ?rows"
    unfolding out(2) using other by blast
  from stopped consents deliveries reported others show ?thesis by (intro conjI)
qed

theorem revoking_a_peer_stops_everything_witness:
  "\<exists>t. cancel_by_peer 9 ''alice'' (ref_db [ref_row Receiver Approved] [] []) = (Inr [''t1''], t) \<and>
     (\<forall>q \<in> set (targeted_transfers t). involves ''alice'' q \<longrightarrow> is_terminal (tr_state q))"
proof -
  let ?s = "ref_db [ref_row Receiver Approved] [] []"
  have "result (cancel_by_peer 9 ''alice'' ?s) = Inr [''t1'']"
    by (simp add: cancel_by_peer_def transact_no_fault ref_store_defs Let_def involves_def is_terminal_def)
  then obtain t where "cancel_by_peer 9 ''alice'' ?s = (Inr [''t1''], t)"
    by (cases "cancel_by_peer 9 ''alice'' ?s") simp
  with revoking_a_peer_stops_everything [OF this] show ?thesis by blast
qed

section \<open>Outboxes\<close>

lemma set_join_outbox:
  "r \<in> set (join_outbox P now os rows) \<longleftrightarrow>
     r \<in> set rows \<and> P r \<and> (\<exists>ob \<in> set os. ob_transfer_id ob = tr_id r \<and> ob_next_attempt_at ob \<le> now)"
  by (auto simp: join_outbox_def image_iff) metis+

text \<open>
  the two due lists are complete and exact: a row is returned for delivery
  of its authorization (or for reporting its completion) precisely when its outbox entry is due
  and the row is still an approved sender row (or a completed receiver row); deferring an entry
  beyond the clock takes the row off the list and no other one.
\<close>

theorem due_work_is_exact:
  assumes "db_faults s = []"
  shows "\<exists>ds cs t later. list_pending_authorization_deliveries now s = (Inr ds, s) \<and>
    list_pending_completions now s = (Inr cs, s) \<and>
    defer_pending_authorization_delivery tid at s = (Inr (), t) \<and>
    list_pending_authorization_deliveries now t = (Inr later, t) \<and>
    set ds = {r \<in> set (targeted_transfers s). tr_role r = Sender \<and> tr_state r = Approved \<and>
      (\<exists>ob \<in> set (authorization_delivery_outbox s). ob_transfer_id ob = tr_id r \<and> ob_next_attempt_at ob \<le> now)} \<and>
    set cs = {r \<in> set (targeted_transfers s). tr_role r = Receiver \<and> tr_state r = Completed \<and>
      (\<exists>ob \<in> set (completion_outbox s). ob_transfer_id ob = tr_id r \<and> ob_next_attempt_at ob \<le> now)} \<and>
    (now < at \<longrightarrow> set later = {r \<in> set ds. tr_id r \<noteq> tid})"
proof -
  let ?os = "authorization_delivery_outbox s" and ?rows = "targeted_transfers s"
  let ?P = "\<lambda>r. tr_role r = Sender \<and> tr_state r = Approved"
  let ?t = "on_deliveries (update_where (delivery_for tid) (\<lambda>ob. ob\<lparr>ob_next_attempt_at := at\<rparr>)) s"
  have deferred: "(\<exists>ob \<in> set (update_where (delivery_for tid) (\<lambda>ob. ob\<lparr>ob_next_attempt_at := at\<rparr>) ?os).
        ob_transfer_id ob = i \<and> ob_next_attempt_at ob \<le> now) \<longleftrightarrow>
      i \<noteq> tid \<and> (\<exists>ob \<in> set ?os. ob_transfer_id ob = i \<and> ob_next_attempt_at ob \<le> now)"
    if "now < at" for i
    using that by (induction ?os) (auto simp: update_where_def delivery_for_def)
  have "list_pending_authorization_deliveries now s = (Inr (join_outbox ?P now ?os ?rows), s)"
    "list_pending_completions now s =
       (Inr (join_outbox (\<lambda>r. tr_role r = Receiver \<and> tr_state r = Completed) now (completion_outbox s) ?rows), s)"
    "defer_pending_authorization_delivery tid at s = (Inr (), ?t)"
    "list_pending_authorization_deliveries now ?t = (Inr (join_outbox ?P now (authorization_delivery_outbox ?t) ?rows), ?t)"
    using assms
    by (simp_all add: list_pending_authorization_deliveries_def list_pending_completions_def
        select_def defer_pending_authorization_delivery_def exec_def transact_no_fault)
  moreover have "set (join_outbox ?P now (authorization_delivery_outbox ?t) ?rows) =
      {r \<in> set (join_outbox ?P now ?os ?rows). tr_id r \<noteq> tid}" if "now < at"
  proof (rule set_eqI)
    fix x
    show "x \<in> set (join_outbox ?P now (authorization_delivery_outbox ?t) ?rows) \<longleftrightarrow>
        x \<in> {r \<in> set (join_outbox ?P now ?os ?rows). tr_id r \<noteq> tid}"
      using deferred [OF that, of "tr_id x"] unfolding set_join_outbox mem_Collect_eq by auto
  qed
  moreover have "set (join_outbox P n os rs) = {r \<in> set rs. tr_role r = ro \<and> tr_state r = st \<and>
      (\<exists>ob \<in> set os. ob_transfer_id ob = tr_id r \<and> ob_next_attempt_at ob \<le> n)}"
    if "P = (\<lambda>r. tr_role r = ro \<and> tr_state r = st)" for P n os rs ro st
    unfolding that by (rule set_eqI) (simp only: set_join_outbox mem_Collect_eq conj_assoc)
  ultimately show ?thesis by (intro exI conjI impI) (assumption | blast | simp only:)+
qed

theorem due_work_is_exact_witness:
  "\<exists>ds. list_pending_authorization_deliveries 5
      (ref_db [ref_row Sender Approved] [] [\<lparr>ob_transfer_id = ''t1'', ob_created_at = 0, ob_next_attempt_at = 1\<rparr>])
      = (Inr ds, ref_db [ref_row Sender Approved] [] [\<lparr>ob_transfer_id = ''t1'', ob_created_at = 0, ob_next_attempt_at = 1\<rparr>]) \<and>
    set ds = {ref_row Sender Approved}"
proof -
  let ?s = "ref_db [ref_row Sender Approved] [] [\<lparr>ob_transfer_id = ''t1'', ob_created_at = 0, ob_next_attempt_at = 1\<rparr>]"
  have "db_faults ?s = []" by (simp add: ref_db_def)
  note exact = due_work_is_exact [OF this, of 5 "''t1''" 6]
  obtain ds where
    "list_pending_authorization_deliveries 5 ?s = (Inr ds, ?s)"
    "set ds = {r \<in> set (targeted_transfers ?s). tr_role r = Sender \<and> tr_state r = Approved \<and>
      (\<exists>ob \<in> set (authorization_delivery_outbox ?s). ob_transfer_id ob = tr_id r \<and> ob_next_attempt_at ob \<le> 5)}"
    using exact by (elim exE conjE) (rule that)
  moreover have "set (targeted_transfers ?s) = {ref_row Sender Approved}"
    "set (authorization_delivery_outbox ?s) = {\<lparr>ob_transfer_id = ''t1'', ob_created_at = 0, ob_next_attempt_at = 1\<rparr>}"
    by (simp_all add: ref_db_def)
  moreover have "tr_role (ref_row Sender Approved) = Sender" "tr_state (ref_row Sender Approved) = Approved"
    "tr_id (ref_row Sender Approved) = ''t1''" by (simp_all add: ref_row_def)
  ultimately show ?thesis by (intro exI [of _ ds]) auto
qed

text \<open>
  the one-time migration queues a delivery for every approved
  sender row that holds an authorization, keeps every entry that was already queued, and a
  second run changes nothing.
\<close>

theorem outbox_migration_is_idempotent:
  assumes "db_faults s = []" and "migrate_delivery_outbox s = (r, t)"
  shows "migrate_delivery_outbox t = (Inr (), t) \<and>
    set (authorization_delivery_outbox s) \<subseteq> set (authorization_delivery_outbox t) \<and>
    targeted_transfers t = targeted_transfers s \<and>
    (\<not> List.member (schema_migrations s) DELIVERY_MIGRATION \<longrightarrow>
      (\<forall>q \<in> set (targeted_transfers s). tr_role q = Sender \<and> tr_state q = Approved \<and>
         tr_blob_ticket q \<noteq> None \<and> tr_secret_handle q \<noteq> None \<longrightarrow>
         (\<exists>ob \<in> set (authorization_delivery_outbox t). ob_transfer_id ob = tr_id q)))"
proof -
  let ?f = "\<lambda>r. insert_or_ignore ob_transfer_id
            \<lparr>ob_transfer_id = tr_id r, ob_created_at = tr_updated_at r, ob_next_attempt_at = 0\<rparr>"
  have keep: "set os \<subseteq> set (fold ?f rs os)" for os rs
  proof (induction rs arbitrary: os)
    case (Cons r rs)
    have "set os \<subseteq> set (?f r os)" by (auto simp: insert_or_ignore_def)
    then show ?case using Cons.IH [of "?f r os"] by simp
  qed simp
  have queued: "\<exists>ob \<in> set (fold ?f rs os). ob_transfer_id ob = tr_id q" if "q \<in> set rs" for q os rs
    using that
  proof (induction rs arbitrary: os)
    case (Cons r rs)
    show ?case
    proof (cases "q = r")
      case True
      then have "\<exists>ob \<in> set (?f r os). ob_transfer_id ob = tr_id q"
        by (auto simp: insert_or_ignore_def)
      then show ?thesis using keep [of "?f r os" rs] by auto
    qed (use Cons in auto)
  qed simp
  let ?migrated = "List.member (schema_migrations s) DELIVERY_MIGRATION"
  have t: "t = (if ?migrated then s else (on_deliveries (backfill_deliveries (targeted_transfers s)) s)
            \<lparr>schema_migrations := schema_migrations s @ [DELIVERY_MIGRATION]\<rparr>)"
    using assms by (simp add: migrate_delivery_outbox_def exec_def transact_no_fault)
  then have applied: "List.member (schema_migrations t) DELIVERY_MIGRATION" "db_faults t = []"
    using assms(1) by auto
  then have "migrate_delivery_outbox t = (Inr (), t)"
    by (simp add: migrate_delivery_outbox_def exec_def transact_no_fault)
  moreover have out: "\<not> ?migrated \<Longrightarrow> authorization_delivery_outbox t = fold ?f
      (filter (\<lambda>r. tr_role r = Sender \<and> tr_state r = Approved \<and> tr_blob_ticket r \<noteq> None \<and> tr_secret_handle r \<noteq> None)
        (targeted_transfers s)) (authorization_delivery_outbox s)"
  proof -
    assume "\<not> ?migrated"
    then have "authorization_delivery_outbox t = backfill_deliveries (targeted_transfers s) (authorization_delivery_outbox s)"
      by (simp add: t)
    then show ?thesis unfolding backfill_deliveries_def .
  qed
  moreover have "set (authorization_delivery_outbox s) \<subseteq> set (authorization_delivery_outbox t)"
  proof (cases ?migrated)
    case False
    show ?thesis unfolding out [OF False] by (rule keep)
  qed (simp add: t)
  moreover have "targeted_transfers t = targeted_transfers s" using t by simp
  moreover have "\<exists>ob \<in> set (authorization_delivery_outbox t). ob_transfer_id ob = tr_id q"
    if "\<not> ?migrated" and "q \<in> set (targeted_transfers s)" and "tr_role q = Sender \<and> tr_state q = Approved \<and>
         tr_blob_ticket q \<noteq> None \<and> tr_secret_handle q \<noteq> None" for q
    unfolding out [OF that(1)] by (rule queued) (use that(2,3) in simp)
  ultimately show ?thesis by blast
qed

theorem outbox_migration_is_idempotent_witness:
  "\<exists>r t. migrate_delivery_outbox (ref_db [ref_row Sender Approved] [] []) = (r, t) \<and>
     (\<exists>ob \<in> set (authorization_delivery_outbox t). ob_transfer_id ob = ''t1'')"
proof -
  let ?s = "ref_db [ref_row Sender Approved] [] []"
  obtain r t where out: "migrate_delivery_outbox ?s = (r, t)" by (cases "migrate_delivery_outbox ?s")
  have "db_faults ?s = []" by (simp add: ref_db_def)
  from outbox_migration_is_idempotent [OF this out] out show ?thesis
    by (auto simp: ref_store_defs)
qed

text \<open>
  abandoning a transfer that the receiver has not yet approved
  removes exactly that sender row, removes every outbox entry of it and no other, and keeps all
  keys; any other transfer, and any transfer past approval, is left alone.
\<close>

theorem abandoning_leaves_no_trace:
  assumes "keys_ok s" and "abandon_sender_preapproval tid s = (Inr gone, t)"
  shows "(gone \<longleftrightarrow> (\<exists>q \<in> set (targeted_transfers s). tr_id q = tid \<and> tr_role q = Sender \<and> is_preapproval (tr_state q))) \<and>
    targeted_transfers t = (if gone then filter (\<lambda>q. tr_id q \<noteq> tid) (targeted_transfers s) else targeted_transfers s) \<and>
    authorization_delivery_outbox t = (if gone then filter (\<lambda>ob. ob_transfer_id ob \<noteq> tid) (authorization_delivery_outbox s)
      else authorization_delivery_outbox s) \<and>
    keys_ok t"
proof -
  let ?Q = "\<lambda>r. tr_role r = Sender \<and> is_preapproval (tr_state r)"
  let ?P = "\<lambda>r. tr_id r = tid \<and> ?Q r"
  let ?rows = "targeted_transfers s"
  have dist: "distinct (map tr_id ?rows)" using assms(1) by (simp add: keys_ok_def)
  have iff: "affected ?P ?rows = 1 \<longleftrightarrow> (\<exists>q \<in> set ?rows. tr_id q = tid \<and> ?Q q)"
    by (rule affected_1_iff [OF dist])
  have out: "gone = (affected ?P ?rows = 1)" "t = cascade_delete ?P (s\<lparr>db_faults := tl (db_faults s)\<rparr>)"
    using assms(2) by (auto simp: abandon_sender_preapproval_def Let_def dest!: transact_InrD)
  have keys: "keys_ok t"
    using stableD [OF keys_abandon assms(2)] assms(1) by (simp add: keys_kept_def)
  have only: "?P q \<longleftrightarrow> tr_id q = tid" if gone and "q \<in> set ?rows" for q
  proof -
    obtain p where p: "p \<in> set ?rows" "?P p" using out(1) iff \<open>gone\<close> by blast
    show ?thesis
    proof
      assume "tr_id q = tid"
      then have "q = p" using p that(2) dist by (auto simp: distinct_map inj_on_def)
      with p show "?P q" by blast
    qed blast
  qed
  have ids: "List.member (map tr_id (filter ?P ?rows)) i \<longleftrightarrow> gone \<and> i = tid" for i
    using out(1) iff by (auto simp: image_iff)
  have "targeted_transfers t = filter (\<lambda>q. \<not> ?P q) ?rows"
    by (simp add: out(2) cascade_delete_def Let_def delete_where_def)
  also have "\<dots> = (if gone then filter (\<lambda>q. tr_id q \<noteq> tid) ?rows else ?rows)"
  proof (cases gone)
    case True
    then show ?thesis using only [OF True] by (auto intro!: filter_cong)
  next
    case False
    then show ?thesis using out(1) iff by (auto simp: filter_id_conv)
  qed
  finally have rows: "targeted_transfers t = (if gone then filter (\<lambda>q. tr_id q \<noteq> tid) ?rows else ?rows)" .
  have "authorization_delivery_outbox t =
      filter (\<lambda>ob. \<not> (gone \<and> ob_transfer_id ob = tid)) (authorization_delivery_outbox s)"
    using ids by (simp add: out(2) cascade_delete_def Let_def delete_where_def del: set_map)
  then have "authorization_delivery_outbox t = (if gone
      then filter (\<lambda>ob. ob_transfer_id ob \<noteq> tid) (authorization_delivery_outbox s)
      else authorization_delivery_outbox s)" by simp
  with rows keys iff out(1) show ?thesis by simp
qed

theorem abandoning_leaves_no_trace_witness:
  "\<exists>t. abandon_sender_preapproval ''t1'' (ref_db [ref_row Sender Offering] [] []) = (Inr True, t) \<and>
     targeted_transfers t = []"
proof -
  let ?s = "ref_db [ref_row Sender Offering] [] []"
  have keys: "keys_ok ?s" by (simp add: keys_ok_def ref_store_defs)
  obtain gone t where out: "abandon_sender_preapproval ''t1'' ?s = (Inr gone, t)"
    by (simp add: abandon_sender_preapproval_def transact_no_fault ref_db_def Let_def)
  note p = abandoning_leaves_no_trace [OF keys out]
  then have gone by (auto simp: ref_store_defs is_preapproval_def)
  with p out show ?thesis by (auto simp: ref_store_defs)
qed

text \<open>
  Cancelling a received transfer that is already complete changes no state, but drops the report
  of its completion that was still to be sent.
\<close>

lemma cancelling_completed_drops_report:
  "\<exists>(s :: db) t. targeted_transfers s = [ref_row Receiver Completed] \<and> completion_outbox s \<noteq> [] \<and>
     transition_terminal 9 ''t1'' Cancelled True s = (Inr False, t) \<and>
     targeted_transfers t = targeted_transfers s \<and> completion_outbox t = []"
proof -
  let ?s = "(ref_db [ref_row Receiver Completed] [] [])
    \<lparr>completion_outbox := [\<lparr>ob_transfer_id = ''t1'', ob_created_at = 0, ob_next_attempt_at = 1\<rparr>]\<rparr>"
  obtain t where t: "transition_terminal 9 ''t1'' Cancelled True ?s = (Inr False, t)"
    "targeted_transfers t = [ref_row Receiver Completed]" "completion_outbox t = []"
    by (simp add: transition_terminal_def transact_def ref_db_def Let_def delete_where_def delivery_for_def)
      (simp add: ref_row_def affected_def update_where_def is_terminal_def)
  then show ?thesis by (intro exI [of _ ?s] exI [of _ t]) (simp add: ref_db_def)
qed

end
