(* ===== verification/Inbox_Properties.thy ===== *)
theory Inbox_Properties
  imports Targeted_Inbox_Facts Store_Properties
begin

text \<open>
  The properties of the live inbox: the bounds that hold in every run, what acceptances and
  authorizations are kept by, what a decline leaves, and that an accepted offer receives the
  authorization that is delivered while the user's call waits.
\<close>

section \<open>The configured bound never changes\<close>

lemma join_wait_max: "ib_max_pending (snd (join_wait t own ib)) = ib_max_pending ib"
  by (simp add: join_wait_def split: option.split)

lemma submit_check_max: "ib_max_pending (snd (submit_check n f ib)) = ib_max_pending ib"
  by (simp add: submit_check_def Let_def split: prod.split option.split)

lemma submit_insert_max: "ib_max_pending (snd (submit_insert f ib)) = ib_max_pending ib"
  by (simp add: submit_insert_def)

lemma finish_wait_max: "finish_wait t c k b ib = Some (d, ib') \<Longrightarrow> ib_max_pending ib' = ib_max_pending ib"
  by (auto simp: finish_wait_def Let_def split: option.splits bool.splits if_splits)

lemma accept_live_max: "ib_max_pending (snd (accept_live t ib)) = ib_max_pending ib"
  by (simp add: accept_live_def Let_def split: option.split prod.split bool.split)

lemma wait_max: "ib_max_pending (snd (wait_for_authorization t ib)) = ib_max_pending ib"
  by (simp add: wait_for_authorization_def split: option.split)

lemma finish_auth_max: "finish_auth_wait t c b ib = Some (d, ib') \<Longrightarrow> ib_max_pending ib' = ib_max_pending ib"
  by (auto simp: finish_auth_wait_def Let_def split: option.splits if_splits)

lemma decline_max: "respond n t False ib = (out, ib') \<Longrightarrow> ib_max_pending ib' = ib_max_pending ib"
  by (auto dest!: decline_effect)

lemma deliver_max: "ib_max_pending (snd (deliver_authorization t a ib)) = ib_max_pending ib"
  by (simp add: deliver_authorization_def split: option.split prod.split)

lemma discard_from_max: "ib_max_pending (discard_from e ib) = ib_max_pending ib"
proof -
  have "ib_max_pending (fold discard ids ib') = ib_max_pending ib'" for ids ib'
    by (induction ids arbitrary: ib') simp_all
  then show ?thesis by (simp add: discard_from_def)
qed

lemma inbox_step_max: "inbox_step r r' \<Longrightarrow> ib_max_pending (ir_inbox r') = ib_max_pending (ir_inbox r)"
proof (induction rule: inbox_step.induct)
  case (check now ofr r out ib)
  then show ?case using submit_check_max [of now ofr "ir_inbox r"] by simp
next
  case (join ofr own r out ib)
  then show ?case using join_wait_max [of "po_transfer_id ofr" own "ir_inbox r"] by simp
next
  case (insert ofr r out ib)
  then show ?case using submit_insert_max [of ofr "ir_inbox r"] by simp
next
  case (accept tid r res ib)
  then show ?case using accept_live_max [of tid "ir_inbox r"] by simp
next
  case (await tid r out ib)
  then show ?case using wait_max [of tid "ir_inbox r"] by simp
next
  case (deliver tid a r sent ib)
  then show ?case using deliver_max [of tid a "ir_inbox r"] by simp
qed (simp_all add: finish_wait_max finish_auth_max decline_max discard_from_max)

lemma reachable_max: "reachable_run m cd r \<Longrightarrow> ib_max_pending (ir_inbox r) = m"
  unfolding reachable_run_def
proof (induction rule: rtranclp_induct)
  case base
  show ?case by (simp add: start_run_def new_inbox_def)
next
  case (step r r')
  then show ?case by (simp add: inbox_step_max)
qed

section \<open>A run in which an offer waits for the user\<close>

abbreviation ref_start :: inbox_run where
  "ref_start \<equiv> start_run 1 (new_cooldown 60000 5)"

definition ref_checked :: inbox_run where
  "ref_checked = note_check ref_offer AtInsert CheckProceed (snd (submit_check 0 ref_offer (ir_inbox ref_start))) ref_start"

definition ref_inserted :: inbox_run where
  "ref_inserted = note_check ref_offer AtRegister CheckProceed (snd (submit_insert ref_offer (ir_inbox ref_checked)))
     (leave_part ref_offer AtInsert ref_checked)"

definition ref_registered :: inbox_run where
  "ref_registered = note_check ref_offer (AtJoin (Some 0)) CheckProceed (register_decision ref_offer (ir_inbox ref_inserted))
     (leave_part ref_offer AtRegister ref_inserted)"

definition ref_opened :: inbox_run where
  "ref_opened = note_submit ''t1'' (SubmitWait 0 (Some 0)) (snd (join_wait ''t1'' (Some 0) (ir_inbox ref_registered)))
     (leave_part ref_offer (AtJoin (Some 0)) ref_registered)"

lemma ref_submits [simp]:
  "ir_submits ref_checked = [(ref_offer, AtInsert)]" "ir_submits ref_inserted = [(ref_offer, AtRegister)]"
  "ir_submits ref_registered = [(ref_offer, AtJoin (Some 0))]"
  by (simp_all add: ref_checked_def ref_inserted_def ref_registered_def note_check_def leave_part_def start_run_def)

lemma ref_id [simp]: "po_transfer_id ref_offer = ''t1''" "po_sender_endpoint_id ref_offer = ''alice''"
  by (simp_all add: ref_offer_def)

lemmas ref_inbox_simps = ref_checked_def ref_inserted_def ref_registered_def ref_opened_def submit_check_def submit_insert_def
  register_decision_def join_wait_def is_cooling_def retain_until_def start_run_def new_inbox_def new_cooldown_def
  find_pending_def find_by_def Let_def watch_channel_def subscribe_def

lemma ref_steps:
  "submit_check 0 ref_offer (ir_inbox ref_start) = (CheckProceed, ir_inbox ref_checked)"
  "submit_insert ref_offer (ir_inbox ref_checked) = (CheckProceed, ir_inbox ref_inserted)"
  "ib_next (ir_inbox ref_inserted) = 0"
  "join_wait ''t1'' (Some 0) (ir_inbox ref_registered) = (SubmitWait 0 (Some 0), ir_inbox ref_opened)"
  by (simp_all add: ref_inbox_simps)

lemma ref_opened_reachable: "reachable_run 1 (new_cooldown 60000 5) ref_opened"
proof -
  have s1: "inbox_step ref_start ref_checked"
    using inbox_step.check [OF ref_steps(1)] unfolding ref_checked_def by simp
  have s2: "inbox_step ref_checked ref_inserted"
    using inbox_step.insert [OF _ ref_steps(2)] unfolding ref_inserted_def by simp
  have "inbox_step ref_inserted (note_check ref_offer (AtJoin (Some (ib_next (ir_inbox ref_inserted)))) CheckProceed
      (register_decision ref_offer (ir_inbox ref_inserted)) (leave_part ref_offer AtRegister ref_inserted))"
    by (rule inbox_step.register) simp
  then have s3: "inbox_step ref_inserted ref_registered" unfolding ref_registered_def ref_steps(3) .
  have "join_wait (po_transfer_id ref_offer) (Some 0) (ir_inbox ref_registered) = (SubmitWait 0 (Some 0), ir_inbox ref_opened)"
    using ref_steps(4) by simp
  then have "inbox_step ref_registered (note_submit (po_transfer_id ref_offer) (SubmitWait 0 (Some 0)) (ir_inbox ref_opened)
      (leave_part ref_offer (AtJoin (Some 0)) ref_registered))"
    by (rule inbox_step.join [rotated]) simp
  then have s4: "inbox_step ref_registered ref_opened"
    by (subst ref_opened_def) (simp only: ref_id ref_steps(4) snd_conv)
  show ?thesis unfolding reachable_run_def
    by (rule converse_rtranclp_into_rtranclp, rule s1, rule converse_rtranclp_into_rtranclp, rule s2,
        rule converse_rtranclp_into_rtranclp, rule s3, rule r_into_rtranclp, rule s4)
qed

lemma ref_opened_inbox:
  "settled_authorization ''t1'' (ir_inbox ref_opened) = None" "find_pending ''t1'' (ir_inbox ref_opened) = Some ref_offer"
  "ib_decisions (ir_inbox ref_opened) ''t1'' = Some 0" "ch_receivers (ib_decision_chans (ir_inbox ref_opened) 0) = 2"
  by (simp_all add: ref_inbox_simps settled_authorization_def)

section \<open>Properties\<close>

text \<open>
  C31: however the parts of any number of calls interleave, at most the configured number of offers is
  pending, at most one per sender and one per transfer: the check and the insertion are one critical section.
\<close>

theorem pending_offers_are_bounded:
  assumes "reachable_run m cd r"
  shows "length (ib_pending (ir_inbox r)) \<le> m \<and>
    distinct (map po_sender_endpoint_id (ib_pending (ir_inbox r))) \<and>
    distinct (map po_transfer_id (ib_pending (ir_inbox r)))"
  using reachable_bounded [OF assms] reachable_max [OF assms] by (simp add: bounded_def)

theorem pending_offers_are_bounded_witness:
  "length (ib_pending (ir_inbox ref_opened)) \<le> 1"
  using pending_offers_are_bounded [OF ref_opened_reachable] by blast

text \<open>
  Acceptance is kept by transfer id for as long as the process lives: a submitter hears "accepted" only if the
  user accepted some offer under that id, and the user's call returns only what was delivered under it. A settled
  id is answered before the offers are compared, so another offer under it is answered with the same result.
\<close>

lemma answers_follow_the_users_choice:
  assumes "reachable_run m cd r"
  shows "(\<forall>t. (t, OfferAccepted) \<in> set (ir_answers r) \<longrightarrow> t \<in> ir_accepted r) \<and>
    (\<forall>t a. (t, a) \<in> set (ir_results r) \<longrightarrow> t \<in> ir_accepted r \<and> (t, a) \<in> ir_delivered r)"
  using reachable_run_ok [OF assms] run_okD(4,5) by blast

lemma settled_answer_ignores_the_offer:
  assumes "ib_settled ib tid = Some (SettledAccepted a)" and "po_transfer_id ofr = tid"
    and "\<not> fst (is_cooling now (po_sender_endpoint_id ofr) (ib_cooldown ib))"
  shows "fst (submit now ofr ib) = SubmitDone OfferAccepted"
  using assms by (auto simp: submit_def submit_check_def settled_to_decision_def Let_def split: prod.splits)

text \<open>
  a declined offer is no longer pending, its transfer is settled and its
  sender cools down for the configured time; until the inbox is restarted every later offer for
  that transfer is answered at once with a refusal or the same decline, and never becomes
  pending again.
\<close>

theorem declining_is_final:
  assumes "respond now tid False ib = (AuthDone (Inr None), ib')"
  shows "\<exists>p. find_pending tid ib = Some p \<and> find_pending tid ib' = None \<and> is_settled tid ib' \<and>
    (\<forall>later. cools later (po_sender_endpoint_id p) (ib_cooldown ib') \<longleftrightarrow> later < now + cd_cooldown_ms (ib_cooldown ib)) \<and>
    (\<forall>later ofr. po_transfer_id ofr = tid \<longrightarrow>
       fst (submit later ofr ib') \<in> {SubmitDone (OfferRefused ''identity-cooldown''),
         SubmitDone (OfferDeclined ''receiver-declined'')} \<and>
       ib_pending (snd (submit later ofr ib')) = ib_pending ib')"
proof -
  obtain p where p: "find_pending tid ib = Some p"
    using assms by (auto simp: respond_def split: option.splits)
  have settled: "ib_settled ib' tid = Some (SettledDeclined ''receiver-declined'')"
    and cd: "ib_cooldown ib' = record_decline now (po_sender_endpoint_id p) (ib_cooldown ib)"
    and pending: "ib_pending ib' = delete_where (\<lambda>q. po_transfer_id q = tid) (ib_pending ib)"
    using assms p by (auto simp: respond_def Let_def split: option.splits)
  have "find_pending tid ib' = None"
    by (auto simp: find_pending_def find_by_None_iff pending)
  moreover have "cools later (po_sender_endpoint_id p) (ib_cooldown ib') \<longleftrightarrow> later < now + cd_cooldown_ms (ib_cooldown ib)" for later
    by (auto simp: cd record_decline_def cools_iff)
  moreover have "fst (submit later ofr ib') \<in> {SubmitDone (OfferRefused ''identity-cooldown''),
         SubmitDone (OfferDeclined ''receiver-declined'')} \<and>
       ib_pending (snd (submit later ofr ib')) = ib_pending ib'"
    if "po_transfer_id ofr = tid" for later ofr
    using that settled by (auto simp: submit_def submit_check_def settled_to_decision_def Let_def split: prod.split)
  ultimately show ?thesis using p settled by (auto simp: is_settled_def)
qed

theorem declining_is_final_witness:
  "\<exists>ib'. respond 0 ''t1'' False (ir_inbox ref_opened) = (AuthDone (Inr None), ib') \<and>
     is_settled ''t1'' ib'"
proof -
  let ?ib = "ir_inbox ref_opened"
  obtain ib' where out: "respond 0 ''t1'' False ?ib = (AuthDone (Inr None), ib')"
    by (simp add: respond_def ref_opened_inbox Let_def)
  with declining_is_final [OF out] show ?thesis by blast
qed

text \<open>
  once the user's acceptance waits, the next delivery for
  that transfer succeeds, the wait ends with exactly the delivered authorization (also when its
  deadline has passed meanwhile), the offer is no longer pending, and the transfer is settled
  with that authorization.
\<close>

theorem delivery_reaches_the_waiting_user:
  assumes "respond now tid True ib = (AuthWait c, ib1)"
  shows "\<exists>ib2 ib3. deliver_authorization tid a ib1 = (True, ib2) \<and>
    finish_auth_wait tid c timed_out ib2 = Some (Inr (Some a), ib3) \<and>
    find_pending tid ib3 = None \<and> settled_authorization tid ib3 = Some a"
proof -
  let ?c = "ib_next ib"
  have none: "settled_authorization tid ib = None"
    using assms by (auto simp: respond_def split: option.splits)
  obtain d where d: "ib_decisions ib tid = Some d" and recv: "ch_receivers (ib_decision_chans ib d) \<noteq> 0"
    and c: "c = ?c" and ib1: "ib1 = on_auth ?c subscribe (on_auth ?c (drop_receivers 1)
      (on_decision d (\<lambda>_. (ib_decision_chans ib d)\<lparr>ch_value := Some True\<rparr>) (open_auth tid ib)))"
    using assms none
    by (auto simp: respond_def accept_live_def wait_for_authorization_def watch_send_def Let_def
        settled_authorization_def split: option.splits if_splits sum.splits prod.splits settled_offer.splits)
  have new: "ib_auth_chans (open_auth tid ib) ?c = watch_channel 1"
    by (simp add: open_auth_def Let_def split: option.split)
  have chan: "ib_auths ib1 tid = Some ?c" "ch_receivers (ib_auth_chans ib1 ?c) = 1" "settled_authorization tid ib1 = None"
    using none by (simp_all add: ib1 new subscribe_def drop_receivers_def watch_channel_def settled_authorization_def)
  let ?ib2 = "on_auth ?c (\<lambda>_. (ib_auth_chans ib1 ?c)\<lparr>ch_value := Some a\<rparr>) ib1"
  have del: "deliver_authorization tid a ib1 = (True, ?ib2)"
    using chan by (simp add: deliver_authorization_def watch_send_def)
  obtain ib3 where fin: "finish_auth_wait tid c timed_out ?ib2 = Some (Inr (Some a), ib3)"
    and ib3: "ib_pending ib3 = delete_where (\<lambda>p. po_transfer_id p = tid) (ib_pending ?ib2)"
      "ib_settled ib3 tid = Some (SettledAccepted (Some a))"
    by (simp add: finish_auth_wait_def c watch_poll_def Let_def)
  have "find_pending tid ib3 = None" "settled_authorization tid ib3 = Some a"
    using ib3 by (auto simp: find_pending_def find_by_None_iff settled_authorization_def)
  with del fin show ?thesis by blast
qed

theorem delivery_reaches_the_waiting_user_witness:
  "\<exists>c ib1 ib2. respond 0 ''t1'' True (ir_inbox ref_opened) = (AuthWait c, ib1) \<and>
     deliver_authorization ''t1'' ''auth'' ib1 = (True, ib2)"
proof -
  let ?ib = "ir_inbox ref_opened"
  obtain c ib1 where out: "respond 0 ''t1'' True ?ib = (AuthWait c, ib1)"
    using ref_opened_inbox by (simp add: respond_def accept_live_def watch_send_def wait_for_authorization_def
        settled_authorization_def Let_def split: option.splits settled_offer.splits)
  from delivery_reaches_the_waiting_user [OF out, of "''auth''"] out show ?thesis by blast
qed

end
