(* ===== verification/Relationship_Store.thy ===== *)
theory Relationship_Store
  imports Secret_Custody_Facts
begin

text \<open>
  The durable rows of saved-device relationships and the tombstones of revoked generations
  (\<^verbatim>\<open>device_relationship/store.rs\<close>), one definition per method. Generations are \<open>u64\<close> values
  stored bit for bit in signed columns, so SQL's \<open>MAX\<close> reads them with \<open>sint\<close>. \<open>emitted\<close> is the
  log of endpoint events (topic and kind) of the shared event hub. The methods' Rust names
  that other stores use too carry the prefix \<open>rel_\<close>.
\<close>

datatype DeviceRelationshipState = PendingOutgoing | PendingIncoming | Saved | Revoked | Blocked

definition rel_state_as_str :: "DeviceRelationshipState \<Rightarrow> string" where
  "rel_state_as_str st = (case st of
      PendingOutgoing \<Rightarrow> ''pending_outgoing''
    | PendingIncoming \<Rightarrow> ''pending_incoming''
    | Saved \<Rightarrow> ''saved''
    | Revoked \<Rightarrow> ''revoked''
    | Blocked \<Rightarrow> ''blocked'')"

definition rel_parse_state :: "string \<Rightarrow> vnidrop_error + DeviceRelationshipState" where
  "rel_parse_state v =
     (if v = ''pending_outgoing'' then Inr PendingOutgoing
      else if v = ''pending_incoming'' then Inr PendingIncoming
      else if v = ''saved'' then Inr Saved
      else if v = ''revoked'' then Inr Revoked
      else if v = ''blocked'' then Inr Blocked
      else Inl (Internal ''unknown device relationship state''))"

record relationship =
  dr_remote_endpoint_id :: string
  dr_state :: DeviceRelationshipState
  dr_generation :: u64
  dr_minimum_protocol_version :: u16
  dr_session_id :: "string option"
  dr_remote_display_name :: "string option"
  dr_last_authenticated_at :: "int option"
  dr_local_label :: "string option"
  dr_issued_grant_handle :: "string option"
  dr_held_grant_handle :: "string option"
  dr_issued_grant_id :: "string option"
  dr_held_grant_id :: "string option"
  dr_peer_ack :: bool
  dr_local_ack :: bool
  dr_created_at :: int
  dr_updated_at :: int

record tombstone =
  gt_remote_endpoint_id :: string
  gt_generation :: u64
  gt_issued_grant_id :: "string option"
  gt_held_grant_id :: "string option"
  gt_revoked_at :: int

record relations = vault +
  device_relationships :: "relationship list"
  generation_tombstones :: "tombstone list"
  emitted :: "(string \<times> string) list"

definition is_pending :: "DeviceRelationshipState \<Rightarrow> bool" where
  "is_pending st \<longleftrightarrow> st = PendingOutgoing \<or> st = PendingIncoming"

abbreviation on_relationships :: "(relationship list \<Rightarrow> relationship list) \<Rightarrow> 'z relations_scheme \<Rightarrow> 'z relations_scheme" where
  "on_relationships f s \<equiv> s\<lparr>device_relationships := f (device_relationships s)\<rparr>"

text \<open>\<open>UPDATE device_relationships SET u WHERE P\<close>.\<close>

definition rel_update :: "(relationship \<Rightarrow> bool) \<Rightarrow> (relationship \<Rightarrow> relationship) \<Rightarrow> ('z relations_scheme, nat) proc" where
  "rel_update P u = transact (\<lambda>s.
     (Inr (affected P (device_relationships s)), on_relationships (update_where P u) s))"

definition peer_is :: "string \<Rightarrow> relationship \<Rightarrow> bool" where
  "peer_is peer r = (dr_remote_endpoint_id r = peer)"

definition count_active_slots :: "('z relations_scheme, nat) proc" where
  "count_active_slots = select (\<lambda>s.
     affected (\<lambda>r. dr_state r = Saved \<or> is_pending (dr_state r)) (device_relationships s))"

definition list_reconcile_rows :: "('z relations_scheme, relationship list) proc" where
  "list_reconcile_rows = select device_relationships"

definition rel_list :: "('z relations_scheme, relationship list) proc" where
  "rel_list = select (\<lambda>s. sort_key (\<lambda>r. - dr_updated_at r) (device_relationships s))"

definition list_saved_devices :: "('z relations_scheme, relationship list) proc" where
  "list_saved_devices = select (\<lambda>s. sort_key (\<lambda>r. - dr_updated_at r)
     (filter (\<lambda>r. dr_state r = Saved) (device_relationships s)))"

text \<open>SQL's \<open>COALESCE(a, b)\<close>.\<close>

definition coalesce :: "'a option \<Rightarrow> 'a option \<Rightarrow> 'a option" where
  "coalesce a b = (case a of None \<Rightarrow> b | Some x \<Rightarrow> Some x)"

definition refresh_authenticated_peer ::
    "string \<Rightarrow> string option \<Rightarrow> int \<Rightarrow> ('z relations_scheme, bool) proc" where
  "refresh_authenticated_peer peer name at = bind
     (rel_update (\<lambda>r. peer_is peer r \<and> dr_state r = Saved)
       (\<lambda>r. r\<lparr>dr_remote_display_name := coalesce name (dr_remote_display_name r),
              dr_last_authenticated_at := Some at, dr_updated_at := at\<rparr>))
     (\<lambda>n. ok (n > 0))"

definition rel_set_label ::
    "int \<Rightarrow> string \<Rightarrow> string option \<Rightarrow> ('z relations_scheme, bool) proc" where
  "rel_set_label now peer label = bind
     (rel_update (\<lambda>r. peer_is peer r \<and> dr_state r = Saved)
       (\<lambda>r. r\<lparr>dr_local_label := label, dr_updated_at := now\<rparr>))
     (\<lambda>n. ok (n > 0))"

definition set_issued_grant :: "int \<Rightarrow> string \<Rightarrow> string \<Rightarrow> string \<Rightarrow> ('z relations_scheme, unit) proc" where
  "set_issued_grant now peer handle grant_id = next_do
     (rel_update (peer_is peer)
       (\<lambda>r. r\<lparr>dr_issued_grant_handle := Some handle, dr_issued_grant_id := Some grant_id,
              dr_updated_at := now\<rparr>)) (ok ())"

definition set_held_grant :: "int \<Rightarrow> string \<Rightarrow> string \<Rightarrow> string \<Rightarrow> ('z relations_scheme, unit) proc" where
  "set_held_grant now peer handle grant_id = next_do
     (rel_update (peer_is peer)
       (\<lambda>r. r\<lparr>dr_held_grant_handle := Some handle, dr_held_grant_id := Some grant_id,
              dr_updated_at := now\<rparr>)) (ok ())"

definition set_acks :: "int \<Rightarrow> string \<Rightarrow> bool \<Rightarrow> bool \<Rightarrow> ('z relations_scheme, unit) proc" where
  "set_acks now peer local_ack peer_ack = next_do
     (rel_update (peer_is peer)
       (\<lambda>r. r\<lparr>dr_local_ack := local_ack, dr_peer_ack := peer_ack, dr_updated_at := now\<rparr>)) (ok ())"

definition rel_set_state :: "int \<Rightarrow> string \<Rightarrow> DeviceRelationshipState \<Rightarrow> ('z relations_scheme, unit) proc" where
  "rel_set_state now peer st = next_do
     (rel_update (peer_is peer) (\<lambda>r. r\<lparr>dr_state := st, dr_updated_at := now\<rparr>)) (ok ())"

definition list_expired_pending_peers :: "int \<Rightarrow> ('z relations_scheme, string list) proc" where
  "list_expired_pending_peers cutoff = select (\<lambda>s. map dr_remote_endpoint_id
     (filter (\<lambda>r. is_pending (dr_state r) \<and> dr_updated_at r < cutoff) (device_relationships s)))"

definition rel_delete :: "string \<Rightarrow> ('z relations_scheme, unit) proc" where
  "rel_delete peer = exec (on_relationships (delete_where (peer_is peer)))"

definition rel_find_row :: "string \<Rightarrow> ('z relations_scheme, relationship option) proc" where
  "rel_find_row peer = select (\<lambda>s. find_by dr_remote_endpoint_id peer (device_relationships s))"

text \<open>\<open>MAX\<close> over the rows and tombstones of a peer; no row gives \<open>NULL\<close>, read as 0.\<close>

definition peer_generations :: "string \<Rightarrow> 'z relations_scheme \<Rightarrow> u64 list" where
  "peer_generations peer s =
     map dr_generation (filter (peer_is peer) (device_relationships s)) @
     map gt_generation (filter (\<lambda>g. gt_remote_endpoint_id g = peer) (generation_tombstones s))"

definition generation_floor :: "string \<Rightarrow> ('z relations_scheme, u64) proc" where
  "generation_floor peer = select (\<lambda>s. case peer_generations peer s of
      [] \<Rightarrow> 0
    | g # gs \<Rightarrow> word_of_int (fold max (map sint gs) (sint g)))"

text \<open>Moving a pending row to another generation drops the grants of the old one.\<close>

definition at_generation :: "u64 \<Rightarrow> relationship \<Rightarrow> 'a \<Rightarrow> 'a \<Rightarrow> 'a" where
  "at_generation g r kept dropped = (if dr_generation r = g then kept else dropped)"

definition set_pending_generation ::
    "int \<Rightarrow> string \<Rightarrow> string \<Rightarrow> u64 \<Rightarrow> ('z relations_scheme, bool) proc" where
  "set_pending_generation now peer session g = bind
     (rel_update (\<lambda>r. peer_is peer r \<and> dr_session_id r = Some session \<and> is_pending (dr_state r))
       (\<lambda>r. r\<lparr>dr_generation := g,
              dr_issued_grant_handle := at_generation g r (dr_issued_grant_handle r) None,
              dr_held_grant_handle := at_generation g r (dr_held_grant_handle r) None,
              dr_issued_grant_id := at_generation g r (dr_issued_grant_id r) None,
              dr_held_grant_id := at_generation g r (dr_held_grant_id r) None,
              dr_peer_ack := at_generation g r (dr_peer_ack r) False,
              dr_local_ack := at_generation g r (dr_local_ack r) False,
              dr_updated_at := now\<rparr>))
     (\<lambda>n. ok (n = 1))"

text \<open>\<open>INSERT .. ON CONFLICT(remote_endpoint_id) DO UPDATE\<close>: \<open>e\<close> is the excluded row.\<close>

definition merge_relationship :: "relationship \<Rightarrow> relationship \<Rightarrow> relationship" where
  "merge_relationship e r = r\<lparr>
     dr_state := dr_state e,
     dr_generation := dr_generation e,
     dr_minimum_protocol_version := dr_minimum_protocol_version e,
     dr_session_id := dr_session_id e,
     dr_remote_display_name := coalesce (dr_remote_display_name e) (dr_remote_display_name r),
     dr_last_authenticated_at := coalesce (dr_last_authenticated_at e) (dr_last_authenticated_at r),
     dr_issued_grant_handle := at_generation (dr_generation e) r
       (coalesce (dr_issued_grant_handle e) (dr_issued_grant_handle r)) (dr_issued_grant_handle e),
     dr_held_grant_handle := at_generation (dr_generation e) r
       (coalesce (dr_held_grant_handle e) (dr_held_grant_handle r)) (dr_held_grant_handle e),
     dr_issued_grant_id := at_generation (dr_generation e) r
       (coalesce (dr_issued_grant_id e) (dr_issued_grant_id r)) (dr_issued_grant_id e),
     dr_held_grant_id := at_generation (dr_generation e) r
       (coalesce (dr_held_grant_id e) (dr_held_grant_id r)) (dr_held_grant_id e),
     dr_peer_ack := dr_peer_ack e,
     dr_local_ack := dr_local_ack e,
     dr_updated_at := dr_updated_at e\<rparr>"

definition upsert :: "relationship \<Rightarrow> ('z relations_scheme, unit) proc" where
  "upsert e = exec (on_relationships (\<lambda>rows.
     if exists_where (peer_is (dr_remote_endpoint_id e)) rows
     then update_where (peer_is (dr_remote_endpoint_id e)) (merge_relationship e) rows
     else rows @ [e\<lparr>dr_local_label := None\<rparr>]))"

definition begin_grant_rotation :: "int \<Rightarrow> string \<Rightarrow> u64 \<Rightarrow> ('z relations_scheme, unit) proc" where
  "begin_grant_rotation now peer g = next_do
     (rel_update (peer_is peer)
       (\<lambda>r. r\<lparr>dr_generation := g, dr_issued_grant_handle := None, dr_held_grant_handle := None,
              dr_issued_grant_id := None, dr_held_grant_id := None, dr_updated_at := now\<rparr>)) (ok ())"

definition tombstone_of :: "string \<Rightarrow> u64 \<Rightarrow> tombstone \<Rightarrow> bool" where
  "tombstone_of peer g t \<longleftrightarrow> gt_remote_endpoint_id t = peer \<and> gt_generation t = g"

definition insert_tombstone :: "int \<Rightarrow> string \<Rightarrow> relationship \<Rightarrow> ('z relations_scheme, unit) proc" where
  "insert_tombstone now peer r = exec (\<lambda>s.
     let rows = generation_tombstones s; P = tombstone_of peer (dr_generation r) in
     s\<lparr>generation_tombstones :=
       (if exists_where P rows
        then update_where P (\<lambda>t. t\<lparr>
               gt_issued_grant_id := coalesce (dr_issued_grant_id r) (gt_issued_grant_id t),
               gt_held_grant_id := coalesce (dr_held_grant_id r) (gt_held_grant_id t),
               gt_revoked_at := now\<rparr>) rows
        else rows @ [\<lparr>gt_remote_endpoint_id = peer, gt_generation = dr_generation r,
               gt_issued_grant_id = dr_issued_grant_id r, gt_held_grant_id = dr_held_grant_id r,
               gt_revoked_at = now\<rparr>])\<rparr>)"

definition find_tombstone :: "string \<Rightarrow> u64 \<Rightarrow> ('z relations_scheme, tombstone option) proc" where
  "find_tombstone peer g = select (\<lambda>s. List.find (tombstone_of peer g) (generation_tombstones s))"

section \<open>What the methods keep\<close>

lemma rel_state_parse_as_str [simp]: "rel_parse_state (rel_state_as_str st) = Inr st"
  by (cases st) (simp_all add: rel_parse_state_def rel_state_as_str_def)

lemma rel_parse_state_Inr: "rel_parse_state v = Inr st \<Longrightarrow> v = rel_state_as_str st"
  by (auto simp: rel_parse_state_def rel_state_as_str_def split: if_splits)

lemma tables_rel_update: "stable same_tables (rel_update P u)"
  unfolding rel_update_def by (rule tb.stable_transact) (auto simp: same_tables_def)

lemmas rel_write_defs = refresh_authenticated_peer_def rel_set_label_def set_issued_grant_def
  set_held_grant_def set_acks_def rel_set_state_def set_pending_generation_def begin_grant_rotation_def

lemmas rel_read_defs = count_active_slots_def list_reconcile_rows_def rel_list_def
  list_saved_devices_def list_expired_pending_peers_def rel_find_row_def generation_floor_def
  find_tombstone_def

lemma tables_rel_writes:
  "stable same_tables (refresh_authenticated_peer p nm n)" "stable same_tables (rel_set_label n p l)"
  "stable same_tables (set_issued_grant n p h i)" "stable same_tables (set_held_grant n p h i)"
  "stable same_tables (set_acks n p a b)" "stable same_tables (rel_set_state n p st)"
  "stable same_tables (set_pending_generation n p ss g)" "stable same_tables (begin_grant_rotation n p g)"
  by (simp_all add: rel_write_defs tables_rel_update tb.stable_bind tb.stable_next tb.stable_ok)

lemma tables_rel_exec:
  "stable same_tables (rel_delete p)" "stable same_tables (upsert e)"
  "stable same_tables (insert_tombstone n p r)"
  unfolding rel_delete_def upsert_def insert_tombstone_def
  by (rule tb.stable_exec, simp add: same_tables_def Let_def)+

lemma tables_rel_reads:
  "stable same_tables count_active_slots" "stable same_tables list_reconcile_rows"
  "stable same_tables rel_list" "stable same_tables list_saved_devices"
  "stable same_tables (list_expired_pending_peers c)" "stable same_tables (rel_find_row p)"
  "stable same_tables (generation_floor p)" "stable same_tables (find_tombstone p g)"
  by (simp_all add: rel_read_defs tb.stable_select)

lemmas tables_relations = tables_custody tables_rel_update tables_rel_writes tables_rel_exec tables_rel_reads

text \<open>
  Revocation is remembered: no method removes a tombstone. \<open>revoked_kept\<close> is kept by every
  method of the store and of custody.
\<close>

definition is_tombstoned :: "string \<Rightarrow> u64 \<Rightarrow> 'z relations_scheme \<Rightarrow> bool" where
  "is_tombstoned peer g s \<longleftrightarrow> exists_where (tombstone_of peer g) (generation_tombstones s)"

definition revoked_kept :: "'z relations_scheme \<Rightarrow> 'z relations_scheme \<Rightarrow> bool" where
  "revoked_kept s t \<longleftrightarrow> (\<forall>peer g. is_tombstoned peer g s \<longrightarrow> is_tombstoned peer g t)"

lemma revoked_kept_same: "generation_tombstones t = generation_tombstones s \<Longrightarrow> revoked_kept s t"
  by (simp add: revoked_kept_def is_tombstoned_def)

interpretation rk: db_state revoked_kept
  by unfold_locales (auto simp: revoked_kept_def is_tombstoned_def)

lemma revoked_custody: "stable custody_frame m \<Longrightarrow> stable revoked_kept m"
proof (rule stableI)
  fix s :: "'a relations_scheme"
  assume "stable custody_frame m"
  then have "vault.more (snd (m s)) = vault.more s" by (simp add: stable_def custody_frame_def)
  then have "generation_tombstones (snd (m s)) = generation_tombstones s"
    by (cases s; cases "snd (m s)") simp
  then show "revoked_kept s (snd (m s))" by (rule revoked_kept_same)
qed

lemma revoked_rel_update: "stable revoked_kept (rel_update P u)"
  unfolding rel_update_def by (rule rk.stable_transact) (auto intro: revoked_kept_same)

lemma revoked_insert_tombstone: "stable revoked_kept (insert_tombstone n p r)"
  unfolding insert_tombstone_def
proof (rule rk.stable_exec)
  fix s :: "'a relations_scheme"
  show "revoked_kept s (let rows = generation_tombstones s; P = tombstone_of p (dr_generation r) in
     s\<lparr>generation_tombstones :=
       (if exists_where P rows
        then update_where P (\<lambda>t. t\<lparr>
               gt_issued_grant_id := coalesce (dr_issued_grant_id r) (gt_issued_grant_id t),
               gt_held_grant_id := coalesce (dr_held_grant_id r) (gt_held_grant_id t),
               gt_revoked_at := n\<rparr>) rows
        else rows @ [\<lparr>gt_remote_endpoint_id = p, gt_generation = dr_generation r,
               gt_issued_grant_id = dr_issued_grant_id r, gt_held_grant_id = dr_held_grant_id r,
               gt_revoked_at = n\<rparr>])\<rparr>)"
    by (auto simp: revoked_kept_def is_tombstoned_def Let_def bex_update_where tombstone_of_def)
qed

lemma revoked_rel_writes:
  "stable revoked_kept (refresh_authenticated_peer p nm n)" "stable revoked_kept (rel_set_label n p l)"
  "stable revoked_kept (set_issued_grant n p h i)" "stable revoked_kept (set_held_grant n p h i)"
  "stable revoked_kept (set_acks n p a b)" "stable revoked_kept (rel_set_state n p st)"
  "stable revoked_kept (set_pending_generation n p ss g)" "stable revoked_kept (begin_grant_rotation n p g)"
  by (simp_all add: rel_write_defs revoked_rel_update rk.stable_bind rk.stable_next rk.stable_ok)

lemma revoked_rel_exec: "stable revoked_kept (rel_delete p)" "stable revoked_kept (upsert e)"
  unfolding rel_delete_def upsert_def by (rule rk.stable_exec, simp add: revoked_kept_same)+

lemma revoked_rel_reads:
  "stable revoked_kept count_active_slots" "stable revoked_kept list_reconcile_rows"
  "stable revoked_kept rel_list" "stable revoked_kept list_saved_devices"
  "stable revoked_kept (list_expired_pending_peers c)" "stable revoked_kept (rel_find_row p)"
  "stable revoked_kept (generation_floor p)" "stable revoked_kept (find_tombstone p g)"
  by (simp_all add: rel_read_defs rk.stable_select)

lemma rel_find_rowD:
  "rel_find_row p s = (Inr found, t) \<Longrightarrow>
   t = tick_db s \<and> find_by dr_remote_endpoint_id p (device_relationships s) = found"
  by (auto simp: rel_find_row_def dest!: select_InrD)

lemma find_tombstoneD:
  "find_tombstone p g s = (Inr found, t) \<Longrightarrow>
   t = tick_db s \<and> (found = None \<longleftrightarrow> \<not> is_tombstoned p g s)"
  by (auto simp: find_tombstone_def is_tombstoned_def find_None_iff dest!: select_InrD)

lemma insert_tombstoneD:
  assumes "insert_tombstone n p r s = (Inr x, t)"
  shows "is_tombstoned p (dr_generation r) t"
  using assms unfolding insert_tombstone_def exec_def
  by (auto simp: is_tombstoned_def Let_def bex_update_where tombstone_of_def dest!: transact_InrD
      split: if_splits)

end
