(* ===== verification/Relationship_Service.thy ===== *)
theory Relationship_Service
  imports Relationship_Store
begin

text \<open>
  Saved-device relationships: possession proofs (\<^verbatim>\<open>grant.rs\<close>, \<^verbatim>\<open>device_relationship/crypto.rs\<close>),
  the checks a saved peer must pass and the custody of its grants
  (\<^verbatim>\<open>device_relationship/service.rs\<close>), and grant rotation and revocation
  (\<^verbatim>\<open>device_relationship/lifecycle.rs\<close>). A handler is one step on the state. In the code a handler
  suspends at its database calls; \<open>request_pairing\<close>, \<open>handle_pairing_request\<close>, \<open>complete_simultaneous_merge\<close>,
  \<open>forget\<close>, \<open>revoke_for_block\<close>, \<open>handle_remote_revoke\<close> and the rotation hold a lock of their peer meanwhile,
  the handlers of consents and acknowledgements, \<open>respond_to_pairing\<close>, \<open>activate_saved\<close> and
  \<open>adopt_pending_generation\<close> hold none. Steps of handlers that overlap inside each other are not modelled. The hash and the hexadecimal codec are those of \<open>ext\<close>; randomness (a
  secret, a grant id, a UUID) is an argument of the operation that draws it. \<open>rel_env\<close> is what
  the service is constructed with.
\<close>

record rel_env =
  re_ext :: ext
  re_public_key :: "string \<Rightarrow> string"
  re_local_endpoint_id :: string
  re_custody :: bool
  re_max_saved_devices :: u64

record wire_proof =
  wp_grant_id :: string
  wp_mac :: string
  wp_challenge :: string

record wire_grant =
  wg_grant_id :: string
  wg_secret :: string
  wg_issuer_endpoint_id :: string
  wg_holder_endpoint_id :: string
  wg_generation :: u64
  wg_protocol_version :: u16

section \<open>grant.rs, crypto.rs\<close>

definition decode_fixed :: "ext \<Rightarrow> nat \<Rightarrow> string \<Rightarrow> string option" where
  "decode_fixed x n v = (case hex_decode x v of
      None \<Rightarrow> None | Some b \<Rightarrow> if length b = n then Some b else None)"

definition grant_id_decode :: "ext \<Rightarrow> string \<Rightarrow> vnidrop_error + string" where
  "grant_id_decode x v = (case decode_fixed x 16 v of
      None \<Rightarrow> Inl (InvalidInput ''invalid grant id'') | Some b \<Rightarrow> Inr b)"

definition grant_secret_decode :: "ext \<Rightarrow> string \<Rightarrow> vnidrop_error + string" where
  "grant_secret_decode x v = (case decode_fixed x 32 v of
      None \<Rightarrow> Inl (InvalidInput ''invalid grant secret'') | Some b \<Rightarrow> Inr b)"

definition challenge_decode :: "ext \<Rightarrow> string \<Rightarrow> vnidrop_error + string" where
  "challenge_decode x v = (case decode_fixed x 32 v of
      None \<Rightarrow> Inl (InvalidInput ''invalid challenge'') | Some b \<Rightarrow> Inr b)"

definition RELATIONSHIP_GRANT_CONTEXT :: string where
  "RELATIONSHIP_GRANT_CONTEXT = ''vnidrop-relationship-grant-v1''"

definition encode_relationship_grant_secret :: "string \<Rightarrow> vnidrop_error + string" where
  "encode_relationship_grant_secret secret = new_material secret"

definition secret_from_material :: "string \<Rightarrow> vnidrop_error + string" where
  "secret_from_material material = (if length material = 32 then Inr material
     else Inl (SecureStorageCorrupted ''relationship grant secret has invalid length''))"

definition relationship_message :: "string \<Rightarrow> string \<Rightarrow> string \<Rightarrow> u64 \<Rightarrow> u16 \<Rightarrow> string" where
  "relationship_message challenge issuer holder g v =
     RELATIONSHIP_GRANT_CONTEXT @ challenge @ framed issuer @ framed holder @ le64 g @ le16 v"

definition relationship_mac ::
    "ext \<Rightarrow> string \<Rightarrow> string \<Rightarrow> string \<Rightarrow> string \<Rightarrow> u64 \<Rightarrow> u16 \<Rightarrow> string" where
  "relationship_mac x secret challenge issuer holder g v =
     keyed_hash x secret (relationship_message challenge issuer holder g v)"

text \<open>\<open>GrantProof\<close>: the grant id and the 32 bytes of the MAC.\<close>

definition prove_relationship_grant ::
    "ext \<Rightarrow> string \<Rightarrow> string \<Rightarrow> string \<Rightarrow> string \<Rightarrow> string \<Rightarrow> u64 \<Rightarrow> u16 \<Rightarrow> string \<times> string" where
  "prove_relationship_grant x grant_id secret challenge issuer holder g v =
     (grant_id, relationship_mac x secret challenge issuer holder g v)"

definition verify_relationship_grant ::
    "ext \<Rightarrow> string \<Rightarrow> string \<times> string \<Rightarrow> string \<Rightarrow> string \<Rightarrow> string \<Rightarrow> u64 \<Rightarrow> u16 \<Rightarrow> string + unit" where
  "verify_relationship_grant x secret proof challenge issuer holder g v =
     (if relationship_mac x secret challenge issuer holder g v \<noteq> snd proof
      then Inl ''bad relationship grant proof'' else Inr ())"

section \<open>service.rs, lifecycle.rs\<close>

definition require_custody :: "rel_env \<Rightarrow> ('s, unit) proc" where
  "require_custody e = (if re_custody e then ok ()
     else err (SecureStorageUnavailable ''relationship grants require protected custody''))"

definition emit :: "string \<Rightarrow> string \<Rightarrow> ('z relations_scheme, unit) proc" where
  "emit topic kind = modify (\<lambda>s. s\<lparr>emitted := emitted s @ [(topic, kind)]\<rparr>)"

text \<open>Event payloads are not kept.\<close>

definition emit_changed :: "('z relations_scheme, unit) proc" where
  "emit_changed = emit ''pairing'' ''relationship-changed''"

definition find_saved :: "string \<Rightarrow> ('z relations_scheme, relationship) proc" where
  "find_saved peer = bind (rel_find_row peer) (\<lambda>found. case found of
      None \<Rightarrow> err (Permission ''no saved relationship with peer'')
    | Some r \<Rightarrow> if dr_state r \<noteq> Saved then err (Permission ''peer is not a saved device'') else ok r)"

definition require_saved :: "string \<Rightarrow> ('z relations_scheme, unit) proc" where
  "require_saved peer = next_do (find_saved peer) (ok ())"

datatype GrantRejection = UnknownGrant | RevokedGrant

definition rejection_as_str :: "GrantRejection \<Rightarrow> string" where
  "rejection_as_str r = (case r of UnknownGrant \<Rightarrow> ''unknown'' | RevokedGrant \<Rightarrow> ''revoked'')"

definition reject_replayed_generation ::
    "string \<Rightarrow> u64 \<Rightarrow> ('z relations_scheme, GrantRejection + unit) proc" where
  "reject_replayed_generation peer g = attempt (find_tombstone peer g) (\<lambda>r. case r of
      Inl _ \<Rightarrow> ok (Inl UnknownGrant)
    | Inr (Some _) \<Rightarrow> ok (Inl RevokedGrant)
    | Inr None \<Rightarrow> attempt (rel_find_row peer) (\<lambda>found. case found of
          Inl _ \<Rightarrow> ok (Inl UnknownGrant)
        | Inr None \<Rightarrow> ok (Inl UnknownGrant)
        | Inr (Some row) \<Rightarrow>
            if dr_state row = Revoked \<or> dr_state row = Blocked then ok (Inl UnknownGrant)
            else if dr_generation row \<noteq> g then ok (Inl UnknownGrant)
            else ok (Inr ())))"

definition verify_issued_possession ::
    "rel_env \<Rightarrow> string \<Rightarrow> string \<Rightarrow> wire_proof \<Rightarrow> u64 \<Rightarrow> u16 \<Rightarrow> ('z relations_scheme, unit) proc" where
  "verify_issued_possession e peer challenge proof g v =
     bind (reject_replayed_generation peer g) (\<lambda>rejected. case rejected of
        Inl rejection \<Rightarrow> err (InvalidInput (''relationship grant '' @ rejection_as_str rejection))
      | Inr _ \<Rightarrow> next_do (require_custody e) (bind (rel_find_row peer) (\<lambda>found. case found of
          None \<Rightarrow> err (InvalidInput ''missing relationship for verify'')
        | Some row \<Rightarrow> (case dr_issued_grant_handle row of
            None \<Rightarrow> err (InvalidInput ''missing issued grant for verify'')
          | Some handle \<Rightarrow> (case dr_issued_grant_id row of
              None \<Rightarrow> err (InvalidInput ''missing issued grant id'')
            | Some expected_id \<Rightarrow>
                if wp_grant_id proof \<noteq> expected_id
                then err (InvalidInput ''relationship grant id mismatch'')
                else bind (load (re_public_key e) handle) (\<lambda>material.
                  bind (lift (secret_from_material material)) (\<lambda>secret.
                  bind (lift (grant_id_decode (re_ext e) (wp_grant_id proof))) (\<lambda>grant_id.
                  case hex_decode (re_ext e) (wp_mac proof) of
                    None \<Rightarrow> err (InvalidInput ''invalid proof mac'')
                  | Some mac \<Rightarrow>
                      if length mac \<noteq> 32 then err (InvalidInput ''invalid proof mac length'')
                      else case verify_relationship_grant (re_ext e) secret (grant_id, mac) challenge
                             (re_local_endpoint_id e) peer g v of
                          Inl reason \<Rightarrow> err (InvalidInput reason)
                        | Inr _ \<Rightarrow> ok ()))))))))"

definition verify_saved_possession ::
    "rel_env \<Rightarrow> string \<Rightarrow> string \<Rightarrow> wire_proof \<Rightarrow> u64 \<Rightarrow> u16 \<Rightarrow> ('z relations_scheme, unit) proc" where
  "verify_saved_possession e peer challenge proof g v = bind (find_saved peer) (\<lambda>row.
     if dr_generation row \<noteq> g then err (Permission ''relationship generation mismatch'')
     else if v < dr_minimum_protocol_version row
     then err (ProtocolIncompatible ''relationship protocol downgrade is forbidden'')
     else verify_issued_possession e peer challenge proof g v)"

definition prove_held_possession ::
    "rel_env \<Rightarrow> string \<Rightarrow> string \<Rightarrow> u64 \<Rightarrow> u16 \<Rightarrow> ('z relations_scheme, wire_proof) proc" where
  "prove_held_possession e peer challenge g v = next_do (require_custody e)
     (bind (rel_find_row peer) (\<lambda>found. case found of
        None \<Rightarrow> err (InvalidInput ''missing relationship for proof'')
      | Some row \<Rightarrow> (case dr_held_grant_handle row of
          None \<Rightarrow> err (InvalidInput ''missing held grant for proof'')
        | Some handle \<Rightarrow> (case dr_held_grant_id row of
            None \<Rightarrow> err (InvalidInput ''missing held grant id'')
          | Some held_id \<Rightarrow> bind (lift (grant_id_decode (re_ext e) held_id)) (\<lambda>grant_id.
              bind (load (re_public_key e) handle) (\<lambda>material.
              bind (lift (secret_from_material material)) (\<lambda>secret.
                case prove_relationship_grant (re_ext e) grant_id secret challenge peer
                       (re_local_endpoint_id e) g v of
                  (pid, mac) \<Rightarrow> ok \<lparr>wp_grant_id = hex_encode (re_ext e) pid,
                    wp_mac = hex_encode (re_ext e) mac,
                    wp_challenge = hex_encode (re_ext e) challenge\<rparr>)))))))"

definition prove_saved_possession ::
    "rel_env \<Rightarrow> string \<Rightarrow> string \<Rightarrow> ('z relations_scheme, wire_proof \<times> u64 \<times> u16) proc" where
  "prove_saved_possession e peer challenge = bind (find_saved peer) (\<lambda>row.
     bind (prove_held_possession e peer challenge (dr_generation row) (dr_minimum_protocol_version row))
       (\<lambda>proof. ok (proof, dr_generation row, dr_minimum_protocol_version row)))"

text \<open>\<open>secret\<close>, \<open>grant_id\<close> and \<open>uuid\<close> are what the operation draws at random.\<close>

definition mint_and_store_issued_grant ::
    "rel_env \<Rightarrow> int \<Rightarrow> string \<Rightarrow> string \<Rightarrow> string \<Rightarrow> string \<Rightarrow> u64 \<Rightarrow> u16 \<Rightarrow> ('z relations_scheme, wire_grant) proc" where
  "mint_and_store_issued_grant e now secret grant_id uuid peer g v = next_do (require_custody e)
     (bind (lift (encode_relationship_grant_secret secret)) (\<lambda>material.
      bind (protect (re_public_key e) now uuid RelationshipGrant material None) (\<lambda>handle.
      next_do (set_issued_grant now peer handle (hex_encode (re_ext e) grant_id))
       (ok \<lparr>wg_grant_id = hex_encode (re_ext e) grant_id, wg_secret = hex_encode (re_ext e) secret,
            wg_issuer_endpoint_id = re_local_endpoint_id e, wg_holder_endpoint_id = peer,
            wg_generation = g, wg_protocol_version = v\<rparr>))))"

definition store_held_grant ::
    "rel_env \<Rightarrow> int \<Rightarrow> string \<Rightarrow> string \<Rightarrow> wire_grant \<Rightarrow> ('z relations_scheme, unit) proc" where
  "store_held_grant e now uuid peer grant =
     (if wg_holder_endpoint_id grant \<noteq> re_local_endpoint_id e \<or> wg_issuer_endpoint_id grant \<noteq> peer
      then err (InvalidInput ''relationship grant endpoint binding mismatch'')
      else next_do (require_custody e)
       (bind (lift (grant_id_decode (re_ext e) (wg_grant_id grant))) (\<lambda>grant_id.
        bind (lift (grant_secret_decode (re_ext e) (wg_secret grant))) (\<lambda>secret.
        bind (lift (encode_relationship_grant_secret secret)) (\<lambda>material.
        bind (protect (re_public_key e) now uuid RelationshipGrant material None) (\<lambda>handle.
          set_held_grant now peer handle (hex_encode (re_ext e) grant_id)))))))"

definition relationship_slots_used :: "('z relations_scheme, nat) proc" where
  "relationship_slots_used = count_active_slots"

definition can_create_new_relationship :: "rel_env \<Rightarrow> string \<Rightarrow> ('z relations_scheme, bool) proc" where
  "can_create_new_relationship e peer = bind (rel_find_row peer) (\<lambda>found.
     if found \<noteq> None then ok True
     else bind relationship_slots_used (\<lambda>n. ok (n < unat (re_max_saved_devices e))))"

text \<open>\<open>checked_add(1)\<close> and the test that the result fits in \<open>i64\<close>.\<close>

definition next_generation :: "string \<Rightarrow> ('z relations_scheme, u64) proc" where
  "next_generation peer = bind (generation_floor peer) (\<lambda>floor.
     if unat floor + 1 < 2 ^ 63 then ok (floor + 1)
     else err (InvalidInput ''relationship generation exhausted''))"

definition fits_i64 :: "u64 \<Rightarrow> bool" where
  "fits_i64 g \<longleftrightarrow> unat g < 2 ^ 63"

definition adopt_pending_generation ::
    "int \<Rightarrow> string \<Rightarrow> string \<Rightarrow> u64 \<Rightarrow> ('z relations_scheme, unit) proc" where
  "adopt_pending_generation now peer session g =
     (let mismatch = err (InvalidInput ''pairing response did not match the pending relationship'') in
      if \<not> fits_i64 g then mismatch
      else bind (set_pending_generation now peer session g) (\<lambda>changed.
        if changed then ok ()
        else bind (rel_find_row peer) (\<lambda>found. case found of
            Some row \<Rightarrow> if dr_state row = Saved \<and> dr_generation row = g then ok () else mismatch
          | None \<Rightarrow> mismatch)))"

definition activate_saved :: "int \<Rightarrow> string \<Rightarrow> ('z relations_scheme, unit) proc" where
  "activate_saved now peer = next_do (rel_set_state now peer Saved) emit_changed"

definition grant_handles :: "relationship \<Rightarrow> string list" where
  "grant_handles r = List.map_filter (\<lambda>h. h) [dr_issued_grant_handle r, dr_held_grant_handle r]"

definition remove_quietly :: "int \<Rightarrow> string \<Rightarrow> ('z relations_scheme, unit) proc" where
  "remove_quietly now handle = attempt (remove_secret now handle) (\<lambda>_. ok ())"

definition clear_grant_secrets :: "rel_env \<Rightarrow> int \<Rightarrow> relationship \<Rightarrow> ('z relations_scheme, unit) proc" where
  "clear_grant_secrets e now row =
     (if re_custody e then for_each (grant_handles row) (remove_quietly now) else ok ())"

definition delete_relationship :: "rel_env \<Rightarrow> int \<Rightarrow> string \<Rightarrow> ('z relations_scheme, unit) proc" where
  "delete_relationship e now peer = next_do
     (attempt (rel_find_row peer) (\<lambda>found. case found of
         Inr (Some row) \<Rightarrow> clear_grant_secrets e now row
       | _ \<Rightarrow> ok ()))
     (rel_delete peer)"

definition PENDING_TTL_MS :: int where
  "PENDING_TTL_MS = 30 * 60 * 1000"

definition expire_pending :: "rel_env \<Rightarrow> int \<Rightarrow> ('z relations_scheme, unit) proc" where
  "expire_pending e now = bind (list_expired_pending_peers (now - PENDING_TTL_MS)) (\<lambda>peers.
     for_each peers (delete_relationship e now))"

definition list_relationships :: "rel_env \<Rightarrow> int \<Rightarrow> ('z relations_scheme, relationship list) proc" where
  "list_relationships e now = next_do (expire_pending e now) rel_list"

definition set_saved_device_label ::
    "int \<Rightarrow> string \<Rightarrow> string option \<Rightarrow> ('z relations_scheme, unit) proc" where
  "set_saved_device_label now peer label = bind (rel_set_label now peer label) (\<lambda>changed.
     if \<not> changed then err (InvalidInput ''peer is not a saved device'') else emit_changed)"

text \<open>\<open>u64::saturating_add(1)\<close>.\<close>

definition saturating_succ :: "u64 \<Rightarrow> u64" where
  "saturating_succ g = (if g = - 1 then g else g + 1)"

definition rotate_relationship_grant ::
    "rel_env \<Rightarrow> int \<Rightarrow> string \<Rightarrow> string \<Rightarrow> string \<Rightarrow> string \<Rightarrow> ('z relations_scheme, u64) proc" where
  "rotate_relationship_grant e now secret grant_id uuid peer = bind (rel_find_row peer) (\<lambda>found.
     case found of
       None \<Rightarrow> err (InvalidInput ''no relationship to rotate'')
     | Some row \<Rightarrow>
         if dr_state row \<noteq> Saved
         then err (InvalidInput ''only saved relationships can rotate grants'')
         else next_do (insert_tombstone now peer row)
          (next_do (clear_grant_secrets e now row)
           (let g = saturating_succ (dr_generation row) in
            next_do (begin_grant_rotation now peer g)
            (next_do (mint_and_store_issued_grant e now secret grant_id uuid peer g
                        (dr_minimum_protocol_version row))
             (next_do (emit ''pairing'' ''relationship-grant-rotated'') (ok g))))))"

text \<open>Start-up reconciliation of grant secrets.\<close>

definition load_fails :: "rel_env \<Rightarrow> string option \<Rightarrow> ('z relations_scheme, bool) proc" where
  "load_fails e handle = (case handle of
      None \<Rightarrow> ok True
    | Some h \<Rightarrow> attempt (load (re_public_key e) h) (\<lambda>r. ok (case r of Inl _ \<Rightarrow> True | Inr _ \<Rightarrow> False)))"

definition reconcile_row ::
    "rel_env \<Rightarrow> int \<Rightarrow> relationship \<Rightarrow> string list \<Rightarrow> ('z relations_scheme, string list) proc" where
  "reconcile_row e now row live =
     bind (load_fails e (dr_issued_grant_handle row)) (\<lambda>issued_missing.
     next_do (load_fails e (dr_held_grant_handle row))
      (next_do (if dr_state row = Saved \<and> issued_missing
                then delete_relationship e now (dr_remote_endpoint_id row) else ok ())
        (ok (grant_handles row @ live))))"

definition reconcile_relationships :: "rel_env \<Rightarrow> int \<Rightarrow> ('z relations_scheme, unit) proc" where
  "reconcile_relationships e now =
     (if \<not> re_custody e then ok ()
      else bind list_reconcile_rows (\<lambda>rows.
        bind (for_fold rows (reconcile_row e now) []) (\<lambda>live.
        bind (list_active_handles RelationshipGrant) (\<lambda>handles.
          for_each (filter (\<lambda>h. \<not> List.member live h) handles) (remove_quietly now)))))"

end
