(* ===== verification/Relationship_Facts.thy ===== *)
theory Relationship_Facts
  imports Relationship_Service
begin

text \<open>
  The service never touches the transfer tables and never forgets a revocation; a possession
  proof is accepted exactly for the active generation, the issued grant and a MAC under the
  issued secret; new generations lie above every generation ever recorded.
\<close>

section \<open>What every operation keeps\<close>

lemma tables_modify_emitted: "stable same_tables (emit topic kind)"
  unfolding emit_def by (rule tb.stable_modify) (simp add: same_tables_def)

lemma revoked_modify_emitted: "stable revoked_kept (emit topic kind)"
  unfolding emit_def by (rule rk.stable_modify) (simp add: revoked_kept_same)

lemma require_custody_stable: "stable same_tables (require_custody e)" "stable revoked_kept (require_custody e)"
  by (simp_all add: require_custody_def tb.stable_ok tb.stable_err rk.stable_ok rk.stable_err)

lemma tables_find_saved: "stable same_tables (find_saved p)"
  unfolding find_saved_def by (intro tables_relations)

lemma tables_require_saved: "stable same_tables (require_saved p)"
  unfolding require_saved_def by (intro tables_relations tables_find_saved)

lemma tables_reject_replayed: "stable same_tables (reject_replayed_generation p g)"
  unfolding reject_replayed_generation_def by (intro tables_relations)

lemma tables_verify_issued: "stable same_tables (verify_issued_possession e p c pr g v)"
  unfolding verify_issued_possession_def
  by (intro tables_relations tables_reject_replayed require_custody_stable)

lemma tables_verify_saved: "stable same_tables (verify_saved_possession e p c pr g v)"
  unfolding verify_saved_possession_def by (intro tables_relations tables_find_saved tables_verify_issued)

lemmas revoked_rules = rk.stable_rules revoked_rel_update revoked_insert_tombstone revoked_rel_writes
  revoked_rel_exec revoked_rel_reads revoked_modify_emitted require_custody_stable
  frame_protect [THEN revoked_custody] frame_load [THEN revoked_custody]
  frame_remove_secret [THEN revoked_custody] frame_metadata [THEN revoked_custody]

lemma revoked_find_saved: "stable revoked_kept (find_saved p)"
  unfolding find_saved_def by (intro revoked_rules)

lemma revoked_reject: "stable revoked_kept (reject_replayed_generation p g)"
  unfolding reject_replayed_generation_def by (intro revoked_rules)

lemma revoked_verify: "stable revoked_kept (verify_saved_possession e p c pr g v)"
  unfolding verify_saved_possession_def verify_issued_possession_def
  by (intro revoked_rules revoked_find_saved revoked_reject)

lemma revoked_prove: "stable revoked_kept (prove_saved_possession e p c)"
  unfolding prove_saved_possession_def prove_held_possession_def prove_relationship_grant_def
  by (intro revoked_rules revoked_find_saved)

lemma revoked_mint: "stable revoked_kept (mint_and_store_issued_grant e n sc gi u p g v)"
  unfolding mint_and_store_issued_grant_def by (intro revoked_rules)

lemma revoked_store_held: "stable revoked_kept (store_held_grant e n u p g)"
  unfolding store_held_grant_def by (intro revoked_rules)

lemma revoked_remove_quietly: "stable revoked_kept (remove_quietly n h)"
  unfolding remove_quietly_def by (intro revoked_rules)

lemma revoked_clear_secrets: "stable revoked_kept (clear_grant_secrets e n r)"
  unfolding clear_grant_secrets_def by (intro revoked_rules revoked_remove_quietly)

lemma revoked_delete: "stable revoked_kept (delete_relationship e n p)"
  unfolding delete_relationship_def by (intro revoked_rules revoked_clear_secrets)

lemma revoked_rotate: "stable revoked_kept (rotate_relationship_grant e n sc gi u p)"
  unfolding rotate_relationship_grant_def Let_def
  by (intro revoked_rules revoked_clear_secrets revoked_mint)

lemma revoked_adopt: "stable revoked_kept (adopt_pending_generation n p ss g)"
  unfolding adopt_pending_generation_def Let_def by (intro revoked_rules)

lemma revoked_activate: "stable revoked_kept (activate_saved n p)"
  unfolding activate_saved_def emit_changed_def by (intro revoked_rules)

lemma revoked_list: "stable revoked_kept (list_relationships e n)"
  unfolding list_relationships_def expire_pending_def by (intro revoked_rules revoked_delete)

lemma revoked_label: "stable revoked_kept (set_saved_device_label n p l)"
  unfolding set_saved_device_label_def emit_changed_def by (intro revoked_rules)

lemma revoked_load_fails: "stable revoked_kept (load_fails e h)"
  unfolding load_fails_def by (intro revoked_rules)

lemma revoked_reconcile: "stable revoked_kept (reconcile_relationships e n)"
  unfolding reconcile_relationships_def reconcile_row_def list_active_handles_def
  by (intro revoked_rules revoked_load_fails revoked_delete revoked_remove_quietly)

section \<open>Who passes the checks\<close>

lemma find_savedD:
  "find_saved p s = (Inr r, t) \<Longrightarrow>
   t = tick_db s \<and> find_by dr_remote_endpoint_id p (device_relationships s) = Some r \<and> dr_state r = Saved"
  unfolding find_saved_def
  by (auto dest!: bind_InrD rel_find_rowD split: option.splits if_splits)

definition saved_peer :: "string \<Rightarrow> 'z relations_scheme \<Rightarrow> bool" where
  "saved_peer p s \<longleftrightarrow> (\<exists>r. find_by dr_remote_endpoint_id p (device_relationships s) = Some r \<and> dr_state r = Saved)"

lemma require_savedD: "require_saved p s = (Inr u, t) \<Longrightarrow> saved_peer p s"
  unfolding require_saved_def saved_peer_def by (auto dest!: next_InrD find_savedD)

lemma reject_replayedD:
  assumes "reject_replayed_generation p g s = (Inr (Inr u), t)"
  shows "\<not> is_tombstoned p g s \<and> t = tick_db (tick_db s) \<and>
    (\<exists>r. find_by dr_remote_endpoint_id p (device_relationships s) = Some r \<and> dr_generation r = g)"
  using assms unfolding reject_replayed_generation_def attempt_def
  by (auto split: prod.splits sum.splits option.splits if_splits
      dest!: find_tombstoneD rel_find_rowD)

text \<open>What an accepted proof shows about the state that accepted it.\<close>

definition possession_shown ::
    "rel_env \<Rightarrow> string \<Rightarrow> string \<Rightarrow> wire_proof \<Rightarrow> u64 \<Rightarrow> u16 \<Rightarrow> 'z relations_scheme \<Rightarrow> bool" where
  "possession_shown e p c pr g v s \<longleftrightarrow> \<not> is_tombstoned p g s \<and>
     (\<exists>r h secret mac. find_by dr_remote_endpoint_id p (device_relationships s) = Some r \<and>
       dr_state r = Saved \<and> dr_generation r = g \<and> dr_minimum_protocol_version r \<le> v \<and>
       dr_issued_grant_id r = Some (wp_grant_id pr) \<and> dr_issued_grant_handle r = Some h \<and>
       map_of (vs_values s) h = Some secret \<and>
       hex_decode (re_ext e) (wp_mac pr) = Some mac \<and>
       mac = relationship_mac (re_ext e) secret c (re_local_endpoint_id e) p g v)"

lemma verify_issuedD:
  assumes "verify_issued_possession e p c pr g v s = (Inr u, t)"
  shows "\<not> is_tombstoned p g s"
    and "\<exists>r h secret mac. find_by dr_remote_endpoint_id p (device_relationships s) = Some r \<and>
       dr_issued_grant_id r = Some (wp_grant_id pr) \<and> dr_issued_grant_handle r = Some h \<and>
       map_of (vs_values s) h = Some secret \<and> hex_decode (re_ext e) (wp_mac pr) = Some mac \<and>
       mac = relationship_mac (re_ext e) secret c (re_local_endpoint_id e) p g v"
  using assms unfolding verify_issued_possession_def require_custody_def
  by (auto simp: secret_from_material_def verify_relationship_grant_def
      dest!: bind_InrD next_InrD lift_InrD reject_replayedD rel_find_rowD load_InrD
      split: sum.splits option.splits if_splits)

lemma verify_savedD:
  assumes "verify_saved_possession e p c pr g v s = (Inr u, t)"
  shows "possession_shown e p c pr g v s"
proof -
  from assms obtain r where row: "find_by dr_remote_endpoint_id p (device_relationships s) = Some r"
    and r: "dr_state r = Saved" "dr_generation r = g" "dr_minimum_protocol_version r \<le> v"
    and issued: "verify_issued_possession e p c pr g v (tick_db s) = (Inr u, t)"
    unfolding verify_saved_possession_def
    by (auto dest!: bind_InrD find_savedD split: if_splits)
  from verify_issuedD [OF issued] row r show ?thesis
    by (auto simp: possession_shown_def is_tombstoned_def)
qed

section \<open>Generations\<close>

lemma fold_max_ge:
  "(x :: int) \<le> fold max ys x" "y \<in> set ys \<Longrightarrow> y \<le> fold max ys x"
proof -
  show ge: "x \<le> fold max ys x" for x :: int and ys
    by (induction ys arbitrary: x) (auto, metis max.bounded_iff)
  show "y \<in> set ys \<Longrightarrow> y \<le> fold max ys x"
  proof (induction ys arbitrary: x)
    case (Cons z ys)
    then show ?case using ge [of "max z x" ys] by auto
  qed simp
qed

lemma fold_max_in: "fold max ys (x :: int) \<in> insert x (set ys)"
proof (induction ys arbitrary: x)
  case (Cons y ys)
  have "max y x \<in> {y, x}" by (simp add: max_def)
  with Cons.IH [of "max y x"] show ?case by auto
qed simp

lemma sint_small: "unat (w :: u64) < 2 ^ 63 \<Longrightarrow> sint w = int (unat w)"
proof -
  assume small: "unat w < 2 ^ 63"
  from small have "int (unat w) < int (2 ^ 63)" by (rule iffD2 [OF of_nat_less_iff])
  then have "uint w < 2 ^ 63" by simp
  then have "signed_take_bit 63 (uint w) = uint w"
    by (intro signed_take_bit_int_eq_self) (auto intro: order_trans [of _ 0])
  then show ?thesis by (simp add: sint_uint)
qed

lemma generation_floorD:
  assumes "generation_floor p s = (Inr f, t)"
  shows "\<forall>h \<in> set (peer_generations p s). sint h \<le> sint f" and "t = tick_db s"
proof -
  note d = select_InrD [OF assms [unfolded generation_floor_def]]
  then show "t = tick_db s" by blast
  have gens: "peer_generations p t = peer_generations p s" using d by (simp add: peer_generations_def)
  show "\<forall>h \<in> set (peer_generations p s). sint h \<le> sint f"
  proof (cases "peer_generations p s")
    case Nil
    then show ?thesis by simp
  next
    case (Cons g gs)
    let ?m = "fold max (map sint gs) (sint g)"
    have "?m \<in> insert (sint g) (set (map sint gs))" by (rule fold_max_in)
    then obtain w :: u64 where w: "?m = sint w" by auto
    have "f = word_of_int ?m" using d gens Cons by simp
    then have "sint f = ?m" using w by simp
    moreover have "sint h \<le> ?m" if "h \<in> set (g # gs)" for h
      using that fold_max_ge(1) [of "sint g" "map sint gs"]
        fold_max_ge(2) [of "sint h" "map sint gs" "sint g"] by auto
    ultimately show ?thesis using Cons by simp
  qed
qed

lemma next_generation_above:
  assumes "next_generation p s = (Inr g, t)"
  shows "\<forall>h \<in> set (peer_generations p s). sint h < sint g" and "fits_i64 g" and "g \<noteq> 0"
proof -
  from assms obtain f s1 where f: "generation_floor p s = (Inr f, s1)"
    and small: "unat f + 1 < 2 ^ 63" and g: "g = f + 1"
    unfolding next_generation_def by (auto dest!: bind_InrD split: if_splits)
  have ug: "unat g = unat f + 1"
    using small g by (simp add: unat_word_ariths)
  then show "fits_i64 g" "g \<noteq> 0" using small by (auto simp: fits_i64_def)
  have "sint g = int (unat g)" "sint f = int (unat f)" using small ug by (simp_all add: sint_small)
  then have "sint f < sint g" using ug by simp
  with generation_floorD(1) [OF f] show "\<forall>h \<in> set (peer_generations p s). sint h < sint g"
    by fastforce
qed

lemma tombstoned_generation: "is_tombstoned p g s \<Longrightarrow> g \<in> set (peer_generations p s)"
  by (auto simp: is_tombstoned_def tombstone_of_def peer_generations_def)

text \<open>What a rotation does once the old generation is tombstoned.\<close>

definition rotate_rest ::
    "rel_env \<Rightarrow> int \<Rightarrow> string \<Rightarrow> string \<Rightarrow> string \<Rightarrow> string \<Rightarrow> relationship \<Rightarrow> ('z relations_scheme, u64) proc" where
  "rotate_rest e now secret grant_id uuid peer row =
     next_do (clear_grant_secrets e now row)
           (let g = saturating_succ (dr_generation row) in
            next_do (begin_grant_rotation now peer g)
            (next_do (mint_and_store_issued_grant e now secret grant_id uuid peer g
                        (dr_minimum_protocol_version row))
             (next_do (emit ''pairing'' ''relationship-grant-rotated'') (ok g))))"

lemma revoked_rotate_rest: "stable revoked_kept (rotate_rest e n sc gi u p r)"
  unfolding rotate_rest_def Let_def by (intro revoked_rules revoked_clear_secrets revoked_mint)

lemma rotate_restD: "rotate_rest e n sc gi u p r s = (Inr g, t) \<Longrightarrow> g = saturating_succ (dr_generation r)"
  unfolding rotate_rest_def Let_def by (auto dest!: next_InrD)

lemma rotate_tombstones:
  assumes "rotate_relationship_grant e n sc gi u p s = (Inr g, t)"
  obtains r where "find_by dr_remote_endpoint_id p (device_relationships s) = Some r"
    and "is_tombstoned p (dr_generation r) t" and "g = saturating_succ (dr_generation r)"
proof -
  from assms obtain found s1 where row: "rel_find_row p s = (Inr found, s1)"
    and rest: "(case found of
       None \<Rightarrow> err (InvalidInput ''no relationship to rotate'')
     | Some row \<Rightarrow>
         if dr_state row \<noteq> Saved
         then err (InvalidInput ''only saved relationships can rotate grants'')
         else next_do (insert_tombstone n p row) (rotate_rest e n sc gi u p row)) s1 = (Inr g, t)"
    unfolding rotate_relationship_grant_def rotate_rest_def [symmetric] by (auto dest!: bind_InrD)
  from rest obtain r where r: "found = Some r"
    and "next_do (insert_tombstone n p r) (rotate_rest e n sc gi u p r) s1 = (Inr g, t)"
    by (auto split: option.splits if_splits)
  then obtain x s2 where tomb: "insert_tombstone n p r s1 = (Inr x, s2)"
    and last: "rotate_rest e n sc gi u p r s2 = (Inr g, t)" by (blast dest: next_InrD)
  from stableD [OF revoked_rotate_rest last] insert_tombstoneD [OF tomb]
  have "is_tombstoned p (dr_generation r) t" by (simp add: revoked_kept_def)
  with rotate_restD [OF last] rel_find_rowD [OF row] r that show ?thesis by blast
qed

section \<open>Proofs that pass\<close>

lemma verify_saved_complete:
  assumes x: "ext_ok (re_ext e)" and "re_custody e" and "db_faults s = []"
    and row: "find_by dr_remote_endpoint_id p (device_relationships s) = Some r" "dr_state r = Saved"
      "dr_generation r = g" "dr_minimum_protocol_version r \<le> v"
    and tomb: "\<not> is_tombstoned p g s"
    and issued: "dr_issued_grant_id r = Some (hex_encode (re_ext e) gid)" "dr_issued_grant_handle r = Some h"
      "load (re_public_key e) h s = (Inr secret, s)"
    and len: "length gid = 16" "length secret = 32"
    and made: "wp_grant_id pr = hex_encode (re_ext e) gid"
      "wp_mac pr = hex_encode (re_ext e) (relationship_mac (re_ext e) secret c (re_local_endpoint_id e) p g v)"
  shows "verify_saved_possession e p c pr g v s = (Inr (), s)"
proof -
  have none: "List.find (tombstone_of p g) (generation_tombstones s) = None"
    using tomb by (auto simp: is_tombstoned_def find_None_iff)
  have fresh: "\<not> v < dr_minimum_protocol_version r" using row(4) by simp
  have mac: "length (relationship_mac (re_ext e) secret c (re_local_endpoint_id e) p g v) = 32"
    using x by (simp add: relationship_mac_def ext_ok_def)
  show ?thesis
    using assms(1-3) row(1-3) none fresh issued len mac made
    by (simp add: verify_saved_possession_def find_saved_def rel_find_row_def select_def transact_no_fault
        verify_issued_possession_def reject_replayed_generation_def find_tombstone_def
        require_custody_def secret_from_material_def grant_id_decode_def decode_fixed_def
        verify_relationship_grant_def proc_defs)
qed

end
