(* ===== verification/Pairing_Eligibility.thy ===== *)
theory Pairing_Eligibility
  imports Relationship_Facts
begin

text \<open>
  What makes two devices eligible to pair: the durable rows and the capability of
  \<^verbatim>\<open>pairing_eligibility/mod.rs\<close> and \<^verbatim>\<open>pairing_eligibility/store.rs\<close>, and the deny list of
  \<^verbatim>\<open>blocked_devices.rs\<close>. One definition per method. The key derivation of \<open>blake3\<close> is the
  parameter \<open>pc_derive_key\<close> (context, input); \<open>now\<close>, \<open>now'\<close> are readings of the clock in the
  order the code takes them; a UUID is an argument of the operation that draws it. Every
  table lives in the same database, so every call may fail.
\<close>

record pair_env =
  pc_rel :: rel_env
  pc_derive_key :: "string \<Rightarrow> string \<Rightarrow> string"

record eligibility =
  el_session_id :: string
  el_peer_endpoint_id :: string
  el_remote_display_name :: "string option"
  el_protocol_version :: u16
  el_secret_handle :: string
  el_created_at :: int
  el_expires_at :: int

record eligibility_summary =
  es_peer_endpoint_id :: string
  es_remote_display_name :: "string option"
  es_session_id :: string
  es_protocol_version :: u16
  es_created_at :: int
  es_expires_at :: int

record taken_eligibility =
  te_session_id :: string
  te_protocol_version :: u16
  te_remote_display_name :: "string option"
  te_authenticated_at :: int
  te_capability :: string

record pairing = relations +
  pairing_eligibilities :: "eligibility list"
  blocked_endpoints :: "(string \<times> int) list"

section \<open>blocked_devices.rs\<close>

text \<open>\<open>INSERT .. ON CONFLICT(endpoint_id) DO NOTHING\<close>.\<close>

definition block_endpoint :: "string \<Rightarrow> int \<Rightarrow> ('z pairing_scheme, unit) proc" where
  "block_endpoint ep now = exec (\<lambda>s.
     if exists_where (\<lambda>b. fst b = ep) (blocked_endpoints s) then s
     else s\<lparr>blocked_endpoints := blocked_endpoints s @ [(ep, now)]\<rparr>)"

definition unblock_endpoint :: "string \<Rightarrow> ('z pairing_scheme, unit) proc" where
  "unblock_endpoint ep = exec (\<lambda>s.
     s\<lparr>blocked_endpoints := delete_where (\<lambda>b. fst b = ep) (blocked_endpoints s)\<rparr>)"

definition block_store_is_blocked :: "string \<Rightarrow> ('z pairing_scheme, bool) proc" where
  "block_store_is_blocked ep = select (\<lambda>s. exists_where (\<lambda>b. fst b = ep) (blocked_endpoints s))"

definition list_blocked :: "('z pairing_scheme, string list) proc" where
  "list_blocked = select (\<lambda>s. map fst (sort_key (\<lambda>b. - snd b) (blocked_endpoints s)))"

text \<open>\<open>DeviceRelationshipService::is_blocked\<close>: an unreadable deny list blocks.\<close>

definition is_blocked :: "string \<Rightarrow> ('z pairing_scheme, bool) proc" where
  "is_blocked ep = attempt (block_store_is_blocked ep) (\<lambda>r. case r of
      Inl _ \<Rightarrow> ok True | Inr b \<Rightarrow> ok b)"

section \<open>store.rs\<close>

abbreviation on_eligibilities :: "(eligibility list \<Rightarrow> eligibility list) \<Rightarrow> 'z pairing_scheme \<Rightarrow> 'z pairing_scheme" where
  "on_eligibilities f s \<equiv> s\<lparr>pairing_eligibilities := f (pairing_eligibilities s)\<rparr>"

text \<open>\<open>session_id\<close> is the primary key and \<open>secret_handle\<close> is unique.\<close>

definition el_insert :: "eligibility \<Rightarrow> ('z pairing_scheme, unit) proc" where
  "el_insert entry = transact (\<lambda>s.
     if exists_where (\<lambda>q. el_session_id q = el_session_id entry
          \<or> el_secret_handle q = el_secret_handle entry) (pairing_eligibilities s)
     then (Inl unique_violation, s)
     else (Inr (), on_eligibilities (\<lambda>rows. rows @ [entry]) s))"

definition summary_of_eligibility :: "eligibility \<Rightarrow> eligibility_summary" where
  "summary_of_eligibility q = \<lparr>es_peer_endpoint_id = el_peer_endpoint_id q,
     es_remote_display_name = el_remote_display_name q, es_session_id = el_session_id q,
     es_protocol_version = el_protocol_version q, es_created_at = el_created_at q,
     es_expires_at = el_expires_at q\<rparr>"

definition list_summaries :: "('z pairing_scheme, eligibility_summary list) proc" where
  "list_summaries = select (\<lambda>s. map summary_of_eligibility
     (sort_key (\<lambda>q. - el_created_at q) (pairing_eligibilities s)))"

definition list_records :: "('z pairing_scheme, eligibility list) proc" where
  "list_records = select pairing_eligibilities"

definition list_for_peer :: "string \<Rightarrow> ('z pairing_scheme, eligibility list) proc" where
  "list_for_peer peer = select (\<lambda>s. filter (\<lambda>q. el_peer_endpoint_id q = peer) (pairing_eligibilities s))"

definition list_expired :: "int \<Rightarrow> ('z pairing_scheme, eligibility list) proc" where
  "list_expired now = select (\<lambda>s. filter (\<lambda>q. el_expires_at q \<le> now) (pairing_eligibilities s))"

definition find_by_session :: "string \<Rightarrow> ('z pairing_scheme, eligibility option) proc" where
  "find_by_session session = select (\<lambda>s. find_by el_session_id session (pairing_eligibilities s))"

definition el_delete :: "string \<Rightarrow> ('z pairing_scheme, unit) proc" where
  "el_delete session = exec (on_eligibilities (delete_where (\<lambda>q. el_session_id q = session)))"

section \<open>mod.rs\<close>

definition ELIGIBILITY_TTL_MS :: int where
  "ELIGIBILITY_TTL_MS = 24 * 60 * 60 * 1000"

definition CAPABILITY_CONTEXT :: string where
  "CAPABILITY_CONTEXT = ''vnidrop-pairing-eligibility-v1''"

text \<open>\<open>saved_device_capabilities().relationship_protocol_version\<close>.\<close>

definition RELATIONSHIP_PROTOCOL_VERSION :: u16 where
  "RELATIONSHIP_PROTOCOL_VERSION = 2"

definition capability_message :: "string \<Rightarrow> string \<Rightarrow> string \<Rightarrow> string \<Rightarrow> u16 \<Rightarrow> string" where
  "capability_message token local peer session v =
     (let endpoints = sort [local, peer]; nul = [CHR 0x00] in
      token @ nul @ endpoints ! 0 @ nul @ endpoints ! 1 @ nul @ session @ nul @ le16 v)"

definition derive_capability ::
    "pair_env \<Rightarrow> string \<Rightarrow> string \<Rightarrow> string \<Rightarrow> string \<Rightarrow> u16 \<Rightarrow> vnidrop_error + string" where
  "derive_capability e token local peer session v =
     new_material (pc_derive_key e CAPABILITY_CONTEXT (capability_message token local peer session v))"

text \<open>\<open>str::trim\<close> on the bytes of a well-formed UTF-8 string: the encodings of the characters
  with the property \<open>White_Space\<close>.\<close>

definition white_space :: "string list" where
  "white_space = map (\<lambda>b. [char_of b]) [0x09, 0x0a, 0x0b, 0x0c, 0x0d, 0x20 :: nat] @
     map (map char_of) ([[0xc2, 0x85], [0xc2, 0xa0], [0xe1, 0x9a, 0x80], [0xe2, 0x80, 0xa8],
       [0xe2, 0x80, 0xa9], [0xe2, 0x80, 0xaf], [0xe2, 0x81, 0x9f], [0xe3, 0x80, 0x80]] @
       map (\<lambda>b. [0xe2, 0x80, b]) [0x80 ..< 0x8b :: nat])"

function strip_front :: "string list \<Rightarrow> string \<Rightarrow> string" where
  "strip_front ws s = (case List.find (\<lambda>w. w \<noteq> [] \<and> take (length w) s = w) ws of
      None \<Rightarrow> s | Some w \<Rightarrow> strip_front ws (drop (length w) s))"
  by pat_completeness auto
termination
proof (relation "measure (\<lambda>(ws, s). length s)")
  fix ws w and s :: string
  assume "List.find (\<lambda>w. w \<noteq> [] \<and> take (length w) s = w) ws = Some w"
  then have w: "w \<noteq> []" "take (length w) s = w" by (auto simp: find_Some_iff)
  then have "length w \<noteq> 0" "length s \<noteq> 0" by auto
  then show "((ws, drop (length w) s), ws, s) \<in> measure (\<lambda>(ws, s). length s)" by simp
qed simp

declare strip_front.simps [simp del]

definition trim :: "string \<Rightarrow> string" where
  "trim s = rev (strip_front (map rev white_space) (rev (strip_front white_space s)))"

definition display_name :: "string option \<Rightarrow> string option" where
  "display_name name = (case map_option trim name of
      Some n \<Rightarrow> if n = '''' then None else Some n | None \<Rightarrow> None)"

definition delete_entry_silent :: "pair_env \<Rightarrow> int \<Rightarrow> eligibility \<Rightarrow> ('z pairing_scheme, unit) proc" where
  "delete_entry_silent e now q = next_do
     (if re_custody (pc_rel e) then remove_quietly now (el_secret_handle q) else ok ())
     (el_delete (el_session_id q))"

definition delete_entry :: "pair_env \<Rightarrow> int \<Rightarrow> eligibility \<Rightarrow> ('z pairing_scheme, unit) proc" where
  "delete_entry e now q = next_do (delete_entry_silent e now q) (emit ''pairing'' ''eligibility-removed'')"

definition expire_due :: "pair_env \<Rightarrow> int \<Rightarrow> bool \<Rightarrow> ('z pairing_scheme, unit) proc" where
  "expire_due e now emit_events = bind (list_expired now) (\<lambda>expired.
     for_each expired (\<lambda>q. if emit_events then delete_entry e now q else delete_entry_silent e now q))"

definition remove_for_peer :: "pair_env \<Rightarrow> int \<Rightarrow> string \<Rightarrow> ('z pairing_scheme, unit) proc" where
  "remove_for_peer e now peer = bind (list_for_peer peer) (\<lambda>entries. for_each entries (delete_entry e now))"

definition decline_eligibility :: "pair_env \<Rightarrow> int \<Rightarrow> string \<Rightarrow> ('z pairing_scheme, unit) proc" where
  "decline_eligibility e now peer = remove_for_peer e now peer"

definition list_eligibilities :: "pair_env \<Rightarrow> int \<Rightarrow> ('z pairing_scheme, eligibility_summary list) proc" where
  "list_eligibilities e now = next_do (expire_due e now True) list_summaries"

definition reconcile_record :: "pair_env \<Rightarrow> int \<Rightarrow> eligibility \<Rightarrow> ('z pairing_scheme, unit) proc" where
  "reconcile_record e now q =
     (if \<not> re_custody (pc_rel e) then ok ()
      else attempt (load (re_public_key (pc_rel e)) (el_secret_handle q)) (\<lambda>r. case r of
          Inl _ \<Rightarrow> delete_entry_silent e now q
        | Inr _ \<Rightarrow> ok ()))"

definition reconcile_eligibilities :: "pair_env \<Rightarrow> int \<Rightarrow> ('z pairing_scheme, unit) proc" where
  "reconcile_eligibilities e now = bind list_records (\<lambda>records.
     next_do (for_each records (reconcile_record e now))
     (next_do (if re_custody (pc_rel e)
               then bind (list_active_handles PairingEligibility) (\<lambda>handles.
                 for_each (filter (\<lambda>h. \<not> List.member (map el_secret_handle records) h) handles)
                   (remove_quietly now))
               else ok ())
      (expire_due e now True)))"

definition activate_after_completed_transfer ::
    "pair_env \<Rightarrow> int \<Rightarrow> string \<Rightarrow> string \<Rightarrow> string option \<Rightarrow> string \<Rightarrow> string \<Rightarrow> ('z pairing_scheme, unit) proc" where
  "activate_after_completed_transfer e now uuid peer remote_name session token =
     (if \<not> re_custody (pc_rel e) then ok ()
      else if peer = '''' \<or> session = '''' \<or> token = '''' then ok ()
      else let name = display_name remote_name in
        bind (refresh_authenticated_peer peer name now) (\<lambda>saved.
          if saved then remove_for_peer e now peer
          else bind (find_by_session session) (\<lambda>found.
            if found \<noteq> None then ok ()
            else bind (lift (derive_capability e token (re_local_endpoint_id (pc_rel e)) peer session
                        RELATIONSHIP_PROTOCOL_VERSION)) (\<lambda>capability.
              bind (protect (re_public_key (pc_rel e)) now uuid PairingEligibility capability None) (\<lambda>handle.
              attempt (el_insert \<lparr>el_session_id = session, el_peer_endpoint_id = peer,
                  el_remote_display_name = name, el_protocol_version = RELATIONSHIP_PROTOCOL_VERSION,
                  el_secret_handle = handle, el_created_at = now,
                  el_expires_at = now + ELIGIBILITY_TTL_MS\<rparr>) (\<lambda>inserted. case inserted of
                Inl error \<Rightarrow> next_do (remove_quietly now handle) (err error)
              | Inr _ \<Rightarrow> emit ''pairing'' ''eligibility-available''))))))"

definition take_eligibility ::
    "pair_env \<Rightarrow> int \<Rightarrow> int \<Rightarrow> string \<Rightarrow> ('z pairing_scheme, taken_eligibility option) proc" where
  "take_eligibility e now now' peer = next_do (expire_due e now True)
     (bind (list_for_peer peer) (\<lambda>entries. case entries of
        [] \<Rightarrow> ok None
      | q # _ \<Rightarrow>
          if el_expires_at q \<le> now' then next_do (delete_entry_silent e now' q) (ok None)
          else if \<not> re_custody (pc_rel e) then next_do (delete_entry_silent e now' q) (ok None)
          else attempt (load (re_public_key (pc_rel e)) (el_secret_handle q)) (\<lambda>loaded. case loaded of
              Inl _ \<Rightarrow> next_do (delete_entry_silent e now' q) (ok None)
            | Inr capability \<Rightarrow> next_do (delete_entry e now' q)
                (ok (Some \<lparr>te_session_id = el_session_id q, te_protocol_version = el_protocol_version q,
                   te_remote_display_name = el_remote_display_name q,
                   te_authenticated_at = el_created_at q, te_capability = capability\<rparr>)))))"

definition request_eligibility_pairing :: "pair_env \<Rightarrow> int \<Rightarrow> int \<Rightarrow> string \<Rightarrow> ('z pairing_scheme, bool) proc" where
  "request_eligibility_pairing e now now' peer = bind (take_eligibility e now now' peer) (\<lambda>taken. ok (taken \<noteq> None))"

definition validate_presented_capability ::
    "pair_env \<Rightarrow> int \<Rightarrow> int \<Rightarrow> string \<Rightarrow> string \<Rightarrow> string \<Rightarrow> ('z pairing_scheme, eligibility option) proc" where
  "validate_presented_capability e now now' peer session capability = next_do (expire_due e now False)
     (if \<not> re_custody (pc_rel e) then ok None
      else bind (find_by_session session) (\<lambda>found. case found of
          None \<Rightarrow> ok None
        | Some q \<Rightarrow>
            if el_peer_endpoint_id q \<noteq> peer \<or> el_expires_at q \<le> now' then ok None
            else attempt (load (re_public_key (pc_rel e)) (el_secret_handle q)) (\<lambda>loaded. case loaded of
                Inl _ \<Rightarrow> ok None
              | Inr stored \<Rightarrow> if stored = capability then ok (Some q) else ok None)))"

definition accept_presented_eligibility ::
    "pair_env \<Rightarrow> int \<Rightarrow> int \<Rightarrow> string \<Rightarrow> string \<Rightarrow> string \<Rightarrow> ('z pairing_scheme, bool) proc" where
  "accept_presented_eligibility e now now' peer session capability =
     bind (validate_presented_capability e now now' peer session capability) (\<lambda>found. case found of
        None \<Rightarrow> ok False
      | Some q \<Rightarrow> next_do (delete_entry e now' q) (ok True))"

definition consume_session :: "pair_env \<Rightarrow> int \<Rightarrow> string \<Rightarrow> string \<Rightarrow> ('z pairing_scheme, unit) proc" where
  "consume_session e now peer session = bind (find_by_session session) (\<lambda>found. case found of
      Some q \<Rightarrow> if el_peer_endpoint_id q = peer then delete_entry e now q else ok ()
    | None \<Rightarrow> ok ())"

end
