(* ===== verification/Ticket.thy ===== *)
theory Ticket
  imports Control_Plane
begin

text \<open>
  Invitation tickets and network profiles: \<^verbatim>\<open>ticket.rs\<close>, and from \<^verbatim>\<open>api.rs\<close> the core limits, the
  transfer metadata and the validation of custom relay URLs. Text is a list of code points.
  What the crates decode is a parameter: the record \<open>ticket_ext\<close> holds base64 and JSON and the
  parser of blob tickets, \<open>url_ext\<close> the URL parser and its accessors (\<^verbatim>\<open>iroh::RelayUrl\<close>). An
  \<open>EndpointAddr\<close> is its id and its sets of IP addresses and relay URLs. The messages of \<open>bail!\<close>
  are the constructors of \<open>ticket_error\<close>.

  The lemmas show that compatibility of profiles is symmetric and what it implies, that
  filtering an address never adds to it, and what an accepted ticket satisfies.
\<close>

section \<open>api.rs: limits and network profiles\<close>

record core_limits =
  cl_max_sources :: u64
  cl_max_collection_files :: u64
  cl_max_total_bytes :: u64
  cl_max_path_bytes :: u64
  cl_max_ticket_bytes :: u64
  cl_max_metadata_bytes :: u64
  cl_max_events :: u64
  cl_max_pending_approvals :: u64
  cl_max_pending_offers :: u64
  cl_max_concurrent_transfers :: u64
  cl_event_queue_capacity :: u64
  cl_max_saved_devices :: u64
  cl_identity_cooldown_ms :: u64
  cl_malformed_strike_limit :: u64
  cl_pairing_timeout_ms :: u64
  cl_offer_timeout_ms :: u64
  cl_connection_timeout_ms :: u64

definition default_core_limits :: core_limits where
  "default_core_limits = \<lparr>
     cl_max_sources = 128, cl_max_collection_files = 10000,
     cl_max_total_bytes = 256 * 1024 * 1024 * 1024, cl_max_path_bytes = 4096,
     cl_max_ticket_bytes = 256 * 1024, cl_max_metadata_bytes = 16 * 1024, cl_max_events = 500,
     cl_max_pending_approvals = 64, cl_max_pending_offers = 16, cl_max_concurrent_transfers = 8,
     cl_event_queue_capacity = 1024, cl_max_saved_devices = 256,
     cl_identity_cooldown_ms = 60000, cl_malformed_strike_limit = 5,
     cl_pairing_timeout_ms = 15000, cl_offer_timeout_ms = 120000,
     cl_connection_timeout_ms = 30000\<rparr>"

text \<open>
  \<open>validate\<close>: the first limit that is zero or too large is named; \<open>usize\<close> has 64 bits, so
  \<open>usize::try_from\<close> does not fail.
\<close>

definition positive_limits :: "core_limits \<Rightarrow> (string \<times> u64) list" where
  "positive_limits l = [
     (''max_sources'', cl_max_sources l),
     (''max_collection_files'', cl_max_collection_files l),
     (''max_total_bytes'', cl_max_total_bytes l),
     (''max_path_bytes'', cl_max_path_bytes l),
     (''max_ticket_bytes'', cl_max_ticket_bytes l),
     (''max_metadata_bytes'', cl_max_metadata_bytes l),
     (''max_events'', cl_max_events l),
     (''max_pending_approvals'', cl_max_pending_approvals l),
     (''max_pending_offers'', cl_max_pending_offers l),
     (''max_concurrent_transfers'', cl_max_concurrent_transfers l),
     (''event_queue_capacity'', cl_event_queue_capacity l),
     (''max_saved_devices'', cl_max_saved_devices l),
     (''identity_cooldown_ms'', cl_identity_cooldown_ms l),
     (''malformed_strike_limit'', cl_malformed_strike_limit l),
     (''pairing_timeout_ms'', cl_pairing_timeout_ms l),
     (''offer_timeout_ms'', cl_offer_timeout_ms l),
     (''connection_timeout_ms'', cl_connection_timeout_ms l)]"

datatype limits_error = LimitZero string | LimitNotSigned

definition I64_MAX :: u64 where
  "I64_MAX = 9223372036854775807"

definition validate :: "core_limits \<Rightarrow> limits_error + unit" where
  "validate l = (case List.find (\<lambda>(name, value). value = 0) (positive_limits l) of
      Some (name, _) \<Rightarrow> Inl (LimitZero name)
    | None \<Rightarrow>
        if cl_max_total_bytes l > I64_MAX \<or> cl_max_events l > I64_MAX then Inl LimitNotSigned
        else Inr ())"

datatype ticket_error =
    TicketTooLarge nat u64
  | NotVnidrop
  | UnsupportedVersion "8 word"
  | UnsupportedMetadataVersion "8 word"
  | MissingTransferId
  | MissingTransferName
  | MetadataTooLarge string nat u64
  | InvalidBlobTicket
  | HashMismatch
  | InvalidEncoding
  | InvalidPayload
  | InvalidRelayUrls
  | RelaysForbidden
  | NoRelays
  | TooManyRelays
  | BadRelayText
  | RelayTooLong nat
  | RelayUnparsable nat
  | RelayInsecure
  | RelayNoHost
  | RelayPortZero
  | RelayCredentials
  | RelayQuery
  | RelayPath
  | RelayDuplicate
  | NoAllowedAddress

text \<open>\<open>len() as u64\<close> of a \<open>&str\<close> is the number of its UTF-8 bytes.\<close>

definition str_len :: "ustr \<Rightarrow> nat" where
  "str_len s = length (utf8 s)"

definition validate_metadata_len :: "core_limits \<Rightarrow> string \<Rightarrow> nat \<Rightarrow> ticket_error + unit" where
  "validate_metadata_len l field n =
     (if n > unat (cl_max_metadata_bytes l)
      then Inl (MetadataTooLarge field n (cl_max_metadata_bytes l)) else Inr ())"

definition validate_metadata_text ::
    "core_limits \<Rightarrow> string \<Rightarrow> ustr option \<Rightarrow> ticket_error + unit" where
  "validate_metadata_text l field value = (case value of
      None \<Rightarrow> Inr () | Some v \<Rightarrow> validate_metadata_len l field (str_len v))"

text \<open>\<open>{}\<close> of a number, and of the one error whose text reaches a peer.\<close>

fun show_nat :: "nat \<Rightarrow> string" where
  "show_nat n = (if n < 10 then [char_of (48 + n)] else show_nat (n div 10) @ [char_of (48 + n mod 10)])"

declare show_nat.simps [simp del]

definition metadata_error_text :: "string \<Rightarrow> nat \<Rightarrow> u64 \<Rightarrow> string" where
  "metadata_error_text field n limit =
     field @ '' is '' @ show_nat n @ '' bytes, limit is '' @ show_nat (unat limit)"

datatype CoreRelayMode = Automatic | StrictCustom | CustomWithDirectFallback | LocalOnly

definition custom_mode :: "CoreRelayMode \<Rightarrow> bool" where
  "custom_mode m \<longleftrightarrow> m = StrictCustom \<or> m = CustomWithDirectFallback"

record 'u url_ext =
  ue_parse :: "ustr \<Rightarrow> 'u option"
  ue_scheme :: "'u \<Rightarrow> string"
  ue_host :: "'u \<Rightarrow> string option"
  ue_loopback_ip :: "string \<Rightarrow> bool"
  ue_port :: "'u \<Rightarrow> nat option"
  ue_username :: "'u \<Rightarrow> string"
  ue_password :: "'u \<Rightarrow> string option"
  ue_query :: "'u \<Rightarrow> string option"
  ue_fragment :: "'u \<Rightarrow> string option"
  ue_path :: "'u \<Rightarrow> string"

definition MAX_CUSTOM_RELAYS :: nat where "MAX_CUSTOM_RELAYS = 8"

definition MAX_RELAY_URL_BYTES :: nat where "MAX_RELAY_URL_BYTES = 2048"

definition is_control :: "nat \<Rightarrow> bool" where
  "is_control c \<longleftrightarrow> c < 32 \<or> (127 \<le> c \<and> c < 160)"

definition ascii_lower :: "char \<Rightarrow> char" where
  "ascii_lower c = (let n = of_char c :: nat in if 65 \<le> n \<and> n \<le> 90 then char_of (n + 32) else c)"

definition eq_ignore_ascii_case :: "string \<Rightarrow> string \<Rightarrow> bool" where
  "eq_ignore_ascii_case a b \<longleftrightarrow> map ascii_lower a = map ascii_lower b"

definition trim_brackets :: "string \<Rightarrow> string" where
  "trim_brackets h = rev (dropWhile (\<lambda>c. c = CHR '']'') (rev (dropWhile (\<lambda>c. c = CHR ''['') h)))"

definition loopback_host :: "'u url_ext \<Rightarrow> string \<Rightarrow> bool" where
  "loopback_host x host \<longleftrightarrow>
     eq_ignore_ascii_case host ''localhost'' \<or> ue_loopback_ip x (trim_brackets host)"

definition check_relay_url :: "'u url_ext \<Rightarrow> nat \<Rightarrow> 'u list \<Rightarrow> ustr \<Rightarrow> ticket_error + 'u" where
  "check_relay_url x position seen value =
     (if value = [] \<or> list_ex (\<lambda>c. is_whitespace c \<or> is_control c) value then Inl BadRelayText
      else if str_len value > MAX_RELAY_URL_BYTES then Inl (RelayTooLong (str_len value))
      else case ue_parse x value of
          None \<Rightarrow> Inl (RelayUnparsable position)
        | Some url \<Rightarrow>
            if \<not> (ue_scheme x url = ''https'' \<or>
                  (ue_scheme x url = ''http'' \<and>
                   (case ue_host x url of None \<Rightarrow> False | Some h \<Rightarrow> loopback_host x h)))
            then Inl RelayInsecure
            else if ue_host x url = None then Inl RelayNoHost
            else if ue_port x url = Some 0 then Inl RelayPortZero
            else if List.member value 64 \<or> ue_username x url \<noteq> '''' \<or> ue_password x url \<noteq> None
            then Inl RelayCredentials
            else if ue_query x url \<noteq> None \<or> ue_fragment x url \<noteq> None then Inl RelayQuery
            else if ue_path x url \<noteq> ''/'' then Inl RelayPath
            else if List.member seen url then Inl RelayDuplicate
            else Inr url)"

fun check_relay_urls :: "'u url_ext \<Rightarrow> nat \<Rightarrow> 'u list \<Rightarrow> ustr list \<Rightarrow> ticket_error + 'u list" where
  "check_relay_urls x position validated [] = Inr validated"
| "check_relay_urls x position validated (v # vs) = (case check_relay_url x position validated v of
      Inl e \<Rightarrow> Inl e
    | Inr url \<Rightarrow> check_relay_urls x (Suc position) (validated @ [url]) vs)"

definition validated_relay_urls ::
    "'u url_ext \<Rightarrow> CoreRelayMode \<Rightarrow> ustr list \<Rightarrow> ticket_error + 'u list" where
  "validated_relay_urls x mode urls =
     (if \<not> custom_mode mode then (if urls \<noteq> [] then Inl RelaysForbidden else Inr [])
      else if urls = [] then Inl NoRelays
      else if length urls > MAX_CUSTOM_RELAYS then Inl TooManyRelays
      else check_relay_urls x 1 [] urls)"

section \<open>ticket.rs\<close>

record metadata =
  md_version :: "8 word"
  md_transfer_id :: u64
  md_transfer_name :: ustr
  md_sender_name :: "ustr option"
  md_created_at :: int
  md_content_hash :: string
  md_file_count :: u64
  md_total_size :: u64

record vnidrop_ticket =
  vt_version :: "8 word"
  vt_blob_ticket :: ustr
  vt_relay_urls :: "ustr list"
  vt_metadata :: metadata

record 'u endpoint_addr =
  ea_id :: string
  ea_ips :: "string list"
  ea_relays :: "'u list"

record 'u blob_ticket =
  bt_addr :: "'u endpoint_addr"
  bt_hash :: string
  bt_format :: nat

record 'u parsed_ticket =
  pt_blob_ticket :: "'u blob_ticket"
  pt_metadata :: metadata
  pt_relay_urls :: "'u list"

record 'u ticket_ext =
  te_b64_encode :: "string \<Rightarrow> ustr"
  te_b64_decode :: "ustr \<Rightarrow> string option"
  te_json_encode :: "vnidrop_ticket \<Rightarrow> string option"
  te_json_decode :: "string \<Rightarrow> vnidrop_ticket option"
  te_blob_parse :: "ustr \<Rightarrow> 'u blob_ticket option"

definition VNIDROP_TICKET_PREFIX :: ustr where
  "VNIDROP_TICKET_PREFIX = lit ''vnd1:''"

definition VNIDROP_TICKET_VERSION :: "8 word" where
  "VNIDROP_TICKET_VERSION = 1"

definition with_relay_url :: "'u \<Rightarrow> 'u endpoint_addr \<Rightarrow> 'u endpoint_addr" where
  "with_relay_url url a = a\<lparr>ea_relays := List.insert url (ea_relays a)\<rparr>"

definition normalize_ticket_input :: "ustr \<Rightarrow> ustr" where
  "normalize_ticket_input v = filter (\<lambda>c. \<not> is_whitespace c) v"

definition starts_with :: "ustr \<Rightarrow> ustr \<Rightarrow> bool" where
  "starts_with p v \<longleftrightarrow> take (length p) v = p"

definition encode_ticket :: "'u ticket_ext \<Rightarrow> vnidrop_ticket \<Rightarrow> ticket_error + ustr" where
  "encode_ticket x t = (case te_json_encode x t of
      None \<Rightarrow> Inl InvalidPayload
    | Some bytes \<Rightarrow> Inr (VNIDROP_TICKET_PREFIX @ te_b64_encode x bytes))"

definition decode_ticket :: "'u ticket_ext \<Rightarrow> ustr \<Rightarrow> ticket_error + vnidrop_ticket" where
  "decode_ticket x v =
     (let normalized = normalize_ticket_input v in
      if \<not> starts_with VNIDROP_TICKET_PREFIX normalized then Inl NotVnidrop
      else case te_b64_decode x (drop (length VNIDROP_TICKET_PREFIX) normalized) of
          None \<Rightarrow> Inl InvalidEncoding
        | Some bytes \<Rightarrow> (case te_json_decode x bytes of None \<Rightarrow> Inl InvalidPayload | Some t \<Rightarrow> Inr t))"

text \<open>\<open>trim().is_empty()\<close>.\<close>

definition blank :: "ustr \<Rightarrow> bool" where
  "blank s \<longleftrightarrow> list_all is_whitespace s"

definition parse_transfer_ticket_with_limits ::
    "'u ticket_ext \<Rightarrow> 'u url_ext \<Rightarrow> ustr \<Rightarrow> core_limits \<Rightarrow> ticket_error + 'u parsed_ticket" where
  "parse_transfer_ticket_with_limits x ux v limits =
     (if str_len v > unat (cl_max_ticket_bytes limits)
      then Inl (TicketTooLarge (str_len v) (cl_max_ticket_bytes limits))
      else let normalized = normalize_ticket_input v in
      if \<not> starts_with VNIDROP_TICKET_PREFIX normalized then Inl NotVnidrop
      else case decode_ticket x normalized of
        Inl e \<Rightarrow> Inl e
      | Inr t \<Rightarrow> (let m = vt_metadata t in
          if vt_version t \<noteq> VNIDROP_TICKET_VERSION then Inl (UnsupportedVersion (vt_version t))
          else if md_version m \<noteq> VNIDROP_TICKET_VERSION then Inl (UnsupportedMetadataVersion (md_version m))
          else if md_transfer_id m = 0 then Inl MissingTransferId
          else if blank (md_transfer_name m) then Inl MissingTransferName
          else case validate_metadata_text limits ''transfer name'' (Some (md_transfer_name m)) of
            Inl e \<Rightarrow> Inl e
          | Inr _ \<Rightarrow> (case validate_metadata_text limits ''sender name'' (md_sender_name m) of
              Inl e \<Rightarrow> Inl e
            | Inr _ \<Rightarrow> (case te_blob_parse x (vt_blob_ticket t) of
                None \<Rightarrow> Inl InvalidBlobTicket
              | Some blob \<Rightarrow>
                  if md_content_hash m \<noteq> bt_hash blob then Inl HashMismatch
                  else case (if vt_relay_urls t = [] then Inr []
                             else validated_relay_urls ux StrictCustom (vt_relay_urls t)) of
                      Inl _ \<Rightarrow> Inl InvalidRelayUrls
                    | Inr urls \<Rightarrow> Inr \<lparr>
                        pt_blob_ticket = blob\<lparr>bt_addr := fold with_relay_url urls (bt_addr blob)\<rparr>,
                        pt_metadata = m, pt_relay_urls = urls\<rparr>))))"

definition ticket_matches_relay_profile ::
    "'u ticket_ext \<Rightarrow> 'u url_ext \<Rightarrow> ustr \<Rightarrow> core_limits \<Rightarrow> CoreRelayMode \<Rightarrow> 'u list \<Rightarrow> ticket_error + bool" where
  "ticket_matches_relay_profile x ux v limits mode custom =
     (case parse_transfer_ticket_with_limits x ux v limits of
        Inl e \<Rightarrow> Inl e
      | Inr p \<Rightarrow> Inr (case mode of
            Automatic \<Rightarrow> pt_relay_urls p = []
          | LocalOnly \<Rightarrow> pt_relay_urls p = [] \<and> ea_relays (bt_addr (pt_blob_ticket p)) = []
          | _ \<Rightarrow> set (pt_relay_urls p) = set custom))"

definition relay_profiles_compatible ::
    "CoreRelayMode \<Rightarrow> 'u list \<Rightarrow> CoreRelayMode \<Rightarrow> 'u list \<Rightarrow> bool" where
  "relay_profiles_compatible local_mode local_urls remote_mode remote_urls =
     (if \<not> custom_mode local_mode \<and> \<not> custom_mode remote_mode
      then local_urls = [] \<and> remote_urls = []
      else if custom_mode local_mode \<and> custom_mode remote_mode
      then local_urls \<noteq> [] \<and> set local_urls = set remote_urls
      else False)"

definition is_empty_addr :: "'u endpoint_addr \<Rightarrow> bool" where
  "is_empty_addr a \<longleftrightarrow> ea_ips a = [] \<and> ea_relays a = []"

definition filter_peer_addr_for_relay_mode ::
    "'u endpoint_addr \<Rightarrow> CoreRelayMode \<Rightarrow> 'u list \<Rightarrow> ticket_error + 'u endpoint_addr" where
  "filter_peer_addr_for_relay_mode a mode custom =
     (if mode = Automatic then Inr a
      else let relays = (if mode = LocalOnly then [] else filter (List.member custom) (ea_relays a));
               filtered = \<lparr>ea_id = ea_id a, ea_ips = ea_ips a, ea_relays = relays\<rparr> in
      if is_empty_addr filtered then Inl NoAllowedAddress else Inr filtered)"

section \<open>Lemmas\<close>

lemma relay_profiles_sym_aux:
  "relay_profiles_compatible m us n vs = relay_profiles_compatible n vs m us"
  by (auto simp: relay_profiles_compatible_def)

lemma relay_profiles_same_set:
  "relay_profiles_compatible m us n vs \<Longrightarrow> set us = set vs \<and> (custom_mode m \<longleftrightarrow> custom_mode n)"
  by (auto simp: relay_profiles_compatible_def split: if_splits)

lemma filter_addr_sub:
  assumes "filter_peer_addr_for_relay_mode a mode custom = Inr b"
  shows "ea_id b = ea_id a" and "set (ea_ips b) = set (ea_ips a)"
    and "set (ea_relays b) \<subseteq> set (ea_relays a)"
    and "mode = LocalOnly \<Longrightarrow> ea_relays b = []"
    and "custom_mode mode \<Longrightarrow> set (ea_relays b) \<subseteq> set custom"
    and "mode \<noteq> Automatic \<Longrightarrow> \<not> is_empty_addr b"
  using assms
  by (auto simp: filter_peer_addr_for_relay_mode_def Let_def custom_mode_def split: if_splits)

lemma check_relay_urls_sound:
  assumes "check_relay_urls x n seen vs = Inr us" and "distinct seen"
  shows "distinct us \<and> length us = length seen + length vs \<and> set seen \<subseteq> set us \<and>
    (\<forall>u \<in> set us - set seen. (ue_scheme x u = ''https'' \<or> ue_scheme x u = ''http'' \<and>
        (\<exists>h. ue_host x u = Some h \<and> loopback_host x h)) \<and>
       ue_host x u \<noteq> None \<and> ue_username x u = '''' \<and> ue_password x u = None \<and>
       ue_query x u = None \<and> ue_fragment x u = None \<and> ue_path x u = ''/'')"
  using assms
proof (induction vs arbitrary: n seen)
  case Nil
  then show ?case by simp
next
  case (Cons v vs)
  then obtain u where u: "check_relay_url x n seen v = Inr u"
    and rest: "check_relay_urls x (Suc n) (seen @ [u]) vs = Inr us"
    by (auto split: sum.splits)
  have new: "u \<notin> set seen" and good: "(ue_scheme x u = ''https'' \<or> ue_scheme x u = ''http'' \<and>
        (\<exists>h. ue_host x u = Some h \<and> loopback_host x h)) \<and>
       ue_host x u \<noteq> None \<and> ue_username x u = '''' \<and> ue_password x u = None \<and>
       ue_query x u = None \<and> ue_fragment x u = None \<and> ue_path x u = ''/''"
    using u by (auto simp: check_relay_url_def split: if_splits option.splits)
  have "distinct (seen @ [u])" using new Cons.prems(2) by simp
  from Cons.IH [OF rest this] good show ?case by auto
qed

lemma normalize_idem [simp]: "normalize_ticket_input (normalize_ticket_input v) = normalize_ticket_input v"
  by (simp add: normalize_ticket_input_def)

lemma decode_normalize [simp]: "decode_ticket x (normalize_ticket_input v) = decode_ticket x v"
  by (simp add: decode_ticket_def)

lemma set_fold_with_relay: "set (ea_relays (fold with_relay_url us a)) = set us \<union> set (ea_relays a)"
  by (induction us arbitrary: a) (auto simp: with_relay_url_def)

lemma parse_ticketD:
  assumes "parse_transfer_ticket_with_limits x ux v limits = Inr p"
  obtains t blob where "decode_ticket x v = Inr t" "vt_version t = 1" "pt_metadata p = vt_metadata t"
    "md_version (pt_metadata p) = 1" "md_transfer_id (pt_metadata p) \<noteq> 0"
    "\<not> blank (md_transfer_name (pt_metadata p))"
    "str_len (md_transfer_name (pt_metadata p)) \<le> unat (cl_max_metadata_bytes limits)"
    "te_blob_parse x (vt_blob_ticket t) = Some blob" "md_content_hash (pt_metadata p) = bt_hash blob"
    "pt_blob_ticket p = blob\<lparr>bt_addr := fold with_relay_url (pt_relay_urls p) (bt_addr blob)\<rparr>"
    "pt_relay_urls p = [] \<or> validated_relay_urls ux StrictCustom (vt_relay_urls t) = Inr (pt_relay_urls p)"
    "str_len v \<le> unat (cl_max_ticket_bytes limits)"
  using assms
  by (auto simp: parse_transfer_ticket_with_limits_def Let_def validate_metadata_text_def validate_metadata_len_def
      VNIDROP_TICKET_VERSION_def split: if_splits sum.splits option.splits)

section \<open>Properties\<close>

text \<open>
  compatibility of two network profiles is symmetric, and compatible
  profiles either both use the default relays or both name the same nonempty set of custom
  relays.
\<close>

theorem relay_profiles_agree:
  "relay_profiles_compatible m us n vs = relay_profiles_compatible n vs m us \<and>
   (relay_profiles_compatible m us n vs \<longleftrightarrow>
      set us = set vs \<and> (custom_mode m \<longleftrightarrow> custom_mode n) \<and> (custom_mode m \<longleftrightarrow> us \<noteq> []))"
  by (auto simp: relay_profiles_compatible_def)

text \<open>
  filtering the addresses of a peer for a network profile
  keeps the peer's identity and its direct addresses and never adds a relay; without relays in
  local mode, with none but the chosen ones in a custom mode, and never with nothing to dial.
\<close>

theorem peer_addresses_are_only_removed:
  assumes "filter_peer_addr_for_relay_mode a mode custom = r"
  shows "(\<forall>b. r = Inr b \<longrightarrow> ea_id b = ea_id a \<and> ea_ips b = ea_ips a \<and>
      set (ea_relays b) = (if mode = Automatic then set (ea_relays a)
        else if mode = LocalOnly then {} else set (ea_relays a) \<inter> set custom)) \<and>
    (r = Inl NoAllowedAddress \<longleftrightarrow> mode \<noteq> Automatic \<and> ea_ips a = [] \<and>
      (mode = LocalOnly \<or> set (ea_relays a) \<inter> set custom = {}))"
  using assms
  by (cases mode) (auto simp: filter_peer_addr_for_relay_mode_def Let_def is_empty_addr_def filter_empty_conv
      split: if_splits)

theorem peer_addresses_are_only_removed_witness:
  "\<exists>b. filter_peer_addr_for_relay_mode \<lparr>ea_id = ''peer'', ea_ips = [''10.0.0.2''], ea_relays = [1 :: nat, 2]\<rparr>
      StrictCustom [2, 3] = Inr b \<and> set (ea_relays b) = {2}"
proof -
  let ?r = "filter_peer_addr_for_relay_mode \<lparr>ea_id = ''peer'', ea_ips = [''10.0.0.2''], ea_relays = [1 :: nat, 2]\<rparr>
      StrictCustom [2, 3]"
  obtain b where b: "?r = Inr b" by (simp add: filter_peer_addr_for_relay_mode_def is_empty_addr_def)
  with peer_addresses_are_only_removed [OF refl, of "\<lparr>ea_id = ''peer'', ea_ips = [''10.0.0.2''], ea_relays = [1 :: nat, 2]\<rparr>"
      StrictCustom "[2, 3]"] show ?thesis by auto
qed

text \<open>
  the custom relays a profile accepts are as many as were given, at
  most eight, pairwise different, and each is reached by https, or by http on the local host
  only, names a host, and carries no user, password, query, fragment or path. Relays are
  accepted in the custom modes only.
\<close>

theorem accepted_relays_are_safe:
  assumes "validated_relay_urls x mode urls = Inr us"
  shows "distinct us \<and> length us = length urls \<and> length us \<le> 8 \<and> (us \<noteq> [] \<longleftrightarrow> custom_mode mode) \<and>
    (\<forall>u \<in> set us. (ue_scheme x u = ''https'' \<or> ue_scheme x u = ''http'' \<and>
        (\<exists>h. ue_host x u = Some h \<and> loopback_host x h)) \<and>
       ue_host x u \<noteq> None \<and> ue_username x u = '''' \<and> ue_password x u = None \<and>
       ue_query x u = None \<and> ue_fragment x u = None \<and> ue_path x u = ''/'')"
proof (cases "custom_mode mode")
  case True
  with assms have ne: "urls \<noteq> []" and max: "length urls \<le> 8" and ok: "check_relay_urls x 1 [] urls = Inr us"
    by (auto simp: validated_relay_urls_def MAX_CUSTOM_RELAYS_def split: if_splits)
  from check_relay_urls_sound [OF ok] have sound: "distinct us" "length us = length urls"
    "\<forall>u \<in> set us. (ue_scheme x u = ''https'' \<or> ue_scheme x u = ''http'' \<and>
        (\<exists>h. ue_host x u = Some h \<and> loopback_host x h)) \<and>
       ue_host x u \<noteq> None \<and> ue_username x u = '''' \<and> ue_password x u = None \<and>
       ue_query x u = None \<and> ue_fragment x u = None \<and> ue_path x u = ''/''" by simp_all
  have "us \<noteq> []" using sound(2) ne by auto
  with sound max True show ?thesis by simp
next
  case False
  with assms show ?thesis by (auto simp: validated_relay_urls_def split: if_splits)
qed

definition ref_url_ext :: "ustr url_ext" where
  "ref_url_ext = \<lparr>ue_parse = Some, ue_scheme = (\<lambda>_. ''https''), ue_host = (\<lambda>_. Some ''relay''),
     ue_loopback_ip = (\<lambda>_. False), ue_port = (\<lambda>_. None), ue_username = (\<lambda>_. ''''),
     ue_password = (\<lambda>_. None), ue_query = (\<lambda>_. None), ue_fragment = (\<lambda>_. None), ue_path = (\<lambda>_. ''/'')\<rparr>"

theorem accepted_relays_are_safe_witness:
  "validated_relay_urls ref_url_ext StrictCustom [[104]] = Inr [[104]] \<and> distinct [[104 :: nat]]"
proof -
  have "validated_relay_urls ref_url_ext StrictCustom [[104]] = Inr [[104]]"
    by (simp add: validated_relay_urls_def custom_mode_def MAX_CUSTOM_RELAYS_def check_relay_url_def
        ref_url_ext_def is_whitespace_def is_control_def str_len_def utf8_def utf8_char_def MAX_RELAY_URL_BYTES_def)
  with accepted_relays_are_safe [OF this] show ?thesis by blast
qed

text \<open>A concrete codec: a base64 that shifts the characters and a JSON of one ticket.\<close>

definition ref_ticket :: vnidrop_ticket where
  "ref_ticket = \<lparr>vt_version = 1, vt_blob_ticket = [98], vt_relay_urls = [],
     vt_metadata = \<lparr>md_version = 1, md_transfer_id = 7, md_transfer_name = [114], md_sender_name = None,
       md_created_at = 0, md_content_hash = ''hash'', md_file_count = 1, md_total_size = 5\<rparr>\<rparr>"

definition ref_ticket_ext :: "ustr ticket_ext" where
  "ref_ticket_ext = \<lparr>te_b64_encode = map (\<lambda>c. 10000 + of_char c),
     te_b64_decode = (\<lambda>u. Some (map (\<lambda>n. char_of (n - 10000)) u)),
     te_json_encode = (\<lambda>t. if t = ref_ticket then Some ''t'' else None),
     te_json_decode = (\<lambda>v. if v = ''t'' then Some ref_ticket else None),
     te_blob_parse = (\<lambda>v. if v = [98] then Some \<lparr>bt_addr = \<lparr>ea_id = ''alice'', ea_ips = [], ea_relays = []\<rparr>,
       bt_hash = ''hash'', bt_format = 0\<rparr> else None)\<rparr>"

text \<open>
  a ticket is accepted only when the text and its names are
  within the configured limits, it has the supported versions, a transfer id and a name, its
  hash is that of the blob ticket, and the relays it names passed the checks; the address it
  gives is the blob ticket's with those relays added and nothing else.
\<close>

theorem accepted_tickets_are_bounded:
  assumes "parse_transfer_ticket_with_limits x ux v limits = Inr p"
  shows "str_len v \<le> unat (cl_max_ticket_bytes limits) \<and>
    md_version (pt_metadata p) = 1 \<and> md_transfer_id (pt_metadata p) \<noteq> 0 \<and>
    \<not> blank (md_transfer_name (pt_metadata p)) \<and>
    str_len (md_transfer_name (pt_metadata p)) \<le> unat (cl_max_metadata_bytes limits) \<and>
    md_content_hash (pt_metadata p) = bt_hash (pt_blob_ticket p) \<and>
    distinct (pt_relay_urls p) \<and> length (pt_relay_urls p) \<le> 8 \<and>
    (\<exists>t blob. decode_ticket x v = Inr t \<and> vt_version t = 1 \<and> vt_metadata t = pt_metadata p \<and>
       te_blob_parse x (vt_blob_ticket t) = Some blob \<and> ea_id (bt_addr (pt_blob_ticket p)) = ea_id (bt_addr blob) \<and>
       set (ea_relays (bt_addr (pt_blob_ticket p))) = set (ea_relays (bt_addr blob)) \<union> set (pt_relay_urls p))"
proof -
  have id: "ea_id (fold with_relay_url us a) = ea_id a" for us a
    by (induction us arbitrary: a) (simp_all add: with_relay_url_def)
  from assms obtain t blob where t: "decode_ticket x v = Inr t" "vt_version t = 1" "pt_metadata p = vt_metadata t"
    "md_version (pt_metadata p) = 1" "md_transfer_id (pt_metadata p) \<noteq> 0"
    "\<not> blank (md_transfer_name (pt_metadata p))"
    "str_len (md_transfer_name (pt_metadata p)) \<le> unat (cl_max_metadata_bytes limits)"
    "te_blob_parse x (vt_blob_ticket t) = Some blob" "md_content_hash (pt_metadata p) = bt_hash blob"
    "pt_blob_ticket p = blob\<lparr>bt_addr := fold with_relay_url (pt_relay_urls p) (bt_addr blob)\<rparr>"
    "pt_relay_urls p = [] \<or> validated_relay_urls ux StrictCustom (vt_relay_urls t) = Inr (pt_relay_urls p)"
    "str_len v \<le> unat (cl_max_ticket_bytes limits)" by (rule parse_ticketD)
  have "distinct (pt_relay_urls p) \<and> length (pt_relay_urls p) \<le> 8"
    using t(11)
  proof
    assume ok: "validated_relay_urls ux StrictCustom (vt_relay_urls t) = Inr (pt_relay_urls p)"
    then have "check_relay_urls ux 1 [] (vt_relay_urls t) = Inr (pt_relay_urls p)" "length (vt_relay_urls t) \<le> 8"
      by (auto simp: validated_relay_urls_def custom_mode_def MAX_CUSTOM_RELAYS_def split: if_splits)
    with check_relay_urls_sound [OF this(1)] show ?thesis by simp
  qed simp
  moreover have "set (ea_relays (bt_addr (pt_blob_ticket p))) = set (ea_relays (bt_addr blob)) \<union> set (pt_relay_urls p)"
    unfolding t(10) by (auto simp: set_fold_with_relay)
  moreover have "ea_id (bt_addr (pt_blob_ticket p)) = ea_id (bt_addr blob)"
    unfolding t(10) by (simp add: id)
  moreover have "bt_hash (pt_blob_ticket p) = bt_hash blob" unfolding t(10) by simp
  ultimately show ?thesis using t by (intro conjI exI [of _ t] exI [of _ blob]) simp_all
qed

lemma char_of_t: "char_of (116 :: nat) = CHR ''t''"
proof -
  have "char_of (of_char (CHR ''t'') :: nat) = CHR ''t''" by (rule char_of_char)
  then show ?thesis by simp
qed

theorem accepted_tickets_are_bounded_witness:
  "\<exists>p. parse_transfer_ticket_with_limits ref_ticket_ext ref_url_ext (lit ''vnd1:'' @ [10116]) default_core_limits = Inr p \<and>
     md_transfer_id (pt_metadata p) \<noteq> 0 \<and> distinct (pt_relay_urls p)"
proof -
  let ?r = "parse_transfer_ticket_with_limits ref_ticket_ext ref_url_ext (lit ''vnd1:'' @ [10116]) default_core_limits"
  have plain: "normalize_ticket_input (lit ''vnd1:'' @ [10116]) = lit ''vnd1:'' @ [10116]"
    by (simp add: normalize_ticket_input_def lit_def is_whitespace_def)
  have decoded: "decode_ticket ref_ticket_ext (lit ''vnd1:'' @ [10116]) = Inr ref_ticket"
    unfolding decode_ticket_def plain Let_def
    by (simp add: starts_with_def VNIDROP_TICKET_PREFIX_def ref_ticket_ext_def char_of_t)
  have small: "str_len (lit ''vnd1:'' @ [10116]) = 8" "str_len [114] = 1"
    by (simp_all add: str_len_def utf8_def utf8_char_def lit_def)
  obtain p where p: "?r = Inr p"
    unfolding parse_transfer_ticket_with_limits_def plain Let_def decoded small
    by (simp add: starts_with_def VNIDROP_TICKET_PREFIX_def default_core_limits_def
        validate_metadata_text_def validate_metadata_len_def VNIDROP_TICKET_VERSION_def blank_def is_whitespace_def
        ref_ticket_def ref_ticket_ext_def small)
  with accepted_tickets_are_bounded [OF p] show ?thesis by blast
qed

text \<open>
  C36: a ticket that is encoded decodes to itself, also when whitespace was
  inserted anywhere into the text (as mail programs do); base64 output holds no whitespace.
\<close>

theorem ticket_roundtrip:
  assumes "\<And>bytes. te_b64_decode x (te_b64_encode x bytes) = Some bytes"
    and "\<And>bytes c. c \<in> set (te_b64_encode x bytes) \<Longrightarrow> \<not> is_whitespace c"
    and "\<And>t bytes. te_json_encode x t = Some bytes \<Longrightarrow> te_json_decode x bytes = Some t"
    and "encode_ticket x t = Inr v" and "filter (\<lambda>c. \<not> is_whitespace c) w = v"
  shows "decode_ticket x w = Inr t"
proof -
  obtain bytes where bytes: "te_json_encode x t = Some bytes" "v = VNIDROP_TICKET_PREFIX @ te_b64_encode x bytes"
    using assms(4) by (auto simp: encode_ticket_def split: option.splits)
  have "normalize_ticket_input w = v" using assms(5) by (simp add: normalize_ticket_input_def)
  then show ?thesis
    using assms(1,3) bytes by (simp add: decode_ticket_def starts_with_def Let_def)
qed

theorem ticket_roundtrip_witness:
  "decode_ticket ref_ticket_ext (lit ''vnd1:'' @ [10, 10116, 10]) = Inr ref_ticket"
proof (rule ticket_roundtrip)
  show "encode_ticket ref_ticket_ext ref_ticket = Inr (lit ''vnd1:'' @ [10116])"
    by (simp add: encode_ticket_def ref_ticket_ext_def VNIDROP_TICKET_PREFIX_def)
  show "filter (\<lambda>c. \<not> is_whitespace c) (lit ''vnd1:'' @ [10, 10116, 10]) = lit ''vnd1:'' @ [10116]"
    by (simp add: lit_def is_whitespace_def)
  fix bytes :: string and c
  assume "c \<in> set (te_b64_encode ref_ticket_ext bytes)"
  then obtain b :: char where "c = 10000 + of_char b" by (auto simp: ref_ticket_ext_def)
  moreover have "(of_char b :: nat) < 256" by simp
  ultimately have "10000 \<le> c" "c < 10256" by linarith+
  then show "\<not> is_whitespace c" by (auto simp: is_whitespace_def)
qed (auto simp: ref_ticket_ext_def comp_def split: if_splits)

end
