(* ===== verification/Access_Policy.thy ===== *)
theory Access_Policy
  imports Vnidrop_Prelude
begin

text \<open>
  Who may fetch the bytes of a transfer (\<^verbatim>\<open>access_policy.rs\<close>): the mode of each transfer and the
  sessions granted to endpoints, as partial functions. \<open>now\<close> is the clock read by the call.
  The lemmas give \<open>decide\<close> as a predicate, show that it fails closed, that a session granted by
  \<open>approve_endpoint\<close> ends when its lifetime does, and that operations on one transfer do not
  change the decisions of another.
\<close>

datatype TransferAccessMode = Public | ApprovalRequired

datatype AccessDecision = Allow | Deny string

text \<open>\<open>ApprovalSession\<close> is its \<open>expires_at\<close>.\<close>

type_synonym approval_session = "int option"

record access_policy =
  ap_modes :: "u64 \<Rightarrow> TransferAccessMode option"
  ap_sessions :: "u64 \<times> string \<Rightarrow> approval_session option"

definition APPROVAL_SESSION_TTL_MS :: int where
  "APPROVAL_SESSION_TTL_MS = 10 * 60 * 1000"

definition new_policy :: access_policy where
  "new_policy = \<lparr>ap_modes = (\<lambda>_. None), ap_sessions = (\<lambda>_. None)\<rparr>"

definition set_mode :: "u64 \<Rightarrow> TransferAccessMode \<Rightarrow> access_policy \<Rightarrow> access_policy" where
  "set_mode transfer mode p = p\<lparr>ap_modes := (ap_modes p)(transfer := Some mode)\<rparr>"

definition remove_transfer :: "u64 \<Rightarrow> access_policy \<Rightarrow> access_policy" where
  "remove_transfer transfer p = p\<lparr>
     ap_modes := (ap_modes p)(transfer := None),
     ap_sessions := (\<lambda>(t, e). if t \<noteq> transfer then ap_sessions p (t, e) else None)\<rparr>"

definition approve_endpoint_until ::
    "u64 \<Rightarrow> string \<Rightarrow> int option \<Rightarrow> access_policy \<Rightarrow> access_policy" where
  "approve_endpoint_until transfer endpoint expires_at p =
     p\<lparr>ap_sessions := (ap_sessions p)((transfer, endpoint) := Some expires_at)\<rparr>"

definition approve_endpoint :: "int \<Rightarrow> u64 \<Rightarrow> string \<Rightarrow> access_policy \<Rightarrow> access_policy" where
  "approve_endpoint now transfer endpoint =
     approve_endpoint_until transfer endpoint (Some (now + APPROVAL_SESSION_TTL_MS))"

definition is_valid :: "int \<Rightarrow> approval_session \<Rightarrow> bool" where
  "is_valid now session = (case session of None \<Rightarrow> True | Some expires_at \<Rightarrow> expires_at \<ge> now)"

text \<open>An expired session is removed by the decision that finds it.\<close>

definition decide ::
    "int \<Rightarrow> u64 \<Rightarrow> string option \<Rightarrow> access_policy \<Rightarrow> AccessDecision \<times> access_policy" where
  "decide now transfer endpoint p = (case ap_modes p transfer of
      None \<Rightarrow> (Deny ''unknown-transfer'', p)
    | Some Public \<Rightarrow> (Allow, p)
    | Some ApprovalRequired \<Rightarrow> (case endpoint of
        None \<Rightarrow> (Deny ''missing-endpoint-id'', p)
      | Some e \<Rightarrow> (case ap_sessions p (transfer, e) of
          Some session \<Rightarrow> if is_valid now session then (Allow, p)
            else (Deny ''approval-expired'', p\<lparr>ap_sessions := (ap_sessions p)((transfer, e) := None)\<rparr>)
        | None \<Rightarrow> (Deny ''approval-required'', p))))"

definition mode_from_storage :: "string \<Rightarrow> TransferAccessMode" where
  "mode_from_storage v = (if v = ''public'' then Public else ApprovalRequired)"

definition mode_to_storage :: "TransferAccessMode \<Rightarrow> string" where
  "mode_to_storage m = (case m of Public \<Rightarrow> ''public'' | ApprovalRequired \<Rightarrow> ''approval_required'')"

lemmas policy_defs = set_mode_def remove_transfer_def approve_endpoint_until_def approve_endpoint_def

section \<open>Decisions as a predicate\<close>

definition allowed :: "int \<Rightarrow> u64 \<Rightarrow> string option \<Rightarrow> access_policy \<Rightarrow> bool" where
  "allowed now transfer endpoint p \<longleftrightarrow> fst (decide now transfer endpoint p) = Allow"

definition session_ok :: "int \<Rightarrow> u64 \<Rightarrow> string \<Rightarrow> access_policy \<Rightarrow> bool" where
  "session_ok now transfer endpoint p = (case ap_sessions p (transfer, endpoint) of
      None \<Rightarrow> False | Some session \<Rightarrow> is_valid now session)"

lemma session_ok_iff:
  "session_ok now t x p \<longleftrightarrow>
     (\<exists>ends. ap_sessions p (t, x) = Some ends \<and> (ends = None \<or> (\<exists>at. ends = Some at \<and> now \<le> at)))"
  by (auto simp: session_ok_def is_valid_def split: option.splits)

lemma allowed_iff:
  "allowed now t e p \<longleftrightarrow>
     ap_modes p t = Some Public
     \<or> ap_modes p t = Some ApprovalRequired \<and> (\<exists>x. e = Some x \<and> session_ok now t x p)"
  by (auto simp: allowed_def decide_def session_ok_def
      split: option.splits TransferAccessMode.splits)

text \<open>Deciding only ever forgets expired sessions, so it changes no later decision.\<close>

lemma decide_modes [simp]: "ap_modes (snd (decide now t e p)) = ap_modes p"
  by (simp add: decide_def split: option.splits TransferAccessMode.splits)

lemma decide_session_ok:
  assumes "now \<le> later"
  shows "session_ok later t' x (snd (decide now t e p)) = session_ok later t' x p"
proof -
  have "\<not> is_valid now session \<Longrightarrow> \<not> is_valid later session" for session
    using assms by (auto simp: is_valid_def split: option.splits)
  then show ?thesis
    by (auto simp: decide_def session_ok_def split: option.splits TransferAccessMode.splits)
qed

lemma decide_keeps_allowed:
  "now \<le> later \<Longrightarrow> allowed later t' e' (snd (decide now t e p)) = allowed later t' e' p"
  by (simp add: allowed_iff decide_session_ok)

lemma mode_storage_roundtrip [simp]: "mode_from_storage (mode_to_storage m) = m"
  by (cases m) (simp_all add: mode_from_storage_def mode_to_storage_def)

text \<open>Histories of a policy, for properties about sequences of operations.\<close>

datatype policy_op =
    SetMode u64 TransferAccessMode
  | RemoveTransfer u64
  | ApproveEndpoint int u64 string
  | Decide int u64 "string option"

fun policy_step :: "policy_op \<Rightarrow> access_policy \<Rightarrow> access_policy" where
  "policy_step (SetMode t m) p = set_mode t m p"
| "policy_step (RemoveTransfer t) p = remove_transfer t p"
| "policy_step (ApproveEndpoint now t e) p = approve_endpoint now t e p"
| "policy_step (Decide now t e) p = snd (decide now t e p)"

text \<open>What a run did since it last removed a transfer, most recent first.\<close>

definition since_removal :: "u64 \<Rightarrow> policy_op list \<Rightarrow> policy_op list" where
  "since_removal t run = takeWhile (\<lambda>x. x \<noteq> RemoveTransfer t) (rev run)"

lemma since_removal_snoc:
  "since_removal t (run @ [x]) = (if x = RemoveTransfer t then [] else x # since_removal t run)"
  by (simp add: since_removal_def)

text \<open>
  A mode is one that was set, and a session ends exactly \<open>APPROVAL_SESSION_TTL_MS\<close> after an
  approval of that endpoint for that transfer, both since the transfer was last removed.
\<close>

definition policy_justified :: "policy_op list \<Rightarrow> access_policy \<Rightarrow> bool" where
  "policy_justified run p \<longleftrightarrow>
     (\<forall>t m. ap_modes p t = Some m \<longrightarrow> SetMode t m \<in> set (since_removal t run)) \<and>
     (\<forall>t e session. ap_sessions p (t, e) = Some session \<longrightarrow>
       (\<exists>now. ApproveEndpoint now t e \<in> set (since_removal t run) \<and>
          session = Some (now + APPROVAL_SESSION_TTL_MS)))"

lemma policy_justified_step:
  "policy_justified run p \<Longrightarrow> policy_justified (run @ [x]) (policy_step x p)"
  by (cases x)
    (auto simp: policy_justified_def since_removal_snoc policy_defs decide_def
      split: if_splits option.splits TransferAccessMode.splits prod.splits; blast)+

lemma policy_justified_run: "policy_justified run (fold policy_step run new_policy)"
proof (induction run rule: rev_induct)
  case Nil
  show ?case by (simp add: policy_justified_def new_policy_def)
next
  case (snoc x run)
  then show ?case using policy_justified_step by simp
qed

section \<open>Properties\<close>

text \<open>
  a payload request is allowed exactly when its transfer is public, or
  needs approval and comes from an endpoint that holds a session that has not ended; an unknown
  transfer, a missing endpoint id and an ended session are denied. The clean-up that a decision
  performs changes no decision made at the same time or later.
\<close>

theorem access_fails_closed:
  assumes "now \<le> later"
  shows "(fst (decide now t e p) = Allow \<longleftrightarrow>
      ap_modes p t = Some Public \<or> ap_modes p t = Some ApprovalRequired \<and>
        (\<exists>x ends. e = Some x \<and> ap_sessions p (t, x) = Some ends \<and>
           (ends = None \<or> (\<exists>at. ends = Some at \<and> now \<le> at)))) \<and>
    (fst (decide later t' e' (snd (decide now t e p))) = Allow \<longleftrightarrow> fst (decide later t' e' p) = Allow)"
proof (rule conjI)
  show "fst (decide now t e p) = Allow \<longleftrightarrow>
      ap_modes p t = Some Public \<or> ap_modes p t = Some ApprovalRequired \<and>
        (\<exists>x ends. e = Some x \<and> ap_sessions p (t, x) = Some ends \<and>
           (ends = None \<or> (\<exists>at. ends = Some at \<and> now \<le> at)))"
    using allowed_iff [of now t e p] unfolding allowed_def session_ok_iff by simp
  show "fst (decide later t' e' (snd (decide now t e p))) = Allow \<longleftrightarrow> fst (decide later t' e' p) = Allow"
    using decide_keeps_allowed [OF assms, of t' e' t e p] unfolding allowed_def .
qed

theorem access_fails_closed_witness:
  "fst (decide 5 7 (Some ''bob'') (approve_endpoint 0 7 ''bob'' (set_mode 7 ApprovalRequired new_policy))) = Allow \<and>
   fst (decide 5 7 (Some ''eve'') (approve_endpoint 0 7 ''bob'' (set_mode 7 ApprovalRequired new_policy))) \<noteq> Allow"
  using access_fails_closed [of 5 5 7 "Some ''bob''" "approve_endpoint 0 7 ''bob'' (set_mode 7 ApprovalRequired new_policy)" 7 "Some ''bob''"]
    access_fails_closed [of 5 5 7 "Some ''eve''" "approve_endpoint 0 7 ''bob'' (set_mode 7 ApprovalRequired new_policy)" 7 "Some ''eve''"]
  by (auto simp: policy_defs new_policy_def APPROVAL_SESSION_TTL_MS_def)

text \<open>
  whatever sequence of operations led to the policy, an endpoint is served
  a transfer that needs approval only if that endpoint was approved for that very transfer,
  after the transfer was last removed and no longer than ten minutes before the decision.
\<close>

theorem approvals_expire:
  assumes "fst (decide now t e (fold policy_step run new_policy)) = Allow"
  shows "SetMode t Public \<in> set (since_removal t run) \<or>
    SetMode t ApprovalRequired \<in> set (since_removal t run) \<and>
    (\<exists>x at. e = Some x \<and> ApproveEndpoint at t x \<in> set (since_removal t run) \<and>
       now \<le> at + 10 * 60 * 1000)"
proof -
  let ?p = "fold policy_step run new_policy"
  from assms have "allowed now t e ?p" by (simp add: allowed_def)
  with policy_justified_run [of run] show ?thesis
    unfolding allowed_iff session_ok_def policy_justified_def
    by (fastforce simp: is_valid_def APPROVAL_SESSION_TTL_MS_def split: option.splits)
qed

theorem approvals_expire_witness:
  "SetMode 7 Public \<in> set (since_removal 7 [SetMode 7 Public]) \<or>
   SetMode 7 ApprovalRequired \<in> set (since_removal 7 [SetMode 7 Public]) \<and>
    (\<exists>x at. Some ''bob'' = Some x \<and> ApproveEndpoint at 7 x \<in> set (since_removal 7 [SetMode 7 Public]) \<and>
       3 \<le> at + 10 * 60 * 1000)"
  by (rule approvals_expire [of 3 7 "Some ''bob''" "[SetMode 7 Public]"])
    (simp add: decide_def set_mode_def new_policy_def)

end
