(* ===== verification/Targeted_Module.thy ===== *)
theory Targeted_Module
  imports Pairing_Eligibility Targeted_Inbox_Facts Ticket Access_Policy
begin

text \<open>
  The lifecycle authority of targeted transfers (\<^verbatim>\<open>targeted_transfer/module.rs\<close>), the custody of
  authorizations (\<^verbatim>\<open>targeted_transfer/authorization_custody.rs\<close>) and the cleanup it is configured
  with (the \<open>targeted_cleanup\<close> closure of \<^verbatim>\<open>runtime/mod.rs\<close>). \<open>world\<close> extends the database, the
  credential store and the relationships with the inbox, the running transfers, the payload
  registrations and the access policy. A handler that waits for the user ends its first part
  with \<open>OfferWait\<close> (see \<open>Targeted_Inbox\<close>); every other handler is one step. \<open>menv\<close> is what the
  module is constructed with; \<open>me_blob_hash\<close> parses a blob ticket (\<^verbatim>\<open>iroh_blobs\<close>) and gives its
  hash, \<open>me_parse_url\<close> parses a relay URL and gives its canonical text. \<open>uuid\<close> is the UUID drawn
  for a secret handle. Deleting a payload tag can fail (\<open>w_tag_faults\<close>).
\<close>

record world = pairing +
  w_inbox :: inbox
  w_active :: "string list"
  w_cancelled :: "string list"
  w_hashes :: "(string \<times> u64 list) list"
  w_access :: access_policy
  w_tags :: "string list"
  w_tag_faults :: "string option list"
  w_invitations :: "u64 list"

record menv =
  me_rel :: rel_env
  me_limits :: core_limits
  me_relay_mode :: CoreRelayMode
  me_custom_relay_urls :: "string list"
  me_parse_url :: "string \<Rightarrow> string option"
  me_blob_hash :: "string \<Rightarrow> string option"

abbreviation me_ext :: "menv \<Rightarrow> ext" where
  "me_ext e \<equiv> re_ext (me_rel e)"

abbreviation me_local :: "menv \<Rightarrow> string" where
  "me_local e \<equiv> re_local_endpoint_id (me_rel e)"

definition TARGETED_PROTOCOL_VERSION :: u16 where
  "TARGETED_PROTOCOL_VERSION = 3"

definition emit_lifecycle :: "string \<Rightarrow> ('z world_scheme, unit) proc" where
  "emit_lifecycle kind = emit ''targeted_transfer'' kind"

section \<open>The cleanup closure\<close>

definition targeted_tag_name :: "string \<Rightarrow> string" where
  "targeted_tag_name tid = ''vnidrop/targeted/'' @ tid"

definition signal_cancel :: "string \<Rightarrow> ('z world_scheme, unit) proc" where
  "signal_cancel tid = modify (\<lambda>s. if List.member (w_active s) tid
     then s\<lparr>w_active := removeAll tid (w_active s), w_cancelled := w_cancelled s @ [tid]\<rparr> else s)"

definition release_hashes :: "u64 \<Rightarrow> ('z world_scheme, unit) proc" where
  "release_hashes pid = modify (\<lambda>s. s\<lparr>w_hashes := filter (\<lambda>(h, owners). owners \<noteq> [])
     (map (\<lambda>(h, owners). (h, removeAll pid owners)) (w_hashes s))\<rparr>)"

definition delete_tag :: "string \<Rightarrow> ('z world_scheme, unit) proc" where
  "delete_tag name s = (let s0 = s\<lparr>w_tag_faults := tl (w_tag_faults s)\<rparr> in
     case w_tag_faults s of
       Some reason # _ \<Rightarrow> (Inl (TransferError reason), s0)
     | _ \<Rightarrow> (Inr (), s0\<lparr>w_tags := removeAll name (w_tags s0)\<rparr>))"

definition cleanup :: "menv \<Rightarrow> int \<Rightarrow> row \<Rightarrow> ('z world_scheme, unit) proc" where
  "cleanup e now r =
     next_do (signal_cancel (tr_id r))
    (next_do (release_hashes (tr_protocol_transfer_id r))
    (next_do (modify (\<lambda>s. s\<lparr>w_access := remove_transfer (tr_protocol_transfer_id r) (w_access s)\<rparr>))
    (next_do (if tr_role r = Sender then delete_tag (targeted_tag_name (tr_id r)) else ok ())
      (case tr_secret_handle r of
         None \<Rightarrow> ok ()
       | Some handle \<Rightarrow>
           next_do (if re_custody (me_rel e) then remove_secret now handle else ok ())
             (clear_authorization (tr_id r))))))"

section \<open>authorization_custody.rs\<close>

definition require_auth_custody :: "menv \<Rightarrow> ('s, unit) proc" where
  "require_auth_custody e = (if re_custody (me_rel e) then ok ()
     else err (SecureStorageUnavailable ''targeted authorization requires protected custody''))"

definition auth_secret_material :: "ext \<Rightarrow> auth \<Rightarrow> vnidrop_error + string" where
  "auth_secret_material x a = (case secret_bytes x a of Inl e \<Rightarrow> Inl e | Inr b \<Rightarrow> new_material b)"

definition settled_receiver_state :: "TargetedTransferState \<Rightarrow> bool" where
  "settled_receiver_state st \<longleftrightarrow> is_resumable st \<or> st = Completed"

text \<open>The delivery agrees with the receiver row it names.\<close>

definition exact_delivery :: "row \<Rightarrow> auth \<Rightarrow> bool" where
  "exact_delivery r a \<longleftrightarrow>
     tr_role r = Receiver \<and> settled_receiver_state (tr_state r) \<and>
     tr_protocol_transfer_id r = au_protocol_transfer_id a \<and>
     tr_sender_endpoint_id r = au_sender_endpoint_id a \<and>
     tr_receiver_endpoint_id r = au_receiver_endpoint_id a \<and>
     tr_manifest_id r = au_manifest_id a \<and> tr_content_hash r = au_content_hash a \<and>
     tr_transfer_name r = au_transfer_name a \<and> tr_file_count r = au_file_count a \<and>
     tr_total_size r = au_total_size a \<and> tr_blob_ticket r = Some (au_blob_ticket a)"

definition draft_of_row :: "row \<Rightarrow> u16 \<Rightarrow> string \<Rightarrow> auth_draft" where
  "draft_of_row r version blob_ticket = \<lparr>
     ad_transfer_id = tr_id r, ad_protocol_transfer_id = tr_protocol_transfer_id r,
     ad_sender_endpoint_id = tr_sender_endpoint_id r,
     ad_receiver_endpoint_id = tr_receiver_endpoint_id r, ad_manifest_id = tr_manifest_id r,
     ad_content_hash = tr_content_hash r, ad_file_count = tr_file_count r,
     ad_total_size = tr_total_size r, ad_protocol_version = version,
     ad_transfer_name = tr_transfer_name r, ad_blob_ticket = blob_ticket\<rparr>"

definition check_existing_delivery :: "menv \<Rightarrow> auth \<Rightarrow> row \<Rightarrow> ('z world_scheme, bool) proc" where
  "check_existing_delivery e a r = (case tr_secret_handle r of
      None \<Rightarrow> err (SecureStorageMissing ''receiver authorization handle is missing'')
    | Some handle \<Rightarrow>
        if \<not> exact_delivery r a
        then err (Permission ''targeted authorization conflicts with receiver state'')
        else bind (load (re_public_key (me_rel e)) handle) (\<lambda>material.
          bind (lift (reconstruct_authorization (me_ext e)
                 (draft_of_row r (au_protocol_version a) (au_blob_ticket a)) material)) (\<lambda>rebuilt.
          bind (lift (encode (me_ext e) rebuilt)) (\<lambda>stored.
          bind (lift (encode (me_ext e) a)) (\<lambda>presented.
            if stored \<noteq> presented
            then err (Permission ''protected receiver authorization does not match delivery'')
            else ok False)))))"

definition persist_receiver :: "menv \<Rightarrow> int \<Rightarrow> string \<Rightarrow> auth \<Rightarrow> ('z world_scheme, bool) proc" where
  "persist_receiver e now uuid a = next_do (require_auth_custody e)
     (bind (get_row (au_transfer_id a)) (\<lambda>found. case found of
        Some r \<Rightarrow> check_existing_delivery e a r
      | None \<Rightarrow> bind (select (\<lambda>s. List.member (w_invitations s) (au_protocol_transfer_id a)))
         (\<lambda>collision. if collision
            then err (InvalidInput ''targeted transfer protocol id collides with invitation work'')
            else bind (lift (auth_secret_material (me_ext e) a)) (\<lambda>material.
              bind (protect (re_public_key (me_rel e)) now uuid TargetedAuthorization material None)
               (\<lambda>handle. attempt (persist_receiver_authorization_and_consume_intent now a handle)
                 (\<lambda>r. case r of
                    Inl error \<Rightarrow> attempt (remove_secret now handle) (\<lambda>_. err error)
                  | Inr created \<Rightarrow>
                      next_do (if created then emit_lifecycle ''approved'' else ok ())
                        (ok created)))))))"

definition protect_sender :: "menv \<Rightarrow> int \<Rightarrow> string \<Rightarrow> auth \<Rightarrow> ('z world_scheme, unit) proc" where
  "protect_sender e now uuid a = next_do (require_auth_custody e)
     (bind (lift (auth_secret_material (me_ext e) a)) (\<lambda>material.
      bind (protect (re_public_key (me_rel e)) now uuid TargetedAuthorization material None) (\<lambda>handle.
        attempt (finalize_sender_authorization_and_enqueue now (au_transfer_id a)
                   (au_blob_ticket a) handle)
          (\<lambda>r. case r of
             Inl error \<Rightarrow> attempt (remove_secret now handle) (\<lambda>_. err error)
           | Inr _ \<Rightarrow> emit_lifecycle ''approved''))))"

definition load_authorization :: "menv \<Rightarrow> row \<Rightarrow> ('z world_scheme, string option) proc" where
  "load_authorization e r = (case (tr_secret_handle r, tr_blob_ticket r) of
      (Some handle, Some blob_ticket) \<Rightarrow> next_do (require_auth_custody e)
        (bind (load (re_public_key (me_rel e)) handle) (\<lambda>material.
         bind (lift (reconstruct_authorization (me_ext e)
                (draft_of_row r TARGETED_PROTOCOL_VERSION blob_ticket) material)) (\<lambda>a.
         bind (lift (encode (me_ext e) a)) (\<lambda>text. ok (Some text)))))
    | _ \<Rightarrow> ok None)"

section \<open>Wire messages (protocol.rs)\<close>

record submit_offer =
  so_proof :: wire_proof
  so_generation :: u64
  so_relationship_protocol_version :: u16
  so_protocol_version :: u16
  so_transfer_id :: string
  so_sender_endpoint_id :: string
  so_receiver_endpoint_id :: string
  so_manifest_id :: string
  so_content_hash :: string
  so_transfer_name :: string
  so_file_count :: u64
  so_total_size :: u64
  so_relay_mode :: CoreRelayMode
  so_relay_urls :: "string list"

datatype WireOfferResponse = WireAccepted | WireDeclined string | WireRefused string

record deliver_auth =
  da_transfer_id :: string
  da_authorization :: string

datatype DeliverAuthorizationResponse = Stored | DeliveryRejected

record cancel_offer =
  co_transfer_id :: string
  co_terminal :: "TargetedTransferState option"

datatype CancelWireOfferResponse = OfferCancelled | CancelRejected

record complete_transfer =
  ct_transfer_id :: string
  ct_verified_bytes :: u64
  ct_authorization :: string

datatype CompletionResponse = Recorded | CompletionRejected

fun parse_offer_relay_urls :: "menv \<Rightarrow> string list \<Rightarrow> string list option" where
  "parse_offer_relay_urls e [] = Some []"
| "parse_offer_relay_urls e (v # vs) = (case me_parse_url e v of
      None \<Rightarrow> None
    | Some url \<Rightarrow> map_option (\<lambda>urls. url # urls) (parse_offer_relay_urls e vs))"

definition map_offer_refuse_reason :: "string \<Rightarrow> vnidrop_error" where
  "map_offer_refuse_reason reason =
     (if reason = ''relay-policy-incompatible''
      then RelayPolicyIncompatible ''sender and receiver network profiles are incompatible''
      else if reason = ''protocol-incompatible''
      then ProtocolIncompatible ''targeted-transfer protocol is incompatible''
      else Permission (''targeted offer refused: '' @ reason))"

section \<open>module.rs: offers\<close>

definition with_inbox :: "(inbox \<Rightarrow> 'a \<times> inbox) \<Rightarrow> ('z world_scheme, 'a) proc" where
  "with_inbox f s = (case f (w_inbox s) of (x, ib) \<Rightarrow> (Inr x, s\<lparr>w_inbox := ib\<rparr>))"

definition on_inbox :: "(inbox \<Rightarrow> inbox) \<Rightarrow> ('z world_scheme, unit) proc" where
  "on_inbox f = with_inbox (\<lambda>ib. ((), f ib))"

definition cooling :: "int \<Rightarrow> string \<Rightarrow> ('z world_scheme, bool) proc" where
  "cooling now identity = with_inbox (\<lambda>ib. case is_cooling now identity (ib_cooldown ib) of
     (b, cd) \<Rightarrow> (b, ib\<lparr>ib_cooldown := cd\<rparr>))"

definition strike :: "int \<Rightarrow> string \<Rightarrow> ('z world_scheme, unit) proc" where
  "strike now identity = on_inbox (\<lambda>ib.
     ib\<lparr>ib_cooldown := snd (record_malformed now identity (ib_cooldown ib))\<rparr>)"

datatype offer_outcome = OfferAnswer WireOfferResponse | OfferWait string nat "nat option"

definition decision_to_wire :: "offer_decision \<Rightarrow> WireOfferResponse" where
  "decision_to_wire d = (case d of
      OfferAccepted \<Rightarrow> WireAccepted
    | OfferDeclined reason \<Rightarrow> WireDeclined reason
    | OfferRefused reason \<Rightarrow> WireRefused reason)"

definition refuse :: "string \<Rightarrow> ('z world_scheme, offer_outcome) proc" where
  "refuse reason = ok (OfferAnswer (WireRefused reason))"

definition strike_refuse :: "int \<Rightarrow> string \<Rightarrow> string \<Rightarrow> ('z world_scheme, offer_outcome) proc" where
  "strike_refuse now identity reason = next_do (strike now identity) (refuse reason)"

definition manifest_out_of_limits :: "menv \<Rightarrow> submit_offer \<Rightarrow> bool" where
  "manifest_out_of_limits e w \<longleftrightarrow>
     so_file_count w = 0 \<or> so_file_count w > cl_max_collection_files (me_limits e) \<or>
     so_total_size w = 0 \<or> so_total_size w > cl_max_total_bytes (me_limits e) \<or>
     so_transfer_id w = '''' \<or> so_manifest_id w = '''' \<or> so_content_hash w = ''''"

text \<open>The answer for a transfer that already has a row.\<close>

definition answer_for_row :: "row \<Rightarrow> submit_offer \<Rightarrow> WireOfferResponse" where
  "answer_for_row r w =
     (if tr_manifest_id r \<noteq> so_manifest_id w \<or> tr_content_hash r \<noteq> so_content_hash w \<or>
         tr_file_count r \<noteq> so_file_count w \<or> tr_total_size r \<noteq> so_total_size w \<or>
         tr_sender_endpoint_id r \<noteq> so_sender_endpoint_id w \<or>
         tr_receiver_endpoint_id r \<noteq> so_receiver_endpoint_id w
      then WireRefused ''immutable-transfer-mismatch''
      else case tr_state r of
          Declined \<Rightarrow> WireDeclined ''receiver-declined''
        | Cancelled \<Rightarrow> WireDeclined ''cancelled''
        | Failed \<Rightarrow> WireRefused (''transfer-'' @ state_as_str Failed)
        | Deleted \<Rightarrow> WireRefused (''transfer-'' @ state_as_str Deleted)
        | _ \<Rightarrow> WireAccepted)"

definition pending_of_wire :: "menv \<Rightarrow> int \<Rightarrow> string \<Rightarrow> submit_offer \<Rightarrow> offer" where
  "pending_of_wire e now remote w = \<lparr>
     po_transfer_id = so_transfer_id w, po_sender_endpoint_id = remote,
     po_receiver_endpoint_id = me_local e, po_manifest_id = so_manifest_id w,
     po_content_hash = so_content_hash w, po_transfer_name = so_transfer_name w,
     po_file_count = so_file_count w, po_total_size = so_total_size w,
     po_protocol_version = so_protocol_version w, po_received_at = now\<rparr>"

definition proof_refusal :: "vnidrop_error \<Rightarrow> string" where
  "proof_refusal error = (case error of
      ProtocolIncompatible _ \<Rightarrow> ''protocol-incompatible'' | _ \<Rightarrow> ''unauthenticated'')"

definition submit_pending :: "int \<Rightarrow> offer \<Rightarrow> ('z world_scheme, offer_outcome) proc" where
  "submit_pending now pending = bind (with_inbox (submit now pending)) (\<lambda>outcome. case outcome of
      SubmitDone d \<Rightarrow> ok (OfferAnswer (decision_to_wire d))
    | SubmitWait c own \<Rightarrow> ok (OfferWait (po_transfer_id pending) c own))"

definition admit_offer ::
    "menv \<Rightarrow> int \<Rightarrow> string \<Rightarrow> string \<Rightarrow> submit_offer \<Rightarrow> ('z world_scheme, offer_outcome) proc" where
  "admit_offer e now remote challenge w = (case parse_offer_relay_urls e (so_relay_urls w) of
      None \<Rightarrow> refuse ''relay-policy-incompatible''
    | Some remote_urls \<Rightarrow>
        if \<not> relay_profiles_compatible (me_relay_mode e) (me_custom_relay_urls e)
               (so_relay_mode w) remote_urls
        then refuse ''relay-policy-incompatible''
        else attempt (verify_saved_possession (me_rel e) remote challenge (so_proof w)
                        (so_generation w) (so_relationship_protocol_version w))
          (\<lambda>verified. case verified of
             Inl error \<Rightarrow> strike_refuse now remote (proof_refusal error)
           | Inr _ \<Rightarrow> submit_pending now (pending_of_wire e now remote w)))"

definition handle_offer ::
    "menv \<Rightarrow> int \<Rightarrow> string \<Rightarrow> string \<Rightarrow> submit_offer \<Rightarrow> ('z world_scheme, offer_outcome) proc" where
  "handle_offer e now remote challenge w = bind (cooling now remote) (\<lambda>hot.
     if hot then refuse ''identity-cooldown''
     else if so_protocol_version w \<noteq> TARGETED_PROTOCOL_VERSION
     then strike_refuse now remote ''protocol-incompatible''
     else if so_receiver_endpoint_id w \<noteq> me_local e
     then strike_refuse now remote ''receiver-mismatch''
     else if so_sender_endpoint_id w \<noteq> remote
     then strike_refuse now remote ''sender-mismatch''
     else if manifest_out_of_limits e w
     then strike_refuse now remote ''manifest-limits''
     else if length (so_transfer_name w) > unat (cl_max_metadata_bytes (me_limits e))
     then strike_refuse now remote (metadata_error_text ''transfer name''
            (length (so_transfer_name w)) (cl_max_metadata_bytes (me_limits e)))
     else attempt (get_row (so_transfer_id w)) (\<lambda>found. case found of
         Inr (Some r) \<Rightarrow> ok (OfferAnswer (answer_for_row r w))
       | _ \<Rightarrow> admit_offer e now remote challenge w))"

text \<open>The rest of the handler once the wait is over.\<close>

definition finish_offer :: "string \<Rightarrow> nat \<Rightarrow> nat option \<Rightarrow> bool \<Rightarrow> ('z world_scheme, WireOfferResponse option) proc" where
  "finish_offer tid c own timed_out s = (case finish_wait tid c own timed_out (w_inbox s) of
      None \<Rightarrow> (Inr None, s)
    | Some (d, ib) \<Rightarrow> (Inr (Some (decision_to_wire d)), s\<lparr>w_inbox := ib\<rparr>))"

section \<open>module.rs: local operations\<close>

definition register_sender :: "int \<Rightarrow> row \<Rightarrow> ('z world_scheme, unit) proc" where
  "register_sender now r =
     next_do (insert_row r)
    (next_do (emit_lifecycle ''created'')
    (next_do (set_state now (tr_id r) Preparing Offering)
      (emit_lifecycle ''offering'')))"

definition transition ::
    "int \<Rightarrow> string \<Rightarrow> TargetedTransferState \<Rightarrow> TargetedTransferState \<Rightarrow> string \<Rightarrow>
     ('z world_scheme, unit) proc" where
  "transition now tid source target event =
     next_do (set_state now tid source target) (emit_lifecycle event)"

definition transition_from_any ::
    "int \<Rightarrow> string \<Rightarrow> TargetedTransferState \<Rightarrow> string \<Rightarrow> ('z world_scheme, unit) proc" where
  "transition_from_any now tid target event =
     next_do (set_state_from_any now tid target) (emit_lifecycle event)"

text \<open>\<open>if changed { emit }; Ok(changed)\<close>\<close>

definition announce :: "string \<Rightarrow> bool \<Rightarrow> ('z world_scheme, bool) proc" where
  "announce kind changed = next_do (if changed then emit_lifecycle kind else ok ()) (ok changed)"

definition fail_resumable :: "int \<Rightarrow> string \<Rightarrow> ('z world_scheme, bool) proc" where
  "fail_resumable now tid = bind (fail_resumable_and_clear_delivery now tid) (announce ''failed'')"

definition transition_terminal_and_emit ::
    "int \<Rightarrow> string \<Rightarrow> TargetedTransferState \<Rightarrow> bool \<Rightarrow> ('z world_scheme, bool) proc" where
  "transition_terminal_and_emit now tid target clear =
     bind (transition_terminal now tid target clear) (announce (state_as_str target))"

definition terminate_local ::
    "menv \<Rightarrow> int \<Rightarrow> string \<Rightarrow> TargetedTransferState \<Rightarrow> ('z world_scheme, (row \<times> bool) option) proc" where
  "terminate_local e now tid target = bind (get_row tid) (\<lambda>found. case found of
      None \<Rightarrow> next_do (on_inbox (discard tid)) (next_do (clear_accepted_offer_intent tid) (ok None))
    | Some r \<Rightarrow>
        if tr_state r = target \<and> tr_secret_handle r = None \<and> tr_blob_ticket r = None
        then next_do (on_inbox (discard tid)) (ok (Some (r, False)))
        else bind (if tr_state r = target then ok False
                   else transition_terminal_and_emit now tid target True) (\<lambda>changed.
          next_do (on_inbox (discard tid))
         (next_do (cleanup e now r) (ok (Some (r, changed))))))"

definition cancel_by_peer_and_emit :: "int \<Rightarrow> string \<Rightarrow> ('z world_scheme, string list) proc" where
  "cancel_by_peer_and_emit now peer = bind (cancel_by_peer now peer) (\<lambda>ids.
     next_do (for_each ids (\<lambda>_. emit_lifecycle ''cancelled'')) (ok ids))"

definition terminate_peer :: "menv \<Rightarrow> int \<Rightarrow> string \<Rightarrow> ('z world_scheme, nat) proc" where
  "terminate_peer e now peer =
     next_do (on_inbox (discard_from peer))
    (bind (ids_for_peer peer) (\<lambda>ids.
     bind (for_fold ids (\<lambda>tid rows. bind (get_row tid) (\<lambda>found.
             ok (case found of None \<Rightarrow> rows | Some r \<Rightarrow> rows @ [r]))) []) (\<lambda>rows.
     bind (cancel_by_peer_and_emit now peer) (\<lambda>cancelled.
     next_do (for_each rows (cleanup e now)) (ok (length cancelled))))))"

definition recover_in_flight :: "menv \<Rightarrow> int \<Rightarrow> ('z world_scheme, string list) proc" where
  "recover_in_flight e now = bind (fail_sender_preapproval_on_restart now) (\<lambda>rows.
     next_do (for_each rows (\<lambda>r. next_do (emit_lifecycle ''failed'') (cleanup e now r)))
    (bind (mark_interrupted_in_flight now) (\<lambda>ids.
     next_do (for_each ids (\<lambda>_. emit_lifecycle ''interrupted'')) (ok ids))))"

datatype stop_outcome = PreparationStopped | TransferAbandoned | TransferCancelled | AlreadyTerminal

definition stop_preparation :: "menv \<Rightarrow> int \<Rightarrow> string \<Rightarrow> ('z world_scheme, stop_outcome) proc" where
  "stop_preparation e now tid = bind (get_row tid) (\<lambda>found. case found of
      None \<Rightarrow> ok TransferAbandoned
    | Some r \<Rightarrow> if is_terminal (tr_state r) then ok AlreadyTerminal
        else bind (abandon_sender_preapproval tid) (\<lambda>abandoned.
          if abandoned
          then next_do (emit_lifecycle ''abandoned'')
                (next_do (cleanup e now r) (ok TransferAbandoned))
          else bind (get_row tid) (\<lambda>again. case again of
              None \<Rightarrow> ok TransferAbandoned
            | Some current \<Rightarrow> if is_terminal (tr_state current) then ok AlreadyTerminal
                else bind (transition_terminal_and_emit now tid Cancelled True) (\<lambda>changed.
                  next_do (cleanup e now current)
                   (ok (if changed then TransferCancelled else AlreadyTerminal))))))"

definition peer_of :: "row \<Rightarrow> string" where
  "peer_of r = (case tr_role r of
      Sender \<Rightarrow> tr_receiver_endpoint_id r | Receiver \<Rightarrow> tr_sender_endpoint_id r)"

definition cancel_from_peer :: "menv \<Rightarrow> int \<Rightarrow> string \<Rightarrow> string \<Rightarrow> ('z world_scheme, bool) proc" where
  "cancel_from_peer e now remote tid = bind (get_row tid) (\<lambda>found. case found of
      None \<Rightarrow> next_do (clear_accepted_intent_if_sender tid remote) (ok True)
    | Some r \<Rightarrow>
        if peer_of r \<noteq> remote then ok False
        else if tr_state r = Cancelled then next_do (cleanup e now r) (ok True)
        else if is_terminal (tr_state r) then ok True
        else bind (transition_terminal now tid Cancelled False) (\<lambda>changed.
          next_do (if changed then next_do (emit_lifecycle ''cancelled'') (cleanup e now r) else ok ())
            (ok True)))"

definition mark_sender_completed_and_emit :: "int \<Rightarrow> string \<Rightarrow> ('z world_scheme, bool) proc" where
  "mark_sender_completed_and_emit now tid =
     bind (mark_sender_completed now tid) (announce ''completed'')"

definition begin_receive :: "int \<Rightarrow> string \<Rightarrow> TargetedTransferState \<Rightarrow> ('z world_scheme, unit) proc" where
  "begin_receive now tid source =
     next_do (transition now tid source Connecting ''connecting'')
       (transition now tid Connecting Transferring ''transferring'')"

definition complete_receiver :: "int \<Rightarrow> string \<Rightarrow> u64 \<Rightarrow> ('z world_scheme, unit) proc" where
  "complete_receiver now tid verified_bytes =
     next_do (complete_receiver_and_enqueue now tid verified_bytes) (emit_lifecycle ''completed'')"

definition interrupt_receive :: "int \<Rightarrow> string \<Rightarrow> ('z world_scheme, unit) proc" where
  "interrupt_receive now tid =
     next_do (set_state_from_any now tid Interrupted) (emit_lifecycle ''interrupted'')"

text \<open>The row \<open>runtime/targeted_create.rs\<close> registers; \<open>hash\<close> is the root hash of the payload.\<close>

definition sender_row ::
    "int \<Rightarrow> string \<Rightarrow> u64 \<Rightarrow> string \<Rightarrow> string \<Rightarrow> string \<Rightarrow> string \<Rightarrow> u64 \<Rightarrow> u64 \<Rightarrow> row" where
  "sender_row now uuid pid sender receiver hash payload_name file_count total_size = \<lparr>
     tr_id = uuid, tr_protocol_transfer_id = pid, tr_sender_endpoint_id = sender,
     tr_receiver_endpoint_id = receiver, tr_manifest_id = hash, tr_content_hash = hash,
     tr_transfer_name = payload_name, tr_file_count = file_count, tr_total_size = total_size,
     tr_verified_bytes = 0, tr_blob_ticket = None, tr_secret_handle = None, tr_role = Sender,
     tr_state = Preparing, tr_created_at = now, tr_updated_at = now\<rparr>"

section \<open>module.rs: peer messages\<close>

definition answer :: "'a \<Rightarrow> 'a \<Rightarrow> ('s, unit) proc \<Rightarrow> ('s, 'a) proc" where
  "answer yes no m = attempt m (\<lambda>r. ok (case r of Inl _ \<Rightarrow> no | Inr _ \<Rightarrow> yes))"

definition delivery_accepted :: "menv \<Rightarrow> string \<Rightarrow> deliver_auth \<Rightarrow> auth \<Rightarrow> bool" where
  "delivery_accepted e remote d a \<longleftrightarrow>
     au_sender_endpoint_id a = remote \<and> au_receiver_endpoint_id a = me_local e \<and>
     au_transfer_id a = da_transfer_id d \<and> au_protocol_version a = TARGETED_PROTOCOL_VERSION \<and>
     me_blob_hash e (au_blob_ticket a) = Some (au_manifest_id a) \<and>
     au_manifest_id a = au_content_hash a"

definition handle_authorization ::
    "menv \<Rightarrow> int \<Rightarrow> string \<Rightarrow> string \<Rightarrow> deliver_auth \<Rightarrow>
     ('z world_scheme, DeliverAuthorizationResponse) proc" where
  "handle_authorization e now uuid remote d = attempt (require_saved remote) (\<lambda>saved. case saved of
      Inl _ \<Rightarrow> ok DeliveryRejected
    | Inr _ \<Rightarrow> (case decode (me_ext e) (da_authorization d) of
        Inl _ \<Rightarrow> ok DeliveryRejected
      | Inr a \<Rightarrow>
          if \<not> delivery_accepted e remote d a then ok DeliveryRejected
          else attempt (persist_receiver e now uuid a) (\<lambda>stored. case stored of
             Inl _ \<Rightarrow> ok DeliveryRejected
           | Inr _ \<Rightarrow> next_do
               (with_inbox (deliver_authorization (da_transfer_id d) (da_authorization d)))
               (ok Stored))))"

definition handle_cancel ::
    "menv \<Rightarrow> int \<Rightarrow> string \<Rightarrow> cancel_offer \<Rightarrow> ('z world_scheme, CancelWireOfferResponse) proc" where
  "handle_cancel e now remote c =
     bind (gets (\<lambda>s. find_pending (co_transfer_id c) (w_inbox s))) (\<lambda>found. case found of
        Some pending \<Rightarrow>
          if po_sender_endpoint_id pending \<noteq> remote then ok CancelRejected
          else next_do (on_inbox (discard (co_transfer_id c)))
            (answer OfferCancelled CancelRejected (clear_accepted_offer_intent (co_transfer_id c)))
      | None \<Rightarrow>
          if co_terminal c \<noteq> Some Cancelled \<and> co_terminal c \<noteq> Some Deleted then ok OfferCancelled
          else attempt (cancel_from_peer e now remote (co_transfer_id c)) (\<lambda>r. ok
             (case r of Inr True \<Rightarrow> OfferCancelled | _ \<Rightarrow> CancelRejected)))"

definition completion_bound :: "menv \<Rightarrow> string \<Rightarrow> complete_transfer \<Rightarrow> row \<Rightarrow> auth \<Rightarrow> bool" where
  "completion_bound e remote c r a \<longleftrightarrow>
     tr_role r = Sender \<and> tr_receiver_endpoint_id r = remote \<and>
     au_receiver_endpoint_id a = remote \<and> au_sender_endpoint_id a = me_local e \<and>
     au_transfer_id a = tr_id r \<and> au_protocol_transfer_id a = tr_protocol_transfer_id r \<and>
     au_manifest_id a = tr_manifest_id r \<and> au_content_hash a = tr_content_hash r \<and>
     au_transfer_name a = tr_transfer_name r \<and> au_file_count a = tr_file_count r \<and>
     au_total_size a = tr_total_size r \<and> au_total_size a = ct_verified_bytes c \<and>
     tr_blob_ticket r = Some (au_blob_ticket a) \<and>
     au_protocol_version a = TARGETED_PROTOCOL_VERSION"

definition handle_completion ::
    "menv \<Rightarrow> int \<Rightarrow> string \<Rightarrow> complete_transfer \<Rightarrow> ('z world_scheme, CompletionResponse) proc" where
  "handle_completion e now remote c = attempt (require_saved remote) (\<lambda>saved. case saved of
      Inl _ \<Rightarrow> ok CompletionRejected
    | Inr _ \<Rightarrow> attempt (get_row (ct_transfer_id c)) (\<lambda>found. case found of
        Inr (Some r) \<Rightarrow> (case decode (me_ext e) (ct_authorization c) of
            Inl _ \<Rightarrow> ok CompletionRejected
          | Inr a \<Rightarrow>
              if \<not> completion_bound e remote c r a then ok CompletionRejected
              else if tr_state r = Completed then ok Recorded
              else if is_terminal (tr_state r) then ok CompletionRejected
              else answer Recorded CompletionRejected
                (next_do (mark_sender_completed_and_emit now (ct_transfer_id c)) (ok ())))
      | _ \<Rightarrow> ok CompletionRejected))"

section \<open>runtime/targeted.rs: the user's answer and protocol ids\<close>

datatype offer_response = RespondApproved string | RespondDeclined | AlreadySettled string

datatype respond_outcome = RespondDone "vnidrop_error + offer_response" | RespondWait string nat

text \<open>What \<open>respond_to_targeted_offer\<close> makes of the inbox's answer.\<close>

definition conclude_response ::
    "string \<Rightarrow> respond_error + string option \<Rightarrow> ('z world_scheme, offer_response) proc" where
  "conclude_response tid r = (case r of
      Inr (Some _) \<Rightarrow> bind (get_row tid) (\<lambda>found. case found of
          Some row \<Rightarrow>
            if tr_role row = Receiver \<and> tr_state row = Approved \<and> tr_secret_handle row \<noteq> None
            then ok (RespondApproved tid)
            else err (Internal ''receiver acknowledged authorization without durable custody'')
        | None \<Rightarrow> err (Internal ''receiver acknowledged authorization without durable custody''))
    | Inr None \<Rightarrow> next_do (clear_accepted_offer_intent tid) (ok RespondDeclined)
    | Inl UnknownOffer \<Rightarrow> err (InvalidInput ''unknown targeted offer'')
    | Inl SenderGone \<Rightarrow> err (DeviceUnavailable ''sender disconnected before approval completed'')
    | Inl AuthorizationTimeout \<Rightarrow> err (OfferTimeout ''authorization was not delivered in time''))"

definition row_settles :: "row \<Rightarrow> bool" where
  "row_settles r \<longleftrightarrow> is_resumable (tr_state r) \<or> is_terminal (tr_state r)"

text \<open>The call up to the point where it may wait for the authorization.\<close>

definition answer_offer :: "int \<Rightarrow> string \<Rightarrow> bool \<Rightarrow> ('z world_scheme, respond_outcome) proc" where
  "answer_offer now tid accepted =
     next_do (if accepted
        then bind (gets (\<lambda>s. find_pending tid (w_inbox s))) (\<lambda>found. case found of
            None \<Rightarrow> err (InvalidInput ''unknown targeted offer'')
          | Some ofr \<Rightarrow> persist_accepted_offer_intent now ofr)
        else ok ())
      (bind (with_inbox (respond now tid accepted)) (\<lambda>outcome. case outcome of
          AuthWait c \<Rightarrow> ok (RespondWait tid c)
        | AuthDone r \<Rightarrow> attempt (conclude_response tid r) (\<lambda>x. ok (RespondDone x))))"

definition respond_to_targeted_offer ::
    "menv \<Rightarrow> int \<Rightarrow> string \<Rightarrow> bool \<Rightarrow> ('z world_scheme, respond_outcome) proc" where
  "respond_to_targeted_offer e now tid accepted =
     bind (gets (\<lambda>s. is_settled tid (w_inbox s))) (\<lambda>settled.
       if settled then ok (RespondDone (Inr (AlreadySettled tid)))
       else attempt (get_row tid) (\<lambda>found. case found of
           Inr (Some r) \<Rightarrow> bind (load_authorization e r) (\<lambda>stored.
             if stored \<noteq> None \<or> row_settles r
             then ok (RespondDone (Inr (AlreadySettled tid)))
             else answer_offer now tid accepted)
         | _ \<Rightarrow> answer_offer now tid accepted))"

text \<open>The rest of the call once the wait for the authorization is over.\<close>

definition finish_respond ::
    "string \<Rightarrow> nat \<Rightarrow> bool \<Rightarrow> ('z world_scheme, offer_response option) proc" where
  "finish_respond tid c timed_out s = (case finish_auth_wait tid c timed_out (w_inbox s) of
      None \<Rightarrow> (Inr None, s)
    | Some (r, ib) \<Rightarrow>
        bind (conclude_response tid r) (\<lambda>x. ok (Some x)) (s\<lparr>w_inbox := ib\<rparr>))"

definition protocol_id_of_hash :: "u64 \<Rightarrow> u64" where
  "protocol_id_of_hash h = (let value = and h 0x7FFFFFFFFFFFFFFF in if value = 0 then 1 else value)"

end
