(* ===== verification/Targeted_Module_Facts.thy ===== *)
theory Targeted_Module_Facts
  imports Targeted_Module
begin

text \<open>
  What the operations of the targeted module keep. \<open>module_state\<close> is the interface of a
  two-state relation that every call the module makes keeps (store writes, custody, inbox,
  runtime registrations); inside it every operation of the module is shown to keep the
  relation, once. It is interpreted for the transfer graph, the key constraints, consent and the
  pending offers. On top stand the runs of the module: any interleaving of user actions, peer
  messages, restarts and changes by the other services, with the history of the offers whose
  sender proved possession and of the offers the user accepted.
\<close>

section \<open>Reads of the relationship service\<close>

lemma frame_rel_reads:
  "stable custody_frame (rel_find_row p)" "stable custody_frame (find_tombstone p g)"
  by (simp_all add: rel_find_row_def find_tombstone_def cf.stable_select)

lemma frame_require_custody: "stable custody_frame (require_custody e)"
  by (simp add: require_custody_def cf.stable_ok cf.stable_err)

lemma frame_find_saved: "stable custody_frame (find_saved p)"
  unfolding find_saved_def by (intro frame_custody frame_rel_reads)

lemma frame_require_saved: "stable custody_frame (require_saved p)"
  unfolding require_saved_def by (intro frame_custody frame_find_saved)

lemma frame_reject: "stable custody_frame (reject_replayed_generation p g)"
  unfolding reject_replayed_generation_def by (intro frame_custody frame_rel_reads)

lemma frame_verify: "stable custody_frame (verify_saved_possession e p c pr g v)"
  unfolding verify_saved_possession_def verify_issued_possession_def
  by (intro frame_custody frame_rel_reads frame_require_custody frame_find_saved frame_reject)

section \<open>Relations kept by every call\<close>

locale module_state = db_state R for R :: "'z world_scheme \<Rightarrow> 'z world_scheme \<Rightarrow> bool" +
  assumes custody: "custody_frame s t \<Longrightarrow> R s t"
    and events: "R s (s\<lparr>emitted := em\<rparr>)"
    and runtime: "R s (s\<lparr>w_active := ac, w_cancelled := ca\<rparr>)" "R s (s\<lparr>w_hashes := hs\<rparr>)"
      "R s (s\<lparr>w_access := ap\<rparr>)" "R s (s\<lparr>w_tag_faults := tf\<rparr>)" "R s (s\<lparr>w_tag_faults := tf, w_tags := tg\<rparr>)"
    and discards: "R s (s\<lparr>w_inbox := discard tid (w_inbox s)\<rparr>)"
      "R s (s\<lparr>w_inbox := discard_from ep (w_inbox s)\<rparr>)"
    and delivers: "R s (s\<lparr>w_inbox := snd (deliver_authorization tid au (w_inbox s))\<rparr>)"
    and cooldowns: "R s (s\<lparr>w_inbox := (w_inbox s)\<lparr>ib_cooldown := cd\<rparr>\<rparr>)"
    and intents: "stable R (clear_accepted_offer_intent tid)"
      "stable R (clear_accepted_intent_if_sender tid ep)"
    and writes: "tr_role row = Sender \<Longrightarrow> stable R (insert_row row)"
      "stable R (abandon_sender_preapproval tid)"
      "stable R (set_state now tid source target)" "stable R (set_state_from_any now tid target)"
      "stable R (mark_sender_completed now tid)"
      "stable R (finalize_sender_authorization_and_enqueue now tid blob handle)"
      "stable R (persist_receiver_authorization_and_consume_intent now a handle)"
      "stable R (fail_resumable_and_clear_delivery now tid)" "stable R (cancel_by_peer now ep)"
      "stable R (mark_interrupted_in_flight now)" "stable R (fail_sender_preapproval_on_restart now)"
      "stable R (complete_receiver_and_enqueue now tid bytes)"
      "stable R (clear_authorization tid)" "stable R (transition_terminal now tid target clear)"
begin

lemma stable_custody: "stable custody_frame m \<Longrightarrow> stable R m"
  by (simp add: stable_def custody)

lemma stable_emit: "stable R (emit topic kind)"
  unfolding emit_def by (rule stable_modify) (rule events)

lemma stable_lifecycle: "stable R (emit_lifecycle kind)"
  by (simp add: emit_lifecycle_def stable_emit)

lemma stable_announce: "stable R (announce kind changed)"
  unfolding announce_def by (intro stable_rules stable_lifecycle)

lemma stable_signal_cancel: "stable R (signal_cancel i)"
  unfolding signal_cancel_def by (rule stable_modify) (auto intro: refl runtime)

lemma stable_release_hashes: "stable R (release_hashes p)"
  unfolding release_hashes_def by (rule stable_modify) (rule runtime)

lemma stable_delete_tag: "stable R (delete_tag n)"
  by (auto simp: stable_def delete_tag_def Let_def intro: runtime split: list.splits option.splits)

lemma stable_on_discard: "stable R (on_inbox (discard i))" "stable R (on_inbox (discard_from p))"
  by (simp_all add: stable_def on_inbox_def with_inbox_def discards)

lemma stable_deliver: "stable R (with_inbox (deliver_authorization i x))"
  by (simp add: stable_def with_inbox_def case_prod_beta delivers)

lemma stable_cooling: "stable R (cooling n p)"
  by (simp add: stable_def cooling_def with_inbox_def case_prod_beta cooldowns)

lemma stable_strike: "stable R (strike n p)"
  by (simp add: stable_def strike_def on_inbox_def with_inbox_def cooldowns)

lemma stable_remove_secret: "stable R (remove_secret n h)"
  by (rule stable_custody) (rule frame_remove_secret)

lemma stable_require_auth_custody: "stable R (require_auth_custody e)"
  by (simp add: require_auth_custody_def stable_ok stable_err)

lemma stable_require_saved: "stable R (require_saved p)"
  by (rule stable_custody) (rule frame_require_saved)

lemma stable_load: "stable R (load ep h)" and stable_protect: "stable R (protect ep n u k m x)"
  by (rule stable_custody, rule frame_load, rule stable_custody, rule frame_protect)

lemma stable_answer: "stable R m \<Longrightarrow> stable R (answer x y m)"
  unfolding answer_def by (intro stable_rules)

lemmas module_rules = stable_rules db_rules stable_reads intents writes stable_lifecycle
  stable_announce stable_signal_cancel stable_release_hashes stable_delete_tag stable_on_discard
  stable_deliver stable_cooling stable_strike stable_remove_secret stable_require_auth_custody
  stable_require_saved stable_load stable_protect stable_answer

lemma stable_cleanup: "stable R (cleanup e n r)"
  unfolding cleanup_def by (intro module_rules stable_modify runtime)

lemma stable_persist_receiver: "stable R (persist_receiver e n u a)"
  unfolding persist_receiver_def check_existing_delivery_def by (intro module_rules)

lemma stable_protect_sender: "stable R (protect_sender e n u a)"
  unfolding protect_sender_def by (intro module_rules)

lemma stable_load_authorization: "stable R (load_authorization e r)"
  unfolding load_authorization_def by (intro module_rules)

lemma stable_register_sender: "tr_role r = Sender \<Longrightarrow> stable R (register_sender n r)"
  unfolding register_sender_def by (intro module_rules)

lemma stable_transition: "stable R (transition n i a b ev)"
  unfolding transition_def by (intro module_rules)

lemma stable_transition_from_any: "stable R (transition_from_any n i b ev)"
  unfolding transition_from_any_def by (intro module_rules)

lemma stable_fail_resumable: "stable R (fail_resumable n i)"
  unfolding fail_resumable_def by (intro module_rules)

lemma stable_terminal: "stable R (transition_terminal_and_emit n i t c)"
  unfolding transition_terminal_and_emit_def by (intro module_rules)

lemma stable_terminate_local: "stable R (terminate_local e n i t)"
  unfolding terminate_local_def by (intro module_rules stable_cleanup stable_terminal)

lemma stable_terminate_peer: "stable R (terminate_peer e n p)"
  unfolding terminate_peer_def cancel_by_peer_and_emit_def by (intro module_rules stable_cleanup)

lemma stable_recover: "stable R (recover_in_flight e n)"
  unfolding recover_in_flight_def by (intro module_rules stable_cleanup)

lemma stable_stop_preparation: "stable R (stop_preparation e n i)"
  unfolding stop_preparation_def by (intro module_rules stable_cleanup stable_terminal)

lemma stable_cancel_from_peer: "stable R (cancel_from_peer e n p i)"
  unfolding cancel_from_peer_def by (intro module_rules stable_cleanup)

lemma stable_mark_completed: "stable R (mark_sender_completed_and_emit n i)"
  unfolding mark_sender_completed_and_emit_def by (intro module_rules)

lemma stable_begin_receive: "stable R (begin_receive n i st)"
  unfolding begin_receive_def by (intro module_rules stable_transition)

lemma stable_complete_receiver: "stable R (complete_receiver n i v)"
  unfolding complete_receiver_def by (intro module_rules)

lemma stable_interrupt: "stable R (interrupt_receive n i)"
  unfolding interrupt_receive_def by (intro module_rules)

lemma stable_handle_authorization: "stable R (handle_authorization e n u p d)"
  unfolding handle_authorization_def by (intro module_rules stable_persist_receiver)

lemma stable_handle_cancel: "stable R (handle_cancel e n p c)"
  unfolding handle_cancel_def by (intro module_rules stable_cancel_from_peer)

lemma stable_handle_completion: "stable R (handle_completion e n p c)"
  unfolding handle_completion_def by (intro module_rules stable_mark_completed)

lemma stable_conclude: "stable R (conclude_response i x)"
  unfolding conclude_response_def
  by (auto intro!: module_rules split: sum.splits option.splits respond_error.splits)

end

section \<open>The relations\<close>

text \<open>The store's methods change nothing above the database.\<close>

definition above_kept :: "'z db_scheme \<Rightarrow> 'z db_scheme \<Rightarrow> bool" where
  "above_kept s t \<longleftrightarrow> db.more t = db.more s"

interpretation ab: db_state above_kept
  by unfold_locales (auto simp: above_kept_def)

lemma above_intents:
  "stable above_kept (clear_accepted_offer_intent i)"
  "stable above_kept (clear_accepted_intent_if_sender i p)"
  unfolding clear_accepted_offer_intent_def clear_accepted_intent_if_sender_def
  by (rule ab.stable_exec, simp add: above_kept_def)+

lemma above_persist_intent: "stable above_kept (persist_accepted_offer_intent n f)"
  unfolding persist_accepted_offer_intent_def
  by (rule ab.stable_transact) (auto simp: above_kept_def Let_def split: option.splits if_splits)

lemma above_sql_update: "stable above_kept (sql_update P u)"
  by (rule ab.stable_sql_update) (simp add: above_kept_def)

lemma above_set_state: "stable above_kept (set_state n i a b)"
  unfolding set_state_def by (intro ab.stable_rules above_sql_update)

lemma above_set_state_from_any: "stable above_kept (set_state_from_any n i b)"
  unfolding set_state_from_any_def by (intro ab.stable_rules ab.stable_reads above_set_state)

lemma above_transactions:
  "stable above_kept (insert_row r)" "stable above_kept (abandon_sender_preapproval i)"
  "stable above_kept (mark_sender_completed n i)"
  "stable above_kept (finalize_sender_authorization_and_enqueue n i b h)"
  "stable above_kept (persist_receiver_authorization_and_consume_intent n a h)"
  "stable above_kept (fail_resumable_and_clear_delivery n i)" "stable above_kept (cancel_by_peer n p)"
  "stable above_kept (mark_interrupted_in_flight n)"
  "stable above_kept (complete_receiver_and_enqueue n i v)"
  unfolding insert_row_def abandon_sender_preapproval_def cascade_delete_def mark_sender_completed_def
    finalize_sender_authorization_and_enqueue_def persist_receiver_authorization_and_consume_intent_def
    fail_resumable_and_clear_delivery_def cancel_by_peer_def mark_interrupted_in_flight_def
    complete_receiver_and_enqueue_def
  by (rule ab.stable_transact, auto simp: above_kept_def Let_def split: if_splits)+

lemma above_fail_preapproval: "stable above_kept (fail_sender_preapproval_on_restart n)"
  unfolding fail_sender_preapproval_on_restart_def Let_def
  by (intro ab.stable_rules ab.stable_select above_sql_update)

lemma above_clear_authorization: "stable above_kept (clear_authorization i)"
  unfolding clear_authorization_def by (rule ab.stable_exec) (simp add: above_kept_def)

lemma above_transition_terminal: "stable above_kept (transition_terminal n i t c)"
  unfolding transition_terminal_def
  by (intro ab.stable_rules ab.stable_transact) (auto simp: above_kept_def Let_def)

lemmas above_writes = above_intents above_set_state above_set_state_from_any above_transactions
  above_fail_preapproval above_clear_authorization above_transition_terminal

lemma inbox_of_above: "above_kept s t \<Longrightarrow> w_inbox t = w_inbox s"
  by (cases s; cases t) (simp add: above_kept_def)

text \<open>No new pending offer.\<close>

definition pending_kept :: "'z world_scheme \<Rightarrow> 'z world_scheme \<Rightarrow> bool" where
  "pending_kept s t \<longleftrightarrow> set (ib_pending (w_inbox t)) \<subseteq> set (ib_pending (w_inbox s))"

lemma pending_kept_above: "stable above_kept m \<Longrightarrow> stable pending_kept m"
  by (simp add: stable_def pending_kept_def inbox_of_above [of s "snd (m s)" for s])

lemma inbox_of_custody: "custody_frame s t \<Longrightarrow> w_inbox t = w_inbox s"
  by (cases s; cases t) (simp add: custody_frame_def)

lemma discard_from_pending: "set (ib_pending (discard_from p ib)) \<subseteq> set (ib_pending ib)"
proof -
  have "set (ib_pending (fold discard ids ib)) \<subseteq> set (ib_pending ib)" for ids
  proof (induction ids arbitrary: ib)
    case (Cons i ids)
    then show ?case using Cons.IH [of "discard i ib"] by auto
  qed simp
  then show ?thesis by (simp add: discard_from_def)
qed

lemma deliver_pending: "ib_pending (snd (deliver_authorization i a ib)) = ib_pending ib"
  by (auto simp: deliver_authorization_def split: option.splits prod.splits)

interpretation mp: module_state pending_kept
proof unfold_locales
  fix s t :: "'z world_scheme"
  show "custody_frame s t \<Longrightarrow> pending_kept s t" by (simp add: pending_kept_def inbox_of_custody)
qed (auto simp: pending_kept_def deliver_pending intro: above_writes [THEN pending_kept_above]
      dest: discard_from_pending [THEN subsetD])

lemma frame_tables: "custody_frame s t \<Longrightarrow> same_tables s t"
  by (simp add: custody_frame_def)

interpretation mc: module_state consented
  by unfold_locales (auto intro: frame_tables co.frame consented_writes consented_insert
      simp: same_tables_def)

interpretation me: module_state evolves
  by unfold_locales (auto intro: frame_tables ev.frame evolves_rules simp: same_tables_def)

interpretation mk: module_state keys_kept
  by unfold_locales (auto intro: frame_tables kk.frame keys_rules simp: same_tables_def)

section \<open>Commands\<close>

text \<open>
  The calls that end in one step: peer messages that do not wait, the sender's and the
  receiver's operations, and maintenance. \<open>perform\<close> is the state a command leaves, whether it
  succeeds or fails.
\<close>

datatype command =
    DeliverAuthorization int string string deliver_auth
  | CancelOffer int string cancel_offer
  | CompleteTransfer int string complete_transfer
  | RegisterSender int string u64 string string string string u64 u64
  | ProtectSender int string auth
  | Transition int string TargetedTransferState TargetedTransferState string
  | TransitionFromAny int string TargetedTransferState string
  | FailResumable int string
  | TerminateLocal int string TargetedTransferState
  | TerminatePeer int string
  | RecoverInFlight int
  | StopPreparation int string
  | BeginReceive int string TargetedTransferState
  | AdvanceBytes int string u64
  | CompleteReceiver int string u64
  | InterruptReceive int string
  | ClearIntent string
  | ClearDelivery string
  | DeferDelivery string int
  | ClearCompletion string
  | DeferCompletion string int
  | ClearRelease string

fun perform :: "menv \<Rightarrow> command \<Rightarrow> 'z world_scheme \<Rightarrow> 'z world_scheme" where
  "perform e (DeliverAuthorization now uuid remote d) s = snd (handle_authorization e now uuid remote d s)"
| "perform e (CancelOffer now remote c) s = snd (handle_cancel e now remote c s)"
| "perform e (CompleteTransfer now remote c) s = snd (handle_completion e now remote c s)"
| "perform e (RegisterSender now uuid pid sender receiver h name n bytes) s =
     snd (register_sender now (sender_row now uuid pid sender receiver h name n bytes) s)"
| "perform e (ProtectSender now uuid a) s = snd (protect_sender e now uuid a s)"
| "perform e (Transition now tid source target ev) s = snd (transition now tid source target ev s)"
| "perform e (TransitionFromAny now tid target ev) s = snd (transition_from_any now tid target ev s)"
| "perform e (FailResumable now tid) s = snd (fail_resumable now tid s)"
| "perform e (TerminateLocal now tid target) s = snd (terminate_local e now tid target s)"
| "perform e (TerminatePeer now peer) s = snd (terminate_peer e now peer s)"
| "perform e (RecoverInFlight now) s = snd (recover_in_flight e now s)"
| "perform e (StopPreparation now tid) s = snd (stop_preparation e now tid s)"
| "perform e (BeginReceive now tid source) s = snd (begin_receive now tid source s)"
| "perform e (AdvanceBytes now tid bytes) s = snd (advance_verified_bytes now tid bytes s)"
| "perform e (CompleteReceiver now tid bytes) s = snd (complete_receiver now tid bytes s)"
| "perform e (InterruptReceive now tid) s = snd (interrupt_receive now tid s)"
| "perform e (ClearIntent tid) s = snd (clear_accepted_offer_intent tid s)"
| "perform e (ClearDelivery tid) s = snd (clear_pending_authorization_delivery tid s)"
| "perform e (DeferDelivery tid at) s = snd (defer_pending_authorization_delivery tid at s)"
| "perform e (ClearCompletion tid) s = snd (clear_pending_completion tid s)"
| "perform e (DeferCompletion tid at) s = snd (defer_pending_completion tid at s)"
| "perform e (ClearRelease tid) s = snd (clear_pending_payload_release tid s)"

locale module_commands = module_state R for R :: "'z world_scheme \<Rightarrow> 'z world_scheme \<Rightarrow> bool" +
  assumes progress: "stable R (advance_verified_bytes now tid bytes)"
    and outboxes: "stable R (clear_pending_authorization_delivery tid)"
      "stable R (defer_pending_authorization_delivery tid at)"
      "stable R (clear_pending_completion tid)" "stable R (defer_pending_completion tid at)"
      "stable R (clear_pending_payload_release tid)"
begin

lemma kept: "stable R m \<Longrightarrow> R s (snd (m s))"
  by (simp add: stable_def)

lemma perform_keeps: "R s (perform e c s)"
  by (cases c) (simp_all add: kept progress outboxes intents stable_handle_authorization
    stable_handle_cancel stable_handle_completion stable_register_sender sender_row_def
    stable_protect_sender stable_transition stable_transition_from_any stable_fail_resumable
    stable_terminate_local stable_terminate_peer stable_recover stable_stop_preparation
    stable_begin_receive stable_complete_receiver stable_interrupt)

end

lemma above_outboxes:
  "stable above_kept (clear_pending_authorization_delivery i)"
  "stable above_kept (defer_pending_authorization_delivery i a)"
  "stable above_kept (clear_pending_completion i)" "stable above_kept (defer_pending_completion i a)"
  "stable above_kept (clear_pending_payload_release i)"
  unfolding store_outbox_defs by (rule ab.stable_exec, simp add: above_kept_def)+

lemma above_advance: "stable above_kept (advance_verified_bytes n i v)"
  unfolding advance_verified_bytes_def by (intro ab.stable_rules above_sql_update)

interpretation mp: module_commands pending_kept
  by unfold_locales (intro pending_kept_above above_outboxes above_advance)+

interpretation mc: module_commands consented
  by unfold_locales (intro consented_writes)+

interpretation me: module_commands evolves
  by unfold_locales (intro evolves_rules)+

interpretation mk: module_commands keys_kept
  by unfold_locales (intro keys_rules)+

end
