(* ===== verification/Targeted_Runs.thy ===== *)
theory Targeted_Runs
  imports Targeted_Module_Facts
begin

text \<open>
  Runs of the targeted module: any interleaving of offers, answers of the user, commands,
  changes made by the other services and restarts (which empty the inbox and keep the
  database). A run records the offers whose sender proved possession of its grant and the
  offers the user accepted. \<open>traced\<close> is the invariant of runs: every pending offer was proved,
  every durable consent is the user's acceptance of such an offer, and every receiver row
  stems from such a consent.
\<close>

section \<open>Steps\<close>

record module_run =
  mr_world :: world
  mr_verified :: "offer set"
  mr_accepted :: "offer set"

definition offer_shown :: "menv \<Rightarrow> string \<Rightarrow> string \<Rightarrow> submit_offer \<Rightarrow> 'z relations_scheme \<Rightarrow> bool" where
  "offer_shown e remote challenge w s \<longleftrightarrow>
     possession_shown (me_rel e) remote challenge (so_proof w) (so_generation w)
       (so_relationship_protocol_version w) s"

definition chosen_offer :: "string \<Rightarrow> bool \<Rightarrow> 'z world_scheme \<Rightarrow> offer set" where
  "chosen_offer tid accepted s = (if accepted then set_option (find_pending tid (w_inbox s)) else {})"

inductive module_step :: "menv \<Rightarrow> module_run \<Rightarrow> module_run \<Rightarrow> bool" for e :: menv where
  offer: "s' = snd (handle_offer e now remote challenge w (mr_world r)) \<Longrightarrow>
    new = (if offer_shown e remote challenge w (mr_world r)
           then {pending_of_wire e now remote w} else {}) \<Longrightarrow>
    module_step e r (r\<lparr>mr_world := s', mr_verified := mr_verified r \<union> new\<rparr>)"
| offer_done: "s' = snd (finish_offer tid c k timed_out (mr_world r)) \<Longrightarrow>
    module_step e r (r\<lparr>mr_world := s'\<rparr>)"
| answered: "s' = snd (respond_to_targeted_offer e now tid accepted (mr_world r)) \<Longrightarrow>
    module_step e r (r\<lparr>mr_world := s',
      mr_accepted := mr_accepted r \<union> chosen_offer tid accepted (mr_world r)\<rparr>)"
| answer_done: "s' = snd (finish_respond tid c timed_out (mr_world r)) \<Longrightarrow>
    module_step e r (r\<lparr>mr_world := s'\<rparr>)"
| performed: "module_step e r (r\<lparr>mr_world := perform e cmd (mr_world r)\<rparr>)"
| elsewhere: "same_tables (mr_world r) s' \<Longrightarrow> w_inbox s' = w_inbox (mr_world r) \<Longrightarrow>
    module_step e r (r\<lparr>mr_world := s'\<rparr>)"
| restarted: "module_step e r (r\<lparr>mr_world := (mr_world r)\<lparr>w_inbox := new_inbox m cd\<rparr>\<rparr>)"

definition fresh_run :: "world \<Rightarrow> module_run" where
  "fresh_run s = \<lparr>mr_world = s, mr_verified = {}, mr_accepted = {}\<rparr>"

definition no_receivers :: "world \<Rightarrow> bool" where
  "no_receivers s \<longleftrightarrow> ib_pending (w_inbox s) = [] \<and> accepted_offer_intents s = [] \<and>
     (\<forall>r \<in> set (targeted_transfers s). tr_role r = Sender)"

definition module_reachable :: "menv \<Rightarrow> world \<Rightarrow> module_run \<Rightarrow> bool" where
  "module_reachable e s r \<longleftrightarrow> (module_step e)\<^sup>*\<^sup>* (fresh_run s) r"

section \<open>The invariant\<close>

definition intent_from :: "offer \<Rightarrow> intent \<Rightarrow> bool" where
  "intent_from ofr i \<longleftrightarrow>
     in_transfer_id i = po_transfer_id ofr \<and> intents_agree i (intent_of_offer 0 ofr)"

definition row_from :: "offer \<Rightarrow> row \<Rightarrow> bool" where
  "row_from ofr r \<longleftrightarrow>
     tr_id r = po_transfer_id ofr \<and> tr_sender_endpoint_id r = po_sender_endpoint_id ofr \<and>
     tr_receiver_endpoint_id r = po_receiver_endpoint_id ofr \<and>
     tr_manifest_id r = po_manifest_id ofr \<and> tr_content_hash r = po_content_hash ofr \<and>
     tr_transfer_name r = po_transfer_name ofr \<and> tr_file_count r = po_file_count ofr \<and>
     tr_total_size r = po_total_size ofr"

definition traced :: "module_run \<Rightarrow> bool" where
  "traced r \<longleftrightarrow>
     set (ib_pending (w_inbox (mr_world r))) \<subseteq> mr_verified r \<and> mr_accepted r \<subseteq> mr_verified r \<and>
     (\<forall>i \<in> set (accepted_offer_intents (mr_world r)). \<exists>ofr \<in> mr_accepted r. intent_from ofr i) \<and>
     (\<forall>q \<in> set (targeted_transfers (mr_world r)). tr_role q = Receiver \<longrightarrow>
        (\<exists>ofr \<in> mr_accepted r. row_from ofr q))"

lemma row_from_intent: "intent_from ofr i \<Longrightarrow> intent_matches_row q i \<Longrightarrow> row_from ofr q"
  by (simp add: intent_from_def intents_agree_def intent_of_offer_def intent_matches_row_def row_from_def)

lemma row_from_same: "same_identity p q \<Longrightarrow> row_from ofr p \<longleftrightarrow> row_from ofr q"
  by (auto simp: same_identity_def row_from_def)

lemma traced_world:
  assumes traced: "traced r" and consent: "consented (mr_world r) s" and pending: "pending_kept (mr_world r) s"
  shows "traced (r\<lparr>mr_world := s\<rparr>)"
  unfolding traced_def
proof (intro conjI ballI impI)
  show "set (ib_pending (w_inbox (mr_world (r\<lparr>mr_world := s\<rparr>)))) \<subseteq> mr_verified (r\<lparr>mr_world := s\<rparr>)"
    using traced pending by (auto simp: traced_def pending_kept_def)
  show "mr_accepted (r\<lparr>mr_world := s\<rparr>) \<subseteq> mr_verified (r\<lparr>mr_world := s\<rparr>)"
    using traced by (simp add: traced_def)
next
  fix i assume "i \<in> set (accepted_offer_intents (mr_world (r\<lparr>mr_world := s\<rparr>)))"
  then have "i \<in> set (accepted_offer_intents (mr_world r))"
    using consent unfolding consented_def by auto
  then show "\<exists>ofr \<in> mr_accepted (r\<lparr>mr_world := s\<rparr>). intent_from ofr i"
    using traced by (simp add: traced_def)
next
  fix q assume q: "q \<in> set (targeted_transfers (mr_world (r\<lparr>mr_world := s\<rparr>)))" "tr_role q = Receiver"
  have "(\<exists>p \<in> set (targeted_transfers (mr_world r)). same_identity p q) \<or>
      (\<exists>i \<in> set (accepted_offer_intents (mr_world r)). intent_matches_row q i)"
    using consent q unfolding consented_def by simp
  then have "\<exists>ofr \<in> mr_accepted r. row_from ofr q"
  proof (elim disjE bexE)
    fix p assume p: "p \<in> set (targeted_transfers (mr_world r))" and same: "same_identity p q"
    have "tr_role p = Receiver" using same q(2) by (simp add: same_identity_def)
    with traced p obtain ofr where "ofr \<in> mr_accepted r" "row_from ofr p"
      unfolding traced_def by blast
    then show ?thesis using row_from_same [OF same] by blast
  next
    fix i assume i: "i \<in> set (accepted_offer_intents (mr_world r))" and m: "intent_matches_row q i"
    with traced obtain ofr where "ofr \<in> mr_accepted r" "intent_from ofr i"
      unfolding traced_def by blast
    then show ?thesis using row_from_intent m by blast
  qed
  then show "\<exists>ofr \<in> mr_accepted (r\<lparr>mr_world := s\<rparr>). row_from ofr q" by simp
qed

lemma traced_more:
  "traced r \<Longrightarrow> mr_verified r \<subseteq> v \<Longrightarrow> mr_accepted r \<subseteq> a \<Longrightarrow> a \<subseteq> v \<Longrightarrow>
   traced (r\<lparr>mr_verified := v, mr_accepted := a\<rparr>)"
  unfolding traced_def by fastforce

section \<open>Offers\<close>

lemma join_wait_pending: "ib_pending (snd (join_wait i own ib)) = ib_pending ib"
  by (simp add: join_wait_def drop_own_def split: option.split)

lemma submit_check_pending: "ib_pending (snd (submit_check n p ib)) = ib_pending ib"
  by (simp add: submit_check_def Let_def split: prod.split option.split)

lemma submit_adds: "set (ib_pending (snd (submit n p ib))) \<subseteq> insert p (set (ib_pending ib))"
proof (cases "submit_check n p ib")
  case (Pair out ib1)
  then have "ib_pending ib1 = ib_pending ib" using submit_check_pending [of n p ib] by simp
  then show ?thesis
    using Pair by (auto simp: submit_def submit_insert_def register_decision_def join_wait_pending Let_def
        split: submit_check_result.split option.split)
qed

text \<open>\<open>can_admit\<close>: no new pending offer, or the one new offer was proved in state \<open>s\<close>.\<close>

lemma possession_shown_cong:
  "device_relationships t = device_relationships s \<Longrightarrow>
   generation_tombstones t = generation_tombstones s \<Longrightarrow> vs_values t = vs_values s \<Longrightarrow>
   possession_shown e p c pr g v t \<longleftrightarrow> possession_shown e p c pr g v s"
  by (simp add: possession_shown_def is_tombstoned_def)

lemma strike_refuse_pending: "pending_kept s (snd (strike_refuse n p reason s))"
  unfolding strike_refuse_def refuse_def by (rule mp.kept) (intro mp.module_rules)

lemma submit_pending_adds:
  "set (ib_pending (w_inbox (snd (submit_pending n p s)))) \<subseteq> insert p (set (ib_pending (w_inbox s)))"
  using submit_adds [of n p "w_inbox s"]
  by (auto simp: submit_pending_def with_inbox_def proc_defs split: prod.splits submit_outcome.splits)

lemma admit_offer_pending:
  "pending_kept s (snd (admit_offer e n p c w s)) \<or>
   (offer_shown e p c w s \<and> set (ib_pending (w_inbox (snd (admit_offer e n p c w s))))
      \<subseteq> insert (pending_of_wire e n p w) (set (ib_pending (w_inbox s))))"
proof (cases "\<exists>urls. parse_offer_relay_urls e (so_relay_urls w) = Some urls \<and>
    relay_profiles_compatible (me_relay_mode e) (me_custom_relay_urls e) (so_relay_mode w) urls")
  case False
  then show ?thesis
    by (auto simp: admit_offer_def refuse_def ok_def mp.refl split: option.splits)
next
  case True
  obtain r t where v: "verify_saved_possession (me_rel e) p c (so_proof w) (so_generation w)
      (so_relationship_protocol_version w) s = (r, t)"
    by (cases "verify_saved_possession (me_rel e) p c (so_proof w) (so_generation w)
      (so_relationship_protocol_version w) s")
  have st: "pending_kept s t" by (rule stableD [OF mp.stable_custody [OF frame_verify] v])
  show ?thesis
  proof (cases r)
    case (Inl x)
    have "pending_kept s (snd (strike_refuse n p (proof_refusal x) t))"
      by (rule mp.trans [OF st strike_refuse_pending])
    then show ?thesis using True v Inl by (auto simp: admit_offer_def attempt_def)
  next
    case (Inr u)
    have "offer_shown e p c w s"
      using v Inr by (auto simp: offer_shown_def dest!: verify_savedD)
    moreover have "set (ib_pending (w_inbox (snd (admit_offer e n p c w s))))
      \<subseteq> insert (pending_of_wire e n p w) (set (ib_pending (w_inbox s)))"
      using True v Inr st submit_pending_adds [of n "pending_of_wire e n p w" t]
      by (auto simp: admit_offer_def attempt_def pending_kept_def)
    ultimately show ?thesis by blast
  qed
qed

lemma handle_offer_pending:
  "pending_kept s (snd (handle_offer e n p c w s)) \<or>
   (offer_shown e p c w s \<and> set (ib_pending (w_inbox (snd (handle_offer e n p c w s))))
      \<subseteq> insert (pending_of_wire e n p w) (set (ib_pending (w_inbox s))))"
proof -
  obtain hot s1 where c1: "cooling n p s = (Inr hot, s1)"
    by (cases "is_cooling n p (ib_cooldown (w_inbox s))") (auto simp: cooling_def with_inbox_def)
  have s1: "pending_kept s s1" by (rule stableD [OF mp.stable_cooling c1])
  obtain r s2 where g: "get_row (so_transfer_id w) s1 = (r, s2)" by (cases "get_row (so_transfer_id w) s1")
  have s2: "pending_kept s s2" by (rule mp.trans [OF s1 stableD [OF mp.stable_reads(5) g]])
  have same: "device_relationships s2 = device_relationships s"
    "generation_tombstones s2 = generation_tombstones s" "vs_values s2 = vs_values s"
    "w_inbox s2 = w_inbox s1"
    using c1 g by (auto simp: cooling_def with_inbox_def get_row_def select_def transact_def Let_def
        split: prod.splits list.splits option.splits)
  have shown: "offer_shown e p c w s2 \<longleftrightarrow> offer_shown e p c w s"
    unfolding offer_shown_def by (rule possession_shown_cong) (fact same)+
  have refused: "pending_kept s (snd (strike_refuse n p reason s1))" for reason
    by (rule mp.trans [OF s1 strike_refuse_pending])
  have admitted: "pending_kept s (snd (admit_offer e n p c w s2)) \<or>
   (offer_shown e p c w s \<and> set (ib_pending (w_inbox (snd (admit_offer e n p c w s2))))
      \<subseteq> insert (pending_of_wire e n p w) (set (ib_pending (w_inbox s))))"
    using admit_offer_pending [of s2 e n p c w] shown s2
    by (meson insert_mono mp.trans order_trans pending_kept_def)
  show ?thesis
    using c1 g s1 s2 refused admitted
    by (auto simp: handle_offer_def bind_def attempt_def refuse_def ok_def
        split: sum.splits option.splits)
qed

lemma stable_cooling_tables: "stable same_tables (cooling n p)"
  by (simp add: stable_def cooling_def with_inbox_def case_prod_beta same_tables_def)

lemma stable_strike_refuse_tables: "stable same_tables (strike_refuse n p x)"
  by (simp add: stable_def strike_refuse_def refuse_def strike_def on_inbox_def with_inbox_def
      proc_defs same_tables_def)

lemma stable_submit_tables: "stable same_tables (submit_pending n p)"
  by (auto simp: stable_def submit_pending_def with_inbox_def proc_defs same_tables_def
      split: prod.splits submit_outcome.splits)

lemma tables_handle_offer: "stable same_tables (handle_offer e n p c w)"
  unfolding handle_offer_def admit_offer_def refuse_def
  by (intro tb.stable_rules tb.stable_reads stable_cooling_tables stable_strike_refuse_tables
      stable_submit_tables tables_verify_saved)

lemma handle_offer_traced:
  assumes "traced r"
  shows "traced (r\<lparr>mr_world := snd (handle_offer e n p c w (mr_world r)),
    mr_verified := mr_verified r \<union>
      (if offer_shown e p c w (mr_world r) then {pending_of_wire e n p w} else {})\<rparr>)"
    (is "traced (r\<lparr>mr_world := ?s, mr_verified := ?v\<rparr>)")
proof -
  have tables: "same_tables (mr_world r) ?s" using tables_handle_offer [of e n p c w] unfolding stable_def by blast
  have "set (ib_pending (w_inbox ?s)) \<subseteq> ?v"
    using handle_offer_pending [of "mr_world r" e n p c w] assms
    by (auto simp: traced_def pending_kept_def)
  then show ?thesis using assms tables by (auto simp: traced_def same_tables_def)
qed

section \<open>Answers\<close>

lemma intent_kept_from:
  "in_transfer_id i = in_transfer_id j \<Longrightarrow> intents_agree i j \<Longrightarrow> intent_from ofr j \<Longrightarrow> intent_from ofr i"
  by (simp add: intent_from_def intents_agree_def)

lemma update_accepted_at:
  assumes "i \<in> set (update_where P (\<lambda>q. q\<lparr>in_accepted_at := n\<rparr>) rows)"
  obtains j where "j \<in> set rows" and "in_transfer_id i = in_transfer_id j" and "intents_agree i j"
proof -
  from assms obtain j where j: "j \<in> set rows" "i = (if P j then j\<lparr>in_accepted_at := n\<rparr> else j)"
    unfolding set_update_where by blast
  then have "in_transfer_id i = in_transfer_id j" "intents_agree i j"
    by (auto simp: intents_agree_def)
  with j(1) that show ?thesis by blast
qed

lemma persist_intentD:
  assumes p: "persist_accepted_offer_intent n ofr s = (r, t)"
  shows "targeted_transfers t = targeted_transfers s" and "above_kept s t"
    and "i \<in> set (accepted_offer_intents t) \<Longrightarrow> intent_from ofr i \<or>
      (\<exists>j \<in> set (accepted_offer_intents s). in_transfer_id i = in_transfer_id j \<and> intents_agree i j)"
proof -
  show "above_kept s t" by (rule stableD [OF above_persist_intent p])
  let ?P = "\<lambda>q. in_transfer_id q = in_transfer_id (intent_of_offer n ofr)"
  have shape: "targeted_transfers t = targeted_transfers s \<and>
    (accepted_offer_intents t = accepted_offer_intents s \<or>
     accepted_offer_intents t = accepted_offer_intents s @ [intent_of_offer n ofr] \<or>
     accepted_offer_intents t = update_where ?P (\<lambda>q. q\<lparr>in_accepted_at := n\<rparr>) (accepted_offer_intents s))"
    using p unfolding persist_accepted_offer_intent_def transact_def
    by (auto simp: Let_def split: list.splits option.splits if_splits)
  then show "targeted_transfers t = targeted_transfers s" by simp
  assume i: "i \<in> set (accepted_offer_intents t)"
  from shape [THEN conjunct2] show "intent_from ofr i \<or>
      (\<exists>j \<in> set (accepted_offer_intents s). in_transfer_id i = in_transfer_id j \<and> intents_agree i j)"
  proof (elim disjE)
    assume "accepted_offer_intents t = accepted_offer_intents s"
    then show ?thesis using i by (auto simp: intents_agree_def)
  next
    assume "accepted_offer_intents t = accepted_offer_intents s @ [intent_of_offer n ofr]"
    then show ?thesis
      using i by (auto simp: intents_agree_def intent_from_def intent_of_offer_def)
  next
    assume "accepted_offer_intents t =
      update_where ?P (\<lambda>q. q\<lparr>in_accepted_at := n\<rparr>) (accepted_offer_intents s)"
    then show ?thesis using i by (auto elim: update_accepted_at)
  qed
qed

lemma respond_pending: "set (ib_pending (snd (respond n i b ib))) \<subseteq> set (ib_pending ib)"
proof -
  have live: "ib_pending (snd (accept_live i ib)) = ib_pending ib"
    by (auto simp: accept_live_def open_auth_def Let_def split: option.splits prod.splits bool.splits)
  have wait: "ib_pending (snd (wait_for_authorization i ib')) = ib_pending ib'" for ib'
    by (auto simp: wait_for_authorization_def split: option.splits)
  show ?thesis
    using live wait by (auto simp: respond_def Let_def split: option.splits sum.splits prod.splits)
qed

lemma finish_wait_pending:
  "finish_wait i c k b ib = Some (d, ib') \<Longrightarrow> set (ib_pending ib') \<subseteq> set (ib_pending ib)"
  by (auto simp: finish_wait_def release_def drop_own_def Let_def split: option.splits bool.splits if_splits)

lemma finish_auth_pending:
  "finish_auth_wait i c b ib = Some (d, ib') \<Longrightarrow> set (ib_pending ib') \<subseteq> set (ib_pending ib)"
  by (auto simp: finish_auth_wait_def Let_def split: option.splits if_splits)

definition consent_added :: "offer set \<Rightarrow> 'z world_scheme \<Rightarrow> 'z world_scheme \<Rightarrow> bool" where
  "consent_added chosen s u \<longleftrightarrow>
     targeted_transfers u = targeted_transfers s \<and> w_inbox u = w_inbox s \<and>
     (\<forall>i \<in> set (accepted_offer_intents u). (\<exists>ofr \<in> chosen. intent_from ofr i) \<or>
        (\<exists>j \<in> set (accepted_offer_intents s). in_transfer_id i = in_transfer_id j \<and> intents_agree i j))"

lemma consent_added_same:
  "same_tables s u \<Longrightarrow> w_inbox u = w_inbox s \<Longrightarrow> consent_added c s u"
  by (auto simp: consent_added_def same_tables_def intents_agree_def)

lemma with_respond_kept:
  "stable pending_kept (with_inbox (respond n i b))" "stable consented (with_inbox (respond n i b))"
proof -
  show "stable pending_kept (with_inbox (respond n i b))"
    using respond_pending by (simp add: stable_def with_inbox_def case_prod_beta pending_kept_def)
  show "stable consented (with_inbox (respond n i b))"
    by (rule co.stable_frame) (simp add: stable_def with_inbox_def case_prod_beta same_tables_def)
qed

lemma answer_offer_effect:
  "\<exists>u. consent_added (chosen_offer i b s) s u \<and> consented u (snd (answer_offer n i b s)) \<and>
     pending_kept u (snd (answer_offer n i b s))"
proof -
  let ?A = "if b then bind (gets (\<lambda>s. find_pending i (w_inbox s))) (\<lambda>found. case found of
            None \<Rightarrow> err (InvalidInput ''unknown targeted offer'')
          | Some ofr \<Rightarrow> persist_accepted_offer_intent n ofr)
        else ok ()"
  let ?B = "bind (with_inbox (respond n i b)) (\<lambda>outcome. case outcome of
          AuthWait c \<Rightarrow> ok (RespondWait i c)
        | AuthDone r \<Rightarrow> attempt (conclude_response i r) (\<lambda>x. ok (RespondDone x)))"
  obtain r u where a: "?A s = (r, u)" by (cases "?A s")
  have "consent_added (chosen_offer i b s) s u"
  proof (cases "b \<and> find_pending i (w_inbox s) \<noteq> None")
    case True
    then obtain ofr where ofr: "find_pending i (w_inbox s) = Some ofr" by blast
    with a True have p: "persist_accepted_offer_intent n ofr s = (r, u)"
      by (simp add: bind_def gets_def)
    have "w_inbox u = w_inbox s" by (rule inbox_of_above) (rule persist_intentD(2) [OF p])
    then show ?thesis
      using True ofr persist_intentD(1,3) [OF p] by (auto simp: consent_added_def chosen_offer_def)
  next
    case False
    with a have "u = s" by (auto simp: proc_defs split: if_splits option.splits)
    then show ?thesis by (simp add: consent_added_same tb.refl)
  qed
  moreover have "consented u (snd (?B u))"
    by (rule mc.kept) (auto intro!: mc.module_rules with_respond_kept mc.stable_conclude
        split: auth_outcome.split)
  moreover have "pending_kept u (snd (?B u))"
    by (rule mp.kept) (auto intro!: mp.module_rules with_respond_kept mp.stable_conclude
        split: auth_outcome.split)
  moreover have "snd (answer_offer n i b s) = (case r of Inl e \<Rightarrow> u | Inr _ \<Rightarrow> snd (?B u))"
    unfolding answer_offer_def next_do_def using a by (auto simp: bind_def [of ?A] split: sum.split)
  ultimately show ?thesis by (cases r) (auto intro: co.refl mp.refl)
qed

lemma consent_added_from:
  "same_tables s s1 \<Longrightarrow> w_inbox s1 = w_inbox s \<Longrightarrow> consent_added c s1 u \<Longrightarrow> consent_added c s u"
  by (simp add: consent_added_def same_tables_def)

lemma frame_load_authorization: "stable custody_frame (load_authorization e r)"
  unfolding load_authorization_def require_auth_custody_def by (intro frame_custody)

lemma respond_effect:
  "\<exists>u. consent_added (chosen_offer i b s) s u \<and>
     consented u (snd (respond_to_targeted_offer e n i b s)) \<and>
     pending_kept u (snd (respond_to_targeted_offer e n i b s))"
proof (cases "is_settled i (w_inbox s)")
  case True
  then show ?thesis
    by (auto simp: respond_to_targeted_offer_def bind_def gets_def ok_def
        intro!: exI [of _ s] consent_added_same tb.refl co.refl mp.refl)
next
  case False
  obtain found s1 where g: "get_row i s = (found, s1)" by (cases "get_row i s")
  have s1: "same_tables s s1" "w_inbox s1 = w_inbox s"
    using stableD [OF tb.stable_reads(5) g] stableD [OF ab.stable_reads(5) g]
    by (auto intro: inbox_of_above)
  have answered: "\<exists>u. consent_added (chosen_offer i b s) s u \<and>
      consented u (snd (answer_offer n i b s')) \<and> pending_kept u (snd (answer_offer n i b s'))"
    if "same_tables s s'" and "w_inbox s' = w_inbox s" for s'
  proof -
    have "chosen_offer i b s' = chosen_offer i b s" using that by (simp add: chosen_offer_def)
    with answer_offer_effect [of i b s' n] show ?thesis by (auto intro: consent_added_from [OF that])
  qed
  show ?thesis
  proof (cases "\<exists>row. found = Inr (Some row)")
    case False
    then have "snd (respond_to_targeted_offer e n i b s) = snd (answer_offer n i b s1)"
      using \<open>\<not> is_settled i (w_inbox s)\<close> g
      by (auto simp: respond_to_targeted_offer_def bind_def gets_def attempt_def
          split: sum.splits option.splits)
    with answered [OF s1] show ?thesis by simp
  next
    case True
    then obtain row where row: "found = Inr (Some row)" by blast
    obtain st s2 where l: "load_authorization e row s1 = (st, s2)" by (cases "load_authorization e row s1")
    have "custody_frame s1 s2" by (rule stableD [OF frame_load_authorization l])
    then have s2: "same_tables s s2" "w_inbox s2 = w_inbox s"
      using s1 by (auto simp: inbox_of_custody intro: tb.trans frame_tables)
    have "snd (respond_to_targeted_offer e n i b s) \<in> {s2, snd (answer_offer n i b s2)}"
      using \<open>\<not> is_settled i (w_inbox s)\<close> g row l
      by (auto simp: respond_to_targeted_offer_def bind_def gets_def attempt_def ok_def
          split: sum.splits option.splits)
    then show ?thesis
    proof (elim insertE emptyE)
      assume "snd (respond_to_targeted_offer e n i b s) = s2"
      then show ?thesis using s2 by (auto intro!: exI [of _ s2] consent_added_same co.refl mp.refl)
    next
      assume "snd (respond_to_targeted_offer e n i b s) = snd (answer_offer n i b s2)"
      then show ?thesis using answered [OF s2] by simp
    qed
  qed
qed

lemma respond_traced:
  assumes traced: "traced r"
  shows "traced (r\<lparr>mr_world := snd (respond_to_targeted_offer e n i b (mr_world r)),
    mr_accepted := mr_accepted r \<union> chosen_offer i b (mr_world r)\<rparr>)"
proof -
  let ?c = "chosen_offer i b (mr_world r)"
  obtain u where u: "consent_added ?c (mr_world r) u"
    and kept: "consented u (snd (respond_to_targeted_offer e n i b (mr_world r)))"
      "pending_kept u (snd (respond_to_targeted_offer e n i b (mr_world r)))"
    using respond_effect [of i b "mr_world r" e n] by blast
  have chosen: "?c \<subseteq> mr_verified r"
    using traced by (auto simp: chosen_offer_def find_pending_def traced_def dest: find_by_SomeD)
  have swap: "r\<lparr>mr_accepted := a, mr_world := x\<rparr> = r\<lparr>mr_world := x, mr_accepted := a\<rparr>" for a x
    by (cases r) simp
  have "traced (r\<lparr>mr_accepted := mr_accepted r \<union> ?c, mr_world := u\<rparr>)"
    using traced u chosen unfolding traced_def consent_added_def
    by (auto intro: intent_kept_from) (metis intent_kept_from UnCI)+
  then have "traced (r\<lparr>mr_accepted := mr_accepted r \<union> ?c, mr_world := u,
      mr_world := snd (respond_to_targeted_offer e n i b (mr_world r))\<rparr>)"
    by (rule traced_world) (simp_all add: kept)
  then have "traced (r\<lparr>mr_accepted := mr_accepted r \<union> ?c,
      mr_world := snd (respond_to_targeted_offer e n i b (mr_world r))\<rparr>)" by simp
  then show ?thesis by (simp only: swap)
qed

section \<open>The invariant holds in every run\<close>

lemma finish_offer_kept:
  "pending_kept s (snd (finish_offer i c k b s))" "consented s (snd (finish_offer i c k b s))"
  by (auto simp: finish_offer_def pending_kept_def same_tables_def intro!: co.frame
      dest!: finish_wait_pending split: option.split)

lemma finish_respond_kept:
  "pending_kept s (snd (finish_respond i c b s))" "consented s (snd (finish_respond i c b s))"
proof -
  have "pending_kept s (snd (finish_respond i c b s)) \<and> consented s (snd (finish_respond i c b s))"
  proof (cases "finish_auth_wait i c b (w_inbox s)")
    case None
    then show ?thesis by (simp add: finish_respond_def mp.refl)
  next
    case (Some p)
    then obtain x ib where x: "finish_auth_wait i c b (w_inbox s) = Some (x, ib)" by (cases p) simp
    let ?s = "s\<lparr>w_inbox := ib\<rparr>"
    have "pending_kept s ?s" "consented s ?s"
      using finish_auth_pending [OF x] by (auto simp: pending_kept_def same_tables_def intro: co.frame)
    moreover have "pending_kept ?s (snd (bind (conclude_response i x) (\<lambda>x. ok (Some x)) ?s))"
      by (rule mp.kept) (intro mp.module_rules mp.stable_conclude)
    moreover have "consented ?s (snd (bind (conclude_response i x) (\<lambda>x. ok (Some x)) ?s))"
      by (rule mc.kept) (intro mc.module_rules mc.stable_conclude)
    ultimately show ?thesis
      using x by (auto simp: finish_respond_def intro: mp.trans co.trans)
  qed
  then show "pending_kept s (snd (finish_respond i c b s))" "consented s (snd (finish_respond i c b s))"
    by blast+
qed

lemma module_step_traced:
  assumes "module_step e r r'" and "traced r"
  shows "traced r'"
  using assms
proof (induction rule: module_step.induct)
  case (offer s' now remote challenge w r new)
  then show ?case using handle_offer_traced by simp
next
  case (answered s' now tid accepted r)
  then show ?case using respond_traced by simp
qed (auto intro!: traced_world finish_offer_kept finish_respond_kept mc.perform_keeps mp.perform_keeps
    intro: co.frame simp: pending_kept_def same_tables_def new_inbox_def)

lemma module_reachable_traced:
  assumes "module_reachable e s r" and "no_receivers s"
  shows "traced r"
  using assms(1) unfolding module_reachable_def
proof (induction rule: rtranclp_induct)
  case base
  show ?case using assms(2) by (auto simp: traced_def fresh_run_def no_receivers_def)
next
  case (step r r')
  then show ?case by (blast intro: module_step_traced)
qed

section \<open>Relations on the tables along a run\<close>

text \<open>A relation on the tables that the recording of consent keeps too is kept by every step.\<close>

locale module_tables = module_commands R for R :: "world \<Rightarrow> world \<Rightarrow> bool" +
  assumes consent: "stable R (persist_accepted_offer_intent now ofr)"
    and tables: "same_tables s t \<Longrightarrow> R s t"
begin

lemma stable_tables: "stable same_tables m \<Longrightarrow> stable R m"
  by (simp add: stable_def tables)

lemma stable_with_inbox: "stable R (with_inbox f)"
  by (rule stable_tables) (simp add: stable_def with_inbox_def case_prod_beta same_tables_def)

lemma stable_respond: "stable R (respond_to_targeted_offer e n i b)"
  unfolding respond_to_targeted_offer_def answer_offer_def
  by (auto intro!: module_rules stable_gets stable_load_authorization consent stable_with_inbox
      stable_conclude split: auth_outcome.split)

lemma finish_offer_keeps: "R s (snd (finish_offer i c k b s))"
  by (auto simp: finish_offer_def same_tables_def intro!: tables split: option.split)

lemma finish_respond_keeps: "R s (snd (finish_respond i c b s))"
proof (cases "finish_auth_wait i c b (w_inbox s)")
  case None
  then show ?thesis by (simp add: finish_respond_def refl)
next
  case (Some p)
  then obtain x ib where x: "finish_auth_wait i c b (w_inbox s) = Some (x, ib)" by (cases p) simp
  have "R s (s\<lparr>w_inbox := ib\<rparr>)" by (rule tables) (simp add: same_tables_def)
  moreover have "R (s\<lparr>w_inbox := ib\<rparr>) (snd (bind (conclude_response i x) (\<lambda>x. ok (Some x)) (s\<lparr>w_inbox := ib\<rparr>)))"
    by (rule kept) (intro module_rules stable_conclude)
  ultimately show ?thesis using x by (auto simp: finish_respond_def intro: trans)
qed

lemma step_keeps: "module_step e r r' \<Longrightarrow> R (mr_world r) (mr_world r')"
proof (induction rule: module_step.induct)
  case (offer s' now remote challenge w r new)
  then show ?case by (simp add: kept [OF stable_tables [OF tables_handle_offer]])
next
  case (answered s' now tid accepted r)
  then show ?case by (simp add: kept [OF stable_respond])
qed (simp_all add: finish_offer_keeps finish_respond_keeps perform_keeps tables same_tables_def)

lemma run_keeps: "(module_step e)\<^sup>*\<^sup>* r r' \<Longrightarrow> R (mr_world r) (mr_world r')"
  by (induction rule: rtranclp_induct) (auto intro: refl trans step_keeps)

end

interpretation run_evolves: module_tables evolves
  by unfold_locales (intro evolves_rules ev.frame, assumption?)+

interpretation run_keys: module_tables keys_kept
  by unfold_locales (intro keys_rules kk.frame, assumption?)+

end
