(* ===== verification/Relationship_Properties.thy ===== *)
theory Relationship_Properties
  imports Relationship_Facts
begin

text \<open>
  The properties of saved-device relationships: what an accepted proof shows, that a minted and
  stored grant proves possession, that a revoked generation is rejected for ever, and that new
  generations lie above every old one.
\<close>

section \<open>Reference data\<close>

definition ref_rel_env :: "string \<Rightarrow> rel_env" where
  "ref_rel_env self = \<lparr>re_ext = ref_ext, re_public_key = (\<lambda>_. ''''), re_local_endpoint_id = self,
     re_custody = True, re_max_saved_devices = 256\<rparr>"

definition ref_grant_id :: string where
  "ref_grant_id = replicate 16 (CHR ''g'')"

definition ref_relationship :: "string \<Rightarrow> u64 \<Rightarrow> relationship" where
  "ref_relationship peer g = \<lparr>
     dr_remote_endpoint_id = peer, dr_state = Saved, dr_generation = g,
     dr_minimum_protocol_version = 2, dr_session_id = None, dr_remote_display_name = None,
     dr_last_authenticated_at = None, dr_local_label = None, dr_issued_grant_handle = None,
     dr_held_grant_handle = None, dr_issued_grant_id = None, dr_held_grant_id = None,
     dr_peer_ack = True, dr_local_ack = True, dr_created_at = 0, dr_updated_at = 0\<rparr>"

definition ref_relations :: "relationship list \<Rightarrow> relations" where
  "ref_relations rows = \<lparr>
     targeted_transfers = [], accepted_offer_intents = [], authorization_delivery_outbox = [],
     completion_outbox = [], payload_release_outbox = [], schema_migrations = [], db_faults = [],
     protected_secret_refs = [], vs_values = [], vs_corrupted = [], vs_failures = [],
     device_relationships = rows, generation_tombstones = [], emitted = []\<rparr>"

section \<open>Minting and storing a grant\<close>

abbreviation peer_row :: "string \<Rightarrow> 'z relations_scheme \<Rightarrow> relationship option" where
  "peer_row p s \<equiv> find_by dr_remote_endpoint_id p (device_relationships s)"

lemma peer_row_update:
  assumes "\<And>r. dr_remote_endpoint_id (u r) = dr_remote_endpoint_id r"
  shows "find_by dr_remote_endpoint_id p (update_where (peer_is p) u rows) =
    map_option u (find_by dr_remote_endpoint_id p rows)"
proof -
  have "find_by dr_remote_endpoint_id p (update_where (peer_is p) u rows) =
      map_option (\<lambda>r. if peer_is p r then u r else r) (find_by dr_remote_endpoint_id p rows)"
    by (rule find_update_where) (rule assms)
  then show ?thesis
    by (cases "find_by dr_remote_endpoint_id p rows") (auto simp: peer_is_def dest: find_by_SomeD)
qed

lemma set_issued_grantD:
  assumes "set_issued_grant n p h i s = (Inr x, t)"
  shows "peer_row p t = map_option (\<lambda>r. r\<lparr>dr_issued_grant_handle := Some h, dr_issued_grant_id := Some i,
      dr_updated_at := n\<rparr>) (peer_row p s)"
    and "protected_secret_refs t = protected_secret_refs s" and "vs_values t = vs_values s"
    and "vs_corrupted t = vs_corrupted s"
proof -
  have t: "t = on_relationships (update_where (peer_is p) (\<lambda>r. r\<lparr>dr_issued_grant_handle := Some h,
      dr_issued_grant_id := Some i, dr_updated_at := n\<rparr>)) (tick_db s)"
    using assms by (auto simp: set_issued_grant_def rel_update_def dest!: next_InrD transact_InrD)
  show "peer_row p t = map_option (\<lambda>r. r\<lparr>dr_issued_grant_handle := Some h, dr_issued_grant_id := Some i,
      dr_updated_at := n\<rparr>) (peer_row p s)"
    unfolding t by (simp add: peer_row_update)
qed (use assms in \<open>auto simp: set_issued_grant_def rel_update_def dest!: next_InrD transact_InrD\<close>)

lemma set_held_grantD:
  assumes "set_held_grant n p h i s = (Inr x, t)"
  shows "peer_row p t = map_option (\<lambda>r. r\<lparr>dr_held_grant_handle := Some h, dr_held_grant_id := Some i,
      dr_updated_at := n\<rparr>) (peer_row p s)"
    and "vs_values t = vs_values s"
proof -
  have t: "t = on_relationships (update_where (peer_is p) (\<lambda>r. r\<lparr>dr_held_grant_handle := Some h,
      dr_held_grant_id := Some i, dr_updated_at := n\<rparr>)) (tick_db s)"
    using assms by (auto simp: set_held_grant_def rel_update_def dest!: next_InrD transact_InrD)
  show "peer_row p t = map_option (\<lambda>r. r\<lparr>dr_held_grant_handle := Some h, dr_held_grant_id := Some i,
      dr_updated_at := n\<rparr>) (peer_row p s)"
    unfolding t by (simp add: peer_row_update)
qed (use assms in \<open>auto simp: set_held_grant_def rel_update_def dest!: next_InrD transact_InrD\<close>)

lemma mintD:
  assumes "mint_and_store_issued_grant e n secret gid u p g v s = (Inr grant, t)"
  shows "grant = \<lparr>wg_grant_id = hex_encode (re_ext e) gid, wg_secret = hex_encode (re_ext e) secret,
      wg_issuer_endpoint_id = re_local_endpoint_id e, wg_holder_endpoint_id = p,
      wg_generation = g, wg_protocol_version = v\<rparr>"
    and "length secret = 32"
    and "peer_row p t = Some r \<Longrightarrow> dr_issued_grant_id r = Some (hex_encode (re_ext e) gid) \<and>
      (\<exists>h. dr_issued_grant_handle r = Some h \<and> (healthy t \<longrightarrow> load (re_public_key e) h t = (Inr secret, t)))"
proof -
  from assms obtain h s1 x y where enc: "encode_relationship_grant_secret secret = Inr secret"
    and prot: "protect (re_public_key e) n u RelationshipGrant secret None s = (Inr h, s1)"
    and set: "set_issued_grant n p h (hex_encode (re_ext e) gid) s1 = (Inr y, t)"
    and grant: "grant = \<lparr>wg_grant_id = hex_encode (re_ext e) gid, wg_secret = hex_encode (re_ext e) secret,
      wg_issuer_endpoint_id = re_local_endpoint_id e, wg_holder_endpoint_id = p,
      wg_generation = g, wg_protocol_version = v\<rparr>"
    unfolding mint_and_store_issued_grant_def require_custody_def
    by (auto simp: encode_relationship_grant_secret_def new_material_def dest!: next_InrD bind_InrD lift_InrD
        split: if_splits)
  show "grant = \<lparr>wg_grant_id = hex_encode (re_ext e) gid, wg_secret = hex_encode (re_ext e) secret,
      wg_issuer_endpoint_id = re_local_endpoint_id e, wg_holder_endpoint_id = p,
      wg_generation = g, wg_protocol_version = v\<rparr>" by (rule grant)
  show "length secret = 32"
    using enc by (auto simp: encode_relationship_grant_secret_def new_material_def split: if_splits)
  note d = protectD [OF prot] and sd = set_issued_grantD [OF set]
  assume r: "peer_row p t = Some r"
  note same = sd(2-4)
  have "load (re_public_key e) h t = (Inr secret, t)" if "healthy t"
  proof (rule load_healthy [OF that])
    show "find_by sr_handle h (protected_secret_refs t) =
        Some \<lparr>sr_handle = h, sr_kind = RelationshipGrant, sr_state = Active, sr_expected_identity = None,
          sr_created_at = n, sr_updated_at = n\<rparr>"
      using d(5,6) same by (simp add: find_append_new)
    show "map_of (vs_values t) h = Some secret" using d(2) same by (simp add: map_of_AList_update)
    show "h \<notin> set (vs_corrupted t)" using d(3,4) same by simp
  qed (use d(7) in simp_all)
  then show "dr_issued_grant_id r = Some (hex_encode (re_ext e) gid) \<and>
      (\<exists>h. dr_issued_grant_handle r = Some h \<and> (healthy t \<longrightarrow> load (re_public_key e) h t = (Inr secret, t)))"
    using r sd(1) by auto
qed

lemma store_heldD:
  assumes "store_held_grant e n u p grant s = (Inr x, t)" and "peer_row p t = Some r"
  shows "\<exists>h gid secret. dr_held_grant_handle r = Some h \<and> map_of (vs_values t) h = Some secret \<and>
    dr_held_grant_id r = Some (hex_encode (re_ext e) gid) \<and>
    hex_decode (re_ext e) (wg_grant_id grant) = Some gid \<and> hex_decode (re_ext e) (wg_secret grant) = Some secret"
proof -
  from assms(1) obtain gid secret h s1 y where
    ids: "grant_id_decode (re_ext e) (wg_grant_id grant) = Inr gid"
      "grant_secret_decode (re_ext e) (wg_secret grant) = Inr secret"
    and prot: "protect (re_public_key e) n u RelationshipGrant secret None s = (Inr h, s1)"
    and set: "set_held_grant n p h (hex_encode (re_ext e) gid) s1 = (Inr y, t)"
    unfolding store_held_grant_def require_custody_def
    by (auto simp: encode_relationship_grant_secret_def new_material_def dest!: next_InrD bind_InrD lift_InrD
        split: if_splits)
  note d = protectD [OF prot] and sd = set_held_grantD [OF set]
  have "map_of (vs_values t) h = Some secret" using d(2) sd(2) by (simp add: map_of_AList_update)
  then show ?thesis
    using assms(2) sd(1) ids
    by (auto simp: grant_id_decode_def grant_secret_decode_def decode_fixed_def split: option.splits if_splits)
qed

section \<open>Sequences of operations\<close>

datatype rel_command =
    ProveSaved string string
  | VerifySaved string string wire_proof u64 u16
  | MintIssued int string string string string u64 u16
  | StoreHeld int string string wire_grant
  | DeleteRelationship int string
  | RotateGrant int string string string string
  | AdoptGeneration int string string u64
  | ActivateSaved int string
  | ListRelationships int
  | SetLabel int string "string option"
  | RefreshPeer string "string option" int
  | ReconcileRelationships int

fun perform_rel :: "rel_env \<Rightarrow> rel_command \<Rightarrow> 'z relations_scheme \<Rightarrow> 'z relations_scheme" where
  "perform_rel e (ProveSaved p c) s = snd (prove_saved_possession e p c s)"
| "perform_rel e (VerifySaved p c pr g v) s = snd (verify_saved_possession e p c pr g v s)"
| "perform_rel e (MintIssued n secret gid u p g v) s = snd (mint_and_store_issued_grant e n secret gid u p g v s)"
| "perform_rel e (StoreHeld n u p grant) s = snd (store_held_grant e n u p grant s)"
| "perform_rel e (DeleteRelationship n p) s = snd (delete_relationship e n p s)"
| "perform_rel e (RotateGrant n secret gid u p) s = snd (rotate_relationship_grant e n secret gid u p s)"
| "perform_rel e (AdoptGeneration n p session g) s = snd (adopt_pending_generation n p session g s)"
| "perform_rel e (ActivateSaved n p) s = snd (activate_saved n p s)"
| "perform_rel e (ListRelationships n) s = snd (list_relationships e n s)"
| "perform_rel e (SetLabel n p l) s = snd (set_saved_device_label n p l s)"
| "perform_rel e (RefreshPeer p nm n) s = snd (refresh_authenticated_peer p nm n s)"
| "perform_rel e (ReconcileRelationships n) s = snd (reconcile_relationships e n s)"

lemma revoked_after: "stable revoked_kept m \<Longrightarrow> revoked_kept s (snd (m s))"
  by (simp add: stable_def)

lemma perform_rel_revoked: "revoked_kept s (perform_rel e c s)"
  by (cases c) (simp_all add: revoked_after revoked_prove revoked_verify revoked_mint revoked_store_held
      revoked_delete revoked_rotate revoked_adopt revoked_activate revoked_list revoked_label
      revoked_reconcile revoked_rel_writes)

lemma perform_rels_revoked: "revoked_kept s (fold (perform_rel e) cs s)"
  by (induction cs arbitrary: s) (auto intro: rk.refl rk.trans [OF perform_rel_revoked])

lemma revoked_rejected:
  assumes "is_tombstoned p g s"
  shows "fst (verify_saved_possession e p c pr g v (fold (perform_rel e) cs s)) \<noteq> Inr x"
proof
  let ?s = "fold (perform_rel e) cs s"
  assume "fst (verify_saved_possession e p c pr g v ?s) = Inr x"
  then have "verify_saved_possession e p c pr g v ?s = (Inr x, snd (verify_saved_possession e p c pr g v ?s))"
    by (metis prod.collapse)
  then have "\<not> is_tombstoned p g ?s" by (auto dest!: verify_savedD simp: possession_shown_def)
  moreover have "is_tombstoned p g ?s"
    using perform_rels_revoked [of s e cs] assms unfolding revoked_kept_def by blast
  ultimately show False by blast
qed

section \<open>A grant handed over\<close>

definition ref_challenge :: string where
  "ref_challenge = replicate 32 (CHR ''c'')"

definition ref_grant :: wire_grant where
  "ref_grant = \<lparr>wg_grant_id = ref_grant_id, wg_secret = ref_secret, wg_issuer_endpoint_id = ''bob'',
     wg_holder_endpoint_id = ''alice'', wg_generation = 1, wg_protocol_version = 2\<rparr>"

definition ref_proof :: wire_proof where
  "ref_proof = \<lparr>wp_grant_id = ref_grant_id,
     wp_mac = relationship_mac ref_ext ref_secret ref_challenge ''bob'' ''alice'' 1 2,
     wp_challenge = ref_challenge\<rparr>"

definition ref_handle :: string where
  "ref_handle = generate_handle RelationshipGrant ''u''"

definition ref_custody :: "relations \<Rightarrow> relations" where
  "ref_custody s = s\<lparr>protected_secret_refs := [\<lparr>sr_handle = ref_handle, sr_kind = RelationshipGrant,
     sr_state = Active, sr_expected_identity = None, sr_created_at = 0, sr_updated_at = 0\<rparr>],
     vs_values := [(ref_handle, ref_secret)]\<rparr>"

definition ref_issuer :: relations where
  "ref_issuer = ref_custody (ref_relations [(ref_relationship ''alice'' 1)\<lparr>
     dr_issued_grant_handle := Some ref_handle, dr_issued_grant_id := Some ref_grant_id\<rparr>])"

definition ref_holder :: relations where
  "ref_holder = ref_custody (ref_relations [(ref_relationship ''bob'' 1)\<lparr>
     dr_held_grant_handle := Some ref_handle, dr_held_grant_id := Some ref_grant_id\<rparr>])"

lemmas ref_call_defs = require_custody_def encode_relationship_grant_secret_def new_material_def
  store_put_def store_get_def from_store_def vs_put_def vs_get_def store_call_def stage_def
  activate_def set_metadata_state_def one_endpoint_identity_def validate_material_def
  set_issued_grant_def set_held_grant_def rel_update_def transact_def select_def proc_defs
  update_where_def affected_def peer_is_def protect_def Let_def

lemmas ref_eval_defs = ref_call_defs ref_rel_env_def ref_ext_def ref_secret_def ref_grant_id_def
  ref_relations_def ref_relationship_def list_all_iff set_replicate_conv_if

lemma ref_mint:
  "mint_and_store_issued_grant (ref_rel_env ''bob'') 0 ref_secret ref_grant_id ''u'' ''alice'' 1 2
     (ref_relations [ref_relationship ''alice'' 1]) = (Inr ref_grant, ref_issuer)"
  by (simp add: mint_and_store_issued_grant_def ref_grant_def ref_issuer_def ref_custody_def ref_handle_def ref_eval_defs)

lemma ref_store_held:
  "store_held_grant (ref_rel_env ''alice'') 0 ''u'' ''bob'' ref_grant
     (ref_relations [ref_relationship ''bob'' 1]) = (Inr (), ref_holder)"
  by (simp add: store_held_grant_def ref_grant_def ref_holder_def ref_custody_def ref_handle_def
      grant_id_decode_def grant_secret_decode_def decode_fixed_def ref_eval_defs)

lemma ref_load_call:
  "load ep ref_handle (ref_custody (ref_relations rows)) = (Inr ref_secret, ref_custody (ref_relations rows))"
  by (simp add: load_def find_secret_def find_by_def ref_custody_def ref_call_defs ref_relations_def)

lemma ref_rel_find_row:
  "rel_find_row p (ref_custody (ref_relations rows)) =
     (Inr (find_by dr_remote_endpoint_id p rows), ref_custody (ref_relations rows))"
  by (simp add: rel_find_row_def select_def transact_def ref_custody_def ref_relations_def Let_def)

lemma ref_prove:
  "prove_saved_possession (ref_rel_env ''alice'') ''bob'' ref_challenge ref_holder = (Inr (ref_proof, 1, 2), ref_holder)"
  by (simp add: prove_saved_possession_def find_saved_def prove_held_possession_def ref_holder_def
      ref_rel_find_row ref_load_call require_custody_def proc_defs find_by_def grant_id_decode_def
      decode_fixed_def secret_from_material_def prove_relationship_grant_def ref_proof_def
      ref_rel_env_def ref_relationship_def ref_secret_def ref_grant_id_def ref_ext_def)

lemma ref_verify:
  "verify_saved_possession (ref_rel_env ''bob'') ''alice'' ref_challenge ref_proof 1 2 ref_issuer = (Inr (), ref_issuer)"
proof (rule verify_saved_complete [where gid = ref_grant_id and h = ref_handle and secret = ref_secret])
  show "load (re_public_key (ref_rel_env ''bob'')) ref_handle ref_issuer = (Inr ref_secret, ref_issuer)"
    unfolding ref_issuer_def by (rule ref_load_call)
  show "find_by dr_remote_endpoint_id ''alice'' (device_relationships ref_issuer) =
      Some ((ref_relationship ''alice'' 1)\<lparr>dr_issued_grant_handle := Some ref_handle, dr_issued_grant_id := Some ref_grant_id\<rparr>)"
    by (simp add: ref_issuer_def ref_custody_def ref_relations_def ref_relationship_def find_by_def)
qed (simp_all add: ref_rel_env_def ref_ext_ok ref_issuer_def ref_custody_def ref_relations_def ref_relationship_def
    is_tombstoned_def ref_proof_def ref_secret_def ref_grant_id_def, simp_all add: ref_ext_def)

section \<open>Properties\<close>

text \<open>
  a possession proof is accepted only from a saved peer, for
  the relationship's present generation, which is not revoked, at a protocol version that is no
  downgrade, naming the grant this device issued, and with the keyed hash of the challenge, both
  endpoints, the generation and the version under the secret of that grant.
\<close>

theorem accepted_proof_shows_possession:
  assumes "verify_saved_possession e p challenge proof g v s = (Inr (), t)"
  shows "\<not> is_tombstoned p g s \<and>
    (\<exists>r h secret. find_by dr_remote_endpoint_id p (device_relationships s) = Some r \<and>
       dr_state r = Saved \<and> dr_generation r = g \<and> dr_minimum_protocol_version r \<le> v \<and>
       dr_issued_grant_id r = Some (wp_grant_id proof) \<and> dr_issued_grant_handle r = Some h \<and>
       map_of (vs_values s) h = Some secret \<and>
       hex_decode (re_ext e) (wp_mac proof) =
         Some (relationship_mac (re_ext e) secret challenge (re_local_endpoint_id e) p g v))"
  using verify_savedD [OF assms] unfolding possession_shown_def by blast

theorem accepted_proof_shows_possession_witness:
  "verify_saved_possession (ref_rel_env ''bob'') ''alice'' ref_challenge ref_proof 1 2 ref_issuer = (Inr (), ref_issuer) \<and>
   \<not> is_tombstoned ''alice'' 1 ref_issuer"
  using ref_verify accepted_proof_shows_possession [OF ref_verify] by blast

text \<open>
  C15: when one device mints a grant for a peer and the peer stores the grant it
  was sent, then every proof the peer makes for any challenge is accepted by the issuer, as long
  as both sides still have the relationship saved at the same generation and it is not revoked.
\<close>

theorem possession_roundtrip:
  assumes "ext_ok (re_ext issuer)" and "re_ext holder = re_ext issuer" and "re_custody issuer"
    and "mint_and_store_issued_grant issuer n secret gid u (re_local_endpoint_id holder) g v s = (Inr grant, s')"
    and "store_held_grant holder n' u' (re_local_endpoint_id issuer) grant r = (Inr (), r')"
    and "prove_saved_possession holder (re_local_endpoint_id issuer) challenge r' = (Inr (proof, g', v'), r'')"
    and "healthy s'" and "find_by dr_remote_endpoint_id (re_local_endpoint_id holder) (device_relationships s') = Some row"
    and "dr_state row = Saved" and "dr_generation row = g'" and "dr_minimum_protocol_version row \<le> v'"
    and "\<not> is_tombstoned (re_local_endpoint_id holder) g' s'"
  shows "verify_saved_possession issuer (re_local_endpoint_id holder) challenge proof g' v' s' = (Inr (), s')"
proof -
  let ?x = "re_ext issuer" and ?A = "re_local_endpoint_id holder" and ?B = "re_local_endpoint_id issuer"
  note m = mintD [OF assms(4)]
  obtain h where issued: "dr_issued_grant_id row = Some (hex_encode ?x gid)" "dr_issued_grant_handle row = Some h"
    and loaded: "load (re_public_key issuer) h s' = (Inr secret, s')"
    using m(3) [OF assms(8)] assms(7) by auto
  from assms(6) obtain hrow where hrow: "peer_row ?B r' = Some hrow" "g' = dr_generation hrow"
      "v' = dr_minimum_protocol_version hrow"
    and held: "prove_held_possession holder ?B challenge g' v' (tick_db r') = (Inr proof, r'')"
    unfolding prove_saved_possession_def by (auto dest!: bind_InrD find_savedD)
  obtain hh gid' secret' where h: "dr_held_grant_handle hrow = Some hh" "map_of (vs_values r') hh = Some secret'"
      "dr_held_grant_id hrow = Some (hex_encode ?x gid')"
      "hex_decode ?x (wg_grant_id grant) = Some gid'" "hex_decode ?x (wg_secret grant) = Some secret'"
    using store_heldD [OF assms(5) hrow(1)] assms(2) by auto
  have same: "gid' = gid" "secret' = secret" using h(4,5) m(1) assms(1) by simp_all
  have made: "proof = \<lparr>wp_grant_id = hex_encode ?x gid,
      wp_mac = hex_encode ?x (relationship_mac ?x secret challenge ?B ?A g' v'),
      wp_challenge = hex_encode ?x challenge\<rparr>" and gid: "length gid = 16"
    using held hrow(1) h(1,2,3) same assms(1,2)
    by (auto simp: prove_held_possession_def require_custody_def secret_from_material_def
        prove_relationship_grant_def grant_id_decode_def decode_fixed_def
        dest!: next_InrD bind_InrD lift_InrD rel_find_rowD load_InrD split: if_splits)
  show ?thesis
    using assms(3,7-12) issued loaded gid m(2) made
    by (intro verify_saved_complete [OF assms(1)]) (auto simp: healthy_def)
qed

theorem possession_roundtrip_witness:
  "verify_saved_possession (ref_rel_env ''bob'') ''alice'' ref_challenge ref_proof 1 2 ref_issuer = (Inr (), ref_issuer)"
proof -
  have ids: "re_local_endpoint_id (ref_rel_env p) = p" "re_ext (ref_rel_env p) = ref_ext" "re_custody (ref_rel_env p)" for p
    by (simp_all add: ref_rel_env_def)
  note roundtrip = possession_roundtrip [of "ref_rel_env ''bob''" "ref_rel_env ''alice''", unfolded ids,
      OF ref_ext_ok refl ids(3) ref_mint ref_store_held ref_prove]
  show ?thesis
    by (rule roundtrip [of "(ref_relationship ''alice'' 1)\<lparr>dr_issued_grant_handle := Some ref_handle,
        dr_issued_grant_id := Some ref_grant_id\<rparr>"])
      (simp_all add: healthy_def is_tombstoned_def ref_issuer_def ref_custody_def ref_relations_def
        ref_relationship_def find_by_def)
qed

text \<open>
  once a generation of a peer is revoked, no proof for it is
  ever accepted again, whatever operations of the service follow and whatever fails in them.
\<close>

theorem revoked_generation_is_never_accepted:
  assumes "is_tombstoned p g s"
  shows "fst (verify_saved_possession e p challenge proof g v (fold (perform_rel e) commands s)) \<noteq> Inr ()"
  by (rule revoked_rejected [OF assms])

theorem revoked_generation_is_never_accepted_witness:
  "fst (verify_saved_possession (ref_rel_env ''bob'') ''alice'' ref_challenge ref_proof 1 2
     (fold (perform_rel (ref_rel_env ''bob'')) [ActivateSaved 5 ''alice'']
       ((ref_relations [ref_relationship ''alice'' 1])\<lparr>generation_tombstones := [\<lparr>
          gt_remote_endpoint_id = ''alice'', gt_generation = 1, gt_issued_grant_id = None,
          gt_held_grant_id = None, gt_revoked_at = 0\<rparr>]\<rparr>))) \<noteq> Inr ()"
  by (rule revoked_generation_is_never_accepted) (simp add: is_tombstoned_def tombstone_of_def)

text \<open>
  rotating a peer's grant succeeds only for a saved peer; the old
  generation is then revoked for ever and the new generation is the next one, so that no proof
  made with the old grant is accepted after the rotation.
\<close>

theorem rotation_revokes_the_old_grant:
  assumes "rotate_relationship_grant e n secret gid u p s = (Inr g, t)"
  shows "\<exists>r. find_by dr_remote_endpoint_id p (device_relationships s) = Some r \<and>
    g = saturating_succ (dr_generation r) \<and> is_tombstoned p (dr_generation r) t \<and>
    (\<forall>commands challenge proof v.
       fst (verify_saved_possession e p challenge proof (dr_generation r) v (fold (perform_rel e) commands t)) \<noteq> Inr ())"
proof -
  obtain r where "find_by dr_remote_endpoint_id p (device_relationships s) = Some r"
    and "is_tombstoned p (dr_generation r) t" and "g = saturating_succ (dr_generation r)"
    by (rule rotate_tombstones [OF assms])
  then show ?thesis using revoked_rejected by blast
qed

theorem rotation_revokes_the_old_grant_witness:
  "\<exists>g t. rotate_relationship_grant (ref_rel_env ''bob'') 3 ref_secret ref_grant_id ''u'' ''alice''
      (ref_relations [ref_relationship ''alice'' 1]) = (Inr g, t) \<and> g = 2 \<and> is_tombstoned ''alice'' 1 t"
proof -
  let ?s = "ref_relations [ref_relationship ''alice'' 1]"
  have "fst (rotate_relationship_grant (ref_rel_env ''bob'') 3 ref_secret ref_grant_id ''u'' ''alice'' ?s) = Inr 2"
    by (simp add: rotate_relationship_grant_def rel_find_row_def select_def transact_def proc_defs find_by_def
        insert_tombstone_def exec_def clear_grant_secrets_def grant_handles_def List.map_filter_def
        begin_grant_rotation_def rel_update_def affected_def peer_is_def saturating_succ_def
        emit_def mint_and_store_issued_grant_def ref_eval_defs)
  then obtain t where t: "rotate_relationship_grant (ref_rel_env ''bob'') 3 ref_secret ref_grant_id ''u'' ''alice'' ?s = (Inr 2, t)"
    by (metis prod.collapse)
  have row: "find_by dr_remote_endpoint_id ''alice'' (device_relationships ?s) = Some (ref_relationship ''alice'' 1)"
    "dr_generation (ref_relationship ''alice'' 1) = 1"
    by (simp_all add: ref_relations_def ref_relationship_def find_by_def)
  have "is_tombstoned ''alice'' 1 t"
    using rotation_revokes_the_old_grant [OF t] row by auto
  with t show ?thesis by blast
qed

text \<open>
  the generation a new pairing gets lies above every generation ever
  recorded for the peer, in a relationship or in a tombstone, so it is never a revoked one; it is
  positive and fits the signed column it is stored in.
\<close>

theorem new_generations_are_fresh:
  assumes "next_generation p s = (Inr g, t)"
  shows "(\<forall>h \<in> set (peer_generations p s). sint h < sint g) \<and> \<not> is_tombstoned p g s \<and>
    0 < sint g \<and> unat g < 2 ^ 63"
proof -
  note d = next_generation_above [OF assms]
  have "\<not> is_tombstoned p g s" using d(1) tombstoned_generation by force
  moreover have "sint g = int (unat g)" by (rule sint_small) (use d(2) in \<open>simp add: fits_i64_def\<close>)
  moreover have "unat g \<noteq> 0" using d(3) by (simp add: unat_eq_zero)
  ultimately have "\<not> is_tombstoned p g s" "0 < sint g" by linarith+
  then show ?thesis using d(1,2) by (simp add: fits_i64_def)
qed

theorem new_generations_are_fresh_witness:
  "\<exists>g t. next_generation ''alice'' (ref_relations [ref_relationship ''alice'' 4]) = (Inr g, t) \<and> 4 < sint g"
proof -
  let ?s = "ref_relations [ref_relationship ''alice'' 4]"
  obtain g t where out: "next_generation ''alice'' ?s = (Inr g, t)"
    by (simp add: next_generation_def generation_floor_def select_def transact_def proc_defs peer_generations_def
        peer_is_def ref_relations_def ref_relationship_def Let_def)
  have "4 \<in> set (peer_generations ''alice'' ?s)"
    by (simp add: peer_generations_def peer_is_def ref_relations_def ref_relationship_def)
  then have "sint (4 :: u64) < sint g" using new_generations_are_fresh [OF out] by blast
  with out show ?thesis by auto
qed

end
