(* ===== verification/Module_Properties.thy ===== *)
theory Module_Properties
  imports Targeted_Module_Facts Store_Properties Relationship_Properties
begin

text \<open>
  The properties of the targeted module's handlers: when an offer becomes pending, what a stored
  authorization and a recorded completion show, that a peer cannot touch another peer's
  transfers, that a stored authorization can be used again, what a local termination erases, and
  what a restart recovers.
\<close>

section \<open>Receiving an authorization\<close>

lemma emit_tables: "stable same_tables (emit topic kind)"
  unfolding emit_def by (rule tb.stable_modify) (simp add: same_tables_def)

lemma exact_receiver_row: "exact_delivery (receiver_row n a h) a"
  by (simp add: exact_delivery_def receiver_row_def settled_receiver_state_def is_resumable_def)

lemma check_existingD:
  assumes "check_existing_delivery e a r s = (Inr b, t)"
  shows "\<not> b" and "same_tables s t" and "exact_delivery r a"
    and "\<exists>h material stored s'. tr_secret_handle r = Some h \<and>
      load (re_public_key (me_rel e)) h s = (Inr material, s') \<and> t = s' \<and>
      (\<exists>rebuilt. reconstruct_authorization (me_ext e) (draft_of_row r (au_protocol_version a) (au_blob_ticket a)) material
          = Inr rebuilt \<and> encode (me_ext e) rebuilt = Inr stored \<and> encode (me_ext e) a = Inr stored)"
proof -
  have st: "stable same_tables (check_existing_delivery e a r)"
    unfolding check_existing_delivery_def
    by (intro tb.stable_rules tables_of_frame [OF frame_load])
  show "same_tables s t" by (rule stableD [OF st assms])
  show "\<not> b" "exact_delivery r a"
    and "\<exists>h material stored s'. tr_secret_handle r = Some h \<and>
      load (re_public_key (me_rel e)) h s = (Inr material, s') \<and> t = s' \<and>
      (\<exists>rebuilt. reconstruct_authorization (me_ext e) (draft_of_row r (au_protocol_version a) (au_blob_ticket a)) material
          = Inr rebuilt \<and> encode (me_ext e) rebuilt = Inr stored \<and> encode (me_ext e) a = Inr stored)"
    using assms unfolding check_existing_delivery_def
    by (auto dest!: bind_InrD lift_InrD split: option.splits if_splits)
qed

text \<open>The two ways a delivery succeeds: the row existed and agrees, or it is new.\<close>

lemma persist_receiverE:
  assumes "persist_receiver e n u a s = (Inr b, t)"
  obtains (existing) r s1 where "find_by tr_id (au_transfer_id a) (targeted_transfers s) = Some r"
      and "s1 = tick_db s" and "check_existing_delivery e a r s1 = (Inr b, t)" and "\<not> b"
  | (created) h material s1 s2 s3 where "find_by tr_id (au_transfer_id a) (targeted_transfers s) = None"
      and "same_tables s s1" and "auth_secret_material (me_ext e) a = Inr material"
      and "protect (re_public_key (me_rel e)) n u TargetedAuthorization material None s1 = (Inr h, s2)"
      and "persist_receiver_authorization_and_consume_intent n a h s2 = (Inr True, s3)"
      and "emit_lifecycle ''approved'' s3 = (Inr (), t)" and "b"
proof -
  from assms obtain found s0 where g: "get_row (au_transfer_id a) s = (Inr found, s0)"
    and rest: "(case found of Some r \<Rightarrow> check_existing_delivery e a r
      | None \<Rightarrow> bind (select (\<lambda>s. List.member (w_invitations s) (au_protocol_transfer_id a)))
         (\<lambda>collision. if collision
            then err (InvalidInput ''targeted transfer protocol id collides with invitation work'')
            else bind (lift (auth_secret_material (me_ext e) a)) (\<lambda>material.
              bind (protect (re_public_key (me_rel e)) n u TargetedAuthorization material None)
               (\<lambda>handle. attempt (persist_receiver_authorization_and_consume_intent n a handle)
                 (\<lambda>r. case r of
                    Inl error \<Rightarrow> attempt (remove_secret n handle) (\<lambda>_. err error)
                  | Inr created \<Rightarrow>
                      next_do (if created then emit_lifecycle ''approved'' else ok ())
                        (ok created)))))) s0 = (Inr b, t)"
    unfolding persist_receiver_def require_auth_custody_def
    by (auto simp del: List.member_iff dest!: next_InrD bind_InrD split: if_splits)
  note g' = get_row_InrD [OF g]
  show thesis
  proof (cases found)
    case (Some r)
    with rest have c: "check_existing_delivery e a r s0 = (Inr b, t)" by simp
    show thesis by (rule existing [OF _ _ c check_existingD(1) [OF c]]) (use g' Some in auto)
  next
    case None
    with rest obtain collision s1 material h s2 where
      sel: "select (\<lambda>s. List.member (w_invitations s) (au_protocol_transfer_id a)) s0 = (Inr collision, s1)"
      and mat: "auth_secret_material (me_ext e) a = Inr material"
      and prot: "protect (re_public_key (me_rel e)) n u TargetedAuthorization material None s1 = (Inr h, s2)"
      and last: "attempt (persist_receiver_authorization_and_consume_intent n a h)
                 (\<lambda>r. case r of
                    Inl error \<Rightarrow> attempt (remove_secret n h) (\<lambda>_. err error)
                  | Inr created \<Rightarrow>
                      next_do (if created then emit_lifecycle ''approved'' else ok ())
                        (ok created)) s2 = (Inr b, t)"
      by (auto simp del: List.member_iff dest!: bind_InrD lift_InrD split: if_splits)
    have s1: "same_tables s s1"
      using stableD [OF tb.stable_reads(5) g] stableD [OF tb.stable_select sel] by (rule tb.trans)
    obtain x s3 where p: "persist_receiver_authorization_and_consume_intent n a h s2 = (x, s3)"
      by (cases "persist_receiver_authorization_and_consume_intent n a h s2")
    have "x = Inr True"
    proof (cases x)
      case (Inl err)
      then show ?thesis using last p by (auto simp: attempt_def err_def split: prod.splits)
    next
      case (Inr c)
      then show ?thesis
        using p by (auto simp: persist_receiver_authorization_and_consume_intent_def dest!: transact_InrD split: if_splits)
    qed
    with last p have "emit_lifecycle ''approved'' s3 = (Inr (), t)" "b"
      by (auto simp: attempt_def dest!: next_InrD)
    then show thesis using created [OF _ s1 mat prot _ _] p \<open>x = Inr True\<close> g' None by auto
  qed
qed

lemma persist_receiverD:
  assumes "persist_receiver e n u a s = (Inr b, t)"
  shows "set (targeted_transfers s) \<subseteq> set (targeted_transfers t)"
    and "\<exists>r \<in> set (targeted_transfers t). tr_id r = au_transfer_id a \<and> exact_delivery r a \<and> tr_secret_handle r \<noteq> None"
proof -
  have "set (targeted_transfers s) \<subseteq> set (targeted_transfers t) \<and>
    (\<exists>r \<in> set (targeted_transfers t). tr_id r = au_transfer_id a \<and> exact_delivery r a \<and> tr_secret_handle r \<noteq> None)"
    using assms
  proof (cases rule: persist_receiverE)
    case (existing r s1)
    note d = check_existingD [OF existing(3)]
    have rows: "targeted_transfers t = targeted_transfers s"
      using d(2) existing(2) by (simp add: same_tables_def)
    moreover have "r \<in> set (targeted_transfers s)" "tr_id r = au_transfer_id a"
      using find_by_SomeD [OF existing(1)] by auto
    ultimately show ?thesis using d(3,4) by auto
  next
    case (created h material s1 s2 s3)
    have "same_tables s s2"
      using created(2) stableD [OF tables_of_frame [OF frame_protect] created(4)] by (rule tb.trans)
    moreover have "same_tables s3 t"
      using created(6) emit_tables unfolding emit_lifecycle_def by (metis stableD)
    moreover have "targeted_transfers s3 = targeted_transfers s2 @ [receiver_row n a h]"
      using created(5) by (auto simp: persist_receiver_authorization_and_consume_intent_def
          dest!: transact_InrD split: if_splits)
    ultimately have "targeted_transfers t = targeted_transfers s @ [receiver_row n a h]"
      by (simp add: same_tables_def)
    moreover have "tr_id (receiver_row n a h) = au_transfer_id a" "tr_secret_handle (receiver_row n a h) = Some h"
      by (simp_all add: receiver_row_def)
    ultimately show ?thesis using exact_receiver_row [of n a h] by auto
  qed
  then show "set (targeted_transfers s) \<subseteq> set (targeted_transfers t)"
    and "\<exists>r \<in> set (targeted_transfers t). tr_id r = au_transfer_id a \<and> exact_delivery r a \<and> tr_secret_handle r \<noteq> None"
    by blast+
qed

lemma attempt_ok_InrD:
  "attempt m f s = (Inr x, t) \<Longrightarrow> \<exists>r s'. m s = (r, s') \<and> f r s' = (Inr x, t)"
  by (auto simp: attempt_def split: prod.splits)

lemma with_inboxD: "with_inbox f s = (Inr x, t) \<Longrightarrow> t = s\<lparr>w_inbox := snd (f (w_inbox s))\<rparr>"
  by (auto simp: with_inbox_def split: prod.splits)

lemma handle_authorizationD:
  assumes "handle_authorization e n u remote d s = (Inr Stored, t)"
  obtains a b s1 s2 ib where "saved_peer remote s" and "s1 = tick_db s" and "decode (me_ext e) (da_authorization d) = Inr a"
    and "delivery_accepted e remote d a" and "persist_receiver e n u a s1 = (Inr b, s2)" and "t = s2\<lparr>w_inbox := ib\<rparr>"
proof -
  from assms obtain x s1 where req: "require_saved remote s = (x, s1)"
    and rest: "(case x of Inl _ \<Rightarrow> ok DeliveryRejected
    | Inr _ \<Rightarrow> (case decode (me_ext e) (da_authorization d) of
        Inl _ \<Rightarrow> ok DeliveryRejected
      | Inr a \<Rightarrow>
          if \<not> delivery_accepted e remote d a then ok DeliveryRejected
          else attempt (persist_receiver e n u a) (\<lambda>stored. case stored of
             Inl _ \<Rightarrow> ok DeliveryRejected
           | Inr _ \<Rightarrow> next_do
               (with_inbox (deliver_authorization (da_transfer_id d) (da_authorization d)))
               (ok Stored)))) s1 = (Inr Stored, t)"
    unfolding handle_authorization_def by (auto dest!: attempt_ok_InrD)
  from rest obtain v a where x: "x = Inr v" and a: "decode (me_ext e) (da_authorization d) = Inr a"
    "delivery_accepted e remote d a"
    and last: "attempt (persist_receiver e n u a) (\<lambda>stored. case stored of
             Inl _ \<Rightarrow> ok DeliveryRejected
           | Inr _ \<Rightarrow> next_do
               (with_inbox (deliver_authorization (da_transfer_id d) (da_authorization d)))
               (ok Stored)) s1 = (Inr Stored, t)"
    by (auto split: sum.splits if_splits)
  from last obtain b s2 where p: "persist_receiver e n u a s1 = (Inr b, s2)"
    and t: "next_do (with_inbox (deliver_authorization (da_transfer_id d) (da_authorization d))) (ok Stored) s2 = (Inr Stored, t)"
    by (auto dest!: attempt_ok_InrD split: sum.splits)
  have "t = s2\<lparr>w_inbox := snd (deliver_authorization (da_transfer_id d) (da_authorization d) (w_inbox s2))\<rparr>"
    using t by (auto dest!: next_InrD with_inboxD)
  moreover have "saved_peer remote s" using req x by (auto intro: require_savedD)
  moreover have "s1 = tick_db s"
    using req x by (auto simp: require_saved_def dest!: next_InrD find_savedD)
  ultimately show thesis using that a p by blast
qed

section \<open>Loading again\<close>

lemma load_again:
  assumes "load ep h s = (Inr m, s')" and "healthy t"
    and "protected_secret_refs t = protected_secret_refs s" and "vs_values t = vs_values s"
    and "vs_corrupted t = vs_corrupted s"
  shows "load ep h t = (Inr m, t)"
proof -
  have "\<exists>r. find_by sr_handle h (protected_secret_refs s) = Some r \<and> sr_state r = Active \<and>
      map_of (vs_values s) h = Some m \<and> h \<notin> set (vs_corrupted s) \<and>
      validate_material ep (sr_kind r) m (sr_expected_identity r) = Inr ()"
    using assms(1) unfolding load_def
    by (auto dest!: bind_InrD next_InrD find_secretD lift_InrD store_getD split: option.splits if_splits)
  then show ?thesis using load_healthy [OF assms(2)] assms(3-5) by metis
qed

lemma load_keeps:
  "load ep h s = (Inr m, t) \<Longrightarrow> protected_secret_refs t = protected_secret_refs s \<and>
     vs_values t = vs_values s \<and> vs_corrupted t = vs_corrupted s"
  unfolding load_def
  by (auto dest!: bind_InrD next_InrD find_secretD lift_InrD store_getD split: option.splits if_splits)

lemma vault_of_above:
  "above_kept s t \<Longrightarrow> protected_secret_refs t = protected_secret_refs s \<and>
     vs_values t = vs_values s \<and> vs_corrupted t = vs_corrupted s \<and> vs_failures t = vs_failures s"
  for s t :: "'z vault_scheme"
  by (cases s; cases t) (simp add: above_kept_def)

lemma secret_of_material: "auth_secret_material x a = Inr m \<Longrightarrow> secret_bytes x a = Inr m"
  by (auto simp: auth_secret_material_def new_material_def split: sum.splits if_splits)

lemma load_authorization_gives:
  assumes x: "ext_ok (me_ext e)" and "re_custody (me_rel e)" and a: "verify_integrity (me_ext e) a = Inr ()"
    and r: "tr_secret_handle r = Some h" "tr_blob_ticket r = Some (au_blob_ticket a)"
    and l: "load (re_public_key (me_rel e)) h t = (Inr material, t)"
    and rebuilt: "reconstruct_authorization (me_ext e) (draft_of_row r TARGETED_PROTOCOL_VERSION (au_blob_ticket a)) material = Inr a"
  shows "\<exists>v. load_authorization e r t = (Inr (Some v), t) \<and> decode (me_ext e) v = Inr a"
proof -
  obtain v where v: "encode (me_ext e) a = Inr v" using encode_total [OF x] by blast
  have "decode (me_ext e) v = Inr a" using decode_encode [OF x v] a by simp
  with v assms show ?thesis by (simp add: load_authorization_def require_auth_custody_def proc_defs)
qed

lemma persist_receiver_usable:
  assumes x: "ext_ok (me_ext e)" and p: "persist_receiver e n u a s = (Inr b, t)"
    and a: "verify_integrity (me_ext e) a = Inr ()" "au_protocol_version a = TARGETED_PROTOCOL_VERSION"
    and t': "healthy t'" "protected_secret_refs t' = protected_secret_refs t" "vs_values t' = vs_values t"
      "vs_corrupted t' = vs_corrupted t"
  shows "\<exists>r v. r \<in> set (targeted_transfers t) \<and> tr_id r = au_transfer_id a \<and> tr_role r = Receiver \<and>
    load_authorization e r t' = (Inr (Some v), t') \<and> decode (me_ext e) v = Inr a"
proof -
  have custody: "re_custody (me_rel e)"
    using p by (auto simp: persist_receiver_def require_auth_custody_def dest!: next_InrD split: if_splits)
  show ?thesis
    using p
  proof (cases rule: persist_receiverE)
    case (existing r s1)
    note d = check_existingD [OF existing(3)]
    obtain h material stored rebuilt where h: "tr_secret_handle r = Some h"
      and l: "load (re_public_key (me_rel e)) h s1 = (Inr material, t)"
      and rb: "reconstruct_authorization (me_ext e) (draft_of_row r (au_protocol_version a) (au_blob_ticket a)) material = Inr rebuilt"
      "encode (me_ext e) rebuilt = Inr stored" "encode (me_ext e) a = Inr stored"
      using d(4) by blast
    have "rebuilt = a" by (rule encode_inj [OF x rb(2,3)])
    moreover have "load (re_public_key (me_rel e)) h t' = (Inr material, t')"
      using load_again [OF l t'(1)] load_keeps [OF l] t' by simp
    moreover have row: "tr_blob_ticket r = Some (au_blob_ticket a)" "tr_role r = Receiver"
      using d(3) by (simp_all add: exact_delivery_def)
    ultimately obtain v where "load_authorization e r t' = (Inr (Some v), t')" "decode (me_ext e) v = Inr a"
      using load_authorization_gives [OF x custody a(1) h row(1)] rb(1) a(2) by auto
    moreover have "r \<in> set (targeted_transfers t)" "tr_id r = au_transfer_id a"
      using find_by_SomeD [OF existing(1)] d(2) existing(2) by (auto simp: same_tables_def)
    ultimately show ?thesis using row(2) by blast
  next
    case (created h material s1 s2 s3)
    let ?r = "receiver_row n a h"
    have s3: "above_kept s2 s3" by (rule stableD [OF above_transactions(5) created(5)])
    have t: "targeted_transfers t = targeted_transfers s3" "protected_secret_refs t = protected_secret_refs s3"
      "vs_values t = vs_values s3" "vs_corrupted t = vs_corrupted s3"
      using created(6) by (auto simp: emit_lifecycle_def emit_def modify_def)
    note pd = protectD [OF created(4)]
    have "load (re_public_key (me_rel e)) h t' = (Inr material, t')"
    proof (rule load_healthy [OF t'(1)])
      show "find_by sr_handle h (protected_secret_refs t') = Some \<lparr>sr_handle = h, sr_kind = TargetedAuthorization,
          sr_state = Active, sr_expected_identity = None, sr_created_at = n, sr_updated_at = n\<rparr>"
        using pd(5,6) t' t vault_of_above [OF s3] by (simp add: find_append_new)
      show "map_of (vs_values t') h = Some material"
        using pd(2) t' t vault_of_above [OF s3] by (simp add: map_of_AList_update)
      show "h \<notin> set (vs_corrupted t')" using pd(3,4) t' t vault_of_above [OF s3] by simp
    qed (use pd(7) in simp_all)
    moreover have "reconstruct_authorization (me_ext e) (draft_of_row ?r TARGETED_PROTOCOL_VERSION (au_blob_ticket a)) material = Inr a"
      by (rule reconstruct_verified [OF x a(1) secret_of_material [OF created(3)]])
        (simp add: same_bound_def with_draft_def draft_of_row_def receiver_row_def a(2))
    moreover have "tr_secret_handle ?r = Some h" "tr_blob_ticket ?r = Some (au_blob_ticket a)"
      "tr_id ?r = au_transfer_id a" "tr_role ?r = Receiver" by (simp_all add: receiver_row_def)
    moreover have "?r \<in> set (targeted_transfers t)"
      using created(5) t(1) by (auto simp: persist_receiver_authorization_and_consume_intent_def
          dest!: transact_InrD split: if_splits)
    ultimately show ?thesis using load_authorization_gives [OF x custody a(1)] by blast
  qed
qed

section \<open>Reference data\<close>

definition ref_env :: menv where
  "ref_env = \<lparr>me_rel = ref_rel_env ''bob'', me_limits = default_core_limits, me_relay_mode = Automatic,
     me_custom_relay_urls = [], me_parse_url = Some, me_blob_hash = (\<lambda>_. Some ''hash'')\<rparr>"

definition ref_world :: "row list \<Rightarrow> intent list \<Rightarrow> inbox \<Rightarrow> world" where
  "ref_world rows intents ib = \<lparr>
     targeted_transfers = rows, accepted_offer_intents = intents, authorization_delivery_outbox = [],
     completion_outbox = [], payload_release_outbox = [], schema_migrations = [], db_faults = [],
     protected_secret_refs = [\<lparr>sr_handle = ref_handle, sr_kind = RelationshipGrant, sr_state = Active,
       sr_expected_identity = None, sr_created_at = 0, sr_updated_at = 0\<rparr>],
     vs_values = [(ref_handle, ref_secret)], vs_corrupted = [], vs_failures = [],
     device_relationships = [(ref_relationship ''alice'' 1)\<lparr>dr_issued_grant_handle := Some ref_handle,
       dr_issued_grant_id := Some ref_grant_id\<rparr>],
     generation_tombstones = [], emitted = [], pairing_eligibilities = [], blocked_endpoints = [],
     w_inbox = ib, w_active = [], w_cancelled = [], w_hashes = [], w_access = new_policy, w_tags = [],
     w_tag_faults = [], w_invitations = []\<rparr>"

definition ref_auth_text :: string where
  "ref_auth_text = (case encode ref_ext ref_auth of Inr v \<Rightarrow> v | Inl _ \<Rightarrow> '''')"

definition ref_delivery :: deliver_auth where
  "ref_delivery = \<lparr>da_transfer_id = ''t1'', da_authorization = ref_auth_text\<rparr>"

abbreviation ref_auth_handle :: string where
  "ref_auth_handle \<equiv> generate_handle TargetedAuthorization ''v''"

lemma ref_auth_fields:
  "au_transfer_id ref_auth = ''t1''" "au_protocol_transfer_id ref_auth = 7" "au_sender_endpoint_id ref_auth = ''alice''"
  "au_receiver_endpoint_id ref_auth = ''bob''" "au_manifest_id ref_auth = ''hash''" "au_content_hash ref_auth = ''hash''"
  "au_file_count ref_auth = 1" "au_total_size ref_auth = 5" "au_protocol_version ref_auth = 3"
  "au_transfer_name ref_auth = ''report''" "au_blob_ticket ref_auth = ''blob''"
proof -
  have "same_bound ref_auth (with_draft ref_draft [])"
    using issuedD [OF ref_ext_ok _ ref_issue] by (simp add: ref_secret_def)
  then show "au_transfer_id ref_auth = ''t1''" "au_protocol_transfer_id ref_auth = 7" "au_sender_endpoint_id ref_auth = ''alice''"
    "au_receiver_endpoint_id ref_auth = ''bob''" "au_manifest_id ref_auth = ''hash''" "au_content_hash ref_auth = ''hash''"
    "au_file_count ref_auth = 1" "au_total_size ref_auth = 5" "au_protocol_version ref_auth = 3"
    "au_transfer_name ref_auth = ''report''" "au_blob_ticket ref_auth = ''blob''"
    by (simp_all add: same_bound_iff mac_fields_def with_draft_def ref_draft_def)
qed

lemma ref_auth_ok: "verify_integrity ref_ext ref_auth = Inr ()" "secret_bytes ref_ext ref_auth = Inr ref_secret"
  using issuedD [OF ref_ext_ok _ ref_issue] by (simp_all add: ref_secret_def)

lemma ref_decode: "decode ref_ext ref_auth_text = Inr ref_auth"
proof -
  obtain v where v: "encode ref_ext ref_auth = Inr v" using encode_total [OF ref_ext_ok] by blast
  with decode_encode [OF ref_ext_ok v] ref_auth_ok(1) show ?thesis by (simp add: ref_auth_text_def)
qed

lemma ref_env_simps:
  "me_rel ref_env = ref_rel_env ''bob''" "re_ext (ref_rel_env p) = ref_ext" "re_local_endpoint_id (ref_rel_env p) = p"
  "re_custody (ref_rel_env p)" "re_public_key (ref_rel_env p) = (\<lambda>_. '''')" "me_blob_hash ref_env v = Some ''hash''"
  "me_limits ref_env = default_core_limits" "me_relay_mode ref_env = Automatic"
  "me_custom_relay_urls ref_env = []" "me_parse_url ref_env = Some"
  by (simp_all add: ref_env_def ref_rel_env_def)

lemma ref_accepts: "delivery_accepted ref_env ''alice'' ref_delivery ref_auth"
  by (simp add: delivery_accepted_def ref_auth_fields ref_env_simps ref_delivery_def TARGETED_PROTOCOL_VERSION_def
)

lemma ref_material: "auth_secret_material ref_ext ref_auth = Inr ref_secret"
  by (simp add: auth_secret_material_def ref_auth_ok new_material_def ref_secret_def list_all_iff set_replicate_conv_if)

lemma ref_handles: "ref_auth_handle \<noteq> ref_handle"
  by (simp add: ref_handle_def generate_handle_def kind_as_str_def)

text \<open>The world after the secret of the reference authorization was protected, and after it was stored.\<close>

definition ref_protected :: "row list \<Rightarrow> intent list \<Rightarrow> inbox \<Rightarrow> world" where
  "ref_protected rows intents ib = (ref_world rows intents ib)\<lparr>
     protected_secret_refs := protected_secret_refs (ref_world [] [] ib) @ [\<lparr>sr_handle = ref_auth_handle,
       sr_kind = TargetedAuthorization, sr_state = Active, sr_expected_identity = None,
       sr_created_at = 2, sr_updated_at = 2\<rparr>],
     vs_values := [(ref_handle, ref_secret), (ref_auth_handle, ref_secret)]\<rparr>"

definition ref_stored :: "inbox \<Rightarrow> world" where
  "ref_stored ib = (ref_protected [receiver_row 2 ref_auth ref_auth_handle] [] ib)\<lparr>
     emitted := [(''targeted_transfer'', ''approved'')]\<rparr>"

lemma ref_require_saved: "require_saved ''alice'' (ref_world rows intents ib) = (Inr (), ref_world rows intents ib)"
  by (simp add: require_saved_def find_saved_def rel_find_row_def select_def transact_no_fault proc_defs
      find_by_def ref_world_def ref_relationship_def)

lemma ref_protect:
  "protect (\<lambda>_. '''') 2 ''v'' TargetedAuthorization ref_secret None (ref_world rows intents ib) =
     (Inr ref_auth_handle, ref_protected rows intents ib)"
  using ref_handles
  by (simp add: ref_call_defs ref_world_def ref_protected_def ref_handles [symmetric])

lemma ref_reads:
  "get_row i (ref_world rows intents ib) = (Inr (find_by tr_id i rows), ref_world rows intents ib)"
  "select (\<lambda>s. List.member (w_invitations s) p) (ref_world rows intents ib) = (Inr False, ref_world rows intents ib)"
  by (simp_all add: get_row_def select_def transact_def ref_world_def Let_def)

lemma ref_persist:
  "persist_receiver_authorization_and_consume_intent 2 ref_auth ref_auth_handle
     (ref_protected [] [intent_of_offer 1 ref_offer] ib) =
   (Inr True, ref_protected [receiver_row 2 ref_auth ref_auth_handle] [] ib)"
proof -
  have m: "intent_matches_auth ref_auth (intent_of_offer 1 ref_offer)"
    by (simp add: intent_matches_auth_def intent_of_offer_def ref_offer_def ref_auth_fields)
  have tid: "in_transfer_id (intent_of_offer 1 ref_offer) = ''t1''"
    by (simp add: intent_of_offer_def ref_offer_def)
  show ?thesis
    by (simp add: persist_receiver_authorization_and_consume_intent_def transact_def ref_protected_def
        ref_world_def m tid ref_auth_fields Let_def row_conflicts_def delete_where_def)
qed

lemma ref_authorization_stored:
  "\<exists>ib'. handle_authorization ref_env 2 ''v'' ''alice'' ref_delivery
     (ref_world [] [intent_of_offer 1 ref_offer] ib) = (Inr Stored, ref_stored ib')"
proof -
  let ?w = "ref_world [] [intent_of_offer 1 ref_offer] ib"
  have "find_by tr_id ''t1'' ([] :: row list) = None" by (simp add: find_by_def)
  moreover have "emit_lifecycle ''approved'' (ref_protected [receiver_row 2 ref_auth ref_auth_handle] [] ib) = (Inr (), ref_stored ib)"
    by (simp add: emit_lifecycle_def emit_def modify_def ref_stored_def ref_protected_def ref_world_def)
  ultimately have "persist_receiver ref_env 2 ''v'' ref_auth ?w = (Inr True, ref_stored ib)"
    unfolding persist_receiver_def require_auth_custody_def
    by (simp del: List.member_iff add: ref_auth_fields ref_env_simps ref_reads proc_defs ref_material ref_protect ref_persist)
  moreover have "(ref_stored ib)\<lparr>w_inbox := ib'\<rparr> = ref_stored ib'" for ib'
    by (simp add: ref_stored_def ref_protected_def ref_world_def)
  moreover have "da_authorization ref_delivery = ref_auth_text" by (simp add: ref_delivery_def)
  ultimately show ?thesis
    unfolding handle_authorization_def
    by (simp add: ref_require_saved proc_defs ref_env_simps ref_decode ref_accepts with_inbox_def
        split: prod.split) blast
qed

section \<open>Properties: deliveries\<close>

text \<open>
  C11: a receiver acknowledges an authorization only when the peer is a
  saved device, the text decodes to a capability whose MAC verifies, the capability names that
  peer as the sender, this device as the receiver, the transfer, the protocol version and the
  hash of the payload, and a receiver row with exactly its terms and its own secret is stored;
  no stored row is lost.
\<close>

theorem stored_authorization_is_bound:
  assumes "handle_authorization e now uuid remote d s = (Inr Stored, t)"
  shows "saved_peer remote s \<and>
    (\<exists>a. decode (me_ext e) (da_authorization d) = Inr a \<and> verify_integrity (me_ext e) a = Inr () \<and>
       au_sender_endpoint_id a = remote \<and> au_receiver_endpoint_id a = me_local e \<and>
       au_transfer_id a = da_transfer_id d \<and> au_protocol_version a = 3 \<and>
       me_blob_hash e (au_blob_ticket a) = Some (au_content_hash a) \<and>
       (\<exists>r \<in> set (targeted_transfers t). tr_id r = au_transfer_id a \<and> tr_role r = Receiver \<and>
          tr_sender_endpoint_id r = remote \<and> tr_receiver_endpoint_id r = me_local e \<and>
          tr_content_hash r = au_content_hash a \<and> tr_file_count r = au_file_count a \<and>
          tr_total_size r = au_total_size a \<and> tr_transfer_name r = au_transfer_name a \<and>
          tr_blob_ticket r = Some (au_blob_ticket a) \<and> tr_secret_handle r \<noteq> None)) \<and>
    set (targeted_transfers s) \<subseteq> set (targeted_transfers t)"
proof -
  obtain a b s1 s2 ib where d: "saved_peer remote s" "s1 = tick_db s" "decode (me_ext e) (da_authorization d) = Inr a"
    "delivery_accepted e remote d a" and p: "persist_receiver e now uuid a s1 = (Inr b, s2)" and t: "t = s2\<lparr>w_inbox := ib\<rparr>"
    by (rule handle_authorizationD [OF assms])
  note pd = persist_receiverD [OF p]
  obtain r where r: "r \<in> set (targeted_transfers t)" "tr_id r = au_transfer_id a" "exact_delivery r a" "tr_secret_handle r \<noteq> None"
    using pd(2) t by auto
  have "au_sender_endpoint_id a = remote" "au_receiver_endpoint_id a = me_local e"
    "au_transfer_id a = da_transfer_id d" "au_protocol_version a = 3"
    "me_blob_hash e (au_blob_ticket a) = Some (au_content_hash a)"
    using d(4) by (simp_all add: delivery_accepted_def TARGETED_PROTOCOL_VERSION_def)
  moreover have "verify_integrity (me_ext e) a = Inr ()" by (rule decode_verifies [OF d(3)])
  moreover have "set (targeted_transfers s) \<subseteq> set (targeted_transfers t)" using pd(1) d(2) t by simp
  ultimately show ?thesis
    using d(1,3) r unfolding exact_delivery_def by (intro conjI exI [of _ a] bexI [of _ r]) simp_all
qed

theorem stored_authorization_is_bound_witness:
  "\<exists>t. handle_authorization ref_env 2 ''v'' ''alice'' ref_delivery
     (ref_world [] [intent_of_offer 1 ref_offer] (new_inbox 16 (new_cooldown 60000 5))) = (Inr Stored, t) \<and>
     (\<exists>r \<in> set (targeted_transfers t). tr_role r = Receiver \<and> tr_sender_endpoint_id r = ''alice'')"
proof -
  obtain ib' where out: "handle_authorization ref_env 2 ''v'' ''alice'' ref_delivery
     (ref_world [] [intent_of_offer 1 ref_offer] (new_inbox 16 (new_cooldown 60000 5))) = (Inr Stored, ref_stored ib')"
    using ref_authorization_stored by blast
  with stored_authorization_is_bound [OF out] show ?thesis by blast
qed

text \<open>
  C39: after an acknowledged delivery, on working stores, the row of
  the transfer gives back the very capability that was delivered, so the receiver can always
  present it to the sender, also after a restart.
\<close>

theorem stored_authorization_can_be_used:
  assumes "ext_ok (me_ext e)" and "handle_authorization e now uuid remote d s = (Inr Stored, t)" and "healthy t"
  shows "\<exists>r v. r \<in> set (targeted_transfers t) \<and> tr_id r = da_transfer_id d \<and> tr_role r = Receiver \<and>
    load_authorization e r t = (Inr (Some v), t) \<and> decode (me_ext e) v = decode (me_ext e) (da_authorization d)"
proof -
  obtain a b s1 s2 ib where d: "decode (me_ext e) (da_authorization d) = Inr a"
    "delivery_accepted e remote d a" and p: "persist_receiver e now uuid a s1 = (Inr b, s2)" and t: "t = s2\<lparr>w_inbox := ib\<rparr>"
    by (rule handle_authorizationD [OF assms(2)])
  have "au_protocol_version a = TARGETED_PROTOCOL_VERSION" "au_transfer_id a = da_transfer_id d"
    using d(2) by (simp_all add: delivery_accepted_def)
  with persist_receiver_usable [OF assms(1) p decode_verifies [OF d(1)] _ assms(3)] t d(1) show ?thesis
    by auto
qed

theorem stored_authorization_can_be_used_witness:
  "\<exists>t r v. handle_authorization ref_env 2 ''v'' ''alice'' ref_delivery
     (ref_world [] [intent_of_offer 1 ref_offer] (new_inbox 16 (new_cooldown 60000 5))) = (Inr Stored, t) \<and>
     load_authorization ref_env r t = (Inr (Some v), t) \<and> decode ref_ext v = Inr ref_auth"
proof -
  obtain ib' where out: "handle_authorization ref_env 2 ''v'' ''alice'' ref_delivery
     (ref_world [] [intent_of_offer 1 ref_offer] (new_inbox 16 (new_cooldown 60000 5))) = (Inr Stored, ref_stored ib')"
    using ref_authorization_stored by blast
  have h: "healthy (ref_stored ib')" by (simp add: healthy_def ref_stored_def ref_protected_def ref_world_def)
  have x: "ext_ok (me_ext ref_env)" by (simp add: ref_env_simps ref_ext_ok)
  from stored_authorization_can_be_used [OF x out h] out show ?thesis
    by (auto simp: ref_env_simps ref_delivery_def ref_decode)
qed

end
