(* ===== verification/Peer_Properties.thy ===== *)
theory Peer_Properties
  imports Module_Properties
begin

text \<open>
  What a peer's messages can and cannot do: completions need the capability, and no message
  changes a transfer with another peer; what a local termination erases and what a restart
  recovers.
\<close>

section \<open>Relations on the rows of other transfers\<close>

definition others_kept :: "string \<Rightarrow> 'z db_scheme \<Rightarrow> 'z db_scheme \<Rightarrow> bool" where
  "others_kept i s t \<longleftrightarrow>
     (\<forall>q. tr_id q \<noteq> i \<longrightarrow> q \<in> set (targeted_transfers t) \<longleftrightarrow> q \<in> set (targeted_transfers s))"

definition rows_grow :: "'z db_scheme \<Rightarrow> 'z db_scheme \<Rightarrow> bool" where
  "rows_grow s t \<longleftrightarrow> set (targeted_transfers s) \<subseteq> set (targeted_transfers t)"

interpretation ot: db_preorder "others_kept i" for i
  by unfold_locales (auto simp: others_kept_def same_tables_def)

interpretation gr: db_preorder rows_grow
  by unfold_locales (auto simp: rows_grow_def same_tables_def)

lemma others_update:
  assumes "targeted_transfers t = update_where P u (targeted_transfers s)"
    and "\<And>r. tr_id (u r) = tr_id r" and "\<And>r. P r \<Longrightarrow> tr_id r = i"
  shows "others_kept i s t"
  using others_set [OF assms(2,3)] by (simp add: others_kept_def assms(1))

lemma others_clear: "stable (others_kept i) (clear_authorization i)"
  unfolding clear_authorization_def
  by (rule ot.stable_exec) (simp add: others_kept_def others_set [where i = i])

lemma others_terminal: "stable (others_kept i) (transition_terminal n i target c)"
proof -
  let ?P = "\<lambda>r. tr_id r = i \<and> tr_state r \<noteq> target \<and>
    (target = Deleted \<and> tr_state r \<noteq> Deleted \<or> target = Cancelled \<and> \<not> is_terminal (tr_state r))"
  have P: "tr_id r = i" if "?P r" for r using that by (rule conjunct1)
  show ?thesis
    unfolding transition_terminal_def Let_def
    by (intro ot.stable_rules ot.stable_transact) (auto simp: others_kept_def others_set [OF _ P])
qed

lemma others_complete: "stable (others_kept i) (mark_sender_completed n i)"
  unfolding mark_sender_completed_def Let_def
proof (rule ot.stable_transact)
  fix s t :: "'z db_scheme" and x
  let ?P = "\<lambda>r. tr_id r = i \<and> tr_role r = Sender \<and> is_resumable (tr_state r)"
  let ?u = "\<lambda>r. r\<lparr>tr_state := Completed, tr_verified_bytes := tr_total_size r, tr_updated_at := n\<rparr>"
  let ?f = "if affected ?P (targeted_transfers s) = 0
     then if exists_where (\<lambda>r. tr_id r = i \<and> tr_role r = Sender \<and> tr_state r = Completed) (targeted_transfers s)
          then (Inr False, on_deliveries (delete_where (delivery_for i)) s)
          else (Inl (InvalidTransition ''sender transfer cannot be completed''), s)
     else (Inr True, on_releases (insert_or_ignore rl_transfer_id \<lparr>rl_transfer_id = i, rl_created_at = n\<rparr>)
        (on_deliveries (delete_where (delivery_for i)) (on_transfers (update_where ?P ?u) s)))"
  assume f: "?f = (Inr x, t)"
  then have "targeted_transfers t = targeted_transfers s \<or>
      targeted_transfers t = update_where ?P ?u (targeted_transfers s)"
    by (auto split: if_splits)
  then show "others_kept i s t"
  proof
    assume "targeted_transfers t = targeted_transfers s"
    then show ?thesis by (simp add: others_kept_def)
  next
    assume "targeted_transfers t = update_where ?P ?u (targeted_transfers s)"
    then show ?thesis by (rule others_update) auto
  qed
qed

lemmas others_writes = others_clear others_terminal others_complete

lemma inbox_tables: "stable same_tables (with_inbox g)" "stable same_tables (on_inbox f)"
  by (simp_all add: stable_def on_inbox_def with_inbox_def case_prod_beta same_tables_def)

lemma lifecycle_tables: "stable same_tables (emit_lifecycle k)" "stable same_tables (announce k b)"
  unfolding announce_def emit_lifecycle_def by (intro tb.stable_rules emit_tables)+

lemma runtime_tables:
  "stable same_tables (signal_cancel i)" "stable same_tables (release_hashes p)"
  "stable same_tables (modify (\<lambda>s. s\<lparr>w_access := remove_transfer p (w_access s)\<rparr>))"
  "stable same_tables (delete_tag m)"
proof -
  show "stable same_tables (signal_cancel i)" "stable same_tables (release_hashes p)"
    "stable same_tables (modify (\<lambda>s. s\<lparr>w_access := remove_transfer p (w_access s)\<rparr>))"
    unfolding signal_cancel_def release_hashes_def by (rule tb.stable_modify, simp add: same_tables_def)+
  show "stable same_tables (delete_tag m)"
    by (auto simp: stable_def delete_tag_def Let_def same_tables_def split: list.splits option.splits)
qed

lemmas others_frames = runtime_tables [THEN ot.stable_frame] inbox_tables [THEN ot.stable_frame]
  lifecycle_tables [THEN ot.stable_frame] frame_remove_secret [THEN tables_of_frame, THEN ot.stable_frame]

lemma others_cleanup: "tr_id r = i \<Longrightarrow> stable (others_kept i) (cleanup e n r)"
  unfolding cleanup_def
  by (auto intro!: ot.stable_rules others_writes others_frames split: option.splits)

section \<open>Messages and the rows of other peers\<close>

text \<open>\<open>foreign_kept\<close>: the rows with other peers are as they were.\<close>

definition foreign_kept :: "string \<Rightarrow> 'z db_scheme \<Rightarrow> 'z db_scheme \<Rightarrow> bool" where
  "foreign_kept remote s t \<longleftrightarrow>
     (\<forall>r \<in> set (targeted_transfers s). peer_of r \<noteq> remote \<longrightarrow> r \<in> set (targeted_transfers t))"

lemma foreign_of_grow: "rows_grow s t \<Longrightarrow> foreign_kept remote s t"
  by (auto simp: foreign_kept_def rows_grow_def)

lemma foreign_of_same: "targeted_transfers t = targeted_transfers s \<Longrightarrow> foreign_kept remote s t"
  by (simp add: foreign_kept_def)

lemma foreign_of_others:
  assumes "others_kept i s t" and "keys_ok s" and "r \<in> set (targeted_transfers s)"
    and "tr_id r = i" and "peer_of r = remote"
  shows "foreign_kept remote s t"
  unfolding foreign_kept_def
proof (intro ballI impI)
  fix q assume q: "q \<in> set (targeted_transfers s)" "peer_of q \<noteq> remote"
  have "tr_id q \<noteq> i"
  proof
    assume "tr_id q = i"
    then have "q = r" using keys_unique [OF assms(2) q(1) assms(3)] assms(4) by simp
    then show False using q(2) assms(5) by simp
  qed
  then show "q \<in> set (targeted_transfers t)" using assms(1) q(1) by (simp add: others_kept_def)
qed

lemma grow_handle_authorization: "stable rows_grow (handle_authorization e n u p d)"
proof -
  have insert: "stable rows_grow (persist_receiver_authorization_and_consume_intent n a h)" for a h
    unfolding persist_receiver_authorization_and_consume_intent_def
    by (rule gr.stable_transact) (auto simp: rows_grow_def split: if_splits)
  have check: "stable rows_grow (check_existing_delivery e a r)" for a r
    unfolding check_existing_delivery_def
    by (intro gr.stable_rules gr.stable_frame [OF tables_of_frame [OF frame_load]])
  have persist: "stable rows_grow (persist_receiver e n u a)" for a
    unfolding persist_receiver_def require_auth_custody_def
    by (intro gr.stable_rules gr.stable_reads gr.stable_select insert check
        gr.stable_frame [OF tables_of_frame [OF frame_protect]]
        gr.stable_frame [OF tables_of_frame [OF frame_remove_secret]]
        gr.stable_frame [OF lifecycle_tables(1)])
  show ?thesis
    unfolding handle_authorization_def
    by (intro gr.stable_rules persist gr.stable_frame [OF inbox_tables(1)]
        gr.stable_frame [OF tables_of_frame [OF frame_require_saved]])
qed

lemma foreign_cancel_from_peer:
  assumes keys: "keys_ok s"
  shows "foreign_kept remote s (snd (cancel_from_peer e n remote i s))"
proof -
  obtain found s1 where g: "get_row i s = (found, s1)" by (cases "get_row i s")
  have s1: "same_tables s s1" by (rule stableD [OF tb.stable_reads(5) g])
  then have rows: "targeted_transfers s1 = targeted_transfers s" by (simp add: same_tables_def)
  let ?t = "snd (cancel_from_peer e n remote i s)"
  show ?thesis
  proof (cases "\<exists>r. found = Inr (Some r) \<and> peer_of r = remote")
    case True
    then obtain r where r: "found = Inr (Some r)" "peer_of r = remote" by blast
    have "find_by tr_id i (targeted_transfers s) = Some r" using get_row_InrD [of i s] g r(1) by auto
    then have row: "r \<in> set (targeted_transfers s)" "tr_id r = i" by (auto dest: find_by_SomeD)
    let ?m = "if tr_state r = Cancelled then next_do (cleanup e n r) (ok True)
        else if is_terminal (tr_state r) then ok True
        else bind (transition_terminal n i Cancelled False) (\<lambda>changed.
          next_do (if changed then next_do (emit_lifecycle ''cancelled'') (cleanup e n r) else ok ()) (ok True))"
    have "stable (others_kept i) ?m"
      by (intro ot.stable_rules others_cleanup [OF row(2)] others_writes others_frames)
    then have "others_kept i s1 (snd (?m s1))" unfolding stable_def by blast
    moreover have "?t = snd (?m s1)" using g r by (simp add: cancel_from_peer_def bind_def)
    ultimately have "others_kept i s ?t" using rows by (simp add: others_kept_def)
    then show ?thesis by (rule foreign_of_others [OF _ keys row r(2)])
  next
    case False
    have "targeted_transfers ?t = targeted_transfers s"
      using False g rows
      by (auto simp: cancel_from_peer_def proc_defs clear_accepted_intent_if_sender_def exec_def transact_def Let_def
          split: sum.splits option.splits list.splits)
    then show ?thesis by (rule foreign_of_same)
  qed
qed

lemma foreign_handle_cancel:
  assumes keys: "keys_ok s"
  shows "foreign_kept remote s (snd (handle_cancel e n remote c s))"
proof (cases "find_pending (co_transfer_id c) (w_inbox s)")
  case None
  obtain x u where "cancel_from_peer e n remote (co_transfer_id c) s = (x, u)"
    by (cases "cancel_from_peer e n remote (co_transfer_id c) s")
  then show ?thesis
    using None foreign_cancel_from_peer [OF keys, of remote e n "co_transfer_id c"] foreign_of_same [of s s]
    by (auto simp: handle_cancel_def proc_defs)
next
  case (Some p)
  then have "targeted_transfers (snd (handle_cancel e n remote c s)) = targeted_transfers s"
    by (auto simp: handle_cancel_def proc_defs on_inbox_def with_inbox_def answer_def
        clear_accepted_offer_intent_def exec_def transact_def Let_def split: list.splits option.splits)
  then show ?thesis by (rule foreign_of_same)
qed

lemma handle_completionD:
  assumes "handle_completion e n remote c s = (x, t)" and "x \<noteq> Inr CompletionRejected"
  shows "saved_peer remote s" and "x = Inr Recorded"
    and "\<exists>r a s1. r \<in> set (targeted_transfers s) \<and> tr_id r = ct_transfer_id c \<and> same_tables s s1 \<and>
      decode (me_ext e) (ct_authorization c) = Inr a \<and> completion_bound e remote c r a \<and>
      (tr_state r = Completed \<and> t = s1 \<or>
       \<not> is_terminal (tr_state r) \<and> (\<exists>b s2. mark_sender_completed n (ct_transfer_id c) s1 = (Inr b, s2) \<and>
         same_tables s2 t))"
proof -
  obtain y s0 where req: "require_saved remote s = (y, s0)" by (cases "require_saved remote s")
  have s0: "same_tables s s0" by (rule stableD [OF tables_of_frame [OF frame_require_saved] req])
  obtain found s1 where g: "get_row (ct_transfer_id c) s0 = (found, s1)" by (cases "get_row (ct_transfer_id c) s0")
  have s1: "same_tables s s1" using s0 stableD [OF tb.stable_reads(5) g] by (rule tb.trans)
  from assms req g obtain v r a where y: "y = Inr v" and r: "found = Inr (Some r)"
    and a: "decode (me_ext e) (ct_authorization c) = Inr a" and b: "completion_bound e remote c r a"
    and rest: "(if tr_state r = Completed then ok Recorded
              else if is_terminal (tr_state r) then ok CompletionRejected
              else answer Recorded CompletionRejected
                (next_do (mark_sender_completed_and_emit n (ct_transfer_id c)) (ok ()))) s1 = (x, t)"
    by (auto simp: handle_completion_def proc_defs split: sum.splits option.splits if_splits)
  show "saved_peer remote s" using req y by (auto intro: require_savedD)
  have "find_by tr_id (ct_transfer_id c) (targeted_transfers s0) = Some r"
    using get_row_InrD [of "ct_transfer_id c" s0] g r by auto
  then have row: "r \<in> set (targeted_transfers s)" "tr_id r = ct_transfer_id c"
    using s0 by (auto simp: same_tables_def dest: find_by_SomeD)
  have end_state: "x = Inr Recorded \<and> (tr_state r = Completed \<and> t = s1 \<or>
       \<not> is_terminal (tr_state r) \<and> (\<exists>b s2. mark_sender_completed n (ct_transfer_id c) s1 = (Inr b, s2) \<and>
         same_tables s2 t))"
  proof (cases "tr_state r = Completed \<or> is_terminal (tr_state r)")
    case True
    then show ?thesis using rest assms(2) by (auto simp: ok_def split: if_splits)
  next
    case False
    obtain z s2 where m: "mark_sender_completed n (ct_transfer_id c) s1 = (z, s2)"
      by (cases "mark_sender_completed n (ct_transfer_id c) s1")
    show ?thesis
    proof (cases z)
      case (Inl err)
      then show ?thesis using rest False m assms(2)
        by (auto simp: answer_def mark_sender_completed_and_emit_def proc_defs)
    next
      case (Inr w)
      have "same_tables s2 (snd (announce ''completed'' w s2))" by (rule stableD [OF lifecycle_tables(2) prod.collapse [symmetric]])
      moreover have "x = Inr Recorded \<and> t = snd (announce ''completed'' w s2)"
        using rest False m Inr
        by (auto simp: answer_def mark_sender_completed_and_emit_def announce_def emit_lifecycle_def emit_def proc_defs
            split: if_splits)
      ultimately show ?thesis using False m Inr by auto
    qed
  qed
  then show "x = Inr Recorded" by blast
  show "\<exists>r a s1. r \<in> set (targeted_transfers s) \<and> tr_id r = ct_transfer_id c \<and> same_tables s s1 \<and>
      decode (me_ext e) (ct_authorization c) = Inr a \<and> completion_bound e remote c r a \<and>
      (tr_state r = Completed \<and> t = s1 \<or>
       \<not> is_terminal (tr_state r) \<and> (\<exists>b s2. mark_sender_completed n (ct_transfer_id c) s1 = (Inr b, s2) \<and>
         same_tables s2 t))"
    using row s1 a b end_state by blast
qed

lemma completion_rejectedD:
  assumes "handle_completion e n remote c s = (Inr CompletionRejected, t)"
  shows "same_tables s t"
proof -
  obtain y s0 where req: "require_saved remote s = (y, s0)" by (cases "require_saved remote s")
  have s0: "same_tables s s0" by (rule stableD [OF tables_of_frame [OF frame_require_saved] req])
  obtain found s1 where g: "get_row (ct_transfer_id c) s0 = (found, s1)" by (cases "get_row (ct_transfer_id c) s0")
  have s1: "same_tables s s1" using s0 stableD [OF tb.stable_reads(5) g] by (rule tb.trans)
  obtain z s2 where m: "mark_sender_completed n (ct_transfer_id c) s1 = (z, s2)"
    by (cases "mark_sender_completed n (ct_transfer_id c) s1")
  have s2: "same_tables s1 s2" if "z = Inl x" for x
    using m that by (auto simp: mark_sender_completed_def transact_def same_tables_def Let_def
        split: list.splits option.splits if_splits)
  have "t = s0 \<or> t = s1 \<or> (\<exists>x. z = Inl x) \<and> t = s2"
    using assms req g m
    by (auto simp: handle_completion_def answer_def mark_sender_completed_and_emit_def announce_def
        emit_lifecycle_def emit_def proc_defs split: sum.splits option.splits if_splits)
  then show ?thesis using s0 s1 s2 by (auto intro: tb.trans)
qed

lemma foreign_handle_completion:
  assumes keys: "keys_ok s"
  shows "foreign_kept remote s (snd (handle_completion e n remote c s))"
proof -
  obtain x t where out: "handle_completion e n remote c s = (x, t)" by (cases "handle_completion e n remote c s")
  show ?thesis
  proof (cases "x = Inr CompletionRejected")
    case False
    note d = handle_completionD [OF out False]
    obtain r a s1 where r: "r \<in> set (targeted_transfers s)" "tr_id r = ct_transfer_id c" "same_tables s s1"
      and a: "completion_bound e remote c r a"
      and fin: "t = s1 \<or> (\<exists>b s2. mark_sender_completed n (ct_transfer_id c) s1 = (Inr b, s2) \<and> same_tables s2 t)"
      using d(3) by (elim exE conjE) (rule that, auto)
    have "peer_of r = remote" using a by (simp add: completion_bound_def peer_of_def)
    moreover have "others_kept (ct_transfer_id c) s t"
      using fin
    proof (elim disjE exE conjE)
      assume "t = s1" then show ?thesis using r(3) by (simp add: ot.frame)
    next
      fix b s2 assume m: "mark_sender_completed n (ct_transfer_id c) s1 = (Inr b, s2)" and s2: "same_tables s2 t"
      have "others_kept (ct_transfer_id c) s1 s2" by (rule stableD [OF others_complete m])
      then show ?thesis using ot.frame [OF r(3)] ot.frame [OF s2] by (blast intro: ot.trans)
    qed
    ultimately show ?thesis using foreign_of_others [OF _ keys r(1,2)] out by simp
  next
    case True
    then have "same_tables s t" using completion_rejectedD [of e n remote c s t] out by simp
    then have "targeted_transfers t = targeted_transfers s" by (simp add: same_tables_def)
    then show ?thesis unfolding out snd_conv by (rule foreign_of_same)
  qed
qed

section \<open>Local terminations\<close>

lemma world_of_frame: "custody_frame s t \<Longrightarrow> w_active t = w_active s \<and> w_inbox t = w_inbox s"
  by (cases s; cases t) (simp add: custody_frame_def)

lemma rows_of_frame: "custody_frame s t \<Longrightarrow> targeted_transfers t = targeted_transfers s"
  by (simp add: custody_frame_def same_tables_def)

lemma signal_cancelD:
  "signal_cancel i s = (x, t) \<Longrightarrow> targeted_transfers t = targeted_transfers s \<and>
   i \<notin> set (w_active t) \<and> w_inbox t = w_inbox s"
  by (auto simp: signal_cancel_def modify_def split: if_splits)

lemma delete_tagD:
  "delete_tag m s = (x, t) \<Longrightarrow> targeted_transfers t = targeted_transfers s \<and> w_active t = w_active s \<and>
   w_inbox t = w_inbox s"
  by (auto simp: delete_tag_def Let_def split: list.splits option.splits)

lemma clear_authorizationD:
  "clear_authorization i s = (Inr u, t) \<Longrightarrow>
   targeted_transfers t = update_where (\<lambda>q. tr_id q = i)
     (\<lambda>q. q\<lparr>tr_blob_ticket := None, tr_secret_handle := None\<rparr>) (targeted_transfers s) \<and>
   db.more t = db.more s"
  by (auto simp: clear_authorization_def exec_def dest!: transact_InrD)

definition cleaned_rows :: "row \<Rightarrow> row list \<Rightarrow> row list" where
  "cleaned_rows r rows = (if tr_secret_handle r = None then rows
     else update_where (\<lambda>q. tr_id q = tr_id r) (\<lambda>q. q\<lparr>tr_blob_ticket := None, tr_secret_handle := None\<rparr>) rows)"

lemma cleanupD:
  assumes "cleanup e n r s = (Inr u, t)"
  shows "targeted_transfers t = cleaned_rows r (targeted_transfers s) \<and> w_inbox t = w_inbox s \<and>
    tr_id r \<notin> set (w_active t) \<and>
    (\<forall>h. tr_secret_handle r = Some h \<longrightarrow> re_custody (me_rel e) \<longrightarrow> map_of (vs_values t) h = None)"
proof -
  from assms obtain x1 s1 x2 s2 x3 s3 x4 s4 where s1: "signal_cancel (tr_id r) s = (x1, s1)"
    and s2: "release_hashes (tr_protocol_transfer_id r) s1 = (x2, s2)"
    and s3: "modify (\<lambda>s. s\<lparr>w_access := remove_transfer (tr_protocol_transfer_id r) (w_access s)\<rparr>) s2 = (x3, s3)"
    and s4: "(if tr_role r = Sender then delete_tag (targeted_tag_name (tr_id r)) else ok ()) s3 = (x4, s4)"
    and last: "(case tr_secret_handle r of None \<Rightarrow> ok () | Some handle \<Rightarrow>
        next_do (if re_custody (me_rel e) then remove_secret n handle else ok ())
          (clear_authorization (tr_id r))) s4 = (Inr u, t)"
    unfolding cleanup_def by (elim next_InrD [elim_format] exE conjE) (rule that)
  have start: "targeted_transfers s4 = targeted_transfers s" "w_inbox s4 = w_inbox s" "tr_id r \<notin> set (w_active s4)"
    using signal_cancelD [OF s1] s2 s3 s4
    by (auto simp: release_hashes_def modify_def ok_def dest: delete_tagD split: if_splits)
  show ?thesis
  proof (cases "tr_secret_handle r")
    case None
    then show ?thesis using last start by (simp add: cleaned_rows_def)
  next
    case (Some h)
    from last Some obtain x5 s5 where s5: "(if re_custody (me_rel e) then remove_secret n h else ok ()) s4 = (Inr x5, s5)"
      and clear: "clear_authorization (tr_id r) s5 = (Inr u, t)" by (auto dest!: next_InrD)
    have "custody_frame s4 s5"
      using s5 stableD [OF frame_remove_secret] by (auto intro: cf.refl split: if_splits)
    then have s5': "targeted_transfers s5 = targeted_transfers s4" "w_inbox s5 = w_inbox s4" "w_active s5 = w_active s4"
      by (simp_all add: world_of_frame rows_of_frame)
    have "map_of (vs_values s5) h = None" if "re_custody (me_rel e)"
      using s5 that remove_secretD(1) [of n h s4 s5 h] by simp
    moreover have "vs_values t = vs_values s5" "w_inbox t = w_inbox s5" "w_active t = w_active s5"
      using clear_authorizationD [OF clear] by (cases s5; cases t; simp)+
    ultimately show ?thesis
      using clear_authorizationD [OF clear] s5' start Some by (simp add: cleaned_rows_def)
  qed
qed

lemma announceD: "announce k b s = (x, t) \<Longrightarrow> x = Inr b \<and> targeted_transfers t = targeted_transfers s"
  by (auto simp: announce_def emit_lifecycle_def emit_def proc_defs split: if_splits)

lemma terminate_localE:
  fixes s t :: "'z world_scheme"
  assumes "terminate_local e n i target s = (Inr (Some (r, changed)), t)"
  obtains (settled) ib where "r \<in> set (targeted_transfers s)" "tr_id r = i"
      "tr_state r = target" "tr_secret_handle r = None" "\<not> changed"
      "targeted_transfers t = targeted_transfers s" "w_inbox t = discard i ib"
    | (cleaned) s1 s2 u where "r \<in> set (targeted_transfers s)" "tr_id r = i"
      "\<not> changed \<and> tr_state r = target \<and> targeted_transfers s1 = targeted_transfers s \<or>
       (\<exists>(s0 :: 'z world_scheme) s1'. targeted_transfers s0 = targeted_transfers s \<and>
          transition_terminal n i target True s0 = (Inr changed, s1') \<and>
          targeted_transfers s1 = targeted_transfers s1')"
      "s2 = s1\<lparr>w_inbox := discard i (w_inbox s1)\<rparr>" "cleanup e n r s2 = (Inr u, t)"
proof -
  from assms obtain found s0 where g: "get_row i s = (Inr found, s0)"
    and rest: "(case found of
      None \<Rightarrow> next_do (on_inbox (discard i)) (next_do (clear_accepted_offer_intent i) (ok None))
    | Some r \<Rightarrow>
        if tr_state r = target \<and> tr_secret_handle r = None \<and> tr_blob_ticket r = None
        then next_do (on_inbox (discard i)) (ok (Some (r, False)))
        else bind (if tr_state r = target then ok False
                   else transition_terminal_and_emit n i target True) (\<lambda>changed.
          next_do (on_inbox (discard i))
         (next_do (cleanup e n r) (ok (Some (r, changed)))))) s0 = (Inr (Some (r, changed)), t)"
    unfolding terminate_local_def by (auto dest!: bind_InrD)
  have s0: "targeted_transfers s0 = targeted_transfers s"
    using stableD [OF tb.stable_reads(5) g] by (simp add: same_tables_def)
  obtain q where q: "found = Some q" using rest by (cases found) (auto simp: ok_def dest!: next_InrD)
  have row: "q \<in> set (targeted_transfers s)" "tr_id q = i"
    using get_row_InrD [OF g] q by (auto dest: find_by_SomeD [OF sym])
  show thesis
  proof (cases "tr_state q = target \<and> tr_secret_handle q = None \<and> tr_blob_ticket q = None")
    case True
    then have "q = r" "\<not> changed" "t = s0\<lparr>w_inbox := discard i (w_inbox s0)\<rparr>"
      using rest q by (auto simp: on_inbox_def with_inbox_def proc_defs)
    then show thesis using row True s0 by (intro settled [of "w_inbox s0"]) simp_all
  next
    case False
    from rest [unfolded q option.case if_not_P [OF False]] obtain b s1 s2 u where
      mid: "(if tr_state q = target then ok False else transition_terminal_and_emit n i target True) s0 = (Inr b, s1)"
      and s2: "s2 = s1\<lparr>w_inbox := discard i (w_inbox s1)\<rparr>" and clean: "cleanup e n q s2 = (Inr u, t)"
      and eq: "q = r" "b = changed"
      by (auto simp: on_inbox_def with_inbox_def dest!: bind_InrD next_InrD)
    have "\<not> changed \<and> tr_state r = target \<and> targeted_transfers s1 = targeted_transfers s \<or>
       (\<exists>(s0 :: 'z world_scheme) s1'. targeted_transfers s0 = targeted_transfers s \<and>
          transition_terminal n i target True s0 = (Inr changed, s1') \<and>
          targeted_transfers s1 = targeted_transfers s1')"
    proof (cases "tr_state q = target")
      case True
      then show ?thesis using mid eq s0 by (auto simp: ok_def)
    next
      case False
      from mid [unfolded if_not_P [OF False] transition_terminal_and_emit_def] obtain x s1'
        where tr: "transition_terminal n i target True s0 = (Inr x, s1')"
          and an: "announce (state_as_str target) x s1' = (Inr b, s1)" by (auto dest!: bind_InrD)
      have "x = changed" "targeted_transfers s1 = targeted_transfers s1'"
        using announceD [OF an] eq(2) by simp_all
      then show ?thesis using tr s0 by (intro disjI2 exI [of _ s0] exI [of _ s1'] conjI) simp_all
    qed
    then show thesis by (rule cleaned [OF row [unfolded eq] _ s2 clean [unfolded eq]])
  qed
qed

lemma find_discard: "find_pending i (discard i ib) = None"
  by (simp add: find_pending_def find_by_def delete_where_def find_None_iff)

section \<open>Reference data: the sender's side\<close>

definition ref_sender_env :: menv where
  "ref_sender_env = ref_env\<lparr>me_rel := ref_rel_env ''alice''\<rparr>"

definition ref_sender_row :: "TargetedTransferState \<Rightarrow> row" where
  "ref_sender_row st = (sender_row 1 ''t1'' 7 ''alice'' ''bob'' ''hash'' ''report'' 1 5)
     \<lparr>tr_blob_ticket := Some ''blob'', tr_secret_handle := Some ref_auth_handle, tr_state := st\<rparr>"

definition ref_sender_world :: "row list \<Rightarrow> world" where
  "ref_sender_world rows = (ref_world rows [] (new_inbox 16 (new_cooldown 60000 5)))
     \<lparr>device_relationships := [ref_relationship ''bob'' 1]\<rparr>"

lemma ref_sender_saved: "require_saved ''bob'' (ref_sender_world rows) = (Inr (), ref_sender_world rows)"
  by (simp add: require_saved_def find_saved_def rel_find_row_def select_def transact_no_fault proc_defs
      find_by_def ref_sender_world_def ref_world_def ref_relationship_def)

lemma ref_sender_row_simps:
  "tr_id (ref_sender_row st) = ''t1''" "tr_role (ref_sender_row st) = Sender" "tr_state (ref_sender_row st) = st"
  "tr_receiver_endpoint_id (ref_sender_row st) = ''bob''" "tr_total_size (ref_sender_row st) = 5"
  "tr_protocol_transfer_id (ref_sender_row st) = 7"
  by (simp_all add: ref_sender_row_def sender_row_def)

lemma ref_sender_keys: "keys_ok (ref_sender_world [ref_sender_row st])"
  by (simp add: keys_ok_def ref_sender_world_def ref_world_def)

section \<open>Properties\<close>

lemma mark_completed_row:
  assumes "mark_sender_completed now tid s = (Inr b, t)"
  shows "\<exists>q \<in> set (targeted_transfers t). tr_id q = tid \<and> tr_state q = Completed"
proof -
  let ?P = "\<lambda>r. tr_id r = tid \<and> tr_role r = Sender \<and> is_resumable (tr_state r)"
  let ?u = "\<lambda>r. r\<lparr>tr_state := Completed, tr_verified_bytes := tr_total_size r, tr_updated_at := now\<rparr>"
  from assms consider (before) q where "q \<in> set (targeted_transfers t)" "tr_id q = tid" "tr_state q = Completed"
    | (completed) q where "q \<in> set (targeted_transfers s)" "?P q" "targeted_transfers t = update_where ?P ?u (targeted_transfers s)"
    by (auto simp: mark_sender_completed_def Let_def affected_def filter_empty_conv dest!: transact_InrD split: if_splits)
  then show ?thesis
  proof cases
    case completed
    have "?u q \<in> set (targeted_transfers t)"
      unfolding completed(3) by (rule update_where_in [where P = ?P and u = ?u, OF completed(1,2)])
    moreover have "tr_id (?u q) = tid \<and> tr_state (?u q) = Completed" using completed(2) by simp
    ultimately show ?thesis by blast
  qed blast
qed

text \<open>
  C12: a sender acknowledges a completion only when it comes from a
  saved device that presents the capability of the transfer: the text decodes to a capability
  whose MAC verifies and that agrees with the sender's row in its ids, hash, name and sizes, the
  reported bytes are the whole size, and the transfer was not cancelled; afterwards the row is
  completed.
\<close>

theorem completion_needs_the_capability:
  assumes "handle_completion e now remote c s = (Inr Recorded, t)"
  shows "saved_peer remote s \<and> (\<exists>r a. r \<in> set (targeted_transfers s) \<and> tr_id r = ct_transfer_id c \<and>
    tr_role r = Sender \<and> tr_receiver_endpoint_id r = remote \<and>
    (is_terminal (tr_state r) \<longrightarrow> tr_state r = Completed) \<and>
    decode (me_ext e) (ct_authorization c) = Inr a \<and> verify_integrity (me_ext e) a = Inr () \<and>
    au_transfer_id a = tr_id r \<and> au_protocol_transfer_id a = tr_protocol_transfer_id r \<and>
    au_receiver_endpoint_id a = remote \<and> au_content_hash a = tr_content_hash r \<and>
    ct_verified_bytes c = tr_total_size r \<and>
    (\<exists>q \<in> set (targeted_transfers t). tr_id q = tr_id r \<and> tr_state q = Completed))"
proof -
  note d = handle_completionD [OF assms, simplified]
  obtain r a s1 where r: "r \<in> set (targeted_transfers s)" "tr_id r = ct_transfer_id c" "same_tables s s1"
    and a: "decode (me_ext e) (ct_authorization c) = Inr a" "completion_bound e remote c r a"
    and fin: "tr_state r = Completed \<and> t = s1 \<or> \<not> is_terminal (tr_state r) \<and>
      (\<exists>b s2. mark_sender_completed now (ct_transfer_id c) s1 = (Inr b, s2) \<and> same_tables s2 t)"
    using d(3) by (elim exE conjE) (rule that, auto)
  have "\<exists>q \<in> set (targeted_transfers t). tr_id q = tr_id r \<and> tr_state q = Completed"
    using fin
  proof (elim disjE conjE exE)
    assume "tr_state r = Completed" "t = s1"
    then show ?thesis using r by (intro bexI [of _ r]) (simp_all add: same_tables_def)
  next
    fix b s2 assume "mark_sender_completed now (ct_transfer_id c) s1 = (Inr b, s2)" and "same_tables s2 t"
    with mark_completed_row [OF this(1)] show ?thesis using r(2) by (simp add: same_tables_def)
  qed
  moreover have "verify_integrity (me_ext e) a = Inr ()" by (rule decode_verifies [OF a(1)])
  moreover have "is_terminal (tr_state r) \<longrightarrow> tr_state r = Completed" using fin by blast
  moreover have "ct_verified_bytes c = tr_total_size r" using a(2) by (auto simp: completion_bound_def)
  ultimately show ?thesis
    using d(1) r(1,2) a unfolding completion_bound_def by (intro conjI exI [of _ r] exI [of _ a]) simp_all
qed

theorem completion_needs_the_capability_witness:
  "\<exists>t. handle_completion ref_sender_env 9 ''bob''
      \<lparr>ct_transfer_id = ''t1'', ct_verified_bytes = 5, ct_authorization = ref_auth_text\<rparr>
      (ref_sender_world [ref_sender_row Approved]) = (Inr Recorded, t) \<and>
    (\<exists>q \<in> set (targeted_transfers t). tr_id q = ''t1'' \<and> tr_state q = Completed)"
proof -
  let ?c = "\<lparr>ct_transfer_id = ''t1'', ct_verified_bytes = 5, ct_authorization = ref_auth_text\<rparr>"
  let ?s = "ref_sender_world [ref_sender_row Approved]"
  have bound: "completion_bound ref_sender_env ''bob'' ?c (ref_sender_row Approved) ref_auth"
    by (simp add: completion_bound_def ref_auth_fields ref_sender_env_def ref_env_simps ref_sender_row_def
        sender_row_def TARGETED_PROTOCOL_VERSION_def)
  have env: "me_ext ref_sender_env = ref_ext" by (simp add: ref_sender_env_def ref_env_simps)
  have row: "get_row ''t1'' ?s = (Inr (Some (ref_sender_row Approved)), ?s)"
    by (simp add: get_row_def select_def transact_def ref_sender_world_def ref_world_def Let_def
        find_by_def ref_sender_row_simps)
  obtain t where m: "mark_sender_completed 9 ''t1'' ?s = (Inr True, t)"
    by (simp add: mark_sender_completed_def transact_def ref_sender_world_def ref_world_def Let_def
        affected_def ref_sender_row_simps is_resumable_def)
  obtain t' where out: "handle_completion ref_sender_env 9 ''bob'' ?c ?s = (Inr Recorded, t')"
    by (simp add: handle_completion_def proc_defs ref_sender_saved row env ref_decode bound
        ref_sender_row_simps is_terminal_def answer_def mark_sender_completed_and_emit_def m
        announce_def emit_lifecycle_def emit_def)
  with completion_needs_the_capability [OF out] show ?thesis by auto
qed

text \<open>
  C13: no message of a peer, valid or not, changes or removes a
  transfer with another device: deliveries, cancellations and completions leave every such row
  exactly as it was.
\<close>

theorem peers_cannot_touch_other_transfers:
  assumes "keys_ok s" and "r \<in> set (targeted_transfers s)" and "peer_of r \<noteq> remote"
    and "cmd \<in> {DeliverAuthorization now uuid remote d, CancelOffer now remote co, CompleteTransfer now remote ct}"
  shows "r \<in> set (targeted_transfers (perform e cmd s))"
proof -
  have "rows_grow s (snd (handle_authorization e now uuid remote d s))"
    using grow_handle_authorization unfolding stable_def by blast
  then have "foreign_kept remote s (perform e cmd s)"
    using assms(4) foreign_handle_completion [OF assms(1)] foreign_handle_cancel [OF assms(1)]
    by (auto dest: foreign_of_grow)
  then show ?thesis using assms(2,3) by (simp add: foreign_kept_def)
qed

theorem peers_cannot_touch_other_transfers_witness:
  "ref_sender_row Approved \<in> set (targeted_transfers (perform ref_sender_env
     (CancelOffer 9 ''mallory'' \<lparr>co_transfer_id = ''t1'', co_terminal = Some Cancelled\<rparr>)
     (ref_sender_world [ref_sender_row Approved])))"
proof -
  have "ref_sender_row Approved \<in> set (targeted_transfers (ref_sender_world [ref_sender_row Approved]))"
    by (simp add: ref_sender_world_def ref_world_def)
  moreover have "peer_of (ref_sender_row Approved) \<noteq> ''mallory''" by (simp add: peer_of_def ref_sender_row_simps)
  ultimately show ?thesis
    by (rule peers_cannot_touch_other_transfers [OF ref_sender_keys]) simp
qed

lemma terminal_row:
  assumes keys: "keys_ok s" and s0: "targeted_transfers s0 = targeted_transfers s"
    and run: "transition_terminal now tid target True s0 = (Inr changed, t)"
    and r: "r \<in> set (targeted_transfers s)" "tr_id r = tid"
    and q: "q \<in> set (targeted_transfers t)" "tr_id q = tid"
  shows "if changed then tr_state q = target \<and> tr_secret_handle q = None else q = r"
proof -
  let ?Q = "\<lambda>r. tr_state r \<noteq> target \<and> (target = Deleted \<and> tr_state r \<noteq> Deleted
      \<or> target = Cancelled \<and> \<not> is_terminal (tr_state r))"
  let ?P = "\<lambda>r. tr_id r = tid \<and> ?Q r"
  let ?u = "\<lambda>r. r\<lparr>tr_state := target, tr_blob_ticket := None, tr_secret_handle := None, tr_updated_at := now\<rparr>"
  have t: "changed = (affected ?P (targeted_transfers s) = 1)" "targeted_transfers t = update_where ?P ?u (targeted_transfers s)"
    using run s0 by (auto simp: transition_terminal_def Let_def dest!: transact_InrD split: if_splits)
  have "changed \<longleftrightarrow> (\<exists>q \<in> set (targeted_transfers s). ?P q)"
    using affected_1_iff [of tr_id "targeted_transfers s" tid ?Q] keys t(1) by (simp add: keys_ok_def)
  moreover have "p = r" if "p \<in> set (targeted_transfers s)" "tr_id p = tid" for p
    using keys_unique [OF keys that(1) r(1)] that(2) r(2) by simp
  ultimately have changed: "changed \<longleftrightarrow> ?P r" using r by blast
  have "q = (if ?P r then ?u r else r)"
    by (rule updated_row [OF keys r(1) _ q(1) [unfolded t(2)]]) (use q(2) r(2) in simp_all)
  then show ?thesis unfolding changed [symmetric] by simp
qed

text \<open>
  C29: when a local cancellation or deletion succeeds for a stored
  transfer, its offer is no longer pending, the transfer is no longer running, no row of it holds
  a secret handle, the secret the row named is erased from the credential store, and the state is
  the target exactly when the call reports a change and the old one otherwise.
\<close>

theorem local_termination_erases_the_secret:
  fixes s t :: "'a world_scheme"
  assumes "terminate_local e now tid target s = (Inr (Some (r, changed)), t)" and "keys_ok s"
  shows "r \<in> set (targeted_transfers s) \<and> tr_id r = tid \<and> find_pending tid (w_inbox t) = None \<and>
    (\<forall>q \<in> set (targeted_transfers t). tr_id q = tid \<longrightarrow>
       tr_secret_handle q = None \<and> tr_state q = (if changed then target else tr_state r)) \<and>
    (\<forall>h. tr_secret_handle r = Some h \<longrightarrow> re_custody (me_rel e) \<longrightarrow> map_of (vs_values t) h = None)"
  using assms(1)
proof (cases rule: terminate_localE)
  case (settled ib)
  then show ?thesis using keys_unique [OF assms(2)] by (auto simp: find_discard)
next
  case (cleaned s1 s2 u)
  note d = cleanupD [OF cleaned(5)]
  have rows: "tr_state q = (if changed then target else tr_state r) \<and>
      (changed \<longrightarrow> tr_secret_handle q = None) \<and> (\<not> changed \<longrightarrow> q = r)"
    if q: "q \<in> set (targeted_transfers s1)" "tr_id q = tid" for q
    using cleaned(3)
  proof (elim disjE exE conjE)
    assume "\<not> changed" "tr_state r = target" "targeted_transfers s1 = targeted_transfers s"
    then show ?thesis using q keys_unique [OF assms(2) cleaned(1)] cleaned(2) by auto
  next
    fix s0 s1' :: "'a world_scheme" assume s0: "targeted_transfers s0 = targeted_transfers s"
      and tr: "transition_terminal now tid target True s0 = (Inr changed, s1')"
      and s1: "targeted_transfers s1 = targeted_transfers s1'"
    show ?thesis
      using terminal_row [OF assms(2) s0 tr cleaned(1,2) q(1) [unfolded s1] q(2)] by (simp split: if_splits)
  qed
  have "tr_secret_handle q = None \<and> tr_state q = (if changed then target else tr_state r)"
    if q: "q \<in> set (targeted_transfers t)" "tr_id q = tid" for q
  proof -
    have eq: "targeted_transfers t = cleaned_rows r (targeted_transfers s1)" using d cleaned(4) by simp
    show ?thesis
    proof (cases "tr_secret_handle r")
      case None
      then have "q \<in> set (targeted_transfers s1)" using q(1) eq by (simp add: cleaned_rows_def)
      then show ?thesis using rows [OF _ q(2)] None by auto
    next
      case (Some h)
      from q(1) [unfolded eq] Some obtain p where p: "p \<in> set (targeted_transfers s1)"
        and qp: "q = (if tr_id p = tid then p\<lparr>tr_blob_ticket := None, tr_secret_handle := None\<rparr> else p)"
        by (auto simp: cleaned_rows_def update_where_def cleaned(2))
      have "tr_id p = tid" using qp q(2) by (simp split: if_splits)
      then show ?thesis using rows [OF p] qp by simp
    qed
  qed
  then show ?thesis using cleaned(1,2,4) d by (simp add: find_discard)
qed

theorem local_termination_erases_the_secret_witness:
  "\<exists>t. terminate_local ref_sender_env 9 ''t1'' Cancelled
      ((ref_sender_world [ref_sender_row Approved])\<lparr>vs_values := [(ref_auth_handle, ref_secret)]\<rparr>) =
      (Inr (Some (ref_sender_row Approved, True)), t) \<and> map_of (vs_values t) ref_auth_handle = None"
proof -
  let ?s = "(ref_sender_world [ref_sender_row Approved])\<lparr>vs_values := [(ref_auth_handle, ref_secret)]\<rparr>"
  have env: "re_custody (me_rel ref_sender_env)" by (simp add: ref_sender_env_def ref_env_simps)
  have handle: "tr_secret_handle (ref_sender_row st) = Some ref_auth_handle" for st
    by (simp add: ref_sender_row_def)
  obtain t where out: "terminate_local ref_sender_env 9 ''t1'' Cancelled ?s = (Inr (Some (ref_sender_row Approved, True)), t)"
    by (simp add: terminate_local_def proc_defs get_row_def select_def transact_def find_by_def handle
        ref_sender_row_simps transition_terminal_and_emit_def transition_terminal_def affected_def is_terminal_def
        announce_def emit_lifecycle_def emit_def on_inbox_def with_inbox_def cleanup_def signal_cancel_def
        release_hashes_def delete_tag_def env remove_secret_def find_secret_def ref_handles [symmetric]
        delete_if_present_def store_delete_raw_def vs_delete_def store_call_def clear_authorization_def
        exec_def Let_def ref_sender_world_def ref_world_def)
  have "keys_ok ?s" by (simp add: keys_ok_def ref_sender_world_def ref_world_def)
  from local_termination_erases_the_secret [OF out this] out env handle show ?thesis by blast
qed

section \<open>Restart\<close>

text \<open>What a restart makes of a row's state, and the part of the rows cleanup leaves alone.\<close>

definition recovered :: "TargetedTransferRole \<Rightarrow> TargetedTransferState \<Rightarrow> TargetedTransferState" where
  "recovered role st = (if role = Sender \<and> is_preapproval st then Failed
     else if st = Connecting \<or> st = Transferring then Interrupted else st)"

definition row_states :: "'z db_scheme \<Rightarrow> (string \<times> TargetedTransferRole \<times> TargetedTransferState) list" where
  "row_states s = map (\<lambda>r. (tr_id r, tr_role r, tr_state r)) (targeted_transfers s)"

definition states_kept :: "'z db_scheme \<Rightarrow> 'z db_scheme \<Rightarrow> bool" where
  "states_kept s t \<longleftrightarrow> row_states t = row_states s"

interpretation sk: db_preorder states_kept
  by unfold_locales (auto simp: states_kept_def row_states_def same_tables_def)

lemma states_clear: "stable states_kept (clear_authorization i)"
  unfolding clear_authorization_def
  by (rule sk.stable_exec) (simp add: states_kept_def row_states_def update_where_def comp_def if_distrib cong: if_cong)

lemma states_cleanup: "stable states_kept (cleanup e n r)"
  unfolding cleanup_def
  by (intro sk.stable_rules states_clear runtime_tables [THEN sk.stable_frame]
      frame_remove_secret [THEN tables_of_frame, THEN sk.stable_frame])

lemma fail_preapprovalD:
  assumes "fail_sender_preapproval_on_restart n s = (Inr rows, t)"
  shows "row_states t = map (\<lambda>(i, role, st). (i, role,
      if role = Sender \<and> is_preapproval st then Failed else st)) (row_states s)"
proof -
  let ?P = "\<lambda>r. tr_role r = Sender \<and> is_preapproval (tr_state r)"
  have "targeted_transfers t = update_where ?P (\<lambda>r. r\<lparr>tr_state := Failed, tr_updated_at := n\<rparr>) (targeted_transfers s)"
  proof (cases "filter ?P (targeted_transfers s) = []")
    case True
    then have "targeted_transfers t = targeted_transfers s"
      using assms by (auto simp: fail_sender_preapproval_on_restart_def Let_def dest!: bind_InrD select_InrD)
    moreover have "update_where ?P (\<lambda>r. r\<lparr>tr_state := Failed, tr_updated_at := n\<rparr>) (targeted_transfers s) = targeted_transfers s"
      using True by (intro update_where_none) (simp add: filter_empty_conv)
    ultimately show ?thesis by simp
  next
    case False
    then show ?thesis
      using assms by (auto simp: fail_sender_preapproval_on_restart_def sql_update_def Let_def
        dest!: bind_InrD next_InrD select_InrD transact_InrD)
  qed
  then show ?thesis by (simp add: row_states_def update_where_def comp_def)
qed

lemma mark_interruptedD:
  "mark_interrupted_in_flight n s = (Inr ids, t) \<Longrightarrow>
   ids = map fst (filter (\<lambda>(i, role, st). st \<in> {Connecting, Transferring}) (row_states s)) \<and>
   row_states t = map (\<lambda>(i, role, st). (i, role,
      if st \<in> {Connecting, Transferring} then Interrupted else st)) (row_states s)"
  by (auto simp: mark_interrupted_in_flight_def Let_def row_states_def update_where_def filter_map comp_def
      dest!: transact_InrD)

lemma states_keptD: "stable states_kept m \<Longrightarrow> m s = (x, t) \<Longrightarrow> row_states t = row_states s"
  using stableD [of states_kept m s x t] by (simp add: states_kept_def)

text \<open>
  C30: a successful recovery at start fails exactly the sender transfers
  that never got their approval, interrupts exactly the transfers that were connecting or moving
  bytes, leaves every other transfer in its state, loses none, and reports exactly the
  interrupted ones.
\<close>

theorem restart_recovers_in_flight:
  assumes "recover_in_flight e now s = (Inr ids, t)"
  shows "row_states t = map (\<lambda>(i, role, st). (i, role, recovered role st)) (row_states s) \<and>
    ids = map fst (filter (\<lambda>(i, role, st). st = Connecting \<or> st = Transferring) (row_states s))"
proof -
  from assms obtain rows s1 x s2 ids' s3 y where one: "fail_sender_preapproval_on_restart now s = (Inr rows, s1)"
    and clean: "for_each rows (\<lambda>r. next_do (emit_lifecycle ''failed'') (cleanup e now r)) s1 = (Inr x, s2)"
    and two: "mark_interrupted_in_flight now s2 = (Inr ids', s3)"
    and ev: "for_each ids' (\<lambda>_. emit_lifecycle ''interrupted'') s3 = (Inr y, t)" and ids: "ids = ids'"
    unfolding recover_in_flight_def by (auto dest!: bind_InrD next_InrD)
  have "stable states_kept (for_each rows (\<lambda>r. next_do (emit_lifecycle ''failed'') (cleanup e now r)))"
    by (intro sk.stable_rules states_cleanup lifecycle_tables(1) [THEN sk.stable_frame])
  from states_keptD [OF this clean] have s2: "row_states s2 = row_states s1" .
  have "stable states_kept (for_each ids' (\<lambda>_. emit_lifecycle ''interrupted''))"
    by (intro sk.stable_rules lifecycle_tables(1) [THEN sk.stable_frame])
  from states_keptD [OF this ev] have t: "row_states t = row_states s3" .
  show ?thesis
    using fail_preapprovalD [OF one] mark_interruptedD [OF two] s2 t ids
    by (auto simp: recovered_def filter_map comp_def case_prod_beta is_preapproval_def
        intro!: map_cong filter_cong arg_cong [where f = "map fst"])
qed

theorem restart_recovers_in_flight_witness:
  "\<exists>t. recover_in_flight ref_sender_env 9 (ref_sender_world [ref_sender_row Transferring]) = (Inr [''t1''], t) \<and>
     row_states t = [(''t1'', Sender, Interrupted)]"
proof -
  let ?s = "ref_sender_world [ref_sender_row Transferring]"
  obtain t where out: "recover_in_flight ref_sender_env 9 ?s = (Inr [''t1''], t)"
    by (simp add: recover_in_flight_def fail_sender_preapproval_on_restart_def mark_interrupted_in_flight_def
        select_def transact_def proc_defs emit_lifecycle_def emit_def Let_def ref_sender_world_def ref_world_def
        ref_sender_row_simps is_preapproval_def)
  have "row_states ?s = [(''t1'', Sender, Transferring)]"
    by (simp add: row_states_def ref_sender_world_def ref_world_def ref_sender_row_simps)
  with restart_recovers_in_flight [OF out] out show ?thesis by (simp add: recovered_def is_preapproval_def)
qed

end
