(* ===== verification/Run_Properties.thy ===== *)
theory Run_Properties
  imports Targeted_Runs Peer_Properties
begin

text \<open>
  The properties that hold in every run of the targeted module, and how an offer is admitted.
\<close>

section \<open>Reference run\<close>

definition ref_inbox :: inbox where
  "ref_inbox = new_inbox 16 (new_cooldown 60000 5)"

definition ref_submit :: submit_offer where
  "ref_submit = \<lparr>
     so_proof = ref_proof, so_generation = 1, so_relationship_protocol_version = 2,
     so_protocol_version = 3, so_transfer_id = ''t1'', so_sender_endpoint_id = ''alice'',
     so_receiver_endpoint_id = ''bob'', so_manifest_id = ''hash'', so_content_hash = ''hash'',
     so_transfer_name = ''report'', so_file_count = 1, so_total_size = 5,
     so_relay_mode = Automatic, so_relay_urls = []\<rparr>"

lemma ref_world_load: "load ep ref_handle (ref_world rows intents ib) = (Inr ref_secret, ref_world rows intents ib)"
  by (simp add: load_def find_secret_def find_by_def ref_call_defs ref_world_def)

lemma ref_world_verify:
  "verify_saved_possession (ref_rel_env ''bob'') ''alice'' ref_challenge ref_proof 1 2 (ref_world rows intents ib) =
     (Inr (), ref_world rows intents ib)"
proof (rule verify_saved_complete [where gid = ref_grant_id and h = ref_handle and secret = ref_secret])
  show "load (re_public_key (ref_rel_env ''bob'')) ref_handle (ref_world rows intents ib) = (Inr ref_secret, ref_world rows intents ib)"
    by (rule ref_world_load)
  show "find_by dr_remote_endpoint_id ''alice'' (device_relationships (ref_world rows intents ib)) =
      Some ((ref_relationship ''alice'' 1)\<lparr>dr_issued_grant_handle := Some ref_handle, dr_issued_grant_id := Some ref_grant_id\<rparr>)"
    by (simp add: ref_world_def ref_relationship_def find_by_def)
qed (simp_all add: ref_rel_env_def ref_ext_ok ref_world_def ref_relationship_def is_tombstoned_def ref_proof_def
    ref_secret_def ref_grant_id_def, simp_all add: ref_ext_def)

lemma ref_pending: "pending_of_wire ref_env 0 ''alice'' ref_submit = ref_offer"
  by (simp add: pending_of_wire_def ref_submit_def ref_offer_def ref_env_simps)

lemma ref_world_inbox: "w_inbox (ref_world rows intents ib) = ib"
  "(ref_world rows intents ib)\<lparr>w_inbox := ib'\<rparr> = ref_world rows intents ib'"
  by (simp_all add: ref_world_def)

text \<open>An inbox that waits for the user's answer to the reference offer.\<close>

definition ref_waiting :: "inbox \<Rightarrow> bool" where
  "ref_waiting ib \<longleftrightarrow> find_pending ''t1'' ib = Some ref_offer \<and> ib_settled ib ''t1'' = None \<and> ib_auths ib ''t1'' = None \<and>
     (\<exists>d. ib_decisions ib ''t1'' = Some d \<and> ch_receivers (ib_decision_chans ib d) \<noteq> 0)"

lemma ref_submitted:
  "\<exists>ib. submit 0 ref_offer (ref_inbox\<lparr>ib_cooldown := cd\<rparr>) = (SubmitWait 0 (Some 0), ib) \<and> ref_waiting ib"
  if "cd_until cd ''alice'' = None"
  using that
  by (simp add: submit_def submit_check_def is_cooling_def retain_until_def ref_inbox_def new_inbox_def
      find_pending_def find_by_def submit_insert_def register_decision_def join_wait_def subscribe_def watch_channel_def
      ref_waiting_def ref_offer_def Let_def)

lemma ref_offered:
  "\<exists>ib. handle_offer ref_env 0 ''alice'' ref_challenge ref_submit (ref_world [] [] ref_inbox) =
     (Inr (OfferWait ''t1'' 0 (Some 0)), ref_world [] [] ib) \<and> ref_waiting ib"
proof -
  obtain cd where cool: "is_cooling 0 ''alice'' (ib_cooldown ref_inbox) = (False, cd)" "cd_until cd ''alice'' = None"
    by (simp add: is_cooling_def retain_until_def ref_inbox_def new_inbox_def new_cooldown_def Let_def)
  obtain ib where ib: "submit 0 ref_offer (ref_inbox\<lparr>ib_cooldown := cd\<rparr>) = (SubmitWait 0 (Some 0), ib)" "ref_waiting ib"
    using ref_submitted [OF cool(2)] by blast
  have fields: "so_transfer_id ref_submit = ''t1''" "so_protocol_version ref_submit = 3"
    "so_receiver_endpoint_id ref_submit = ''bob''" "so_sender_endpoint_id ref_submit = ''alice''"
    "so_relay_urls ref_submit = []" "so_relay_mode ref_submit = Automatic" "so_proof ref_submit = ref_proof"
    "so_generation ref_submit = 1" "so_relationship_protocol_version ref_submit = 2"
    "so_transfer_name ref_submit = ''report''"
    by (simp_all add: ref_submit_def)
  have limits: "\<not> manifest_out_of_limits ref_env ref_submit" "unat (cl_max_metadata_bytes default_core_limits) \<ge> 6"
    by (simp_all add: manifest_out_of_limits_def ref_submit_def ref_env_simps default_core_limits_def)
  have none: "find_by tr_id ''t1'' ([] :: row list) = None" by (simp add: find_by_def)
  have tid: "po_transfer_id ref_offer = ''t1''" by (simp add: ref_offer_def)
  have "handle_offer ref_env 0 ''alice'' ref_challenge ref_submit (ref_world [] [] ref_inbox) =
     (Inr (OfferWait ''t1'' 0 (Some 0)), ref_world [] [] ib)"
    using limits
    by (simp add: handle_offer_def cooling_def with_inbox_def ref_world_inbox cool proc_defs fields ref_env_simps
        TARGETED_PROTOCOL_VERSION_def ref_reads none admit_offer_def relay_profiles_compatible_def custom_mode_def
        ref_world_verify ref_pending submit_pending_def ib tid)
  with ib(2) show ?thesis by blast
qed

lemma ref_answered:
  assumes "ref_waiting ib"
  shows "\<exists>ib'. snd (respond_to_targeted_offer ref_env 1 ''t1'' True (ref_world [] [] ib)) =
     ref_world [] [intent_of_offer 1 ref_offer] ib'"
proof -
  obtain d where w: "find_pending ''t1'' ib = Some ref_offer" "ib_settled ib ''t1'' = None" "ib_auths ib ''t1'' = None"
    "ib_decisions ib ''t1'' = Some d" "ch_receivers (ib_decision_chans ib d) \<noteq> 0"
    using assms by (auto simp: ref_waiting_def)
  obtain c ib' where r: "respond 1 ''t1'' True ib = (AuthWait c, ib')"
    using w by (simp add: respond_def settled_authorization_def accept_live_def open_auth_def watch_send_def
        wait_for_authorization_def Let_def)
  have none: "find_by tr_id ''t1'' ([] :: row list) = None" by (simp add: find_by_def)
  have p: "persist_accepted_offer_intent 1 ref_offer (ref_world [] [] ib) =
      (Inr (), ref_world [] [intent_of_offer 1 ref_offer] ib)"
    by (simp add: persist_accepted_offer_intent_def transact_def ref_world_def find_by_def Let_def)
  show ?thesis
    by (simp add: respond_to_targeted_offer_def answer_offer_def with_inbox_def ref_world_inbox proc_defs
        is_settled_def w(1,2) ref_reads none p r) blast
qed

section \<open>Properties\<close>

text \<open>
  C1: in every run of the module (offers, answers, messages,
  commands, changes by the other services and restarts in any order), each receiver transfer in
  the database stems from an offer that the user of this device accepted and whose sender had
  proved possession of its grant when it submitted it, with exactly the terms of that offer.
\<close>

theorem received_files_were_offered_and_accepted:
  assumes "module_reachable e s run" and "no_receivers s"
    and "r \<in> set (targeted_transfers (mr_world run))" and "tr_role r = Receiver"
  shows "\<exists>ofr \<in> mr_accepted run \<inter> mr_verified run.
    tr_id r = po_transfer_id ofr \<and> tr_sender_endpoint_id r = po_sender_endpoint_id ofr \<and>
    tr_receiver_endpoint_id r = po_receiver_endpoint_id ofr \<and> tr_content_hash r = po_content_hash ofr \<and>
    tr_transfer_name r = po_transfer_name ofr \<and> tr_file_count r = po_file_count ofr \<and>
    tr_total_size r = po_total_size ofr"
proof -
  have traced: "traced run" by (rule module_reachable_traced [OF assms(1,2)])
  then obtain ofr where ofr: "ofr \<in> mr_accepted run" "row_from ofr r"
    using assms(3,4) unfolding traced_def by blast
  moreover have "ofr \<in> mr_verified run" using traced ofr(1) unfolding traced_def by blast
  ultimately show ?thesis unfolding row_from_def by blast
qed

lemma ref_run:
  "\<exists>run. module_reachable ref_env (ref_world [] [] ref_inbox) run \<and>
     receiver_row 2 ref_auth ref_auth_handle \<in> set (targeted_transfers (mr_world run))"
proof -
  let ?s = "ref_world [] [] ref_inbox"
  obtain ib where o1: "handle_offer ref_env 0 ''alice'' ref_challenge ref_submit ?s =
      (Inr (OfferWait ''t1'' 0 (Some 0)), ref_world [] [] ib)" and w: "ref_waiting ib"
    using ref_offered by blast
  obtain ib2 where o2: "snd (respond_to_targeted_offer ref_env 1 ''t1'' True (ref_world [] [] ib)) =
      ref_world [] [intent_of_offer 1 ref_offer] ib2" using ref_answered [OF w] by blast
  obtain ib3 where o3: "handle_authorization ref_env 2 ''v'' ''alice'' ref_delivery
      (ref_world [] [intent_of_offer 1 ref_offer] ib2) = (Inr Stored, ref_stored ib3)"
    using ref_authorization_stored by blast
  obtain r1 where r1: "module_step ref_env (fresh_run ?s) r1" "mr_world r1 = ref_world [] [] ib"
    using module_step.offer [where r = "fresh_run ?s" and e = ref_env and now = 0 and remote = "''alice''"
        and challenge = ref_challenge and w = ref_submit, OF refl refl] o1
    by (auto simp: fresh_run_def)
  obtain r2 where r2: "module_step ref_env r1 r2" "mr_world r2 = ref_world [] [intent_of_offer 1 ref_offer] ib2"
    using module_step.answered [where e = ref_env and r = r1 and now = 1 and tid = "''t1''" and accepted = True, OF refl] o2 r1(2) by auto
  obtain r3 where r3: "module_step ref_env r2 r3" "mr_world r3 = ref_stored ib3"
    using module_step.performed [where e = ref_env and r = r2 and cmd = "DeliverAuthorization 2 ''v'' ''alice'' ref_delivery"] o3 r2(2) by auto
  have "module_reachable ref_env ?s r3"
    unfolding module_reachable_def
    by (rule rtranclp.rtrancl_into_rtrancl, rule rtranclp.rtrancl_into_rtrancl, rule r_into_rtranclp)
      (rule r1(1), rule r2(1), rule r3(1))
  moreover have "targeted_transfers (mr_world r3) = [receiver_row 2 ref_auth ref_auth_handle]"
    unfolding r3(2) by (simp add: ref_stored_def ref_protected_def ref_world_def)
  ultimately show ?thesis by auto
qed

theorem received_files_were_offered_and_accepted_witness:
  "\<exists>run r ofr. module_reachable ref_env (ref_world [] [] ref_inbox) run \<and>
     r \<in> set (targeted_transfers (mr_world run)) \<and> tr_role r = Receiver \<and>
     ofr \<in> mr_accepted run \<and> po_transfer_id ofr = ''t1''"
proof -
  let ?r = "receiver_row 2 ref_auth ref_auth_handle"
  obtain run where run: "module_reachable ref_env (ref_world [] [] ref_inbox) run"
    and r: "?r \<in> set (targeted_transfers (mr_world run))" using ref_run by blast
  have n: "no_receivers (ref_world [] [] ref_inbox)"
    by (simp add: no_receivers_def ref_world_def ref_inbox_def new_inbox_def)
  have role: "tr_role ?r = Receiver" "tr_id ?r = ''t1''" by (simp_all add: receiver_row_def ref_auth_fields)
  from received_files_were_offered_and_accepted [OF run n r role(1)] role run r show ?thesis by force
qed

text \<open>
  C14: an offer reaches the user only when its sender is not cooling
  down, speaks this protocol version, is the endpoint it is connected as, addresses this device,
  stays within the limits on file count, total size and name length, shares the relay profile,
  and has proved possession of the grant of its present relationship for this challenge.
\<close>

theorem offers_are_admitted_with_proof:
  assumes "handle_offer e now remote challenge w s = (Inr (OfferWait tid c k), t)"
  shows "tid = so_transfer_id w \<and> so_sender_endpoint_id w = remote \<and> so_receiver_endpoint_id w = me_local e \<and>
    so_protocol_version w = 3 \<and> \<not> cools now remote (ib_cooldown (w_inbox s)) \<and>
    so_file_count w \<noteq> 0 \<and> so_file_count w \<le> cl_max_collection_files (me_limits e) \<and>
    so_total_size w \<noteq> 0 \<and> so_total_size w \<le> cl_max_total_bytes (me_limits e) \<and>
    length (so_transfer_name w) \<le> unat (cl_max_metadata_bytes (me_limits e)) \<and>
    (\<exists>urls. parse_offer_relay_urls e (so_relay_urls w) = Some urls \<and>
       relay_profiles_compatible (me_relay_mode e) (me_custom_relay_urls e) (so_relay_mode w) urls) \<and>
    offer_shown e remote challenge w s"
proof -
  obtain hot s1 where c1: "cooling now remote s = (Inr hot, s1)" and hot: "hot = cools now remote (ib_cooldown (w_inbox s))"
    by (cases "is_cooling now remote (ib_cooldown (w_inbox s))") (auto simp: cooling_def with_inbox_def cools_def)
  have refused: "strike_refuse now p reason s' \<noteq> (Inr (OfferWait tid c k), u)" for p reason and s' u :: "'a world_scheme"
    by (simp add: strike_refuse_def strike_def on_inbox_def with_inbox_def refuse_def proc_defs)
  obtain found s2 where g: "get_row (so_transfer_id w) s1 = (found, s2)" by (cases "get_row (so_transfer_id w) s1")
  have guards: "\<not> hot" "so_protocol_version w = TARGETED_PROTOCOL_VERSION" "so_receiver_endpoint_id w = me_local e"
    "so_sender_endpoint_id w = remote" "\<not> manifest_out_of_limits e w"
    "length (so_transfer_name w) \<le> unat (cl_max_metadata_bytes (me_limits e))"
    and admit: "admit_offer e now remote challenge w s2 = (Inr (OfferWait tid c k), t)"
    using assms c1 g
    by (auto simp: handle_offer_def bind_def attempt_def refuse_def ok_def refused split: if_splits sum.splits option.splits)
  obtain urls v s3 where urls: "parse_offer_relay_urls e (so_relay_urls w) = Some urls"
      "relay_profiles_compatible (me_relay_mode e) (me_custom_relay_urls e) (so_relay_mode w) urls"
    and v: "verify_saved_possession (me_rel e) remote challenge (so_proof w) (so_generation w)
        (so_relationship_protocol_version w) s2 = (Inr v, s3)"
    and pend: "submit_pending now (pending_of_wire e now remote w) s3 = (Inr (OfferWait tid c k), t)"
    using admit unfolding admit_offer_def refuse_def ok_def attempt_def
    by (auto simp: refused split: option.splits if_splits prod.splits sum.splits)
  have "tid = so_transfer_id w"
    using pend by (auto simp: submit_pending_def pending_of_wire_def with_inbox_def proc_defs
        split: prod.splits submit_outcome.splits)
  moreover have "offer_shown e remote challenge w s"
  proof -
    have "device_relationships s2 = device_relationships s" "generation_tombstones s2 = generation_tombstones s"
        "vs_values s2 = vs_values s"
      using c1 g by (auto simp: cooling_def with_inbox_def get_row_def select_def transact_def Let_def
          split: prod.splits list.splits option.splits)
    with verify_savedD [OF v [unfolded unit_eq [of v]]] possession_shown_cong show ?thesis
      unfolding offer_shown_def by blast
  qed
  ultimately show ?thesis
    using guards hot urls unfolding manifest_out_of_limits_def TARGETED_PROTOCOL_VERSION_def
    by (intro conjI exI [of _ urls]) (simp_all add: not_less)
qed

theorem offers_are_admitted_with_proof_witness:
  "\<exists>t. handle_offer ref_env 0 ''alice'' ref_challenge ref_submit (ref_world [] [] ref_inbox) =
     (Inr (OfferWait ''t1'' 0 (Some 0)), t) \<and>
   offer_shown ref_env ''alice'' ref_challenge ref_submit (ref_world [] [] ref_inbox)"
proof -
  obtain ib where out: "handle_offer ref_env 0 ''alice'' ref_challenge ref_submit (ref_world [] [] ref_inbox) =
     (Inr (OfferWait ''t1'' 0 (Some 0)), ref_world [] [] ib)" using ref_offered by blast
  with offers_are_admitted_with_proof [OF out] show ?thesis by blast
qed

text \<open>
  C28: every run keeps the store consistent: transfer ids, protocol
  ids, consent records and outbox entries stay unique, outbox entries name stored transfers, and
  no transfer is lost or rewritten: each one still has the row with its identity, in a state that
  the transition graph reaches from its old one, unless it was a sender's unapproved transfer.
\<close>

theorem runs_keep_the_store_consistent:
  assumes "module_reachable e s run" and "keys_ok s"
  shows "keys_ok (mr_world run) \<and>
    (\<forall>r \<in> set (targeted_transfers s). tr_role r = Sender \<and> is_preapproval (tr_state r) \<or>
       (\<exists>q \<in> set (targeted_transfers (mr_world run)). same_identity r q \<and>
          state_reach (tr_role r) (tr_state r) (tr_state q)))"
  using run_keys.run_keeps [OF assms(1) [unfolded module_reachable_def]]
    run_evolves.run_keeps [OF assms(1) [unfolded module_reachable_def]] assms(2)
  by (simp add: keys_kept_def evolves_def rows_evolve_def removable_def row_evolves_def fresh_run_def)

theorem runs_keep_the_store_consistent_witness:
  "\<exists>run. module_reachable ref_env (ref_world [] [] ref_inbox) run \<and>
     receiver_row 2 ref_auth ref_auth_handle \<in> set (targeted_transfers (mr_world run)) \<and> keys_ok (mr_world run)"
proof -
  have k: "keys_ok (ref_world [] [] ref_inbox)" by (simp add: keys_ok_def ref_world_def)
  obtain run where run: "module_reachable ref_env (ref_world [] [] ref_inbox) run"
    "receiver_row 2 ref_auth ref_auth_handle \<in> set (targeted_transfers (mr_world run))" using ref_run by blast
  from runs_keep_the_store_consistent [OF run(1) k] run show ?thesis by blast
qed

end
