(* ===== verification/Pairing.thy ===== *)
theory Pairing
  imports Pairing_Eligibility
begin

text \<open>
  Pairing by mutual consent and the end of a relationship: \<^verbatim>\<open>device_relationship/service.rs\<close>
  (\<open>request_pairing\<close>, \<open>respond_to_pairing\<close>, \<open>handle_pairing_*\<close>, \<open>complete_simultaneous_merge\<close>),
  \<^verbatim>\<open>device_relationship/lifecycle.rs\<close> (\<open>forget\<close>, \<open>revoke_for_block\<close>, \<open>handle_remote_revoke\<close>)
  and the wire messages of \<^verbatim>\<open>device_relationship/protocol.rs\<close>. A method that calls the peer is
  cut at each call: \<open>.._start\<close> runs up to the call and returns what it sends, the next part takes
  the peer's answer (\<open>None\<close>: the call failed or timed out), so that other operations may run
  in between, as they may while the code awaits the network. Between two network calls a part is one step, also
  where the code takes no lock (see \<open>Relationship_Service\<close>). \<open>addr\<close> is the result of
  \<open>peer_addr\<close>. What is drawn at random is an argument.
\<close>

section \<open>Wire messages\<close>

record pairing_request =
  pq_session_id :: string
  pq_capability :: string
  pq_protocol_version :: u16
  pq_generation :: u64

datatype PairingRequestResponse =
    AwaitingConsent u64 | Merged u64 | RequestAlreadySaved | RequestRejected

record pairing_consent =
  pn_accepted :: bool
  pn_grant :: "wire_grant option"
  pn_challenge :: "string option"
  pn_generation :: u64
  pn_protocol_version :: u16

datatype PairingConsentResponse =
    ConsentCompleted wire_grant wire_proof string | ConsentAlreadySaved | ConsentRejected

record pairing_ack =
  pk_possession_proof :: wire_proof
  pk_challenge :: string
  pk_generation :: u64
  pk_protocol_version :: u16

datatype PairingAckResponse = Acknowledged | AckAlreadySaved | AckRejected

section \<open>Asking for a relationship\<close>

text \<open>The row of a new pending relationship: no grants, no acknowledgements.\<close>

definition pending_row ::
    "string \<Rightarrow> DeviceRelationshipState \<Rightarrow> u64 \<Rightarrow> u16 \<Rightarrow> string \<Rightarrow> string option \<Rightarrow> int \<Rightarrow> int \<Rightarrow> int \<Rightarrow> relationship" where
  "pending_row peer st g v session name authenticated created now = \<lparr>
     dr_remote_endpoint_id = peer, dr_state = st, dr_generation = g, dr_minimum_protocol_version = v,
     dr_session_id = Some session, dr_remote_display_name = name,
     dr_last_authenticated_at = Some authenticated, dr_local_label = None,
     dr_issued_grant_handle = None, dr_held_grant_handle = None,
     dr_issued_grant_id = None, dr_held_grant_id = None,
     dr_peer_ack = False, dr_local_ack = False, dr_created_at = created, dr_updated_at = now\<rparr>"

text \<open>What \<open>request_pairing\<close> does next: return, merge with the peer's own request, or send.\<close>

datatype request_outcome = RequestDone bool | RequestMerge u64 u16 | RequestSend taken_eligibility u64

definition same_session :: "DeviceRelationshipState \<Rightarrow> string \<Rightarrow> relationship \<Rightarrow> bool" where
  "same_session st session r \<longleftrightarrow> dr_state r = st \<and> dr_session_id r = Some session"

text \<open>The eligibility is taken: record the request under a new generation, or join the peer's own
  request for the same session.\<close>

definition open_request :: "int \<Rightarrow> string \<Rightarrow> taken_eligibility \<Rightarrow> ('z pairing_scheme, request_outcome) proc" where
  "open_request now peer t = bind (next_generation peer) (\<lambda>g. bind (rel_find_row peer) (\<lambda>found.
     let row = (\<lambda>created. pending_row peer PendingOutgoing g (te_protocol_version t)
       (te_session_id t) (te_remote_display_name t) (te_authenticated_at t) created now) in
     case found of
       Some existing \<Rightarrow>
         if same_session PendingIncoming (te_session_id t) existing
         then next_do (upsert (row (dr_created_at existing)))
           (next_do emit_changed (ok (RequestMerge g (te_protocol_version t))))
         else next_do (upsert (row now)) (next_do emit_changed (ok (RequestSend t g)))
     | None \<Rightarrow> next_do (upsert (row now)) (next_do emit_changed (ok (RequestSend t g)))))"

definition request_pairing_start ::
    "pair_env \<Rightarrow> int \<Rightarrow> int \<Rightarrow> int \<Rightarrow> string \<Rightarrow> ('z pairing_scheme, request_outcome) proc" where
  "request_pairing_start e now1 now2 now peer = bind (is_blocked peer) (\<lambda>blocked.
     if blocked then ok (RequestDone False)
     else bind (rel_find_row peer) (\<lambda>found.
       if map_option dr_state found = Some Saved then ok (RequestDone True)
       else bind (can_create_new_relationship (pc_rel e) peer) (\<lambda>room.
         if \<not> room then ok (RequestDone False)
         else bind (take_eligibility e now1 now2 peer) (\<lambda>taken. case taken of
             None \<Rightarrow> ok (RequestDone False)
           | Some t \<Rightarrow> open_request now peer t))))"

definition request_pairing_message :: "taken_eligibility \<Rightarrow> u64 \<Rightarrow> pairing_request" where
  "request_pairing_message t g = \<lparr>pq_session_id = te_session_id t, pq_capability = te_capability t,
     pq_protocol_version = te_protocol_version t, pq_generation = g\<rparr>"

definition request_pairing_finish ::
    "int \<Rightarrow> string \<Rightarrow> taken_eligibility \<Rightarrow> vnidrop_error + unit \<Rightarrow> PairingRequestResponse option
     \<Rightarrow> ('z pairing_scheme, request_outcome) proc" where
  "request_pairing_finish now peer t addr response = next_do (lift addr) (case response of
      None \<Rightarrow> ok (RequestDone True)
    | Some (AwaitingConsent g) \<Rightarrow>
        next_do (adopt_pending_generation now peer (te_session_id t) g) (ok (RequestDone True))
    | Some (Merged g) \<Rightarrow>
        next_do (adopt_pending_generation now peer (te_session_id t) g)
          (ok (RequestMerge g (te_protocol_version t)))
    | Some RequestAlreadySaved \<Rightarrow> next_do (activate_saved now peer) (ok (RequestDone True))
    | Some RequestRejected \<Rightarrow> ok (RequestDone True))"

section \<open>The exchange of grants\<close>

text \<open>The part \<open>respond_to_pairing\<close> and \<open>complete_simultaneous_merge\<close> share: the peer answered a
  consent with its own grant; check its proof, keep its grant and prove that we hold it.\<close>

definition complete_consent ::
    "pair_env \<Rightarrow> int \<Rightarrow> string \<Rightarrow> string \<Rightarrow> string \<Rightarrow> u64 \<Rightarrow> u16 \<Rightarrow> wire_grant \<Rightarrow> wire_proof \<Rightarrow> string
     \<Rightarrow> ('z pairing_scheme, pairing_ack) proc" where
  "complete_consent e now uuid peer challenge g v grant proof ack_challenge =
     next_do (verify_issued_possession (pc_rel e) peer challenge proof g v)
     (next_do (store_held_grant (pc_rel e) now uuid peer grant)
      (bind (lift (challenge_decode (re_ext (pc_rel e)) ack_challenge)) (\<lambda>c.
       bind (prove_held_possession (pc_rel e) peer c (wg_generation grant) (wg_protocol_version grant)) (\<lambda>p.
         ok \<lparr>pk_possession_proof = p, pk_challenge = hex_encode (re_ext (pc_rel e)) c,
              pk_generation = g, pk_protocol_version = v\<rparr>))))"

definition accepting_consent :: "pair_env \<Rightarrow> wire_grant \<Rightarrow> string \<Rightarrow> u64 \<Rightarrow> u16 \<Rightarrow> pairing_consent" where
  "accepting_consent e grant challenge g v = \<lparr>pn_accepted = True, pn_grant = Some grant,
     pn_challenge = Some (hex_encode (re_ext (pc_rel e)) challenge), pn_generation = g, pn_protocol_version = v\<rparr>"

definition activate_acknowledged :: "int \<Rightarrow> string \<Rightarrow> ('z pairing_scheme, unit) proc" where
  "activate_acknowledged now peer = next_do (set_acks now peer True True) (activate_saved now peer)"

text \<open>Both devices asked at once: the one with the smaller endpoint id leads.\<close>

definition merge_start ::
    "pair_env \<Rightarrow> int \<Rightarrow> string \<Rightarrow> string \<Rightarrow> string \<Rightarrow> string \<Rightarrow> string \<Rightarrow> u64 \<Rightarrow> u16
     \<Rightarrow> ('z pairing_scheme, pairing_consent option) proc" where
  "merge_start e now secret grant_id uuid challenge peer g v = bind (rel_find_row peer) (\<lambda>found.
     if map_option dr_state found = Some Saved then ok None
     else if \<not> Option.is_none (Option.bind found dr_issued_grant_handle) then ok None
     else if re_local_endpoint_id (pc_rel e) \<ge> peer then ok None
     else bind (mint_and_store_issued_grant (pc_rel e) now secret grant_id uuid peer g v) (\<lambda>grant.
       ok (Some (accepting_consent e grant challenge g v))))"

definition merge_consent ::
    "pair_env \<Rightarrow> int \<Rightarrow> string \<Rightarrow> string \<Rightarrow> string \<Rightarrow> u64 \<Rightarrow> u16 \<Rightarrow> vnidrop_error + unit
     \<Rightarrow> PairingConsentResponse option \<Rightarrow> ('z pairing_scheme, pairing_ack option) proc" where
  "merge_consent e now uuid peer challenge g v addr response = next_do (lift addr) (case response of
      None \<Rightarrow> ok None
    | Some (ConsentCompleted grant proof ack_challenge) \<Rightarrow>
        bind (complete_consent e now uuid peer challenge g v grant proof ack_challenge) (\<lambda>ack. ok (Some ack))
    | Some ConsentAlreadySaved \<Rightarrow> next_do (activate_saved now peer) (ok None)
    | Some ConsentRejected \<Rightarrow> ok None)"

definition merge_ack :: "int \<Rightarrow> string \<Rightarrow> PairingAckResponse option \<Rightarrow> ('z pairing_scheme, unit) proc" where
  "merge_ack now peer response =
     (if response = Some Acknowledged \<or> response = Some AckAlreadySaved
      then activate_acknowledged now peer else ok ())"

section \<open>Answering a request\<close>

datatype respond_outcome = RespondDone bool | RespondDecline pairing_consent
  | RespondAccept pairing_consent relationship

definition consume_row_session :: "pair_env \<Rightarrow> int \<Rightarrow> string \<Rightarrow> relationship \<Rightarrow> ('z pairing_scheme, unit) proc" where
  "consume_row_session e now peer row = (case dr_session_id row of
      Some session \<Rightarrow> attempt (consume_session e now peer session) (\<lambda>_. ok ())
    | None \<Rightarrow> ok ())"

definition respond_to_pairing_start ::
    "pair_env \<Rightarrow> int \<Rightarrow> string \<Rightarrow> string \<Rightarrow> string \<Rightarrow> string \<Rightarrow> vnidrop_error + unit \<Rightarrow> string \<Rightarrow> bool
     \<Rightarrow> ('z pairing_scheme, respond_outcome) proc" where
  "respond_to_pairing_start e now secret grant_id uuid challenge addr peer accepted =
     bind (is_blocked peer) (\<lambda>blocked.
      if blocked then ok (RespondDone False)
      else bind (rel_find_row peer) (\<lambda>found. case found of
          None \<Rightarrow> ok (RespondDone False)
        | Some row \<Rightarrow>
            if dr_state row = Saved then ok (RespondDone True)
            else if dr_state row \<noteq> PendingIncoming then ok (RespondDone False)
            else if \<not> accepted then
              next_do (consume_row_session e now peer row)
              (next_do (delete_relationship (pc_rel e) now peer)
              (next_do (lift addr)
                (ok (RespondDecline \<lparr>pn_accepted = False, pn_grant = None, pn_challenge = None,
                   pn_generation = dr_generation row,
                   pn_protocol_version = dr_minimum_protocol_version row\<rparr>))))
            else
              next_do (consume_row_session e now peer row)
              (bind (mint_and_store_issued_grant (pc_rel e) now secret grant_id uuid peer
                       (dr_generation row) (dr_minimum_protocol_version row)) (\<lambda>grant.
               next_do (lift addr)
                (ok (RespondAccept (accepting_consent e grant challenge (dr_generation row)
                       (dr_minimum_protocol_version row)) row))))))"

text \<open>\<open>Inl b\<close>: the method returns \<open>b\<close>; \<open>Inr ack\<close>: it sends \<open>ack\<close>.\<close>

definition respond_to_pairing_consent ::
    "pair_env \<Rightarrow> int \<Rightarrow> string \<Rightarrow> string \<Rightarrow> string \<Rightarrow> relationship \<Rightarrow> PairingConsentResponse option
     \<Rightarrow> ('z pairing_scheme, bool + pairing_ack) proc" where
  "respond_to_pairing_consent e now uuid peer challenge row response = (case response of
      None \<Rightarrow> ok (Inl True)
    | Some (ConsentCompleted grant proof ack_challenge) \<Rightarrow>
        bind (complete_consent e now uuid peer challenge (dr_generation row)
                (dr_minimum_protocol_version row) grant proof ack_challenge) (\<lambda>ack. ok (Inr ack))
    | Some ConsentAlreadySaved \<Rightarrow> next_do (activate_saved now peer) (ok (Inl True))
    | Some ConsentRejected \<Rightarrow> ok (Inl False))"

definition respond_to_pairing_ack ::
    "int \<Rightarrow> string \<Rightarrow> PairingAckResponse option \<Rightarrow> ('z pairing_scheme, bool) proc" where
  "respond_to_pairing_ack now peer response =
     (if response = Some Acknowledged \<or> response = Some AckAlreadySaved
      then next_do (activate_acknowledged now peer) (ok True) else ok True)"


section \<open>The handlers\<close>

definition generation_in_range :: "u64 \<Rightarrow> bool" where
  "generation_in_range g \<longleftrightarrow> g \<noteq> 0 \<and> fits_i64 g"

text \<open>The last part of \<open>handle_pairing_request\<close>: a request that joins no pending row.\<close>

definition accept_new_request ::
    "pair_env \<Rightarrow> int \<Rightarrow> int \<Rightarrow> int \<Rightarrow> string \<Rightarrow> pairing_request \<Rightarrow> ('z pairing_scheme, PairingRequestResponse) proc" where
  "accept_new_request e now1 now2 now peer request = (case new_material (pq_capability request) of
      Inl _ \<Rightarrow> ok RequestRejected
    | Inr capability \<Rightarrow>
        if pq_protocol_version request \<noteq> RELATIONSHIP_PROTOCOL_VERSION then ok RequestRejected
        else attempt (validate_presented_capability e now1 now2 peer (pq_session_id request) capability)
          (\<lambda>validated. case validated of
            Inr (Some q) \<Rightarrow> attempt (can_create_new_relationship (pc_rel e) peer) (\<lambda>room.
              if room \<noteq> Inr True then ok RequestRejected
              else attempt (next_generation peer) (\<lambda>next_g. case next_g of
                  Inl _ \<Rightarrow> ok RequestRejected
                | Inr local_g \<Rightarrow>
                    let g = max (pq_generation request) local_g in
                    if \<not> fits_i64 g then ok RequestRejected
                    else attempt (upsert (pending_row peer PendingIncoming g (pq_protocol_version request)
                           (pq_session_id request) (el_remote_display_name q) now now now)) (\<lambda>stored.
                      case stored of Inl _ \<Rightarrow> ok RequestRejected
                      | Inr _ \<Rightarrow> next_do emit_changed (ok (AwaitingConsent g)))))
          | _ \<Rightarrow> ok RequestRejected))"

text \<open>
  The answer, and the merge the handler runs before it answers when this device leads; the
  answer does not depend on how the merge ends.
\<close>

definition handle_pairing_request ::
    "pair_env \<Rightarrow> int \<Rightarrow> int \<Rightarrow> int \<Rightarrow> string \<Rightarrow> pairing_request
     \<Rightarrow> ('z pairing_scheme, PairingRequestResponse \<times> (u64 \<times> u16) option) proc" where
  "handle_pairing_request e now1 now2 now peer request = bind (is_blocked peer) (\<lambda>blocked.
     if blocked then ok (RequestRejected, None)
     else if \<not> generation_in_range (pq_generation request) then ok (RequestRejected, None)
     else let fresh = bind (accept_new_request e now1 now2 now peer request) (\<lambda>r. ok (r, None)) in
       attempt (rel_find_row peer) (\<lambda>found. case found of
          Inr (Some existing) \<Rightarrow>
            let g = max (dr_generation existing) (pq_generation request) in
            if dr_state existing = Saved then ok (RequestAlreadySaved, None)
            else if same_session PendingIncoming (pq_session_id request) existing
            then attempt (set_pending_generation now peer (pq_session_id request) g) (\<lambda>changed.
              if changed \<noteq> Inr True then ok (RequestRejected, None) else ok (AwaitingConsent g, None))
            else if same_session PendingOutgoing (pq_session_id request) existing
            then attempt (set_pending_generation now peer (pq_session_id request) g) (\<lambda>changed.
              if changed \<noteq> Inr True then ok (RequestRejected, None)
              else ok (Merged g, if re_local_endpoint_id (pc_rel e) < peer
                                 then Some (g, dr_minimum_protocol_version existing) else None))
            else fresh
        | _ \<Rightarrow> fresh))"

definition handle_pairing_consent ::
    "pair_env \<Rightarrow> int \<Rightarrow> string \<Rightarrow> string \<Rightarrow> string \<Rightarrow> string \<Rightarrow> string \<Rightarrow> string \<Rightarrow> pairing_consent
     \<Rightarrow> ('z pairing_scheme, PairingConsentResponse) proc" where
  "handle_pairing_consent e now held_uuid secret grant_id issued_uuid ack_challenge peer consent =
     bind (is_blocked peer) (\<lambda>blocked.
      if blocked then ok ConsentRejected
      else attempt (rel_find_row peer) (\<lambda>found. case found of
          Inr (Some row) \<Rightarrow>
            if dr_state row = Saved then ok ConsentAlreadySaved
            else if dr_state row \<noteq> PendingOutgoing then ok ConsentRejected
            else if pn_protocol_version consent < dr_minimum_protocol_version row
                    \<or> pn_generation consent \<noteq> dr_generation row then ok ConsentRejected
            else if \<not> pn_accepted consent
            then attempt (delete_relationship (pc_rel e) now peer) (\<lambda>_. ok ConsentRejected)
            else (case (pn_grant consent, pn_challenge consent) of
                (Some grant, Some challenge_hex) \<Rightarrow>
                  (case challenge_decode (re_ext (pc_rel e)) challenge_hex of
                     Inl _ \<Rightarrow> ok ConsentRejected
                   | Inr challenge \<Rightarrow> attempt
                      (next_do (store_held_grant (pc_rel e) now held_uuid peer grant)
                      (bind (mint_and_store_issued_grant (pc_rel e) now secret grant_id issued_uuid peer
                               (pn_generation consent) (pn_protocol_version consent)) (\<lambda>local_grant.
                       bind (prove_held_possession (pc_rel e) peer challenge (wg_generation grant)
                               (wg_protocol_version grant)) (\<lambda>proof.
                       next_do (set_acks now peer False False)
                        (ok (ConsentCompleted local_grant proof
                               (hex_encode (re_ext (pc_rel e)) ack_challenge)))))))
                      (\<lambda>r. case r of Inl _ \<Rightarrow> ok ConsentRejected | Inr response \<Rightarrow> ok response))
              | _ \<Rightarrow> ok ConsentRejected)
        | _ \<Rightarrow> ok ConsentRejected))"

definition handle_pairing_ack ::
    "pair_env \<Rightarrow> int \<Rightarrow> string \<Rightarrow> pairing_ack \<Rightarrow> ('z pairing_scheme, PairingAckResponse) proc" where
  "handle_pairing_ack e now peer ack = bind (is_blocked peer) (\<lambda>blocked.
     if blocked then ok AckRejected
     else attempt (rel_find_row peer) (\<lambda>found. case found of
         Inr (Some row) \<Rightarrow>
           if dr_state row = Saved then ok AckAlreadySaved
           else if \<not> is_pending (dr_state row) then ok AckRejected
           else (case challenge_decode (re_ext (pc_rel e)) (pk_challenge ack) of
               Inl _ \<Rightarrow> ok AckRejected
             | Inr challenge \<Rightarrow> attempt
                (next_do (verify_issued_possession (pc_rel e) peer challenge (pk_possession_proof ack)
                           (pk_generation ack) (pk_protocol_version ack))
                  (activate_acknowledged now peer))
                (\<lambda>r. case r of Inl _ \<Rightarrow> ok AckRejected | Inr _ \<Rightarrow> ok Acknowledged))
       | _ \<Rightarrow> ok AckRejected))"

section \<open>lifecycle.rs\<close>

record forget_outcome =
  fo_had_relationship :: bool
  fo_generation :: "u64 option"
  fo_issued_grant_id :: "string option"

definition outcome_of :: "relationship option \<Rightarrow> forget_outcome" where
  "outcome_of found = \<lparr>fo_had_relationship = (found \<noteq> None),
     fo_generation = map_option dr_generation found,
     fo_issued_grant_id = Option.bind found dr_issued_grant_id\<rparr>"

text \<open>Tombstone first, then the row and its secrets.\<close>

definition end_relationship :: "pair_env \<Rightarrow> int \<Rightarrow> string \<Rightarrow> relationship \<Rightarrow> ('z pairing_scheme, unit) proc" where
  "end_relationship e now peer row =
     next_do (insert_tombstone now peer row) (delete_relationship (pc_rel e) now peer)"

definition forget :: "pair_env \<Rightarrow> int \<Rightarrow> string \<Rightarrow> ('z pairing_scheme, forget_outcome) proc" where
  "forget e now peer = bind (rel_find_row peer) (\<lambda>found. case found of
      None \<Rightarrow> next_do (remove_for_peer e now peer) (ok (outcome_of None))
    | Some row \<Rightarrow> next_do (end_relationship e now peer row)
        (next_do (remove_for_peer e now peer) (next_do emit_changed (ok (outcome_of (Some row))))))"

definition revoke_for_block :: "pair_env \<Rightarrow> int \<Rightarrow> string \<Rightarrow> ('z pairing_scheme, forget_outcome) proc" where
  "revoke_for_block e now peer = bind (rel_find_row peer) (\<lambda>found.
     next_do (case found of Some row \<Rightarrow> end_relationship e now peer row | None \<Rightarrow> ok ())
     (next_do (remove_for_peer e now peer) (next_do emit_changed (ok (outcome_of found)))))"

text \<open>\<open>let _ = ..\<close>.\<close>

definition quietly :: "('s, 'a) proc \<Rightarrow> ('s, unit) proc" where
  "quietly m = attempt m (\<lambda>_. ok ())"

definition handle_remote_revoke :: "pair_env \<Rightarrow> int \<Rightarrow> string \<Rightarrow> u64 \<Rightarrow> ('z pairing_scheme, bool) proc" where
  "handle_remote_revoke e now peer g = attempt (rel_find_row peer) (\<lambda>found. case found of
      Inr (Some row) \<Rightarrow>
        let revoke = next_do (quietly (insert_tombstone now peer row))
          (next_do (quietly (delete_relationship (pc_rel e) now peer))
          (next_do (quietly (remove_for_peer e now peer)) (next_do emit_changed (ok True)))) in
        if dr_generation row \<noteq> g \<and> g \<noteq> 0
        then attempt (find_tombstone peer g) (\<lambda>t. case t of
            Inr (Some _) \<Rightarrow> ok True
          | _ \<Rightarrow> revoke)
        else revoke
    | _ \<Rightarrow> ok True)"

section \<open>protocol.rs\<close>

text \<open>Clock readings and random values one call may use.\<close>

record draws =
  dw_now1 :: int
  dw_now2 :: int
  dw_now :: int
  dw_held_uuid :: string
  dw_issued_uuid :: string
  dw_secret :: string
  dw_grant_id :: string
  dw_challenge :: string

datatype RelationshipMessage =
    PairingRequestMessage pairing_request
  | PairingConsentMessage pairing_consent
  | PairingAckMessage pairing_ack
  | RevokeNoticeMessage u64 "string option"

datatype RelationshipResponse =
    RequestAnswer PairingRequestResponse "(u64 \<times> u16) option"
  | ConsentAnswer PairingConsentResponse
  | AckAnswer PairingAckResponse
  | RevokeAnswer bool

text \<open>One message on the relationship protocol; \<open>peer\<close> is the authenticated id of the connection.\<close>

definition handle_relationship_message ::
    "pair_env \<Rightarrow> draws \<Rightarrow> string \<Rightarrow> RelationshipMessage \<Rightarrow> ('z pairing_scheme, RelationshipResponse) proc" where
  "handle_relationship_message e d peer m = (case m of
      PairingRequestMessage rq \<Rightarrow>
        bind (handle_pairing_request e (dw_now1 d) (dw_now2 d) (dw_now d) peer rq)
          (\<lambda>(r, merge). ok (RequestAnswer r merge))
    | PairingConsentMessage cn \<Rightarrow>
        bind (handle_pairing_consent e (dw_now d) (dw_held_uuid d) (dw_secret d) (dw_grant_id d)
                (dw_issued_uuid d) (dw_challenge d) peer cn) (\<lambda>r. ok (ConsentAnswer r))
    | PairingAckMessage ack \<Rightarrow> bind (handle_pairing_ack e (dw_now d) peer ack) (\<lambda>r. ok (AckAnswer r))
    | RevokeNoticeMessage g _ \<Rightarrow> bind (handle_remote_revoke e (dw_now d) peer g) (\<lambda>r. ok (RevokeAnswer r)))"

end
