(* ===== verification/Pairing_Facts.thy ===== *)
theory Pairing_Facts
  imports Pairing
begin

text \<open>
  What the operations of pairing keep. The interface \<open>eligibility_preorder\<close> is what a relation on
  states has to satisfy to be kept by every operation on eligibilities; \<open>pairing_preorder\<close> adds
  the writes to the relationships of the peers \<open>mine\<close>. The operations are proved once inside the
  locales; the interpretations (the tables of transfers, revocations, the relationships of other
  peers, the well-formedness of the rows) are the relations the properties use.
\<close>

section \<open>Interfaces\<close>

locale eligibility_preorder = db_state R for R :: "'z pairing_scheme \<Rightarrow> 'z pairing_scheme \<Rightarrow> bool" +
  assumes custody_step: "custody_frame s t \<Longrightarrow> R s t"
    and emit_step: "R s (s\<lparr>emitted := l\<rparr>)"
    and el_delete_step: "R s (on_eligibilities (delete_where P) s)"
begin

lemma stable_custody: "stable custody_frame m \<Longrightarrow> stable R m"
  by (rule stable_mono [OF _ custody_step])

lemma stable_emit: "stable R (emit topic kind)" "stable R emit_changed"
  unfolding emit_changed_def emit_def by (rule stable_modify, rule emit_step)+

lemma stable_el_delete: "stable R (el_delete session)"
  unfolding el_delete_def by (rule stable_exec) (rule el_delete_step)

lemma stable_el_reads:
  "stable R (block_store_is_blocked p)" "stable R list_blocked" "stable R list_summaries"
  "stable R list_records" "stable R (list_for_peer p)" "stable R (list_expired n)"
  "stable R (find_by_session ss)"
  by (simp_all add: block_store_is_blocked_def list_blocked_def list_summaries_def list_records_def
      list_for_peer_def list_expired_def find_by_session_def stable_select)

lemma stable_rel_reads:
  "stable R count_active_slots" "stable R list_reconcile_rows" "stable R rel_list"
  "stable R list_saved_devices" "stable R (list_expired_pending_peers c)" "stable R (rel_find_row p)"
  "stable R (generation_floor p)" "stable R (find_tombstone p g)"
  by (simp_all add: rel_read_defs stable_select)

lemma stable_require_custody: "stable R (require_custody e)"
  by (simp add: require_custody_def stable_ok stable_err)

lemmas stable_protect = stable_custody [OF frame_protect]
lemmas stable_load = stable_custody [OF frame_load]
lemmas stable_remove_secret = stable_custody [OF frame_remove_secret]

lemma stable_list_active: "stable R (list_active_handles k)"
  unfolding list_active_handles_def
  by (intro stable_rules stable_custody [OF frame_metadata(6)])

lemma stable_remove_quietly: "stable R (remove_quietly n h)"
  unfolding remove_quietly_def by (intro stable_rules stable_remove_secret)

lemma stable_is_blocked: "stable R (is_blocked p)"
  unfolding is_blocked_def by (intro stable_rules stable_el_reads)

lemmas el_base = stable_rules stable_emit stable_el_delete stable_el_reads stable_rel_reads
  stable_require_custody stable_protect stable_load stable_remove_secret stable_list_active
  stable_remove_quietly stable_is_blocked

lemma stable_delete_entry: "stable R (delete_entry_silent e n q)" "stable R (delete_entry e n q)"
  unfolding delete_entry_def delete_entry_silent_def by (intro el_base)+

lemma stable_expire_due: "stable R (expire_due e n b)"
  unfolding expire_due_def by (intro el_base stable_delete_entry)

lemma stable_remove_for_peer: "stable R (remove_for_peer e n p)"
  unfolding remove_for_peer_def by (intro el_base stable_delete_entry)

lemma stable_take: "stable R (take_eligibility e n n' p)"
  unfolding take_eligibility_def by (intro el_base stable_delete_entry stable_expire_due)

lemma stable_validate: "stable R (validate_presented_capability e n n' p ss c)"
  unfolding validate_presented_capability_def by (intro el_base stable_expire_due)

lemma stable_consume: "stable R (consume_session e n p ss)"
  unfolding consume_session_def by (intro el_base stable_delete_entry)

lemma stable_accept_presented: "stable R (accept_presented_eligibility e n n' p ss c)"
  unfolding accept_presented_eligibility_def by (intro el_base stable_validate stable_delete_entry)

lemma stable_list_eligibilities: "stable R (list_eligibilities e n)"
  unfolding list_eligibilities_def by (intro el_base stable_expire_due)

lemma stable_reconcile_eligibilities: "stable R (reconcile_eligibilities e n)"
  unfolding reconcile_eligibilities_def reconcile_record_def
  by (intro el_base stable_delete_entry stable_expire_due)

lemma stable_reject: "stable R (reject_replayed_generation p g)"
  unfolding reject_replayed_generation_def by (intro el_base)

lemma stable_verify_issued: "stable R (verify_issued_possession e p c pr g v)"
  unfolding verify_issued_possession_def by (intro el_base stable_reject)

lemma stable_prove_held: "stable R (prove_held_possession e p c g v)"
  unfolding prove_held_possession_def prove_relationship_grant_def by (intro el_base)

lemma stable_can_create: "stable R (can_create_new_relationship e p)"
  unfolding can_create_new_relationship_def relationship_slots_used_def by (intro el_base)

lemma stable_next_generation: "stable R (next_generation p)"
  unfolding next_generation_def by (intro el_base)

lemma stable_clear_secrets: "stable R (clear_grant_secrets e n r)"
  unfolding clear_grant_secrets_def by (intro el_base)

lemmas el_steps = el_base stable_delete_entry stable_expire_due stable_remove_for_peer stable_take
  stable_validate stable_consume stable_verify_issued stable_prove_held stable_can_create
  stable_next_generation stable_clear_secrets

end

text \<open>What \<open>activate_after_completed_transfer\<close> stores.\<close>

definition eligibility_ok :: "eligibility \<Rightarrow> bool" where
  "eligibility_ok q \<longleftrightarrow> el_peer_endpoint_id q \<noteq> '''' \<and> el_session_id q \<noteq> '''' \<and>
     el_protocol_version q = RELATIONSHIP_PROTOCOL_VERSION \<and>
     el_expires_at q = el_created_at q + ELIGIBILITY_TTL_MS"

definition el_clashes :: "eligibility \<Rightarrow> eligibility list \<Rightarrow> bool" where
  "el_clashes q rows \<longleftrightarrow> (\<exists>r \<in> set rows. el_session_id r = el_session_id q \<or> el_secret_handle r = el_secret_handle q)"

text \<open>What a completed transfer adds: eligibilities for the sessions \<open>fresh\<close>.\<close>

locale activation_preorder = eligibility_preorder R
  for R :: "'z pairing_scheme \<Rightarrow> 'z pairing_scheme \<Rightarrow> bool" +
  fixes mine :: "string \<Rightarrow> bool" and fresh :: "string \<Rightarrow> bool"
  assumes refresh_step: "mine p \<Longrightarrow> stable R (refresh_authenticated_peer p nm n)"
    and insert_step: "eligibility_ok q \<Longrightarrow> fresh (el_session_id q) \<Longrightarrow> \<not> el_clashes q (pairing_eligibilities s) \<Longrightarrow>
      R s (on_eligibilities (\<lambda>rows. rows @ [q]) s)"
begin

lemma stable_el_insert: "eligibility_ok q \<Longrightarrow> fresh (el_session_id q) \<Longrightarrow> stable R (el_insert q)"
  unfolding el_insert_def
  by (rule stable_transact) (auto intro!: insert_step simp: el_clashes_def split: if_splits)

lemma stable_activate:
  assumes "mine p" and "fresh ss"
  shows "stable R (activate_after_completed_transfer e n u p nm ss tk)"
proof -
  have ins: "p \<noteq> '''' \<Longrightarrow> ss \<noteq> '''' \<Longrightarrow> stable R (el_insert \<lparr>el_session_id = ss, el_peer_endpoint_id = p,
      el_remote_display_name = display_name nm, el_protocol_version = RELATIONSHIP_PROTOCOL_VERSION,
      el_secret_handle = h, el_created_at = n, el_expires_at = n + ELIGIBILITY_TTL_MS\<rparr>)" for h
    by (rule stable_el_insert) (simp_all add: eligibility_ok_def assms(2))
  show ?thesis
  proof (cases "p = '''' \<or> ss = ''''")
    case True
    then show ?thesis by (auto simp: activate_after_completed_transfer_def stable_ok)
  next
    case False
    then show ?thesis unfolding activate_after_completed_transfer_def Let_def
      by (intro el_steps refresh_step ins assms) auto
  qed
qed

end

text \<open>Writes of grants and acknowledgements to the relationships of the peers \<open>mine\<close>.\<close>

locale minting_preorder = eligibility_preorder R
  for R :: "'z pairing_scheme \<Rightarrow> 'z pairing_scheme \<Rightarrow> bool" +
  fixes mine :: "string \<Rightarrow> bool"
  assumes grant_steps: "mine p \<Longrightarrow> stable R (set_issued_grant n p h gid)" "mine p \<Longrightarrow> stable R (set_held_grant n p h gid)"
    and acks_step: "mine p \<Longrightarrow> stable R (set_acks n p la pa)"
begin

lemma stable_mint: "mine p \<Longrightarrow> stable R (mint_and_store_issued_grant e n sc gi u p g v)"
  unfolding mint_and_store_issued_grant_def by (intro el_steps grant_steps)

lemma stable_store_held: "mine p \<Longrightarrow> stable R (store_held_grant e n u p g)"
  unfolding store_held_grant_def by (intro el_steps grant_steps)

lemma stable_complete_consent: "mine p \<Longrightarrow> stable R (complete_consent e n u p c g v gr pr ac)"
  unfolding complete_consent_def by (intro el_steps stable_store_held)

lemma stable_merge_start: "mine p \<Longrightarrow> stable R (merge_start e n sc gi u ch p g v)"
  unfolding merge_start_def by (intro el_steps stable_mint)

lemma stable_consume_row: "stable R (consume_row_session e n p r)"
  unfolding consume_row_session_def by (intro el_steps)

end

text \<open>Writes to the existing relationships that save none of them.\<close>

locale grant_preorder = minting_preorder R mine
  for R :: "'z pairing_scheme \<Rightarrow> 'z pairing_scheme \<Rightarrow> bool" and mine :: "string \<Rightarrow> bool" +
  assumes generation_step: "mine p \<Longrightarrow> stable R (set_pending_generation n p ss g)"
    and delete_step: "mine p \<Longrightarrow> stable R (rel_delete p)"
begin

lemma stable_delete_relationship: "mine p \<Longrightarrow> stable R (delete_relationship e n p)"
  unfolding delete_relationship_def by (intro el_steps delete_step)

lemma stable_adopt: "mine p \<Longrightarrow> stable R (adopt_pending_generation n p ss g)"
  unfolding adopt_pending_generation_def Let_def by (intro el_steps generation_step)

lemma stable_respond_start: "mine p \<Longrightarrow> stable R (respond_to_pairing_start e n sc gi u ch addr p b)"
  unfolding respond_to_pairing_start_def
  by (intro el_steps stable_consume_row stable_delete_relationship stable_mint)

lemma stable_handle_consent: "mine p \<Longrightarrow> stable R (handle_pairing_consent e n hu sc gi iu ac p cn)"
  unfolding handle_pairing_consent_def
  by (intro el_steps stable_delete_relationship stable_store_held stable_mint acks_step)

end

text \<open>Revoking a generation.\<close>

locale ending_preorder = grant_preorder R mine
  for R :: "'z pairing_scheme \<Rightarrow> 'z pairing_scheme \<Rightarrow> bool" and mine :: "string \<Rightarrow> bool" +
  assumes tombstone_step: "mine p \<Longrightarrow> stable R (insert_tombstone n p row)"
begin

lemma stable_end: "mine p \<Longrightarrow> stable R (end_relationship e n p r)"
  unfolding end_relationship_def by (intro el_steps tombstone_step stable_delete_relationship)

lemma stable_forget:
  assumes "mine p"
  shows "stable R (forget e n p)" "stable R (revoke_for_block e n p)" "stable R (handle_remote_revoke e n p g)"
  unfolding forget_def revoke_for_block_def handle_remote_revoke_def Let_def quietly_def
  by (intro el_steps stable_end tombstone_step stable_delete_relationship assms)+

end

text \<open>New pending relationships.\<close>

locale request_preorder = grant_preorder R mine
  for R :: "'z pairing_scheme \<Rightarrow> 'z pairing_scheme \<Rightarrow> bool" and mine :: "string \<Rightarrow> bool" +
  assumes pending_step: "mine p \<Longrightarrow> is_pending st \<Longrightarrow> stable R (upsert (pending_row p st g v ss nm au c n))"
begin

lemma stable_upserts: "mine p \<Longrightarrow> stable R (upsert (pending_row p PendingOutgoing g v ss nm a c n))"
  "mine p \<Longrightarrow> stable R (upsert (pending_row p PendingIncoming g v ss nm a c n))"
  by (rule pending_step; simp add: is_pending_def)+

lemma stable_request_start: "mine p \<Longrightarrow> stable R (request_pairing_start e n1 n2 n p)"
  unfolding request_pairing_start_def open_request_def Let_def by (intro el_steps stable_upserts)

lemma stable_accept_new: "mine p \<Longrightarrow> stable R (accept_new_request e n1 n2 n p rq)"
  unfolding accept_new_request_def Let_def by (intro el_steps stable_upserts)

lemma stable_handle_request: "mine p \<Longrightarrow> stable R (handle_pairing_request e n1 n2 n p rq)"
  unfolding handle_pairing_request_def Let_def by (intro el_steps stable_accept_new generation_step)

end

text \<open>Saving a relationship.\<close>

locale saving_preorder = grant_preorder R mine
  for R :: "'z pairing_scheme \<Rightarrow> 'z pairing_scheme \<Rightarrow> bool" and mine :: "string \<Rightarrow> bool" +
  assumes saved_step: "mine p \<Longrightarrow> stable R (rel_set_state n p Saved)"
begin

lemma stable_activate_saved: "mine p \<Longrightarrow> stable R (activate_saved n p)"
  unfolding activate_saved_def by (intro el_steps saved_step)

lemma stable_activate_acknowledged: "mine p \<Longrightarrow> stable R (activate_acknowledged n p)"
  unfolding activate_acknowledged_def by (intro el_steps acks_step stable_activate_saved)

lemma stable_request_response:
  "\<lbrakk>\<And>g. stable R (a g); \<And>g. stable R (b g); stable R c; stable R d\<rbrakk> \<Longrightarrow>
   stable R (case v of AwaitingConsent g \<Rightarrow> a g | Merged g \<Rightarrow> b g | RequestAlreadySaved \<Rightarrow> c | RequestRejected \<Rightarrow> d)"
  by (cases v) simp_all

lemma stable_consent_response:
  "\<lbrakk>\<And>g p ch. stable R (a g p ch); stable R b; stable R c\<rbrakk> \<Longrightarrow>
   stable R (case v of ConsentCompleted g p ch \<Rightarrow> a g p ch | ConsentAlreadySaved \<Rightarrow> b | ConsentRejected \<Rightarrow> c)"
  by (cases v) simp_all

lemma stable_request_finish: "mine p \<Longrightarrow> stable R (request_pairing_finish n p t addr response)"
  unfolding request_pairing_finish_def
  by (intro el_steps stable_request_response stable_adopt stable_activate_saved)

lemma stable_merge_rest:
  assumes "mine p"
  shows "stable R (merge_consent e n u p ch g v addr response)" "stable R (merge_ack n p answer)"
  unfolding merge_consent_def merge_ack_def
  by (intro el_steps stable_consent_response stable_complete_consent stable_activate_saved
      stable_activate_acknowledged assms)+

lemma stable_respond_rest:
  assumes "mine p"
  shows "stable R (respond_to_pairing_consent e n u p ch r response)" "stable R (respond_to_pairing_ack n p answer)"
  unfolding respond_to_pairing_consent_def respond_to_pairing_ack_def
  by (intro el_steps stable_consent_response stable_complete_consent stable_activate_saved
      stable_activate_acknowledged assms)+

lemma stable_handle_ack: "mine p \<Longrightarrow> stable R (handle_pairing_ack e n p ack)"
  unfolding handle_pairing_ack_def by (intro el_steps stable_activate_acknowledged)

end

locale pairing_preorder = request_preorder R mine + saving_preorder R mine + ending_preorder R mine
  for R :: "'z pairing_scheme \<Rightarrow> 'z pairing_scheme \<Rightarrow> bool" and mine :: "string \<Rightarrow> bool"

section \<open>Transfers and revocations\<close>

interpretation ta: activation_preorder same_tables "\<lambda>_. True" "\<lambda>_. True"
  by unfold_locales
    (auto intro: tables_rel_writes simp: custody_frame_def same_tables_def)

interpretation pt: pairing_preorder same_tables "\<lambda>_. True"
  by unfold_locales
    (auto intro: tables_rel_exec tables_rel_writes tb.stable_transact
      simp: custody_frame_def same_tables_def)

lemma revoked_kept_frame: "custody_frame s t \<Longrightarrow> revoked_kept s (t :: 'z relations_scheme)"
  by (cases s; cases t) (auto simp: custody_frame_def intro: revoked_kept_same)

interpretation ra: activation_preorder revoked_kept "\<lambda>_. True" "\<lambda>_. True"
  by unfold_locales (auto intro: revoked_rel_writes revoked_kept_frame revoked_kept_same)

interpretation pr: pairing_preorder revoked_kept "\<lambda>_. True"
  by unfold_locales
    (auto intro: revoked_rel_exec revoked_rel_writes revoked_insert_tombstone revoked_kept_frame
      revoked_kept_same)

section \<open>The relationships of other peers\<close>

abbreviation relation_of :: "string \<Rightarrow> 'z relations_scheme \<Rightarrow> relationship option" where
  "relation_of p s \<equiv> find_by dr_remote_endpoint_id p (device_relationships s)"

definition others_untouched :: "string \<Rightarrow> 'z relations_scheme \<Rightarrow> 'z relations_scheme \<Rightarrow> bool" where
  "others_untouched p s t \<longleftrightarrow> (\<forall>q. q \<noteq> p \<longrightarrow> relation_of q t = relation_of q s \<and>
     (\<forall>g. is_tombstoned q g t \<longleftrightarrow> is_tombstoned q g s))"

lemma others_untouched_same:
  "device_relationships t = device_relationships s \<Longrightarrow> generation_tombstones t = generation_tombstones s \<Longrightarrow>
   others_untouched p s t"
  by (simp add: others_untouched_def is_tombstoned_def)

lemma find_update_other:
  "q \<noteq> p \<Longrightarrow> (\<And>r. dr_remote_endpoint_id (u r) = dr_remote_endpoint_id r) \<Longrightarrow>
   (\<And>r. P r \<Longrightarrow> peer_is p r) \<Longrightarrow>
   find_by dr_remote_endpoint_id q (update_where P u rows) = find_by dr_remote_endpoint_id q rows"
  by (induction rows) (auto simp: find_by_def update_where_def peer_is_def)

lemma others_rel_update:
  "(\<And>r. dr_remote_endpoint_id (u r) = dr_remote_endpoint_id r) \<Longrightarrow> (\<And>r. P r \<Longrightarrow> peer_is p r) \<Longrightarrow>
   others_untouched p s (on_relationships (update_where P u) s)"
  by (simp add: others_untouched_def is_tombstoned_def find_update_other)

lemma find_delete_other:
  "q \<noteq> p \<Longrightarrow> find_by dr_remote_endpoint_id q (delete_where (peer_is p) rows) = find_by dr_remote_endpoint_id q rows"
  by (induction rows) (auto simp: find_by_def delete_where_def peer_is_def)

interpretation ou: db_state "others_untouched p"
  by unfold_locales (auto simp: others_untouched_def is_tombstoned_def)

lemma others_stable_update:
  assumes "\<And>r. dr_remote_endpoint_id (u r) = dr_remote_endpoint_id r" and "\<And>r. P r \<Longrightarrow> peer_is p r"
  shows "stable (others_untouched p) (rel_update P u)"
  unfolding rel_update_def by (rule ou.stable_transact) (auto intro: others_rel_update assms)

lemma others_rel_writes:
  "stable (others_untouched p) (refresh_authenticated_peer p nm n)"
  "stable (others_untouched p) (set_issued_grant n p h i)" "stable (others_untouched p) (set_held_grant n p h i)"
  "stable (others_untouched p) (set_acks n p a b)" "stable (others_untouched p) (rel_set_state n p st)"
  "stable (others_untouched p) (set_pending_generation n p ss g)"
  unfolding rel_write_defs
  by (intro ou.stable_bind ou.stable_next ou.stable_ok others_stable_update; simp)+

lemma others_insert_tombstone: "stable (others_untouched p) (insert_tombstone n p r)"
  unfolding insert_tombstone_def
  by (rule ou.stable_exec)
    (auto simp: others_untouched_def is_tombstoned_def Let_def bex_update_where tombstone_of_def)

lemma find_append_other: "key x \<noteq> k \<Longrightarrow> find_by key k (rows @ [x]) = find_by key k rows"
  by (induction rows) (auto simp: find_by_def)

lemma others_delete: "stable (others_untouched p) (rel_delete p)"
  unfolding rel_delete_def
  by (rule ou.stable_exec) (simp add: others_untouched_def is_tombstoned_def find_delete_other)

lemma others_upsert:
  assumes "dr_remote_endpoint_id e = p"
  shows "stable (others_untouched p) (upsert e)"
  unfolding upsert_def assms
proof (rule ou.stable_exec)
  fix s :: "'z relations_scheme"
  have "dr_remote_endpoint_id (merge_relationship e r) = dr_remote_endpoint_id r" for r
    by (simp add: merge_relationship_def)
  then have "q \<noteq> p \<Longrightarrow> find_by dr_remote_endpoint_id q (update_where (peer_is p) (merge_relationship e)
      (device_relationships s)) = relation_of q s" for q by (simp add: find_update_other)
  moreover have "q \<noteq> p \<Longrightarrow> find_by dr_remote_endpoint_id q (device_relationships s @ [e\<lparr>dr_local_label := None\<rparr>])
      = relation_of q s" for q
    using assms by (simp add: find_append_other)
  ultimately show "others_untouched p s (s\<lparr>device_relationships :=
      (if exists_where (peer_is p) (device_relationships s)
       then update_where (peer_is p) (merge_relationship e) (device_relationships s)
       else device_relationships s @ [e\<lparr>dr_local_label := None\<rparr>])\<rparr>)"
    by (simp add: others_untouched_def is_tombstoned_def)
qed

lemma others_frame: "custody_frame s t \<Longrightarrow> others_untouched p s (t :: 'z relations_scheme)"
  by (cases s; cases t) (auto simp: custody_frame_def intro: others_untouched_same)

interpretation oa: activation_preorder "others_untouched p" "\<lambda>q. q = p" "\<lambda>_. True"
  by unfold_locales (auto intro: others_rel_writes others_frame others_untouched_same)

interpretation po: pairing_preorder "others_untouched p" "\<lambda>q. q = p"
  by unfold_locales
    (auto intro: others_delete others_upsert others_rel_writes others_insert_tombstone others_frame
      others_untouched_same simp: pending_row_def)

section \<open>Well-formed rows\<close>

text \<open>A relationship is pending or saved, knows the session that qualified it and when the peer was
  last authenticated, and has each grant's handle and id together.\<close>

definition relationship_ok :: "relationship \<Rightarrow> bool" where
  "relationship_ok r \<longleftrightarrow> (is_pending (dr_state r) \<or> dr_state r = Saved) \<and>
     dr_session_id r \<noteq> None \<and> dr_last_authenticated_at r \<noteq> None \<and>
     (dr_issued_grant_handle r = None \<longleftrightarrow> dr_issued_grant_id r = None) \<and>
     (dr_held_grant_handle r = None \<longleftrightarrow> dr_held_grant_id r = None)"

definition tombstone_key :: "tombstone \<Rightarrow> string \<times> u64" where
  "tombstone_key t = (gt_remote_endpoint_id t, gt_generation t)"

definition well_formed :: "'z pairing_scheme \<Rightarrow> bool" where
  "well_formed s \<longleftrightarrow>
     distinct (map dr_remote_endpoint_id (device_relationships s)) \<and>
     (\<forall>r \<in> set (device_relationships s). relationship_ok r) \<and>
     distinct (map tombstone_key (generation_tombstones s)) \<and>
     distinct (map el_session_id (pairing_eligibilities s)) \<and>
     distinct (map el_secret_handle (pairing_eligibilities s)) \<and>
     (\<forall>q \<in> set (pairing_eligibilities s). eligibility_ok q) \<and>
     distinct (map fst (blocked_endpoints s))"

definition keeps_wf :: "'z pairing_scheme \<Rightarrow> 'z pairing_scheme \<Rightarrow> bool" where
  "keeps_wf s t \<longleftrightarrow> (well_formed s \<longrightarrow> well_formed t)"

interpretation wf: db_state keeps_wf
proof
  fix s t u :: "'z pairing_scheme" and fs
  show "keeps_wf s s" by (simp add: keeps_wf_def)
  show "keeps_wf s t \<Longrightarrow> keeps_wf t u \<Longrightarrow> keeps_wf s u" by (simp add: keeps_wf_def)
  show "keeps_wf s (s\<lparr>db_faults := fs\<rparr>)" by (simp add: keeps_wf_def well_formed_def)
qed

lemma wf_rel_update:
  assumes "\<And>r. dr_remote_endpoint_id (u r) = dr_remote_endpoint_id r"
    and "\<And>r. P r \<Longrightarrow> relationship_ok r \<Longrightarrow> relationship_ok (u r)"
  shows "stable keeps_wf (rel_update P u)"
  unfolding rel_update_def
proof (rule wf.stable_transact)
  fix s t :: "'z pairing_scheme" and x
  assume "(Inr (affected P (device_relationships s)), on_relationships (update_where P u) s) = (Inr x, t)"
  then have t: "t = on_relationships (update_where P u) s" by simp
  have "map dr_remote_endpoint_id (update_where P u (device_relationships s)) =
      map dr_remote_endpoint_id (device_relationships s)"
    by (rule map_update_where) (rule assms(1))
  moreover have "relationship_ok q"
    if "\<forall>r \<in> set (device_relationships s). relationship_ok r"
      and "q \<in> set (update_where P u (device_relationships s))" for q
  proof -
    from that(2) obtain r where "r \<in> set (device_relationships s)" "q = (if P r then u r else r)"
      by (auto simp: set_update_where)
    with that(1) show ?thesis by (cases "P r") (simp_all add: assms(2))
  qed
  ultimately show "keeps_wf s t" unfolding t keeps_wf_def well_formed_def by simp
qed

lemma wf_rel_writes:
  "stable keeps_wf (refresh_authenticated_peer p nm n)" "stable keeps_wf (rel_set_label n p l)"
  "stable keeps_wf (set_issued_grant n p h i)" "stable keeps_wf (set_held_grant n p h i)"
  "stable keeps_wf (set_acks n p a b)" "stable keeps_wf (rel_set_state n p Saved)"
  "stable keeps_wf (set_pending_generation n p ss g)" "stable keeps_wf (begin_grant_rotation n p g)"
  unfolding rel_write_defs
  by (intro wf.stable_bind wf.stable_next wf.stable_ok wf_rel_update;
      simp add: relationship_ok_def at_generation_def)+

lemma wf_delete: "stable keeps_wf (rel_delete p)"
  unfolding rel_delete_def
  by (rule wf.stable_exec) (auto simp: keeps_wf_def well_formed_def distinct_delete_where)

lemma wf_upsert:
  assumes "is_pending st"
  shows "stable keeps_wf (upsert (pending_row p st g v ss nm a c n))"
  unfolding upsert_def
proof (rule wf.stable_exec)
  fix s :: "'z pairing_scheme"
  let ?e = "pending_row p st g v ss nm a c n" and ?rows = "device_relationships s"
  have key: "dr_remote_endpoint_id (merge_relationship ?e r) = dr_remote_endpoint_id r" for r
    by (simp add: merge_relationship_def)
  have keys: "map dr_remote_endpoint_id (update_where (peer_is p) (merge_relationship ?e) ?rows) =
      map dr_remote_endpoint_id ?rows"
    by (rule map_update_where) (rule key)
  have merged: "relationship_ok r \<Longrightarrow> relationship_ok (merge_relationship ?e r)" for r
    using assms by (simp add: relationship_ok_def merge_relationship_def pending_row_def at_generation_def coalesce_def)
  have new: "relationship_ok (?e\<lparr>dr_local_label := None\<rparr>)" "dr_remote_endpoint_id ?e = p"
    using assms by (simp_all add: relationship_ok_def pending_row_def)
  show "keeps_wf s (s\<lparr>device_relationships :=
      (if exists_where (peer_is (dr_remote_endpoint_id ?e)) ?rows
       then update_where (peer_is (dr_remote_endpoint_id ?e)) (merge_relationship ?e) ?rows
       else ?rows @ [?e\<lparr>dr_local_label := None\<rparr>])\<rparr>)"
    using keys merged new by (auto simp: keeps_wf_def well_formed_def set_update_where peer_is_def)
qed

lemma wf_insert_tombstone: "stable keeps_wf (insert_tombstone n p r)"
  unfolding insert_tombstone_def
proof (rule wf.stable_exec)
  fix s :: "'z pairing_scheme"
  let ?rows = "generation_tombstones s" and ?P = "tombstone_of p (dr_generation r)"
  let ?u = "\<lambda>t. t\<lparr>gt_issued_grant_id := coalesce (dr_issued_grant_id r) (gt_issued_grant_id t),
     gt_held_grant_id := coalesce (dr_held_grant_id r) (gt_held_grant_id t), gt_revoked_at := n\<rparr>"
  have "map tombstone_key (update_where ?P ?u ?rows) = map tombstone_key ?rows"
    by (rule map_update_where) (simp add: tombstone_key_def)
  then show "keeps_wf s (let rows = generation_tombstones s; P = tombstone_of p (dr_generation r) in
     s\<lparr>generation_tombstones := (if exists_where P rows then update_where P ?u rows
       else rows @ [\<lparr>gt_remote_endpoint_id = p, gt_generation = dr_generation r,
               gt_issued_grant_id = dr_issued_grant_id r, gt_held_grant_id = dr_held_grant_id r,
               gt_revoked_at = n\<rparr>])\<rparr>)"
    by (auto simp: keeps_wf_def well_formed_def Let_def tombstone_key_def tombstone_of_def)
qed

lemma wf_frame: "custody_frame s t \<Longrightarrow> keeps_wf s (t :: 'z pairing_scheme)"
  by (cases s; cases t) (auto simp: custody_frame_def keeps_wf_def well_formed_def)

lemma wf_steps:
  "keeps_wf s (s\<lparr>emitted := l\<rparr>)" "keeps_wf s (on_eligibilities (delete_where P) s)"
  "eligibility_ok q \<Longrightarrow> \<not> el_clashes q (pairing_eligibilities s) \<Longrightarrow>
   keeps_wf s (on_eligibilities (\<lambda>rows. rows @ [q]) s)"
  unfolding keeps_wf_def well_formed_def
  by (simp, simp add: distinct_delete_where, force simp: el_clashes_def)

interpretation wa: activation_preorder keeps_wf "\<lambda>_. True" "\<lambda>_. True"
  by unfold_locales (simp_all add: wf_rel_writes wf_frame wf_steps)

interpretation pw: pairing_preorder keeps_wf "\<lambda>_. True"
  by unfold_locales
    (simp_all add: wf_rel_writes wf_delete wf_upsert wf_insert_tombstone wf_frame wf_steps)

lemma wf_blocks: "stable keeps_wf (block_endpoint p n)" "stable keeps_wf (unblock_endpoint p)"
  unfolding block_endpoint_def unblock_endpoint_def
  by (rule wf.stable_exec, auto simp: keeps_wf_def well_formed_def distinct_delete_where)+

end
