(* ===== verification/Pairing_Runs.thy ===== *)
theory Pairing_Runs
  imports Pairing_Facts
begin

text \<open>
  Sequences of operations of the pairing services: every public operation, every part of an
  operation between two network calls and every message of a peer is a command, and any sequence
  of commands is a run. So a run covers every way the parts interleave and every answer a peer
  may give, also to a request that was never sent.
\<close>

datatype pair_command =
    Activate int string string "string option" string string
  | ListEligibilities int
  | ReconcileEligibilities int
  | DeclineEligibility int string
  | AcceptPresented int int string string string
  | RequestStart int int int string
  | RequestFinish int string taken_eligibility "vnidrop_error + unit" "PairingRequestResponse option"
  | MergeStart int string string string string string u64 u16
  | MergeConsent int string string string u64 u16 "vnidrop_error + unit" "PairingConsentResponse option"
  | MergeAck int string "PairingAckResponse option"
  | RespondStart int string string string string "vnidrop_error + unit" string bool
  | RespondConsent int string string string relationship "PairingConsentResponse option"
  | RespondAck int string "PairingAckResponse option"
  | PeerMessage draws string RelationshipMessage
  | Forget int string
  | RevokeForBlock int string
  | BlockEndpoint string int
  | UnblockEndpoint string
  | RotateRelationshipGrant int string string string string
  | ListDeviceRelationships int
  | SetSavedDeviceLabel int string "string option"
  | ReconcileDeviceRelationships int

fun perform_pair :: "pair_env \<Rightarrow> pair_command \<Rightarrow> 'z pairing_scheme \<Rightarrow> 'z pairing_scheme" where
  "perform_pair e (Activate n u p nm ss tk) s = snd (activate_after_completed_transfer e n u p nm ss tk s)"
| "perform_pair e (ListEligibilities n) s = snd (list_eligibilities e n s)"
| "perform_pair e (ReconcileEligibilities n) s = snd (reconcile_eligibilities e n s)"
| "perform_pair e (DeclineEligibility n p) s = snd (decline_eligibility e n p s)"
| "perform_pair e (AcceptPresented n n' p ss c) s = snd (accept_presented_eligibility e n n' p ss c s)"
| "perform_pair e (RequestStart n1 n2 n p) s = snd (request_pairing_start e n1 n2 n p s)"
| "perform_pair e (RequestFinish n p t addr answer) s = snd (request_pairing_finish n p t addr answer s)"
| "perform_pair e (MergeStart n sc gi u ch p g v) s = snd (merge_start e n sc gi u ch p g v s)"
| "perform_pair e (MergeConsent n u p ch g v addr answer) s = snd (merge_consent e n u p ch g v addr answer s)"
| "perform_pair e (MergeAck n p answer) s = snd (merge_ack n p answer s)"
| "perform_pair e (RespondStart n sc gi u ch addr p b) s = snd (respond_to_pairing_start e n sc gi u ch addr p b s)"
| "perform_pair e (RespondConsent n u p ch row answer) s = snd (respond_to_pairing_consent e n u p ch row answer s)"
| "perform_pair e (RespondAck n p answer) s = snd (respond_to_pairing_ack n p answer s)"
| "perform_pair e (PeerMessage d p m) s = snd (handle_relationship_message e d p m s)"
| "perform_pair e (Forget n p) s = snd (forget e n p s)"
| "perform_pair e (RevokeForBlock n p) s = snd (revoke_for_block e n p s)"
| "perform_pair e (BlockEndpoint p n) s = snd (block_endpoint p n s)"
| "perform_pair e (UnblockEndpoint p) s = snd (unblock_endpoint p s)"
| "perform_pair e (RotateRelationshipGrant n sc gi u p) s = snd (rotate_relationship_grant (pc_rel e) n sc gi u p s)"
| "perform_pair e (ListDeviceRelationships n) s = snd (list_relationships (pc_rel e) n s)"
| "perform_pair e (SetSavedDeviceLabel n p l) s = snd (set_saved_device_label n p l s)"
| "perform_pair e (ReconcileDeviceRelationships n) s = snd (reconcile_relationships (pc_rel e) n s)"

section \<open>Runs in which the parts of a method follow each other\<close>

text \<open>
  What a method that stopped at a network call has still to do: its next part, with the peer, the random
  challenge and the numbers it goes on with. Such a part runs only when it is due, once, with any answer of
  the peer; it may also never run (the call was dropped).
\<close>

datatype due =
    DueFinish string taken_eligibility
  | DueMerge string u64 u16
  | DueMergeConsent string string u64 u16
  | DueMergeAck string
  | DueRespondConsent string string relationship
  | DueRespondAck string

fun due_of :: "pair_command \<Rightarrow> due option" where
  "due_of (RequestFinish n p t addr answer) = Some (DueFinish p t)"
| "due_of (MergeStart n sc gi u ch p g v) = Some (DueMerge p g v)"
| "due_of (MergeConsent n u p ch g v addr answer) = Some (DueMergeConsent p ch g v)"
| "due_of (MergeAck n p answer) = Some (DueMergeAck p)"
| "due_of (RespondConsent n u p ch row answer) = Some (DueRespondConsent p ch row)"
| "due_of (RespondAck n p answer) = Some (DueRespondAck p)"
| "due_of c = None"

definition due_request :: "string \<Rightarrow> vnidrop_error + request_outcome \<Rightarrow> due list" where
  "due_request p out = (case out of
      Inr (RequestMerge g v) \<Rightarrow> [DueMerge p g v] | Inr (RequestSend t g) \<Rightarrow> [DueFinish p t] | _ \<Rightarrow> [])"

fun new_due :: "pair_env \<Rightarrow> pair_command \<Rightarrow> 'z pairing_scheme \<Rightarrow> due list" where
  "new_due e (RequestStart n1 n2 n p) s = due_request p (fst (request_pairing_start e n1 n2 n p s))"
| "new_due e (RequestFinish n p t addr answer) s = due_request p (fst (request_pairing_finish n p t addr answer s))"
| "new_due e (MergeStart n sc gi u ch p g v) s = (case fst (merge_start e n sc gi u ch p g v s) of
     Inr (Some consent) \<Rightarrow> [DueMergeConsent p ch g v] | _ \<Rightarrow> [])"
| "new_due e (MergeConsent n u p ch g v addr answer) s = (case fst (merge_consent e n u p ch g v addr answer s) of
     Inr (Some ack) \<Rightarrow> [DueMergeAck p] | _ \<Rightarrow> [])"
| "new_due e (RespondStart n sc gi u ch addr p b) s = (case fst (respond_to_pairing_start e n sc gi u ch addr p b s) of
     Inr (RespondAccept consent row) \<Rightarrow> [DueRespondConsent p ch row] | _ \<Rightarrow> [])"
| "new_due e (RespondConsent n u p ch row answer) s = (case fst (respond_to_pairing_consent e n u p ch row answer s) of
     Inr (Inr ack) \<Rightarrow> [DueRespondAck p] | _ \<Rightarrow> [])"
| "new_due e (PeerMessage d p m) s = (case fst (handle_relationship_message e d p m s) of
     Inr (RequestAnswer r (Some (g, v))) \<Rightarrow> [DueMerge p g v] | _ \<Rightarrow> [])"
| "new_due e c s = []"

fun dialogue :: "pair_env \<Rightarrow> pair_command \<Rightarrow> due list \<times> 'z pairing_scheme \<Rightarrow> due list \<times> 'z pairing_scheme" where
  "dialogue e c (dues, s) = (case due_of c of
      None \<Rightarrow> (new_due e c s @ dues, perform_pair e c s)
    | Some d \<Rightarrow> if d \<in> set dues then (new_due e c s @ remove1 d dues, perform_pair e c s) else (dues, s))"

section \<open>The interface a kept relation satisfies\<close>

context pairing_preorder
begin

lemma stable_message: "mine p \<Longrightarrow> stable R (handle_relationship_message e d p m)"
  by (cases m) (auto simp: handle_relationship_message_def intro!: el_steps stable_handle_request
      stable_handle_consent stable_handle_ack stable_forget)

end

text \<open>The upkeep of relationships and of the deny list.\<close>

locale upkeep_preorder = grant_preorder R "\<lambda>_. True"
  for R :: "'z pairing_scheme \<Rightarrow> 'z pairing_scheme \<Rightarrow> bool" +
  assumes block_steps: "stable R (block_endpoint p n)" "stable R (unblock_endpoint p)"
    and label_step: "stable R (rel_set_label n p l)"
begin

lemma stable_list_relationships: "stable R (list_relationships e n)"
  unfolding list_relationships_def expire_pending_def by (intro el_steps stable_delete_relationship TrueI)

lemma stable_label: "stable R (set_saved_device_label n p l)"
  unfolding set_saved_device_label_def by (intro el_steps label_step)

lemma stable_reconcile_relationships: "stable R (reconcile_relationships e n)"
  unfolding reconcile_relationships_def reconcile_row_def load_fails_def
  by (intro el_steps stable_delete_relationship TrueI)

end

text \<open>The operations that save nobody and add no eligibility.\<close>

locale service_preorder = upkeep_preorder R + ending_preorder R "\<lambda>_. True"
  for R :: "'z pairing_scheme \<Rightarrow> 'z pairing_scheme \<Rightarrow> bool" +
  assumes rotation_step: "stable R (begin_grant_rotation n p g)"
begin

lemma stable_rotate: "stable R (rotate_relationship_grant e n sc gi u p)"
  unfolding rotate_relationship_grant_def Let_def
  by (intro el_steps tombstone_step rotation_step stable_mint TrueI)

end

definition is_activation :: "pair_command \<Rightarrow> bool" where
  "is_activation c = (case c of Activate n u p nm ss tk \<Rightarrow> True | _ \<Rightarrow> False)"

text \<open>The commands that may add a relationship.\<close>

definition is_request :: "pair_command \<Rightarrow> bool" where
  "is_request c = (case c of
      RequestStart n1 n2 n p \<Rightarrow> True
    | PeerMessage d p m \<Rightarrow> (case m of PairingRequestMessage rq \<Rightarrow> True | _ \<Rightarrow> False)
    | _ \<Rightarrow> False)"

text \<open>The commands that revoke a generation.\<close>

definition is_ending :: "pair_command \<Rightarrow> bool" where
  "is_ending c = (case c of
      Forget n p \<Rightarrow> True
    | RevokeForBlock n p \<Rightarrow> True
    | RotateRelationshipGrant n sc gi u p \<Rightarrow> True
    | PeerMessage d p m \<Rightarrow> (case m of RevokeNoticeMessage g i \<Rightarrow> True | _ \<Rightarrow> False)
    | _ \<Rightarrow> False)"

locale plain_preorder = upkeep_preorder R + saving_preorder R "\<lambda>_. True"
  for R :: "'z pairing_scheme \<Rightarrow> 'z pairing_scheme \<Rightarrow> bool"
begin

lemma after: "stable R m \<Longrightarrow> R s (snd (m s))"
  by (simp add: stable_def)

lemma stable_plain_message:
  "\<not> is_request (PeerMessage d p m) \<Longrightarrow> \<not> is_ending (PeerMessage d p m) \<Longrightarrow>
   stable R (handle_relationship_message e d p m)"
  by (cases m) (auto simp: is_request_def is_ending_def handle_relationship_message_def intro!: el_steps
      stable_handle_consent stable_handle_ack)

lemma perform_pair_plain:
  "\<not> is_activation c \<Longrightarrow> \<not> is_request c \<Longrightarrow> \<not> is_ending c \<Longrightarrow> R s (perform_pair e c s)"
  by (cases c) (simp_all add: is_activation_def after decline_eligibility_def stable_list_eligibilities
      stable_reconcile_eligibilities stable_remove_for_peer stable_accept_presented
      stable_request_finish stable_merge_start stable_merge_rest stable_respond_start stable_respond_rest
      stable_plain_message block_steps stable_list_relationships stable_label
      stable_reconcile_relationships, simp_all add: is_request_def is_ending_def)

end

locale keeping_preorder = service_preorder R + plain_preorder R
  for R :: "'z pairing_scheme \<Rightarrow> 'z pairing_scheme \<Rightarrow> bool"
begin

lemma perform_pair_keeping: "\<not> is_activation c \<Longrightarrow> \<not> is_request c \<Longrightarrow> R s (perform_pair e c s)"
proof (cases "is_ending c")
  case True
  assume "\<not> is_request c"
  show ?thesis
  proof (cases c)
    case (PeerMessage d p m)
    with True obtain g i where "m = RevokeNoticeMessage g i"
      by (cases m) (simp_all add: is_ending_def)
    then have "stable R (handle_relationship_message e d p m)"
      by (auto simp: handle_relationship_message_def intro!: el_steps stable_forget)
    with PeerMessage show ?thesis by (simp add: after)
  qed (use True in \<open>simp_all add: is_ending_def after stable_forget stable_rotate\<close>)
qed (rule perform_pair_plain)

end

locale exchange_preorder = keeping_preorder R + pairing_preorder R "\<lambda>_. True"
  for R :: "'z pairing_scheme \<Rightarrow> 'z pairing_scheme \<Rightarrow> bool"
begin

lemma perform_pair_exchange: "\<not> is_activation c \<Longrightarrow> R s (perform_pair e c s)"
proof (cases "is_request c")
  case True
  then show ?thesis
    by (cases c) (simp_all add: is_request_def after stable_request_start stable_message)
qed (rule perform_pair_keeping)

end

locale run_preorder = exchange_preorder R + activation_preorder R "\<lambda>_. True" "\<lambda>_. True"
  for R :: "'z pairing_scheme \<Rightarrow> 'z pairing_scheme \<Rightarrow> bool"
begin

lemma perform_pair_step: "R s (perform_pair e c s)"
proof (cases "is_activation c")
  case True
  then show ?thesis by (cases c) (simp_all add: is_activation_def after stable_activate)
next
  case False
  then show ?thesis by (rule perform_pair_exchange)
qed

lemma perform_pairs_step: "R s (fold (perform_pair e) cs s)"
  by (induction cs arbitrary: s) (auto intro: refl trans [OF perform_pair_step])

end

interpretation wr: run_preorder keeps_wf
  by unfold_locales (simp_all add: wf_blocks wf_rel_writes)

lemma tables_blocks: "stable same_tables (block_endpoint p n)" "stable same_tables (unblock_endpoint p)"
  unfolding block_endpoint_def unblock_endpoint_def
  by (rule tb.stable_exec, simp add: same_tables_def)+

interpretation tr: run_preorder same_tables
  by unfold_locales (simp_all add: tables_blocks tables_rel_writes)

lemma revoked_blocks: "stable revoked_kept (block_endpoint p n)" "stable revoked_kept (unblock_endpoint p)"
  unfolding block_endpoint_def unblock_endpoint_def
  by (rule rk.stable_exec, simp add: revoked_kept_same)+

interpretation rr: run_preorder revoked_kept
  by unfold_locales (simp_all add: revoked_blocks revoked_rel_writes)

end
