(* ===== verification/Eligibility_Properties.thy ===== *)
theory Eligibility_Properties
  imports Pairing_Runs Relationship_Properties
begin

text \<open>
  The properties of pairing eligibilities: an eligibility is used at most once and never after its
  lifetime, both devices of a completed transfer derive the same capability, and the capability
  one of them presents is the one the other accepts.
\<close>

section \<open>A session that is gone\<close>

definition stays_gone :: "string \<Rightarrow> 'z pairing_scheme \<Rightarrow> 'z pairing_scheme \<Rightarrow> bool" where
  "stays_gone ss s t \<longleftrightarrow>
     (ss \<notin> el_session_id ` set (pairing_eligibilities s) \<longrightarrow> ss \<notin> el_session_id ` set (pairing_eligibilities t))"

lemma stays_gone_same: "pairing_eligibilities t = pairing_eligibilities s \<Longrightarrow> stays_gone ss s t"
  by (simp add: stays_gone_def)

interpretation sg: db_state "stays_gone ss"
proof
  fix s t u :: "'z pairing_scheme" and fs
  show "stays_gone ss s s" by (simp add: stays_gone_def)
  show "stays_gone ss s t \<Longrightarrow> stays_gone ss t u \<Longrightarrow> stays_gone ss s u" by (simp add: stays_gone_def)
  show "stays_gone ss s (s\<lparr>db_faults := fs\<rparr>)" by (simp add: stays_gone_def)
qed

lemma gone_frame: "custody_frame s t \<Longrightarrow> stays_gone ss s (t :: 'z pairing_scheme)"
  by (cases s; cases t) (simp add: custody_frame_def stays_gone_def)

lemma gone_steps:
  "stays_gone ss s (s\<lparr>emitted := l\<rparr>)" "stays_gone ss s (on_eligibilities (delete_where P) s)"
  by (auto simp: stays_gone_def)

lemma gone_rel_update: "stable (stays_gone ss) (rel_update P u :: ('z pairing_scheme, nat) proc)"
  unfolding rel_update_def by (rule sg.stable_transact) (auto intro: stays_gone_same)

lemma gone_rel_writes:
  "stable (stays_gone ss) (refresh_authenticated_peer p nm n)" "stable (stays_gone ss) (rel_set_label n p l)"
  "stable (stays_gone ss) (set_issued_grant n p h i)" "stable (stays_gone ss) (set_held_grant n p h i)"
  "stable (stays_gone ss) (set_acks n p a b)" "stable (stays_gone ss) (rel_set_state n p st)"
  "stable (stays_gone ss) (set_pending_generation n p sn g)" "stable (stays_gone ss) (begin_grant_rotation n p g)"
  unfolding rel_write_defs
  by (intro sg.stable_bind sg.stable_next sg.stable_ok gone_rel_update)+

lemma gone_rel_exec:
  "stable (stays_gone ss) (rel_delete p)" "stable (stays_gone ss) (upsert r)"
  "stable (stays_gone ss) (insert_tombstone n p r)"
  "stable (stays_gone ss) (block_endpoint p n)" "stable (stays_gone ss) (unblock_endpoint p)"
  unfolding rel_delete_def upsert_def insert_tombstone_def block_endpoint_def unblock_endpoint_def Let_def
  by (rule sg.stable_exec, simp add: stays_gone_same)+

interpretation sx: exchange_preorder "stays_gone ss"
  by unfold_locales (simp_all add: gone_rel_writes gone_rel_exec gone_frame gone_steps)

interpretation sa: activation_preorder "stays_gone ss" "\<lambda>_. True" "\<lambda>x. x \<noteq> ss"
  by unfold_locales (auto simp: gone_rel_writes stays_gone_def)

definition renews :: "string \<Rightarrow> pair_command \<Rightarrow> bool" where
  "renews ss c \<longleftrightarrow> (case c of Activate n u p nm sn tk \<Rightarrow> sn = ss | _ \<Rightarrow> False)"

lemma gone_command: "\<not> renews ss c \<Longrightarrow> stays_gone ss s (perform_pair e c s)"
proof (cases "is_activation c")
  case True
  moreover assume "\<not> renews ss c"
  ultimately show ?thesis by (cases c) (simp_all add: is_activation_def renews_def sx.after sa.stable_activate)
next
  case False
  then show ?thesis by (rule sx.perform_pair_exchange)
qed

lemma gone_commands: "\<forall>c \<in> set cs. \<not> renews ss c \<Longrightarrow> stays_gone ss s (fold (perform_pair e) cs s)"
  by (induction cs arbitrary: s) (auto intro: sg.refl sg.trans [OF gone_command])

section \<open>Taking an eligibility\<close>

text \<open>Expiring only deletes: rows and secrets that are there afterwards were there before.\<close>

definition only_deletes :: "'z pairing_scheme \<Rightarrow> 'z pairing_scheme \<Rightarrow> bool" where
  "only_deletes s t \<longleftrightarrow> set (pairing_eligibilities t) \<subseteq> set (pairing_eligibilities s) \<and>
     (\<forall>h m. map_of (vs_values t) h = Some m \<longrightarrow> map_of (vs_values s) h = Some m)"

interpretation od: db_state only_deletes
proof
  fix s t u :: "'z pairing_scheme" and fs
  show "only_deletes s s" by (simp add: only_deletes_def)
  show "only_deletes s t \<Longrightarrow> only_deletes t u \<Longrightarrow> only_deletes s u" unfolding only_deletes_def by blast
  show "only_deletes s (s\<lparr>db_faults := fs\<rparr>)" by (simp add: only_deletes_def)
qed

lemma deletes_vs_delete: "only_deletes s (snd (vs_delete h s))"
  by (auto simp: vs_delete_def store_call_def Let_def only_deletes_def map_of_AList_delete
      split: list.split option.split ReferenceStoreFailure.split if_splits)

lemma deletes_delete_if_present: "stable only_deletes (delete_if_present h)"
proof -
  have "only_deletes s (snd (store_delete_raw h s))" for s :: "'z pairing_scheme"
    using deletes_vs_delete [of s h] by (cases "vs_delete h s") (simp add: store_delete_raw_def)
  then have "stable only_deletes (store_delete_raw h :: ('z pairing_scheme, _) proc)" by (rule stableI)
  then show ?thesis unfolding delete_if_present_def
    by (auto split: sum.split SecureSecretStoreError.split intro!: od.stable_rules)
qed

lemma deletes_remove_quietly: "stable only_deletes (remove_quietly n h)"
proof -
  have "stable only_deletes (disable n h)"
    unfolding disable_def set_metadata_state_def Let_def
    by (rule od.stable_transact) (auto simp: only_deletes_def split: if_splits)
  then show ?thesis unfolding remove_quietly_def remove_secret_def find_secret_def
    by (intro od.stable_rules od.stable_select deletes_delete_if_present)
qed

lemma deletes_entry: "stable only_deletes (delete_entry_silent e n q)" "stable only_deletes (delete_entry e n q)"
proof -
  have "stable only_deletes (el_delete ss)" for ss
    unfolding el_delete_def by (rule od.stable_exec) (auto simp: only_deletes_def)
  then show silent: "stable only_deletes (delete_entry_silent e n q)"
    unfolding delete_entry_silent_def by (intro od.stable_rules deletes_remove_quietly)
  have "stable only_deletes (emit a b)" for a b
    unfolding emit_def by (rule od.stable_modify) (simp add: only_deletes_def)
  with silent show "stable only_deletes (delete_entry e n q)"
    unfolding delete_entry_def by (intro od.stable_rules)
qed

lemma deletes_expire_due: "stable only_deletes (expire_due e n b)"
  unfolding expire_due_def list_expired_def by (intro od.stable_rules od.stable_select deletes_entry)

lemma delete_entryD:
  "delete_entry e n q s = (Inr u, t) \<Longrightarrow> el_session_id q \<notin> el_session_id ` set (pairing_eligibilities t)"
  unfolding delete_entry_def delete_entry_silent_def emit_def modify_def el_delete_def exec_def
  by (auto dest!: next_InrD transact_InrD)

lemma takeD:
  assumes "take_eligibility e n n' p s = (Inr (Some x), t)"
  shows "\<exists>q \<in> set (pairing_eligibilities s). el_peer_endpoint_id q = p \<and> el_session_id q = te_session_id x \<and>
      n' < el_expires_at q \<and> te_authenticated_at x = el_created_at q \<and>
      te_protocol_version x = el_protocol_version q \<and>
      map_of (vs_values s) (el_secret_handle q) = Some (te_capability x)"
    and "te_session_id x \<notin> el_session_id ` set (pairing_eligibilities t)"
proof -
  from assms obtain s1 s2 entries u where ex: "expire_due e n True s = (Inr u, s1)"
    and ls: "list_for_peer p s1 = (Inr entries, s2)"
    and rest: "(case entries of [] \<Rightarrow> ok None
      | q # _ \<Rightarrow>
          if el_expires_at q \<le> n' then next_do (delete_entry_silent e n' q) (ok None)
          else if \<not> re_custody (pc_rel e) then next_do (delete_entry_silent e n' q) (ok None)
          else attempt (load (re_public_key (pc_rel e)) (el_secret_handle q)) (\<lambda>loaded. case loaded of
              Inl _ \<Rightarrow> next_do (delete_entry_silent e n' q) (ok None)
            | Inr capability \<Rightarrow> next_do (delete_entry e n' q)
                (ok (Some \<lparr>te_session_id = el_session_id q, te_protocol_version = el_protocol_version q,
                   te_remote_display_name = el_remote_display_name q,
                   te_authenticated_at = el_created_at q, te_capability = capability\<rparr>)))) s2 = (Inr (Some x), t)"
    unfolding take_eligibility_def by (auto dest!: bind_InrD next_InrD)
  note od = stableD [OF deletes_expire_due ex]
  have ls': "s2 = tick_db s1" "entries = filter (\<lambda>q. el_peer_endpoint_id q = p) (pairing_eligibilities s1)"
    using ls by (auto simp: list_for_peer_def dest!: select_InrD)
  from rest obtain q qs where q: "entries = q # qs" "n' < el_expires_at q" "re_custody (pc_rel e)"
    by (cases entries) (auto dest!: next_InrD split: if_splits)
  obtain r s3 where ld: "load (re_public_key (pc_rel e)) (el_secret_handle q) s2 = (r, s3)"
    by (cases "load (re_public_key (pc_rel e)) (el_secret_handle q) s2")
  with rest q obtain c where c: "r = Inr c" and del: "\<exists>v. delete_entry e n' q s3 = (Inr v, t)"
    and x: "x = \<lparr>te_session_id = el_session_id q, te_protocol_version = el_protocol_version q,
                   te_remote_display_name = el_remote_display_name q,
                   te_authenticated_at = el_created_at q, te_capability = c\<rparr>"
    by (cases r) (auto simp: attempt_def dest!: next_InrD)
  show "te_session_id x \<notin> el_session_id ` set (pairing_eligibilities t)"
    using del x by (auto dest!: delete_entryD)
  have "q \<in> set entries" using q(1) by simp
  then have "q \<in> set (pairing_eligibilities s1)" "el_peer_endpoint_id q = p"
    using ls'(2) by simp_all
  moreover have "map_of (vs_values s1) (el_secret_handle q) = Some c"
    using load_InrD [OF ld [unfolded c]] ls'(1) by simp
  ultimately show "\<exists>q \<in> set (pairing_eligibilities s). el_peer_endpoint_id q = p \<and> el_session_id q = te_session_id x \<and>
      n' < el_expires_at q \<and> te_authenticated_at x = el_created_at q \<and>
      te_protocol_version x = el_protocol_version q \<and>
      map_of (vs_values s) (el_secret_handle q) = Some (te_capability x)"
    using od x q(2) unfolding only_deletes_def by (intro bexI [of _ q]) auto
qed

section \<open>The capability of a completed transfer\<close>

lemma find_by_sessionD:
  "find_by_session ss s = (Inr found, t) \<Longrightarrow>
   t = tick_db s \<and> found = find_by el_session_id ss (pairing_eligibilities s)"
  by (auto simp: find_by_session_def dest!: select_InrD)

lemma protect_eligibilities:
  "protect ep n u k m x s = (r, t) \<Longrightarrow> pairing_eligibilities t = pairing_eligibilities (s :: 'z pairing_scheme)"
  using stableD [OF frame_protect, of ep n u k m x s r t] by (cases s; cases t) (simp add: custody_frame_def)

lemma activateD:
  assumes act: "activate_after_completed_transfer e n u p nm ss tk s = (Inr x, t)"
    and old: "ss \<notin> el_session_id ` set (pairing_eligibilities s)"
    and new: "ss \<in> el_session_id ` set (pairing_eligibilities (t :: 'z pairing_scheme))"
  obtains q c where "pairing_eligibilities t = pairing_eligibilities s @ [q]"
    and "el_session_id q = ss" and "el_peer_endpoint_id q = p" and "el_expires_at q = n + ELIGIBILITY_TTL_MS"
    and "derive_capability e tk (re_local_endpoint_id (pc_rel e)) p ss RELATIONSHIP_PROTOCOL_VERSION = Inr c"
    and "map_of (vs_values t) (el_secret_handle q) = Some c"
    and "healthy t \<longrightarrow> load (re_public_key (pc_rel e)) (el_secret_handle q) t = (Inr c, t)"
proof -
  have "re_custody (pc_rel e) \<and> p \<noteq> '''' \<and> ss \<noteq> '''' \<and> tk \<noteq> ''''"
    using act old new by (auto simp: activate_after_completed_transfer_def split: if_splits)
  then obtain saved s1 where ref: "refresh_authenticated_peer p (display_name nm) n s = (Inr saved, s1)"
    and rest: "(if saved then remove_for_peer e n p
          else bind (find_by_session ss) (\<lambda>found.
            if found \<noteq> None then ok ()
            else bind (lift (derive_capability e tk (re_local_endpoint_id (pc_rel e)) p ss
                        RELATIONSHIP_PROTOCOL_VERSION)) (\<lambda>capability.
              bind (protect (re_public_key (pc_rel e)) n u PairingEligibility capability None) (\<lambda>handle.
              attempt (el_insert \<lparr>el_session_id = ss, el_peer_endpoint_id = p,
                  el_remote_display_name = display_name nm, el_protocol_version = RELATIONSHIP_PROTOCOL_VERSION,
                  el_secret_handle = handle, el_created_at = n,
                  el_expires_at = n + ELIGIBILITY_TTL_MS\<rparr>) (\<lambda>inserted. case inserted of
                Inl error \<Rightarrow> next_do (remove_quietly n handle) (err error)
              | Inr _ \<Rightarrow> emit ''pairing'' ''eligibility-available''))))) s1 = (Inr x, t)"
    using act by (auto simp: activate_after_completed_transfer_def Let_def dest!: bind_InrD)
  have same: "pairing_eligibilities s1 = pairing_eligibilities s"
    using ref by (auto simp: refresh_authenticated_peer_def rel_update_def dest!: bind_InrD transact_InrD)
  have "\<not> saved"
  proof
    assume saved
    then have "stays_gone ss s1 t" using rest by (auto intro: stableD [OF sx.stable_remove_for_peer])
    with old new same show False by (simp add: stays_gone_def)
  qed
  let ?q = "\<lambda>h. \<lparr>el_session_id = ss, el_peer_endpoint_id = p, el_remote_display_name = display_name nm,
    el_protocol_version = RELATIONSHIP_PROTOCOL_VERSION, el_secret_handle = h, el_created_at = n,
    el_expires_at = n + ELIGIBILITY_TTL_MS\<rparr>"
  from rest \<open>\<not> saved\<close> old new same obtain c h s2
    where c: "derive_capability e tk (re_local_endpoint_id (pc_rel e)) p ss RELATIONSHIP_PROTOCOL_VERSION = Inr c"
    and prot: "protect (re_public_key (pc_rel e)) n u PairingEligibility c None (tick_db s1) = (Inr h, s2)"
    and ins: "attempt (el_insert (?q h)) (\<lambda>inserted. case inserted of
                Inl error \<Rightarrow> next_do (remove_quietly n h) (err error)
              | Inr _ \<Rightarrow> emit ''pairing'' ''eligibility-available'') s2 = (Inr x, t)"
    by (auto dest!: bind_InrD find_by_sessionD lift_InrD split: if_splits)
  obtain r s3 where put: "el_insert (?q h) s2 = (r, s3)" by (cases "el_insert (?q h) s2")
  with ins have "r = Inr ()" by (cases r) (auto simp: attempt_def dest!: next_InrD)
  with put have "s3 = (tick_db s2)\<lparr>pairing_eligibilities := pairing_eligibilities s2 @ [?q h]\<rparr>"
    by (auto simp: el_insert_def dest!: transact_InrD split: if_splits)
  moreover have "t = s3\<lparr>emitted := emitted s3 @ [(''pairing'', ''eligibility-available'')]\<rparr>"
    using ins put \<open>r = Inr ()\<close> by (auto simp: attempt_def emit_def modify_def)
  ultimately have t: "t = s2\<lparr>db_faults := db_faults t, pairing_eligibilities := pairing_eligibilities s @ [?q h],
      emitted := emitted t\<rparr>"
    using protect_eligibilities [OF prot] same by simp
  note d = protectD [OF prot]
  have vals: "vs_values t = vs_values s2" "protected_secret_refs t = protected_secret_refs s2"
    "vs_corrupted t = vs_corrupted s2" "pairing_eligibilities t = pairing_eligibilities s @ [?q h]"
    by (subst t, simp)+
  have "load (re_public_key (pc_rel e)) h t = (Inr c, t)" if "healthy t"
    by (rule load_healthy [OF that, where r = "\<lparr>sr_handle = h, sr_kind = PairingEligibility, sr_state = Active,
        sr_expected_identity = None, sr_created_at = n, sr_updated_at = n\<rparr>"])
      (use d vals(1-3) in \<open>simp_all add: find_append_new map_of_AList_update\<close>)
  moreover have "map_of (vs_values t) h = Some c" using d(2) vals(1) by (simp add: map_of_AList_update)
  ultimately show thesis using vals(4) c by (intro that [of "?q h" c]) simp_all
qed

lemma capability_symmetric:
  "pc_derive_key e' = pc_derive_key e \<Longrightarrow>
   derive_capability e' token peer local session v = derive_capability e token local peer session v"
  using linear [of peer local] by (auto simp: derive_capability_def capability_message_def)

section \<open>Presenting a capability\<close>

lemma validate_gone:
  assumes "ss \<notin> el_session_id ` set (pairing_eligibilities s)"
  shows "fst (validate_presented_capability e n n' p ss c s) \<noteq> Inr (Some q)"
proof
  assume "fst (validate_presented_capability e n n' p ss c s) = Inr (Some q)"
  then obtain t where "validate_presented_capability e n n' p ss c s = (Inr (Some q), t)"
    by (metis prod.collapse)
  then obtain u s1 q' s2 where ex: "expire_due e n False s = (Inr u, s1)"
    and found: "find_by_session ss s1 = (Inr (Some q'), s2)"
    unfolding validate_presented_capability_def
    by (auto dest!: next_InrD bind_InrD split: if_splits option.splits)
  from find_by_sessionD [OF found] have "ss \<in> el_session_id ` set (pairing_eligibilities s1)"
    by (auto dest!: find_by_SomeD [OF sym])
  moreover have "stays_gone ss s s1" by (rule stableD [OF sx.stable_expire_due ex])
  ultimately show False using assms by (simp add: stays_gone_def)
qed

lemma take_gone:
  assumes "ss \<notin> el_session_id ` set (pairing_eligibilities s)"
    and "fst (take_eligibility e n n' p s) = Inr (Some x)"
  shows "te_session_id x \<noteq> ss"
proof -
  have "take_eligibility e n n' p s = (Inr (Some x), snd (take_eligibility e n n' p s))"
    using assms(2) by (metis prod.collapse)
  from takeD(1) [OF this] have "te_session_id x \<in> el_session_id ` set (pairing_eligibilities s)"
    by (metis image_eqI)
  with assms(1) show ?thesis by blast
qed

lemma expire_nothing:
  assumes "db_faults s = []" and "\<forall>q \<in> set (pairing_eligibilities s). n < el_expires_at q"
  shows "expire_due e n b s = (Inr (), s)"
proof -
  have "filter (\<lambda>q. el_expires_at q \<le> n) (pairing_eligibilities s) = []"
    using assms(2) by (auto simp: filter_empty_conv)
  then show ?thesis using assms(1)
    by (simp add: expire_due_def list_expired_def select_def transact_no_fault bind_def ok_def)
qed

text \<open>
  C20: taking an eligibility to start a pairing works at most once and only within its
  lifetime. What is taken belongs to the asked device, has not expired and is the capability kept
  in custody for it. Afterwards its session cannot be taken again and no capability is accepted
  for it, whatever operations follow, short of activating the same session anew.
\<close>

theorem eligibility_is_used_once:
  assumes "take_eligibility e n n' p s = (Inr (Some x), t)"
    and "\<forall>c \<in> set cs. \<not> renews (te_session_id x) c"
  shows "(\<exists>q \<in> set (pairing_eligibilities s). el_peer_endpoint_id q = p \<and> el_session_id q = te_session_id x \<and>
      n' < el_expires_at q \<and> te_authenticated_at x = el_created_at q \<and>
      te_protocol_version x = el_protocol_version q \<and>
      map_of (vs_values s) (el_secret_handle q) = Some (te_capability x)) \<and>
    (\<forall>m m' p' y. fst (take_eligibility e m m' p' (fold (perform_pair e) cs t)) = Inr (Some y) \<longrightarrow>
       te_session_id y \<noteq> te_session_id x) \<and>
    (\<forall>m m' p' c q. fst (validate_presented_capability e m m' p' (te_session_id x) c
       (fold (perform_pair e) cs t)) \<noteq> Inr (Some q))"
proof (intro conjI allI impI)
  have gone: "te_session_id x \<notin> el_session_id ` set (pairing_eligibilities (fold (perform_pair e) cs t))"
    using takeD(2) [OF assms(1)] gone_commands [OF assms(2), of t e] by (simp add: stays_gone_def)
  show "fst (take_eligibility e m m' p' (fold (perform_pair e) cs t)) = Inr (Some y) \<Longrightarrow>
       te_session_id y \<noteq> te_session_id x" for m m' p' y by (rule take_gone [OF gone])
  show "fst (validate_presented_capability e m m' p' (te_session_id x) c (fold (perform_pair e) cs t)) \<noteq> Inr (Some q)"
    for m m' p' c q by (rule validate_gone [OF gone])
qed (rule takeD(1) [OF assms(1)])

text \<open>
  C21: the two devices of a completed transfer agree on the capability. When each of them
  activates the eligibility of the session with the token the transfer shared, the capability one
  of them takes to ask for pairing is the one the other accepts from it, until it expires there.
\<close>

theorem presented_capability_is_accepted:
  assumes key: "pc_derive_key e' = pc_derive_key e" and custody: "re_custody (pc_rel e')"
    and mine: "activate_after_completed_transfer e n u (re_local_endpoint_id (pc_rel e')) nm ss tk s = (Inr (), t)"
      "ss \<notin> el_session_id ` set (pairing_eligibilities s)" "ss \<in> el_session_id ` set (pairing_eligibilities t)"
    and theirs: "activate_after_completed_transfer e' n' u' (re_local_endpoint_id (pc_rel e)) nm' ss tk s' = (Inr (), t')"
      "ss \<notin> el_session_id ` set (pairing_eligibilities s')" "ss \<in> el_session_id ` set (pairing_eligibilities t')"
    and taken: "take_eligibility e m m2 peer t = (Inr (Some x), r)" "te_session_id x = ss"
    and healthy: "healthy t'" and time: "\<forall>q \<in> set (pairing_eligibilities t'). k < el_expires_at q"
      "k' < n' + ELIGIBILITY_TTL_MS"
  shows "\<exists>q. validate_presented_capability e' k k' (re_local_endpoint_id (pc_rel e)) ss (te_capability x) t'
    = (Inr (Some q), t')"
proof -
  obtain q c where q: "pairing_eligibilities t = pairing_eligibilities s @ [q]" "el_session_id q = ss"
    and c: "derive_capability e tk (re_local_endpoint_id (pc_rel e)) (re_local_endpoint_id (pc_rel e')) ss
      RELATIONSHIP_PROTOCOL_VERSION = Inr c" "map_of (vs_values t) (el_secret_handle q) = Some c"
    by (rule activateD [OF mine])
  obtain q' c' where q': "pairing_eligibilities t' = pairing_eligibilities s' @ [q']" "el_session_id q' = ss"
      "el_peer_endpoint_id q' = re_local_endpoint_id (pc_rel e)" "el_expires_at q' = n' + ELIGIBILITY_TTL_MS"
    and c': "derive_capability e' tk (re_local_endpoint_id (pc_rel e')) (re_local_endpoint_id (pc_rel e)) ss
      RELATIONSHIP_PROTOCOL_VERSION = Inr c'"
    and load: "load (re_public_key (pc_rel e')) (el_secret_handle q') t' = (Inr c', t')"
    using activateD [OF theirs] healthy by (metis (no_types, lifting))
  have "c' = c" using c(1) c' capability_symmetric [OF key] by simp
  moreover have "te_capability x = c"
  proof -
    obtain qa where "qa \<in> set (pairing_eligibilities t)" "el_session_id qa = ss"
      "map_of (vs_values t) (el_secret_handle qa) = Some (te_capability x)"
      using takeD(1) [OF taken(1)] taken(2) by blast
    moreover have "qa \<notin> set (pairing_eligibilities s)" using \<open>el_session_id qa = ss\<close> mine(2) by blast
    ultimately show ?thesis using q(1) c(2) by auto
  qed
  moreover have "find_by el_session_id ss (pairing_eligibilities t') = Some q'"
    using q'(1,2) theirs(2) by (simp add: find_append_new)
  ultimately have "validate_presented_capability e' k k' (re_local_endpoint_id (pc_rel e)) ss (te_capability x) t'
      = (Inr (Some q'), t')"
    using custody healthy time q'(3,4) load
    by (simp add: validate_presented_capability_def next_do_def bind_def expire_nothing healthy_def
        find_by_session_def select_def transact_no_fault attempt_def ok_def)
  then show ?thesis by blast
qed

section \<open>Witnesses\<close>

definition ref_pair_env :: "string \<Rightarrow> pair_env" where
  "ref_pair_env self = \<lparr>pc_rel = ref_rel_env self, pc_derive_key = (\<lambda>context input. ref_secret)\<rparr>"

definition ref_pairing :: "relationship list \<Rightarrow> eligibility list \<Rightarrow> (string \<times> int) list \<Rightarrow> pairing" where
  "ref_pairing rows els blocked = \<lparr>
     targeted_transfers = [], accepted_offer_intents = [], authorization_delivery_outbox = [],
     completion_outbox = [], payload_release_outbox = [], schema_migrations = [], db_faults = [],
     protected_secret_refs = [], vs_values = [], vs_corrupted = [], vs_failures = [],
     device_relationships = rows, generation_tombstones = [], emitted = [],
     pairing_eligibilities = els, blocked_endpoints = blocked\<rparr>"

definition ref_eligibility_handle :: string where
  "ref_eligibility_handle = generate_handle PairingEligibility ''u''"

definition ref_eligibility :: "string \<Rightarrow> eligibility" where
  "ref_eligibility peer = \<lparr>el_session_id = ''s1'', el_peer_endpoint_id = peer, el_remote_display_name = None,
     el_protocol_version = RELATIONSHIP_PROTOCOL_VERSION, el_secret_handle = ref_eligibility_handle,
     el_created_at = 0, el_expires_at = ELIGIBILITY_TTL_MS\<rparr>"

definition ref_eligible :: "string \<Rightarrow> pairing" where
  "ref_eligible peer = (ref_pairing [] [ref_eligibility peer] [])\<lparr>
     protected_secret_refs := [\<lparr>sr_handle = ref_eligibility_handle, sr_kind = PairingEligibility,
       sr_state = Active, sr_expected_identity = None, sr_created_at = 0, sr_updated_at = 0\<rparr>],
     vs_values := [(ref_eligibility_handle, ref_secret)],
     emitted := [(''pairing'', ''eligibility-available'')]\<rparr>"

lemma ref_activate:
  assumes "p \<noteq> ''''"
  shows "activate_after_completed_transfer (ref_pair_env self) 0 ''u'' p None ''s1'' ''token'' (ref_pairing [] [] [])
    = (Inr (), ref_eligible p)"
  using assms
  by (simp add: activate_after_completed_transfer_def ref_pair_env_def ref_pairing_def ref_eligible_def
      ref_eligibility_def ref_eligibility_handle_def refresh_authenticated_peer_def find_by_session_def find_by_def
      derive_capability_def display_name_def el_insert_def emit_def ref_eval_defs)

definition ref_taken :: taken_eligibility where
  "ref_taken = \<lparr>te_session_id = ''s1'', te_protocol_version = RELATIONSHIP_PROTOCOL_VERSION,
     te_remote_display_name = None, te_authenticated_at = 0, te_capability = ref_secret\<rparr>"

definition ref_spent :: "string \<Rightarrow> pairing" where
  "ref_spent peer = (ref_pairing [] [] [])\<lparr>
     protected_secret_refs := [\<lparr>sr_handle = ref_eligibility_handle, sr_kind = PairingEligibility,
       sr_state = Disabled, sr_expected_identity = None, sr_created_at = 0, sr_updated_at = 2\<rparr>],
     emitted := [(''pairing'', ''eligibility-available''), (''pairing'', ''eligibility-removed'')]\<rparr>"

lemma ref_eligible_load:
  "load ep ref_eligibility_handle (ref_eligible p) = (Inr ref_secret, ref_eligible p)"
  by (simp add: load_def find_secret_def find_by_def ref_eligible_def ref_pairing_def ref_call_defs)

lemma ref_eligible_facts:
  "db_faults (ref_eligible p) = []" "pairing_eligibilities (ref_eligible p) = [ref_eligibility p]"
  "healthy (ref_eligible p)"
  by (simp_all add: ref_eligible_def ref_pairing_def healthy_def)

lemma ref_eligible_calls:
  "expire_due e 1 b (ref_eligible p) = (Inr (), ref_eligible p)"
  "list_for_peer q (ref_eligible p) = (Inr (if q = p then [ref_eligibility p] else []), ref_eligible p)"
  "delete_entry (ref_pair_env self) 2 (ref_eligibility p) (ref_eligible p) = (Inr (), ref_spent p)"
proof -
  show "expire_due e 1 b (ref_eligible p) = (Inr (), ref_eligible p)"
    by (rule expire_nothing) (simp_all add: ref_eligible_facts ref_eligibility_def ELIGIBILITY_TTL_MS_def)
  show "list_for_peer q (ref_eligible p) = (Inr (if q = p then [ref_eligibility p] else []), ref_eligible p)"
    by (simp add: list_for_peer_def select_def transact_no_fault ref_eligible_facts ref_eligibility_def)
  show "delete_entry (ref_pair_env self) 2 (ref_eligibility p) (ref_eligible p) = (Inr (), ref_spent p)"
    by (simp add: delete_entry_def delete_entry_silent_def remove_quietly_def remove_secret_def find_secret_def
        find_by_def disable_def delete_if_present_def store_delete_raw_def vs_delete_def el_delete_def exec_def
        emit_def delete_where_def ref_eligible_def ref_spent_def ref_pairing_def ref_eligibility_def
        ref_pair_env_def ref_rel_env_def ref_call_defs)
qed

lemma ref_take:
  "take_eligibility (ref_pair_env self) 1 2 p (ref_eligible p) = (Inr (Some ref_taken), ref_spent p)"
proof -
  have unexpired: "el_secret_handle (ref_eligibility p) = ref_eligibility_handle" "\<not> el_expires_at (ref_eligibility p) \<le> 2"
    "re_custody (pc_rel (ref_pair_env self))"
    by (simp_all add: ref_eligibility_def ELIGIBILITY_TTL_MS_def ref_pair_env_def ref_rel_env_def)
  show ?thesis
    by (simp add: take_eligibility_def next_do_def bind_def attempt_def ok_def ref_eligible_calls ref_eligible_load
        unexpired) (simp add: ref_eligibility_def ref_taken_def)
qed

theorem eligibility_is_used_once_witness:
  "\<exists>x t. take_eligibility (ref_pair_env ''alice'') 1 2 ''bob'' (ref_eligible ''bob'') = (Inr (Some x), t) \<and>
     (\<forall>m m' p' c q. fst (validate_presented_capability (ref_pair_env ''alice'') m m' p' (te_session_id x) c t)
       \<noteq> Inr (Some q))"
  using eligibility_is_used_once [OF ref_take [of "''alice''" "''bob''"], of "[]"]
    ref_take [of "''alice''" "''bob''"] by auto

theorem presented_capability_is_accepted_witness:
  "\<exists>q. validate_presented_capability (ref_pair_env ''bob'') 1 1 ''alice'' ''s1'' (te_capability ref_taken)
     (ref_eligible ''alice'') = (Inr (Some q), ref_eligible ''alice'')"
proof -
  have env: "re_local_endpoint_id (pc_rel (ref_pair_env p)) = p" "re_custody (pc_rel (ref_pair_env p))"
    "pc_derive_key (ref_pair_env p) = pc_derive_key (ref_pair_env q)" for p q
    by (simp_all add: ref_pair_env_def ref_rel_env_def)
  have act: "activate_after_completed_transfer (ref_pair_env ''alice'') 0 ''u'' ''bob'' None ''s1'' ''token'' (ref_pairing [] [] [])
      = (Inr (), ref_eligible ''bob'')"
    "activate_after_completed_transfer (ref_pair_env ''bob'') 0 ''u'' ''alice'' None ''s1'' ''token'' (ref_pairing [] [] [])
      = (Inr (), ref_eligible ''alice'')"
    by (rule ref_activate, simp)+
  show ?thesis
    by (rule presented_capability_is_accepted [of "ref_pair_env ''bob''" "ref_pair_env ''alice''", unfolded env(1),
          OF env(3,2) act(1) _ _ act(2) _ _ ref_take])
      (simp_all add: ref_eligible_facts ref_pairing_def ref_eligibility_def ref_taken_def ELIGIBILITY_TTL_MS_def)
qed

end
