(* ===== verification/Pairing_Properties.thy ===== *)
theory Pairing_Properties
  imports Eligibility_Properties
begin

text \<open>
  The properties of pairing: what the rows look like after any run, what a peer's messages can
  reach, who may become a saved device, how eligibilities are used up, and how a relationship ends.
\<close>

section \<open>Becoming saved\<close>

definition no_new_saved :: "'z relations_scheme \<Rightarrow> 'z relations_scheme \<Rightarrow> bool" where
  "no_new_saved s t \<longleftrightarrow> (\<forall>p. saved_peer p t \<longrightarrow> saved_peer p s)"

lemma no_new_saved_same: "device_relationships t = device_relationships s \<Longrightarrow> no_new_saved s t"
  by (simp add: no_new_saved_def saved_peer_def)

interpretation nn: db_state no_new_saved
  by unfold_locales (auto simp: no_new_saved_def saved_peer_def)

lemma saved_rel_update:
  assumes "\<And>r. dr_remote_endpoint_id (u r) = dr_remote_endpoint_id r"
    and "\<And>r. P r \<Longrightarrow> dr_state (u r) = Saved \<Longrightarrow> dr_state r = Saved"
  shows "no_new_saved s (on_relationships (update_where P u) s)"
  using assms by (auto simp: no_new_saved_def saved_peer_def find_update_where split: if_splits)

lemma saved_stable_update:
  assumes "\<And>r. dr_remote_endpoint_id (u r) = dr_remote_endpoint_id r"
    and "\<And>r. P r \<Longrightarrow> dr_state (u r) = Saved \<Longrightarrow> dr_state r = Saved"
  shows "stable no_new_saved (rel_update P u)"
  unfolding rel_update_def by (rule nn.stable_transact) (auto intro: saved_rel_update assms)

lemma saved_rel_writes:
  "stable no_new_saved (refresh_authenticated_peer p nm n)" "stable no_new_saved (rel_set_label n p l)"
  "stable no_new_saved (set_issued_grant n p h i)" "stable no_new_saved (set_held_grant n p h i)"
  "stable no_new_saved (set_acks n p a b)" "stable no_new_saved (set_pending_generation n p ss g)"
  "stable no_new_saved (begin_grant_rotation n p g)"
  unfolding rel_write_defs
  by (intro nn.stable_bind nn.stable_next nn.stable_ok saved_stable_update; simp)+

lemma saved_delete: "stable no_new_saved (rel_delete p)"
  unfolding rel_delete_def
proof (rule nn.stable_exec)
  fix s :: "'z relations_scheme"
  have "find_by dr_remote_endpoint_id p (delete_where (peer_is p) (device_relationships s)) = None"
    by (auto simp: find_by_None_iff peer_is_def)
  then show "no_new_saved s (on_relationships (delete_where (peer_is p)) s)"
    unfolding no_new_saved_def saved_peer_def by (metis find_delete_other option.distinct(1) relations.select_convs(1)
        relations.update_convs(1) relations.surjective)
qed

lemma saved_upsert:
  assumes "is_pending st"
  shows "stable no_new_saved (upsert (pending_row p st g v ss nm a c n))"
  unfolding upsert_def
proof (rule nn.stable_exec)
  fix s :: "'z relations_scheme"
  let ?e = "pending_row p st g v ss nm a c n" and ?rows = "device_relationships s"
  have st: "st \<noteq> Saved" using assms by (auto simp: is_pending_def)
  have "no_new_saved s (on_relationships (update_where (peer_is p) (merge_relationship ?e)) s)"
    using st by (intro saved_rel_update) (simp_all add: merge_relationship_def pending_row_def)
  moreover have "no_new_saved s (s\<lparr>device_relationships := ?rows @ [?e\<lparr>dr_local_label := None\<rparr>]\<rparr>)"
    if "\<not> exists_where (peer_is p) ?rows"
  proof -
    have "p \<notin> dr_remote_endpoint_id ` set ?rows" using that by (auto simp: peer_is_def)
    then have "find_by dr_remote_endpoint_id q (?rows @ [?e\<lparr>dr_local_label := None\<rparr>]) =
        (if q = p then Some (?e\<lparr>dr_local_label := None\<rparr>) else relation_of q s)" for q
      by (auto simp: find_append_new find_append_other pending_row_def)
    then show ?thesis using st by (simp add: no_new_saved_def saved_peer_def pending_row_def)
  qed
  ultimately show "no_new_saved s (s\<lparr>device_relationships :=
      (if exists_where (peer_is (dr_remote_endpoint_id ?e)) ?rows
       then update_where (peer_is (dr_remote_endpoint_id ?e)) (merge_relationship ?e) ?rows
       else ?rows @ [?e\<lparr>dr_local_label := None\<rparr>])\<rparr>)"
    by (simp add: pending_row_def)
qed

lemma saved_tombstone: "stable no_new_saved (insert_tombstone n p r)"
  unfolding insert_tombstone_def Let_def by (rule nn.stable_exec) (simp add: no_new_saved_same)

lemma saved_frame: "custody_frame s t \<Longrightarrow> no_new_saved s (t :: 'z relations_scheme)"
  by (cases s; cases t) (auto simp: custody_frame_def intro: no_new_saved_same)

interpretation ng: request_preorder no_new_saved "\<lambda>_. True"
  by unfold_locales
    (simp_all add: saved_rel_writes saved_upsert saved_delete saved_tombstone saved_frame no_new_saved_same)

interpretation na: activation_preorder no_new_saved "\<lambda>_. True" "\<lambda>_. True"
  by unfold_locales (simp_all add: saved_rel_writes no_new_saved_same)

lemma saved_blocks: "stable no_new_saved (block_endpoint p n)" "stable no_new_saved (unblock_endpoint p)"
  unfolding block_endpoint_def unblock_endpoint_def
  by (rule nn.stable_exec, simp add: no_new_saved_same)+

interpretation ns: service_preorder no_new_saved
  by unfold_locales (simp_all add: saved_blocks saved_rel_writes saved_tombstone)

text \<open>A proof of possession of the grant that this device issued for the generation of its row.\<close>

definition issued_possession_shown ::
    "rel_env \<Rightarrow> string \<Rightarrow> string \<Rightarrow> wire_proof \<Rightarrow> u64 \<Rightarrow> u16 \<Rightarrow> 'z relations_scheme \<Rightarrow> bool" where
  "issued_possession_shown e p c pr g v s \<longleftrightarrow> \<not> is_tombstoned p g s \<and>
     (\<exists>r h secret. relation_of p s = Some r \<and> dr_generation r = g \<and>
       dr_issued_grant_id r = Some (wp_grant_id pr) \<and> dr_issued_grant_handle r = Some h \<and>
       map_of (vs_values s) h = Some secret \<and>
       hex_decode (re_ext e) (wp_mac pr) =
         Some (relationship_mac (re_ext e) secret c (re_local_endpoint_id e) p g v))"

definition pending_peer :: "string \<Rightarrow> 'z relations_scheme \<Rightarrow> bool" where
  "pending_peer p s \<longleftrightarrow> (\<exists>r. relation_of p s = Some r \<and> is_pending (dr_state r))"

text \<open>The peer answered our own request or consent: it says it has us saved.\<close>

definition said_saved :: "string \<Rightarrow> pair_command \<Rightarrow> bool" where
  "said_saved p c = (case c of
      RequestFinish n q t addr answer \<Rightarrow> q = p \<and> answer = Some RequestAlreadySaved
    | MergeConsent n u q ch g v addr answer \<Rightarrow> q = p \<and> answer = Some ConsentAlreadySaved
    | RespondConsent n u q ch row answer \<Rightarrow> q = p \<and> answer = Some ConsentAlreadySaved
    | _ \<Rightarrow> False)"

text \<open>The peer answered our own acknowledgement.\<close>

definition took_ack :: "string \<Rightarrow> pair_command \<Rightarrow> bool" where
  "took_ack p c = (case c of
      MergeAck n q answer \<Rightarrow> q = p \<and> (answer = Some Acknowledged \<or> answer = Some AckAlreadySaved)
    | RespondAck n q answer \<Rightarrow> q = p \<and> (answer = Some Acknowledged \<or> answer = Some AckAlreadySaved)
    | _ \<Rightarrow> False)"

abbreviation peer_confirmed :: "string \<Rightarrow> pair_command \<Rightarrow> bool" where
  "peer_confirmed p c \<equiv> said_saved p c \<or> took_ack p c"

text \<open>The proof in a completed answer to our consent, with the challenge the consent carried.\<close>

fun consent_proof :: "pair_command \<Rightarrow> (string \<times> string \<times> wire_proof \<times> u64 \<times> u16) option" where
  "consent_proof (MergeConsent n u p ch g v addr (Some (ConsentCompleted grant pr c))) = Some (p, ch, pr, g, v)"
| "consent_proof (RespondConsent n u p ch row (Some (ConsentCompleted grant pr c))) =
     Some (p, ch, pr, dr_generation row, dr_minimum_protocol_version row)"
| "consent_proof c = None"

lemma saves_after: "stable no_new_saved m \<Longrightarrow> saved_peer p (snd (m s)) \<Longrightarrow> saved_peer p s"
  by (simp add: stable_def no_new_saved_def)

lemma saves_only:
  assumes "stable (others_untouched q) m" and "saved_peer p (snd (m s))" and "\<not> saved_peer p s"
  shows "p = q"
proof (rule ccontr)
  assume "p \<noteq> q"
  with assms(1) have "relation_of p (snd (m s)) = relation_of p s"
    by (simp add: stable_def others_untouched_def)
  with assms(2,3) show False by (simp add: saved_peer_def)
qed

lemma unconfirmed_saves_nothing:
  "answer \<noteq> Some RequestAlreadySaved \<Longrightarrow> stable no_new_saved (request_pairing_finish n q t addr answer)"
  "consent \<noteq> Some ConsentAlreadySaved \<Longrightarrow> stable no_new_saved (merge_consent e n u q ch g v addr consent)"
  "consent \<noteq> Some ConsentAlreadySaved \<Longrightarrow> stable no_new_saved (respond_to_pairing_consent e n u q ch row consent)"
  "ack \<noteq> Some Acknowledged \<Longrightarrow> ack \<noteq> Some AckAlreadySaved \<Longrightarrow> stable no_new_saved (merge_ack n q ack)"
  "ack \<noteq> Some Acknowledged \<Longrightarrow> ack \<noteq> Some AckAlreadySaved \<Longrightarrow> stable no_new_saved (respond_to_pairing_ack n q ack)"
  unfolding request_pairing_finish_def merge_consent_def respond_to_pairing_consent_def merge_ack_def
    respond_to_pairing_ack_def
  by (auto split: option.split PairingRequestResponse.split PairingConsentResponse.split
      intro!: ng.el_steps ng.stable_adopt ng.stable_complete_consent)

text \<open>The acknowledgement handler.\<close>

lemma is_blocked_call:
  obtains b where "is_blocked p s = (Inr b, tick_db s)" and "b \<or> p \<notin> fst ` set (blocked_endpoints s)"
proof -
  have "\<exists>b. is_blocked p s = (Inr b, tick_db s) \<and> (\<not> b \<longrightarrow> p \<notin> fst ` set (blocked_endpoints s))"
    by (auto simp: is_blocked_def block_store_is_blocked_def select_def transact_def attempt_def ok_def Let_def
        split: list.split option.split)
  with that show thesis by blast
qed

lemma rel_find_row_call:
  obtains r where "rel_find_row p s = (r, tick_db s)" and "\<forall>x. r = Inr x \<longrightarrow> x = relation_of p s"
proof -
  have "\<exists>r. rel_find_row p s = (r, tick_db s) \<and> (\<forall>x. r = Inr x \<longrightarrow> x = relation_of p s)"
    by (auto simp: rel_find_row_def select_def transact_def Let_def split: list.split option.split)
  with that show thesis by blast
qed

lemma issued_possession_tick [simp]:
  "issued_possession_shown e p c pr g v (s\<lparr>db_faults := fs\<rparr>) = issued_possession_shown e p c pr g v s"
  by (simp add: issued_possession_shown_def is_tombstoned_def)

lemma verify_issued_possession_shown:
  assumes "verify_issued_possession e p c pr g v s = (Inr u, t)"
  shows "issued_possession_shown e p c pr g v s"
proof -
  have "dr_generation r = g" if "relation_of p s = Some r" for r
    using assms that unfolding verify_issued_possession_def
    by (auto dest!: bind_InrD reject_replayedD split: sum.splits)
  with verify_issuedD [OF assms] show ?thesis
    by (auto simp: issued_possession_shown_def)
qed

lemma verified_ack_saves:
  assumes "saved_peer p (snd (next_do (verify_issued_possession e p c pr g v) (activate_acknowledged n p) s))"
    and "\<not> saved_peer p (s :: 'z pairing_scheme)"
  shows "issued_possession_shown e p c pr g v s"
proof -
  obtain x t where v: "verify_issued_possession e p c pr g v s = (x, t)" by (cases "verify_issued_possession e p c pr g v s")
  show ?thesis
  proof (cases x)
    case (Inl err)
    with assms(1) v have "saved_peer p (snd (verify_issued_possession e p c pr g v s))"
      by (simp add: next_do_def bind_def)
    then have "saved_peer p s" by (rule saves_after [OF ng.stable_verify_issued])
    with assms(2) show ?thesis by simp
  next
    case (Inr u)
    show ?thesis by (rule verify_issued_possession_shown [OF v [unfolded Inr]])
  qed
qed

lemma saved_tick: "saved_peer p (s\<lparr>db_faults := fs\<rparr>) = saved_peer p s"
  by (simp add: saved_peer_def)

lemma handle_ack_saves:
  assumes new: "saved_peer p (snd (handle_pairing_ack e n p ack s))" and old: "\<not> saved_peer p (s :: 'z pairing_scheme)"
  shows "p \<notin> fst ` set (blocked_endpoints s) \<and> pending_peer p s \<and> (\<exists>ch. challenge_decode (re_ext (pc_rel e)) (pk_challenge ack) = Inr ch \<and>
    issued_possession_shown (pc_rel e) p ch (pk_possession_proof ack) (pk_generation ack) (pk_protocol_version ack) s)"
proof -
  let ?s = "tick_db (tick_db s)"
  obtain b where b: "is_blocked p s = (Inr b, tick_db s)" "b \<or> p \<notin> fst ` set (blocked_endpoints s)"
    by (rule is_blocked_call [of p s])
  obtain r where r: "rel_find_row p (tick_db s) = (r, ?s)" "\<forall>x. r = Inr x \<longrightarrow> x = relation_of p (tick_db s)"
    by (rule rel_find_row_call [of p "tick_db s"])
  have "\<not> b" using new old b(1) by (auto simp: handle_pairing_ack_def bind_def ok_def saved_tick)
  obtain row where row: "r = Inr (Some row)"
    using new old b(1) \<open>\<not> b\<close> r(1)
    by (cases r; cases "projr r") (auto simp: handle_pairing_ack_def bind_def attempt_def ok_def saved_tick)
  have rel: "relation_of p ?s = Some row" using r(2) row by simp
  have pending: "is_pending (dr_state row)"
    using new old b(1) \<open>\<not> b\<close> r(1) row
    by (cases "is_pending (dr_state row)"; cases "dr_state row = Saved")
      (auto simp: handle_pairing_ack_def bind_def attempt_def ok_def saved_tick)
  then have "dr_state row \<noteq> Saved" by (auto simp: is_pending_def)
  obtain ch where ch: "challenge_decode (re_ext (pc_rel e)) (pk_challenge ack) = Inr ch"
    using new old b(1) \<open>\<not> b\<close> r(1) row pending \<open>dr_state row \<noteq> Saved\<close>
    by (cases "challenge_decode (re_ext (pc_rel e)) (pk_challenge ack)")
      (auto simp: handle_pairing_ack_def bind_def attempt_def ok_def saved_tick)
  let ?m = "next_do (verify_issued_possession (pc_rel e) p ch (pk_possession_proof ack) (pk_generation ack)
      (pk_protocol_version ack)) (activate_acknowledged n p)"
  have "snd (handle_pairing_ack e n p ack s) = snd (?m ?s)"
    using b(1) \<open>\<not> b\<close> r(1) row pending \<open>dr_state row \<noteq> Saved\<close> ch
    by (auto simp: handle_pairing_ack_def bind_def [of "is_blocked p"] attempt_def ok_def split: prod.split sum.split)
  with new have "saved_peer p (snd (?m ?s))" by simp
  moreover have "\<not> saved_peer p ?s" using old by (simp add: saved_tick)
  ultimately have "issued_possession_shown (pc_rel e) p ch (pk_possession_proof ack) (pk_generation ack)
      (pk_protocol_version ack) ?s" by (rule verified_ack_saves)
  moreover have "pending_peer p s" using rel pending by (simp add: pending_peer_def)
  ultimately show ?thesis using b(2) \<open>\<not> b\<close> ch by simp
qed

lemma saved_step: "stable no_new_saved m \<Longrightarrow> no_new_saved s (snd (m s))"
  by (simp add: stable_def)

lemma saved_message:
  "(\<forall>ack. m \<noteq> PairingAckMessage ack) \<Longrightarrow> stable no_new_saved (handle_relationship_message e d q m)"
  by (cases m) (auto simp: handle_relationship_message_def
      intro!: ng.el_steps ng.stable_handle_request ng.stable_handle_consent ns.stable_forget)

lemmas quiet_rules = na.stable_activate ng.stable_list_eligibilities ng.stable_reconcile_eligibilities
  ng.stable_remove_for_peer ng.stable_accept_presented ng.stable_request_start ng.stable_merge_start
  ng.stable_respond_start ns.stable_forget saved_blocks ns.stable_rotate ns.stable_list_relationships
  ns.stable_label ns.stable_reconcile_relationships

lemma quiet_commands:
  assumes "\<forall>q. \<not> peer_confirmed q c" and "\<forall>d q ack. c \<noteq> PeerMessage d q (PairingAckMessage ack)"
  shows "no_new_saved s (perform_pair e c s)"
proof (cases c)
  case (PeerMessage d q m)
  then have "\<forall>ack. m \<noteq> PairingAckMessage ack" using assms(2) by blast
  then show ?thesis using PeerMessage by (simp add: saved_step saved_message)
qed (use assms(1) in \<open>simp_all add: said_saved_def took_ack_def saved_step decline_eligibility_def quiet_rules
    unconfirmed_saves_nothing\<close>)

lemma others_step: "stable (others_untouched q) m \<Longrightarrow> others_untouched q s (snd (m s))"
  by (simp add: stable_def)

lemma confirmed_commands: "peer_confirmed q c \<Longrightarrow> others_untouched q s (perform_pair e c s)"
  by (cases c) (simp_all add: said_saved_def took_ack_def others_step po.stable_request_finish
      po.stable_merge_rest po.stable_respond_rest)

lemma saves_only_mine: "others_untouched q s t \<Longrightarrow> saved_peer p t \<Longrightarrow> \<not> saved_peer p s \<Longrightarrow> p = q"
  by (metis others_untouched_def saved_peer_def)

lemma saved_step_cause:
  fixes s :: "'z pairing_scheme"
  assumes "saved_peer p (perform_pair e c s)" and "\<not> saved_peer p s"
  shows "peer_confirmed p c \<or>
    (\<exists>d ack ch. c = PeerMessage d p (PairingAckMessage ack) \<and> p \<notin> fst ` set (blocked_endpoints s) \<and> pending_peer p s \<and>
       challenge_decode (re_ext (pc_rel e)) (pk_challenge ack) = Inr ch \<and>
       issued_possession_shown (pc_rel e) p ch (pk_possession_proof ack) (pk_generation ack) (pk_protocol_version ack) s)"
proof -
  consider (confirmed) q where "peer_confirmed q c"
    | (ack) d q ack where "c = PeerMessage d q (PairingAckMessage ack)"
    | (quiet) "\<forall>q. \<not> peer_confirmed q c" "\<forall>d q ack. c \<noteq> PeerMessage d q (PairingAckMessage ack)"
    by blast
  then show ?thesis
  proof cases
    case confirmed
    with saves_only_mine [OF confirmed_commands assms] show ?thesis by blast
  next
    case ack
    have "stable (others_untouched q) (handle_relationship_message e d q (PairingAckMessage ack))"
      by (rule po.stable_message) simp
    from saves_only [OF this] assms ack have q: "p = q" by simp
    then have "saved_peer p (snd (handle_pairing_ack e (dw_now d) p ack s))"
      using assms(1) ack by (auto simp: handle_relationship_message_def bind_def ok_def split: prod.splits sum.splits)
    from handle_ack_saves [OF this assms(2)] show ?thesis using ack q by blast
  next
    case quiet
    with quiet_commands assms show ?thesis by (metis no_new_saved_def)
  qed
qed

text \<open>An acknowledgement is due only after a proof was verified.\<close>

lemma complete_consent_shown:
  assumes "complete_consent e n u p ch g v grant pr c s = (Inr ack, t)"
  shows "issued_possession_shown (pc_rel e) p ch pr g v s"
  using assms unfolding complete_consent_def by (auto dest!: next_InrD intro: verify_issued_possession_shown)

lemma no_ack_in_request: "DueMergeAck q \<notin> set (due_request p out)" "DueRespondAck q \<notin> set (due_request p out)"
  by (auto simp: due_request_def split: sum.split request_outcome.split)

lemma new_ack_shown:
  assumes "DueMergeAck p \<in> set (new_due e c s) \<or> DueRespondAck p \<in> set (new_due e c s)"
  shows "\<exists>ch pr g v. consent_proof c = Some (p, ch, pr, g, v) \<and> issued_possession_shown (pc_rel e) p ch pr g v s"
  using assms
proof (cases c)
  case (MergeConsent n u q ch g v addr answer)
  with assms obtain ack t where q: "q = p" and m: "merge_consent e n u p ch g v addr answer s = (Inr (Some ack), t)"
    by (auto split: sum.splits option.splits) (metis prod.collapse)+
  from m obtain grant pr c' t' where a: "answer = Some (ConsentCompleted grant pr c')"
    and "complete_consent e n u p ch g v grant pr c' s = (Inr ack, t')"
    unfolding merge_consent_def
    by (auto simp: ok_def lift_def dest!: next_InrD bind_InrD split: option.splits PairingConsentResponse.splits sum.splits)
  from complete_consent_shown [OF this(2)] MergeConsent q a show ?thesis by simp
next
  case (RespondConsent n u q ch row answer)
  with assms obtain ack t where q: "q = p" and m: "respond_to_pairing_consent e n u p ch row answer s = (Inr (Inr ack), t)"
    by (auto split: sum.splits option.splits) (metis prod.collapse)+
  from m obtain grant pr c' t' where a: "answer = Some (ConsentCompleted grant pr c')"
    and "complete_consent e n u p ch (dr_generation row) (dr_minimum_protocol_version row) grant pr c' s = (Inr ack, t')"
    unfolding respond_to_pairing_consent_def
    by (auto simp: ok_def dest!: next_InrD bind_InrD split: option.splits PairingConsentResponse.splits)
  from complete_consent_shown [OF this(2)] RespondConsent q a show ?thesis by simp
qed (auto simp: no_ack_in_request split: sum.splits option.splits respond_outcome.splits RelationshipResponse.splits)

lemma due_ack_was_proved:
  assumes "fold (dialogue e) cs ([], s0) = (dues, s)" and "DueMergeAck p \<in> set dues \<or> DueRespondAck p \<in> set dues"
  shows "\<exists>cs1 c1 cs2 ch pr g v. cs = cs1 @ c1 # cs2 \<and> consent_proof c1 = Some (p, ch, pr, g, v) \<and>
    issued_possession_shown (pc_rel e) p ch pr g v (snd (fold (dialogue e) cs1 ([], s0)))"
  using assms
proof (induction cs arbitrary: dues s rule: rev_induct)
  case (snoc c cs)
  obtain dues1 s1 where run: "fold (dialogue e) cs ([], s0) = (dues1, s1)" by fastforce
  with snoc.prems(1) have c: "dialogue e c (dues1, s1) = (dues, s)" by simp
  show ?case
  proof (cases "DueMergeAck p \<in> set dues1 \<or> DueRespondAck p \<in> set dues1")
    case True
    from snoc.IH [OF run this] obtain cs1 c1 cs2 ch pr g v where "cs = cs1 @ c1 # cs2" "consent_proof c1 = Some (p, ch, pr, g, v)"
      "issued_possession_shown (pc_rel e) p ch pr g v (snd (fold (dialogue e) cs1 ([], s0)))" by blast
    moreover have "cs @ [c] = cs1 @ c1 # (cs2 @ [c])" using calculation(1) by simp
    ultimately show ?thesis by blast
  next
    case False
    have "DueMergeAck p \<in> set (new_due e c s1) \<or> DueRespondAck p \<in> set (new_due e c s1)"
      using c snoc.prems(2) False by (auto split: option.splits if_splits dest: set_remove1_subset [THEN subsetD])
    from new_ack_shown [OF this] obtain ch pr g v where "consent_proof c = Some (p, ch, pr, g, v)"
      "issued_possession_shown (pc_rel e) p ch pr g v s1" by blast
    moreover have "cs @ [c] = cs @ c # []" "snd (fold (dialogue e) cs ([], s0)) = s1" using run by simp_all
    ultimately show ?thesis by metis
  qed
qed simp

text \<open>
  C16: in any dialogue, whose commands follow each other in any order and get any answers, a device becomes a
  saved device at a command only for one of three causes. It sent an acknowledgement, while it was pending and not
  blocked, that proves it holds the grant this device issued. Or it acknowledged this device's own acknowledgement,
  which this device sent only because the device had, in its answer to a consent earlier in the dialogue,
  proved that it holds the grant this device issued, for the challenge of that consent. Or it answered this
  device's request or consent by saying that it has the relationship saved already. A proof names the issued grant and
  its MAC is the one under the secret kept in custody, for the row's generation, which was never revoked. No other
  operation, message or reconciliation saves a device, whatever fails.
\<close>

theorem saved_only_with_cause:
  fixes s0 :: "'z pairing_scheme"
  assumes "fold (dialogue e) cs ([], s0) = (dues, s)"
    and "saved_peer p (snd (dialogue e c (dues, s)))" and "\<not> saved_peer p s"
  shows "said_saved p c
    \<or> (\<exists>d ack ch. c = PeerMessage d p (PairingAckMessage ack) \<and> p \<notin> fst ` set (blocked_endpoints s) \<and> pending_peer p s \<and>
         challenge_decode (re_ext (pc_rel e)) (pk_challenge ack) = Inr ch \<and>
         issued_possession_shown (pc_rel e) p ch (pk_possession_proof ack) (pk_generation ack) (pk_protocol_version ack) s)
    \<or> took_ack p c \<and> (\<exists>cs1 c1 cs2 ch pr g v. cs = cs1 @ c1 # cs2 \<and> consent_proof c1 = Some (p, ch, pr, g, v) \<and>
         issued_possession_shown (pc_rel e) p ch pr g v (snd (fold (dialogue e) cs1 ([], s0))))"
proof -
  have ran: "saved_peer p (perform_pair e c s)" "\<forall>d. due_of c = Some d \<longrightarrow> d \<in> set dues"
    using assms(2,3) by (auto split: option.splits if_splits)
  have "DueMergeAck p \<in> set dues \<or> DueRespondAck p \<in> set dues" if "took_ack p c"
    using ran(2) that by (cases c) (auto simp: took_ack_def)
  then have "took_ack p c \<Longrightarrow> \<exists>cs1 c1 cs2 ch pr g v. cs = cs1 @ c1 # cs2 \<and> consent_proof c1 = Some (p, ch, pr, g, v) \<and>
      issued_possession_shown (pc_rel e) p ch pr g v (snd (fold (dialogue e) cs1 ([], s0)))"
    by (rule due_ack_was_proved [OF assms(1)])
  with saved_step_cause [OF ran(1) assms(3)] show ?thesis by argo
qed

text \<open>
  C23: whatever operations, messages and answers follow each other and whatever fails in
  them, the tables keep their form: one relationship per device, each of them pending or saved,
  with the session that qualified it and with each grant's handle and id together; one tombstone
  per revoked generation; one eligibility per session and per secret, of the current protocol and
  with exactly the fixed lifetime; one entry per blocked device.
\<close>

theorem rows_stay_well_formed:
  assumes "well_formed s"
  shows "well_formed (fold (perform_pair e) cs s)"
  using wr.perform_pairs_step [of s e cs] assms by (simp add: keeps_wf_def)

text \<open>
  C22: a message on the relationship protocol reaches only the relationship of the device
  that sent it: the relationships and revocations of every other device and all tables of
  transfers are the same afterwards. No revocation is forgotten, not even the sender's, and no session
  gets an eligibility. (A message may drop eligibilities that have expired, also those of other devices.)
\<close>

theorem messages_reach_only_their_sender:
  assumes "handle_relationship_message e d p m s = (r, t)"
  shows "(\<forall>q. q \<noteq> p \<longrightarrow> find_by dr_remote_endpoint_id q (device_relationships t) =
      find_by dr_remote_endpoint_id q (device_relationships s) \<and>
      (\<forall>g. is_tombstoned q g t \<longleftrightarrow> is_tombstoned q g s)) \<and>
    (\<forall>g. is_tombstoned p g s \<longrightarrow> is_tombstoned p g t) \<and> same_tables s t \<and>
    el_session_id ` set (pairing_eligibilities t) \<subseteq> el_session_id ` set (pairing_eligibilities s)"
proof -
  have "stays_gone ss s t" for ss by (rule stableD [OF sx.stable_message assms]) simp
  then have "el_session_id ` set (pairing_eligibilities t) \<subseteq> el_session_id ` set (pairing_eligibilities s)"
    by (auto simp: stays_gone_def)
  moreover have "others_untouched p s t" by (rule stableD [OF po.stable_message assms]) simp
  moreover have "revoked_kept s t" by (rule stableD [OF pr.stable_message assms]) simp
  moreover have "same_tables s t" by (rule stableD [OF pt.stable_message assms]) simp
  ultimately show ?thesis by (simp add: others_untouched_def revoked_kept_def)
qed

text \<open>The answer that does not tell a blocked device from any other refusal.\<close>

definition refusal :: "RelationshipMessage \<Rightarrow> RelationshipResponse" where
  "refusal m = (case m of
      PairingRequestMessage _ \<Rightarrow> RequestAnswer RequestRejected None
    | PairingConsentMessage _ \<Rightarrow> ConsentAnswer ConsentRejected
    | PairingAckMessage _ \<Rightarrow> AckAnswer AckRejected
    | RevokeNoticeMessage _ _ \<Rightarrow> RevokeAnswer True)"

text \<open>
  C18: to every pairing message of a blocked device, and to every one while the list of
  blocked devices cannot be read, the answer is the one an unknown device gets, and nothing
  changes: no row, no secret, no event.
\<close>

theorem blocked_devices_get_nothing:
  assumes "p \<in> fst ` set (blocked_endpoints s) \<or> (\<exists>reason rest. db_faults s = Some reason # rest)"
    and "\<forall>g i. m \<noteq> RevokeNoticeMessage g i"
  shows "handle_relationship_message e d p m s = (Inr (refusal m), s\<lparr>db_faults := tl (db_faults s)\<rparr>)"
proof -
  have "is_blocked p s = (Inr True, tick_db s)"
    using assms(1) by (auto simp: is_blocked_def block_store_is_blocked_def select_def transact_def
        attempt_def ok_def Let_def split: list.split option.split)
  then show ?thesis using assms(2)
    by (cases m) (simp_all add: handle_relationship_message_def handle_pairing_request_def
        handle_pairing_consent_def handle_pairing_ack_def refusal_def bind_def ok_def)
qed

section \<open>Slots\<close>

text \<open>Reading and working on eligibilities leaves the relationships as they are.\<close>

definition rel_same :: "'z pairing_scheme \<Rightarrow> 'z pairing_scheme \<Rightarrow> bool" where
  "rel_same s t \<longleftrightarrow> device_relationships t = device_relationships s \<and>
     generation_tombstones t = generation_tombstones s"

interpretation rs: eligibility_preorder rel_same
proof
  fix s t u :: "'z pairing_scheme" and fs l P
  show "rel_same s s" by (simp add: rel_same_def)
  show "rel_same s t \<Longrightarrow> rel_same t u \<Longrightarrow> rel_same s u" by (simp add: rel_same_def)
  show "rel_same s (s\<lparr>db_faults := fs\<rparr>)" by (simp add: rel_same_def)
  show "custody_frame s t \<Longrightarrow> rel_same s t" by (cases s; cases t) (simp add: custody_frame_def rel_same_def)
  show "rel_same s (s\<lparr>emitted := l\<rparr>)" by (simp add: rel_same_def)
  show "rel_same s (on_eligibilities (delete_where P) s)" by (simp add: rel_same_def)
qed

definition no_more_rows :: "'z pairing_scheme \<Rightarrow> 'z pairing_scheme \<Rightarrow> bool" where
  "no_more_rows s t \<longleftrightarrow> length (device_relationships t) \<le> length (device_relationships s)"

lemma no_more_same: "device_relationships t = device_relationships s \<Longrightarrow> no_more_rows s t"
  by (simp add: no_more_rows_def)

interpretation nm: db_state no_more_rows
proof
  fix s t u :: "'z pairing_scheme" and fs
  show "no_more_rows s s" by (simp add: no_more_rows_def)
  show "no_more_rows s t \<Longrightarrow> no_more_rows t u \<Longrightarrow> no_more_rows s u" by (simp add: no_more_rows_def)
  show "no_more_rows s (s\<lparr>db_faults := fs\<rparr>)" by (simp add: no_more_rows_def)
qed

lemma more_rel_update: "stable no_more_rows (rel_update P u)"
  unfolding rel_update_def
  by (rule nm.stable_transact) (auto simp: no_more_rows_def update_where_def)

lemma more_rel_writes:
  "stable no_more_rows (refresh_authenticated_peer p nm n)" "stable no_more_rows (rel_set_label n p l)"
  "stable no_more_rows (set_issued_grant n p h i)" "stable no_more_rows (set_held_grant n p h i)"
  "stable no_more_rows (set_acks n p a b)" "stable no_more_rows (rel_set_state n p st)"
  "stable no_more_rows (set_pending_generation n p sn g)" "stable no_more_rows (begin_grant_rotation n p g)"
  unfolding rel_write_defs
  by (intro nm.stable_bind nm.stable_next nm.stable_ok more_rel_update)+

lemma more_rel_exec:
  "stable no_more_rows (rel_delete p)" "stable no_more_rows (insert_tombstone n p r)"
  "stable no_more_rows (block_endpoint p n)" "stable no_more_rows (unblock_endpoint p)"
  unfolding rel_delete_def insert_tombstone_def block_endpoint_def unblock_endpoint_def Let_def
  by (rule nm.stable_exec, simp add: no_more_rows_def delete_where_def)+

lemma more_frame: "custody_frame s t \<Longrightarrow> no_more_rows s (t :: 'z pairing_scheme)"
  by (cases s; cases t) (simp add: custody_frame_def no_more_rows_def)

interpretation mk: keeping_preorder no_more_rows
  by unfold_locales (simp_all add: more_rel_writes more_rel_exec more_frame no_more_same)

interpretation ma: activation_preorder no_more_rows "\<lambda>_. True" "\<lambda>_. True"
  by unfold_locales (simp_all add: more_rel_writes no_more_same)

lemma rows_grow:
  assumes "well_formed s" "well_formed t" "others_untouched p s t"
  shows "length (device_relationships t) \<le> length (device_relationships s) + (if relation_of p s = None then 1 else 0)"
proof -
  let ?K = "\<lambda>s. dr_remote_endpoint_id ` set (device_relationships s)"
  have len: "length (device_relationships x) = card (?K x)" if "well_formed x" for x :: "'a pairing_scheme"
    using that by (metis distinct_card length_map list.set_map well_formed_def)
  have "?K t \<subseteq> insert p (?K s)"
  proof
    fix q assume "q \<in> ?K t"
    then show "q \<in> insert p (?K s)"
      using assms(3) by (metis find_by_None_iff insertCI others_untouched_def)
  qed
  then have "card (?K t) \<le> card (insert p (?K s))" by (rule card_mono [rotated]) simp
  also have "\<dots> \<le> card (?K s) + (if relation_of p s = None then 1 else 0)"
    by (simp add: find_by_None_iff card_insert_if)
  finally show ?thesis using len [OF assms(1)] len [OF assms(2)] by simp
qed

lemma can_create_full:
  assumes "relation_of p s = None"
    and "unat (re_max_saved_devices e) \<le> affected (\<lambda>r. dr_state r = Saved \<or> is_pending (dr_state r)) (device_relationships s)"
  shows "fst (can_create_new_relationship e p s) \<noteq> Inr True"
  using assms
  by (auto simp: can_create_new_relationship_def relationship_slots_used_def rel_find_row_def count_active_slots_def
      select_def transact_def bind_def ok_def Let_def split: list.splits option.splits)

lemma same_after: "stable rel_same m \<Longrightarrow> rel_same s (snd (m s))"
  by (simp add: stable_def)

definition full :: "rel_env \<Rightarrow> string \<Rightarrow> 'z pairing_scheme \<Rightarrow> bool" where
  "full e p s \<longleftrightarrow> relation_of p s = None \<and> unat (re_max_saved_devices e) \<le>
     affected (\<lambda>r. dr_state r = Saved \<or> is_pending (dr_state r)) (device_relationships s)"

lemma full_same: "rel_same s t \<Longrightarrow> full e p s \<Longrightarrow> full e p t"
  by (simp add: full_def rel_same_def)

lemma full_no_room: "full e p s \<Longrightarrow> can_create_new_relationship e p s = (Inr room, t) \<Longrightarrow> \<not> room"
  using can_create_full [of p s e] by (auto simp: full_def)

text \<open>Running \<open>m\<close> first keeps the rows, so what follows may assume that there is no room either.\<close>

lemma same_bind:
  assumes "stable rel_same m" and "full e p s"
    and "\<And>x t. m s = (Inr x, t) \<Longrightarrow> full e p t \<Longrightarrow> rel_same t (snd (f x t))"
  shows "rel_same s (snd (bind m f s))"
proof -
  obtain r t where m: "m s = (r, t)" by (cases "m s")
  have st: "rel_same s t" by (rule stableD [OF assms(1) m])
  show ?thesis
  proof (cases r)
    case (Inl err)
    with m st show ?thesis by (simp add: bind_def)
  next
    case (Inr x)
    from assms(3) [OF m [unfolded Inr] full_same [OF st assms(2)]] st m Inr show ?thesis
      by (simp add: bind_def) (rule rs.trans)
  qed
qed

lemma same_attempt:
  assumes "stable rel_same m" and "full e p s"
    and "\<And>r t. m s = (r, t) \<Longrightarrow> full e p t \<Longrightarrow> rel_same t (snd (f r t))"
  shows "rel_same s (snd (attempt m f s))"
proof -
  obtain r t where m: "m s = (r, t)" by (cases "m s")
  have st: "rel_same s t" by (rule stableD [OF assms(1) m])
  from assms(3) [OF m full_same [OF st assms(2)]] st m show ?thesis
    by (simp add: attempt_def) (rule rs.trans)
qed

lemma same_ok: "rel_same s (snd (ok x s))"
  by (simp add: ok_def rs.refl)

lemma same_if:
  "(b \<Longrightarrow> rel_same s (snd (m s))) \<Longrightarrow> (\<not> b \<Longrightarrow> rel_same s (snd (m' s))) \<Longrightarrow>
   rel_same s (snd ((if b then m else m') s))"
  by simp

lemma full_request_start:
  assumes "full (pc_rel e) p s"
  shows "rel_same s (snd (request_pairing_start e n1 n2 n p s))"
  unfolding request_pairing_start_def
  by (rule same_bind [OF rs.stable_is_blocked assms], rule same_if, rule same_ok,
      rule same_bind [OF rs.stable_rel_reads(6)], assumption, rule same_if, rule same_ok,
      rule same_bind [OF rs.stable_can_create], assumption, rule same_if, rule same_ok,
      drule (1) full_no_room, simp)

lemma full_accept_new:
  assumes "full (pc_rel e) p s"
  shows "rel_same s (snd (accept_new_request e n1 n2 n p rq s))"
proof (cases "new_material (pq_capability rq)")
  case (Inr c)
  have room: "rel_same t (snd ((case r of
       Inr (Some q) \<Rightarrow> attempt (can_create_new_relationship (pc_rel e) p) (\<lambda>room.
              if room \<noteq> Inr True then ok RequestRejected else rest q)
     | _ \<Rightarrow> ok RequestRejected) t))" if full: "full (pc_rel e) p t" for r t rest
  proof -
    have "rel_same t (snd (attempt (can_create_new_relationship (pc_rel e) p) (\<lambda>room.
              if room \<noteq> Inr True then ok RequestRejected else rest q) t))" for q
      by (rule same_attempt [OF rs.stable_can_create full], rule same_if, rule same_ok)
        (use full_no_room [OF full] in auto)
    then show ?thesis by (auto simp: same_ok split: sum.split option.split)
  qed
  show ?thesis unfolding accept_new_request_def Inr sum.case
    by (rule same_if, rule same_ok, rule same_attempt [OF rs.stable_validate assms], rule room, assumption)
qed (simp add: accept_new_request_def same_ok)

lemma full_handle_request:
  assumes "full (pc_rel e) p s"
  shows "rel_same s (snd (handle_pairing_request e n1 n2 n p rq s))"
proof -
  have fresh: "rel_same t (snd (bind (accept_new_request e n1 n2 n p rq) (\<lambda>r. ok (r, None)) t))"
    if "full (pc_rel e) p t" for t
    using full_accept_new [OF that, of n1 n2 n rq] by (auto simp: bind_def ok_def split: prod.split sum.split)
  have none: "r = Inr None \<or> (\<exists>err. r = Inl err)"
    if "rel_find_row p t = (r, t')" "full (pc_rel e) p t'" for r t t'
  proof (cases r)
    case (Inr found)
    with that rel_find_rowD [of p t found t'] show ?thesis by (auto simp: full_def)
  qed simp
  show ?thesis
    unfolding handle_pairing_request_def Let_def
    by (rule same_bind [OF rs.stable_is_blocked assms], rule same_if, rule same_ok, rule same_if, rule same_ok,
        rule same_attempt [OF rs.stable_rel_reads(6)], assumption,
        drule (1) none, elim disjE exE; simp add: fresh)
qed

definition slots :: "rel_env \<Rightarrow> nat" where
  "slots e = unat (re_max_saved_devices e)"

lemma all_slots:
  "well_formed s \<Longrightarrow> affected (\<lambda>r. dr_state r = Saved \<or> is_pending (dr_state r)) (device_relationships s) =
     length (device_relationships s)"
  unfolding affected_def by (rule arg_cong [of _ _ length]) (auto simp: well_formed_def relationship_ok_def filter_id_conv)

lemma request_command_slots:
  assumes "is_request c" and wf: "well_formed s" and room: "length (device_relationships s) \<le> slots (pc_rel e)"
  shows "length (device_relationships (perform_pair e c s)) \<le> slots (pc_rel e)"
proof -
  obtain p where m: "others_untouched p s (perform_pair e c s)"
    "full (pc_rel e) p s \<longrightarrow> rel_same s (perform_pair e c s)"
  proof (cases c)
    case (RequestStart n1 n2 n p)
    then show thesis
      by (intro that [of p]) (simp_all add: others_step po.stable_request_start full_request_start)
  next
    case (PeerMessage d p m)
    then obtain rq where "m = PairingRequestMessage rq" using assms(1)
      by (cases m) (simp_all add: is_request_def)
    then have "perform_pair e c s = snd (handle_pairing_request e (dw_now1 d) (dw_now2 d) (dw_now d) p rq s)"
      using PeerMessage by (auto simp: handle_relationship_message_def bind_def ok_def split: prod.split sum.split)
    then show thesis
      by (intro that [of p]) (simp_all add: others_step po.stable_handle_request full_handle_request)
  qed (use assms(1) in \<open>simp_all add: is_request_def\<close>)
  show ?thesis
  proof (cases "full (pc_rel e) p s")
    case True
    with m(2) room show ?thesis by (simp add: rel_same_def)
  next
    case False
    have "well_formed (perform_pair e c s)" using wr.perform_pair_step [of s e c] wf by (simp add: keeps_wf_def)
    then have "length (device_relationships (perform_pair e c s)) \<le>
        length (device_relationships s) + (if relation_of p s = None then 1 else 0)"
      by (rule rows_grow [OF wf _ m(1)])
    with False room all_slots [OF wf] show ?thesis by (auto simp: full_def slots_def split: if_splits)
  qed
qed

text \<open>
  When calls run one after the other, saved and pending relationships together never exceed the configured number of
  saved devices. The code takes a lock per peer, so calls for two peers can both pass the check before either writes its row.
\<close>

lemma relationships_fit_without_overlap:
  assumes "well_formed s" and "length (device_relationships s) \<le> slots (pc_rel e)"
  shows "length (device_relationships (fold (perform_pair e) cs s)) \<le> slots (pc_rel e)"
  using assms
proof (induction cs arbitrary: s)
  case (Cons c cs)
  have "no_more_rows s (perform_pair e c s)" if "\<not> is_request c"
  proof (cases "is_activation c")
    case True
    then show ?thesis by (cases c) (simp_all add: is_activation_def mk.after ma.stable_activate)
  qed (rule mk.perform_pair_keeping, assumption, rule that)
  then have "length (device_relationships (perform_pair e c s)) \<le> slots (pc_rel e)"
    using request_command_slots [OF _ Cons.prems] Cons.prems(2) by (cases "is_request c") (auto simp: no_more_rows_def)
  moreover have "well_formed (perform_pair e c s)"
    using wr.perform_pair_step [of s e c] Cons.prems(1) by (simp add: keeps_wf_def)
  ultimately show ?case using Cons.IH by simp
qed simp

section \<open>Ending a relationship\<close>

lemma for_each_deletes:
  "for_each xs (delete_entry e n) s = (Inr u, t) \<Longrightarrow>
   (\<forall>q \<in> set xs. el_session_id q \<notin> el_session_id ` set (pairing_eligibilities t))"
proof (induction xs arbitrary: s)
  case (Cons x xs)
  then obtain s1 where x: "delete_entry e n x s = (Inr (), s1)"
    and xs: "for_each xs (delete_entry e n) s1 = (Inr u, t)" by (auto dest!: next_InrD)
  have "stays_gone (el_session_id x) s1 t"
    by (rule stableD [OF sg.stable_for_each xs]) (rule sx.stable_delete_entry)
  with delete_entryD [OF x] Cons.IH [OF xs] show ?case by (simp add: stays_gone_def)
qed simp

lemma remove_for_peerD:
  assumes "remove_for_peer e n p s = (Inr u, t)"
  shows "\<forall>q \<in> set (pairing_eligibilities t). el_peer_endpoint_id q \<noteq> p"
proof
  fix q assume q: "q \<in> set (pairing_eligibilities t)"
  from assms have del: "for_each (filter (\<lambda>q. el_peer_endpoint_id q = p) (pairing_eligibilities s)) (delete_entry e n)
      (tick_db s) = (Inr u, t)"
    by (auto simp: remove_for_peer_def list_for_peer_def dest!: bind_InrD select_InrD)
  have "only_deletes (tick_db s) t" by (rule stableD [OF od.stable_for_each del]) (rule deletes_entry)
  with q have "q \<in> set (pairing_eligibilities s)" by (auto simp: only_deletes_def)
  moreover have "q \<notin> set (filter (\<lambda>q. el_peer_endpoint_id q = p) (pairing_eligibilities s))"
    using for_each_deletes [OF del] q by blast
  ultimately show "el_peer_endpoint_id q \<noteq> p" by simp
qed

lemma delete_relationshipD:
  "delete_relationship e n p s = (Inr u, t) \<Longrightarrow> relation_of p t = None"
  by (auto simp: delete_relationship_def rel_delete_def exec_def find_by_None_iff peer_is_def
      dest!: next_InrD transact_InrD)

lemma end_relationshipD:
  assumes "end_relationship e n p r s = (Inr u, t)"
  shows "relation_of p t = None \<and> is_tombstoned p (dr_generation r) t"
proof -
  from assms obtain x s1 where tomb: "insert_tombstone n p r s = (Inr x, s1)"
    and del: "delete_relationship (pc_rel e) n p s1 = (Inr u, t)"
    unfolding end_relationship_def by (auto dest!: next_InrD)
  have "revoked_kept s1 t" by (rule stableD [OF revoked_delete del])
  with insert_tombstoneD [OF tomb] delete_relationshipD [OF del] show ?thesis by (simp add: revoked_kept_def)
qed

lemma removeD:
  assumes "remove_for_peer e n p s = (Inr u, t)"
  shows "rel_same s t" and "\<forall>q \<in> set (pairing_eligibilities t). el_peer_endpoint_id q \<noteq> p"
  by (rule stableD [OF rs.stable_remove_for_peer assms], rule remove_for_peerD [OF assms])

lemma ended:
  assumes "forget e n p s = (Inr out, t) \<or> revoke_for_block e n p s = (Inr out, t)"
  shows "relation_of p t = None" and "\<forall>q \<in> set (pairing_eligibilities t). el_peer_endpoint_id q \<noteq> p"
    and "relation_of p s = Some r \<Longrightarrow> is_tombstoned p (dr_generation r) t"
    and "out = outcome_of (relation_of p s)"
proof -
  let ?close = "case relation_of p s of Some row \<Rightarrow> end_relationship e n p row | None \<Rightarrow> ok ()"
  obtain s1 s2 x y where e: "?close (tick_db s) = (Inr x, s1)" and rm: "remove_for_peer e n p s1 = (Inr y, s2)"
    and t: "rel_same s2 t" "pairing_eligibilities t = pairing_eligibilities s2" and out: "out = outcome_of (relation_of p s)"
    using assms unfolding forget_def revoke_for_block_def
    by (auto simp: emit_changed_def emit_def modify_def rel_same_def dest!: bind_InrD next_InrD rel_find_rowD
        split: option.splits)
  note d = removeD [OF rm]
  have gone: "relation_of p s1 = None" using e
    by (cases "relation_of p s") (auto dest: end_relationshipD)
  have tomb: "relation_of p s = Some r \<Longrightarrow> is_tombstoned p (dr_generation r) s1"
    using e by (auto dest: end_relationshipD)
  show "relation_of p t = None" "\<forall>q \<in> set (pairing_eligibilities t). el_peer_endpoint_id q \<noteq> p"
    "relation_of p s = Some r \<Longrightarrow> is_tombstoned p (dr_generation r) t" "out = outcome_of (relation_of p s)"
    using gone tomb d t out by (auto simp: rel_same_def is_tombstoned_def)
qed

text \<open>
  C19: forgetting or blocking a device ends its relationship for good. When it succeeds there
  is no relationship and no eligibility left for the device, the caller learns the generation that
  ended, and no proof for that generation is accepted ever again, neither from a saved device nor to
  complete a pairing, whatever operations and messages follow and whatever fails in them.
\<close>

theorem ended_relationship_is_over:
  assumes "forget e n p s = (Inr out, t) \<or> revoke_for_block e n p s = (Inr out, t)"
  shows "find_by dr_remote_endpoint_id p (device_relationships t) = None \<and>
    (\<forall>q \<in> set (pairing_eligibilities t). el_peer_endpoint_id q \<noteq> p) \<and>
    out = outcome_of (find_by dr_remote_endpoint_id p (device_relationships s)) \<and>
    (\<forall>g. fo_generation out = Some g \<longrightarrow> (\<forall>cs ch pr v.
       fst (verify_saved_possession (pc_rel e) p ch pr g v (fold (perform_pair e) cs t)) \<noteq> Inr () \<and>
       fst (verify_issued_possession (pc_rel e) p ch pr g v (fold (perform_pair e) cs t)) \<noteq> Inr ()))"
proof (intro conjI allI impI)
  note d = ended [OF assms]
  fix g cs ch pr v
  let ?u = "fold (perform_pair e) cs t"
  assume "fo_generation out = Some g"
  then obtain r where "relation_of p s = Some r" "dr_generation r = g"
    using d(4) by (auto simp: outcome_of_def)
  with d(3) have "is_tombstoned p g t" by blast
  with rr.perform_pairs_step [of t e cs] have tomb: "is_tombstoned p g ?u" by (simp add: revoked_kept_def)
  show "fst (verify_saved_possession (pc_rel e) p ch pr g v ?u) \<noteq> Inr ()"
    using tomb verify_savedD [of "pc_rel e" p ch pr g v ?u "()"]
    by (metis possession_shown_def prod.collapse)
  show "fst (verify_issued_possession (pc_rel e) p ch pr g v ?u) \<noteq> Inr ()"
    using tomb verify_issuedD(1) [of "pc_rel e" p ch pr g v ?u "()"] by (metis prod.collapse)
qed (rule ended(1,2,4) [OF assms])+

section \<open>Proofs for a pending generation\<close>

lemma verify_issued_complete:
  assumes x: "ext_ok (re_ext e)" and "re_custody e" and "db_faults s = []"
    and row: "relation_of p s = Some r" "is_pending (dr_state r) \<or> dr_state r = Saved" "dr_generation r = g"
    and tomb: "\<not> is_tombstoned p g s"
    and issued: "dr_issued_grant_id r = Some (hex_encode (re_ext e) gid)" "dr_issued_grant_handle r = Some h"
      "load (re_public_key e) h s = (Inr secret, s)"
    and len: "length gid = 16" "length secret = 32"
    and made: "wp_grant_id pr = hex_encode (re_ext e) gid"
      "wp_mac pr = hex_encode (re_ext e) (relationship_mac (re_ext e) secret c (re_local_endpoint_id e) p g v)"
  shows "verify_issued_possession e p c pr g v s = (Inr (), s)"
proof -
  have none: "List.find (tombstone_of p g) (generation_tombstones s) = None"
    using tomb by (auto simp: is_tombstoned_def find_None_iff)
  have mac: "length (relationship_mac (re_ext e) secret c (re_local_endpoint_id e) p g v) = 32"
    using x by (simp add: relationship_mac_def ext_ok_def)
  have live: "dr_state r \<noteq> Revoked" "dr_state r \<noteq> Blocked" using row(2) by (auto simp: is_pending_def)
  show ?thesis
    using assms(1-3) row(1,3) live none issued len mac made
    by (simp add: rel_find_row_def select_def transact_no_fault
        verify_issued_possession_def reject_replayed_generation_def find_tombstone_def
        require_custody_def secret_from_material_def grant_id_decode_def decode_fixed_def
        verify_relationship_grant_def proc_defs)
qed

section \<open>Witnesses\<close>

definition ref_asked :: pairing where
  "ref_asked = (ref_pairing [(ref_relationship ''alice'' 1)\<lparr>dr_state := PendingOutgoing, dr_session_id := Some ''s1'',
       dr_last_authenticated_at := Some 0, dr_issued_grant_handle := Some ref_handle,
       dr_issued_grant_id := Some ref_grant_id\<rparr>] [] [])\<lparr>
     protected_secret_refs := [\<lparr>sr_handle = ref_handle, sr_kind = RelationshipGrant, sr_state = Active,
       sr_expected_identity = None, sr_created_at = 0, sr_updated_at = 0\<rparr>],
     vs_values := [(ref_handle, ref_secret)]\<rparr>"

definition ref_draws :: draws where
  "ref_draws = \<lparr>dw_now1 = 1, dw_now2 = 1, dw_now = 1, dw_held_uuid = ''h'', dw_issued_uuid = ''i'',
     dw_secret = ref_secret, dw_grant_id = ref_grant_id, dw_challenge = ref_challenge\<rparr>"

definition ref_ack :: pairing_ack where
  "ref_ack = \<lparr>pk_possession_proof = ref_proof, pk_challenge = ref_challenge, pk_generation = 1, pk_protocol_version = 2\<rparr>"

lemma ref_asked_load: "load ep ref_handle ref_asked = (Inr ref_secret, ref_asked)"
  by (simp add: load_def find_secret_def find_by_def ref_asked_def ref_pairing_def ref_call_defs)

lemma ref_asked_row: "relation_of ''alice'' ref_asked = Some ((ref_relationship ''alice'' 1)\<lparr>
    dr_state := PendingOutgoing, dr_session_id := Some ''s1'', dr_last_authenticated_at := Some 0,
    dr_issued_grant_handle := Some ref_handle, dr_issued_grant_id := Some ref_grant_id\<rparr>)"
  by (simp add: ref_asked_def ref_pairing_def ref_relationship_def find_by_def)

lemma ref_env_facts:
  "pc_rel (ref_pair_env p) = ref_rel_env p" "re_ext (ref_rel_env p) = ref_ext" "re_custody (ref_rel_env p)"
  "re_local_endpoint_id (ref_rel_env p) = p" "hex_decode ref_ext = Some" "hex_encode ref_ext = (\<lambda>b. b)"
  by (simp_all add: ref_pair_env_def ref_rel_env_def ref_ext_def)

lemma ref_asked_verify:
  "verify_issued_possession (ref_rel_env ''bob'') ''alice'' ref_challenge ref_proof 1 2 ref_asked = (Inr (), ref_asked)"
proof (rule verify_issued_complete [OF _ _ _ ref_asked_row])
  show "load (re_public_key (ref_rel_env ''bob'')) ref_handle ref_asked = (Inr ref_secret, ref_asked)"
    by (rule ref_asked_load)
  show "length ref_grant_id = 16" "length ref_secret = 32" by (simp_all add: ref_grant_id_def ref_secret_def)
  show "db_faults ref_asked = []" "\<not> is_tombstoned ''alice'' 1 ref_asked"
    by (simp_all add: ref_asked_def ref_pairing_def is_tombstoned_def)
qed (simp_all add: ref_env_facts ref_ext_ok is_pending_def ref_relationship_def ref_proof_def)

lemma ref_ack_saves:
  "saved_peer ''alice'' (perform_pair (ref_pair_env ''bob'') (PeerMessage ref_draws ''alice'' (PairingAckMessage ref_ack)) ref_asked)"
  "\<not> saved_peer ''alice'' ref_asked"
proof -
  have find: "rel_find_row ''alice'' ref_asked = (Inr (relation_of ''alice'' ref_asked), ref_asked)"
    "is_blocked ''alice'' ref_asked = (Inr False, ref_asked)"
    by (simp_all add: rel_find_row_def is_blocked_def block_store_is_blocked_def select_def transact_no_fault
        attempt_def ok_def ref_asked_def ref_pairing_def)
  have ack: "challenge_decode ref_ext ref_challenge = Inr ref_challenge"
    by (simp add: challenge_decode_def decode_fixed_def ref_env_facts ref_challenge_def)
  obtain t where act: "activate_acknowledged 1 ''alice'' ref_asked = (Inr (), t)" "saved_peer ''alice'' t"
    by (simp add: activate_acknowledged_def activate_saved_def set_acks_def rel_set_state_def rel_update_def
        transact_def emit_changed_def emit_def proc_defs update_where_def peer_is_def saved_peer_def find_by_def
        ref_asked_def ref_pairing_def ref_relationship_def Let_def)
  show "\<not> saved_peer ''alice'' ref_asked" by (simp add: saved_peer_def ref_asked_row)
  show "saved_peer ''alice'' (perform_pair (ref_pair_env ''bob'') (PeerMessage ref_draws ''alice'' (PairingAckMessage ref_ack)) ref_asked)"
    using act by (simp add: handle_relationship_message_def handle_pairing_ack_def bind_def attempt_def next_do_def ok_def
        find ref_asked_row is_pending_def ref_ack_def ref_draws_def ref_env_facts ack ref_asked_verify)
qed

theorem saved_only_with_cause_witness:
  "\<exists>ch. challenge_decode ref_ext (pk_challenge ref_ack) = Inr ch \<and>
     issued_possession_shown (ref_rel_env ''bob'') ''alice'' ch (pk_possession_proof ref_ack) 1 2 ref_asked"
  using saved_only_with_cause [of "ref_pair_env ''bob''" "[]" ref_asked "[]" ref_asked "''alice''"
      "PeerMessage ref_draws ''alice'' (PairingAckMessage ref_ack)"] ref_ack_saves
  by (auto simp: said_saved_def took_ack_def ref_env_facts ref_ack_def)

theorem rows_stay_well_formed_witness:
  "well_formed (fold (perform_pair (ref_pair_env ''bob''))
     [Activate 0 ''u'' ''alice'' None ''s1'' ''token'', RequestStart 1 1 1 ''alice''] (ref_pairing [] [] []))"
  by (rule rows_stay_well_formed) (simp add: well_formed_def ref_pairing_def)

text \<open>With one slot, both checks pass, and both rows are written.\<close>

lemma overlapping_calls_exceed_the_slots:
  fixes e :: rel_env
  defines "e \<equiv> (ref_rel_env ''bob'')\<lparr>re_max_saved_devices := 1\<rparr>" and "s \<equiv> ref_pairing [] [] []"
    and "row \<equiv> (\<lambda>p. pending_row p PendingIncoming 1 2 ''s1'' None 0 0 0)"
  shows "fst (can_create_new_relationship e ''alice'' s) = Inr True" "fst (can_create_new_relationship e ''carol'' s) = Inr True"
    "length (device_relationships (snd (upsert (row ''carol'') (snd (upsert (row ''alice'') s))))) = 2" "slots e = 1"
  by (simp_all add: assms slots_def can_create_new_relationship_def rel_find_row_def relationship_slots_used_def
      count_active_slots_def upsert_def exec_def select_def transact_def bind_def ok_def find_by_def ref_pairing_def
      pending_row_def peer_is_def affected_def)

theorem messages_reach_only_their_sender_witness:
  "relation_of ''alice'' (snd (handle_relationship_message (ref_pair_env ''bob'') ref_draws ''mallory''
     (RevokeNoticeMessage 1 None) ref_asked)) = relation_of ''alice'' ref_asked"
  using messages_reach_only_their_sender [of "ref_pair_env ''bob''" ref_draws "''mallory''" "RevokeNoticeMessage 1 None" ref_asked]
  by (cases "handle_relationship_message (ref_pair_env ''bob'') ref_draws ''mallory'' (RevokeNoticeMessage 1 None) ref_asked")
    simp

theorem blocked_devices_get_nothing_witness:
  "handle_relationship_message (ref_pair_env ''bob'') ref_draws ''mallory'' (PairingAckMessage ref_ack)
     (ref_pairing [] [] [(''mallory'', 5)]) = (Inr (AckAnswer AckRejected), ref_pairing [] [] [(''mallory'', 5)])"
  using blocked_devices_get_nothing [of "''mallory''" "ref_pairing [] [] [(''mallory'', 5)]" "PairingAckMessage ref_ack"
      "ref_pair_env ''bob''" ref_draws]
  by (simp add: ref_pairing_def refusal_def)

lemma ref_forget:
  obtains out t where "forget (ref_pair_env ''bob'') 7 ''alice'' ref_asked = (Inr out, t)" and "fo_generation out = Some 1"
proof -
  have row: "rel_find_row ''alice'' s = (Inr (relation_of ''alice'' s), s)" if "db_faults s = []" for s :: pairing
    using that by (simp add: rel_find_row_def select_def transact_no_fault)
  have "\<exists>out t. forget (ref_pair_env ''bob'') 7 ''alice'' ref_asked = (Inr out, t) \<and> fo_generation out = Some 1"
    by (simp add: forget_def end_relationship_def insert_tombstone_def exec_def delete_relationship_def row
        clear_grant_secrets_def grant_handles_def List.map_filter_def remove_quietly_def remove_secret_def
        find_secret_def disable_def delete_if_present_def store_delete_raw_def vs_delete_def rel_delete_def
        remove_for_peer_def list_for_peer_def emit_changed_def emit_def outcome_of_def find_by_def
        ref_env_facts ref_asked_def ref_pairing_def ref_relationship_def ref_call_defs)
  then show thesis using that by blast
qed

theorem ended_relationship_is_over_witness:
  "\<exists>out t. forget (ref_pair_env ''bob'') 7 ''alice'' ref_asked = (Inr out, t) \<and> relation_of ''alice'' t = None \<and>
     fst (verify_issued_possession (ref_rel_env ''bob'') ''alice'' ref_challenge ref_proof 1 2 t) \<noteq> Inr ()"
proof -
  obtain out t where out: "forget (ref_pair_env ''bob'') 7 ''alice'' ref_asked = (Inr out, t)" "fo_generation out = Some 1"
    by (rule ref_forget)
  have over: "relation_of ''alice'' t = None" "\<forall>g. fo_generation out = Some g \<longrightarrow> (\<forall>cs ch pr v.
       fst (verify_saved_possession (pc_rel (ref_pair_env ''bob'')) ''alice'' ch pr g v
         (fold (perform_pair (ref_pair_env ''bob'')) cs t)) \<noteq> Inr () \<and>
       fst (verify_issued_possession (pc_rel (ref_pair_env ''bob'')) ''alice'' ch pr g v
         (fold (perform_pair (ref_pair_env ''bob'')) cs t)) \<noteq> Inr ())"
    using ended_relationship_is_over [OF disjI1, OF out(1)] by blast+
  have "fst (verify_issued_possession (ref_rel_env ''bob'') ''alice'' ref_challenge ref_proof 1 2
      (fold (perform_pair (ref_pair_env ''bob'')) [] t)) \<noteq> Inr ()"
    using over(2) out(2) unfolding ref_env_facts by blast
  with out(1) over(1) show ?thesis by (intro exI [of _ out] exI [of _ t]) simp
qed

end
