(* ===== verification/Pairing_Refinement.thy ===== *)
theory Pairing_Refinement
  imports Pairing_Properties
begin

text \<open>
  The abstract life of the relationship with one device, and the proof that the services refine it:
  every command moves every device along the abstract steps. The abstraction forgets grants, secrets,
  names, sessions and clocks and keeps the phase, the generation and the revoked generations.
\<close>

section \<open>The abstract machine\<close>

datatype life = Apart | Asked u64 | Invited u64 | Kept u64

definition generations :: "life \<Rightarrow> u64 set" where
  "generations l = (case l of Apart \<Rightarrow> {} | Asked g \<Rightarrow> {g} | Invited g \<Rightarrow> {g} | Kept g \<Rightarrow> {g})"

type_synonym life_state = "u64 set \<times> life"

text \<open>A new generation lies above everything revoked and above the current one.\<close>

definition fresh_generation :: "life_state \<Rightarrow> u64 \<Rightarrow> bool" where
  "fresh_generation x g \<longleftrightarrow> fits_i64 g \<and> (\<forall>h \<in> fst x \<union> generations (snd x). sint h < sint g)"

definition is_kept :: "life \<Rightarrow> bool" where
  "is_kept l = (case l of Kept g \<Rightarrow> True | _ \<Rightarrow> False)"

datatype life_event = Ask | Invite | Adopt | Raise | Save | Revoke | Rotate | Leave

inductive life_step :: "life_event \<Rightarrow> life_state \<Rightarrow> life_state \<Rightarrow> bool" where
  ask: "\<lbrakk>\<not> is_kept l; fresh_generation (R, l) g\<rbrakk> \<Longrightarrow> life_step Ask (R, l) (R, Asked g)"
| invite: "\<lbrakk>\<not> is_kept l; fresh_generation (R, l) g\<rbrakk> \<Longrightarrow> life_step Invite (R, l) (R, Invited g)"
| adopt_asked: "fits_i64 h \<Longrightarrow> life_step Adopt (R, Asked g) (R, Asked h)"
| adopt_invited: "fits_i64 h \<Longrightarrow> life_step Adopt (R, Invited g) (R, Invited h)"
| raise_asked: "g \<le> h \<Longrightarrow> life_step Raise (R, Asked g) (R, Asked h)"
| raise_invited: "g \<le> h \<Longrightarrow> life_step Raise (R, Invited g) (R, Invited h)"
| save_asked: "life_step Save (R, Asked g) (R, Kept g)"
| save_invited: "life_step Save (R, Invited g) (R, Kept g)"
| revoke: "g \<in> generations l \<Longrightarrow> life_step Revoke (R, l) (insert g R, l)"
| rotate: "g \<in> R \<Longrightarrow> life_step Rotate (R, Kept g) (R, Kept (saturating_succ g))"
| leave: "life_step Leave (R, l) (R, Apart)"

text \<open>Any number of steps with the given events.\<close>

definition life_path :: "life_event set \<Rightarrow> life_state \<Rightarrow> life_state \<Rightarrow> bool" where
  "life_path E = (\<lambda>x y. \<exists>l \<in> E. life_step l x y)\<^sup>*\<^sup>*"

lemma path_refl [simp]: "life_path E x x"
  by (simp add: life_path_def)



section \<open>The abstraction\<close>

definition phase_of :: "relationship \<Rightarrow> life" where
  "phase_of r = (case dr_state r of
      PendingOutgoing \<Rightarrow> Asked (dr_generation r)
    | PendingIncoming \<Rightarrow> Invited (dr_generation r)
    | Saved \<Rightarrow> Kept (dr_generation r)
    | _ \<Rightarrow> Apart)"

definition life_of :: "string \<Rightarrow> 'z relations_scheme \<Rightarrow> life_state" where
  "life_of p s = ({g. is_tombstoned p g s},
     case find_by dr_remote_endpoint_id p (device_relationships s) of None \<Rightarrow> Apart | Some r \<Rightarrow> phase_of r)"

text \<open>\<open>L p\<close> are the events that may happen to the relationship with \<open>p\<close>.\<close>

definition follows :: "(string \<Rightarrow> life_event set) \<Rightarrow> 'z pairing_scheme \<Rightarrow> 'z pairing_scheme \<Rightarrow> bool" where
  "follows L s t \<longleftrightarrow> (well_formed s \<longrightarrow> well_formed t \<and> (\<forall>p. life_path (L p) (life_of p s) (life_of p t)))"






















section \<open>New relationships\<close>




















section \<open>The handler of requests\<close>





section \<open>Every command\<close>
















lemma follows_quietly: "follows L s (snd (m s)) \<Longrightarrow> follows L s (snd (quietly m s))"
  by (cases "m s") (simp add: quietly_def attempt_def ok_def)














section \<open>The events of a command\<close>









end
