(* ===== verification/File_Paths.thy ===== *)
theory File_Paths
  imports Ticket Pairing_Eligibility
begin

text \<open>
  File names that cross the network and the files behind them (\<^verbatim>\<open>filesystem.rs\<close>): the relative paths
  of a collection, the check that a received path stays below the chosen directory, percent decoding
  of file URLs, and the list of files of a share with its limits. Text is a string of bytes (UTF-8).
  \<open>components\<close> is \<^verbatim>\<open>Path::components\<close> of the standard library on Unix. Directory listings, file types
  and sizes are the parameter \<open>fs_env\<close>. An error is the message of \<^verbatim>\<open>anyhow::bail!\<close>.
\<close>

type_synonym message = string

section \<open>Text\<close>

definition bytes_of :: "string \<Rightarrow> nat list" where
  "bytes_of = map of_char"

text \<open>The well-formed UTF-8 sequences of \<^verbatim>\<open>str::from_utf8\<close>: no overlong forms, no surrogates.\<close>

definition continuation :: "nat \<Rightarrow> bool" where
  "continuation b \<longleftrightarrow> 0x80 \<le> b \<and> b \<le> 0xBF"

definition second_of_three :: "nat \<Rightarrow> nat \<Rightarrow> bool" where
  "second_of_three a b \<longleftrightarrow> (if a = 0xE0 then 0xA0 \<le> b \<and> b \<le> 0xBF
     else if a = 0xED then 0x80 \<le> b \<and> b \<le> 0x9F else continuation b)"

definition second_of_four :: "nat \<Rightarrow> nat \<Rightarrow> bool" where
  "second_of_four a b \<longleftrightarrow> (if a = 0xF0 then 0x90 \<le> b \<and> b \<le> 0xBF
     else if a = 0xF4 then 0x80 \<le> b \<and> b \<le> 0x8F else continuation b)"

fun utf8_bytes :: "nat list \<Rightarrow> bool" where
  "utf8_bytes [] = True"
| "utf8_bytes (a # s) =
     (if a < 0x80 then utf8_bytes s
      else if 0xC2 \<le> a \<and> a \<le> 0xDF then
        (case s of b # s' \<Rightarrow> continuation b \<and> utf8_bytes s' | _ \<Rightarrow> False)
      else if 0xE0 \<le> a \<and> a \<le> 0xEF then
        (case s of b # c # s' \<Rightarrow> second_of_three a b \<and> continuation c \<and> utf8_bytes s' | _ \<Rightarrow> False)
      else if 0xF0 \<le> a \<and> a \<le> 0xF4 then
        (case s of b # c # d # s' \<Rightarrow> second_of_four a b \<and> continuation c \<and> continuation d \<and> utf8_bytes s'
         | _ \<Rightarrow> False)
      else False)"

definition valid_utf8 :: "string \<Rightarrow> bool" where
  "valid_utf8 s \<longleftrightarrow> utf8_bytes (bytes_of s)"

definition non_empty :: "string \<Rightarrow> string option" where
  "non_empty s = (let t = trim s in if t = '''' then None else Some t)"

section \<open>Paths\<close>

datatype path_component = RootDir | CurDir | ParentDir | Normal string

fun split_at :: "char \<Rightarrow> string \<Rightarrow> string list" where
  "split_at c [] = [[]]"
| "split_at c (x # s) =
     (if x = c then [] # split_at c s
      else case split_at c s of p # ps \<Rightarrow> (x # p) # ps | [] \<Rightarrow> [[x]])"

definition component_of :: "string \<Rightarrow> path_component option" where
  "component_of p = (if p = '''' \<or> p = ''.'' then None else if p = ''..'' then Some ParentDir else Some (Normal p))"

text \<open>A leading \<open>.\<close> of a relative path is kept, other \<open>.\<close> and empty pieces are skipped.\<close>

definition components :: "string \<Rightarrow> path_component list" where
  "components path = (let ps = split_at (CHR ''/'') path in
     if path = '''' then []
     else if hd path = CHR ''/'' then RootDir # List.map_filter component_of ps
     else if hd ps = ''.'' then CurDir # List.map_filter component_of (tl ps)
     else List.map_filter component_of ps)"

definition file_name :: "string \<Rightarrow> string option" where
  "file_name path = (case rev (components path) of Normal n # _ \<Rightarrow> Some n | _ \<Rightarrow> None)"

definition join_path :: "string \<Rightarrow> string \<Rightarrow> string" where
  "join_path base path =
     (if path \<noteq> '''' \<and> hd path = CHR ''/'' then path
      else if base = '''' \<or> last base = CHR ''/'' then base @ path
      else base @ ''/'' @ path)"

fun join_parts :: "string list \<Rightarrow> string" where
  "join_parts [] = ''''"
| "join_parts [p] = p"
| "join_parts (p # ps) = p @ ''/'' @ join_parts ps"

text \<open>The closure of \<^verbatim>\<open>filter_map\<close>: the root adds a slash in front, a usable name is a part, anything else an error.\<close>

definition usable_part :: "string \<Rightarrow> bool" where
  "usable_part n \<longleftrightarrow> valid_utf8 n \<and> \<not> List.member n (CHR ''/'') \<and> \<not> List.member n (CHR 0x5C)"

fun collect_parts :: "bool \<Rightarrow> path_component list \<Rightarrow> message + string \<times> string list" where
  "collect_parts relative [] = Inr ('''', [])"
| "collect_parts relative (Normal n # cs) =
     (if \<not> valid_utf8 n then Inl ''invalid character in path''
      else if usable_part n
      then (case collect_parts relative cs of Inl e \<Rightarrow> Inl e | Inr (front, parts) \<Rightarrow> Inr (front, n # parts))
      else Inl ''invalid path component'')"
| "collect_parts relative (RootDir # cs) =
     (if relative then Inl ''invalid root path component''
      else case collect_parts relative cs of Inl e \<Rightarrow> Inl e | Inr (front, parts) \<Rightarrow> Inr (CHR ''/'' # front, parts))"
| "collect_parts relative (c # cs) = Inl ''invalid path component''"

definition path_to_string :: "string \<Rightarrow> bool \<Rightarrow> message + string" where
  "path_to_string path relative = (case collect_parts relative (components path) of
      Inl e \<Rightarrow> Inl e | Inr (front, parts) \<Rightarrow> Inr (front @ join_parts parts))"

definition validated_relative_string :: "string \<Rightarrow> message + string" where
  "validated_relative_string name = (case path_to_string name True of
      Inl e \<Rightarrow> Inl e
    | Inr v \<Rightarrow> if trim v = '''' then Inl ''relative path must not be empty'' else Inr v)"

definition safe_output_path :: "string \<Rightarrow> string \<Rightarrow> message + string" where
  "safe_output_path dir relative = (case path_to_string relative True of
      Inl e \<Rightarrow> Inl e | Inr _ \<Rightarrow> Inr (join_path dir relative))"

section \<open>File URLs\<close>

definition hex_value :: "char \<Rightarrow> nat option" where
  "hex_value c = (let b = of_char c in
     if 48 \<le> b \<and> b \<le> 57 then Some (b - 48)
     else if 65 \<le> b \<and> b \<le> 70 then Some (b - 55)
     else if 97 \<le> b \<and> b \<le> 102 then Some (b - 87) else None)"

text \<open>\<^verbatim>\<open>u8::from_str_radix(.., 16)\<close> of two characters; a leading plus sign is part of its grammar.\<close>

definition parse_hex_pair :: "char \<Rightarrow> char \<Rightarrow> nat option" where
  "parse_hex_pair a b =
     (if a = CHR ''+'' then hex_value b
      else case hex_value a of None \<Rightarrow> None
        | Some h \<Rightarrow> (case hex_value b of None \<Rightarrow> None | Some l \<Rightarrow> Some (16 * h + l)))"

fun percent_decode_bytes :: "string \<Rightarrow> message + string" where
  "percent_decode_bytes [] = Inr []"
| "percent_decode_bytes (c # s) =
     (if c = CHR ''%'' then (case s of
        a # b # s' \<Rightarrow> if \<not> valid_utf8 [a, b] then Inl ''invalid utf-8 sequence''
          else (case parse_hex_pair a b of
            None \<Rightarrow> Inl ''invalid percent escape in file URL''
          | Some v \<Rightarrow> map_sum id (\<lambda>r. char_of v # r) (percent_decode_bytes s'))
      | _ \<Rightarrow> Inl ''invalid percent escape in file URL'')
      else map_sum id (\<lambda>r. c # r) (percent_decode_bytes s))"

definition percent_decode_file_url_path :: "string \<Rightarrow> message + string" where
  "percent_decode_file_url_path v = (case percent_decode_bytes v of
      Inl e \<Rightarrow> Inl e
    | Inr bytes \<Rightarrow> if valid_utf8 bytes then Inr bytes else Inl ''invalid utf-8 sequence'')"

definition FILE_SCHEME :: string where
  "FILE_SCHEME = ''file://''"

definition platform_path :: "string \<Rightarrow> message + string" where
  "platform_path v =
     (if trim v = '''' then Inl ''path must not be empty''
      else if take (length FILE_SCHEME) v = FILE_SCHEME
      then percent_decode_file_url_path (drop (length FILE_SCHEME) v)
      else Inr v)"


section \<open>The files of a share\<close>

datatype SourceKind = PathKind | FileDescriptorKind | AndroidContentUri | IosSecurityScopedUrl

record share_source =
  ss_kind :: SourceKind
  ss_value :: string
  ss_display_name :: "string option"
  ss_is_directory :: bool

datatype import_source = ImportPath string | ImportDescriptor nat

record import_file =
  if_source :: import_source
  if_collection_name :: string

text \<open>
  What the operating system says: whether a path is a directory, the entries \<^verbatim>\<open>walkdir\<close> yields below a
  directory (relative path and whether it is a regular file), the length of a file, and the duplicate
  of a descriptor that refers to a regular file.
\<close>

record fs_env =
  fe_is_dir :: "string \<Rightarrow> bool"
  fe_walk :: "string \<Rightarrow> (message + bool \<times> string) list"
  fe_len :: "string \<Rightarrow> message + u64"
  fe_dup :: "nat \<Rightarrow> message + nat"

fun collect_dir_files :: "string \<Rightarrow> string \<Rightarrow> (message + bool \<times> string) list \<Rightarrow> message + import_file list" where
  "collect_dir_files root name [] = Inr []"
| "collect_dir_files root name (Inl e # es) = Inl e"
| "collect_dir_files root name (Inr (is_file, relative) # es) =
     (if \<not> is_file then collect_dir_files root name es
      else case path_to_string (join_path name relative) True of
        Inl e \<Rightarrow> Inl e
      | Inr cn \<Rightarrow> map_sum id (\<lambda>fs. \<lparr>if_source = ImportPath (join_path root relative), if_collection_name = cn\<rparr> # fs)
          (collect_dir_files root name es))"

fun digits_value :: "string \<Rightarrow> nat option" where
  "digits_value [] = Some 0"
| "digits_value (c # s) = (let b = of_char c in
     if 48 \<le> b \<and> b \<le> 57 then map_option (\<lambda>v. (b - 48) * 10 ^ length s + v) (digits_value s) else None)"

text \<open>\<^verbatim>\<open>parse::<i32>\<close> followed by the check for a negative number.\<close>

definition parse_descriptor :: "string \<Rightarrow> message + nat" where
  "parse_descriptor v =
     (let negative = (v \<noteq> '''' \<and> hd v = CHR ''-''); digits = (if v \<noteq> '''' \<and> (hd v = CHR ''-'' \<or> hd v = CHR ''+'') then tl v else v) in
      case (if digits = '''' then None else digits_value digits) of
        None \<Rightarrow> Inl ''file descriptor source value must be an integer fd''
      | Some n \<Rightarrow> if negative \<and> n > 2 ^ 31 \<or> \<not> negative \<and> n \<ge> 2 ^ 31
          then Inl ''file descriptor source value must be an integer fd''
          else if negative \<and> n > 0 then Inl ''file descriptor must be non-negative'' else Inr n)"

definition duplicate_file_descriptor :: "fs_env \<Rightarrow> string \<Rightarrow> message + nat" where
  "duplicate_file_descriptor e v = (case parse_descriptor v of Inl m \<Rightarrow> Inl m | Inr fd \<Rightarrow> fe_dup e fd)"

definition display_or :: "string option \<Rightarrow> string option \<Rightarrow> string" where
  "display_or display other = (case Option.bind display non_empty of
      Some n \<Rightarrow> n | None \<Rightarrow> (case other of Some n \<Rightarrow> n | None \<Rightarrow> ''transfer''))"

definition source_path :: "share_source \<Rightarrow> message + string" where
  "source_path s = (if trim (ss_value s) = '''' then Inl ''source path must not be empty'' else platform_path (ss_value s))"

definition collect_source :: "fs_env \<Rightarrow> share_source \<Rightarrow> message + import_file list" where
  "collect_source e s =
     (if ss_kind s = PathKind \<or> ss_kind s = IosSecurityScopedUrl then (case source_path s of
        Inl m \<Rightarrow> Inl m
      | Inr path \<Rightarrow> (let name = display_or (ss_display_name s) (file_name path) in
          if ss_is_directory s \<or> fe_is_dir e path then collect_dir_files path name (fe_walk e path)
          else map_sum id (\<lambda>cn. [\<lparr>if_source = ImportPath path, if_collection_name = cn\<rparr>]) (validated_relative_string name)))
      else if ss_kind s = FileDescriptorKind then
        (if ss_is_directory s then Inl ''file descriptor sources cannot represent directories yet''
         else case duplicate_file_descriptor e (ss_value s) of
           Inl m \<Rightarrow> Inl m
         | Inr fd \<Rightarrow> map_sum id (\<lambda>cn. [\<lparr>if_source = ImportDescriptor fd, if_collection_name = cn\<rparr>])
             (validated_relative_string (display_or (ss_display_name s) None)))
      else Inl ''Android content URIs are not filesystem paths'')"

fun collect_sources :: "fs_env \<Rightarrow> share_source list \<Rightarrow> message + import_file list" where
  "collect_sources e [] = Inr []"
| "collect_sources e (s # ss) = (case collect_source e s of
      Inl m \<Rightarrow> Inl m | Inr fs \<Rightarrow> map_sum id (\<lambda>r. fs @ r) (collect_sources e ss))"

definition checked_add :: "u64 \<Rightarrow> u64 \<Rightarrow> u64 option" where
  "checked_add a b = (if unat a + unat b < 2 ^ 64 then Some (a + b) else None)"

fun check_files :: "fs_env \<Rightarrow> core_limits \<Rightarrow> u64 \<Rightarrow> import_file list \<Rightarrow> message + unit" where
  "check_files e limits known [] = Inr ()"
| "check_files e limits known (f # fs) =
     (if unat (cl_max_path_bytes limits) < length (if_collection_name f) then Inl ''collection path exceeds the limit''
      else case if_source f of
        ImportDescriptor _ \<Rightarrow> check_files e limits known fs
      | ImportPath path \<Rightarrow> (case fe_len e path of
          Inl m \<Rightarrow> Inl m
        | Inr n \<Rightarrow> (case checked_add known n of
            None \<Rightarrow> Inl ''collection size overflow''
          | Some known' \<Rightarrow> if cl_max_total_bytes limits < known' then Inl ''collection size exceeds the limit''
              else check_files e limits known' fs)))"

definition collect_import_files_with_limits ::
    "fs_env \<Rightarrow> share_source list \<Rightarrow> core_limits \<Rightarrow> message + import_file list" where
  "collect_import_files_with_limits e sources limits =
     (if unat (cl_max_sources limits) < length sources then Inl ''source count exceeds the limit''
      else case collect_sources e sources of
        Inl m \<Rightarrow> Inl m
      | Inr files \<Rightarrow>
          if files = [] then Inl ''no files found in selected sources''
          else if unat (cl_max_collection_files limits) < length files then Inl ''collection file count exceeds the limit''
          else (case check_files e limits 0 files of Inl m \<Rightarrow> Inl m | Inr _ \<Rightarrow> Inr files))"

definition default_collection_name :: "import_file list \<Rightarrow> string" where
  "default_collection_name files = (case files of
      [] \<Rightarrow> ''transfer''
    | f # _ \<Rightarrow> (let n = hd (split_at (CHR ''/'') (if_collection_name f)) in if n = '''' then ''transfer'' else n))"

end
