(* ===== verification/Invitation_Store.thy ===== *)
theory Invitation_Store
  imports Targeted_Module
begin

text \<open>
  The durable store of invitation transfers (\<^verbatim>\<open>invitation/mod.rs\<close>): the history of shares and
  receives, the requests of receivers, the receipts still to be delivered and the event log. One
  definition per method, in the order of the file. Text columns hold the text SQLite holds, so the
  codecs of \<^verbatim>\<open>transfer_state.rs\<close> are applied where the code applies them. The tables live in the
  database of the other stores, so every statement or transaction may fail by \<open>db_faults\<close>. A
  number is bound as a signed integer, which fails beyond 63 bits.
\<close>

datatype ReceivedLocatorKind = FilesystemPath | AndroidMediaStore | AndroidDocument

record transfer_row =
  it_transfer_id :: u64
  it_local_id :: string
  it_protocol_transfer_id :: u64
  it_peer_id :: "string option"
  it_direction :: string
  it_status :: string
  it_transfer_name :: "string option"
  it_sender_name :: "string option"
  it_content_hash :: "string option"
  it_ticket :: "string option"
  it_file_count :: u64
  it_total_size :: u64
  it_access_mode :: string
  it_created_at :: int
  it_updated_at :: int

record artifact_row =
  ra_id :: string
  ra_transfer_local_id :: string
  ra_protocol_transfer_id :: u64
  ra_relative_path :: string
  ra_locator_kind :: string
  ra_locator :: string
  ra_logical_size :: u64
  ra_published_at :: int

record core_event =
  ce_id :: string
  ce_revision :: u64
  ce_timestamp :: int
  ce_scope :: string
  ce_transfer_id :: "u64 option"
  ce_direction :: "string option"
  ce_phase :: string
  ce_kind :: string
  ce_data_json :: string

record request_row =
  rr_id :: string
  rr_transfer_id :: u64
  rr_remote_endpoint_id :: string
  rr_transfer_name :: string
  rr_receiver_name :: "string option"
  rr_receiver_device_name :: "string option"
  rr_app_version :: string
  rr_status :: string
  rr_reason :: "string option"
  rr_requested_at :: int
  rr_responded_at :: "int option"
  rr_receipt_token_hash :: "string option"
  rr_completed_at :: "int option"

record pending_delivery_receipt =
  dp_local_transfer_id :: u64
  dp_sender_blob_ticket :: string
  dp_request_id :: string
  dp_sender_transfer_id :: u64
  dp_token :: string
  dp_failure_reason :: "string option"

record receipt_row = pending_delivery_receipt +
  dp_created_at :: int

record host = world +
  iv_transfers :: "transfer_row list"
  iv_artifacts :: "artifact_row list"
  iv_events :: "core_event list"
  iv_requests :: "request_row list"
  iv_receipts :: "receipt_row list"

record transfer_upsert =
  tu_transfer_id :: u64
  tu_peer_id :: "string option"
  tu_direction :: TransferDirection
  tu_status :: TransferStatus
  tu_transfer_name :: "string option"
  tu_sender_name :: "string option"
  tu_content_hash :: "string option"
  tu_ticket :: "string option"
  tu_file_count :: u64
  tu_total_size :: u64
  tu_access_mode :: string

record persisted_share =
  ps_transfer_id :: u64
  ps_local_id :: string
  ps_content_hash :: string
  ps_ticket :: "string option"
  ps_access_mode :: string

record recovered_transfer =
  rt_transfer_id :: u64
  rt_direction :: TransferDirection
  rt_previous_status :: TransferStatus

record received_artifact_insert =
  ri_transfer_local_id :: string
  ri_protocol_transfer_id :: u64
  ri_relative_path :: string
  ri_locator_kind :: ReceivedLocatorKind
  ri_locator :: string
  ri_logical_size :: u64

record received_artifact =
  rc_id :: string
  rc_transfer_local_id :: string
  rc_protocol_transfer_id :: u64
  rc_relative_path :: string
  rc_locator_kind :: ReceivedLocatorKind
  rc_locator :: string
  rc_logical_size :: u64
  rc_published_at :: int

record receiver_request_insert =
  qi_id :: string
  qi_transfer_id :: u64
  qi_remote_endpoint_id :: string
  qi_transfer_name :: string
  qi_receiver_name :: "string option"
  qi_receiver_device_name :: "string option"
  qi_app_version :: string

record stored_transfer =
  st_local_id :: string
  st_transfer_id :: u64
  st_peer_id :: "string option"
  st_direction :: string
  st_status :: string
  st_transfer_name :: "string option"
  st_content_hash :: "string option"
  st_ticket :: "string option"
  st_file_count :: u64
  st_total_size :: u64
  st_access_mode :: TransferAccessMode
  st_created_at :: int
  st_updated_at :: int

record receiver_request =
  rq_id :: string
  rq_transfer_id :: u64
  rq_remote_endpoint_id :: string
  rq_transfer_name :: string
  rq_receiver_name :: "string option"
  rq_receiver_device_name :: "string option"
  rq_app_version :: string
  rq_status :: string
  rq_reason :: "string option"
  rq_requested_at :: int
  rq_responded_at :: "int option"
  rq_completed_at :: "int option"

section \<open>Helpers\<close>

abbreviation on_history :: "(transfer_row list \<Rightarrow> transfer_row list) \<Rightarrow> 'z host_scheme \<Rightarrow> 'z host_scheme" where
  "on_history f s \<equiv> s\<lparr>iv_transfers := f (iv_transfers s)\<rparr>"

abbreviation on_requests :: "(request_row list \<Rightarrow> request_row list) \<Rightarrow> 'z host_scheme \<Rightarrow> 'z host_scheme" where
  "on_requests f s \<equiv> s\<lparr>iv_requests := f (iv_requests s)\<rparr>"

abbreviation on_receipts :: "(receipt_row list \<Rightarrow> receipt_row list) \<Rightarrow> 'z host_scheme \<Rightarrow> 'z host_scheme" where
  "on_receipts f s \<equiv> s\<lparr>iv_receipts := f (iv_receipts s)\<rparr>"

text \<open>\<open>to_db_id(..)?\<close> for every number a statement binds.\<close>

definition to_db_id :: "u64 \<Rightarrow> vnidrop_error + unit" where
  "to_db_id v = (if fits_i64 v then Inr ()
     else Inl (Repository ''transfer id exceeds SQLite signed integer range''))"

fun to_db_ids :: "u64 list \<Rightarrow> vnidrop_error + unit" where
  "to_db_ids [] = Inr ()"
| "to_db_ids (v # vs) = (case to_db_id v of Inl e \<Rightarrow> Inl e | Inr _ \<Rightarrow> to_db_ids vs)"

definition require_one_changed :: "nat \<Rightarrow> string \<Rightarrow> vnidrop_error + unit" where
  "require_one_changed n operation =
     (if n \<noteq> 1 then Inl (Repository (operation @ '' expected one matching transfer'')) else Inr ())"

text \<open>\<open>UPDATE .. WHERE\<close> with the number of rows it changed.\<close>

definition update_history :: "(transfer_row \<Rightarrow> bool) \<Rightarrow> (transfer_row \<Rightarrow> transfer_row) \<Rightarrow> ('z host_scheme, nat) proc" where
  "update_history P u = transact (\<lambda>s. (Inr (affected P (iv_transfers s)), on_history (update_where P u) s))"

definition update_requests :: "(request_row \<Rightarrow> bool) \<Rightarrow> (request_row \<Rightarrow> request_row) \<Rightarrow> ('z host_scheme, nat) proc" where
  "update_requests P u = transact (\<lambda>s. (Inr (affected P (iv_requests s)), on_requests (update_where P u) s))"

fun collect_results :: "(vnidrop_error + 'a) list \<Rightarrow> vnidrop_error + 'a list" where
  "collect_results [] = Inr []"
| "collect_results (r # rs) = (case r of Inl e \<Rightarrow> Inl e
     | Inr x \<Rightarrow> (case collect_results rs of Inl e \<Rightarrow> Inl e | Inr xs \<Rightarrow> Inr (x # xs)))"

definition TERMINAL_RECEIVES :: "string list" where
  "TERMINAL_RECEIVES = [''done'', ''failed'', ''cancelled'']"

definition terminal_receive :: "transfer_row \<Rightarrow> bool" where
  "terminal_receive r \<longleftrightarrow> it_direction r = ''receive'' \<and> List.member TERMINAL_RECEIVES (it_status r)"

definition locator_kind_to_storage :: "ReceivedLocatorKind \<Rightarrow> string" where
  "locator_kind_to_storage k = (case k of
      FilesystemPath \<Rightarrow> ''filesystem_path''
    | AndroidMediaStore \<Rightarrow> ''android_media_store''
    | AndroidDocument \<Rightarrow> ''android_document'')"

definition locator_kind_from_storage :: "string \<Rightarrow> vnidrop_error + ReceivedLocatorKind" where
  "locator_kind_from_storage v =
     (if v = ''filesystem_path'' then Inr FilesystemPath
      else if v = ''android_media_store'' then Inr AndroidMediaStore
      else if v = ''android_document'' then Inr AndroidDocument
      else Inl (Repository ''unknown received artifact locator kind''))"

definition parse_direction :: "string \<Rightarrow> vnidrop_error + TransferDirection" where
  "parse_direction v = (case direction_try_from v of
      Some d \<Rightarrow> Inr d | None \<Rightarrow> Inl (Repository ''unknown transfer direction''))"

definition parse_status :: "string \<Rightarrow> vnidrop_error + TransferStatus" where
  "parse_status v = (case status_try_from v of
      Some st \<Rightarrow> Inr st | None \<Rightarrow> Inl (Repository ''unknown transfer status''))"


section \<open>Transfers\<close>

definition transfer_row_of :: "transfer_upsert \<Rightarrow> string \<Rightarrow> string \<Rightarrow> string \<Rightarrow> int \<Rightarrow> transfer_row" where
  "transfer_row_of t uuid direction status now = \<lparr>
     it_transfer_id = tu_transfer_id t, it_local_id = uuid, it_protocol_transfer_id = tu_transfer_id t,
     it_peer_id = tu_peer_id t, it_direction = direction, it_status = status,
     it_transfer_name = tu_transfer_name t, it_sender_name = None, it_content_hash = tu_content_hash t,
     it_ticket = tu_ticket t, it_file_count = tu_file_count t, it_total_size = tu_total_size t,
     it_access_mode = tu_access_mode t, it_created_at = now, it_updated_at = now\<rparr>"

abbreviation upsert_ids :: "transfer_upsert \<Rightarrow> u64 list" where
  "upsert_ids t \<equiv> [tu_transfer_id t, tu_file_count t, tu_total_size t]"

definition insert_transfer :: "int \<Rightarrow> string \<Rightarrow> transfer_upsert \<Rightarrow> ('z host_scheme, unit) proc" where
  "insert_transfer now uuid t = next_do (lift (to_db_ids (upsert_ids t))) (transact (\<lambda>s.
     if exists_where (\<lambda>r. it_transfer_id r = tu_transfer_id t \<or> it_local_id r = uuid) (iv_transfers s)
     then (Inl unique_violation, s)
     else (Inr (), on_history (\<lambda>rows. rows @ [transfer_row_of t uuid
       (direction_as_str (tu_direction t)) (status_as_str (tu_status t)) now]) s)))"

text \<open>\<open>ON CONFLICT(transfer_id) DO UPDATE .. WHERE\<close> the row is a finished receive.\<close>

definition restart_receive :: "transfer_upsert \<Rightarrow> int \<Rightarrow> transfer_row \<Rightarrow> transfer_row" where
  "restart_receive t now r = r\<lparr>it_status := ''receiving'', it_transfer_name := tu_transfer_name t,
     it_content_hash := tu_content_hash t, it_ticket := tu_ticket t, it_file_count := tu_file_count t,
     it_total_size := tu_total_size t, it_access_mode := tu_access_mode t, it_peer_id := tu_peer_id t,
     it_updated_at := now\<rparr>"

definition start_receive :: "int \<Rightarrow> string \<Rightarrow> transfer_upsert \<Rightarrow> ('z host_scheme, unit) proc" where
  "start_receive now uuid t =
     (if tu_direction t \<noteq> Receive \<or> tu_status t \<noteq> TsReceiving
      then err (Repository ''receive must start in the receiving state'')
      else next_do (lift (to_db_ids (upsert_ids t))) (bind (transact (\<lambda>s.
        let P = (\<lambda>r. it_transfer_id r = tu_transfer_id t \<and> terminal_receive r) in
        if exists_where (\<lambda>r. it_transfer_id r = tu_transfer_id t) (iv_transfers s)
        then (Inr (affected P (iv_transfers s)), on_history (update_where P (restart_receive t now)) s)
        else if exists_where (\<lambda>r. it_local_id r = uuid) (iv_transfers s) then (Inl unique_violation, s)
        else (Inr 1, on_history (\<lambda>rows. rows @ [transfer_row_of t uuid ''receive'' ''receiving'' now]) s)))
        (\<lambda>n. lift (require_one_changed n ''start receive''))))"

definition transfer_local_id :: "u64 \<Rightarrow> ('z host_scheme, string) proc" where
  "transfer_local_id tid = next_do (lift (to_db_id tid)) (transact (\<lambda>s.
     case find_by it_transfer_id tid (iv_transfers s) of
       Some r \<Rightarrow> (Inr (it_local_id r), s) | None \<Rightarrow> (Inl (Repository ''no rows returned''), s)))"

definition record_received_artifact ::
    "int \<Rightarrow> string \<Rightarrow> received_artifact_insert \<Rightarrow> ('z host_scheme, unit) proc" where
  "record_received_artifact now uuid a =
     next_do (lift (to_db_ids [ri_protocol_transfer_id a, ri_logical_size a])) (transact (\<lambda>s.
       let same = (\<lambda>r. ra_transfer_local_id r = ri_transfer_local_id a \<and> ra_relative_path r = ri_relative_path a);
           kind = locator_kind_to_storage (ri_locator_kind a) in
       if exists_where same (iv_artifacts s)
       then (Inr (), s\<lparr>iv_artifacts := update_where same (\<lambda>r. r\<lparr>ra_locator_kind := kind,
              ra_locator := ri_locator a, ra_logical_size := ri_logical_size a, ra_published_at := now\<rparr>)
              (iv_artifacts s)\<rparr>)
       else if exists_where (\<lambda>r. ra_id r = uuid) (iv_artifacts s) then (Inl unique_violation, s)
       else (Inr (), s\<lparr>iv_artifacts := iv_artifacts s @ [\<lparr>ra_id = uuid,
              ra_transfer_local_id = ri_transfer_local_id a, ra_protocol_transfer_id = ri_protocol_transfer_id a,
              ra_relative_path = ri_relative_path a, ra_locator_kind = kind, ra_locator = ri_locator a,
              ra_logical_size = ri_logical_size a, ra_published_at = now\<rparr>]\<rparr>)))"

definition artifact_of_row :: "artifact_row \<Rightarrow> vnidrop_error + received_artifact" where
  "artifact_of_row r = (case locator_kind_from_storage (ra_locator_kind r) of
      Inl e \<Rightarrow> Inl e
    | Inr kind \<Rightarrow> Inr \<lparr>rc_id = ra_id r, rc_transfer_local_id = ra_transfer_local_id r,
        rc_protocol_transfer_id = ra_protocol_transfer_id r, rc_relative_path = ra_relative_path r,
        rc_locator_kind = kind, rc_locator = ra_locator r, rc_logical_size = ra_logical_size r,
        rc_published_at = ra_published_at r\<rparr>)"

definition list_received_artifacts :: "('z host_scheme, received_artifact list) proc" where
  "list_received_artifacts = bind (select (\<lambda>s. sort_key (\<lambda>r. - ra_published_at r) (iv_artifacts s)))
     (\<lambda>rows. lift (collect_results (map artifact_of_row rows)))"

definition complete_share_import :: "int \<Rightarrow> transfer_upsert \<Rightarrow> ('z host_scheme, unit) proc" where
  "complete_share_import now t =
     (if tu_direction t \<noteq> Send \<or> tu_status t \<noteq> TsSharing
      then err (Repository ''share import must complete in the sharing state'')
      else next_do (lift (to_db_ids [tu_file_count t, tu_total_size t, tu_transfer_id t]))
        (bind (update_history
           (\<lambda>r. it_transfer_id r = tu_transfer_id t \<and> it_direction r = ''send'' \<and> it_status r = ''importing'')
           (\<lambda>r. r\<lparr>it_status := status_as_str (tu_status t), it_transfer_name := tu_transfer_name t,
              it_sender_name := tu_sender_name t, it_content_hash := tu_content_hash t,
              it_ticket := tu_ticket t, it_file_count := tu_file_count t, it_total_size := tu_total_size t,
              it_access_mode := tu_access_mode t, it_updated_at := now\<rparr>))
         (\<lambda>n. lift (require_one_changed n ''complete share import''))))"

definition cancel_share_preparation :: "int \<Rightarrow> u64 \<Rightarrow> ('z host_scheme, unit) proc" where
  "cancel_share_preparation now tid = next_do (lift (to_db_id tid)) (bind (update_history
     (\<lambda>r. it_transfer_id r = tid \<and> it_direction r = ''send'' \<and> List.member [''importing'', ''sharing''] (it_status r))
     (\<lambda>r. r\<lparr>it_status := (if it_status r = ''sharing'' then ''stopped'' else ''cancelled''), it_updated_at := now\<rparr>))
     (\<lambda>n. if n \<noteq> 0 then ok ()
       else bind (select (\<lambda>s. map_option it_status (find_by it_transfer_id tid
              (filter (\<lambda>r. it_direction r = ''send'') (iv_transfers s)))))
         (\<lambda>status. if status = Some ''cancelled'' \<or> status = Some ''stopped'' \<or> status = Some ''failed''
           then ok () else err (Repository ''share preparation was not found''))))"

definition transition_transfer_status ::
    "int \<Rightarrow> u64 \<Rightarrow> TransferStatus \<Rightarrow> TransferStatus \<Rightarrow> ('z host_scheme, unit) proc" where
  "transition_transfer_status now tid expected target =
     (if \<not> can_transition_to expected target then err (Repository ''illegal transfer status transition'')
      else next_do (lift (to_db_id tid)) (bind (update_history
        (\<lambda>r. it_transfer_id r = tid \<and> it_status r = status_as_str expected)
        (\<lambda>r. r\<lparr>it_status := status_as_str target, it_updated_at := now\<rparr>))
        (\<lambda>n. if n = 0
          then bind (select (\<lambda>s. map_option it_status (find_by it_transfer_id tid (iv_transfers s))))
            (\<lambda>current. if current = Some (status_as_str target) then ok ()
              else lift (require_one_changed n ''transition transfer status''))
          else lift (require_one_changed n ''transition transfer status''))))"

section \<open>Receipts to deliver\<close>

text \<open>\<open>INSERT .. ON CONFLICT(request_id) DO UPDATE\<close> of everything but \<open>created_at\<close>.\<close>

definition put_receipt :: "int \<Rightarrow> pending_delivery_receipt \<Rightarrow> receipt_row list \<Rightarrow> receipt_row list" where
  "put_receipt now d rows =
     (if exists_where (\<lambda>r. dp_request_id r = dp_request_id d) rows
      then update_where (\<lambda>r. dp_request_id r = dp_request_id d)
        (\<lambda>r. pending_delivery_receipt.extend d \<lparr>dp_created_at = dp_created_at r\<rparr>) rows
      else rows @ [pending_delivery_receipt.extend d \<lparr>dp_created_at = now\<rparr>])"

definition complete_receive_with_pending_receipt ::
    "int \<Rightarrow> pending_delivery_receipt \<Rightarrow> ('z host_scheme, unit) proc" where
  "complete_receive_with_pending_receipt now d = transact (\<lambda>s.
     let P = (\<lambda>r. it_transfer_id r = dp_local_transfer_id d \<and> it_direction r = ''receive''
           \<and> it_status r = ''receiving'') in
     case to_db_id (dp_local_transfer_id d) of Inl e \<Rightarrow> (Inl e, s) | Inr _ \<Rightarrow>
     (case require_one_changed (affected P (iv_transfers s)) ''complete receive'' of Inl e \<Rightarrow> (Inl e, s) | Inr _ \<Rightarrow>
     (case to_db_id (dp_sender_transfer_id d) of Inl e \<Rightarrow> (Inl e, s) | Inr _ \<Rightarrow>
       (Inr (), on_receipts (put_receipt now d)
          (on_history (update_where P (\<lambda>r. r\<lparr>it_status := ''done'', it_updated_at := now\<rparr>)) s)))))"

definition queue_failed_delivery_receipt ::
    "int \<Rightarrow> pending_delivery_receipt \<Rightarrow> ('z host_scheme, unit) proc" where
  "queue_failed_delivery_receipt now d = (case dp_failure_reason d of
      None \<Rightarrow> err (Repository ''failed delivery receipt requires a reason'')
    | Some _ \<Rightarrow> next_do (lift (to_db_ids [dp_local_transfer_id d, dp_sender_transfer_id d]))
        (exec (on_receipts (put_receipt now d))))"

definition list_pending_delivery_receipts :: "('z host_scheme, pending_delivery_receipt list) proc" where
  "list_pending_delivery_receipts = select (\<lambda>s.
     map pending_delivery_receipt.truncate (sort_key dp_created_at (iv_receipts s)))"

definition delete_pending_delivery_receipt :: "string \<Rightarrow> ('z host_scheme, unit) proc" where
  "delete_pending_delivery_receipt tid = exec (on_receipts (delete_where (\<lambda>r. dp_request_id r = tid)))"


section \<open>Shares and recovery\<close>

definition update_active_share_access_mode :: "int \<Rightarrow> u64 \<Rightarrow> string \<Rightarrow> ('z host_scheme, unit) proc" where
  "update_active_share_access_mode now tid mode = next_do (lift (to_db_id tid)) (bind (update_history
     (\<lambda>r. it_transfer_id r = tid \<and> it_direction r = ''send'' \<and> it_status r = ''sharing'')
     (\<lambda>r. r\<lparr>it_access_mode := mode, it_updated_at := now\<rparr>))
     (\<lambda>n. lift (require_one_changed n ''update active share access mode'')))"

definition interrupted :: "transfer_row \<Rightarrow> bool" where
  "interrupted r \<longleftrightarrow> List.member [''importing'', ''receiving''] (it_status r)"

definition recovered_of_row :: "transfer_row \<Rightarrow> vnidrop_error + recovered_transfer" where
  "recovered_of_row r = (case parse_direction (it_direction r) of
      Inl e \<Rightarrow> Inl e
    | Inr d \<Rightarrow> (case parse_status (it_status r) of
        Inl e \<Rightarrow> Inl e
      | Inr st \<Rightarrow> Inr \<lparr>rt_transfer_id = it_transfer_id r, rt_direction = d, rt_previous_status = st\<rparr>))"

definition recover_interrupted_transfers :: "int \<Rightarrow> ('z host_scheme, recovered_transfer list) proc" where
  "recover_interrupted_transfers now = transact (\<lambda>s.
     case collect_results (map recovered_of_row (sort_key it_created_at (filter interrupted (iv_transfers s)))) of
       Inl e \<Rightarrow> (Inl e, s)
     | Inr recovered \<Rightarrow> (Inr recovered, if recovered = [] then s
         else on_history (update_where interrupted (\<lambda>r. r\<lparr>it_status := ''failed'', it_updated_at := now\<rparr>)) s))"

definition active_share :: "transfer_row \<Rightarrow> bool" where
  "active_share r \<longleftrightarrow> it_direction r = ''send'' \<and> it_status r = ''sharing''"

definition list_active_shares :: "('z host_scheme, persisted_share list) proc" where
  "list_active_shares = select (\<lambda>s. List.map_filter (\<lambda>r. case it_content_hash r of
      None \<Rightarrow> None
    | Some h \<Rightarrow> if active_share r then Some \<lparr>ps_transfer_id = it_transfer_id r, ps_local_id = it_local_id r,
        ps_content_hash = h, ps_ticket = it_ticket r, ps_access_mode = it_access_mode r\<rparr> else None)
      (iv_transfers s))"

section \<open>Events\<close>

text \<open>The newest \<open>n\<close> events; equal times are ordered by id.\<close>

definition newest_events :: "nat \<Rightarrow> core_event list \<Rightarrow> core_event list" where
  "newest_events n evs = take n (rev (sort_key (\<lambda>ev. (ce_timestamp ev, ce_id ev)) evs))"

definition insert_event :: "core_event \<Rightarrow> u64 \<Rightarrow> ('z host_scheme, unit) proc" where
  "insert_event ev max_history = transact (\<lambda>s.
     case to_db_ids (ce_revision ev # (case ce_transfer_id ev of Some tid \<Rightarrow> [tid] | None \<Rightarrow> []) @ [max_history]) of
       Inl e \<Rightarrow> (Inl e, s)
     | Inr _ \<Rightarrow> (Inr (), s\<lparr>iv_events := (let evs = insert_or_replace ce_id ev (iv_events s);
           kept = map ce_id (newest_events (unat max_history) evs) in
         delete_where (\<lambda>e. \<not> List.member kept (ce_id e)) evs)\<rparr>))"

definition list_events :: "u64 option \<Rightarrow> u64 \<Rightarrow> ('z host_scheme, core_event list) proc" where
  "list_events transfer limit =
     (let order = sort_key (\<lambda>ev. (ce_timestamp ev, sint (ce_revision ev))) in case transfer of
       Some tid \<Rightarrow> next_do (lift (to_db_ids [tid, limit])) (select (\<lambda>s. take (unat limit)
         (order (filter (\<lambda>ev. ce_transfer_id ev = Some tid) (iv_events s)))))
     | None \<Rightarrow> next_do (lift (to_db_id limit)) (select (\<lambda>s. take (unat limit) (rev (order (iv_events s))))))"

section \<open>Requests of receivers\<close>

definition insert_receiver_request :: "int \<Rightarrow> receiver_request_insert \<Rightarrow> ('z host_scheme, unit) proc" where
  "insert_receiver_request now q = next_do (lift (to_db_id (qi_transfer_id q))) (transact (\<lambda>s.
     if exists_where (\<lambda>r. rr_id r = qi_id q) (iv_requests s) then (Inl unique_violation, s)
     else (Inr (), on_requests (\<lambda>rows. rows @ [\<lparr>rr_id = qi_id q, rr_transfer_id = qi_transfer_id q,
       rr_remote_endpoint_id = qi_remote_endpoint_id q, rr_transfer_name = qi_transfer_name q,
       rr_receiver_name = qi_receiver_name q, rr_receiver_device_name = qi_receiver_device_name q,
       rr_app_version = qi_app_version q, rr_status = ''requested'', rr_reason = None,
       rr_requested_at = now, rr_responded_at = None, rr_receipt_token_hash = None,
       rr_completed_at = None\<rparr>]) s)))"

definition update_receiver_request_status ::
    "int \<Rightarrow> string \<Rightarrow> ReceiverRequestStatus \<Rightarrow> string option \<Rightarrow> ('z host_scheme, unit) proc" where
  "update_receiver_request_status now tid status reason = bind (update_requests
     (\<lambda>r. rr_id r = tid \<and> rr_status r = ''requested'')
     (\<lambda>r. r\<lparr>rr_status := request_as_str status, rr_reason := reason, rr_responded_at := Some now\<rparr>))
     (\<lambda>n. if n = 0 then err (Repository ''receiver request not found or already handled'') else ok ())"

definition set_receiver_receipt_token :: "string \<Rightarrow> string \<Rightarrow> ('z host_scheme, unit) proc" where
  "set_receiver_receipt_token tid token_hash = bind (update_requests
     (\<lambda>r. rr_id r = tid \<and> rr_status r = ''accepted'')
     (\<lambda>r. r\<lparr>rr_receipt_token_hash := Some token_hash\<rparr>))
     (\<lambda>n. lift (require_one_changed n ''attach receiver receipt token''))"

text \<open>The \<open>WHERE\<close> clause of the receipts: id, transfer, endpoint and token must all match.\<close>

definition receipt_for :: "string \<Rightarrow> u64 \<Rightarrow> string \<Rightarrow> string \<Rightarrow> string \<Rightarrow> request_row \<Rightarrow> bool" where
  "receipt_for tid transfer endpoint token_hash status r \<longleftrightarrow> rr_id r = tid \<and> rr_transfer_id r = transfer
     \<and> rr_remote_endpoint_id r = endpoint \<and> rr_receipt_token_hash r = Some token_hash \<and> rr_status r = status"

definition request_exists :: "(request_row \<Rightarrow> bool) \<Rightarrow> ('z host_scheme, bool) proc" where
  "request_exists P = select (\<lambda>s. exists_where P (iv_requests s))"

definition completed_now :: "int \<Rightarrow> request_row \<Rightarrow> request_row" where
  "completed_now now r = r\<lparr>rr_status := ''completed'', rr_completed_at := Some now\<rparr>"

definition receiver_display :: "request_row \<Rightarrow> string option" where
  "receiver_display r = (case rr_receiver_device_name r of Some n \<Rightarrow> Some n | None \<Rightarrow> rr_receiver_name r)"

definition complete_receiver_delivery ::
    "int \<Rightarrow> string \<Rightarrow> u64 \<Rightarrow> string \<Rightarrow> string \<Rightarrow> ('z host_scheme, string option) proc" where
  "complete_receiver_delivery now tid transfer endpoint token_hash =
     (let now_completed = receipt_for tid transfer endpoint token_hash ''completed'' in
      next_do (lift (to_db_id transfer)) (bind (update_requests
        (receipt_for tid transfer endpoint token_hash ''accepted'')
        (completed_now now))
        (\<lambda>n. next_do
          (if n \<noteq> 1 then bind (request_exists now_completed) (\<lambda>b. if b then ok ()
             else err (Repository ''delivery receipt did not match an accepted receiver request''))
           else ok ())
          (bind (select (\<lambda>s. List.find now_completed (iv_requests s))) (\<lambda>found. case found of
              None \<Rightarrow> err (Repository ''no rows returned'')
            | Some r \<Rightarrow> ok (receiver_display r))))))"

definition fail_receiver_delivery ::
    "string \<Rightarrow> u64 \<Rightarrow> string \<Rightarrow> string \<Rightarrow> string \<Rightarrow> ('z host_scheme, unit) proc" where
  "fail_receiver_delivery tid transfer endpoint token_hash reason =
     next_do (lift (to_db_id transfer)) (bind (update_requests
        (receipt_for tid transfer endpoint token_hash ''accepted'')
        (\<lambda>r. r\<lparr>rr_status := ''failed'', rr_reason := Some reason\<rparr>))
        (\<lambda>n. if n = 1 then ok ()
          else bind (request_exists (receipt_for tid transfer endpoint token_hash ''failed'')) (\<lambda>b. if b then ok ()
            else err (Repository ''delivery failure did not match an accepted receiver request''))))"

definition expire_pending_receiver_requests :: "int \<Rightarrow> string \<Rightarrow> ('z host_scheme, nat) proc" where
  "expire_pending_receiver_requests now reason = update_requests (\<lambda>r. rr_status r = ''requested'')
     (\<lambda>r. r\<lparr>rr_status := ''expired'', rr_reason := Some reason, rr_responded_at := Some now\<rparr>)"

definition row_to_receiver_request :: "request_row \<Rightarrow> receiver_request" where
  "row_to_receiver_request r = \<lparr>rq_id = rr_id r, rq_transfer_id = rr_transfer_id r,
     rq_remote_endpoint_id = rr_remote_endpoint_id r, rq_transfer_name = rr_transfer_name r,
     rq_receiver_name = rr_receiver_name r, rq_receiver_device_name = rr_receiver_device_name r,
     rq_app_version = rr_app_version r,
     rq_status = (case request_try_from (rr_status r) of Some st \<Rightarrow> request_as_str st | None \<Rightarrow> ''unknown''),
     rq_reason = rr_reason r, rq_requested_at = rr_requested_at r, rq_responded_at = rr_responded_at r,
     rq_completed_at = rr_completed_at r\<rparr>"

definition list_receiver_requests :: "u64 \<Rightarrow> ('z host_scheme, receiver_request list) proc" where
  "list_receiver_requests transfer = next_do (lift (to_db_id transfer)) (select (\<lambda>s.
     map row_to_receiver_request (sort_key (\<lambda>r. - rr_requested_at r)
       (filter (\<lambda>r. rr_transfer_id r = transfer) (iv_requests s)))))"

definition shared_as :: "u64 \<Rightarrow> string \<Rightarrow> transfer_row \<Rightarrow> bool" where
  "shared_as transfer hash r \<longleftrightarrow> it_transfer_id r = transfer \<and> it_content_hash r = Some hash \<and> active_share r"

definition send_exists :: "u64 \<Rightarrow> string \<Rightarrow> ('z host_scheme, bool) proc" where
  "send_exists transfer hash = next_do (lift (to_db_id transfer))
     (select (\<lambda>s. exists_where (shared_as transfer hash) (iv_transfers s)))"

definition send_sender_name :: "u64 \<Rightarrow> string \<Rightarrow> ('z host_scheme, string option) proc" where
  "send_sender_name transfer hash = next_do (lift (to_db_id transfer))
     (select (\<lambda>s. Option.bind (List.find (shared_as transfer hash) (iv_transfers s)) it_sender_name))"

section \<open>History\<close>

definition row_to_stored_transfer :: "transfer_row \<Rightarrow> vnidrop_error + stored_transfer" where
  "row_to_stored_transfer r = (case parse_direction (it_direction r) of
      Inl e \<Rightarrow> Inl e
    | Inr d \<Rightarrow> (case parse_status (it_status r) of
        Inl e \<Rightarrow> Inl e
      | Inr st \<Rightarrow> Inr \<lparr>st_local_id = it_local_id r, st_transfer_id = it_transfer_id r,
          st_peer_id = it_peer_id r, st_direction = direction_as_str d, st_status = status_as_str st,
          st_transfer_name = it_transfer_name r, st_content_hash = it_content_hash r, st_ticket = it_ticket r,
          st_file_count = it_file_count r, st_total_size = it_total_size r,
          st_access_mode = mode_from_storage (it_access_mode r), st_created_at = it_created_at r,
          st_updated_at = it_updated_at r\<rparr>))"

definition list_history :: "('z host_scheme, stored_transfer list) proc" where
  "list_history = bind (select (\<lambda>s. sort_key (\<lambda>r. - it_updated_at r) (iv_transfers s)))
     (\<lambda>rows. lift (collect_results (map row_to_stored_transfer rows)))"

definition delete_dependants :: "(u64 \<Rightarrow> bool) \<Rightarrow> 'z host_scheme \<Rightarrow> 'z host_scheme" where
  "delete_dependants gone s = s\<lparr>
     iv_requests := delete_where (\<lambda>r. gone (rr_transfer_id r)) (iv_requests s),
     iv_events := delete_where (\<lambda>ev. \<exists>tid \<in> set_option (ce_transfer_id ev). gone tid) (iv_events s)\<rparr>"

definition delete_transfer :: "u64 \<Rightarrow> ('z host_scheme, unit) proc" where
  "delete_transfer tid = next_do (lift (to_db_id tid)) (transact (\<lambda>s.
     let P = (\<lambda>r. it_transfer_id r = tid) in
     case require_one_changed (affected P (iv_transfers s)) ''delete transfer'' of
       Inl e \<Rightarrow> (Inl e, s)
     | Inr _ \<Rightarrow> (Inr (), on_history (delete_where P) (delete_dependants (\<lambda>i. i = tid) s))))"

definition delete_receive_history :: "('z host_scheme, nat) proc" where
  "delete_receive_history = transact (\<lambda>s.
     let gone = map it_transfer_id (filter terminal_receive (iv_transfers s)) in
     (Inr (affected terminal_receive (iv_transfers s)),
      on_history (delete_where terminal_receive) (delete_dependants (List.member gone) s)))"

end
