(* ===== verification/Output_Files.thy ===== *)
theory Output_Files
  imports File_Paths Invitation_Store
begin

text \<open>
  Writing a received file (\<^verbatim>\<open>AtomicOutputFile\<close> of \<^verbatim>\<open>filesystem.rs\<close> and \<^verbatim>\<open>export_blob_to_directory\<close> of
  \<^verbatim>\<open>runtime/receive.rs\<close>): the bytes go to a temporary file in the directory of the target, which is
  published under its final name without replacing anything, or removed. The file system is the list
  of its files, each with the components of its directory, its name, its bytes and the time of its
  last change. What the operating system decides is the parameter \<open>os_env\<close>: which directories can be
  made, canonical paths before and after the temporary file is opened, which files can be opened, written
  and removed, and whether the volume has hard links and an exclusive rename. What other processes do to
  the files meanwhile is a part of it too: \<open>os_others\<close> between the creation of the temporary file and its
  publication, \<open>os_race\<close> between the check and the rename of the last resort.
\<close>

record disk_file =
  df_dir :: "path_component list"
  df_name :: string
  df_regular :: bool
  df_bytes :: string
  df_modified :: int

record receiver = host +
  rc_files :: "disk_file list"

record os_env =
  os_mkdir :: "path_component list \<Rightarrow> bool"
  os_canonical :: "path_component list \<Rightarrow> path_component list option"
  os_canonical_later :: "path_component list \<Rightarrow> path_component list option"
  os_now :: int
  os_open :: bool
  os_links :: bool
  os_exclusive :: bool
  os_unlink :: "path_component list \<Rightarrow> string \<Rightarrow> bool"
  os_write :: "string \<Rightarrow> (string \<times> vnidrop_error) option"
  os_others :: "disk_file list \<Rightarrow> disk_file list"
  os_race :: "disk_file list \<Rightarrow> disk_file list"

abbreviation on_files :: "(disk_file list \<Rightarrow> disk_file list) \<Rightarrow> 'z receiver_scheme \<Rightarrow> 'z receiver_scheme" where
  "on_files f s \<equiv> s\<lparr>rc_files := f (rc_files s)\<rparr>"

definition STALE_PART_AGE :: int where
  "STALE_PART_AGE = 24 * 60 * 60 * 1000"

section \<open>Names\<close>

definition file_at :: "path_component list \<Rightarrow> string \<Rightarrow> disk_file \<Rightarrow> bool" where
  "file_at dir name f \<longleftrightarrow> df_dir f = dir \<and> df_name f = name"

definition parent_of :: "path_component list \<Rightarrow> path_component list option" where
  "parent_of cs = (if cs = [] \<or> last cs = RootDir then None else Some (butlast cs))"

definition starts_below :: "path_component list \<Rightarrow> path_component list \<Rightarrow> bool" where
  "starts_below root path \<longleftrightarrow> take (length root) path = root"

definition temporary_name :: "string \<Rightarrow> string \<Rightarrow> string" where
  "temporary_name name uuid = ''.'' @ name @ ''.vnidrop-'' @ uuid @ ''.part''"

fun contains_text :: "string \<Rightarrow> string \<Rightarrow> bool" where
  "contains_text p [] \<longleftrightarrow> p = ''''"
| "contains_text p (c # s) \<longleftrightarrow> take (length p) (c # s) = p \<or> contains_text p s"

definition part_name :: "string \<Rightarrow> bool" where
  "part_name n \<longleftrightarrow> take 1 n = ''.'' \<and> contains_text ''.vnidrop-'' n \<and> drop (length n - 5) n = ''.part''"

definition stale_part :: "int \<Rightarrow> path_component list \<Rightarrow> disk_file \<Rightarrow> bool" where
  "stale_part now dir f \<longleftrightarrow> df_dir f = dir \<and> part_name (df_name f)
     \<and> max 0 (now - df_modified f) \<ge> STALE_PART_AGE \<and> df_regular f"

section \<open>The temporary file\<close>

definition fs_error :: "string \<Rightarrow> vnidrop_error" where
  "fs_error m = Filesystem m"

text \<open>The loop over the directory: it stops with an error at the first file it cannot remove.\<close>

fun sweep :: "os_env \<Rightarrow> path_component list \<Rightarrow> disk_file list \<Rightarrow> bool \<times> nat \<times> disk_file list" where
  "sweep e dir [] = (True, 0, [])"
| "sweep e dir (f # fs) = (case sweep e dir fs of (all, n, kept) \<Rightarrow>
     if \<not> stale_part (os_now e) dir f then (all, n, f # kept)
     else if os_unlink e dir (df_name f) then (all, Suc n, kept)
     else (False, 0, f # fs))"

definition cleanup_stale_temporary_files ::
    "os_env \<Rightarrow> path_component list \<Rightarrow> ('z receiver_scheme, nat) proc" where
  "cleanup_stale_temporary_files e dir s = (case sweep e dir (rc_files s) of (all, n, kept) \<Rightarrow>
     (if all then Inr n else Inl (fs_error ''remove''), s\<lparr>rc_files := kept\<rparr>))"

record output_file =
  of_dir :: "path_component list"
  of_name :: string
  of_temporary :: string

definition remove_file :: "os_env \<Rightarrow> path_component list \<Rightarrow> string \<Rightarrow> 'z receiver_scheme \<Rightarrow> 'z receiver_scheme" where
  "remove_file e dir name s = (if os_unlink e dir name then on_files (delete_where (file_at dir name)) s else s)"

definition open_temporary :: "os_env \<Rightarrow> path_component list \<Rightarrow> string \<Rightarrow> ('z receiver_scheme, unit) proc" where
  "open_temporary e dir name s =
     (if \<not> os_open e \<or> exists_where (file_at dir name) (rc_files s) then (Inl (fs_error ''failed to create''), s)
      else (Inr (), on_files (\<lambda>fs. fs @ [\<lparr>df_dir = dir, df_name = name, df_regular = True, df_bytes = '''',
             df_modified = os_now e\<rparr>]) s))"

definition check_target :: "os_env \<Rightarrow> string \<Rightarrow> string \<Rightarrow> vnidrop_error + (path_component list \<times> string)" where
  "check_target e dir relative = (case safe_output_path dir relative of
      Inl m \<Rightarrow> Inl (fs_error m)
    | Inr target \<Rightarrow> (case parent_of (components target) of
        None \<Rightarrow> Inl (fs_error ''output file must have a parent directory'')
      | Some parent \<Rightarrow>
          if \<not> os_mkdir e parent then Inl (fs_error ''create directory'')
          else (case (os_canonical e (components dir), os_canonical e parent) of
            (Some root, Some below) \<Rightarrow>
              if \<not> starts_below root below then Inl (fs_error ''output path escapes the selected directory'')
              else Inr (parent, case file_name target of Some n \<Rightarrow> n | None \<Rightarrow> '''')
          | _ \<Rightarrow> Inl (fs_error ''canonicalize''))))"

definition create_output :: "os_env \<Rightarrow> string \<Rightarrow> string \<Rightarrow> string \<Rightarrow> ('z receiver_scheme, output_file) proc" where
  "create_output e uuid dir relative = bind (lift (check_target e dir relative)) (\<lambda>(parent, name).
     bind (cleanup_stale_temporary_files e parent) (\<lambda>_.
     bind (gets (\<lambda>s. exists_where (file_at parent name) (rc_files s))) (\<lambda>taken.
     if taken then err (DestinationExists ''destination already exists'')
     else if name = '''' then err (fs_error ''output filename is not valid UTF-8'')
     else next_do (open_temporary e parent (temporary_name name uuid))
       (if os_canonical_later e parent \<noteq> os_canonical e parent
        then next_do (modify (remove_file e parent (temporary_name name uuid)))
          (err (fs_error ''output directory changed while opening destination''))
        else ok \<lparr>of_dir = parent, of_name = name, of_temporary = temporary_name name uuid\<rparr>))))"

section \<open>Publishing\<close>

definition rename_file :: "output_file \<Rightarrow> 'z receiver_scheme \<Rightarrow> 'z receiver_scheme" where
  "rename_file f = on_files (\<lambda>fs. update_where (file_at (of_dir f) (of_temporary f)) (\<lambda>x. x\<lparr>df_name := of_name f\<rparr>)
     (delete_where (file_at (of_dir f) (of_name f)) fs))"

definition link_file :: "output_file \<Rightarrow> disk_file \<Rightarrow> 'z receiver_scheme \<Rightarrow> 'z receiver_scheme" where
  "link_file f x = on_files (\<lambda>fs. fs @ [x\<lparr>df_name := of_name f\<rparr>])"

text \<open>Without an exclusive rename, another process may act between the check and the rename.\<close>

definition rename_no_replace :: "os_env \<Rightarrow> output_file \<Rightarrow> ('z receiver_scheme, unit) proc" where
  "rename_no_replace e f s =
     (if exists_where (file_at (of_dir f) (of_name f)) (rc_files s)
      then (Inl (DestinationExists ''destination already exists''), s)
      else let s' = (if os_exclusive e then s else on_files (os_race e) s) in
        if exists_where (file_at (of_dir f) (of_temporary f)) (rc_files s') then (Inr (), rename_file f s')
        else (Inl (fs_error ''rename''), s'))"

definition publish_temp_as_final :: "os_env \<Rightarrow> output_file \<Rightarrow> ('z receiver_scheme, unit) proc" where
  "publish_temp_as_final e f s =
     (if \<not> os_links e then rename_no_replace e f s
      else case List.find (file_at (of_dir f) (of_temporary f)) (rc_files s) of
        None \<Rightarrow> (Inl (fs_error ''link''), s)
      | Some x \<Rightarrow> if exists_where (file_at (of_dir f) (of_name f)) (rc_files s)
          then (Inl (DestinationExists ''destination already exists''), s)
          else (Inr (), remove_file e (of_dir f) (of_temporary f) (link_file f x s)))"

text \<open>An output file that goes out of scope without having been committed removes its temporary file.\<close>

definition dropping :: "os_env \<Rightarrow> output_file \<Rightarrow> ('z receiver_scheme, 'a) proc \<Rightarrow> ('z receiver_scheme, 'a) proc" where
  "dropping e f m = attempt m (\<lambda>r. case r of
      Inr x \<Rightarrow> ok x
    | Inl error \<Rightarrow> next_do (modify (remove_file e (of_dir f) (of_temporary f))) (err error))"

section \<open>Receiving a file\<close>

datatype export_item = SizeItem u64 | DataItem u64 string | ErrorItem string

text \<open>
  The leaves of the export stream must follow each other without a gap: the bytes sent to the writer, and
  the error that ended the loop or the number of bytes.
\<close>

fun export_stream :: "u64 \<Rightarrow> export_item list \<Rightarrow> string \<times> (vnidrop_error + u64)" where
  "export_stream exported [] = ('''', Inr exported)"
| "export_stream exported (SizeItem n # is) = export_stream exported is"
| "export_stream exported (DataItem offset bytes # is) =
     (if offset \<noteq> exported then ('''', Inl (TransferError ''out-of-order data''))
      else case export_stream (exported + of_nat (length bytes)) is of (rest, r) \<Rightarrow> (bytes @ rest, r))"
| "export_stream exported (ErrorItem m # is) = ('''', Inl (TransferError m))"

text \<open>
  The writer thread writes the chunks until the end mark or until the channel closes, flushes and syncs.
  \<open>os_write\<close> says which bytes reach the file when one of these fails, and the error the caller reports:
  that of the thread, or that the channel to it is closed.
\<close>

definition write_file :: "os_env \<Rightarrow> output_file \<Rightarrow> string \<Rightarrow> ('z receiver_scheme, unit) proc" where
  "write_file e f bytes s =
     (let put = (\<lambda>b. on_files (update_where (file_at (of_dir f) (of_temporary f)) (\<lambda>x. x\<lparr>df_bytes := b\<rparr>)) s) in
      case os_write e bytes of
        None \<Rightarrow> (Inr (), put bytes)
      | Some (written, error) \<Rightarrow> (Inl error, put written))"

definition receive_bytes :: "os_env \<Rightarrow> output_file \<Rightarrow> export_item list \<Rightarrow> ('z receiver_scheme, u64) proc" where
  "receive_bytes e f items = (case export_stream 0 items of (bytes, r) \<Rightarrow>
     attempt (write_file e f bytes) (\<lambda>w. case w of
         Inl error \<Rightarrow> err error
       | Inr _ \<Rightarrow> (case r of Inl error \<Rightarrow> err error | Inr n \<Rightarrow> ok n)))"

definition artifact_insert :: "string \<Rightarrow> u64 \<Rightarrow> string \<Rightarrow> string \<Rightarrow> u64 \<Rightarrow> received_artifact_insert" where
  "artifact_insert local_id tid relative locator n = \<lparr>ri_transfer_local_id = local_id, ri_protocol_transfer_id = tid,
     ri_relative_path = relative, ri_locator_kind = FilesystemPath, ri_locator = locator, ri_logical_size = n\<rparr>"

text \<open>Other processes act while the bytes arrive, or before the call returns the error of \<open>create\<close>.\<close>

definition export_blob_to_directory ::
    "os_env \<Rightarrow> core_limits \<Rightarrow> int \<Rightarrow> string \<Rightarrow> string \<Rightarrow> u64 \<Rightarrow> string option \<Rightarrow> string \<Rightarrow> string \<Rightarrow> export_item list
     \<Rightarrow> ('z receiver_scheme, unit) proc" where
  "export_blob_to_directory e limits now uuid uuid' tid local_id dir relative items =
     attempt (if unat (cl_max_path_bytes limits) < length relative then err (TransferError ''output path exceeds the limit'')
       else create_output e uuid dir relative) (\<lambda>created. next_do (modify (on_files (os_others e))) (case created of
         Inl error \<Rightarrow> err error
       | Inr f \<Rightarrow> bind (dropping e f (bind (receive_bytes e f items) (\<lambda>n.
             next_do (publish_temp_as_final e f) (ok n)))) (\<lambda>n.
           case local_id of
             None \<Rightarrow> ok ()
           | Some l \<Rightarrow> record_received_artifact now uuid' (artifact_insert l tid relative
               (case safe_output_path dir relative of Inr p \<Rightarrow> p | Inl _ \<Rightarrow> '''') n))))"

end
