(* ===== verification/Path_Properties.thy ===== *)
theory Path_Properties
  imports File_Paths
begin

text \<open>
  The properties of file names. A relative path that is accepted is a sequence of plain names
  (\<open>plain_name\<close>), and joining it to a directory only appends these names: it never leaves the
  directory. The files of a share have such names and stay within the limits, and every file URL is
  decoded to the path it stands for.
\<close>

section \<open>Pieces and components\<close>

definition plain_name :: "string \<Rightarrow> bool" where
  "plain_name n \<longleftrightarrow> n \<noteq> '''' \<and> n \<noteq> ''.'' \<and> n \<noteq> ''..'' \<and> CHR ''/'' \<notin> set n \<and> CHR 0x5C \<notin> set n \<and> valid_utf8 n"

lemma split_at_nonempty [simp]: "split_at c s \<noteq> []"
  by (induction s) (auto split: list.split)

lemma split_at_append: "split_at c (a @ c # b) = split_at c a @ split_at c b"
proof (induction a)
  case (Cons x a)
  then show ?case by (cases "split_at c a") auto
qed simp

lemma split_at_plain [simp]: "c \<notin> set p \<Longrightarrow> split_at c p = [p]"
  by (induction p) auto

lemma split_at_free: "p \<in> set (split_at c s) \<Longrightarrow> c \<notin> set p"
proof (induction s arbitrary: p)
  case (Cons x s)
  then show ?case by (cases "split_at c s") (auto split: if_splits)
qed simp

lemma split_at_join: "ps \<noteq> [] \<Longrightarrow> \<forall>p \<in> set ps. CHR ''/'' \<notin> set p \<Longrightarrow> split_at (CHR ''/'') (join_parts ps) = ps"
proof (induction ps rule: join_parts.induct)
  case (3 p q ps)
  then show ?case using split_at_append [of "CHR ''/''" p "join_parts (q # ps)"] by simp
qed auto

lemma hd_split_at: "s \<noteq> '''' \<Longrightarrow> hd s \<noteq> c \<Longrightarrow> hd (split_at c s) \<noteq> ''''"
  by (cases s) (auto split: list.split)

lemma component_of_plain [simp]: "plain_name n \<Longrightarrow> component_of n = Some (Normal n)"
  by (simp add: component_of_def plain_name_def)

lemma map_filter_append [simp]: "List.map_filter f (xs @ ys) = List.map_filter f xs @ List.map_filter f ys"
  by (simp add: List.map_filter_def)

lemma map_filter_plain: "\<forall>n \<in> set ps. plain_name n \<Longrightarrow> List.map_filter component_of ps = map Normal ps"
  by (induction ps) (simp_all add: List.map_filter_simps)

lemma hd_join: "ps \<noteq> [] \<Longrightarrow> hd ps \<noteq> '''' \<Longrightarrow> join_parts ps \<noteq> '''' \<and> hd (join_parts ps) = hd (hd ps)"
  by (induction ps rule: join_parts.induct) auto

lemma components_join:
  assumes "ps \<noteq> []" and plain: "\<forall>n \<in> set ps. plain_name n"
  shows "components (join_parts ps) = map Normal ps"
proof -
  have "plain_name (hd ps)" using assms by simp
  then have h: "hd ps \<noteq> ''''" "hd ps \<noteq> ''.''" "CHR ''/'' \<notin> set (hd ps)" by (simp_all add: plain_name_def)
  have "hd (hd ps) \<noteq> CHR ''/''" using h(1,3) by (metis hd_in_set)
  moreover have "split_at (CHR ''/'') (join_parts ps) = ps"
    by (rule split_at_join [OF assms(1)]) (use plain in \<open>simp add: plain_name_def\<close>)
  ultimately show ?thesis
    using hd_join [OF assms(1) h(1)] h(2) map_filter_plain [OF plain] by (simp add: components_def Let_def)
qed

lemma normal_components:
  assumes "Normal n \<in> set (components path)"
  shows "n \<noteq> '''' \<and> n \<noteq> ''.'' \<and> n \<noteq> ''..'' \<and> CHR ''/'' \<notin> set n"
proof -
  have one: "component_of p = Some (Normal n) \<Longrightarrow> p = n \<and> n \<noteq> '''' \<and> n \<noteq> ''.'' \<and> n \<noteq> ''..''" for p
    by (auto simp: component_of_def split: if_splits)
  have "\<exists>p \<in> set (split_at (CHR ''/'') path). component_of p = Some (Normal n)"
    using assms by (auto simp: components_def Let_def List.map_filter_def split: if_splits dest!: list.set_sel(2) [rotated])
  then show ?thesis using one split_at_free by blast
qed

section \<open>Accepted relative paths\<close>

lemma collect_partsD:
  "collect_parts True cs = Inr (front, ps) \<Longrightarrow> front = '''' \<and> cs = map Normal ps \<and> (\<forall>n \<in> set ps. usable_part n)"
proof (induction cs arbitrary: front ps)
  case (Cons c cs)
  then show ?case by (cases c) (auto split: if_splits sum.splits)
qed simp

lemma collect_parts_plain: "\<forall>n \<in> set ps. plain_name n \<Longrightarrow> collect_parts True (map Normal ps) = Inr ('''', ps)"
  by (induction ps) (simp_all add: plain_name_def usable_part_def)

lemma path_to_stringD:
  assumes "path_to_string path True = Inr v"
  obtains ps where "components path = map Normal ps" "\<forall>n \<in> set ps. plain_name n" "v = join_parts ps"
proof -
  from assms obtain front ps where c: "collect_parts True (components path) = Inr (front, ps)" "v = front @ join_parts ps"
    by (auto simp: path_to_string_def split: sum.splits prod.splits)
  note d = collect_partsD [OF c(1)]
  have "plain_name n" if "n \<in> set ps" for n
    using that d normal_components [of n path] by (auto simp: plain_name_def usable_part_def)
  with that d c(2) show thesis by auto
qed

lemma path_to_string_plain: "components path = map Normal ps \<Longrightarrow> \<forall>n \<in> set ps. plain_name n \<Longrightarrow> path_to_string path True = Inr (join_parts ps)"
  by (simp add: path_to_string_def collect_parts_plain)

lemma no_components: "components path = [] \<Longrightarrow> path = ''''"
proof (rule ccontr)
  assume c: "components path = []" and "path \<noteq> ''''"
  moreover from this have "hd path \<noteq> CHR ''/''" "hd (split_at (CHR ''/'') path) \<noteq> ''.''"
    by (auto simp: components_def Let_def split: if_splits)
  ultimately obtain p ps where p: "split_at (CHR ''/'') path = p # ps" "p \<noteq> ''.''" "p \<noteq> ''''"
    using hd_split_at [of path "CHR ''/''"] by (cases "split_at (CHR ''/'') path") auto
  then have "component_of p \<noteq> None" by (simp add: component_of_def)
  with p \<open>path \<noteq> ''''\<close> c show False by (auto simp: components_def Let_def List.map_filter_simps split: if_splits option.splits)
qed

lemma relative_pieces:
  assumes "components path = map Normal ps"
  shows "List.map_filter component_of (split_at (CHR ''/'') path) = map Normal ps"
    and "path = '''' \<or> hd path \<noteq> CHR ''/''"
proof -
  have "path = '''' \<or> hd path \<noteq> CHR ''/'' \<and> hd (split_at (CHR ''/'') path) \<noteq> ''.''"
    using assms by (cases ps) (auto simp: components_def Let_def split: if_splits)
  then show "List.map_filter component_of (split_at (CHR ''/'') path) = map Normal ps" "path = '''' \<or> hd path \<noteq> CHR ''/''"
    using assms by (cases "path = ''''"; simp add: components_def Let_def List.map_filter_simps component_of_def)+
qed

lemma components_below:
  assumes "components path = map Normal ps"
  shows "components (base @ CHR ''/'' # path) = (if base = '''' then [RootDir] else components base) @ map Normal ps"
proof -
  note pieces = split_at_append [of "CHR ''/''" base path]
  have "hd (split_at (CHR ''/'') base @ split_at (CHR ''/'') path) = hd (split_at (CHR ''/'') base)"
    "tl (split_at (CHR ''/'') base @ split_at (CHR ''/'') path) = tl (split_at (CHR ''/'') base) @ split_at (CHR ''/'') path"
    by simp_all
  then show ?thesis using relative_pieces(1) [OF assms] pieces
    by (auto simp: components_def Let_def List.map_filter_simps component_of_def)
qed

lemma components_join_path:
  assumes "components path = map Normal ps"
  shows "components (join_path dir path) = components dir @ map Normal ps"
proof -
  have rel: "path = '''' \<or> hd path \<noteq> CHR ''/''" by (rule relative_pieces(2) [OF assms])
  consider "dir = ''''" | base where "dir = base @ ''/''" | "dir \<noteq> ''''" "last dir \<noteq> CHR ''/''"
    by (metis append_butlast_last_id)
  then show ?thesis
  proof cases
    case 1
    with rel have "join_path dir path = path" by (auto simp: join_path_def)
    with 1 assms show ?thesis by (simp add: components_def)
  next
    case 2
    have "components dir = (if base = '''' then [RootDir] else components base)"
      using components_below [of "''''" "[]" base] 2 by (simp add: components_def)
    then show ?thesis using rel 2 components_below [OF assms, of base] by (auto simp: join_path_def)
  next
    case 3
    then show ?thesis using rel components_below [OF assms, of dir] by (auto simp: join_path_def)
  qed
qed

text \<open>
  C5: a received file name never leaves the chosen directory. When \<open>safe_output_path\<close> accepts a relative
  path, the components of the result are those of the directory followed by plain names only: no \<open>..\<close>,
  no \<open>.\<close>, no root, no separator of another platform inside a name; and these names are exactly the
  normalised relative path.
\<close>

theorem accepted_paths_stay_inside:
  assumes "safe_output_path dir relative = Inr p"
  shows "\<exists>ps. components p = components dir @ map Normal ps \<and> (\<forall>n \<in> set ps. plain_name n)
    \<and> path_to_string relative True = Inr (join_parts ps)"
proof -
  from assms obtain v where v: "path_to_string relative True = Inr v" "p = join_path dir relative"
    by (auto simp: safe_output_path_def split: sum.splits)
  from path_to_stringD [OF v(1)] obtain ps where ps: "components relative = map Normal ps"
    "\<forall>n \<in> set ps. plain_name n" "v = join_parts ps" by blast
  then show ?thesis using v components_join_path by blast
qed

theorem accepted_paths_stay_inside_witness:
  "\<exists>p. safe_output_path ''/home/bob/in'' ''photos//./sea.jpg'' = Inr p
     \<and> (\<exists>ps. components p = [RootDir, Normal ''home'', Normal ''bob'', Normal ''in''] @ map Normal ps \<and> (\<forall>n \<in> set ps. plain_name n))
   \<and> safe_output_path ''/home/bob/in'' ''photos/../../.ssh'' = Inl ''invalid path component''"
proof -
  have p: "safe_output_path ''/home/bob/in'' ''photos//./sea.jpg'' = Inr ''/home/bob/in/photos//./sea.jpg''"
    and bad: "safe_output_path ''/home/bob/in'' ''photos/../../.ssh'' = Inl ''invalid path component''" by code_simp+
  have dir: "components ''/home/bob/in'' = [RootDir, Normal ''home'', Normal ''bob'', Normal ''in'']" by code_simp
  from accepted_paths_stay_inside [OF p] p bad dir show ?thesis by auto
qed

section \<open>The files of a share\<close>

definition good_name :: "string \<Rightarrow> bool" where
  "good_name v \<longleftrightarrow> (\<exists>ps. ps \<noteq> [] \<and> v = join_parts ps \<and> (\<forall>n \<in> set ps. plain_name n))"

lemma normalised_good: "path_to_string path True = Inr v \<Longrightarrow> path \<noteq> '''' \<Longrightarrow> good_name v"
  unfolding good_name_def using no_components by (metis path_to_stringD list.simps(8))

lemma good_name_accepted:
  assumes "good_name v"
  shows "\<exists>ps p. (\<forall>n \<in> set ps. plain_name n) \<and> v = join_parts ps \<and> safe_output_path dir v = Inr p
    \<and> components p = components dir @ map Normal ps"
proof -
  from assms obtain ps where ps: "ps \<noteq> []" "v = join_parts ps" "\<forall>n \<in> set ps. plain_name n" by (auto simp: good_name_def)
  have c: "components v = map Normal ps" unfolding ps(2) by (rule components_join [OF ps(1,3)])
  then have "safe_output_path dir v = Inr (join_path dir v)"
    using path_to_string_plain [OF c ps(3)] by (simp add: safe_output_path_def)
  then show ?thesis using ps(2,3) components_join_path [OF c, of dir] by blast
qed

lemma join_path_nonempty: "name \<noteq> '''' \<Longrightarrow> join_path name path \<noteq> ''''"
  by (auto simp: join_path_def)

lemma display_nonempty: "display_or d (file_name path) \<noteq> ''''" "display_or d None \<noteq> ''''"
proof -
  have "file_name path = Some n \<Longrightarrow> n \<noteq> ''''" for n
  proof -
    assume "file_name path = Some n"
    then have "Normal n \<in> set (rev (components path))"
      unfolding file_name_def by (cases "rev (components path)") (auto split: path_component.splits)
    then show "n \<noteq> ''''" using normal_components [of n path] by simp
  qed
  then show "display_or d (file_name path) \<noteq> ''''" "display_or d None \<noteq> ''''"
    by (auto simp: display_or_def non_empty_def Let_def split: option.splits if_splits bind_splits)
qed

lemma map_sum_Inr [simp]: "map_sum id f x = Inr y \<longleftrightarrow> (\<exists>z. x = Inr z \<and> y = f z)"
  by (cases x) auto

lemma collect_dir_good: "collect_dir_files root name es = Inr fs \<Longrightarrow> name \<noteq> '''' \<Longrightarrow> f \<in> set fs \<Longrightarrow> good_name (if_collection_name f)"
proof (induction root name es arbitrary: fs rule: collect_dir_files.induct)
  case (3 root name is_file relative es)
  show ?case
  proof (cases is_file)
    case True
    with 3(3) obtain cn gs where cn: "path_to_string (join_path name relative) True = Inr cn"
      "collect_dir_files root name es = Inr gs" "fs = \<lparr>if_source = ImportPath (join_path root relative), if_collection_name = cn\<rparr> # gs"
      by (auto split: sum.splits)
    then show ?thesis using 3(2) [OF _ cn(1) cn(2) 3(4)] True 3(4,5) normalised_good [OF cn(1) join_path_nonempty] by auto
  qed (use 3 in auto)
qed auto

lemma collect_source_good: "collect_source e s = Inr fs \<Longrightarrow> f \<in> set fs \<Longrightarrow> good_name (if_collection_name f)"
proof -
  assume s: "collect_source e s = Inr fs" and f: "f \<in> set fs"
  have valid: "validated_relative_string name = Inr cn \<Longrightarrow> name \<noteq> '''' \<Longrightarrow> good_name cn" for name cn
    by (auto simp: validated_relative_string_def split: sum.splits if_splits intro: normalised_good)
  from s show ?thesis
    using f valid display_nonempty collect_dir_good
    by (auto simp: collect_source_def Let_def split: if_splits sum.splits)
qed

lemma collect_sources_good: "collect_sources e ss = Inr fs \<Longrightarrow> f \<in> set fs \<Longrightarrow> good_name (if_collection_name f)"
proof (induction ss arbitrary: fs)
  case (Cons s ss)
  then show ?case using collect_source_good by (auto split: sum.splits)
qed simp

definition known_size :: "fs_env \<Rightarrow> import_file \<Rightarrow> nat" where
  "known_size e f = (case if_source f of
      ImportPath path \<Rightarrow> (case fe_len e path of Inr n \<Rightarrow> unat n | Inl _ \<Rightarrow> 0) | ImportDescriptor _ \<Rightarrow> 0)"

lemma checked_add_Some: "checked_add a b = Some c \<Longrightarrow> unat c = unat a + unat b"
  by (auto simp: checked_add_def unat_word_ariths split: if_splits)

lemma check_filesD:
  "check_files e limits known fs = Inr () \<Longrightarrow> unat known \<le> unat (cl_max_total_bytes limits) \<Longrightarrow>
     (\<forall>f \<in> set fs. length (if_collection_name f) \<le> unat (cl_max_path_bytes limits))
     \<and> unat known + sum_list (map (known_size e) fs) \<le> unat (cl_max_total_bytes limits)"
proof (induction fs arbitrary: known)
  case (Cons f fs)
  show ?case
  proof (cases "if_source f")
    case (ImportPath path)
    with Cons.prems(1) obtain n known' where n: "fe_len e path = Inr n" "checked_add known n = Some known'"
      "\<not> cl_max_total_bytes limits < known'" "check_files e limits known' fs = Inr ()"
      "length (if_collection_name f) \<le> unat (cl_max_path_bytes limits)"
      by (auto split: if_splits sum.splits option.splits)
    then have "unat known' \<le> unat (cl_max_total_bytes limits)" by (simp add: word_le_nat_alt linorder_not_less)
    from Cons.IH [OF n(4) this] show ?thesis using n(1,5) checked_add_Some [OF n(2)] ImportPath by (simp add: known_size_def)
  next
    case (ImportDescriptor fd)
    with Cons show ?thesis by (auto simp: known_size_def split: if_splits)
  qed
qed simp

text \<open>
  C7: every file of a share gets a name that any receiver can use safely. If the files of a share are
  collected, there is at least one and at most the configured number; each has a bounded name made of
  plain names, which every receiver accepts for any directory and which then lies below that directory;
  and the sizes known so far sum up, without overflow, to at most the configured total.
\<close>

theorem shared_files_are_named_safely:
  assumes "collect_import_files_with_limits e sources limits = Inr files"
  shows "files \<noteq> [] \<and> length files \<le> unat (cl_max_collection_files limits)
    \<and> (\<forall>f \<in> set files. length (if_collection_name f) \<le> unat (cl_max_path_bytes limits)
        \<and> (\<exists>ps. if_collection_name f = join_parts ps \<and> (\<forall>n \<in> set ps. plain_name n) \<and> ps \<noteq> [])
        \<and> (\<forall>dir. \<exists>ps p. safe_output_path dir (if_collection_name f) = Inr p \<and> components p = components dir @ map Normal ps))
    \<and> sum_list (map (known_size e) files) \<le> unat (cl_max_total_bytes limits)"
proof -
  from assms have files: "collect_sources e sources = Inr files" "files \<noteq> []"
    "length files \<le> unat (cl_max_collection_files limits)" "check_files e limits 0 files = Inr ()"
    by (auto simp: collect_import_files_with_limits_def split: if_splits sum.splits)
  have good: "good_name (if_collection_name f)" if "f \<in> set files" for f
    by (rule collect_sources_good [OF files(1) that])
  have "\<exists>ps p. safe_output_path dir (if_collection_name f) = Inr p \<and> components p = components dir @ map Normal ps"
    if "f \<in> set files" for f dir using good_name_accepted [OF good [OF that], of dir] by blast
  moreover have "\<exists>ps. if_collection_name f = join_parts ps \<and> (\<forall>n \<in> set ps. plain_name n) \<and> ps \<noteq> []" if "f \<in> set files" for f
    using good [OF that] by (auto simp: good_name_def)
  ultimately show ?thesis using files(2,3) check_filesD [OF files(4)] by simp
qed

definition ref_fs :: fs_env where
  "ref_fs = \<lparr>fe_is_dir = (\<lambda>p. p = ''/p''), fe_walk = (\<lambda>p. [Inr (False, ''''), Inr (True, ''a/b'')]),
     fe_len = (\<lambda>p. Inr 5), fe_dup = (\<lambda>fd. Inr fd)\<rparr>"

definition ref_source :: share_source where
  "ref_source = \<lparr>ss_kind = PathKind, ss_value = ''/p'', ss_display_name = None, ss_is_directory = False\<rparr>"

lemma ref_collected: "collect_import_files_with_limits ref_fs [ref_source] default_core_limits
     = Inr [\<lparr>if_source = ImportPath ''/p/a/b'', if_collection_name = ''p/a/b''\<rparr>]"
proof -
  have "trim ''/p'' = ''/p''" "file_name ''/p'' = Some ''p''" by code_simp+
  moreover have "path_to_string ''p/a/b'' True = Inr ''p/a/b''" by code_simp
  ultimately show ?thesis
    by (simp add: collect_import_files_with_limits_def collect_source_def source_path_def ref_source_def platform_path_def
        FILE_SCHEME_def ref_fs_def display_or_def join_path_def default_core_limits_def checked_add_def Let_def)
qed

theorem shared_files_are_named_safely_witness:
  "\<exists>files. collect_import_files_with_limits ref_fs [ref_source] default_core_limits = Inr files
   \<and> map if_collection_name files = [''p/a/b'']
   \<and> (\<forall>f \<in> set files. \<exists>ps p. safe_output_path ''/in'' (if_collection_name f) = Inr p \<and> components p = components ''/in'' @ map Normal ps)"
  using shared_files_are_named_safely [OF ref_collected] ref_collected by simp

section \<open>File URLs\<close>

text \<open>Any encoding of a path: every byte outside \<open>keep\<close>, and the percent sign, is written as two hex digits.\<close>

definition hex_digit :: "nat \<Rightarrow> char" where
  "hex_digit v = (if v < 10 then char_of (48 + v) else char_of (55 + v))"

definition percent_encode :: "(char \<Rightarrow> bool) \<Rightarrow> string \<Rightarrow> string" where
  "percent_encode keep s = concat (map (\<lambda>c. if keep c \<and> c \<noteq> CHR ''%'' then [c]
     else [CHR ''%'', hex_digit (of_char c div 16), hex_digit (of_char c mod 16)]) s)"

lemma hex_digit_code: "v < 16 \<Longrightarrow> of_char (hex_digit v) = (if v < 10 then 48 + v else 55 + v)"
  by (simp add: hex_digit_def take_bit_nat_eq_self)

lemma hex_digit_value: "v < 16 \<Longrightarrow> hex_value (hex_digit v) = Some v"
  by (simp add: hex_value_def hex_digit_code)

lemma hex_digit_ascii: "v < 16 \<Longrightarrow> hex_digit v \<noteq> CHR ''+'' \<and> (of_char (hex_digit v) :: nat) < 0x80"
proof
  assume v: "v < 16"
  then have "(of_char (hex_digit v) :: nat) \<noteq> of_char (CHR ''+'')" by (simp add: hex_digit_code)
  then show "hex_digit v \<noteq> CHR ''+''" by metis
  show "(of_char (hex_digit v) :: nat) < 0x80" using v by (simp add: hex_digit_code)
qed

lemma decode_escape:
  "percent_decode_bytes (CHR ''%'' # hex_digit (of_char c div 16) # hex_digit (of_char c mod 16) # s)
   = map_sum id (\<lambda>r. c # r) (percent_decode_bytes s)"
proof -
  have d: "(of_char c :: nat) div 16 < 16" "(of_char c :: nat) mod 16 < 16" using nat_of_char_less_256 [of c] by (simp_all del: nat_of_char_less_256)
  have "valid_utf8 [hex_digit (of_char c div 16), hex_digit (of_char c mod 16)]"
    using hex_digit_ascii [OF d(1)] hex_digit_ascii [OF d(2)] by (simp add: valid_utf8_def bytes_of_def)
  moreover have "parse_hex_pair (hex_digit (of_char c div 16)) (hex_digit (of_char c mod 16)) = Some (of_char c)"
    using hex_digit_ascii [OF d(1)] d by (simp add: parse_hex_pair_def hex_digit_value)
  ultimately show ?thesis by simp
qed

text \<open>
  every percent-encoding of a path, whichever characters it keeps, is decoded to exactly that path.
\<close>

theorem file_url_roundtrip:
  assumes "valid_utf8 path"
  shows "percent_decode_file_url_path (percent_encode keep path) = Inr path"
proof -
  have "percent_decode_bytes (percent_encode keep s) = Inr s" for s
    by (induction s) (simp_all add: percent_encode_def decode_escape del: percent_decode_bytes.simps(2), simp)
  then show ?thesis using assms by (simp add: percent_decode_file_url_path_def)
qed

theorem file_url_roundtrip_witness:
  "percent_encode (\<lambda>c. c = CHR ''/'') ''/a %'' = ''/%61%20%25'' \<and> percent_decode_file_url_path ''/%61%20%25'' = Inr ''/a %''"
proof -
  have "percent_encode (\<lambda>c. c = CHR ''/'') ''/a %'' = ''/%61%20%25''" "valid_utf8 ''/a %''" by code_simp+
  with file_url_roundtrip [of "''/a %''" "\<lambda>c. c = CHR ''/''"] show ?thesis by simp
qed

text \<open>A plus sign before a single digit is accepted as an escape, since \<open>from_str_radix\<close> takes a sign.\<close>

lemma signed_escape_is_accepted: "percent_decode_file_url_path ''%+5'' = Inr [char_of (5 :: nat)]"
  by code_simp

end
