(* ===== verification/Output_Properties.thy ===== *)
theory Output_Properties
  imports Output_Files Path_Properties
begin




section \<open>Creating the temporary file\<close>






section \<open>Writing and publishing\<close>













section \<open>Receiving a file\<close>






definition ref_os :: os_env where
  "ref_os = \<lparr>os_mkdir = (\<lambda>_. True), os_canonical = Some, os_canonical_later = Some, os_now = 0, os_open = True,
     os_links = True, os_exclusive = True, os_unlink = (\<lambda>_ _. True), os_write = (\<lambda>_. None), os_others = (\<lambda>fs. fs), os_race = (\<lambda>fs. fs)\<rparr>"

definition ref_receiver :: "disk_file list \<Rightarrow> receiver" where
  "ref_receiver files = \<lparr>
     targeted_transfers = [], accepted_offer_intents = [], authorization_delivery_outbox = [],
     completion_outbox = [], payload_release_outbox = [], schema_migrations = [], db_faults = [],
     protected_secret_refs = [], vs_values = [], vs_corrupted = [], vs_failures = [],
     device_relationships = [], generation_tombstones = [], emitted = [],
     pairing_eligibilities = [], blocked_endpoints = [],
     w_inbox = new_inbox 16 (new_cooldown 60000 5), w_active = [], w_cancelled = [], w_hashes = [], w_access = new_policy,
     w_tags = [], w_tag_faults = [], w_invitations = [],
     iv_transfers = [], iv_artifacts = [], iv_events = [], iv_requests = [], iv_receipts = [], rc_files = files\<rparr>"

definition ref_old :: disk_file where
  "ref_old = \<lparr>df_dir = [RootDir, Normal ''in''], df_name = ''old'', df_regular = True, df_bytes = ''x'', df_modified = 0\<rparr>"

definition ref_new :: disk_file where
  "ref_new = \<lparr>df_dir = [RootDir, Normal ''in''], df_name = ''a'', df_regular = True, df_bytes = ''hello'', df_modified = 0\<rparr>"

lemma ref_target: "check_target ref_os ''/in'' ''a'' = Inr ([RootDir, Normal ''in''], ''a'')"
  by code_simp

lemma old_is_no_part: "\<not> part_name ''old''"
  by (simp add: part_name_def)

lemmas ref_run_simps = export_blob_to_directory_def create_output_def bind_def lift_def cleanup_stale_temporary_files_def
  gets_def open_temporary_def next_do_def ok_def err_def dropping_def attempt_def modify_def receive_bytes_def write_file_def
  publish_temp_as_final_def link_file_def remove_file_def ref_receiver_def ref_old_def ref_new_def file_at_def stale_part_def
  temporary_name_def default_core_limits_def Let_def ref_os_def old_is_no_part update_where_def delete_where_def exists_where_def

lemma ref_export:
  "export_blob_to_directory ref_os default_core_limits 0 ''u'' ''v'' 7 None ''/in'' ''a'' [SizeItem 5, DataItem 0 ''hel'', DataItem 3 ''lo'']
     (ref_receiver [ref_old]) = (Inr (), ref_receiver [ref_old, ref_new])"
  using ref_target by (simp add: ref_run_simps)




end
