(* ===== verification/Approval.thy ===== *)
theory Approval
  imports Invitation_Store Pairing
begin

text \<open>
  Who may download a shared transfer: the approval service of the sender (\<^verbatim>\<open>approval.rs\<close>) and the
  messages it answers (\<^verbatim>\<open>handshake.rs\<close>). A request that needs the user's decision waits on a
  oneshot channel; the call is split at that wait. \<open>waiter\<close> is such a suspended call: its arguments
  and the receiving end of its channel. \<open>finish_decision\<close> is its rest, run when a decision was sent,
  when the sending end was dropped, or when the time is up. The user's answer is split too, between
  taking the channel and using it, since the time may be up in between. The hash of a receipt token
  (\<open>blake3\<close>) is the parameter \<open>ae_token_hash\<close>; tokens, request ids and clock readings are arguments.
\<close>

section \<open>handshake.rs\<close>

record transfer_request =
  rx_transfer_id :: u64
  rx_transfer_hash :: string
  rx_transfer_name :: string
  rx_receiver_name :: "string option"
  rx_receiver_device_name :: "string option"
  rx_app_version :: string

datatype HandshakeResponse =
    HandshakeApproved string string int "string option"
  | HandshakeDenied string

record delivery_receipt =
  de_request_id :: string
  de_transfer_id :: u64
  de_token :: string

record delivery_failure_receipt = delivery_receipt +
  de_reason :: string

datatype DeliveryReceiptResponse = Recorded | ReceiptRejected string

section \<open>The service\<close>

record approval_decision =
  ad_request_id :: string
  ad_accepted :: bool
  ad_reason :: "string option"

datatype oneshot = Waiting | Sent approval_decision | Dropped

record waiter =
  aw_request_id :: string
  aw_remote :: string
  aw_request :: transfer_request
  aw_channel :: oneshot

record approvals = host +
  ap_pending :: "string list"
  ap_waiters :: "waiter list"

record approval_env =
  ae_pair :: pair_env
  ae_has_eligibility :: bool
  ae_max_pending :: nat
  ae_max_metadata_bytes :: u64
  ae_token_hash :: "string \<Rightarrow> string"

definition APPROVAL_TTL_MS :: int where
  "APPROVAL_TTL_MS = APPROVAL_SESSION_TTL_MS"

definition receipt_token_hash :: "approval_env \<Rightarrow> string \<Rightarrow> string" where
  "receipt_token_hash e token = ae_token_hash e token"

definition deny :: "string \<Rightarrow> ('z relations_scheme, HandshakeResponse) proc" where
  "deny reason = next_do (emit ''approval'' ''receiver-refused'') (ok (HandshakeDenied reason))"

text \<open>Receipts of the receiver.\<close>

definition complete_delivery ::
    "approval_env \<Rightarrow> int \<Rightarrow> int \<Rightarrow> string \<Rightarrow> string \<Rightarrow> delivery_receipt
     \<Rightarrow> ('z approvals_scheme, DeliveryReceiptResponse) proc" where
  "complete_delivery e now now' uuid remote d = attempt
     (complete_receiver_delivery now (de_request_id d) (de_transfer_id d) remote (receipt_token_hash e (de_token d)))
     (\<lambda>r. case r of
        Inr name \<Rightarrow> next_do
          (if ae_has_eligibility e
           then quietly (activate_after_completed_transfer (ae_pair e) now' uuid remote name (de_request_id d) (de_token d))
           else ok ())
          (next_do (emit ''delivery'' ''receiver-completed'') (ok Recorded))
      | Inl _ \<Rightarrow> ok (ReceiptRejected ''invalid-receipt''))"

definition fail_delivery ::
    "approval_env \<Rightarrow> string \<Rightarrow> delivery_failure_receipt \<Rightarrow> ('z approvals_scheme, DeliveryReceiptResponse) proc" where
  "fail_delivery e remote d = attempt
     (fail_receiver_delivery (de_request_id d) (de_transfer_id d) remote (receipt_token_hash e (de_token d)) (de_reason d))
     (\<lambda>r. case r of
        Inr _ \<Rightarrow> next_do (emit ''delivery'' ''receiver-failed'') (ok Recorded)
      | Inl _ \<Rightarrow> ok (ReceiptRejected ''invalid-receipt''))"

text \<open>The user's answer: \<open>take_sender\<close> removes the channel from the pending map and tells whether
  there was one; the rest stores the answer and sends it, or drops the channel on an error.\<close>

definition forget_pending :: "string \<Rightarrow> 'z approvals_scheme \<Rightarrow> 'z approvals_scheme" where
  "forget_pending rid s = s\<lparr>ap_pending := removeAll rid (ap_pending s)\<rparr>"

definition set_channel :: "string \<Rightarrow> oneshot \<Rightarrow> 'z approvals_scheme \<Rightarrow> 'z approvals_scheme" where
  "set_channel rid c s = s\<lparr>ap_waiters := update_where (\<lambda>w. aw_request_id w = rid) (\<lambda>w. w\<lparr>aw_channel := c\<rparr>) (ap_waiters s)\<rparr>"

definition take_sender :: "string \<Rightarrow> ('z approvals_scheme, bool) proc" where
  "take_sender rid = bind (gets (\<lambda>s. List.member (ap_pending s) rid)) (\<lambda>found.
     next_do (modify (forget_pending rid)) (ok found))"

definition conclude_approval ::
    "int \<Rightarrow> string \<Rightarrow> bool \<Rightarrow> string option \<Rightarrow> bool \<Rightarrow> ('z approvals_scheme, unit) proc" where
  "conclude_approval now rid accepted reason sender = attempt
     (update_receiver_request_status now rid (if accepted then RrAccepted else RrRefused) reason)
     (\<lambda>r. case r of
        Inl error \<Rightarrow> next_do (modify (if sender then set_channel rid Dropped else (\<lambda>s. s))) (err error)
      | Inr _ \<Rightarrow> modify (if sender then set_channel rid (Sent \<lparr>ad_request_id = rid, ad_accepted = accepted,
            ad_reason = reason\<rparr>) else (\<lambda>s. s)))"

definition respond_to_receiver :: "int \<Rightarrow> string \<Rightarrow> bool \<Rightarrow> string option \<Rightarrow> ('z approvals_scheme, unit) proc" where
  "respond_to_receiver now rid accepted reason = bind (take_sender rid) (conclude_approval now rid accepted reason)"

text \<open>Requests.\<close>

definition receiver_insert :: "string \<Rightarrow> string \<Rightarrow> transfer_request \<Rightarrow> receiver_request_insert" where
  "receiver_insert rid remote r = \<lparr>qi_id = rid, qi_transfer_id = rx_transfer_id r, qi_remote_endpoint_id = remote,
     qi_transfer_name = rx_transfer_name r, qi_receiver_name = rx_receiver_name r,
     qi_receiver_device_name = rx_receiver_device_name r, qi_app_version = rx_app_version r\<rparr>"

definition approved_response ::
    "string \<Rightarrow> string \<Rightarrow> int \<Rightarrow> transfer_request \<Rightarrow> ('z host_scheme, HandshakeResponse) proc" where
  "approved_response rid token expires_at r = attempt (send_sender_name (rx_transfer_id r) (rx_transfer_hash r))
     (\<lambda>name. ok (HandshakeApproved rid token expires_at (case name of Inr n \<Rightarrow> n | Inl _ \<Rightarrow> None)))"

definition allow_without_sender_decision ::
    "approval_env \<Rightarrow> int \<Rightarrow> string \<Rightarrow> string \<Rightarrow> string \<Rightarrow> transfer_request
     \<Rightarrow> ('z host_scheme, HandshakeResponse) proc" where
  "allow_without_sender_decision e now rid token remote r = attempt
     (next_do (insert_receiver_request now (receiver_insert rid remote r))
     (next_do (update_receiver_request_status now rid RrAccepted None)
       (set_receiver_receipt_token rid (receipt_token_hash e token))))
     (\<lambda>stored. case stored of
        Inl _ \<Rightarrow> deny ''repository-error''
      | Inr _ \<Rightarrow> next_do (emit ''access'' ''receiver-auto-approved'')
          (approved_response rid token (now + APPROVAL_TTL_MS) r))"

text \<open>\<open>Inl\<close>: the answer; \<open>Inr rid\<close>: the call waits for the user under this request id.\<close>

type_synonym handshake_outcome = "HandshakeResponse + string"

definition answered :: "('s, HandshakeResponse) proc \<Rightarrow> ('s, handshake_outcome) proc" where
  "answered m = bind m (\<lambda>r. ok (Inl r))"

definition open_waiter :: "string \<Rightarrow> string \<Rightarrow> transfer_request \<Rightarrow> 'z approvals_scheme \<Rightarrow> 'z approvals_scheme" where
  "open_waiter rid remote r s = s\<lparr>ap_pending := rid # removeAll rid (ap_pending s),
     ap_waiters := \<lparr>aw_request_id = rid, aw_remote = remote, aw_request = r, aw_channel = Waiting\<rparr> # ap_waiters s\<rparr>"

definition close_waiter :: "string \<Rightarrow> 'z approvals_scheme \<Rightarrow> 'z approvals_scheme" where
  "close_waiter rid s = s\<lparr>ap_waiters := delete_where (\<lambda>w. aw_request_id w = rid) (ap_waiters s)\<rparr>"

definition wait_for_sender_decision ::
    "approval_env \<Rightarrow> int \<Rightarrow> string \<Rightarrow> string \<Rightarrow> transfer_request \<Rightarrow> ('z approvals_scheme, handshake_outcome) proc" where
  "wait_for_sender_decision e now rid remote r = bind (gets (\<lambda>s. length (ap_pending s))) (\<lambda>n.
     if n \<ge> ae_max_pending e then answered (deny ''too-many-pending-approvals'')
     else next_do (modify (open_waiter rid remote r))
       (attempt (insert_receiver_request now (receiver_insert rid remote r)) (\<lambda>stored. case stored of
          Inl _ \<Rightarrow> next_do (modify (\<lambda>s. close_waiter rid (forget_pending rid s))) (answered (deny ''repository-error''))
        | Inr _ \<Rightarrow> next_do (emit ''approval'' ''receiver-requested'') (ok (Inr rid)))))"

definition metadata_values :: "transfer_request \<Rightarrow> string list" where
  "metadata_values r = [rx_transfer_hash r, rx_transfer_name r,
     (case rx_receiver_name r of Some n \<Rightarrow> n | None \<Rightarrow> ''''),
     (case rx_receiver_device_name r of Some n \<Rightarrow> n | None \<Rightarrow> ''''), rx_app_version r]"

definition policy_decision :: "int \<Rightarrow> u64 \<Rightarrow> string option \<Rightarrow> ('z world_scheme, AccessDecision) proc" where
  "policy_decision now transfer endpoint s =
     (let (d, p) = decide now transfer endpoint (w_access s) in (Inr d, s\<lparr>w_access := p\<rparr>))"

definition request_transfer ::
    "approval_env \<Rightarrow> int \<Rightarrow> string \<Rightarrow> string \<Rightarrow> string \<Rightarrow> transfer_request
     \<Rightarrow> ('z approvals_scheme, handshake_outcome) proc" where
  "request_transfer e now rid token remote r = bind (is_blocked remote) (\<lambda>blocked.
     if blocked then answered (deny ''not-accepted'')
     else if list_ex (\<lambda>v. unat (ae_max_metadata_bytes e) < length v) (metadata_values r)
     then answered (deny ''metadata-too-large'')
     else next_do (emit ''handshake'' ''transfer-requested'')
       (attempt (send_exists (rx_transfer_id r) (rx_transfer_hash r)) (\<lambda>found. case found of
          Inr True \<Rightarrow> bind (policy_decision now (rx_transfer_id r) (Some remote)) (\<lambda>d.
            if d = Allow then answered (allow_without_sender_decision e now rid token remote r)
            else wait_for_sender_decision e now rid remote r)
        | Inr False \<Rightarrow> answered (deny ''unknown-transfer'')
        | Inl _ \<Rightarrow> answered (deny ''repository-error''))))"

text \<open>The rest of a waiting call: a decision, or a dropped channel or the end of the time.\<close>

definition approve_session :: "u64 \<Rightarrow> string \<Rightarrow> int \<Rightarrow> 'z world_scheme \<Rightarrow> 'z world_scheme" where
  "approve_session transfer endpoint expires_at s =
     s\<lparr>w_access := approve_endpoint_until transfer endpoint (Some expires_at) (w_access s)\<rparr>"

definition finish_decision ::
    "approval_env \<Rightarrow> int \<Rightarrow> string \<Rightarrow> waiter \<Rightarrow> ('z approvals_scheme, HandshakeResponse) proc" where
  "finish_decision e now token w = next_do (modify (close_waiter (aw_request_id w))) (case aw_channel w of
      Sent d \<Rightarrow>
        if ad_accepted d
        then next_do (modify (approve_session (rx_transfer_id (aw_request w)) (aw_remote w) (now + APPROVAL_TTL_MS)))
          (next_do (emit ''approval'' ''receiver-accepted'')
          (attempt (set_receiver_receipt_token (ad_request_id d) (receipt_token_hash e token)) (\<lambda>r. case r of
             Inl _ \<Rightarrow> ok (HandshakeDenied ''repository-error'')
           | Inr _ \<Rightarrow> approved_response (ad_request_id d) token (now + APPROVAL_TTL_MS) (aw_request w))))
        else deny (case ad_reason d of Some x \<Rightarrow> x | None \<Rightarrow> ''sender-refused'')
    | _ \<Rightarrow> next_do (modify (forget_pending (aw_request_id w)))
        (next_do (quietly (update_receiver_request_status now (aw_request_id w) RrExpired (Some ''approval timed out'')))
          (deny ''approval-timeout'')))"

section \<open>Messages\<close>

datatype HandshakeMessage =
    RequestTransferMessage transfer_request
  | ReportDelivery delivery_receipt
  | ReportDeliveryFailure delivery_failure_receipt

datatype handshake_answer = HandshakeOutcome handshake_outcome | ReceiptAnswer DeliveryReceiptResponse

text \<open>\<open>remote\<close> is the authenticated endpoint of the connection.\<close>

definition handle_handshake_message ::
    "approval_env \<Rightarrow> int \<Rightarrow> int \<Rightarrow> string \<Rightarrow> string \<Rightarrow> string \<Rightarrow> HandshakeMessage
     \<Rightarrow> ('z approvals_scheme, handshake_answer) proc" where
  "handle_handshake_message e now now' uuid token remote m = (case m of
      RequestTransferMessage r \<Rightarrow> bind (request_transfer e now uuid token remote r) (\<lambda>x. ok (HandshakeOutcome x))
    | ReportDelivery d \<Rightarrow> bind (complete_delivery e now now' uuid remote d) (\<lambda>x. ok (ReceiptAnswer x))
    | ReportDeliveryFailure d \<Rightarrow> bind (fail_delivery e remote d) (\<lambda>x. ok (ReceiptAnswer x)))"

end
