(* ===== verification/Share_Runtime.thy ===== *)
theory Share_Runtime
  imports Approval File_Paths
begin

text \<open>
  The runtime around invitation transfers (\<^verbatim>\<open>runtime/share.rs\<close>, \<^verbatim>\<open>lifecycle.rs\<close>, \<^verbatim>\<open>provider.rs\<close>,
  \<^verbatim>\<open>receive.rs\<close>, \<^verbatim>\<open>delivery.rs\<close> and the start in \<^verbatim>\<open>mod.rs\<close>): which blobs are served to whom, how a share
  begins, is published, stops and comes back after a restart, and what a receive leaves behind. The
  maps of the code are lists of entries; the registry of hashes, the tags and the access policy are
  those of \<open>world\<close>. Importing, downloading and network calls lie between two operations: their results
  are arguments. The parameters say how a hash is parsed, which collection the blob store holds for
  a root hash, and whether a stored ticket fits the relay profile (\<^verbatim>\<open>ticket_matches_relay_profile\<close>).
\<close>

record runtime = approvals +
  rt_connections :: "(u64 \<times> string) list"
  rt_active_shares :: "u64 list"
  rt_active_transfers :: "(u64 \<times> TransferDirection) list"
  rt_stopped :: "u64 list"

record runtime_env =
  nv_approval :: approval_env
  nv_limits :: core_limits
  nv_parse_hash :: "string \<Rightarrow> string option"
  nv_collection :: "string \<Rightarrow> string list option"
  nv_profile_matches :: "string \<Rightarrow> bool"

section \<open>Registries\<close>

definition owners_of :: "string \<Rightarrow> (string \<times> u64 list) list \<Rightarrow> u64 list" where
  "owners_of h registry = (case map_of registry h of Some owners \<Rightarrow> owners | None \<Rightarrow> [])"

definition register_hash :: "u64 \<Rightarrow> string \<Rightarrow> (string \<times> u64 list) list \<Rightarrow> (string \<times> u64 list) list" where
  "register_hash tid h registry =
     (if exists_where (\<lambda>e. fst e = h) registry
      then update_where (\<lambda>e. fst e = h) (\<lambda>(h, owners). (h, List.insert tid owners)) registry
      else registry @ [(h, [tid])])"

definition register_share_hashes :: "u64 \<Rightarrow> string list \<Rightarrow> ('z world_scheme, unit) proc" where
  "register_share_hashes tid hashes = modify (\<lambda>s. s\<lparr>w_hashes := fold (register_hash tid) hashes (w_hashes s)\<rparr>)"

definition unregister_transfer_hashes :: "u64 \<Rightarrow> ('z world_scheme, unit) proc" where
  "unregister_transfer_hashes tid = release_hashes tid"

definition share_tag_name :: "string \<Rightarrow> string" where
  "share_tag_name local_id = ''vnidrop/share/'' @ local_id"

definition set_tag :: "string \<Rightarrow> ('z world_scheme, unit) proc" where
  "set_tag name s = (let s0 = s\<lparr>w_tag_faults := tl (w_tag_faults s)\<rparr> in
     case w_tag_faults s of
       Some reason # _ \<Rightarrow> (Inl (TransferError reason), s0)
     | _ \<Rightarrow> (Inr (), s0\<lparr>w_tags := List.insert name (w_tags s0)\<rparr>))"

abbreviation on_policy :: "(access_policy \<Rightarrow> access_policy) \<Rightarrow> ('z world_scheme, unit) proc" where
  "on_policy f \<equiv> modify (\<lambda>s. s\<lparr>w_access := f (w_access s)\<rparr>)"

definition add_share :: "u64 \<Rightarrow> 'z runtime_scheme \<Rightarrow> 'z runtime_scheme" where
  "add_share tid s = s\<lparr>rt_active_shares := List.insert tid (rt_active_shares s)\<rparr>"

definition drop_share :: "u64 \<Rightarrow> 'z runtime_scheme \<Rightarrow> 'z runtime_scheme" where
  "drop_share tid s = s\<lparr>rt_active_shares := removeAll tid (rt_active_shares s)\<rparr>"

definition add_active :: "u64 \<Rightarrow> TransferDirection \<Rightarrow> 'z runtime_scheme \<Rightarrow> 'z runtime_scheme" where
  "add_active tid d s = s\<lparr>rt_active_transfers := (tid, d) # filter (\<lambda>(k, _). k \<noteq> tid) (rt_active_transfers s)\<rparr>"

definition drop_active :: "u64 \<Rightarrow> 'z runtime_scheme \<Rightarrow> 'z runtime_scheme" where
  "drop_active tid s = s\<lparr>rt_active_transfers := filter (\<lambda>(k, _). k \<noteq> tid) (rt_active_transfers s)\<rparr>"

section \<open>provider.rs\<close>

definition endpoint_of :: "u64 \<Rightarrow> 'z runtime_scheme \<Rightarrow> string option" where
  "endpoint_of connection s = map_of (rt_connections s) connection"

text \<open>The transfers are asked in the order of the registry's set; the decisions of one message are
  taken at one time.\<close>

fun allow_any :: "int \<Rightarrow> string option \<Rightarrow> string \<Rightarrow> u64 list \<Rightarrow> ('z world_scheme, string + u64) proc" where
  "allow_any now endpoint reason [] = ok (Inl reason)"
| "allow_any now endpoint reason (t # ts) = bind (policy_decision now t endpoint) (\<lambda>d. case d of
      Allow \<Rightarrow> ok (Inr t) | Deny r \<Rightarrow> allow_any now endpoint r ts)"

definition allow_any_transfer :: "int \<Rightarrow> u64 list \<Rightarrow> u64 \<Rightarrow> ('z runtime_scheme, string + u64) proc" where
  "allow_any_transfer now ts connection = bind (gets (endpoint_of connection)) (\<lambda>ep.
     allow_any now ep ''approval-required'' ts)"

definition authorize_hash :: "int \<Rightarrow> u64 \<Rightarrow> string \<Rightarrow> ('z runtime_scheme, string + u64) proc" where
  "authorize_hash now connection h = bind (gets (\<lambda>s. owners_of h (w_hashes s))) (\<lambda>ts.
     if ts = [] then ok (Inl ''unknown-hash'') else allow_any_transfer now ts connection)"

fun authorize_all :: "int \<Rightarrow> u64 \<Rightarrow> u64 option \<Rightarrow> string list \<Rightarrow> ('z runtime_scheme, string + u64) proc" where
  "authorize_all now connection attributed [] =
     ok (case attributed of Some t \<Rightarrow> Inr t | None \<Rightarrow> Inl ''empty-request'')"
| "authorize_all now connection attributed (h # hs) = bind (authorize_hash now connection h) (\<lambda>r. case r of
      Inl reason \<Rightarrow> ok (Inl reason)
    | Inr t \<Rightarrow> authorize_all now connection (Some (case attributed of Some t' \<Rightarrow> t' | None \<Rightarrow> t)) hs)"

definition authorize_hashes :: "int \<Rightarrow> u64 \<Rightarrow> string list \<Rightarrow> ('z runtime_scheme, string + u64) proc" where
  "authorize_hashes now connection hs =
     (if hs = [] then ok (Inl ''empty-request'') else authorize_all now connection None hs)"

datatype provider_message =
    ClientConnected u64 "string option"
  | ClientConnectedNotify u64 "string option"
  | ConnectionClosed u64
  | GetRequestReceived u64 string
  | GetRequestReceivedNotify u64 string
  | GetManyRequestReceived u64 "string list"
  | GetManyRequestReceivedNotify u64 "string list"
  | ObserveRequestReceived u64 string
  | ObserveRequestReceivedNotify u64 string
  | Throttle u64
  | OtherProviderMessage

text \<open>The reply, and the transfer whose progress is tracked. A notification has no reply.\<close>

datatype provider_reply = Permitted | Refused | NoReply

definition connect_client :: "u64 \<Rightarrow> string option \<Rightarrow> ('z runtime_scheme, unit) proc" where
  "connect_client connection endpoint = next_do (emit ''provider'' ''client-connected'') (modify (\<lambda>s. case endpoint of
      None \<Rightarrow> s
    | Some ep \<Rightarrow> s\<lparr>rt_connections := (connection, ep) # filter (\<lambda>(c, _). c \<noteq> connection) (rt_connections s)\<rparr>))"

definition handle_provider_message ::
    "int \<Rightarrow> provider_message \<Rightarrow> ('z runtime_scheme, provider_reply \<times> u64 option) proc" where
  "handle_provider_message now m = (case m of
      ClientConnected c ep \<Rightarrow> next_do (connect_client c ep) (ok (Permitted, None))
    | ClientConnectedNotify c ep \<Rightarrow> next_do (connect_client c ep) (ok (NoReply, None))
    | ConnectionClosed c \<Rightarrow> next_do
        (modify (\<lambda>s. s\<lparr>rt_connections := filter (\<lambda>(k, _). k \<noteq> c) (rt_connections s)\<rparr>))
        (next_do (emit ''provider'' ''connection-closed'') (ok (NoReply, None)))
    | GetRequestReceived c h \<Rightarrow> bind (authorize_hash now c h) (\<lambda>r. case r of
          Inr t \<Rightarrow> ok (Permitted, Some t)
        | Inl _ \<Rightarrow> next_do (emit ''provider'' ''request-denied'') (ok (Refused, None)))
    | GetRequestReceivedNotify c h \<Rightarrow> bind (authorize_hash now c h) (\<lambda>r. case r of
          Inr t \<Rightarrow> ok (NoReply, Some t) | Inl _ \<Rightarrow> ok (NoReply, None))
    | GetManyRequestReceived c hs \<Rightarrow> bind (authorize_hashes now c hs) (\<lambda>r. case r of
          Inr t \<Rightarrow> ok (Permitted, Some t)
        | Inl _ \<Rightarrow> next_do (emit ''provider'' ''request-denied'') (ok (Refused, None)))
    | GetManyRequestReceivedNotify c hs \<Rightarrow> bind (authorize_hashes now c hs) (\<lambda>r. case r of
          Inr t \<Rightarrow> ok (NoReply, Some t) | Inl _ \<Rightarrow> ok (NoReply, None))
    | ObserveRequestReceived c h \<Rightarrow> bind (authorize_hash now c h) (\<lambda>r. case r of
          Inr _ \<Rightarrow> next_do (emit ''provider'' ''observe-request'') (ok (Permitted, None))
        | Inl _ \<Rightarrow> next_do (emit ''provider'' ''observe-denied'') (ok (Refused, None)))
    | ObserveRequestReceivedNotify c h \<Rightarrow> next_do (emit ''provider'' ''observe-request'') (ok (NoReply, None))
    | Throttle c \<Rightarrow> next_do (emit ''provider'' ''throttle-request'') (ok (Permitted, None))
    | OtherProviderMessage \<Rightarrow> next_do (emit ''provider'' ''provider-message'') (ok (NoReply, None)))"

text \<open>The updates of one request: each is reported; a stream that ends without a final update was aborted.\<close>

datatype request_update = UpdateStarted | UpdateProgress u64 | UpdateCompleted | UpdateAborted

datatype RequestStreamOutcome = TerminalUpdateReceived | StreamAborted

definition consume_request_updates :: "request_update list \<Rightarrow> RequestStreamOutcome" where
  "consume_request_updates us =
     (if list_ex (\<lambda>u. u = UpdateCompleted \<or> u = UpdateAborted) us then TerminalUpdateReceived else StreamAborted)"

definition update_kind :: "request_update \<Rightarrow> string" where
  "update_kind u = (case u of UpdateStarted \<Rightarrow> ''started'' | UpdateProgress _ \<Rightarrow> ''progress''
     | UpdateCompleted \<Rightarrow> ''completed'' | UpdateAborted \<Rightarrow> ''aborted'')"

definition track_request_updates :: "request_update list \<Rightarrow> ('z relations_scheme, unit) proc" where
  "track_request_updates us = modify (\<lambda>s. s\<lparr>emitted := emitted s @ map (\<lambda>u. (''transfer'', update_kind u)) us @
     (if consume_request_updates us = StreamAborted then [(''transfer'', ''aborted'')] else [])\<rparr>)"


section \<open>share.rs\<close>

record share_metadata =
  sm_transfer_id :: u64
  sm_transfer_name :: "string option"
  sm_sender_name :: "string option"
  sm_access_mode :: TransferAccessMode

record transfer_import =
  im_root_hash :: string
  im_member_hashes :: "string list"
  im_total_size :: u64
  im_file_count :: u64
  im_default_name :: string

definition metadata_fits :: "core_limits \<Rightarrow> string option \<Rightarrow> bool" where
  "metadata_fits limits v = (case v of None \<Rightarrow> True | Some t \<Rightarrow> length t \<le> unat (cl_max_metadata_bytes limits))"

definition importing_row :: "share_metadata \<Rightarrow> transfer_upsert" where
  "importing_row m = \<lparr>tu_transfer_id = sm_transfer_id m, tu_peer_id = None, tu_direction = Send, tu_status = TsImporting,
     tu_transfer_name = sm_transfer_name m, tu_sender_name = sm_sender_name m, tu_content_hash = None, tu_ticket = None,
     tu_file_count = 0, tu_total_size = 0, tu_access_mode = mode_to_storage (sm_access_mode m)\<rparr>"

text \<open>\<open>share_files\<close> up to the import.\<close>

definition begin_share :: "core_limits \<Rightarrow> int \<Rightarrow> string \<Rightarrow> nat \<Rightarrow> share_metadata \<Rightarrow> ('z runtime_scheme, unit) proc" where
  "begin_share limits now uuid sources m =
     (if sources = 0 then err (InvalidInput ''at least one source is required'')
      else if unat (cl_max_sources limits) < sources then err (InvalidInput ''source count exceeds limit'')
      else if \<not> metadata_fits limits (sm_transfer_name m) \<or> \<not> metadata_fits limits (sm_sender_name m)
      then err (InvalidInput ''metadata too long'')
      else bind (contains_protocol_id (sm_transfer_id m)) (\<lambda>reserved.
        if reserved then err (InvalidInput ''transfer id is already reserved by a targeted transfer'')
        else next_do (insert_transfer now uuid (importing_row m))
          (next_do (modify (add_active (sm_transfer_id m) Send)) (emit ''import'' ''started''))))"

text \<open>The size of a collection: the sizes summed up without overflow, and the limit.\<close>

fun total_size :: "u64 \<Rightarrow> u64 list \<Rightarrow> u64 option" where
  "total_size t [] = Some t"
| "total_size t (n # ns) = (if unat t + unat n < 2 ^ 64 then total_size (t + n) ns else None)"

definition import_total :: "core_limits \<Rightarrow> u64 list \<Rightarrow> vnidrop_error + u64" where
  "import_total limits sizes = (case total_size 0 sizes of
      None \<Rightarrow> Inl (TransferError ''collection size overflow'')
    | Some t \<Rightarrow> if cl_max_total_bytes limits < t then Inl (TransferError ''collection size exceeds transfer limit'') else Inr t)"

datatype add_item = AddSize u64 | CopyProgress u64 | CopyDone | OutboardProgress u64 | AddDone string | AddError string

fun consume_add_progress :: "core_limits \<Rightarrow> u64 \<Rightarrow> add_item list \<Rightarrow> ('z relations_scheme, string \<times> u64) proc" where
  "consume_add_progress limits known [] = err (TransferError ''import stream ended without a tag'')"
| "consume_add_progress limits known (AddSize n # is) =
     (if cl_max_total_bytes limits < n then err (TransferError ''file size exceeds transfer limit'')
      else consume_add_progress limits n is)"
| "consume_add_progress limits known (CopyProgress n # is) =
     next_do (emit ''import'' ''copy-progress'') (consume_add_progress limits known is)"
| "consume_add_progress limits known (CopyDone # is) =
     next_do (emit ''import'' ''copy-done'') (consume_add_progress limits known is)"
| "consume_add_progress limits known (OutboardProgress n # is) =
     next_do (emit ''import'' ''outboard-progress'') (consume_add_progress limits known is)"
| "consume_add_progress limits known (AddDone h # is) = ok (h, known)"
| "consume_add_progress limits known (AddError m # is) = err (TransferError m)"

text \<open>
  \<open>share_files_inner\<close> after the import. The sender's name is the one the ticket carries, an empty one
  is left out; \<open>ticket\<close> is the result of encoding the ticket.
\<close>

definition share_name :: "share_metadata \<Rightarrow> transfer_import \<Rightarrow> string" where
  "share_name m im = (case Option.bind (sm_transfer_name m) non_empty of Some n \<Rightarrow> n | None \<Rightarrow> im_default_name im)"

definition shared_row :: "share_metadata \<Rightarrow> transfer_import \<Rightarrow> string \<Rightarrow> transfer_upsert" where
  "shared_row m im ticket = \<lparr>tu_transfer_id = sm_transfer_id m, tu_peer_id = None, tu_direction = Send,
     tu_status = TsSharing, tu_transfer_name = Some (share_name m im), tu_sender_name = Option.bind (sm_sender_name m) non_empty,
     tu_content_hash = Some (im_root_hash im), tu_ticket = Some ticket, tu_file_count = im_file_count im,
     tu_total_size = im_total_size im, tu_access_mode = mode_to_storage (sm_access_mode m)\<rparr>"

definition publish_share ::
    "int \<Rightarrow> share_metadata \<Rightarrow> transfer_import \<Rightarrow> vnidrop_error + string \<Rightarrow> ('z runtime_scheme, unit) proc" where
  "publish_share now m im encoded = next_do (emit ''import'' ''done'') (bind (lift encoded) (\<lambda>ticket.
     bind (transfer_local_id (sm_transfer_id m)) (\<lambda>local_id.
     next_do (set_tag (share_tag_name local_id))
       (attempt (complete_share_import now (shared_row m im ticket)) (\<lambda>r. case r of
          Inl error \<Rightarrow> next_do (quietly (delete_tag (share_tag_name local_id))) (err error)
        | Inr _ \<Rightarrow> next_do (register_share_hashes (sm_transfer_id m) (im_root_hash im # im_member_hashes im))
            (next_do (on_policy (set_mode (sm_transfer_id m) (sm_access_mode m)))
            (next_do (modify (add_share (sm_transfer_id m))) (emit ''ticket'' ''created''))))))))"

section \<open>lifecycle.rs\<close>

definition stop_serving :: "u64 \<Rightarrow> ('z runtime_scheme, unit) proc" where
  "stop_serving tid = next_do (modify (drop_share tid)) (next_do (unregister_transfer_hashes tid) (on_policy (remove_transfer tid)))"

definition cancel_preparation :: "int \<Rightarrow> u64 \<Rightarrow> ('z runtime_scheme, unit) proc" where
  "cancel_preparation now tid = next_do (cancel_share_preparation now tid) (next_do (stop_serving tid)
     (bind (transfer_local_id tid) (\<lambda>local_id. delete_tag (share_tag_name local_id))))"

definition cancel_idle_or_share :: "int \<Rightarrow> u64 \<Rightarrow> ('z runtime_scheme, unit) proc" where
  "cancel_idle_or_share now tid = bind (gets (\<lambda>s. List.member (rt_active_shares s) tid)) (\<lambda>active.
     if \<not> active then err (TransferError ''transfer not found'')
     else bind (transfer_local_id tid) (\<lambda>local_id.
       next_do (transition_transfer_status now tid TsSharing TsStopped)
       (next_do (stop_serving tid)
       (next_do (delete_tag (share_tag_name local_id)) (emit ''lifecycle'' ''share-stopped'')))))"

fun refuse_requests :: "int \<Rightarrow> receiver_request list \<Rightarrow> ('z approvals_scheme, unit) proc" where
  "refuse_requests now [] = ok ()"
| "refuse_requests now (q # qs) = next_do
     (if rq_status q = request_as_str RrRequested
      then quietly (respond_to_receiver now (rq_id q) False (Some ''transfer deleted by sender'')) else ok ())
     (refuse_requests now qs)"

text \<open>
  One step here. The code holds the lock of \<open>active_shares\<close> only while it removes the entry; that no import publishes
  in between rests on the check of \<open>active_transfers\<close> at the beginning.
\<close>

definition delete_share :: "int \<Rightarrow> u64 \<Rightarrow> ('z runtime_scheme, unit) proc" where
  "delete_share now tid = bind (gets (\<lambda>s. map_of (rt_active_transfers s) tid)) (\<lambda>active.
     if active \<noteq> None then err (TransferError ''an active transfer must finish or be cancelled before deletion'')
     else bind list_history (\<lambda>rows. case List.find (\<lambda>r. st_transfer_id r = tid) rows of
       None \<Rightarrow> err (TransferError ''transfer not found'')
     | Some r \<Rightarrow> next_do
         (if st_status r = status_as_str TsSharing then transition_transfer_status now tid TsSharing TsStopped else ok ())
         (bind (list_receiver_requests tid) (\<lambda>requests. next_do (refuse_requests now requests)
         (next_do (stop_serving tid)
         (next_do (if st_direction r = direction_as_str Send then delete_tag (share_tag_name (st_local_id r)) else ok ())
           (delete_transfer tid)))))))"

definition set_transfer_access_mode :: "int \<Rightarrow> u64 \<Rightarrow> TransferAccessMode \<Rightarrow> ('z runtime_scheme, unit) proc" where
  "set_transfer_access_mode now tid mode = next_do (update_active_share_access_mode now tid (mode_to_storage mode))
     (next_do (on_policy (set_mode tid mode)) (emit ''access'' ''mode-updated''))"

definition approve_endpoint_for_transfer ::
    "core_limits \<Rightarrow> int \<Rightarrow> u64 \<Rightarrow> string \<Rightarrow> ('z runtime_scheme, unit) proc" where
  "approve_endpoint_for_transfer limits now tid endpoint = (let ep = trim endpoint in
     if ep = '''' then err (TransferError ''endpoint id must not be empty'')
     else if unat (cl_max_metadata_bytes limits) < length ep then err (TransferError ''endpoint id too long'')
     else bind (gets (\<lambda>s. List.member (rt_active_shares s) tid)) (\<lambda>active.
       if \<not> active then err (TransferError ''transfer is not an active share'')
       else next_do (on_policy (approve_endpoint now tid ep)) (emit ''access'' ''endpoint-approved'')))"

text \<open>Cancelling by the user (\<^verbatim>\<open>facade.rs\<close>): a running transfer is signalled first.\<close>

definition take_active_transfer :: "u64 \<Rightarrow> ('z runtime_scheme, TransferDirection option) proc" where
  "take_active_transfer tid = bind (gets (\<lambda>s. map_of (rt_active_transfers s) tid)) (\<lambda>found. case found of
      None \<Rightarrow> ok None
    | Some d \<Rightarrow> next_do (modify (\<lambda>s. (drop_active tid s)\<lparr>rt_stopped := rt_stopped s @ [tid]\<rparr>)) (ok (Some d)))"

definition cancel_transfer :: "int \<Rightarrow> u64 \<Rightarrow> ('z runtime_scheme, unit) proc" where
  "cancel_transfer now tid = bind (take_active_transfer tid) (\<lambda>active. case active of
      Some Send \<Rightarrow> cancel_preparation now tid
    | Some Receive \<Rightarrow> next_do (transition_transfer_status now tid TsReceiving TsCancelled)
        (emit ''lifecycle'' ''cancel-requested'')
    | None \<Rightarrow> cancel_idle_or_share now tid)"

text \<open>The end of \<open>share_files\<close>: the transfer is no longer active, and a failure is recorded.\<close>

definition fail_share :: "int \<Rightarrow> u64 \<Rightarrow> ('z runtime_scheme, unit) proc" where
  "fail_share now tid = next_do (modify (drop_active tid)) (next_do (emit ''error'' ''failed'')
     (quietly (transition_transfer_status now tid TsImporting TsFailed)))"

definition abandon_share :: "int \<Rightarrow> u64 \<Rightarrow> ('z runtime_scheme, unit) proc" where
  "abandon_share now tid = next_do (modify (drop_active tid)) (next_do (cancel_preparation now tid)
     (emit ''lifecycle'' ''cancelled''))"


section \<open>The start of the program\<close>

text \<open>A share whose blobs are gone fails, one whose ticket does not fit the relay profile stops, any other is
  served again with its stored access mode.\<close>

definition restore_share :: "runtime_env \<Rightarrow> int \<Rightarrow> persisted_share \<Rightarrow> ('z runtime_scheme, string option) proc" where
  "restore_share e now sh = (case Option.bind (nv_parse_hash e (ps_content_hash sh)) (\<lambda>h. map_option (Pair h) (nv_collection e h)) of
      None \<Rightarrow> next_do (transition_transfer_status now (ps_transfer_id sh) TsSharing TsFailed)
        (next_do (emit ''recovery'' ''share-root-missing-or-corrupt'') (ok None))
    | Some (h, members) \<Rightarrow>
        if \<not> (case ps_ticket sh of None \<Rightarrow> False | Some t \<Rightarrow> nv_profile_matches e t)
        then next_do (transition_transfer_status now (ps_transfer_id sh) TsSharing TsStopped)
          (next_do (emit ''recovery'' ''share-stopped-network-profile-changed'') (ok None))
        else next_do (set_tag (share_tag_name (ps_local_id sh)))
          (next_do (register_share_hashes (ps_transfer_id sh) (h # members))
          (next_do (modify (add_share (ps_transfer_id sh)))
          (next_do (on_policy (set_mode (ps_transfer_id sh) (mode_from_storage (ps_access_mode sh))))
            (ok (Some (share_tag_name (ps_local_id sh))))))))"

fun restore_shares :: "runtime_env \<Rightarrow> int \<Rightarrow> persisted_share list \<Rightarrow> ('z runtime_scheme, string list) proc" where
  "restore_shares e now [] = ok []"
| "restore_shares e now (sh # shs) = bind (restore_share e now sh) (\<lambda>tag.
     bind (restore_shares e now shs) (\<lambda>tags. ok ((case tag of Some t \<Rightarrow> [t] | None \<Rightarrow> []) @ tags)))"

fun delete_tags :: "string list \<Rightarrow> ('z world_scheme, unit) proc" where
  "delete_tags [] = ok ()"
| "delete_tags (t # ts) = next_do (delete_tag t) (delete_tags ts)"

definition share_tag :: "string \<Rightarrow> bool" where
  "share_tag name \<longleftrightarrow> take (length ''vnidrop/share/'') name = ''vnidrop/share/''"

definition fresh_memory :: "'z runtime_scheme \<Rightarrow> 'z runtime_scheme" where
  "fresh_memory s = s\<lparr>w_hashes := [], w_access := new_policy, ap_pending := [], ap_waiters := [], rt_connections := [],
     rt_active_shares := [], rt_active_transfers := [], rt_stopped := []\<rparr>"

definition emit_recovered :: "recovered_transfer list \<Rightarrow> ('z relations_scheme, unit) proc" where
  "emit_recovered rs = modify (\<lambda>s. s\<lparr>emitted := emitted s @ map (\<lambda>_. (''recovery'', ''interrupted-transfer-failed'')) rs\<rparr>)"

definition restore_invitations :: "runtime_env \<Rightarrow> int \<Rightarrow> ('z runtime_scheme, unit) proc" where
  "restore_invitations e now = next_do (modify fresh_memory)
     (bind (recover_interrupted_transfers now) (\<lambda>recovered. next_do (emit_recovered recovered)
     (bind (expire_pending_receiver_requests now ''application restarted before approval'') (\<lambda>expired.
        next_do (if 0 < expired then emit ''recovery'' ''pending-approvals-expired'' else ok ())
     (bind list_active_shares (\<lambda>shares.
      bind (restore_shares e now shares) (\<lambda>tags.
      bind (gets (\<lambda>s. filter (\<lambda>t. share_tag t \<and> \<not> List.member tags t) (w_tags s))) delete_tags)))))))"

section \<open>receive.rs\<close>

definition receiving_row :: "u64 \<Rightarrow> string \<Rightarrow> string \<Rightarrow> string option \<Rightarrow> string \<Rightarrow> u64 \<Rightarrow> u64 \<Rightarrow> transfer_upsert" where
  "receiving_row tid peer name sender hash files bytes = \<lparr>tu_transfer_id = tid, tu_peer_id = Some peer,
     tu_direction = Receive, tu_status = TsReceiving, tu_transfer_name = Some name, tu_sender_name = sender,
     tu_content_hash = Some hash, tu_ticket = None, tu_file_count = files, tu_total_size = bytes,
     tu_access_mode = mode_to_storage ApprovalRequired\<rparr>"

definition persist_receive_start :: "int \<Rightarrow> string \<Rightarrow> transfer_upsert \<Rightarrow> ('z runtime_scheme, unit) proc" where
  "persist_receive_start now uuid t = next_do (start_receive now uuid t)
     (next_do (emit ''lifecycle'' ''started'') (modify (add_active (tu_transfer_id t) Receive)))"

text \<open>The remote sizes, the root of the collection first: the number of files and their total are checked.\<close>

definition check_remote_sizes :: "core_limits \<Rightarrow> u64 list \<Rightarrow> vnidrop_error + u64" where
  "check_remote_sizes limits sizes = (case total_size 0 sizes of
      None \<Rightarrow> Inl (TransferError ''remote collection size overflow'')
    | Some t \<Rightarrow> if unat (cl_max_collection_files limits) < length sizes - 1
        then Inl (TransferError ''remote collection has too many files'')
        else if cl_max_total_bytes limits < t then Inl (TransferError ''remote collection size exceeds limit'') else Inr t)"

text \<open>The receiver's side of the handshake.\<close>

definition request_transfer_approval ::
    "u64 \<Rightarrow> vnidrop_error + HandshakeResponse \<Rightarrow> vnidrop_error + delivery_receipt \<times> string option" where
  "request_transfer_approval tid response = (case response of
      Inl e \<Rightarrow> Inl e
    | Inr (HandshakeApproved rid token expires sender) \<Rightarrow>
        Inr (\<lparr>de_request_id = rid, de_transfer_id = tid, de_token = token\<rparr>, sender)
    | Inr (HandshakeDenied reason) \<Rightarrow> Inl (Permission reason))"

definition pending_receipt :: "u64 \<Rightarrow> string \<Rightarrow> delivery_receipt \<Rightarrow> string option \<Rightarrow> pending_delivery_receipt" where
  "pending_receipt tid address d reason = \<lparr>dp_local_transfer_id = tid, dp_sender_blob_ticket = address,
     dp_request_id = de_request_id d, dp_sender_transfer_id = de_transfer_id d, dp_token = de_token d,
     dp_failure_reason = reason\<rparr>"

definition finish_receive ::
    "approval_env \<Rightarrow> int \<Rightarrow> string \<Rightarrow> u64 \<Rightarrow> string \<Rightarrow> string \<Rightarrow> string option \<Rightarrow> delivery_receipt \<Rightarrow> ('z runtime_scheme, unit) proc" where
  "finish_receive e now uuid tid address peer sender d =
     next_do (complete_receive_with_pending_receipt now (pending_receipt tid address d None))
     (next_do (quietly (activate_after_completed_transfer (ae_pair e) now uuid peer sender (de_request_id d) (de_token d)))
     (next_do (emit ''lifecycle'' ''done'') (modify (drop_active tid))))"

text \<open>A receive that failed or was cancelled; \<open>receipt\<close> is what the sender has approved so far.\<close>

definition fail_receive ::
    "int \<Rightarrow> u64 \<Rightarrow> string \<Rightarrow> bool \<Rightarrow> string \<Rightarrow> delivery_receipt option \<Rightarrow> ('z runtime_scheme, unit) proc" where
  "fail_receive now tid address cancelled code receipt = next_do (modify (drop_active tid))
     (next_do (if cancelled then emit ''lifecycle'' ''cancelled''
        else next_do (emit ''error'' ''failed'') (quietly (transition_transfer_status now tid TsReceiving TsFailed)))
     (case receipt of
        None \<Rightarrow> ok ()
      | Some d \<Rightarrow> attempt (queue_failed_delivery_receipt now
            (pending_receipt tid address d (Some (if cancelled then ''cancelled'' else code))))
          (\<lambda>r. case r of Inr _ \<Rightarrow> ok () | Inl _ \<Rightarrow> emit ''delivery'' ''receipt-failed'')))"

section \<open>delivery.rs\<close>

datatype receipt_reply = ReceiptReply DeliveryReceiptResponse | ReceiptCallFailed | ReceiptTimedOut

text \<open>\<open>address\<close> and \<open>permit\<close>: whether the stored address can be read and the relay profile lets it through.\<close>

definition deliver_pending_receipt ::
    "bool \<Rightarrow> bool \<Rightarrow> receipt_reply \<Rightarrow> pending_delivery_receipt \<Rightarrow> ('z runtime_scheme, unit) proc" where
  "deliver_pending_receipt address permit reply d =
     (if \<not> address then next_do (quietly (delete_pending_delivery_receipt (dp_request_id d))) (emit ''delivery'' ''receipt-rejected'')
      else if \<not> permit then emit ''delivery'' ''receipt-failed''
      else case reply of
        ReceiptReply Recorded \<Rightarrow> attempt (delete_pending_delivery_receipt (dp_request_id d)) (\<lambda>r. case r of
            Inl _ \<Rightarrow> ok () | Inr _ \<Rightarrow> emit ''delivery'' ''receipt-recorded'')
      | ReceiptReply (ReceiptRejected _) \<Rightarrow> next_do (quietly (delete_pending_delivery_receipt (dp_request_id d)))
          (emit ''delivery'' ''receipt-rejected'')
      | _ \<Rightarrow> emit ''delivery'' ''receipt-failed'')"

fun deliver_all :: "(pending_delivery_receipt \<Rightarrow> bool \<times> bool \<times> receipt_reply) \<Rightarrow> pending_delivery_receipt list
     \<Rightarrow> ('z runtime_scheme, unit) proc" where
  "deliver_all net [] = ok ()"
| "deliver_all net (d # ds) = next_do (case net d of (address, permit, reply) \<Rightarrow> deliver_pending_receipt address permit reply d)
     (deliver_all net ds)"

definition deliver_pending_receipts ::
    "(pending_delivery_receipt \<Rightarrow> bool \<times> bool \<times> receipt_reply) \<Rightarrow> ('z runtime_scheme, bool) proc" where
  "deliver_pending_receipts net = attempt list_pending_delivery_receipts (\<lambda>r. case r of
      Inl _ \<Rightarrow> ok True
    | Inr ds \<Rightarrow> next_do (deliver_all net ds) (ok (ds \<noteq> [])))"

definition DELIVERY_RECEIPT_RETRY_INTERVAL :: nat where
  "DELIVERY_RECEIPT_RETRY_INTERVAL = 5"

definition DELIVERY_RECEIPT_MAX_RETRY_INTERVAL :: nat where
  "DELIVERY_RECEIPT_MAX_RETRY_INTERVAL = 5 * 60"

text \<open>The pause before the next round, in seconds: it doubles while receipts are left and nobody notifies.\<close>

definition next_interval :: "bool \<Rightarrow> bool \<Rightarrow> nat \<Rightarrow> nat" where
  "next_interval has_pending notified interval =
     (if has_pending \<and> \<not> notified then min (2 * interval) DELIVERY_RECEIPT_MAX_RETRY_INTERVAL
      else DELIVERY_RECEIPT_RETRY_INTERVAL)"

end
