(* ===== verification/Approval_Runs.thy ===== *)
theory Approval_Runs
  imports Approval Pairing_Facts
begin

text \<open>
  Runs of the invitation store and the approval service. \<open>host_command\<close> has a constructor for every
  operation that writes, for every message of a receiver, for the parts of the calls that wait and
  for a restart. The interface \<open>requests_preorder\<close> says what a relation on states has to satisfy to be
  kept by the operations on receivers' requests; \<open>updates_preorder\<close> adds the other tables,
  \<open>repository_preorder\<close> new transfers,
  \<open>decision_preorder\<close> the memory of the service, \<open>approval_preorder\<close> both. They are interpreted for the
  life of rows (\<open>rows_follow\<close>), for well-formed tables (\<open>keeps_host\<close>), for bounds on the memory
  (\<open>memory_within\<close>) and for what the service never touches (\<open>ended\<close> shares).
\<close>

section \<open>How rows may change\<close>

text \<open>The life of a receiver's request.\<close>

inductive request_edge :: "ReceiverRequestStatus \<Rightarrow> ReceiverRequestStatus \<Rightarrow> bool" where
  "request_edge RrRequested RrAccepted"
| "request_edge RrRequested RrRefused"
| "request_edge RrRequested RrExpired"
| "request_edge RrAccepted RrCompleted"
| "request_edge RrAccepted RrFailed"

text \<open>The life of a transfer: the transition table, and a finished receive that starts again.\<close>

definition history_edge :: "string \<Rightarrow> TransferStatus \<Rightarrow> TransferStatus \<Rightarrow> bool" where
  "history_edge direction x y \<longleftrightarrow> can_transition_to x y \<or>
     direction = ''receive'' \<and> x \<in> {TsDone, TsFailed, TsCancelled} \<and> y = TsReceiving"

definition text_moves :: "('a \<Rightarrow> string) \<Rightarrow> ('a \<Rightarrow> 'a \<Rightarrow> bool) \<Rightarrow> string \<Rightarrow> string \<Rightarrow> bool" where
  "text_moves as_str edge a b \<longleftrightarrow> a = b \<or> (\<exists>x y. a = as_str x \<and> b = as_str y \<and> edge\<^sup>*\<^sup>* x y)"

lemma text_moves_refl [simp]: "text_moves as_str edge a a"
  by (simp add: text_moves_def)

lemma text_moves_trans:
  assumes "inj as_str" and "text_moves as_str edge a b" and "text_moves as_str edge b c"
  shows "text_moves as_str edge a c"
  using assms unfolding text_moves_def by (metis (no_types, lifting) injD rtranclp_trans)

lemma text_moves_edge: "edge x y \<Longrightarrow> text_moves as_str edge (as_str x) (as_str y)"
  unfolding text_moves_def by (blast intro: r_into_rtranclp)

lemma inj_as_str: "inj status_as_str" "inj request_as_str"
  by (rule injI, rename_tac x y, case_tac x; case_tac y; simp add: status_as_str_def request_as_str_def)+

definition row_follows :: "transfer_row \<Rightarrow> transfer_row \<Rightarrow> bool" where
  "row_follows r q \<longleftrightarrow> it_transfer_id q = it_transfer_id r \<and> it_local_id q = it_local_id r
     \<and> it_direction q = it_direction r \<and> it_created_at q = it_created_at r
     \<and> text_moves status_as_str (history_edge (it_direction r)) (it_status r) (it_status q)"

definition request_follows :: "request_row \<Rightarrow> request_row \<Rightarrow> bool" where
  "request_follows r q \<longleftrightarrow> rr_id q = rr_id r \<and> rr_transfer_id q = rr_transfer_id r
     \<and> rr_remote_endpoint_id q = rr_remote_endpoint_id r \<and> rr_requested_at q = rr_requested_at r
     \<and> text_moves request_as_str request_edge (rr_status r) (rr_status q)"

lemma row_follows_refl [simp]: "row_follows r r"
  by (simp add: row_follows_def)

lemma request_follows_refl [simp]: "request_follows r r"
  by (simp add: request_follows_def)

lemma row_follows_trans: "row_follows r q \<Longrightarrow> row_follows q p \<Longrightarrow> row_follows r p"
  using text_moves_trans [OF inj_as_str(1)] by (auto simp: row_follows_def)

lemma request_follows_trans: "request_follows r q \<Longrightarrow> request_follows q p \<Longrightarrow> request_follows r p"
  using text_moves_trans [OF inj_as_str(2)] by (auto simp: request_follows_def)

section \<open>Well-formed tables\<close>

definition history_row_ok :: "transfer_row \<Rightarrow> bool" where
  "history_row_ok r \<longleftrightarrow> direction_try_from (it_direction r) \<noteq> None \<and> status_try_from (it_status r) \<noteq> None"

definition request_row_ok :: "request_row \<Rightarrow> bool" where
  "request_row_ok q \<longleftrightarrow> request_try_from (rr_status q) \<noteq> None"

definition artifacts_ok :: "artifact_row list \<Rightarrow> bool" where
  "artifacts_ok rows \<longleftrightarrow> distinct (map ra_id rows)
     \<and> distinct (map (\<lambda>r. (ra_transfer_local_id r, ra_relative_path r)) rows)
     \<and> (\<forall>r \<in> set rows. \<exists>k. ra_locator_kind r = locator_kind_to_storage k)"

definition host_ok :: "'z host_scheme \<Rightarrow> bool" where
  "host_ok s \<longleftrightarrow> distinct (map it_transfer_id (iv_transfers s)) \<and> distinct (map it_local_id (iv_transfers s))
     \<and> (\<forall>r \<in> set (iv_transfers s). history_row_ok r)
     \<and> distinct (map rr_id (iv_requests s)) \<and> (\<forall>q \<in> set (iv_requests s). request_row_ok q)
     \<and> artifacts_ok (iv_artifacts s) \<and> distinct (map ce_id (iv_events s))
     \<and> distinct (map dp_request_id (iv_receipts s))"

definition fresh_row :: "transfer_row \<Rightarrow> transfer_row list \<Rightarrow> bool" where
  "fresh_row r rows \<longleftrightarrow> history_row_ok r \<and> it_transfer_id r \<notin> it_transfer_id ` set rows
     \<and> it_local_id r \<notin> it_local_id ` set rows"

definition fresh_request :: "request_row \<Rightarrow> request_row list \<Rightarrow> bool" where
  "fresh_request q rows \<longleftrightarrow> request_row_ok q \<and> rr_id q \<notin> rr_id ` set rows"

lemma text_moves_status: "text_moves status_as_str edge a b \<Longrightarrow> status_try_from a \<noteq> None \<Longrightarrow> status_try_from b \<noteq> None"
  by (auto simp: text_moves_def status_roundtrip)

lemma text_moves_request: "text_moves request_as_str edge a b \<Longrightarrow> request_try_from a \<noteq> None \<Longrightarrow> request_try_from b \<noteq> None"
  by (auto simp: text_moves_def request_roundtrip)

section \<open>Interfaces\<close>

text \<open>What the services below never touch.\<close>

definition host_frame :: "'z approvals_scheme \<Rightarrow> 'z approvals_scheme \<Rightarrow> bool" where
  "host_frame s t \<longleftrightarrow> iv_transfers t = iv_transfers s \<and> iv_artifacts t = iv_artifacts s
     \<and> iv_events t = iv_events s \<and> iv_requests t = iv_requests s \<and> iv_receipts t = iv_receipts s
     \<and> w_access t = w_access s \<and> ap_pending t = ap_pending s \<and> ap_waiters t = ap_waiters s
     \<and> w_hashes t = w_hashes s \<and> approvals.more t = approvals.more s"

interpretation hf: eligibility_preorder host_frame
proof
  fix s t u :: "'z approvals_scheme" and fs l P
  show "host_frame s s" by (simp add: host_frame_def)
  show "host_frame s t \<Longrightarrow> host_frame t u \<Longrightarrow> host_frame s u" by (simp add: host_frame_def)
  show "host_frame s (s\<lparr>db_faults := fs\<rparr>)" by (simp add: host_frame_def)
  show "custody_frame s t \<Longrightarrow> host_frame s t"
    by (cases s; cases t) (simp add: custody_frame_def host_frame_def)
  show "host_frame s (s\<lparr>emitted := l\<rparr>)" by (simp add: host_frame_def)
  show "host_frame s (on_eligibilities (delete_where P) s)" by (simp add: host_frame_def)
qed

lemma frame_refresh: "stable host_frame (refresh_authenticated_peer p nm n)"
  unfolding rel_write_defs rel_update_def
  by (intro hf.stable_bind hf.stable_ok hf.stable_transact) (auto simp: host_frame_def)

interpretation ha: activation_preorder host_frame "\<lambda>_. True" "\<lambda>_. True"
  by unfold_locales (simp_all add: frame_refresh host_frame_def)


text \<open>The rows the statements write.\<close>

lemma finished_texts: "a \<in> set TERMINAL_RECEIVES \<Longrightarrow> \<exists>x \<in> {TsDone, TsFailed, TsCancelled}. a = status_as_str x"
  by (auto simp: TERMINAL_RECEIVES_def status_as_str_def)

lemma restart_follows: "terminal_receive r \<Longrightarrow> row_follows r (restart_receive t n r)"
proof -
  assume r: "terminal_receive r"
  then obtain x where x: "x \<in> {TsDone, TsFailed, TsCancelled}" "it_status r = status_as_str x"
    using finished_texts [of "it_status r"] by (auto simp: terminal_receive_def)
  have "history_edge (it_direction r) x TsReceiving" using x(1) r by (simp add: history_edge_def terminal_receive_def)
  then have "text_moves status_as_str (history_edge (it_direction r)) (it_status r) ''receiving''"
    using x(2) text_moves_edge [of "history_edge (it_direction r)" x TsReceiving status_as_str] by (simp add: status_as_str_def)
  then show ?thesis by (simp add: row_follows_def restart_receive_def)
qed

lemma new_row_ok:
  "history_row_ok (transfer_row_of t u (direction_as_str d) (status_as_str st) n)"
  "history_row_ok (transfer_row_of t u ''receive'' ''receiving'' n)"
  by (auto simp: history_row_ok_def transfer_row_of_def direction_roundtrip status_roundtrip)
    (rule exI [of _ Receive], simp add: direction_as_str_def, rule exI [of _ TsReceiving], simp add: status_as_str_def)

lemma new_row_fresh:
  "fresh_row (transfer_row_of t u d st n) rows \<longleftrightarrow> history_row_ok (transfer_row_of t u d st n) \<and>
     \<not> exists_where (\<lambda>r. it_transfer_id r = tu_transfer_id t \<or> it_local_id r = u) rows"
  by (force simp: fresh_row_def transfer_row_of_def)

lemma status_write_follows:
  assumes "it_status r = status_as_str x" and "can_transition_to x y"
    and "q = r\<lparr>it_status := status_as_str y, it_updated_at := n\<rparr>"
  shows "row_follows r q"
  using assms text_moves_edge [of "history_edge (it_direction r)" x y status_as_str]
  by (simp add: row_follows_def history_edge_def)

lemma request_write_follows:
  assumes "rr_status r = request_as_str x" and "request_edge x y" and "rr_status q = request_as_str y"
    and "rr_id q = rr_id r" "rr_transfer_id q = rr_transfer_id r"
    and "rr_remote_endpoint_id q = rr_remote_endpoint_id r" "rr_requested_at q = rr_requested_at r"
  shows "request_follows r q"
  using assms text_moves_edge [of request_edge x y request_as_str] by (simp add: request_follows_def)


lemma shared_follows:
  assumes "it_direction r = ''send''" and "it_status r = ''importing''"
    and "q = r\<lparr>it_status := status_as_str TsSharing, it_transfer_name := a, it_sender_name := b, it_content_hash := c,
      it_ticket := d, it_file_count := f, it_total_size := g, it_access_mode := m, it_updated_at := n\<rparr>"
  shows "row_follows r q"
  using assms text_moves_edge [of "history_edge ''send''" TsImporting TsSharing status_as_str]
  by (simp add: row_follows_def history_edge_def can_transition_to_def status_as_str_def)

lemma literal_follows:
  assumes "it_status r = status_as_str x" and "can_transition_to x y" and "a = status_as_str y"
  shows "row_follows r (r\<lparr>it_status := a, it_updated_at := n\<rparr>)"
  using status_write_follows [OF assms(1,2) refl, of n] assms(3) by simp

lemma cancelled_follows:
  "it_status r = ''importing'' \<Longrightarrow> row_follows r (r\<lparr>it_status := ''cancelled'', it_updated_at := n\<rparr>)"
  "it_status r = ''sharing'' \<Longrightarrow> row_follows r (r\<lparr>it_status := ''stopped'', it_updated_at := n\<rparr>)"
  using literal_follows [of r TsImporting TsCancelled] literal_follows [of r TsSharing TsStopped]
  by (simp_all add: status_as_str_def can_transition_to_def)

lemma done_follows: "it_status r = ''receiving'' \<Longrightarrow> row_follows r (r\<lparr>it_status := ''done'', it_updated_at := n\<rparr>)"
  by (rule literal_follows [of r TsReceiving TsDone]) (simp_all add: status_as_str_def can_transition_to_def)

lemma failed_follows: "interrupted r \<Longrightarrow> row_follows r (r\<lparr>it_status := ''failed'', it_updated_at := n\<rparr>)"
  using literal_follows [of r TsImporting TsFailed] literal_follows [of r TsReceiving TsFailed]
  by (auto simp: status_as_str_def can_transition_to_def interrupted_def)

lemma answered_follows:
  assumes "rr_status r = ''requested''" and "st = RrAccepted \<or> st = RrRefused \<or> st = RrExpired" and "a = request_as_str st"
  shows "request_follows r (r\<lparr>rr_status := a, rr_reason := b, rr_responded_at := c\<rparr>)"
  by (rule request_write_follows [of r RrRequested st])
    (use assms in \<open>auto simp: request_as_str_def intro: request_edge.intros\<close>)

lemma new_request_fresh:
  "rr_status q = ''requested'' \<Longrightarrow> fresh_request q rows \<longleftrightarrow> \<not> exists_where (\<lambda>r. rr_id r = rr_id q) rows"
  unfolding fresh_request_def request_row_ok_def by (simp add: request_try_from_def image_iff) metis

lemma receipt_follows:
  assumes "receipt_for rid t ep h ''accepted'' r"
  shows "request_follows r (completed_now c r)"
    and "request_follows r (r\<lparr>rr_status := ''failed'', rr_reason := d\<rparr>)"
  by (rule request_write_follows [of r RrAccepted RrCompleted], use assms in
      \<open>simp_all add: completed_now_def request_as_str_def receipt_for_def request_edge.intros\<close>)
    (rule request_write_follows [of r RrAccepted RrFailed], use assms in
      \<open>simp_all add: request_as_str_def receipt_for_def request_edge.intros\<close>)

lemma artifacts_update:
  assumes "artifacts_ok rows" and "\<And>r. ra_id (u r) = ra_id r" "\<And>r. ra_transfer_local_id (u r) = ra_transfer_local_id r"
    "\<And>r. ra_relative_path (u r) = ra_relative_path r" "\<And>r. \<exists>k. ra_locator_kind (u r) = locator_kind_to_storage k"
  shows "artifacts_ok (update_where P u rows)"
  using assms by (auto simp: artifacts_ok_def map_update_where set_update_where)

lemma artifacts_append:
  assumes "artifacts_ok rows" and "\<forall>r \<in> set rows. ra_id r \<noteq> ra_id a"
    and "\<forall>r \<in> set rows. ra_transfer_local_id r = ra_transfer_local_id a \<longrightarrow> ra_relative_path r \<noteq> ra_relative_path a"
    and "ra_locator_kind a = locator_kind_to_storage k"
  shows "artifacts_ok (rows @ [a])"
  using assms by (auto simp: artifacts_ok_def)

lemma receipts_put: "distinct (map dp_request_id rows) \<Longrightarrow> distinct (map dp_request_id (put_receipt n d rows))"
  by (auto simp: put_receipt_def map_update_where pending_delivery_receipt.defs receipt_row.defs)

lemma events_replace: "distinct (map ce_id evs) \<Longrightarrow> distinct (map ce_id (insert_or_replace ce_id ev evs))"
  by (auto simp: insert_or_replace_def distinct_delete_where)

locale requests_preorder = db_state R
  for R :: "'z approvals_scheme \<Rightarrow> 'z approvals_scheme \<Rightarrow> bool" +
  assumes frame_step: "host_frame s t \<Longrightarrow> R s t"
    and requests_write: "(\<And>q. Q q \<Longrightarrow> request_follows q (w q)) \<Longrightarrow> R s (on_requests (update_where Q w) s)"
    and requests_new: "fresh_request q (iv_requests s) \<Longrightarrow> R s (on_requests (\<lambda>rows. rows @ [q]) s)"
begin

lemma stable_framed: "stable host_frame m \<Longrightarrow> stable R m"
  by (rule stable_mono [OF _ frame_step])

lemma stable_emit: "stable R (emit topic kind)"
  by (rule stable_framed [OF hf.stable_emit(1)])

lemmas host_steps = stable_rules stable_select stable_emit

lemma stable_request_writes:
  "(\<And>q. Q q \<Longrightarrow> request_follows q (w q)) \<Longrightarrow> stable R (update_requests Q w)"
  unfolding update_requests_def by (auto intro!: stable_transact requests_write)

lemma stable_insert_request: "stable R (insert_receiver_request n q)"
  unfolding insert_receiver_request_def
  by (intro host_steps stable_transact)
    (auto simp: new_request_fresh intro!: requests_new split: if_splits)

lemma stable_update_request:
  "st \<in> {RrAccepted, RrRefused, RrExpired} \<Longrightarrow> stable R (update_receiver_request_status n rid st reason)"
  unfolding update_receiver_request_status_def
  by (intro host_steps stable_request_writes) (auto intro: answered_follows)

lemma stable_set_token: "stable R (set_receiver_receipt_token rid h)"
  unfolding set_receiver_receipt_token_def
  by (intro host_steps stable_request_writes) (simp add: request_follows_def)

lemma stable_complete_request: "stable R (complete_receiver_delivery n rid t ep h)"
  unfolding complete_receiver_delivery_def request_exists_def Let_def
  by (intro host_steps stable_request_writes) (auto intro: receipt_follows)

lemma stable_fail_request: "stable R (fail_receiver_delivery rid t ep h reason)"
  unfolding fail_receiver_delivery_def request_exists_def
  by (intro host_steps stable_request_writes) (auto intro: receipt_follows)

lemma stable_expire_requests: "stable R (expire_pending_receiver_requests n reason)"
  unfolding expire_pending_receiver_requests_def
  by (intro stable_request_writes answered_follows [where st = RrExpired]) (simp_all add: request_as_str_def)

lemma stable_deny: "stable R (deny reason)"
  unfolding deny_def by (intro host_steps)

lemma stable_complete_delivery: "stable R (complete_delivery e n n' u p d)"
  unfolding complete_delivery_def quietly_def
  by (intro host_steps stable_complete_request stable_framed [OF ha.stable_activate] TrueI)

lemma stable_fail_delivery: "stable R (fail_delivery e p d)"
  unfolding fail_delivery_def by (intro host_steps stable_fail_request)

lemma stable_approved: "stable R (approved_response rid tk ex r)"
  unfolding approved_response_def send_sender_name_def by (intro host_steps)

lemma stable_allow: "stable R (allow_without_sender_decision e n rid tk p r)"
  unfolding allow_without_sender_decision_def
  by (intro host_steps stable_insert_request stable_update_request stable_set_token stable_deny stable_approved) simp

end

locale updates_preorder = requests_preorder R
  for R :: "'z approvals_scheme \<Rightarrow> 'z approvals_scheme \<Rightarrow> bool" +
  assumes history_write: "(\<And>r. P r \<Longrightarrow> row_follows r (u r)) \<Longrightarrow> R s (on_history (update_where P u) s)"
    and artifacts_write: "(artifacts_ok (iv_artifacts s) \<Longrightarrow> artifacts_ok rows) \<Longrightarrow> R s (s\<lparr>iv_artifacts := rows\<rparr>)"
    and events_write: "(distinct (map ce_id (iv_events s)) \<Longrightarrow> distinct (map ce_id evs)) \<Longrightarrow> R s (s\<lparr>iv_events := evs\<rparr>)"
    and receipts_write: "(distinct (map dp_request_id (iv_receipts s)) \<Longrightarrow> distinct (map dp_request_id ds)) \<Longrightarrow>
      R s (s\<lparr>iv_receipts := ds\<rparr>)"
begin

lemma stable_writes: "(\<And>r. P r \<Longrightarrow> row_follows r (u r)) \<Longrightarrow> stable R (update_history P u)"
  unfolding update_history_def by (auto intro!: stable_transact history_write)

lemma stable_record_artifact: "stable R (record_received_artifact n u a)"
  unfolding record_received_artifact_def
  by (intro host_steps stable_transact)
    (auto simp: Let_def intro!: artifacts_write artifacts_update artifacts_append split: if_splits)

lemma stable_complete_share: "stable R (complete_share_import n t)"
proof (cases "tu_direction t = Send \<and> tu_status t = TsSharing")
  case True
  then show ?thesis unfolding complete_share_import_def
    by (auto intro!: host_steps stable_writes shared_follows)
qed (auto simp: complete_share_import_def stable_err)

lemma stable_cancel_preparation: "stable R (cancel_share_preparation n tid)"
  unfolding cancel_share_preparation_def
  by (intro host_steps stable_writes) (auto intro: cancelled_follows)

lemma stable_transition: "stable R (transition_transfer_status n tid x y)"
proof (cases "can_transition_to x y")
  case True
  then show ?thesis unfolding transition_transfer_status_def
    by (auto intro!: host_steps stable_writes status_write_follows)
qed (simp add: transition_transfer_status_def stable_err)

lemma stable_complete_receive: "stable R (complete_receive_with_pending_receipt n d)"
  unfolding complete_receive_with_pending_receipt_def
proof (rule stable_transact)
  fix s t :: "'z approvals_scheme" and x
  let ?P = "\<lambda>r. it_transfer_id r = dp_local_transfer_id d \<and> it_direction r = ''receive'' \<and> it_status r = ''receiving''"
  let ?m = "on_history (update_where ?P (\<lambda>r. r\<lparr>it_status := ''done'', it_updated_at := n\<rparr>)) s"
  assume "(let P = ?P in
     case to_db_id (dp_local_transfer_id d) of Inl e \<Rightarrow> (Inl e, s) | Inr _ \<Rightarrow>
     (case require_one_changed (affected P (iv_transfers s)) ''complete receive'' of Inl e \<Rightarrow> (Inl e, s) | Inr _ \<Rightarrow>
     (case to_db_id (dp_sender_transfer_id d) of Inl e \<Rightarrow> (Inl e, s) | Inr _ \<Rightarrow>
       (Inr (), on_receipts (put_receipt n d)
          (on_history (update_where P (\<lambda>r. r\<lparr>it_status := ''done'', it_updated_at := n\<rparr>)) s))))) = (Inr x, t)"
  then have t: "t = ?m\<lparr>iv_receipts := put_receipt n d (iv_receipts ?m)\<rparr>"
    by (auto simp: Let_def split: sum.splits)
  have "R s ?m" by (rule history_write) (auto intro: done_follows)
  moreover have "R ?m t" unfolding t by (rule receipts_write) (rule receipts_put)
  ultimately show "R s t" by (rule trans)
qed

lemma stable_receipts:
  "stable R (queue_failed_delivery_receipt n d)" "stable R (delete_pending_delivery_receipt rid)"
proof -
  have "stable R (exec (on_receipts (put_receipt n d)))" "stable R (delete_pending_delivery_receipt rid)"
    unfolding exec_def delete_pending_delivery_receipt_def
    by (intro stable_transact, auto intro!: receipts_write receipts_put distinct_delete_where)+
  then show "stable R (queue_failed_delivery_receipt n d)" "stable R (delete_pending_delivery_receipt rid)"
    unfolding queue_failed_delivery_receipt_def by (auto intro!: host_steps)
qed

lemma stable_access_mode: "stable R (update_active_share_access_mode n tid m)"
  unfolding update_active_share_access_mode_def
  by (intro host_steps stable_writes) (simp add: row_follows_def)

lemma stable_recover: "stable R (recover_interrupted_transfers n)"
  unfolding recover_interrupted_transfers_def
  by (rule stable_transact) (auto intro!: history_write failed_follows refl split: sum.splits if_splits)

lemma stable_insert_event: "stable R (insert_event ev m)"
  unfolding insert_event_def
  by (rule stable_transact) (auto simp: Let_def intro!: events_write distinct_delete_where events_replace split: sum.splits)

end

locale repository_preorder = updates_preorder R
  for R :: "'z approvals_scheme \<Rightarrow> 'z approvals_scheme \<Rightarrow> bool" +
  assumes history_new: "fresh_row r (iv_transfers s) \<Longrightarrow> R s (on_history (\<lambda>rows. rows @ [r]) s)"
begin

lemma stable_insert_transfer: "stable R (insert_transfer n u t)"
  unfolding insert_transfer_def
  by (intro host_steps stable_transact)
    (auto simp: new_row_fresh new_row_ok intro!: history_new split: if_splits)

lemma stable_start_receive: "stable R (start_receive n u t)"
  unfolding start_receive_def
  by (intro host_steps stable_transact)
    (auto simp: Let_def new_row_fresh new_row_ok intro!: history_new history_write restart_follows split: if_splits)

end


section \<open>Commands\<close>

text \<open>The services' memory is lost at a restart.\<close>

definition restart_host :: "'z approvals_scheme \<Rightarrow> 'z approvals_scheme" where
  "restart_host s = s\<lparr>w_access := new_policy, ap_pending := [], ap_waiters := []\<rparr>"

datatype host_command =
    InsertTransfer int string transfer_upsert
  | StartReceive int string transfer_upsert
  | RecordReceivedArtifact int string received_artifact_insert
  | CompleteShareImport int transfer_upsert
  | CancelSharePreparation int u64
  | TransitionTransferStatus int u64 TransferStatus TransferStatus
  | CompleteReceive int pending_delivery_receipt
  | QueueFailedReceipt int pending_delivery_receipt
  | DeletePendingReceipt string
  | UpdateAccessMode int u64 string
  | RecoverInterrupted int
  | InsertEvent core_event u64
  | ExpireRequests int string
  | DeleteTransfer u64
  | DeleteReceiveHistory
  | SetAccessMode u64 TransferAccessMode
  | RemoveAccess u64
  | ApproveDirectly int u64 string
  | ApproveTargeted u64 string
  | DecideAccess int u64 "string option"
  | ReceiverMessage int int string string string HandshakeMessage
  | FinishDecision int string string
  | TakeSender string
  | ConcludeApproval int string bool "string option" bool
  | RestartHost

fun perform_host :: "approval_env \<Rightarrow> host_command \<Rightarrow> 'z approvals_scheme \<Rightarrow> 'z approvals_scheme" where
  "perform_host e (InsertTransfer n u t) s = snd (insert_transfer n u t s)"
| "perform_host e (StartReceive n u t) s = snd (start_receive n u t s)"
| "perform_host e (RecordReceivedArtifact n u a) s = snd (record_received_artifact n u a s)"
| "perform_host e (CompleteShareImport n t) s = snd (complete_share_import n t s)"
| "perform_host e (CancelSharePreparation n t) s = snd (cancel_share_preparation n t s)"
| "perform_host e (TransitionTransferStatus n t x y) s = snd (transition_transfer_status n t x y s)"
| "perform_host e (CompleteReceive n d) s = snd (complete_receive_with_pending_receipt n d s)"
| "perform_host e (QueueFailedReceipt n d) s = snd (queue_failed_delivery_receipt n d s)"
| "perform_host e (DeletePendingReceipt rid) s = snd (delete_pending_delivery_receipt rid s)"
| "perform_host e (UpdateAccessMode n t m) s = snd (update_active_share_access_mode n t m s)"
| "perform_host e (RecoverInterrupted n) s = snd (recover_interrupted_transfers n s)"
| "perform_host e (InsertEvent ev m) s = snd (insert_event ev m s)"
| "perform_host e (ExpireRequests n reason) s = snd (expire_pending_receiver_requests n reason s)"
| "perform_host e (DeleteTransfer t) s = snd (delete_transfer t s)"
| "perform_host e DeleteReceiveHistory s = snd (delete_receive_history s)"
| "perform_host e (SetAccessMode t m) s = s\<lparr>w_access := set_mode t m (w_access s)\<rparr>"
| "perform_host e (RemoveAccess t) s = s\<lparr>w_access := remove_transfer t (w_access s)\<rparr>"
| "perform_host e (ApproveDirectly n t ep) s = s\<lparr>w_access := approve_endpoint n t ep (w_access s)\<rparr>"
| "perform_host e (ApproveTargeted t ep) s = s\<lparr>w_access := approve_endpoint_until t ep None (w_access s)\<rparr>"
| "perform_host e (DecideAccess n t ep) s = snd (policy_decision n t ep s)"
| "perform_host e (ReceiverMessage n n' u tk p m) s = snd (handle_handshake_message e n n' u tk p m s)"
| "perform_host e (FinishDecision n tk rid) s = (case find_by aw_request_id rid (ap_waiters s) of
      None \<Rightarrow> s | Some w \<Rightarrow> snd (finish_decision e n tk w s))"
| "perform_host e (TakeSender rid) s = snd (take_sender rid s)"
| "perform_host e (ConcludeApproval n rid b reason sender) s = snd (conclude_approval n rid b reason sender s)"
| "perform_host e RestartHost s = restart_host s"

definition is_deletion :: "host_command \<Rightarrow> bool" where
  "is_deletion c = (case c of DeleteTransfer t \<Rightarrow> True | DeleteReceiveHistory \<Rightarrow> True | _ \<Rightarrow> False)"

locale decision_preorder = requests_preorder R
  for R :: "'z approvals_scheme \<Rightarrow> 'z approvals_scheme \<Rightarrow> bool" +
  assumes pending_write: "R s (s\<lparr>ap_pending := a\<rparr>)"
    and waiters_write: "R s (s\<lparr>ap_waiters := b\<rparr>)"
    and policy_write: "R s (s\<lparr>w_access := p\<rparr>)"
begin

lemma memory_writes: "R s (forget_pending rid s)" "R s (set_channel rid c s)" "R s (open_waiter rid p r s)"
  "R s (close_waiter rid s)" "R s (approve_session t ep ex s)" "R s (restart_host s)"
  using trans [OF pending_write waiters_write] trans [OF trans [OF policy_write pending_write] waiters_write]
  by (simp_all add: forget_pending_def set_channel_def open_waiter_def close_waiter_def approve_session_def
      restart_host_def pending_write waiters_write policy_write)

lemma stable_policy: "stable R (policy_decision n t ep)"
  by (simp add: stable_def policy_decision_def policy_write split: prod.split)

lemma stable_take_sender: "stable R (take_sender rid)"
  unfolding take_sender_def by (intro host_steps stable_modify memory_writes)

lemma stable_conclude: "stable R (conclude_approval n rid b reason sender)"
  unfolding conclude_approval_def
  by (intro host_steps stable_modify stable_update_request) (auto intro: memory_writes refl)

lemma stable_answered: "stable R m \<Longrightarrow> stable R (answered m)"
  unfolding answered_def by (intro host_steps)

lemma stable_wait: "stable R (wait_for_sender_decision e n rid p r)"
  unfolding wait_for_sender_decision_def
  by (intro host_steps stable_modify stable_insert_request stable_answered stable_deny memory_writes
      trans [OF memory_writes(1) memory_writes(4)])

lemma stable_request: "stable R (request_transfer e n rid tk p r)"
  unfolding request_transfer_def send_exists_def
  by (intro host_steps stable_answered stable_deny stable_policy stable_allow stable_wait stable_framed [OF hf.stable_is_blocked])
    (auto intro!: host_steps stable_answered stable_deny stable_policy stable_allow stable_wait split: bool.split)

lemma stable_finish: "stable R (finish_decision e n tk w)"
proof (cases "aw_channel w")
  case (Sent d)
  then show ?thesis unfolding finish_decision_def
    by (auto intro!: host_steps stable_modify memory_writes stable_deny stable_set_token stable_approved)
qed (auto simp: finish_decision_def quietly_def intro!: host_steps stable_modify memory_writes stable_deny stable_update_request)

lemma stable_handshake: "stable R (handle_handshake_message e n n' u tk p m)"
  by (cases m) (auto simp: handle_handshake_message_def
      intro!: host_steps stable_request stable_complete_delivery stable_fail_delivery)

end

locale approval_preorder = repository_preorder R + decision_preorder R
  for R :: "'z approvals_scheme \<Rightarrow> 'z approvals_scheme \<Rightarrow> bool"
begin

lemma perform_host_step: "\<not> is_deletion c \<Longrightarrow> R s (perform_host e c s)"
proof -
  have after: "R s (snd (m s))" if "stable R m" for m :: "('z approvals_scheme, 'x) proc" using that by (simp add: stable_def)
  have fin: "R s (case find_by aw_request_id rid (ap_waiters s) of None \<Rightarrow> s | Some w \<Rightarrow> snd (finish_decision e n tk w s))"
    for rid n tk using stable_finish by (auto simp: refl stable_def split: option.split)
  assume "\<not> is_deletion c"
  then show ?thesis
    by (cases c) (simp_all add: is_deletion_def stable_insert_transfer stable_start_receive stable_record_artifact
        stable_complete_share stable_cancel_preparation stable_transition stable_complete_receive stable_receipts
        stable_access_mode stable_recover stable_insert_event stable_expire_requests policy_write stable_policy
        stable_handshake fin stable_take_sender stable_conclude memory_writes after)
qed

end

end
