(* ===== verification/Approval_Reference.thy ===== *)
theory Approval_Reference
  imports Approval_Runs Eligibility_Properties
begin

text \<open>
  A concrete sender with one share, for the witnesses: \<open>bob\<close> asks for it (\<open>ref_asked\<close>), the user
  accepts (\<open>ref_decided\<close>) and the waiting call grants a session (\<open>ref_granted\<close>).
\<close>

definition ref_share :: transfer_upsert where
  "ref_share = \<lparr>tu_transfer_id = 7, tu_peer_id = None, tu_direction = Send, tu_status = TsSharing,
     tu_transfer_name = Some ''photos'', tu_sender_name = Some ''Alice'', tu_content_hash = Some ''hash'',
     tu_ticket = None, tu_file_count = 2, tu_total_size = 9, tu_access_mode = ''approval_required''\<rparr>"

definition ref_ask :: transfer_request where
  "ref_ask = \<lparr>rx_transfer_id = 7, rx_transfer_hash = ''hash'', rx_transfer_name = ''photos'',
     rx_receiver_name = None, rx_receiver_device_name = Some ''phone'', rx_app_version = ''1''\<rparr>"

definition ref_approval_env :: approval_env where
  "ref_approval_env = \<lparr>ae_pair = ref_pair_env ''alice'', ae_has_eligibility = False, ae_max_pending = 4,
     ae_max_metadata_bytes = 64, ae_token_hash = (\<lambda>token. token)\<rparr>"


definition ref_host :: "transfer_row list \<Rightarrow> request_row list \<Rightarrow> approvals" where
  "ref_host rows requests = \<lparr>
     targeted_transfers = [], accepted_offer_intents = [], authorization_delivery_outbox = [],
     completion_outbox = [], payload_release_outbox = [], schema_migrations = [], db_faults = [],
     protected_secret_refs = [], vs_values = [], vs_corrupted = [], vs_failures = [],
     device_relationships = [], generation_tombstones = [], emitted = [],
     pairing_eligibilities = [], blocked_endpoints = [],
     w_inbox = new_inbox 16 (new_cooldown 60000 5), w_active = [], w_cancelled = [], w_hashes = [], w_access = new_policy,
     w_tags = [], w_tag_faults = [], w_invitations = [],
     iv_transfers = rows, iv_artifacts = [], iv_events = [], iv_requests = requests, iv_receipts = [],
     ap_pending = [], ap_waiters = []\<rparr>"

lemmas ref_host_defs = ref_host_def ref_ask_def ref_share_def ref_approval_env_def transfer_row_of_def new_policy_def
  request_as_str_def direction_as_str_def status_as_str_def ref_pair_env_def

lemmas host_call_defs = handle_handshake_message_def request_transfer_def is_blocked_def block_store_is_blocked_def select_def transact_def
  proc_defs to_db_id_def metadata_values_def send_exists_def shared_as_def policy_decision_def decide_def set_mode_def
  wait_for_sender_decision_def open_waiter_def insert_receiver_request_def receiver_insert_def answered_def deny_def
  take_sender_def forget_pending_def conclude_approval_def update_receiver_request_status_def update_requests_def
  finish_decision_def set_channel_def close_waiter_def approve_session_def approve_endpoint_until_def set_receiver_receipt_token_def
  require_one_changed_def approved_response_def send_sender_name_def update_where_def delete_where_def find_by_def
  affected_def exists_where_iff receipt_token_hash_def emit_def fits_i64_def active_share_def restart_host_def

definition ref_waiter :: "oneshot \<Rightarrow> waiter" where
  "ref_waiter c = \<lparr>aw_request_id = ''r1'', aw_remote = ''bob'', aw_request = ref_ask, aw_channel = c\<rparr>"

definition ref_request :: "string \<Rightarrow> int option \<Rightarrow> string option \<Rightarrow> request_row" where
  "ref_request status responded token = \<lparr>rr_id = ''r1'', rr_transfer_id = 7, rr_remote_endpoint_id = ''bob'',
     rr_transfer_name = ''photos'', rr_receiver_name = None, rr_receiver_device_name = Some ''phone'',
     rr_app_version = ''1'', rr_status = status, rr_reason = None, rr_requested_at = 10,
     rr_responded_at = responded, rr_receipt_token_hash = token, rr_completed_at = None\<rparr>"

abbreviation ref_rows :: "transfer_row list" where
  "ref_rows \<equiv> [transfer_row_of ref_share ''u'' ''send'' ''sharing'' 0]"

definition ref_asked :: approvals where
  "ref_asked = (ref_host ref_rows [ref_request ''requested'' None None])\<lparr>
     emitted := [(''handshake'', ''transfer-requested''), (''approval'', ''receiver-requested'')],
     w_access := set_mode 7 ApprovalRequired new_policy, ap_pending := [''r1''], ap_waiters := [ref_waiter Waiting]\<rparr>"

lemma ref_wait:
  "handle_handshake_message ref_approval_env 10 10 ''r1'' ''tk'' ''bob'' (RequestTransferMessage ref_ask)
     ((ref_host ref_rows [])\<lparr>w_access := set_mode 7 ApprovalRequired new_policy\<rparr>)
   = (Inr (HandshakeOutcome (Inr ''r1'')), ref_asked)"
  by (simp add: host_call_defs ref_host_defs ref_asked_def ref_waiter_def ref_request_def)

definition ref_decided :: approvals where
  "ref_decided = (ref_host ref_rows [ref_request ''accepted'' (Some 20) None])\<lparr>
     emitted := [(''handshake'', ''transfer-requested''), (''approval'', ''receiver-requested'')],
     w_access := set_mode 7 ApprovalRequired new_policy,
     ap_waiters := [ref_waiter (Sent \<lparr>ad_request_id = ''r1'', ad_accepted = True, ad_reason = None\<rparr>)]\<rparr>"

lemma ref_decide:
  "conclude_approval 20 ''r1'' True None True (snd (take_sender ''r1'' ref_asked)) = (Inr (), ref_decided)"
  by (simp add: host_call_defs ref_host_defs ref_asked_def ref_waiter_def ref_request_def ref_decided_def)

definition ref_granted :: approvals where
  "ref_granted = (ref_host ref_rows [ref_request ''accepted'' (Some 20) (Some ''tk'')])\<lparr>
     emitted := [(''handshake'', ''transfer-requested''), (''approval'', ''receiver-requested''), (''approval'', ''receiver-accepted'')],
     w_access := approve_endpoint 30 7 ''bob'' (set_mode 7 ApprovalRequired new_policy)\<rparr>"

lemma ref_grant:
  "finish_decision ref_approval_env 30 ''tk'' (hd (ap_waiters ref_decided)) ref_decided
   = (Inr (HandshakeApproved ''r1'' ''tk'' (30 + APPROVAL_TTL_MS) None), ref_granted)"
  by (simp add: host_call_defs ref_host_defs ref_decided_def ref_waiter_def ref_request_def ref_granted_def
      approve_endpoint_def APPROVAL_TTL_MS_def)

definition ref_run :: "host_command list" where
  "ref_run = [SetAccessMode 7 ApprovalRequired, ReceiverMessage 10 10 ''r1'' ''tk'' ''bob'' (RequestTransferMessage ref_ask),
     TakeSender ''r1'', ConcludeApproval 20 ''r1'' True None True, FinishDecision 30 ''tk'' ''r1'']"

lemma ref_run_ends: "fold (perform_host ref_approval_env) ref_run (restart_host (ref_host ref_rows [])) = ref_granted"
proof -
  have "find_by aw_request_id ''r1'' (ap_waiters ref_decided) = Some (hd (ap_waiters ref_decided))"
    by (simp add: ref_decided_def ref_waiter_def find_by_def)
  moreover have "(restart_host (ref_host ref_rows []))\<lparr>w_access := set_mode 7 ApprovalRequired (w_access (restart_host (ref_host ref_rows [])))\<rparr>
      = (ref_host ref_rows [])\<lparr>w_access := set_mode 7 ApprovalRequired new_policy\<rparr>"
    by (simp add: restart_host_def ref_host_def)
  ultimately show ?thesis by (simp add: ref_run_def ref_wait ref_decide ref_grant)
qed

definition ref_importing :: approvals where
  "ref_importing = ref_host [transfer_row_of ref_share ''u'' ''send'' ''importing'' 0] []"

definition ref_event :: "string \<Rightarrow> int \<Rightarrow> core_event" where
  "ref_event i at = \<lparr>ce_id = i, ce_revision = 1, ce_timestamp = at, ce_scope = ''transfer'', ce_transfer_id = None,
     ce_direction = None, ce_phase = ''approval'', ce_kind = ''receiver-refused'', ce_data_json = ''{}''\<rparr>"

lemma ref_hosts_ok: "host_ok ref_asked" "host_ok ref_granted" "host_ok ref_importing"
  by (simp_all add: host_ok_def ref_asked_def ref_granted_def ref_importing_def ref_request_def ref_host_defs artifacts_ok_def
      history_row_ok_def request_row_ok_def direction_try_from_def status_try_from_def request_try_from_def)

end
