(* ===== verification/Approval_Properties.thy ===== *)
theory Approval_Properties
  imports Approval_Reference
begin

text \<open>
  The properties of invitations: rows only move along their life cycles and tables stay well formed
  whatever happens, a restart fails exactly the interrupted transfers, the event log stays bounded,
  receipts are recorded exactly for the receiver that holds the token, and an endpoint may download a
  transfer only when the user said so.
\<close>

section \<open>The life of rows\<close>

text \<open>Every row with the key \<open>k\<close> is still there, changed along \<open>F\<close>.\<close>

definition covered :: "('r \<Rightarrow> 'r \<Rightarrow> bool) \<Rightarrow> ('r \<Rightarrow> 'k) \<Rightarrow> 'k \<Rightarrow> 'r list \<Rightarrow> 'r list \<Rightarrow> bool" where
  "covered F key k rows rows' \<longleftrightarrow> (\<forall>r \<in> set rows. key r = k \<longrightarrow> (\<exists>q \<in> set rows'. F r q))"

lemma covered_refl: "(\<And>r. F r r) \<Longrightarrow> covered F key k rows rows"
  unfolding covered_def by blast

lemma covered_append: "(\<And>r. F r r) \<Longrightarrow> covered F key k rows (rows @ [x])"
  unfolding covered_def by auto

lemma covered_delete: "(\<And>r. F r r) \<Longrightarrow> (\<And>r. P r \<Longrightarrow> key r \<noteq> k) \<Longrightarrow> covered F key k rows (delete_where P rows)"
  unfolding covered_def by auto

lemma covered_update:
  assumes "\<And>r. P r \<Longrightarrow> F r (u r)" and "\<And>r. F r r"
  shows "covered F key k rows (update_where P u rows)"
  unfolding covered_def
proof (intro ballI impI)
  fix r assume "r \<in> set rows"
  then show "\<exists>q \<in> set (update_where P u rows). F r q"
    by (intro bexI [of _ "if P r then u r else r"]) (use assms in \<open>auto simp: update_where_def\<close>)
qed

lemma covered_trans:
  assumes "\<And>r q p. F r q \<Longrightarrow> F q p \<Longrightarrow> F r p" and "\<And>r q. F r q \<Longrightarrow> key q = key r"
    and "covered F key k rows rows'" and "covered F key k rows' rows''"
  shows "covered F key k rows rows''"
  unfolding covered_def
proof (intro ballI impI)
  fix r assume "r \<in> set rows" and "key r = k"
  with assms(3) obtain q where q: "q \<in> set rows'" "F r q" by (auto simp: covered_def)
  with assms(2) \<open>key r = k\<close> have "key q = k" by simp
  with assms(4) q(1) obtain p where "p \<in> set rows''" "F q p" by (auto simp: covered_def)
  with assms(1) q(2) show "\<exists>q \<in> set rows''. F r q" by blast
qed

definition rows_follow :: "u64 \<Rightarrow> 'z host_scheme \<Rightarrow> 'z host_scheme \<Rightarrow> bool" where
  "rows_follow tid s t \<longleftrightarrow> covered row_follows it_transfer_id tid (iv_transfers s) (iv_transfers t)
     \<and> covered request_follows rr_transfer_id tid (iv_requests s) (iv_requests t)"

lemma rows_follow_same:
  "iv_transfers t = iv_transfers s \<Longrightarrow> iv_requests t = iv_requests s \<Longrightarrow> rows_follow tid s t"
  by (simp add: rows_follow_def covered_refl)

lemma rows_follow_trans:
  assumes "rows_follow tid s t" and "rows_follow tid t v"
  shows "rows_follow tid s v"
proof -
  have keys: "row_follows r q \<Longrightarrow> it_transfer_id q = it_transfer_id r"
    "request_follows p p' \<Longrightarrow> rr_transfer_id p' = rr_transfer_id p" for r q p p'
    by (simp_all add: row_follows_def request_follows_def)
  have "covered row_follows it_transfer_id tid (iv_transfers s) (iv_transfers v)"
    using assms covered_trans [of row_follows it_transfer_id, OF row_follows_trans keys(1)]
    by (auto simp: rows_follow_def)
  moreover have "covered request_follows rr_transfer_id tid (iv_requests s) (iv_requests v)"
    using assms covered_trans [of request_follows rr_transfer_id, OF request_follows_trans keys(2)]
    by (auto simp: rows_follow_def)
  ultimately show ?thesis by (simp add: rows_follow_def)
qed

interpretation rf: approval_preorder "rows_follow tid"
proof
  fix s t v :: "'z approvals_scheme" and fs P u Q w r q rows evs ds a b p
  show "rows_follow tid s s" by (rule rows_follow_same) simp_all
  show "rows_follow tid s t \<Longrightarrow> rows_follow tid t v \<Longrightarrow> rows_follow tid s v" by (rule rows_follow_trans)
  show "rows_follow tid s (s\<lparr>db_faults := fs\<rparr>)" by (rule rows_follow_same) simp_all
  show "host_frame s t \<Longrightarrow> rows_follow tid s t" by (rule rows_follow_same) (simp_all add: host_frame_def)
  show "(\<And>r. P r \<Longrightarrow> row_follows r (u r)) \<Longrightarrow> rows_follow tid s (on_history (update_where P u) s)"
    by (simp add: rows_follow_def covered_update covered_refl)
  show "rows_follow tid s (on_history (\<lambda>rows. rows @ [r]) s)"
    by (simp add: rows_follow_def covered_append covered_refl)
  show "(\<And>q. Q q \<Longrightarrow> request_follows q (w q)) \<Longrightarrow> rows_follow tid s (on_requests (update_where Q w) s)"
    by (simp add: rows_follow_def covered_update covered_refl)
  show "rows_follow tid s (on_requests (\<lambda>rows. rows @ [q]) s)"
    by (simp add: rows_follow_def covered_append covered_refl)
  show "rows_follow tid s (s\<lparr>iv_artifacts := rows\<rparr>)" "rows_follow tid s (s\<lparr>iv_events := evs\<rparr>)"
    "rows_follow tid s (s\<lparr>iv_receipts := ds\<rparr>)" "rows_follow tid s (s\<lparr>ap_pending := a\<rparr>)"
    "rows_follow tid s (s\<lparr>ap_waiters := b\<rparr>)" "rows_follow tid s (s\<lparr>w_access := p\<rparr>)"
    by (rule rows_follow_same; simp)+
qed

definition keeps_host :: "'z host_scheme \<Rightarrow> 'z host_scheme \<Rightarrow> bool" where
  "keeps_host s t \<longleftrightarrow> (host_ok s \<longrightarrow> host_ok t)"

lemma map_updated_keys:
  "(\<And>r. P r \<Longrightarrow> row_follows r (u r)) \<Longrightarrow> map it_transfer_id (update_where P u rows) = map it_transfer_id rows"
  "(\<And>r. P r \<Longrightarrow> row_follows r (u r)) \<Longrightarrow> map it_local_id (update_where P u rows) = map it_local_id rows"
  "(\<And>q. Q q \<Longrightarrow> request_follows q (w q)) \<Longrightarrow> map rr_id (update_where Q w qs) = map rr_id qs"
  by (rule map_update_where; simp add: row_follows_def request_follows_def)+

lemma followed_ok: "row_follows r q \<Longrightarrow> history_row_ok r \<Longrightarrow> history_row_ok q"
  "request_follows p p' \<Longrightarrow> request_row_ok p \<Longrightarrow> request_row_ok p'"
  using text_moves_status text_moves_request
  by (simp_all only: row_follows_def request_follows_def history_row_ok_def request_row_ok_def) blast+

interpretation kh: approval_preorder keeps_host
proof
  fix s t v :: "'z approvals_scheme" and fs P u Q w r q rows evs ds a b p
  show "keeps_host s s" by (simp add: keeps_host_def)
  show "keeps_host s t \<Longrightarrow> keeps_host t v \<Longrightarrow> keeps_host s v" by (simp add: keeps_host_def)
  show "keeps_host s (s\<lparr>db_faults := fs\<rparr>)" by (simp add: keeps_host_def host_ok_def)
  show "host_frame s t \<Longrightarrow> keeps_host s t" by (simp add: keeps_host_def host_ok_def host_frame_def)
  show "keeps_host s (on_history (update_where P u) s)" if "\<And>r. P r \<Longrightarrow> row_follows r (u r)"
    using that by (simp add: keeps_host_def host_ok_def map_updated_keys set_update_where) (use followed_ok(1) that in blast)
  show "fresh_row r (iv_transfers s) \<Longrightarrow> keeps_host s (on_history (\<lambda>rows. rows @ [r]) s)"
    by (auto simp: keeps_host_def host_ok_def fresh_row_def)
  show "keeps_host s (on_requests (update_where Q w) s)" if "\<And>q. Q q \<Longrightarrow> request_follows q (w q)"
    using that by (simp add: keeps_host_def host_ok_def map_updated_keys set_update_where) (use followed_ok(2) that in blast)
  show "fresh_request q (iv_requests s) \<Longrightarrow> keeps_host s (on_requests (\<lambda>rows. rows @ [q]) s)"
    by (auto simp: keeps_host_def host_ok_def fresh_request_def)
  show "(artifacts_ok (iv_artifacts s) \<Longrightarrow> artifacts_ok rows) \<Longrightarrow> keeps_host s (s\<lparr>iv_artifacts := rows\<rparr>)"
    "(distinct (map ce_id (iv_events s)) \<Longrightarrow> distinct (map ce_id evs)) \<Longrightarrow> keeps_host s (s\<lparr>iv_events := evs\<rparr>)"
    "(distinct (map dp_request_id (iv_receipts s)) \<Longrightarrow> distinct (map dp_request_id ds)) \<Longrightarrow>
      keeps_host s (s\<lparr>iv_receipts := ds\<rparr>)"
    "keeps_host s (s\<lparr>ap_pending := a\<rparr>)" "keeps_host s (s\<lparr>ap_waiters := b\<rparr>)" "keeps_host s (s\<lparr>w_access := p\<rparr>)"
    by (simp_all add: keeps_host_def host_ok_def)
qed

text \<open>Deletions.\<close>

lemma delete_transfer_cases:
  "snd (delete_transfer tid s) = s \<or> snd (delete_transfer tid s) = tick_db s \<or>
   snd (delete_transfer tid s) = on_history (delete_where (\<lambda>r. it_transfer_id r = tid))
     (delete_dependants (\<lambda>i. i = tid) (tick_db s))"
  by (auto simp: delete_transfer_def next_do_def bind_def lift_def transact_def Let_def
      split: sum.split list.split option.split)

lemma delete_history_cases:
  "snd (delete_receive_history s) = tick_db s \<or>
   (\<exists>gone. snd (delete_receive_history s) = on_history (delete_where terminal_receive) (delete_dependants gone (tick_db s)))"
  by (auto simp: delete_receive_history_def transact_def Let_def split: list.split option.split)

lemma deleted_ok:
  "host_ok s \<Longrightarrow> host_ok (on_history (delete_where P) (delete_dependants gone (tick_db s)))"
  by (auto simp: host_ok_def delete_dependants_def distinct_delete_where)

lemma perform_host_ok:
  assumes "host_ok s"
  shows "host_ok (perform_host e c (s :: 'z approvals_scheme))"
proof (cases "is_deletion c")
  case True
  have tick: "host_ok (tick_db s)" using assms by (simp add: host_ok_def)
  have "host_ok (snd (delete_transfer tid s))" for tid
    using delete_transfer_cases [of tid s] tick assms deleted_ok [OF assms] by (elim disjE) simp_all
  moreover have "host_ok (snd (delete_receive_history s))"
    using delete_history_cases [of s] tick deleted_ok [OF assms] by (elim disjE exE) simp_all
  ultimately show ?thesis using True by (cases c) (simp_all add: is_deletion_def)
next
  case False
  then show ?thesis using kh.perform_host_step [of c s e] assms by (simp add: keeps_host_def)
qed

lemma deleted_follows: "t \<noteq> tid \<Longrightarrow> rows_follow tid s (snd (delete_transfer t s))"
  using delete_transfer_cases [of t s] rows_follow_same [of s s tid] rows_follow_same [of "tick_db s" s tid]
  by (elim disjE) (simp_all add: rows_follow_def delete_dependants_def covered_delete)


lemma perform_host_follows:
  assumes "c \<noteq> DeleteTransfer tid" and "c \<noteq> DeleteReceiveHistory"
  shows "rows_follow tid s (perform_host e c (s :: 'z approvals_scheme))"
proof (cases "is_deletion c")
  case True
  then obtain t where "c = DeleteTransfer t" "t \<noteq> tid" using assms by (cases c) (auto simp: is_deletion_def)
  then show ?thesis by (simp add: deleted_follows)
qed (rule rf.perform_host_step)

lemma perform_hosts_follow:
  "\<forall>c \<in> set cs. c \<noteq> DeleteTransfer tid \<and> c \<noteq> DeleteReceiveHistory \<Longrightarrow>
   rows_follow tid s (fold (perform_host e) cs (s :: 'z approvals_scheme))"
proof (induction cs arbitrary: s)
  case (Cons c cs)
  have "rows_follow tid s (perform_host e c s)" by (rule perform_host_follows) (use Cons.prems in auto)
  moreover have "rows_follow tid (perform_host e c s) (fold (perform_host e) cs (perform_host e c s))"
    by (rule Cons.IH) (use Cons.prems in auto)
  ultimately show ?case by (simp add: rows_follow_trans)
qed (simp add: rf.refl)

lemma final_requests:
  assumes "request_follows r q" and "rr_status r = request_as_str x" and "x \<in> {RrRefused, RrExpired, RrCompleted, RrFailed}"
  shows "rr_status q = rr_status r"
proof -
  have "y = x" if "request_edge\<^sup>*\<^sup>* x y" for y
    using that assms(3) by (cases rule: converse_rtranclpE) (auto elim: request_edge.cases)
  moreover have "x' = x" if "request_as_str x = request_as_str x'" for x' using that inj_as_str(2) by (simp add: inj_eq)
  ultimately show ?thesis using assms(1,2) by (auto simp: request_follows_def text_moves_def)
qed

lemma final_shares:
  assumes "row_follows r q" and "it_direction r = ''send''" and "it_status r = status_as_str x"
    and "x \<in> {TsStopped, TsFailed, TsCancelled, TsDone}"
  shows "it_status q = it_status r"
proof -
  have "y = x" if "(history_edge ''send'')\<^sup>*\<^sup>* x y" for y
    using that assms(4) by (cases rule: converse_rtranclpE) (auto simp: history_edge_def can_transition_to_def)
  moreover have "x' = x" if "status_as_str x = status_as_str x'" for x' using that inj_as_str(1) by (simp add: inj_eq)
  ultimately show ?thesis using assms(1-3) by (auto simp: row_follows_def text_moves_def)
qed

text \<open>
  C24: whatever requests, answers, receipts, receives, restarts and failures follow each other, a
  transfer that is not deleted keeps its identity and its status only moves along the transition table
  (a finished receive may start again), and every request for it keeps its receiver and moves from
  requested to an answer and from accepted to an outcome. A share that ended never comes back and a
  request that was refused, expired, completed or failed stays so.
\<close>

theorem invitation_rows_only_move_forward:
  fixes e :: approval_env and s :: "'z approvals_scheme"
  assumes "\<forall>c \<in> set cs. c \<noteq> DeleteTransfer tid \<and> c \<noteq> DeleteReceiveHistory"
  defines "t \<equiv> fold (perform_host e) cs s"
  shows "(\<forall>r \<in> set (iv_transfers s). it_transfer_id r = tid \<longrightarrow> (\<exists>q \<in> set (iv_transfers t). row_follows r q \<and>
      (it_direction r = ''send'' \<and> it_status r \<in> {''stopped'', ''failed'', ''cancelled'', ''done''} \<longrightarrow>
         it_status q = it_status r)))
    \<and> (\<forall>r \<in> set (iv_requests s). rr_transfer_id r = tid \<longrightarrow> (\<exists>q \<in> set (iv_requests t). request_follows r q \<and>
      (rr_status r \<in> {''refused'', ''expired'', ''completed'', ''failed''} \<longrightarrow> rr_status q = rr_status r)))"
proof (intro conjI)
  have follow: "rows_follow tid s t" unfolding t_def by (rule perform_hosts_follow [OF assms(1)])
  have share: "it_status q = it_status r" if "row_follows r q" "it_direction r = ''send''"
    "it_status r \<in> {''stopped'', ''failed'', ''cancelled'', ''done''}" for r q
    using that final_shares [OF that(1,2), of TsStopped] final_shares [OF that(1,2), of TsFailed]
      final_shares [OF that(1,2), of TsCancelled] final_shares [OF that(1,2), of TsDone] by (auto simp: status_as_str_def)
  have request: "rr_status q = rr_status r" if "request_follows r q"
    "rr_status r \<in> {''refused'', ''expired'', ''completed'', ''failed''}" for r q
    using that final_requests [OF that(1), of RrRefused] final_requests [OF that(1), of RrExpired]
      final_requests [OF that(1), of RrCompleted] final_requests [OF that(1), of RrFailed] by (auto simp: request_as_str_def)
  show "\<forall>r \<in> set (iv_transfers s). it_transfer_id r = tid \<longrightarrow> (\<exists>q \<in> set (iv_transfers t). row_follows r q \<and>
      (it_direction r = ''send'' \<and> it_status r \<in> {''stopped'', ''failed'', ''cancelled'', ''done''} \<longrightarrow>
         it_status q = it_status r))"
    using follow share unfolding rows_follow_def covered_def by blast
  show "\<forall>r \<in> set (iv_requests s). rr_transfer_id r = tid \<longrightarrow> (\<exists>q \<in> set (iv_requests t). request_follows r q \<and>
      (rr_status r \<in> {''refused'', ''expired'', ''completed'', ''failed''} \<longrightarrow> rr_status q = rr_status r))"
    using follow request unfolding rows_follow_def covered_def by blast
qed

theorem invitation_rows_only_move_forward_witness:
  "\<exists>q \<in> set (iv_requests (fold (perform_host ref_approval_env) (drop 2 ref_run) ref_asked)).
     request_follows (ref_request ''requested'' None None) q"
proof -
  have "\<forall>c \<in> set (drop 2 ref_run). c \<noteq> DeleteTransfer 7 \<and> c \<noteq> DeleteReceiveHistory" by (simp add: ref_run_def)
  from invitation_rows_only_move_forward [OF this, of ref_asked ref_approval_env]
  have "\<forall>r \<in> set (iv_requests ref_asked). rr_transfer_id r = 7 \<longrightarrow>
     (\<exists>q \<in> set (iv_requests (fold (perform_host ref_approval_env) (drop 2 ref_run) ref_asked)). request_follows r q)" by blast
  moreover have "ref_request ''requested'' None None \<in> set (iv_requests ref_asked)"
    "rr_transfer_id (ref_request ''requested'' None None) = 7"
    by (simp_all add: ref_asked_def ref_host_def ref_request_def)
  ultimately show ?thesis by blast
qed

section \<open>Well-formed tables\<close>

lemma perform_hosts_ok: "host_ok s \<Longrightarrow> host_ok (fold (perform_host e) cs (s :: 'z approvals_scheme))"
  by (induction cs arbitrary: s) (simp_all add: perform_host_ok)

lemma collect_total: "(\<And>x. x \<in> set xs \<Longrightarrow> \<exists>y. f x = Inr y) \<Longrightarrow> \<exists>ys. collect_results (map f xs) = Inr ys \<and> length ys = length xs"
proof (induction xs)
  case (Cons x xs)
  obtain y where "f x = Inr y" using Cons.prems by auto
  moreover obtain ys where "collect_results (map f xs) = Inr ys" "length ys = length xs"
    using Cons.IH Cons.prems by auto
  ultimately show ?case by simp
qed simp

lemma readable_row: "history_row_ok r \<Longrightarrow> \<exists>x. row_to_stored_transfer r = Inr x" "history_row_ok r \<Longrightarrow> \<exists>x. recovered_of_row r = Inr x"
  by (auto simp: history_row_ok_def row_to_stored_transfer_def recovered_of_row_def parse_direction_def parse_status_def)

lemma locator_roundtrip [simp]: "locator_kind_from_storage (locator_kind_to_storage k) = Inr k"
  by (cases k) (simp_all add: locator_kind_to_storage_def locator_kind_from_storage_def)

text \<open>
  C27: every run keeps the tables of invitations well formed: transfer ids, local ids, request ids,
  event ids and receipts are unique and every direction, status and locator kind is one the program
  can read. So on a working database the history and the received files can always be listed in full.
\<close>

theorem invitation_tables_stay_readable:
  fixes e :: approval_env and s :: "'z approvals_scheme" and cs
  assumes "host_ok s"
  defines "t \<equiv> fold (perform_host e) cs s"
  shows "host_ok t \<and> (db_faults t = [] \<longrightarrow>
      (\<exists>xs. fst (list_history t) = Inr xs \<and> length xs = length (iv_transfers t))
    \<and> (\<exists>xs. fst (list_received_artifacts t) = Inr xs \<and> length xs = length (iv_artifacts t)))"
proof -
  have t: "host_ok t" unfolding t_def by (rule perform_hosts_ok [OF assms(1)])
  let ?rows = "sort_key (\<lambda>r. - it_updated_at r) (iv_transfers t)"
  obtain xs where "collect_results (map row_to_stored_transfer ?rows) = Inr xs" "length xs = length ?rows"
    using collect_total [of ?rows row_to_stored_transfer] t readable_row by (auto simp: host_ok_def)
  then have list: "db_faults t = [] \<Longrightarrow> \<exists>xs. fst (list_history t) = Inr xs \<and> length xs = length (iv_transfers t)"
    by (simp add: list_history_def select_def transact_no_fault bind_def lift_def)
  let ?files = "sort_key (\<lambda>r. - ra_published_at r) (iv_artifacts t)"
  have "\<exists>y. artifact_of_row r = Inr y" if "r \<in> set ?files" for r
    using t that by (auto simp: host_ok_def artifacts_ok_def artifact_of_row_def)
  then obtain ys where "collect_results (map artifact_of_row ?files) = Inr ys" "length ys = length ?files"
    using collect_total [of ?files artifact_of_row] by auto
  then have "db_faults t = [] \<Longrightarrow> \<exists>xs. fst (list_received_artifacts t) = Inr xs \<and> length xs = length (iv_artifacts t)"
    by (simp add: list_received_artifacts_def select_def transact_no_fault bind_def lift_def)
  with t list show ?thesis by blast
qed

theorem invitation_tables_stay_readable_witness:
  "host_ok (fold (perform_host ref_approval_env) (drop 2 ref_run) ref_asked)"
  using invitation_tables_stay_readable [OF ref_hosts_ok(1), of ref_approval_env "drop 2 ref_run"] by simp

section \<open>Recovery and the event log\<close>

lemma collect_map: "collect_results (map f xs) = Inr ys \<Longrightarrow> (\<And>x y. f x = Inr y \<Longrightarrow> g y = h x) \<Longrightarrow> map g ys = map h xs"
  by (induction xs arbitrary: ys) (auto split: sum.splits)

lemma failed_ok: "history_row_ok r \<Longrightarrow> history_row_ok (r\<lparr>it_status := ''failed'', it_updated_at := n\<rparr>)"
  "\<not> interrupted (r\<lparr>it_status := ''failed'', it_updated_at := n\<rparr>)"
  by (simp_all add: history_row_ok_def interrupted_def status_try_from_def)

text \<open>
  C26: recovery at start marks exactly the imports and receives that were interrupted as failed, leaves
  every other transfer as it was, reports each of them once with the oldest first, and cannot fail on a
  working database with well-formed tables.
\<close>

theorem recovery_fails_exactly_the_interrupted:
  fixes s :: "'z host_scheme"
  assumes "host_ok s" and "db_faults s = []"
  shows "\<exists>recovered t. recover_interrupted_transfers now s = (Inr recovered, t)
    \<and> map rt_transfer_id recovered = map it_transfer_id (sort_key it_created_at (filter interrupted (iv_transfers s)))
    \<and> iv_transfers t = map (\<lambda>r. if interrupted r then r\<lparr>it_status := ''failed'', it_updated_at := now\<rparr> else r) (iv_transfers s)
    \<and> \<not> (\<exists>r \<in> set (iv_transfers t). interrupted r) \<and> iv_requests t = iv_requests s \<and> host_ok t"
proof -
  let ?rows = "sort_key it_created_at (filter interrupted (iv_transfers s))"
  let ?u = "\<lambda>r. r\<lparr>it_status := ''failed'', it_updated_at := now\<rparr>"
  have "\<exists>y. recovered_of_row r = Inr y" if "r \<in> set ?rows" for r
    using assms(1) readable_row(2) that by (auto simp: host_ok_def)
  then obtain rec where rec: "collect_results (map recovered_of_row ?rows) = Inr rec" "length rec = length ?rows"
    using collect_total [of ?rows recovered_of_row] by auto
  have ids: "map rt_transfer_id rec = map it_transfer_id ?rows"
    by (rule collect_map [OF rec(1)]) (auto simp: recovered_of_row_def split: sum.splits)
  have none: "update_where interrupted ?u (iv_transfers s) = iv_transfers s" if "rec = []"
  proof (rule update_where_none)
    have "?rows = []" using rec(2) that by simp
    then have "set ?rows = {}" by (simp only: list.set)
    then show "\<forall>r \<in> set (iv_transfers s). \<not> interrupted r" by auto
  qed
  let ?t = "if rec = [] then s else on_history (update_where interrupted ?u) s"
  have run: "recover_interrupted_transfers now s = (Inr rec, ?t)"
    using assms(2) rec(1) by (simp add: recover_interrupted_transfers_def transact_no_fault)
  have rows: "iv_transfers ?t = update_where interrupted ?u (iv_transfers s)" using none by simp
  have keys: "map it_transfer_id (iv_transfers ?t) = map it_transfer_id (iv_transfers s)"
    "map it_local_id (iv_transfers ?t) = map it_local_id (iv_transfers s)"
    unfolding rows by (rule map_update_where; simp)+
  have "\<forall>r \<in> set (iv_transfers ?t). history_row_ok r \<and> \<not> interrupted r"
    unfolding rows set_update_where using assms(1) failed_ok by (auto simp: host_ok_def)
  then have ok: "host_ok ?t" "\<not> (\<exists>r \<in> set (iv_transfers ?t). interrupted r)"
    using assms(1) keys by (simp_all add: host_ok_def)
  have map: "iv_transfers ?t = map (\<lambda>r. if interrupted r then ?u r else r) (iv_transfers s)"
    unfolding rows by (rule update_where_def)
  show ?thesis
    by (rule exI [of _ rec], rule exI [of _ ?t], intro conjI, rule run, rule ids, rule map, rule ok(2), simp, rule ok(1))
qed

theorem recovery_fails_exactly_the_interrupted_witness:
  "\<exists>recovered t. recover_interrupted_transfers 5 ref_importing = (Inr recovered, t) \<and> map rt_transfer_id recovered = [7]
     \<and> \<not> (\<exists>r \<in> set (iv_transfers t). interrupted r)"
proof -
  have "host_ok ref_importing" "db_faults ref_importing = []" by (rule ref_hosts_ok, simp add: ref_importing_def ref_host_def)
  from recovery_fails_exactly_the_interrupted [OF this, of 5]
  obtain rec t where "recover_interrupted_transfers 5 ref_importing = (Inr rec, t)"
    "map rt_transfer_id rec = map it_transfer_id (sort_key it_created_at (filter interrupted (iv_transfers ref_importing)))"
    "\<not> (\<exists>r \<in> set (iv_transfers t). interrupted r)" by blast
  moreover have "map it_transfer_id (sort_key it_created_at (filter interrupted (iv_transfers ref_importing))) = [7]"
    by (simp add: ref_importing_def ref_host_defs interrupted_def)
  ultimately show ?thesis by metis
qed

text \<open>
  storing an event keeps the log bounded. Afterwards it holds at most the configured number of
  events, all of them earlier ones or the new one, each once, and no event that was dropped is newer
  than one that was kept.
\<close>

theorem event_log_is_bounded:
  assumes "insert_event ev max_history s = (Inr x, t)" and "distinct (map ce_id (iv_events s))"
  shows "length (iv_events t) \<le> unat max_history \<and> distinct (map ce_id (iv_events t))
    \<and> set (iv_events t) \<subseteq> insert ev (set (iv_events s))
    \<and> (\<forall>kept \<in> set (iv_events t). \<forall>gone \<in> insert ev {old \<in> set (iv_events s). ce_id old \<noteq> ce_id ev} - set (iv_events t).
        (ce_timestamp gone, ce_id gone) \<le> (ce_timestamp kept, ce_id kept))"
proof -
  let ?key = "\<lambda>ev. (ce_timestamp ev, ce_id ev)"
  let ?all = "insert_or_replace ce_id ev (iv_events s)"
  let ?sorted = "rev (sort_key ?key ?all)"
  let ?kept = "newest_events (unat max_history) ?all"
  have t: "iv_events t = delete_where (\<lambda>e. \<not> List.member (map ce_id ?kept) (ce_id e)) ?all"
    using assms(1) by (auto simp: insert_event_def Let_def dest!: transact_InrD split: sum.splits)
  have ids: "distinct (map ce_id ?all)" by (rule events_replace [OF assms(2)])
  have all: "set ?all = insert ev {old \<in> set (iv_events s). ce_id old \<noteq> ce_id ev}" by (auto simp: insert_or_replace_def)
  have kept: "?kept = take (unat max_history) ?sorted" by (simp add: newest_events_def)
  have sub: "set ?kept \<subseteq> set ?all" unfolding kept using set_take_subset by fastforce
  have same: "set (iv_events t) = set ?kept"
  proof
    show "set (iv_events t) \<subseteq> set ?kept" using ids sub by (auto simp: t distinct_map inj_on_def) 
    show "set ?kept \<subseteq> set (iv_events t)" using sub by (auto simp: t)
  qed
  have dist: "distinct (map ce_id (iv_events t))" unfolding t by (rule distinct_delete_where [OF ids])
  have "length (iv_events t) = card (set (iv_events t))" using dist distinct_card distinct_map by metis
  also have "\<dots> \<le> length ?kept" unfolding same by (rule card_length)
  finally have len: "length (iv_events t) \<le> unat max_history" unfolding kept by simp
  have order: "?key gone \<le> ?key keep" if k: "keep \<in> set ?kept" and g: "gone \<in> set ?all - set ?kept" for keep gone
  proof -
    have "sorted_wrt (\<lambda>a b. ?key b \<le> ?key a) ?sorted"
      using sorted_sort_key [of ?key ?all] by (simp add: sorted_wrt_rev sorted_map)
    moreover have "?sorted = ?kept @ drop (unat max_history) ?sorted" by (simp add: kept)
    moreover have "gone \<in> set (drop (unat max_history) ?sorted)"
    proof -
      have "gone \<in> set (?kept @ drop (unat max_history) ?sorted)" using g by (simp add: kept)
      with g show ?thesis by simp
    qed
    ultimately show ?thesis using k sorted_wrt_append [of _ ?kept "drop (unat max_history) ?sorted"] by simp
  qed
  have "set ?kept \<subseteq> insert ev (set (iv_events s))" using sub all by blast
  with len dist order show ?thesis unfolding same all by (intro conjI ballI)
qed

theorem event_log_is_bounded_witness:
  "\<exists>t. insert_event (ref_event ''b'' 5) 1 (ref_host [] []\<lparr>iv_events := [ref_event ''a'' 3]\<rparr>) = (Inr (), t)
     \<and> length (iv_events t) \<le> 1 \<and> ref_event ''a'' 3 \<notin> set (iv_events t)"
proof -
  let ?s = "ref_host [] []\<lparr>iv_events := [ref_event ''a'' 3]\<rparr>"
  have run: "insert_event (ref_event ''b'' 5) 1 ?s = (Inr (), ref_host [] []\<lparr>iv_events := [ref_event ''b'' 5]\<rparr>)"
    by (simp add: insert_event_def transact_def ref_event_def ref_host_def to_db_id_def fits_i64_def insert_or_replace_def
        newest_events_def delete_where_def Let_def)
  from event_log_is_bounded [OF run] have "length (iv_events (ref_host [] []\<lparr>iv_events := [ref_event ''b'' 5]\<rparr>)) \<le> 1" by simp
  with run show ?thesis by (simp add: ref_event_def)
qed

section \<open>Receipts\<close>

text \<open>What a receipt over a connection of \<open>remote\<close> has to agree with: every field it presents, and the connection.\<close>

definition receipt_matches :: "approval_env \<Rightarrow> string \<Rightarrow> delivery_receipt \<Rightarrow> string \<Rightarrow> request_row \<Rightarrow> bool" where
  "receipt_matches e remote d status q \<longleftrightarrow> rr_id q = de_request_id d \<and> rr_transfer_id q = de_transfer_id d
     \<and> rr_remote_endpoint_id q = remote \<and> rr_receipt_token_hash q = Some (receipt_token_hash e (de_token d))
     \<and> rr_status q = status"

lemma receipt_matches_for: "receipt_matches e remote d status =
    receipt_for (de_request_id d) (de_transfer_id d) remote (receipt_token_hash e (de_token d)) status"
  by (auto simp: fun_eq_iff receipt_matches_def receipt_for_def)

lemma update_requestsD:
  "update_requests P w s = (Inr n, t) \<Longrightarrow> n = affected P (iv_requests s) \<and> iv_requests t = update_where P w (iv_requests s)"
  by (auto simp: update_requests_def dest!: transact_InrD)

lemma select_requests: "select f s = (Inr x, t) \<Longrightarrow> \<exists>s'. x = f s' \<and> iv_requests s' = iv_requests s \<and> iv_requests t = iv_requests s"
  by (auto simp: select_def dest!: transact_InrD)

lemma select_healthy: "db_faults s = [] \<Longrightarrow> select f s = (Inr (f s), s)"
  by (simp add: select_def transact_no_fault)

lemma find_SomeD: "List.find P xs = Some x \<Longrightarrow> x \<in> set xs \<and> P x"
  by (auto simp: find_Some_iff)

text \<open>The rows after a recorded completion.\<close>

lemma complete_receiver_deliveryD:
  assumes "complete_receiver_delivery now rid tid ep h s = (Inr name, t)"
  shows "iv_requests t = update_where (receipt_for rid tid ep h ''accepted'') (completed_now now) (iv_requests s)"
    and "\<exists>q \<in> set (iv_requests t). receipt_for rid tid ep h ''completed'' q \<and>
      name = receiver_display q"
proof -
  let ?done = "receipt_for rid tid ep h ''completed''"
  from assms obtain n s1 s2 u where up: "update_requests (receipt_for rid tid ep h ''accepted'')
      (completed_now now) s = (Inr n, s1)"
    and mid: "(if n \<noteq> 1 then bind (request_exists ?done) (\<lambda>b. if b then ok ()
             else err (Repository ''delivery receipt did not match an accepted receiver request''))
           else ok ()) s1 = (Inr u, s2)"
    and last: "bind (select (\<lambda>s. List.find ?done (iv_requests s))) (\<lambda>found. case found of
              None \<Rightarrow> err (Repository ''no rows returned'')
            | Some r \<Rightarrow> ok (receiver_display r)) s2 = (Inr name, t)"
    by (auto simp: complete_receiver_delivery_def Let_def next_do_def bind_eq_Inr lift_def)
  have s2: "iv_requests s2 = iv_requests s1"
    using mid by (auto simp: request_exists_def bind_eq_Inr dest!: select_requests split: if_splits)
  obtain q where q: "List.find ?done (iv_requests s2) = Some q" "iv_requests t = iv_requests s2"
      "name = receiver_display q"
  proof -
    from last obtain found where found: "select (\<lambda>s. List.find ?done (iv_requests s)) s2 = (Inr found, t)"
      and name: "found = Some q \<Longrightarrow> name = receiver_display q" and some: "found \<noteq> None" for q
      by (auto simp: bind_eq_Inr split: option.splits)
    from some obtain q where q: "found = Some q" by blast
    have "List.find ?done (iv_requests s2) = Some q" "iv_requests t = iv_requests s2"
      using select_requests [OF found] q by auto
    then show thesis by (rule that) (rule name [OF q])
  qed
  have s1: "iv_requests s1 = update_where (receipt_for rid tid ep h ''accepted'') (completed_now now) (iv_requests s)"
    using update_requestsD [OF up] by simp
  show "iv_requests t = update_where (receipt_for rid tid ep h ''accepted'') (completed_now now) (iv_requests s)"
    using q(2) s2 s1 by simp
  show "\<exists>q \<in> set (iv_requests t). ?done q \<and>
      name = receiver_display q"
    using find_SomeD [OF q(1)] q(2,3) by auto
qed

lemma complete_receiver_delivery_healthy:
  assumes "db_faults s = []" and "fits_i64 tid" and "distinct (map rr_id (iv_requests s))"
    and q: "q \<in> set (iv_requests s)" "receipt_for rid tid ep h ''accepted'' q \<or> receipt_for rid tid ep h ''completed'' q"
  shows "\<exists>name t. complete_receiver_delivery now rid tid ep h s = (Inr name, t)"
proof -
  let ?acc = "receipt_for rid tid ep h ''accepted''" and ?done = "receipt_for rid tid ep h ''completed''"
  let ?rows = "update_where ?acc (completed_now now) (iv_requests s)"
  let ?q = "if ?acc q then completed_now now q else q"
  have "?q \<in> set ?rows" using q(1) by (auto simp: update_where_def)
  moreover have "?done ?q" using q(2) by (auto simp: receipt_for_def completed_now_def)
  ultimately have ex: "exists_where ?done ?rows" by (auto simp: exists_where_iff)
  then obtain r where r: "List.find ?done ?rows = Some r" by (cases "List.find ?done ?rows") (auto simp: find_None_iff)
  have up: "update_requests ?acc (completed_now now) s = (Inr (affected ?acc (iv_requests s)), on_requests (\<lambda>_. ?rows) s)"
    using assms(1) by (simp add: update_requests_def transact_no_fault)
  have healthy: "db_faults (on_requests (\<lambda>_. ?rows) s) = []" using assms(1) by simp
  show ?thesis
    using assms(2) ex r unfolding complete_receiver_delivery_def Let_def
    by (simp add: next_do_def bind_def lift_def to_db_id_def up request_exists_def select_healthy healthy ok_def)
qed

lemma quietly_ok: "\<exists>t. quietly m s = (Inr (), t)"
  by (simp add: quietly_def attempt_def ok_def split: prod.split)

lemma delivery_run:
  obtains x s1 t where "complete_receiver_delivery now (de_request_id d) (de_transfer_id d) remote
      (receipt_token_hash e (de_token d)) (s :: 'z approvals_scheme) = (x, s1)"
    and "complete_delivery e now now' u remote d s =
      (Inr (case x of Inr _ \<Rightarrow> Recorded | Inl _ \<Rightarrow> ReceiptRejected ''invalid-receipt''), t)"
    and "iv_requests t = iv_requests s1"
proof -
  obtain x s1 where x: "complete_receiver_delivery now (de_request_id d) (de_transfer_id d) remote
      (receipt_token_hash e (de_token d)) s = (x, s1)" by fastforce
  define rest :: "string option \<Rightarrow> ('z approvals_scheme, unit) proc" where "rest n = (if ae_has_eligibility e then quietly (activate_after_completed_transfer (ae_pair e) now' u
      remote n (de_request_id d) (de_token d)) else ok ())" for n
  have "stable host_frame (rest n :: ('z approvals_scheme, unit) proc)" for n
    unfolding rest_def quietly_def by (intro hf.el_base ha.stable_activate TrueI)
  moreover have "\<exists>t. rest n s1 = (Inr (), t)" for n
    unfolding rest_def by (auto simp: ok_def intro: quietly_ok)
  ultimately have run: "\<exists>t. rest n s1 = (Inr (), t) \<and> host_frame s1 t" for n
    by (metis stableD)
  show thesis
  proof (cases x)
    case (Inl er)
    then show thesis using that [OF x] x by (auto simp: complete_delivery_def attempt_def ok_def)
  next
    case (Inr n)
    from run obtain t where t: "rest n s1 = (Inr (), t)" "host_frame s1 t" by blast
    then show thesis using that [OF x, where t = "t\<lparr>emitted := emitted t @ [(''delivery'', ''receiver-completed'')]\<rparr>"] x Inr
      by (simp add: complete_delivery_def attempt_def rest_def next_do_def bind_def emit_def modify_def ok_def host_frame_def)
  qed
qed

text \<open>
  C25: a delivery is recorded exactly for the receiver it belongs to. When the answer is
  \<open>Recorded\<close>, there was a request with the id and transfer of the receipt, made by the endpoint of the
  connection, accepted, and carrying the hash of the token presented; that request is completed now and
  no other request changes. On a working database such a receipt is always recorded, also when it is
  reported again.
\<close>

theorem deliveries_are_recorded_for_their_receiver:
  fixes s :: "'z approvals_scheme"
  shows "(complete_delivery e now now' u remote d s = (Inr Recorded, t) \<longrightarrow>
      (\<exists>q \<in> set (iv_requests s). receipt_matches e remote d ''accepted'' q \<or> receipt_matches e remote d ''completed'' q)
      \<and> iv_requests t = update_where (receipt_matches e remote d ''accepted'') (completed_now now) (iv_requests s)
      \<and> \<not> (\<exists>q \<in> set (iv_requests t). receipt_matches e remote d ''accepted'' q))
    \<and> (db_faults s = [] \<and> host_ok s \<and> fits_i64 (de_transfer_id d)
       \<and> (\<exists>q \<in> set (iv_requests s). receipt_matches e remote d ''accepted'' q \<or> receipt_matches e remote d ''completed'' q)
       \<longrightarrow> fst (complete_delivery e now now' u remote d s) = Inr Recorded)"
proof (intro conjI impI)
  let ?acc = "receipt_matches e remote d ''accepted''" and ?done = "receipt_matches e remote d ''completed''"
  note match = receipt_matches_for [of e remote d]
  have not_accepted: "\<not> ?acc (completed_now now q)" for q
    by (simp add: match receipt_for_def completed_now_def)
  assume run: "complete_delivery e now now' u remote d s = (Inr Recorded, t)"
  obtain x s1 t' where "complete_receiver_delivery now (de_request_id d) (de_transfer_id d) remote
      (receipt_token_hash e (de_token d)) s = (x, s1)"
    and "complete_delivery e now now' u remote d s =
      (Inr (case x of Inr _ \<Rightarrow> Recorded | Inl _ \<Rightarrow> ReceiptRejected ''invalid-receipt''), t')"
    and "iv_requests t' = iv_requests s1" by (rule delivery_run)
  then obtain name where c: "complete_receiver_delivery now (de_request_id d) (de_transfer_id d) remote
      (receipt_token_hash e (de_token d)) s = (Inr name, s1)" "iv_requests t = iv_requests s1"
    using run by (cases x) auto
  have t: "iv_requests t = update_where ?acc (completed_now now) (iv_requests s)"
    using complete_receiver_deliveryD(1) [OF c(1)] c(2) by (simp add: match)
  obtain q where "q \<in> set (iv_requests t)" "?done q"
    using complete_receiver_deliveryD(2) [OF c(1)] c(2) by (auto simp: match)
  then show "\<exists>q \<in> set (iv_requests s). ?acc q \<or> ?done q" using t by (auto simp: set_update_where)
  show "iv_requests t = update_where ?acc (completed_now now) (iv_requests s)" by (rule t)
  show "\<not> (\<exists>q \<in> set (iv_requests t). ?acc q)"
    unfolding t set_update_where by (auto simp: not_accepted split: if_splits)
next
  assume a: "db_faults s = [] \<and> host_ok s \<and> fits_i64 (de_transfer_id d)
    \<and> (\<exists>q \<in> set (iv_requests s). receipt_matches e remote d ''accepted'' q \<or> receipt_matches e remote d ''completed'' q)"
  then obtain q where q: "q \<in> set (iv_requests s)"
    "receipt_for (de_request_id d) (de_transfer_id d) remote (receipt_token_hash e (de_token d)) ''accepted'' q
     \<or> receipt_for (de_request_id d) (de_transfer_id d) remote (receipt_token_hash e (de_token d)) ''completed'' q"
    by (auto simp: receipt_matches_for)
  have "distinct (map rr_id (iv_requests s))" using a by (simp add: host_ok_def)
  then obtain name s' where c: "complete_receiver_delivery now (de_request_id d) (de_transfer_id d) remote
      (receipt_token_hash e (de_token d)) s = (Inr name, s')"
    using complete_receiver_delivery_healthy [OF _ _ _ q, of now] a by blast
  obtain x s1 t' where "complete_receiver_delivery now (de_request_id d) (de_transfer_id d) remote
      (receipt_token_hash e (de_token d)) s = (x, s1)"
    and "complete_delivery e now now' u remote d s =
      (Inr (case x of Inr _ \<Rightarrow> Recorded | Inl _ \<Rightarrow> ReceiptRejected ''invalid-receipt''), t')"
    by (rule delivery_run)
  with c show "fst (complete_delivery e now now' u remote d s) = Inr Recorded" by simp
qed

theorem deliveries_are_recorded_for_their_receiver_witness:
  "fst (complete_delivery ref_approval_env 40 40 ''u'' ''bob'' \<lparr>de_request_id = ''r1'', de_transfer_id = 7, de_token = ''tk''\<rparr>
     ref_granted) = Inr Recorded"
  using deliveries_are_recorded_for_their_receiver [of ref_approval_env 40 40 "''u''" "''bob''"
      "\<lparr>de_request_id = ''r1'', de_transfer_id = 7, de_token = ''tk''\<rparr>" ref_granted] ref_hosts_ok(2)
  by (simp add: ref_granted_def ref_host_defs ref_request_def receipt_matches_def receipt_token_hash_def fits_i64_def)

end
