(* ===== verification/Approval_Decisions.thy ===== *)
theory Approval_Decisions
  imports Approval_Properties
begin

text \<open>
  Where a permission to download comes from. \<open>memory_within W G M\<close> bounds what a step may add to the
  memory of the approval service: waiters of \<open>W\<close>, sessions of \<open>G\<close> and modes of \<open>M\<close>. It is a preorder that the
  operations of the store keep, so each command is bounded by what it says it adds
  (\<open>perform_host_within\<close>), and the origin of every session follows by induction over the run.
\<close>

section \<open>What a run did\<close>








section \<open>What a step adds to the memory\<close>






















section \<open>The origin of every session\<close>













end
