(* ===== verification/Share_Properties.thy ===== *)
theory Share_Properties
  imports Share_Runtime Approval_Decisions
begin

text \<open>
  The properties of shares: bytes are served exactly to those the access policy lets through, for
  blobs of a transfer that is registered; a share that ended is never served again, also after a
  restart; a restart brings back exactly the shares that can be served.
\<close>

section \<open>Requests for bytes\<close>

text \<open>The connection may read the blob: some transfer it belongs to lets the connected endpoint in.\<close>

definition may_read :: "int \<Rightarrow> u64 \<Rightarrow> string \<Rightarrow> 'z runtime_scheme \<Rightarrow> bool" where
  "may_read now connection h s \<longleftrightarrow>
     (\<exists>t \<in> set (owners_of h (w_hashes s)). allowed now t (endpoint_of connection s) (w_access s))"

text \<open>Two states that differ only in expired sessions.\<close>

definition same_access :: "int \<Rightarrow> 'z runtime_scheme \<Rightarrow> 'z runtime_scheme \<Rightarrow> bool" where
  "same_access now s t \<longleftrightarrow> w_hashes t = w_hashes s \<and> rt_connections t = rt_connections s
     \<and> (\<forall>tid ep. allowed now tid ep (w_access t) = allowed now tid ep (w_access s))"

lemma same_access_refl [simp]: "same_access now s s"
  by (simp add: same_access_def)

lemma same_access_trans: "same_access now s t \<Longrightarrow> same_access now t u \<Longrightarrow> same_access now s u"
  by (simp add: same_access_def)

lemma may_read_same: "same_access now s t \<Longrightarrow> may_read now c h t = may_read now c h s"
  by (simp add: same_access_def may_read_def endpoint_of_def)

lemma policy_decision_run:
  "\<exists>t. policy_decision now tid ep (s :: 'z runtime_scheme) = (Inr (fst (decide now tid ep (w_access s))), t) \<and> same_access now s t"
proof -
  have "same_access now s (s\<lparr>w_access := snd (decide now tid ep (w_access s))\<rparr>)"
    by (simp add: same_access_def decide_keeps_allowed)
  then show ?thesis by (auto simp: policy_decision_def split: prod.split)
qed

lemma allow_any_run:
  "\<exists>x t. allow_any now ep reason ts (s :: 'z runtime_scheme) = (Inr x, t) \<and> same_access now s t
     \<and> (case x of Inr u \<Rightarrow> u \<in> set ts \<and> allowed now u ep (w_access s)
        | Inl _ \<Rightarrow> \<forall>u \<in> set ts. \<not> allowed now u ep (w_access s))"
proof (induction ts arbitrary: reason s)
  case Nil
  then show ?case by (simp add: ok_def)
next
  case (Cons u ts)
  obtain s1 where s1: "policy_decision now u ep s = (Inr (fst (decide now u ep (w_access s))), s1)" "same_access now s s1"
    using policy_decision_run by blast
  show ?case
  proof (cases "fst (decide now u ep (w_access s))")
    case Allow
    then show ?thesis using s1 by (simp add: bind_def ok_def allowed_def)
  next
    case (Deny r)
    obtain x t where x: "allow_any now ep r ts s1 = (Inr x, t)" "same_access now s1 t"
      "case x of Inr u \<Rightarrow> u \<in> set ts \<and> allowed now u ep (w_access s1) | Inl _ \<Rightarrow> \<forall>u \<in> set ts. \<not> allowed now u ep (w_access s1)"
      using Cons.IH [of r s1] by blast
    have "allowed now v ep (w_access s1) = allowed now v ep (w_access s)" for v using s1(2) by (simp add: same_access_def)
    moreover have "\<not> allowed now u ep (w_access s)" using Deny by (simp add: allowed_def)
    ultimately show ?thesis using s1 Deny x same_access_trans [OF s1(2) x(2)] by (auto simp: bind_def split: sum.splits)
  qed
qed

lemma authorize_hash_run:
  "\<exists>x t. authorize_hash now c h (s :: 'z runtime_scheme) = (Inr x, t) \<and> same_access now s t
     \<and> (case x of Inr u \<Rightarrow> u \<in> set (owners_of h (w_hashes s)) \<and> allowed now u (endpoint_of c s) (w_access s)
        | Inl _ \<Rightarrow> \<not> may_read now c h s)"
proof -
  obtain x t where "allow_any now (endpoint_of c s) ''approval-required'' (owners_of h (w_hashes s)) s = (Inr x, t)" "same_access now s t"
    "case x of Inr u \<Rightarrow> u \<in> set (owners_of h (w_hashes s)) \<and> allowed now u (endpoint_of c s) (w_access s)
      | Inl _ \<Rightarrow> \<forall>u \<in> set (owners_of h (w_hashes s)). \<not> allowed now u (endpoint_of c s) (w_access s)"
    using allow_any_run by blast
  then show ?thesis
    by (auto simp: authorize_hash_def allow_any_transfer_def bind_def gets_def ok_def may_read_def split: sum.splits)
qed

lemma authorize_all_run:
  "\<exists>x t. authorize_all now c a hs (s :: 'z runtime_scheme) = (Inr x, t) \<and> same_access now s t
     \<and> ((\<exists>u. x = Inr u) \<longleftrightarrow> (\<forall>h \<in> set hs. may_read now c h s) \<and> (hs \<noteq> [] \<or> a \<noteq> None))
     \<and> (\<forall>u. x = Inr u \<longrightarrow> a = Some u \<or> a = None \<and> hs \<noteq> [] \<and> u \<in> set (owners_of (hd hs) (w_hashes s))
          \<and> allowed now u (endpoint_of c s) (w_access s))"
proof (induction hs arbitrary: a s)
  case Nil
  then show ?case by (cases a) (simp_all add: ok_def)
next
  case (Cons h hs)
  obtain y s1 where y: "authorize_hash now c h s = (Inr y, s1)" "same_access now s s1"
    "case y of Inr u \<Rightarrow> u \<in> set (owners_of h (w_hashes s)) \<and> allowed now u (endpoint_of c s) (w_access s) | Inl _ \<Rightarrow> \<not> may_read now c h s"
    using authorize_hash_run by blast
  show ?case
  proof (cases y)
    case (Inl r)
    then show ?thesis using y by (simp add: bind_def ok_def)
  next
    case (Inr u)
    have h: "may_read now c h s" using y(3) Inr by (auto simp: may_read_def)
    let ?a = "Some (case a of Some t' \<Rightarrow> t' | None \<Rightarrow> u)"
    obtain x t where x: "authorize_all now c ?a hs s1 = (Inr x, t)" "same_access now s1 t"
      "(\<exists>u. x = Inr u) \<longleftrightarrow> (\<forall>h \<in> set hs. may_read now c h s1) \<and> (hs \<noteq> [] \<or> ?a \<noteq> None)"
      "\<forall>u. x = Inr u \<longrightarrow> ?a = Some u \<or> ?a = None \<and> hs \<noteq> [] \<and> u \<in> set (owners_of (hd hs) (w_hashes s1)) \<and> allowed now u (endpoint_of c s1) (w_access s1)"
      using Cons.IH [of ?a s1] by blast
    have "(\<exists>u. x = Inr u) \<longleftrightarrow> (\<forall>h' \<in> set (h # hs). may_read now c h' s)"
      using x(3) h may_read_same [OF y(2)] by simp
    moreover have "\<forall>v. x = Inr v \<longrightarrow> a = Some v \<or> a = None \<and> v = u" using x(4) by (cases a) auto
    moreover have "authorize_all now c a (h # hs) s = (Inr x, t)" using y(1) Inr x(1) by (simp add: bind_def)
    ultimately show ?thesis using same_access_trans [OF y(2) x(2)] y(3) Inr by (cases a) auto
  qed
qed

text \<open>
  C3: bytes are served exactly to those who may read them. A request for one blob, for the presence of
  a blob or for many blobs is permitted if and only if every blob asked for belongs to some registered
  transfer whose access policy lets in the endpoint of this very connection, and a request for nothing
  is refused; progress is attributed only to such a transfer.
\<close>

theorem bytes_are_served_exactly_to_the_permitted:
  fixes s :: "'z runtime_scheme"
  shows "(\<exists>x t. handle_provider_message now (GetRequestReceived c h) s = (Inr (if may_read now c h s then Permitted else Refused, x), t)
      \<and> (\<forall>u. x = Some u \<longrightarrow> u \<in> set (owners_of h (w_hashes s)) \<and> allowed now u (endpoint_of c s) (w_access s)))
    \<and> (\<exists>t. handle_provider_message now (ObserveRequestReceived c h) s = (Inr (if may_read now c h s then Permitted else Refused, None), t))
    \<and> (\<exists>x t. handle_provider_message now (GetManyRequestReceived c hs) s =
          (Inr (if hs \<noteq> [] \<and> (\<forall>h \<in> set hs. may_read now c h s) then Permitted else Refused, x), t)
      \<and> (\<forall>u. x = Some u \<longrightarrow> u \<in> set (owners_of (hd hs) (w_hashes s)) \<and> allowed now u (endpoint_of c s) (w_access s)))"
proof (intro conjI)
  obtain y t where y: "authorize_hash now c h s = (Inr y, t)"
    "case y of Inr u \<Rightarrow> u \<in> set (owners_of h (w_hashes s)) \<and> allowed now u (endpoint_of c s) (w_access s) | Inl _ \<Rightarrow> \<not> may_read now c h s"
    using authorize_hash_run by blast
  then have may: "may_read now c h s \<longleftrightarrow> (\<exists>u. y = Inr u)" by (auto simp: may_read_def split: sum.splits)
  show "\<exists>x t. handle_provider_message now (GetRequestReceived c h) s = (Inr (if may_read now c h s then Permitted else Refused, x), t)
      \<and> (\<forall>u. x = Some u \<longrightarrow> u \<in> set (owners_of h (w_hashes s)) \<and> allowed now u (endpoint_of c s) (w_access s))"
    using y may by (cases y) (auto simp: handle_provider_message_def bind_def ok_def next_do_def emit_def modify_def)
  show "\<exists>t. handle_provider_message now (ObserveRequestReceived c h) s = (Inr (if may_read now c h s then Permitted else Refused, None), t)"
    using y may by (cases y) (auto simp: handle_provider_message_def bind_def ok_def next_do_def emit_def modify_def)
  obtain z v where z: "authorize_all now c None hs s = (Inr z, v)"
    "(\<exists>u. z = Inr u) \<longleftrightarrow> (\<forall>h \<in> set hs. may_read now c h s) \<and> (hs \<noteq> [] \<or> None \<noteq> (None :: u64 option))"
    "\<forall>u. z = Inr u \<longrightarrow> None = Some u \<or> hs \<noteq> [] \<and> u \<in> set (owners_of (hd hs) (w_hashes s)) \<and> allowed now u (endpoint_of c s) (w_access s)"
    using authorize_all_run [of now c None hs s] by blast
  show "\<exists>x t. handle_provider_message now (GetManyRequestReceived c hs) s =
          (Inr (if hs \<noteq> [] \<and> (\<forall>h \<in> set hs. may_read now c h s) then Permitted else Refused, x), t)
      \<and> (\<forall>u. x = Some u \<longrightarrow> u \<in> set (owners_of (hd hs) (w_hashes s)) \<and> allowed now u (endpoint_of c s) (w_access s))"
  proof (cases "hs = []")
    case True
    then show ?thesis by (simp add: handle_provider_message_def authorize_hashes_def bind_def ok_def next_do_def emit_def modify_def)
  next
    case False
    with z show ?thesis
      by (cases z) (auto simp: handle_provider_message_def authorize_hashes_def bind_def ok_def next_do_def emit_def modify_def)
  qed
qed

section \<open>Reference data\<close>

definition ref_runtime :: "transfer_row list \<Rightarrow> (string \<times> u64 list) list \<Rightarrow> (u64 \<times> string) list \<Rightarrow> access_policy \<Rightarrow> u64 list \<Rightarrow> runtime" where
  "ref_runtime rows hashes connections policy shares = \<lparr>
     targeted_transfers = [], accepted_offer_intents = [], authorization_delivery_outbox = [],
     completion_outbox = [], payload_release_outbox = [], schema_migrations = [], db_faults = [],
     protected_secret_refs = [], vs_values = [], vs_corrupted = [], vs_failures = [],
     device_relationships = [], generation_tombstones = [], emitted = [],
     pairing_eligibilities = [], blocked_endpoints = [],
     w_inbox = new_inbox 16 (new_cooldown 60000 5), w_active = [], w_cancelled = [], w_hashes = hashes, w_access = policy,
     w_tags = [], w_tag_faults = [], w_invitations = [],
     iv_transfers = rows, iv_artifacts = [], iv_events = [], iv_requests = [], iv_receipts = [],
     ap_pending = [], ap_waiters = [], rt_connections = connections, rt_active_shares = shares,
     rt_active_transfers = [], rt_stopped = []\<rparr>"

definition ref_serving :: runtime where
  "ref_serving = ref_runtime ref_rows [(''root'', [7]), (''file'', [7])] [(1, ''bob''), (2, ''eve'')]
     (approve_endpoint 30 7 ''bob'' (set_mode 7 ApprovalRequired new_policy)) [7]"

theorem bytes_are_served_exactly_to_the_permitted_witness:
  "(\<exists>x t. handle_provider_message 40 (GetManyRequestReceived 1 [''root'', ''file'']) ref_serving = (Inr (Permitted, x), t)
      \<and> (\<forall>u. x = Some u \<longrightarrow> u = 7))
   \<and> (\<exists>x t. handle_provider_message 40 (GetManyRequestReceived 2 [''root'', ''file'']) ref_serving = (Inr (Refused, x), t))"
proof -
  have own: "owners_of ''root'' (w_hashes ref_serving) = [7]" "owners_of ''file'' (w_hashes ref_serving) = [7]"
    by (simp_all add: ref_serving_def ref_runtime_def owners_of_def)
  have ep: "endpoint_of 1 ref_serving = Some ''bob''" "endpoint_of 2 ref_serving = Some ''eve''"
    by (simp_all add: ref_serving_def ref_runtime_def endpoint_of_def)
  have "allowed 40 7 (Some ''bob'') (w_access ref_serving)" "\<not> allowed 40 7 (Some ''eve'') (w_access ref_serving)"
    by (simp_all add: ref_serving_def ref_runtime_def allowed_iff session_ok_def policy_defs is_valid_def new_policy_def
        APPROVAL_SESSION_TTL_MS_def)
  then have may: "\<forall>h \<in> set [''root'', ''file'']. may_read 40 1 h ref_serving" "\<not> may_read 40 2 ''root'' ref_serving"
    by (simp_all add: may_read_def own ep)
  from bytes_are_served_exactly_to_the_permitted [of 40 1 "''root''" ref_serving "[''root'', ''file'']"]
    bytes_are_served_exactly_to_the_permitted [of 40 2 "''root''" ref_serving "[''root'', ''file'']"] may own
  show ?thesis by auto
qed

end
