(* ===== verification/Share_Runs.thy ===== *)
theory Share_Runs
  imports Share_Properties
begin

text \<open>
  Runs of the runtime: the operations of the user, the messages of receivers and of the blob provider,
  the steps of waiting calls and restarts, in any order. \<open>ended tid\<close> says that a share is over: no blob
  is registered for it and its row, if there still is one, is a send with a final status or not a
  send. Every command keeps it, except beginning a new share under the same id.
\<close>

section \<open>Commands\<close>

datatype runtime_command =
    BeginShare int string nat share_metadata
  | PublishShare int share_metadata transfer_import "vnidrop_error + string"
  | EndShare u64
  | FailShare int u64
  | AbandonShare int u64
  | CancelTransfer int u64
  | DeleteShare int u64
  | ClearReceiveHistory
  | SetTransferMode int u64 TransferAccessMode
  | ApproveEndpointFor int u64 string
  | BeginReceive int string transfer_upsert
  | FinishReceive int string u64 string string "string option" delivery_receipt
  | FailReceive int u64 string bool string "delivery_receipt option"
  | DeliverReceipts "pending_delivery_receipt \<Rightarrow> bool \<times> bool \<times> receipt_reply"
  | StoreEvent core_event u64
  | FromReceiver int int string string string HandshakeMessage
  | FinishWaiting int string string
  | Respond int string bool "string option"
  | FromProvider int provider_message
  | Restart int

fun perform_runtime :: "runtime_env \<Rightarrow> runtime_command \<Rightarrow> 'z runtime_scheme \<Rightarrow> 'z runtime_scheme" where
  "perform_runtime e (BeginShare n u k m) s = snd (begin_share (nv_limits e) n u k m s)"
| "perform_runtime e (PublishShare n m im ticket) s = snd (publish_share n m im ticket s)"
| "perform_runtime e (EndShare t) s = drop_active t s"
| "perform_runtime e (FailShare n t) s = snd (fail_share n t s)"
| "perform_runtime e (AbandonShare n t) s = snd (abandon_share n t s)"
| "perform_runtime e (CancelTransfer n t) s = snd (cancel_transfer n t s)"
| "perform_runtime e (DeleteShare n t) s = snd (delete_share n t s)"
| "perform_runtime e ClearReceiveHistory s = snd (delete_receive_history s)"
| "perform_runtime e (SetTransferMode n t m) s = snd (set_transfer_access_mode n t m s)"
| "perform_runtime e (ApproveEndpointFor n t p) s = snd (approve_endpoint_for_transfer (nv_limits e) n t p s)"
| "perform_runtime e (BeginReceive n u t) s = snd (persist_receive_start n u t s)"
| "perform_runtime e (FinishReceive n u t a p sn d) s = snd (finish_receive (nv_approval e) n u t a p sn d s)"
| "perform_runtime e (FailReceive n t a c code d) s = snd (fail_receive n t a c code d s)"
| "perform_runtime e (DeliverReceipts net) s = snd (deliver_pending_receipts net s)"
| "perform_runtime e (StoreEvent ev m) s = snd (insert_event ev m s)"
| "perform_runtime e (FromReceiver n n' u tk p m) s = snd (handle_handshake_message (nv_approval e) n n' u tk p m s)"
| "perform_runtime e (FinishWaiting n tk rid) s = (case find_by aw_request_id rid (ap_waiters s) of
      None \<Rightarrow> s | Some w \<Rightarrow> snd (finish_decision (nv_approval e) n tk w s))"
| "perform_runtime e (Respond n rid b reason) s = snd (respond_to_receiver n rid b reason s)"
| "perform_runtime e (FromProvider n m) s = snd (handle_provider_message n m s)"
| "perform_runtime e (Restart n) s = snd (restore_invitations e n s)"

section \<open>A share that is over\<close>

definition registered :: "u64 \<Rightarrow> (string \<times> u64 list) list \<Rightarrow> bool" where
  "registered tid registry \<longleftrightarrow> (\<exists>e \<in> set registry. tid \<in> set (snd e))"

definition over :: "u64 \<Rightarrow> transfer_row \<Rightarrow> bool" where
  "over tid r \<longleftrightarrow> (it_transfer_id r = tid \<and> it_direction r = ''send'' \<longrightarrow>
     it_status r \<in> {''stopped'', ''failed'', ''cancelled'', ''done''})"

definition ended :: "u64 \<Rightarrow> 'z host_scheme \<Rightarrow> bool" where
  "ended tid s \<longleftrightarrow> \<not> registered tid (w_hashes s) \<and> (\<forall>r \<in> set (iv_transfers s). over tid r)"

definition keeps_ended :: "u64 \<Rightarrow> 'z host_scheme \<Rightarrow> 'z host_scheme \<Rightarrow> bool" where
  "keeps_ended tid s t \<longleftrightarrow> (ended tid s \<longrightarrow> ended tid t)"

lemma over_follows: "row_follows r q \<Longrightarrow> over tid r \<Longrightarrow> over tid q"
  unfolding over_def
proof (intro impI, elim conjE)
  assume f: "row_follows r q" and id: "it_transfer_id q = tid" "it_direction q = ''send''"
    and o: "it_transfer_id r = tid \<and> it_direction r = ''send'' \<longrightarrow> it_status r \<in> {''stopped'', ''failed'', ''cancelled'', ''done''}"
  have r: "it_transfer_id r = tid" "it_direction r = ''send''" using f id by (simp_all add: row_follows_def)
  with o have st: "it_status r \<in> {''stopped'', ''failed'', ''cancelled'', ''done''}" by simp
  then have "\<exists>x \<in> {TsStopped, TsFailed, TsCancelled, TsDone}. it_status r = status_as_str x" by (simp add: status_as_str_def)
  then have "it_status q = it_status r" using final_shares [OF f r(2)] by blast
  with st show "it_status q \<in> {''stopped'', ''failed'', ''cancelled'', ''done''}" by simp
qed

lemma keeps_ended_same: "iv_transfers t = iv_transfers s \<Longrightarrow> w_hashes t = w_hashes s \<Longrightarrow> keeps_ended tid s t"
  by (simp add: keeps_ended_def ended_def)

interpretation ke: updates_preorder "keeps_ended tid"
proof
  fix s t v :: "'z approvals_scheme" and fs P u Q w r q rows evs ds
  show "keeps_ended tid s s" by (simp add: keeps_ended_def)
  show "keeps_ended tid s t \<Longrightarrow> keeps_ended tid t v \<Longrightarrow> keeps_ended tid s v" by (simp add: keeps_ended_def)
  show "keeps_ended tid s (s\<lparr>db_faults := fs\<rparr>)" by (rule keeps_ended_same) simp_all
  show "host_frame s t \<Longrightarrow> keeps_ended tid s t" by (rule keeps_ended_same) (simp_all add: host_frame_def)
  show "keeps_ended tid s (on_requests (update_where Q w) s)" "keeps_ended tid s (on_requests (\<lambda>rows. rows @ [q]) s)"
    "keeps_ended tid s (s\<lparr>iv_artifacts := rows\<rparr>)" "keeps_ended tid s (s\<lparr>iv_events := evs\<rparr>)"
    "keeps_ended tid s (s\<lparr>iv_receipts := ds\<rparr>)"
    by (rule keeps_ended_same; simp)+
  show "keeps_ended tid s (on_history (update_where P u) s)" if "\<And>r. P r \<Longrightarrow> row_follows r (u r)"
    using over_follows [OF that] by (auto simp: keeps_ended_def ended_def set_update_where)
qed

interpretation kd: decision_preorder "keeps_ended tid"
  by unfold_locales (rule keeps_ended_same; simp)+


section \<open>Every command keeps it\<close>

lemma registered_hash: "registered tid (register_hash t h reg) \<Longrightarrow> registered tid reg \<or> tid = t"
  unfolding registered_def register_hash_def by (force simp: set_update_where split: if_splits)

lemma registered_hashes: "registered tid (fold (register_hash t) hs reg) \<Longrightarrow> registered tid reg \<or> tid = t"
  by (induction hs arbitrary: reg) (auto dest: registered_hash)

lemma registered_release:
  "registered tid (filter (\<lambda>(h, owners). owners \<noteq> []) (map (\<lambda>(h, owners). (h, removeAll p owners)) reg)) \<Longrightarrow>
     registered tid reg \<and> tid \<noteq> p"
  unfolding registered_def by force

lemma ended_register: "tid \<noteq> t \<Longrightarrow> stable (keeps_ended tid) (register_share_hashes t hs :: ('z approvals_scheme, unit) proc)"
  unfolding register_share_hashes_def
  by (rule ke.stable_modify) (auto simp: keeps_ended_def ended_def dest: registered_hashes)

lemma ended_release: "stable (keeps_ended tid) (release_hashes p :: ('z approvals_scheme, unit) proc)"
  unfolding release_hashes_def
  by (rule ke.stable_modify) (auto simp: keeps_ended_def ended_def dest: registered_release)

lemma ended_tags: "stable (keeps_ended tid) (set_tag name :: ('z approvals_scheme, unit) proc)"
    "stable (keeps_ended tid) (delete_tag name :: ('z approvals_scheme, unit) proc)"
  by (auto simp: stable_def set_tag_def delete_tag_def Let_def split: list.split option.split intro: keeps_ended_same)

lemma ended_policy: "stable (keeps_ended tid) (on_policy f :: ('z approvals_scheme, unit) proc)"
  by (rule ke.stable_modify) (rule keeps_ended_same; simp)

lemma ended_memory: "keeps_ended tid s (add_share t s)" "keeps_ended tid s (drop_share t s)" "keeps_ended tid s (add_active t d s)"
  "keeps_ended tid s (drop_active t s)" "keeps_ended tid s ((drop_active t s)\<lparr>rt_stopped := x\<rparr>)"
  by (rule keeps_ended_same; simp add: add_share_def drop_share_def add_active_def drop_active_def)+

lemmas ended_steps = ke.host_steps ke.stable_modify ended_release ended_tags ended_policy ended_memory

lemma ended_stop: "stable (keeps_ended tid) (stop_serving t :: ('z runtime_scheme, unit) proc)"
  unfolding stop_serving_def unregister_transfer_hashes_def by (intro ended_steps)

lemma ended_local_id: "stable (keeps_ended tid) (transfer_local_id t :: ('z approvals_scheme, string) proc)"
  unfolding transfer_local_id_def
  by (intro ended_steps ke.stable_transact) (auto simp: keeps_ended_def split: option.splits)

lemmas ended_rules = ended_steps ended_stop ended_local_id ke.stable_transition ke.stable_cancel_preparation
  ke.stable_complete_receive ke.stable_receipts ke.stable_access_mode ke.stable_insert_event ke.stable_recover
  ke.stable_expire_requests kd.stable_policy kd.stable_handshake kd.stable_finish kd.stable_take_sender kd.stable_conclude

lemma ended_respond: "stable (keeps_ended tid) (respond_to_receiver n rid b reason)"
  unfolding respond_to_receiver_def by (intro ended_rules)

lemma ended_insert: "tu_transfer_id t \<noteq> tid \<Longrightarrow> stable (keeps_ended tid) (insert_transfer n u t :: ('z approvals_scheme, unit) proc)"
  unfolding insert_transfer_def
  by (intro ended_rules ke.stable_transact)
    (auto simp: keeps_ended_def ended_def over_def transfer_row_of_def split: if_splits)

lemma ended_begin_share:
  "sm_transfer_id m \<noteq> tid \<Longrightarrow> stable (keeps_ended tid) (begin_share limits n u k m :: ('z runtime_scheme, unit) proc)"
  unfolding begin_share_def contains_protocol_id_def
  by (auto simp: importing_row_def intro!: ended_rules ended_insert)

lemma ended_start_receive:
  "tu_direction t = Receive \<Longrightarrow> stable (keeps_ended tid) (start_receive n u t :: ('z approvals_scheme, unit) proc)"
  unfolding start_receive_def
  by (intro ended_rules ke.stable_transact)
    (auto simp: Let_def keeps_ended_def ended_def over_def transfer_row_of_def set_update_where direction_as_str_def
      terminal_receive_def restart_receive_def split: if_splits sum.splits)

lemma ended_begin_receive: "stable (keeps_ended tid) (persist_receive_start n u t :: ('z runtime_scheme, unit) proc)"
proof (cases "tu_direction t = Receive")
  case True
  then show ?thesis unfolding persist_receive_start_def by (auto intro!: ended_rules ended_start_receive)
qed (auto simp: persist_receive_start_def start_receive_def intro!: ended_rules)

lemma ended_cancels:
  "stable (keeps_ended tid) (cancel_preparation n t :: ('z runtime_scheme, unit) proc)"
  "stable (keeps_ended tid) (cancel_idle_or_share n t :: ('z runtime_scheme, unit) proc)"
  "stable (keeps_ended tid) (take_active_transfer t :: ('z runtime_scheme, TransferDirection option) proc)"
  "stable (keeps_ended tid) (fail_share n t :: ('z runtime_scheme, unit) proc)"
  unfolding cancel_preparation_def cancel_idle_or_share_def take_active_transfer_def fail_share_def quietly_def
  by (auto intro!: ended_rules split: option.splits)

lemma ended_cancel: "stable (keeps_ended tid) (cancel_transfer n t :: ('z runtime_scheme, unit) proc)"
    "stable (keeps_ended tid) (abandon_share n t :: ('z runtime_scheme, unit) proc)"
  unfolding cancel_transfer_def abandon_share_def
  by (auto intro!: ended_rules ended_cancels split: option.splits TransferDirection.splits)

lemma ended_refuse: "stable (keeps_ended tid) (refuse_requests n qs :: ('z approvals_scheme, unit) proc)"
  by (induction qs) (auto simp: quietly_def intro!: ended_rules ended_respond)

lemma ended_deletes:
  "stable (keeps_ended tid) (delete_transfer t :: ('z approvals_scheme, unit) proc)"
  "stable (keeps_ended tid) (delete_receive_history :: ('z approvals_scheme, nat) proc)"
  unfolding delete_transfer_def delete_receive_history_def
  by (intro ended_rules ke.stable_transact,
      auto simp: Let_def keeps_ended_def ended_def delete_dependants_def delete_where_def split: sum.splits)+

lemma ended_delete: "stable (keeps_ended tid) (delete_share n t :: ('z runtime_scheme, unit) proc)"
  unfolding delete_share_def list_history_def list_receiver_requests_def
  by (auto intro!: ended_rules ended_refuse ended_deletes split: option.splits)

lemma ended_access:
  "stable (keeps_ended tid) (set_transfer_access_mode n t m :: ('z runtime_scheme, unit) proc)"
  "stable (keeps_ended tid) (approve_endpoint_for_transfer limits n t ep :: ('z runtime_scheme, unit) proc)"
  unfolding set_transfer_access_mode_def approve_endpoint_for_transfer_def Let_def by (auto intro!: ended_rules)

lemma ended_receive:
  "stable (keeps_ended tid) (finish_receive e n u t a p sn d :: ('z runtime_scheme, unit) proc)"
  "stable (keeps_ended tid) (fail_receive n t a c code r :: ('z runtime_scheme, unit) proc)"
  unfolding finish_receive_def fail_receive_def quietly_def
  by (auto intro!: ended_rules ke.stable_framed [OF ha.stable_activate] split: option.splits sum.splits)

lemma ended_deliver: "stable (keeps_ended tid) (deliver_pending_receipts net :: ('z runtime_scheme, bool) proc)"
proof -
  have one: "stable (keeps_ended tid) (deliver_pending_receipt a b c d :: ('z runtime_scheme, unit) proc)" for a b c d
    unfolding deliver_pending_receipt_def quietly_def
    by (auto intro!: ended_rules split: receipt_reply.splits DeliveryReceiptResponse.splits sum.splits)
  have "stable (keeps_ended tid) (deliver_all net ds :: ('z runtime_scheme, unit) proc)" for ds
    by (induction ds) (auto intro!: ended_rules one split: prod.splits)
  then show ?thesis unfolding deliver_pending_receipts_def list_pending_delivery_receipts_def
    by (auto intro!: ended_rules split: sum.splits)
qed

text \<open>A share that is over cannot be published: its row is not being imported.\<close>

lemma ended_import:
  assumes "ended (tu_transfer_id t) (s :: 'z approvals_scheme)" and "complete_share_import n t s = (x, u)"
  shows "\<exists>error. x = Inl error" "ended (tu_transfer_id t) u"
proof -
  let ?P = "\<lambda>r. it_transfer_id r = tu_transfer_id t \<and> it_direction r = ''send'' \<and> it_status r = ''importing''"
  have empty: "filter ?P (iv_transfers s) = []"
    using assms(1) by (auto simp: ended_def over_def filter_empty_conv)
  have none: "affected ?P (iv_transfers s) \<noteq> Suc 0" unfolding affected_def empty by simp
  have changed: "n \<noteq> Suc 0" if "update_history ?P f s = (Inr n, v)" for f n v
    using transact_InrD [OF that [unfolded update_history_def]] none by auto
  have failed: "\<exists>error. y = Inl error"
    if "bind (update_history ?P f) (\<lambda>n. lift (require_one_changed n m)) s = (y, v)" for f m y v
    using that changed [of f] by (cases "update_history ?P f s") (auto simp: bind_def lift_def require_one_changed_def split: sum.splits)
  show "\<exists>error. x = Inl error"
    using assms(2) by (auto simp: complete_share_import_def next_do_def err_def bind_def [of "lift _"] lift_def
        split: if_splits sum.splits dest: failed)
  show "ended (tu_transfer_id t) u"
    using stableD [OF ke.stable_complete_share assms(2)] assms(1) by (simp add: keeps_ended_def)
qed

lemma ended_publish: "stable (keeps_ended tid) (publish_share n m im encoded :: ('z runtime_scheme, unit) proc)"
proof (cases "sm_transfer_id m = tid")
  case False
  then show ?thesis unfolding publish_share_def quietly_def
    by (auto intro!: ended_rules ke.stable_complete_share ended_register split: sum.splits)
next
  case True
  have "stable (keeps_ended tid) (attempt (complete_share_import n (shared_row m im ticket)) (\<lambda>r. case r of
      Inl error \<Rightarrow> next_do (quietly (delete_tag name)) (err error) | Inr _ \<Rightarrow> k) :: ('z runtime_scheme, unit) proc)"
    for ticket name k
  proof (rule stableI, unfold keeps_ended_def, rule impI)
    fix s :: "'z runtime_scheme"
    assume s: "ended tid s"
    have tid: "tu_transfer_id (shared_row m im ticket) = tid" using True by (simp add: shared_row_def)
    obtain x u where x: "complete_share_import n (shared_row m im ticket) s = (x, u)" by fastforce
    obtain error where e: "x = Inl error" and u: "ended tid u"
      using ended_import [of "shared_row m im ticket", unfolded tid, OF s x] by blast
    have "stable (keeps_ended tid) (next_do (quietly (delete_tag name)) (err error) :: ('z runtime_scheme, unit) proc)"
      unfolding quietly_def by (auto intro!: ended_rules)
    then show "ended tid (snd (attempt (complete_share_import n (shared_row m im ticket)) (\<lambda>r. case r of
      Inl error \<Rightarrow> next_do (quietly (delete_tag name)) (err error) | Inr _ \<Rightarrow> k) s))"
      using u x e by (simp add: attempt_def stable_def keeps_ended_def)
  qed
  then show ?thesis unfolding publish_share_def
    by (intro ke.stable_next ke.stable_bind ke.stable_emit ke.stable_lift ended_local_id ended_tags)
qed

lemma ended_provider: "stable (keeps_ended tid) (handle_provider_message n m :: ('z runtime_scheme, _) proc)"
proof -
  have any: "stable (keeps_ended tid) (allow_any n ep r ts :: ('z runtime_scheme, string + u64) proc)" for ep r ts
    by (induction ts arbitrary: r) (auto intro!: ended_rules split: AccessDecision.splits)
  have one: "stable (keeps_ended tid) (authorize_hash n c h :: ('z runtime_scheme, string + u64) proc)" for c h
    unfolding authorize_hash_def allow_any_transfer_def by (auto intro!: ended_rules any)
  have all: "stable (keeps_ended tid) (authorize_all n c a hs :: ('z runtime_scheme, string + u64) proc)" for c a hs
    by (induction hs arbitrary: a) (auto intro!: ended_rules one split: sum.splits)
  have connect: "stable (keeps_ended tid) (connect_client c ep :: ('z runtime_scheme, unit) proc)" for c ep
    unfolding connect_client_def by (auto intro!: ended_rules keeps_ended_same split: option.splits)
  show ?thesis unfolding handle_provider_message_def authorize_hashes_def
    by (cases m) (auto intro!: ended_rules one all connect keeps_ended_same split: sum.splits)
qed

section \<open>A restart\<close>

lemma ended_restore_share:
  "ps_transfer_id sh \<noteq> tid \<Longrightarrow> stable (keeps_ended tid) (restore_share e n sh :: ('z runtime_scheme, string option) proc)"
  unfolding restore_share_def by (auto intro!: ended_rules ended_register split: option.splits prod.splits)

lemma ended_restore_shares:
  "\<forall>sh \<in> set shs. ps_transfer_id sh \<noteq> tid \<Longrightarrow> stable (keeps_ended tid) (restore_shares e n shs :: ('z runtime_scheme, string list) proc)"
  by (induction shs) (auto intro!: ended_rules ended_restore_share split: option.splits)

lemma ended_delete_tags: "stable (keeps_ended tid) (delete_tags ts :: ('z runtime_scheme, unit) proc)"
  by (induction ts) (auto intro!: ended_rules)

lemma ended_is_not_active:
  assumes "list_active_shares (s :: 'z runtime_scheme) = (Inr shs, t)" and "ended tid s" and "sh \<in> set shs"
  shows "ps_transfer_id sh \<noteq> tid"
proof -
  have "set shs \<subseteq> {sh. \<exists>r \<in> set (iv_transfers s). active_share r \<and> ps_transfer_id sh = it_transfer_id r}"
    using assms(1) by (auto simp: list_active_shares_def select_def transact_def map_filter_def Let_def
        split: list.splits option.splits if_splits) blast+
  then obtain r where "r \<in> set (iv_transfers s)" "active_share r" "ps_transfer_id sh = it_transfer_id r"
    using assms(3) by blast
  moreover have "over tid r" using assms(2) calculation(1) by (simp add: ended_def)
  ultimately show ?thesis by (auto simp: over_def active_share_def)
qed

lemma ended_restart: "stable (keeps_ended tid) (restore_invitations e n :: ('z runtime_scheme, unit) proc)"
proof -
  have shares: "stable (keeps_ended tid) (bind list_active_shares k :: ('z runtime_scheme, 'b) proc)"
    if "\<And>shs. \<forall>sh \<in> set shs. ps_transfer_id sh \<noteq> tid \<Longrightarrow> stable (keeps_ended tid) (k shs)" for k
  proof (rule stableI, unfold keeps_ended_def, rule impI)
    fix s :: "'z runtime_scheme"
    assume s: "ended tid s"
    obtain x t where x: "list_active_shares s = (x, t)" by fastforce
    have "stable (keeps_ended tid) (list_active_shares :: ('z runtime_scheme, persisted_share list) proc)"
      by (simp add: list_active_shares_def ke.stable_select)
    from stableD [OF this x] have t: "ended tid t" using s by (simp add: keeps_ended_def)
    show "ended tid (snd (bind list_active_shares k s))"
    proof (cases x)
      case (Inr shs)
      have "stable (keeps_ended tid) (k shs)" using that ended_is_not_active x s Inr by blast
      then show ?thesis using x Inr t by (simp add: bind_def stable_def keeps_ended_def)
    qed (use x t in \<open>simp add: bind_def\<close>)
  qed
  have fresh: "keeps_ended tid s (fresh_memory s)" for s :: "'z runtime_scheme"
    by (simp add: keeps_ended_def ended_def fresh_memory_def registered_def)
  have recovered: "stable (keeps_ended tid) (emit_recovered rs :: ('z runtime_scheme, unit) proc)" for rs
    unfolding emit_recovered_def by (auto intro!: ended_rules keeps_ended_same)
  have "stable (keeps_ended tid) (bind list_active_shares (\<lambda>shares. bind (restore_shares e n shares) (\<lambda>tags.
      bind (gets (\<lambda>s. filter (\<lambda>t. share_tag t \<and> \<not> List.member tags t) (w_tags s))) delete_tags))
      :: ('z runtime_scheme, unit) proc)"
    by (rule shares) (intro ke.stable_bind ended_restore_shares ended_delete_tags ke.stable_gets)
  note rest = this
  have expired: "stable (keeps_ended tid) (if (0::nat) < k then emit a b else ok () :: ('z runtime_scheme, unit) proc)" for k a b
    by (intro ke.stable_if ke.stable_emit ke.stable_ok)
  show ?thesis unfolding restore_invitations_def
    by (rule ke.stable_next [OF ke.stable_modify [OF fresh]], rule ke.stable_bind [OF ke.stable_recover],
        rule ke.stable_next [OF recovered], rule ke.stable_bind [OF ke.stable_expire_requests],
        rule ke.stable_next [OF expired rest])
qed

section \<open>How a share ends\<close>

lemma over_unique:
  assumes "distinct (map it_transfer_id rows)" and "r \<in> set rows" and "it_transfer_id r = tid" and "over tid r"
  shows "\<forall>q \<in> set rows. over tid q"
proof
  fix q assume "q \<in> set rows"
  then show "over tid q"
    using assms by (cases "it_transfer_id q = tid") (auto dest: inj_onD simp: distinct_map over_def)
qed

lemma update_history_over:
  assumes "update_history P u s = (Inr n, t)" and "n \<noteq> 0" and "distinct (map it_transfer_id (iv_transfers s))"
    and "\<And>r. P r \<Longrightarrow> it_transfer_id r = tid" "\<And>r. it_transfer_id (u r) = it_transfer_id r" "\<And>r. P r \<Longrightarrow> over tid (u r)"
  shows "\<forall>q \<in> set (iv_transfers t). over tid q"
proof -
  have t: "iv_transfers t = update_where P u (iv_transfers s)" and n: "affected P (iv_transfers s) = n"
    using assms(1) by (auto simp: update_history_def dest!: transact_InrD)
  obtain r where r: "r \<in> set (iv_transfers s)" "P r" using n assms(2) by (auto simp: affected_def filter_empty_conv)
  show ?thesis
  proof (rule over_unique)
    show "distinct (map it_transfer_id (iv_transfers t))" unfolding t using assms(3,5) by (simp add: map_update_where)
    show "u r \<in> set (iv_transfers t)" using t r by (auto simp: set_update_where)
    show "it_transfer_id (u r) = tid" "over tid (u r)" using assms(4-6) r(2) by auto
  qed
qed

lemma find_over:
  assumes "distinct (map it_transfer_id rows)" and "map_option it_status (find_by it_transfer_id tid (filter Q rows)) = Some x"
    and "x \<in> {''stopped'', ''failed'', ''cancelled'', ''done''}"
  shows "\<forall>q \<in> set rows. over tid q"
proof -
  obtain r where "r \<in> set rows" "it_transfer_id r = tid" "it_status r = x"
    using assms(2) by (auto dest!: find_by_SomeD)
  then show ?thesis using over_unique [OF assms(1)] assms(3) by (auto simp: over_def)
qed

lemma transition_over:
  assumes "transition_transfer_status n tid TsSharing TsStopped s = (Inr (), t)" and "distinct (map it_transfer_id (iv_transfers s))"
  shows "\<forall>q \<in> set (iv_transfers t). over tid q"
proof -
  let ?P = "\<lambda>r. it_transfer_id r = tid \<and> it_status r = status_as_str TsSharing"
  let ?u = "\<lambda>r :: transfer_row. r\<lparr>it_status := status_as_str TsStopped, it_updated_at := n\<rparr>"
  obtain k s1 where u: "update_history ?P ?u s = (Inr k, s1)"
    and rest: "(if k = 0 then bind (select (\<lambda>s. map_option it_status (find_by it_transfer_id tid (iv_transfers s))))
            (\<lambda>current. if current = Some (status_as_str TsStopped) then ok ()
              else lift (require_one_changed k ''transition transfer status''))
          else lift (require_one_changed k ''transition transfer status'')) s1 = (Inr (), t)"
    using assms(1) unfolding transition_transfer_status_def
    by (auto simp: err_def dest!: next_InrD bind_InrD lift_InrD split: if_splits)
  have ids: "distinct (map it_transfer_id (iv_transfers s1))"
    using u assms(2) by (auto simp: update_history_def map_update_where dest!: transact_InrD)
  show ?thesis
  proof (cases "k = 0")
    case True
    then have "iv_transfers t = iv_transfers s1"
      "map_option it_status (find_by it_transfer_id tid (filter (\<lambda>_. True) (iv_transfers s1))) = Some (status_as_str TsStopped)"
      using rest by (auto simp: require_one_changed_def ok_def dest!: bind_InrD select_InrD lift_InrD split: if_splits)
    then show ?thesis using find_over [OF ids, of tid "\<lambda>_. True"] by (simp add: status_as_str_def)
  next
    case False
    then have "t = s1" using rest by (auto dest!: lift_InrD)
    then show ?thesis using update_history_over [OF u False assms(2)] by (simp add: over_def status_as_str_def)
  qed
qed

lemma cancel_preparation_over:
  assumes "cancel_share_preparation n tid s = (Inr (), t)" and "distinct (map it_transfer_id (iv_transfers s))"
  shows "\<forall>q \<in> set (iv_transfers t). over tid q"
proof -
  let ?P = "\<lambda>r. it_transfer_id r = tid \<and> it_direction r = ''send'' \<and> List.member [''importing'', ''sharing''] (it_status r)"
  let ?u = "\<lambda>r :: transfer_row. r\<lparr>it_status := (if it_status r = ''sharing'' then ''stopped'' else ''cancelled''), it_updated_at := n\<rparr>"
  let ?find = "\<lambda>s :: 'a host_scheme. map_option it_status (find_by it_transfer_id tid (filter (\<lambda>r. it_direction r = ''send'') (iv_transfers s)))"
  obtain k s1 where u: "update_history ?P ?u s = (Inr k, s1)"
    and rest: "(if k \<noteq> 0 then ok () else bind (select ?find)
         (\<lambda>status. if status = Some ''cancelled'' \<or> status = Some ''stopped'' \<or> status = Some ''failed''
           then ok () else err (Repository ''share preparation was not found''))) s1 = (Inr (), t)"
    using assms(1) unfolding cancel_share_preparation_def by (auto simp del: List.member_iff dest!: next_InrD bind_InrD lift_InrD)
  have ids: "distinct (map it_transfer_id (iv_transfers s1))"
    using u assms(2) by (auto simp: update_history_def map_update_where dest!: transact_InrD)
  show ?thesis
  proof (cases "k = 0")
    case True
    then obtain x where "iv_transfers t = iv_transfers s1" "?find s1 = Some x" "x \<in> {''stopped'', ''failed'', ''cancelled'', ''done''}"
      using rest by (auto simp: ok_def err_def dest!: bind_InrD select_InrD split: if_splits)
    then show ?thesis using find_over [OF ids] by simp
  next
    case False
    then have "t = s1" using rest by (simp add: ok_def)
    then show ?thesis using update_history_over [OF u False assms(2)] by (auto simp: over_def)
  qed
qed

lemma stop_serving_run:
  assumes "stop_serving tid s = (x, t)"
  shows "x = Inr () \<and> iv_transfers t = iv_transfers s \<and> \<not> registered tid (w_hashes t)"
  using assms registered_release [of tid tid "w_hashes s"]
  by (auto simp: stop_serving_def unregister_transfer_hashes_def release_hashes_def next_do_def bind_def modify_def ok_def
      drop_share_def)

lemma stopped_then:
  assumes "next_do (stop_serving tid) m s = (x, t)" and "\<forall>q \<in> set (iv_transfers s). over tid q"
    and "stable (keeps_ended tid) (m :: ('z runtime_scheme, 'b) proc)"
  shows "ended tid t"
proof -
  obtain y u where u: "stop_serving tid s = (y, u)" by fastforce
  have "ended tid u" using stop_serving_run [OF u] assms(2) by (simp add: ended_def)
  moreover have "m u = (x, t)" using assms(1) u stop_serving_run [OF u] by (simp add: next_do_def bind_def)
  ultimately show ?thesis using stableD [OF assms(3)] by (auto simp: keeps_ended_def)
qed

lemma cancel_preparation_ends:
  assumes "cancel_preparation n tid s = (Inr (), t)" and "distinct (map it_transfer_id (iv_transfers s))"
  shows "ended tid (t :: 'z runtime_scheme)"
proof -
  obtain s1 where s1: "cancel_share_preparation n tid s = (Inr (), s1)"
    and rest: "next_do (stop_serving tid) (bind (transfer_local_id tid) (\<lambda>local_id. delete_tag (share_tag_name local_id))) s1 = (Inr (), t)"
    using assms(1) unfolding cancel_preparation_def by (auto dest!: next_InrD [of "cancel_share_preparation n tid"])
  show ?thesis by (rule stopped_then [OF rest cancel_preparation_over [OF s1 assms(2)]]) (intro ended_rules)
qed

lemma cancel_idle_ends:
  assumes "cancel_idle_or_share n tid s = (Inr (), t)" and "distinct (map it_transfer_id (iv_transfers s))"
  shows "ended tid (t :: 'z runtime_scheme)"
proof -
  obtain l s0 where l: "transfer_local_id tid s = (Inr l, s0)"
    and rest: "next_do (transition_transfer_status n tid TsSharing TsStopped) (next_do (stop_serving tid)
       (next_do (delete_tag (share_tag_name l)) (emit ''lifecycle'' ''share-stopped''))) s0 = (Inr (), t)"
    using assms(1) unfolding cancel_idle_or_share_def by (auto simp: gets_def bind_def [of "gets _"] err_def ok_def dest!: bind_InrD split: if_splits)
  have ids: "distinct (map it_transfer_id (iv_transfers s0))"
    using l assms(2) by (auto simp: transfer_local_id_def dest!: next_InrD lift_InrD transact_InrD split: option.splits)
  obtain s1 where s1: "transition_transfer_status n tid TsSharing TsStopped s0 = (Inr (), s1)"
    and stop: "next_do (stop_serving tid) (next_do (delete_tag (share_tag_name l)) (emit ''lifecycle'' ''share-stopped'')) s1 = (Inr (), t)"
    using next_InrD [OF rest] by auto
  show ?thesis by (rule stopped_then [OF stop transition_over [OF s1 ids]]) (intro ended_rules)
qed

lemma cancel_ends:
  assumes "cancel_transfer n tid s = (Inr (), t)" and "distinct (map it_transfer_id (iv_transfers s))"
    and "map_of (rt_active_transfers s) tid \<noteq> Some Receive"
  shows "ended tid (t :: 'z runtime_scheme)"
proof (cases "map_of (rt_active_transfers s) tid")
  case None
  then have "cancel_idle_or_share n tid s = (Inr (), t)"
    using assms(1) by (simp add: cancel_transfer_def take_active_transfer_def bind_def gets_def ok_def)
  then show ?thesis by (rule cancel_idle_ends [OF _ assms(2)])
next
  case (Some d)
  then have "d = Send" using assms(3) by (cases d) auto
  with Some have "cancel_preparation n tid ((drop_active tid s)\<lparr>rt_stopped := rt_stopped s @ [tid]\<rparr>) = (Inr (), t)"
    using assms(1) by (simp add: cancel_transfer_def take_active_transfer_def bind_def gets_def ok_def next_do_def modify_def)
  then show ?thesis by (rule cancel_preparation_ends) (use assms(2) in \<open>simp add: drop_active_def\<close>)
qed

lemma delete_ends:
  assumes "delete_share n tid s = (Inr (), t)"
  shows "ended tid (t :: 'z runtime_scheme)"
proof -
  let ?rest = "\<lambda>r :: stored_transfer. next_do (stop_serving tid)
      (next_do (if st_direction r = direction_as_str Send then delete_tag (share_tag_name (st_local_id r)) else ok ())
        (delete_transfer tid)) :: ('z runtime_scheme, unit) proc"
  let ?found = "\<lambda>rows :: stored_transfer list. case List.find (\<lambda>r. st_transfer_id r = tid) rows of
       None \<Rightarrow> err (TransferError ''transfer not found'')
     | Some r \<Rightarrow> next_do
         (if st_status r = status_as_str TsSharing then transition_transfer_status n tid TsSharing TsStopped else ok ())
         (bind (list_receiver_requests tid) (\<lambda>requests. next_do (refuse_requests n requests) (?rest r)))"
  have "bind list_history ?found s = (Inr (), t)"
    using assms by (simp add: delete_share_def bind_def [of "gets _"] gets_def err_def split: if_splits)
  from bind_InrD [OF this] obtain rows s0 where "?found rows s0 = (Inr (), t)" by (elim exE conjE) (rule that)
  then obtain r where "next_do (if st_status r = status_as_str TsSharing then transition_transfer_status n tid TsSharing TsStopped else ok ())
      (bind (list_receiver_requests tid) (\<lambda>requests. next_do (refuse_requests n requests) (?rest r))) s0 = (Inr (), t)"
    by (cases "List.find (\<lambda>r. st_transfer_id r = tid) rows") (simp_all add: err_def)
  from next_InrD [OF this] obtain s2 where
    "bind (list_receiver_requests tid) (\<lambda>requests. next_do (refuse_requests n requests) (?rest r)) s2 = (Inr (), t)" by (elim exE conjE) (rule that)
  from bind_InrD [OF this] obtain qs s3 where "next_do (refuse_requests n qs) (?rest r) s3 = (Inr (), t)" by (elim exE conjE) (rule that)
  from next_InrD [OF this] obtain s1 where stop: "?rest r s1 = (Inr (), t)" by (elim exE conjE) (rule that)
  obtain y u where u: "stop_serving tid s1 = (Inr y, u)"
    and u': "next_do (if st_direction r = direction_as_str Send then delete_tag (share_tag_name (st_local_id r)) else ok ())
        (delete_transfer tid) u = (Inr (), t)" using next_InrD [OF stop] by blast
  then obtain v where v: "(if st_direction r = direction_as_str Send then delete_tag (share_tag_name (st_local_id r)) else ok ()) u = (Inr (), v)"
    and t: "delete_transfer tid v = (Inr (), t)" using next_InrD [OF u'] by auto
  have "w_hashes v = w_hashes u"
    using v by (auto simp: delete_tag_def ok_def Let_def split: if_splits list.splits option.splits)
  then have "\<not> registered tid (w_hashes v)" using stop_serving_run [OF u] by simp
  then show ?thesis using t
    by (auto simp: ended_def over_def delete_transfer_def Let_def delete_dependants_def delete_where_def
        dest!: next_InrD lift_InrD transact_InrD split: sum.splits)
qed

section \<open>The property\<close>

definition begins :: "runtime_command \<Rightarrow> u64 option" where
  "begins c = (case c of BeginShare n u k m \<Rightarrow> Some (sm_transfer_id m) | _ \<Rightarrow> None)"

lemma perform_runtime_keeps:
  assumes "begins c \<noteq> Some tid"
  shows "keeps_ended tid (s :: 'z runtime_scheme) (perform_runtime e c s)"
proof -
  have after: "keeps_ended tid s (snd (m s))" if "stable (keeps_ended tid) m" for m :: "('z runtime_scheme, 'x) proc"
    using that by (simp add: stable_def)
  have fin: "keeps_ended tid s (case find_by aw_request_id rid (ap_waiters s) of None \<Rightarrow> s | Some w \<Rightarrow> snd (finish_decision a n tk w s))"
    for a rid n tk by (simp add: ke.refl after kd.stable_finish split: option.split)
  show ?thesis
    using assms by (cases c) (simp_all add: begins_def after fin ended_begin_share ended_publish ended_memory ended_cancels
        ended_cancel ended_delete ended_deletes ended_access ended_begin_receive ended_receive ended_deliver
        ke.stable_insert_event kd.stable_handshake ended_respond ended_provider ended_restart)
qed

lemma ended_run: "\<forall>c \<in> set cs. begins c \<noteq> Some tid \<Longrightarrow> ended tid s \<Longrightarrow> ended tid (fold (perform_runtime e) cs s)"
proof (induction cs arbitrary: s)
  case (Cons c cs)
  then have "ended tid (perform_runtime e c s)" using perform_runtime_keeps [of c tid] by (auto simp: keeps_ended_def)
  with Cons show ?case by simp
qed simp

lemma ended_not_owner: "ended tid s \<Longrightarrow> tid \<notin> set (owners_of h (w_hashes s))"
  by (cases "map_of (w_hashes s) h") (auto simp: ended_def registered_def owners_of_def dest!: map_of_SomeD)

text \<open>
  C4: a share that was cancelled or deleted is over. After the cancellation or the deletion has succeeded, no blob
  belongs to the transfer again, whatever runs afterwards - operations of the user, messages of receivers and of the
  blob provider, calls that still wait, an import that was on its way, restarts of the program - unless a new share
  is begun under its id.
\<close>

theorem ended_shares_are_never_served:
  assumes "distinct (map it_transfer_id (iv_transfers (s :: 'z runtime_scheme)))"
    and "cancel_transfer n tid s = (Inr (), t) \<and> map_of (rt_active_transfers s) tid \<noteq> Some Receive \<or> delete_share n tid s = (Inr (), t)"
    and "\<forall>c \<in> set cs. begins c \<noteq> Some tid"
  shows "tid \<notin> set (owners_of h (w_hashes (fold (perform_runtime e) cs t)))"
proof -
  have "ended tid t" using assms(1,2) cancel_ends delete_ends by blast
  then show ?thesis by (rule ended_not_owner [OF ended_run [OF assms(3)]])
qed

definition ref_runtime_env :: runtime_env where
  "ref_runtime_env = \<lparr>nv_approval = ref_approval_env, nv_limits = default_core_limits, nv_parse_hash = Some,
     nv_collection = (\<lambda>h. if h = ''root'' then Some [''file''] else None), nv_profile_matches = (\<lambda>t. True)\<rparr>"

theorem ended_shares_are_never_served_witness:
  "\<exists>t. cancel_transfer 50 7 ref_serving = (Inr (), t) \<and>
     7 \<notin> set (owners_of ''root'' (w_hashes (fold (perform_runtime ref_runtime_env)
       [SetTransferMode 60 7 Public, FromProvider 60 (GetRequestReceived 1 ''root''), Restart 70] t)))"
proof -
  have ids: "distinct (map it_transfer_id (iv_transfers ref_serving))"
    by (simp add: ref_serving_def ref_runtime_def)
  have active: "map_of (rt_active_transfers ref_serving) 7 \<noteq> Some Receive"
    by (simp add: ref_serving_def ref_runtime_def)
  obtain x t where c: "cancel_transfer 50 7 ref_serving = (x, t)" by fastforce
  then have "x = Inr ()"
    by (auto simp: cancel_transfer_def take_active_transfer_def cancel_idle_or_share_def transfer_local_id_def
        transition_transfer_status_def update_history_def stop_serving_def unregister_transfer_hashes_def
        release_hashes_def delete_tag_def drop_share_def ref_serving_def ref_runtime_def ref_share_def host_call_defs
        status_as_str_def transfer_row_of_def can_transition_to_def)
  with c have run: "cancel_transfer 50 7 ref_serving = (Inr (), t)" by simp
  have no_begin: "\<forall>c \<in> set [SetTransferMode 60 7 Public, FromProvider 60 (GetRequestReceived 1 ''root''), Restart 70]. begins c \<noteq> Some 7"
    by (simp add: begins_def)
  have "cancel_transfer 50 7 ref_serving = (Inr (), t) \<and> map_of (rt_active_transfers ref_serving) 7 \<noteq> Some Receive
      \<or> delete_share 50 7 ref_serving = (Inr (), t)" using run active by simp
  from ended_shares_are_never_served [OF ids this no_begin] run show ?thesis by blast
qed

text \<open>
  A deletion that fails after it stopped the share in the history, because the requests cannot be listed, leaves the
  blobs registered: they are served although the history says the share is stopped. The user has to cancel or delete
  again.
\<close>

lemma failed_deletion_keeps_serving:
  "\<exists>t. delete_share 50 7 (ref_serving\<lparr>db_faults := [None, None, Some ''disk'']\<rparr>) = (Inl (Repository ''disk''), t)
     \<and> map it_status (iv_transfers t) = [''stopped''] \<and> owners_of ''root'' (w_hashes t) = [7] \<and> rt_active_shares t = [7]"
  by (simp add: delete_share_def list_history_def list_receiver_requests_def transition_transfer_status_def update_history_def
        row_to_stored_transfer_def
        parse_direction_def parse_status_def direction_try_from_def status_try_from_def direction_as_str_def ref_serving_def ref_runtime_def ref_share_def host_call_defs owners_of_def
        status_as_str_def transfer_row_of_def can_transition_to_def)

end
