(* ===== verification/Targeted_Preparation.thy ===== *)
theory Targeted_Preparation
  imports Module_Properties
begin

text \<open>
  The gate of a targeted transfer's preparation (\<^verbatim>\<open>runtime/targeted_preparation.rs\<close>): a mutex around the
  phase and a condition variable, shared by the one call that sends and any number of calls that stop.
  Every method that holds the lock is one function on the phase; it also says whether it calls \<open>notify_all\<close>.
  A call of \<open>stop\<close> that waits on the condition variable sleeps until it is notified (or wakes spuriously)
  and then looks at the phase again. \<open>gate_step\<close> interleaves the parts of \<open>send\<close> and of the calls of \<open>stop\<close>.
\<close>

section \<open>The gate\<close>

datatype PreparationPhase =
    Ready | PhasePreparing | StopRequested | Registering | Registered string | Stopping | Stopped | PhaseFailed
  | Finished stop_outcome

definition gate_start :: "PreparationPhase \<Rightarrow> PreparationPhase option" where
  "gate_start p = (if p = Ready then Some PhasePreparing else None)"

definition begin_registration :: "PreparationPhase \<Rightarrow> bool \<times> PreparationPhase" where
  "begin_registration p = (if p = StopRequested then (False, p) else (True, Registering))"

text \<open>The methods that notify: the new phase, and whether \<open>changed.notify_all\<close> is called.\<close>

definition gate_registered :: "string \<Rightarrow> PreparationPhase \<Rightarrow> PreparationPhase \<times> bool" where
  "gate_registered tid p = (Registered tid, True)"

definition gate_failed :: "PreparationPhase \<Rightarrow> PreparationPhase \<times> bool" where
  "gate_failed p = (if p = StopRequested then Finished PreparationStopped else PhaseFailed, True)"

definition gate_finish :: "stop_outcome \<Rightarrow> PreparationPhase \<Rightarrow> PreparationPhase \<times> bool" where
  "gate_finish outcome p = (Finished outcome, True)"

definition stop_failed :: "string \<Rightarrow> PreparationPhase \<Rightarrow> PreparationPhase \<times> bool" where
  "stop_failed tid p = (Registered tid, True)"

text \<open>One round of the loop of \<open>stop_target\<close>: an answer, the transfer to stop, or a wait.\<close>

datatype stop_answer = StopAnswer stop_outcome | StopTransfer string | StopWaits

definition stop_target :: "PreparationPhase \<Rightarrow> stop_answer \<times> PreparationPhase" where
  "stop_target p = (case p of
      Ready \<Rightarrow> (StopAnswer PreparationStopped, Stopped)
    | PhasePreparing \<Rightarrow> (StopWaits, StopRequested)
    | StopRequested \<Rightarrow> (StopWaits, p)
    | Registering \<Rightarrow> (StopWaits, p)
    | Registered tid \<Rightarrow> (StopTransfer tid, Stopping)
    | Stopping \<Rightarrow> (StopWaits, p)
    | Stopped \<Rightarrow> (StopAnswer PreparationStopped, p)
    | PhaseFailed \<Rightarrow> (StopAnswer PreparationStopped, p)
    | Finished outcome \<Rightarrow> (StopAnswer outcome, p))"

section \<open>The calls of send and stop\<close>

text \<open>
  Where the call of \<open>send\<close> stands. \<open>SendPrepared\<close>: the transfer is registered and its negotiation is
  started, the gate is told next. \<open>SendFailing\<close>: the preparation failed or was refused by the gate.
\<close>

datatype send_stage = SendIdle | SendImporting | SendRegistering | SendPrepared string | SendFailing | SendOver

text \<open>
  Where a call of \<open>stop\<close> stands: about to look at the phase, asleep on the condition variable, at work on
  the transfer, or over with an outcome or an error (\<open>None\<close>).
\<close>

datatype stop_stage = StopRuns | StopSleeps | StopWorks string | StopReturned "stop_outcome option"

record preparation =
  pg_phase :: PreparationPhase
  pg_send :: send_stage
  pg_negotiated :: "string list"
  pg_calls :: "stop_stage list"
  pg_answers :: "stop_outcome list"

definition new_preparation :: preparation where
  "new_preparation = \<lparr>pg_phase = Ready, pg_send = SendIdle, pg_negotiated = [], pg_calls = [], pg_answers = []\<rparr>"

definition wake :: "stop_stage \<Rightarrow> stop_stage" where
  "wake c = (if c = StopSleeps then StopRuns else c)"

text \<open>A method writes the phase and wakes every sleeping call, if it notifies.\<close>

definition enter_phase :: "PreparationPhase \<times> bool \<Rightarrow> preparation \<Rightarrow> preparation" where
  "enter_phase w g = g\<lparr>pg_phase := fst w, pg_calls := (if snd w then map wake (pg_calls g) else pg_calls g)\<rparr>"

text \<open>The steps of \<open>send\<close>; another call of it fails at \<open>gate_start\<close> and changes nothing.\<close>

inductive send_step :: "preparation \<Rightarrow> preparation \<Rightarrow> bool" where
  start: "gate_start (pg_phase g) = Some p \<Longrightarrow> pg_send g = SendIdle \<Longrightarrow>
     send_step g (g\<lparr>pg_phase := p, pg_send := SendImporting\<rparr>)"
| import_failed: "pg_send g = SendImporting \<Longrightarrow> send_step g (g\<lparr>pg_send := SendFailing\<rparr>)"
| registering: "pg_send g = SendImporting \<Longrightarrow> begin_registration (pg_phase g) = (True, p) \<Longrightarrow>
     send_step g (g\<lparr>pg_phase := p, pg_send := SendRegistering\<rparr>)"
| refused: "pg_send g = SendImporting \<Longrightarrow> begin_registration (pg_phase g) = (False, p) \<Longrightarrow>
     send_step g (g\<lparr>pg_phase := p, pg_send := SendFailing\<rparr>)"
| registration_failed: "pg_send g = SendRegistering \<Longrightarrow> send_step g (g\<lparr>pg_send := SendFailing\<rparr>)"
| prepared: "pg_send g = SendRegistering \<Longrightarrow>
     send_step g (g\<lparr>pg_send := SendPrepared tid, pg_negotiated := pg_negotiated g @ [tid]\<rparr>)"
| told: "pg_send g = SendPrepared tid \<Longrightarrow>
     send_step g (enter_phase (gate_registered tid (pg_phase g)) g\<lparr>pg_send := SendOver\<rparr>)"
| failed: "pg_send g = SendFailing \<Longrightarrow>
     send_step g (enter_phase (gate_failed (pg_phase g)) g\<lparr>pg_send := SendOver\<rparr>)"

text \<open>Call \<open>i\<close> of \<open>stop\<close> takes the lock and makes a round of \<open>stop_target\<close>.\<close>

definition stop_call :: "nat \<Rightarrow> preparation \<Rightarrow> preparation" where
  "stop_call i g = (case stop_target (pg_phase g) of (reply, p) \<Rightarrow> (case reply of
      StopAnswer outcome \<Rightarrow> g\<lparr>pg_phase := p, pg_calls := (pg_calls g)[i := StopReturned (Some outcome)],
        pg_answers := pg_answers g @ [outcome]\<rparr>
    | StopTransfer tid \<Rightarrow> g\<lparr>pg_phase := p, pg_calls := (pg_calls g)[i := StopWorks tid]\<rparr>
    | StopWaits \<Rightarrow> g\<lparr>pg_phase := p, pg_calls := (pg_calls g)[i := StopSleeps]\<rparr>))"

text \<open>
  The steps of a call of \<open>stop\<close>: a round, and the end of its work on a transfer. The module's
  \<open>stop_preparation\<close> never answers \<open>PreparationStopped\<close>.
\<close>

inductive stopper_step :: "nat \<Rightarrow> preparation \<Rightarrow> preparation \<Rightarrow> bool" for i where
  runs: "pg_calls g ! i = StopRuns \<Longrightarrow> stopper_step i g (stop_call i g)"
| stopped: "pg_calls g ! i = StopWorks tid \<Longrightarrow> outcome \<noteq> PreparationStopped \<Longrightarrow>
     stopper_step i g (enter_phase (gate_finish outcome (pg_phase g)) g
       \<lparr>pg_calls := (pg_calls (enter_phase (gate_finish outcome (pg_phase g)) g))[i := StopReturned (Some outcome)],
        pg_answers := pg_answers g @ [outcome]\<rparr>)"
| stop_error: "pg_calls g ! i = StopWorks tid \<Longrightarrow>
     stopper_step i g (enter_phase (stop_failed tid (pg_phase g)) g
       \<lparr>pg_calls := (pg_calls (enter_phase (stop_failed tid (pg_phase g)) g))[i := StopReturned None]\<rparr>)"

text \<open>What the calls do by themselves, and with new calls of \<open>stop\<close> and spurious wake-ups.\<close>

inductive work_step :: "preparation \<Rightarrow> preparation \<Rightarrow> bool" where
  sends: "send_step g h \<Longrightarrow> work_step g h"
| stops: "i < length (pg_calls g) \<Longrightarrow> stopper_step i g h \<Longrightarrow> work_step g h"

inductive gate_step :: "preparation \<Rightarrow> preparation \<Rightarrow> bool" where
  works: "work_step g h \<Longrightarrow> gate_step g h"
| arrives: "gate_step g (g\<lparr>pg_calls := pg_calls g @ [StopRuns]\<rparr>)"
| wakes: "i < length (pg_calls g) \<Longrightarrow> pg_calls g ! i = StopSleeps \<Longrightarrow>
     gate_step g (g\<lparr>pg_calls := (pg_calls g)[i := StopRuns]\<rparr>)"

definition gate_reachable :: "preparation \<Rightarrow> bool" where
  "gate_reachable g \<longleftrightarrow> gate_step\<^sup>*\<^sup>* new_preparation g"

lemma stop_preparation_answers:
  "stop_preparation e now tid s = (Inr outcome, t) \<Longrightarrow> outcome \<noteq> PreparationStopped"
  unfolding stop_preparation_def
  by (auto simp: ok_def dest!: bind_InrD next_InrD split: option.splits if_splits)

section \<open>The invariant\<close>

definition is_working :: "stop_stage \<Rightarrow> bool" where
  "is_working c = (case c of StopWorks tid \<Rightarrow> True | _ \<Rightarrow> False)"

abbreviation workers :: "preparation \<Rightarrow> stop_stage list" where
  "workers g \<equiv> filter is_working (pg_calls g)"

definition stop_waits :: "PreparationPhase \<Rightarrow> bool" where
  "stop_waits p \<longleftrightarrow> fst (stop_target p) = StopWaits"

text \<open>
  How the phase goes with the stage of \<open>send\<close> and with the calls of \<open>stop\<close>: at most one of them works on the
  transfer, and one sleeps only while the phase is one to wait in.
\<close>

definition gate_ok :: "preparation \<Rightarrow> bool" where
  "gate_ok g \<longleftrightarrow> (case pg_send g of
      SendIdle \<Rightarrow> pg_phase g \<in> {Ready, Stopped} \<and> pg_negotiated g = [] \<and> workers g = []
    | SendImporting \<Rightarrow> pg_phase g \<in> {PhasePreparing, StopRequested} \<and> pg_negotiated g = [] \<and> workers g = []
    | SendRegistering \<Rightarrow> pg_phase g = Registering \<and> pg_negotiated g = [] \<and> workers g = []
    | SendPrepared tid \<Rightarrow> pg_phase g = Registering \<and> pg_negotiated g = [tid] \<and> workers g = []
    | SendFailing \<Rightarrow> pg_phase g \<in> {PhasePreparing, StopRequested, Registering} \<and> pg_negotiated g = [] \<and> workers g = []
    | SendOver \<Rightarrow> (case pg_negotiated g of
         [] \<Rightarrow> pg_phase g \<in> {PhaseFailed, Finished PreparationStopped} \<and> workers g = []
       | [tid] \<Rightarrow> (case pg_phase g of
            Registered t \<Rightarrow> t = tid \<and> workers g = []
          | Stopping \<Rightarrow> workers g = [StopWorks tid]
          | Finished outcome \<Rightarrow> outcome \<noteq> PreparationStopped \<and> workers g = []
          | _ \<Rightarrow> False)
       | _ \<Rightarrow> False))
   \<and> (PreparationStopped \<in> set (pg_answers g) \<longrightarrow> pg_negotiated g = [] \<and>
        (pg_phase g = Stopped \<and> pg_send g = SendIdle \<or> pg_send g = SendOver))
   \<and> (set (pg_answers g) \<subseteq> {PreparationStopped} \<or> pg_negotiated g \<noteq> [])
   \<and> (StopSleeps \<in> set (pg_calls g) \<longrightarrow> stop_waits (pg_phase g))"

lemmas gate_defs = gate_start_def begin_registration_def gate_registered_def gate_failed_def gate_finish_def stop_failed_def

lemmas stage_simps = stop_waits_def stop_target_def enter_phase_def gate_defs

inductive_cases send_stepE: "send_step g h"
inductive_cases stopper_stepE: "stopper_step i g h"
inductive_cases work_stepE: "work_step g h"
inductive_cases gate_stepE: "gate_step g h"

lemma wake_simps [simp]: "is_working (wake c) = is_working c" "wake c \<noteq> StopSleeps" "StopSleeps \<noteq> wake c" "wake (StopWorks t) = StopWorks t"
  "wake (StopReturned r) = StopReturned r"
  by (auto simp: wake_def is_working_def)

lemma workers_wake [simp]: "filter is_working (map wake cs) = filter is_working cs"
  by (induction cs) (auto simp: is_working_def wake_def split: stop_stage.splits)

lemma awake [simp]: "StopSleeps \<notin> set (map wake cs)"
  by auto

lemma awake_returned [simp]: "StopSleeps \<notin> set ((map wake cs)[i := StopReturned r])"
  using set_update_subset_insert [of "map wake cs" i "StopReturned r"] by auto

lemma split_at_call: "i < length cs \<Longrightarrow> \<exists>xs ys. cs = xs @ cs ! i # ys \<and> length xs = i"
  by (metis id_take_nth_drop length_take min.absorb4)

lemma workers_update:
  assumes "i < length cs" and "\<not> is_working (cs ! i)"
  shows "\<not> is_working c \<Longrightarrow> filter is_working (cs[i := c]) = filter is_working cs"
    and "is_working c \<Longrightarrow> filter is_working cs = [] \<Longrightarrow> filter is_working (cs[i := c]) = [c]"
proof -
  obtain xs x ys where "cs = xs @ x # ys" "length xs = i" "cs ! i = x" using split_at_call [OF assms(1)] by blast
  then show "\<not> is_working c \<Longrightarrow> filter is_working (cs[i := c]) = filter is_working cs"
    and "is_working c \<Longrightarrow> filter is_working cs = [] \<Longrightarrow> filter is_working (cs[i := c]) = [c]"
    using assms(2) by (auto simp: list_update_append)
qed

lemma worker_done:
  assumes "i < length cs" and "is_working (cs ! i)" and "filter is_working cs = [w]" and "\<not> is_working c"
  shows "filter is_working (cs[i := c]) = [] \<and> cs ! i = w"
proof -
  obtain xs x ys where "cs = xs @ x # ys" "length xs = i" "cs ! i = x" using split_at_call [OF assms(1)] by blast
  then show ?thesis using assms by (auto simp: list_update_append append_eq_Cons_conv filter_empty_conv)
qed

lemma calls_update: "x \<in> set (cs[i := c]) \<Longrightarrow> x = c \<or> x \<in> set cs"
  using set_update_subset_insert by fastforce

lemma send_keeps: "send_step g h \<Longrightarrow> gate_ok g \<Longrightarrow> gate_ok h"
  by (erule send_stepE) (auto simp: gate_ok_def stage_simps split: if_splits)

lemma stop_call_keeps:
  assumes "gate_ok g" and "i < length (pg_calls g)" and "pg_calls g ! i = StopRuns"
  shows "gate_ok (stop_call i g)"
proof -
  have w: "\<not> is_working (pg_calls g ! i)" using assms(3) by (simp add: is_working_def)
  note keep = workers_update(1) [OF assms(2) w] and new = workers_update(2) [OF assms(2) w]
  have c: "is_working (StopWorks t)" "\<not> is_working StopSleeps" "\<not> is_working (StopReturned r)" for t r
    by (simp_all add: is_working_def)
  show ?thesis using assms(1)
    by (auto simp: gate_ok_def stop_call_def stage_simps keep new c dest: calls_update
        split: send_stage.splits list.splits PreparationPhase.splits)
qed

lemma worker_found:
  assumes "gate_ok g" and "i < length (pg_calls g)" and "pg_calls g ! i = StopWorks t"
  shows "pg_send g = SendOver \<and> pg_negotiated g = [t] \<and> pg_phase g = Stopping \<and> workers g = [StopWorks t]"
proof -
  have t: "StopWorks t \<in> set (workers g)" using assms(2,3) by (auto simp: is_working_def in_set_conv_nth)
  then have some: "workers g \<noteq> []" by (metis empty_iff list.set(1))
  obtain u where u: "pg_send g = SendOver" "pg_negotiated g = [u]" "pg_phase g = Stopping" "workers g = [StopWorks u]"
    using assms(1) some
    by (auto simp: gate_ok_def simp del: filter_empty_conv split: send_stage.splits list.splits PreparationPhase.splits)
  with t show ?thesis by simp
qed

lemma stopper_keeps:
  assumes "stopper_step i g h" and "gate_ok g" and "i < length (pg_calls g)"
  shows "gate_ok h"
  using assms(1)
proof (rule stopper_stepE)
  assume "h = stop_call i g" "pg_calls g ! i = StopRuns"
  then show ?thesis using stop_call_keeps [OF assms(2,3)] by simp
next
  fix t outcome
  assume h: "h = enter_phase (gate_finish outcome (pg_phase g)) g
       \<lparr>pg_calls := (pg_calls (enter_phase (gate_finish outcome (pg_phase g)) g))[i := StopReturned (Some outcome)],
        pg_answers := pg_answers g @ [outcome]\<rparr>"
    and i: "pg_calls g ! i = StopWorks t" and o: "outcome \<noteq> PreparationStopped"
  note w = worker_found [OF assms(2,3) i]
  have "workers h = []"
    using worker_done [of i "map wake (pg_calls g)" "StopWorks t" "StopReturned (Some outcome)"] w i assms(3)
    by (simp add: h enter_phase_def gate_finish_def is_working_def)
  then show ?thesis using assms(2) w o
    by (auto simp: h gate_ok_def stage_simps dest: calls_update)
next
  fix t
  assume h: "h = enter_phase (stop_failed t (pg_phase g)) g
       \<lparr>pg_calls := (pg_calls (enter_phase (stop_failed t (pg_phase g)) g))[i := StopReturned None]\<rparr>"
    and i: "pg_calls g ! i = StopWorks t"
  note w = worker_found [OF assms(2,3) i]
  have "workers h = []"
    using worker_done [of i "map wake (pg_calls g)" "StopWorks t" "StopReturned None"] w i assms(3)
    by (simp add: h enter_phase_def stop_failed_def is_working_def)
  then show ?thesis using assms(2) w
    by (auto simp: h gate_ok_def stage_simps dest: calls_update)
qed

lemma work_keeps: "work_step g h \<Longrightarrow> gate_ok g \<Longrightarrow> gate_ok h"
  by (erule work_stepE) (auto intro: send_keeps stopper_keeps)

lemma calls_keep:
  assumes "gate_ok g" and "filter is_working cs = workers g" and "StopSleeps \<in> set cs \<longrightarrow> StopSleeps \<in> set (pg_calls g)"
  shows "gate_ok (g\<lparr>pg_calls := cs\<rparr>)"
  using assms by (auto simp: gate_ok_def split: send_stage.splits list.splits PreparationPhase.splits)

lemma gate_keeps:
  assumes "gate_step g h" and "gate_ok g"
  shows "gate_ok h"
  using assms(1)
proof (rule gate_stepE)
  assume "work_step g h"
  then show ?thesis by (rule work_keeps [OF _ assms(2)])
next
  assume "h = g\<lparr>pg_calls := pg_calls g @ [StopRuns]\<rparr>"
  then show ?thesis using calls_keep [OF assms(2), of "pg_calls g @ [StopRuns]"] by (simp add: is_working_def)
next
  fix i assume i: "h = g\<lparr>pg_calls := (pg_calls g)[i := StopRuns]\<rparr>" "i < length (pg_calls g)" "pg_calls g ! i = StopSleeps"
  then have "filter is_working ((pg_calls g)[i := StopRuns]) = workers g"
    by (intro workers_update(1)) (simp_all add: is_working_def)
  then show ?thesis using calls_keep [OF assms(2)] i by (auto dest: calls_update)
qed

lemma reachable_ok: "gate_reachable g \<Longrightarrow> gate_ok g"
  unfolding gate_reachable_def
proof (induction rule: rtranclp_induct)
  case base
  then show ?case by (simp add: gate_ok_def new_preparation_def)
next
  case (step g h)
  then show ?case using gate_keeps by blast
qed

lemma reachable_more: "gate_reachable g \<Longrightarrow> gate_step\<^sup>*\<^sup>* g h \<Longrightarrow> gate_reachable h"
  unfolding gate_reachable_def by (rule rtranclp_trans)

text \<open>A stop has taken hold: it is requested, or the preparation is over without a transfer.\<close>

definition called_off :: "preparation \<Rightarrow> bool" where
  "called_off g \<longleftrightarrow> pg_phase g \<in> {StopRequested, Stopped} \<or> pg_send g = SendOver \<and> pg_negotiated g = []"

lemma answered_called_off: "gate_ok g \<Longrightarrow> PreparationStopped \<in> set (pg_answers g) \<Longrightarrow> called_off g"
  by (auto simp: gate_ok_def called_off_def)

lemma called_off_quiet:
  "gate_ok g \<Longrightarrow> called_off g \<Longrightarrow> pg_negotiated g = [] \<and> workers g = [] \<and> set (pg_answers g) \<subseteq> {PreparationStopped}"
  by (auto simp: gate_ok_def called_off_def split: send_stage.splits list.splits)

lemma called_off_step:
  assumes "gate_ok g" and "called_off g" and "gate_step g h"
  shows "called_off h"
  using assms(3)
proof (rule gate_stepE)
  assume "work_step g h"
  then show ?thesis
  proof (rule work_stepE)
    assume "send_step g h"
    then show ?thesis
      by (rule send_stepE) (use assms(1,2) in \<open>auto simp: gate_ok_def called_off_def stage_simps split: if_splits\<close>)
  next
    fix i assume i: "i < length (pg_calls g)" and "stopper_step i g h"
    then show ?thesis using worker_found [OF assms(1) i] called_off_quiet [OF assms(1,2)] assms(1,2)
      by (elim stopper_stepE) (auto simp: gate_ok_def called_off_def stop_call_def stop_target_def split: PreparationPhase.splits)
  qed
qed (use assms(2) in \<open>simp_all add: called_off_def\<close>)

lemma called_off_run:
  assumes "gate_reachable g" and "called_off g" and "gate_step\<^sup>*\<^sup>* g h"
  shows "called_off h"
  using assms(3)
proof (induction rule: rtranclp_induct)
  case base
  show ?case by (rule assms(2))
next
  case (step h k)
  show ?case
    by (rule called_off_step [OF reachable_ok [OF reachable_more [OF assms(1) step(1)]] step(3) step(2)])
qed

section \<open>How much is left to do\<close>

text \<open>
  Every notification wakes each sleeping call at most once more, and is the end of \<open>send\<close> or of the work of a call.
\<close>

definition send_left :: "preparation \<Rightarrow> nat" where
  "send_left g = (case pg_send g of SendIdle \<Rightarrow> 4 | SendImporting \<Rightarrow> 3 | SendRegistering \<Rightarrow> 2 | SendOver \<Rightarrow> 0 | _ \<Rightarrow> 1)"

definition unreturned :: "stop_stage \<Rightarrow> bool" where
  "unreturned c = (case c of StopReturned r \<Rightarrow> False | _ \<Rightarrow> True)"

definition notices_left :: "preparation \<Rightarrow> nat" where
  "notices_left g = (if pg_send g = SendOver then 0 else 1) + length (filter unreturned (pg_calls g))"

definition work_left :: "preparation \<Rightarrow> nat" where
  "work_left g = send_left g + length (filter unreturned (pg_calls g)) + count_list (pg_calls g) StopRuns
     + length (pg_calls g) * notices_left g"

lemma count_update:
  assumes "i < length cs" and "x \<noteq> y"
  shows "count_list (cs[i := y]) x + (if cs ! i = x then 1 else 0) = count_list cs x"
proof -
  obtain xs z ys where "cs = xs @ z # ys" "length xs = i" "cs ! i = z" using split_at_call [OF assms(1)] by blast
  then show ?thesis using assms(2) by (auto simp: list_update_append)
qed

lemma unreturned_update:
  assumes "i < length cs" and "unreturned (cs ! i)"
  shows "length (filter unreturned (cs[i := y])) + (if unreturned y then 0 else 1) = length (filter unreturned cs)"
proof -
  obtain xs z ys where "cs = xs @ z # ys" "length xs = i" "cs ! i = z" using split_at_call [OF assms(1)] by blast
  then show ?thesis using assms(2) by (auto simp: list_update_append)
qed

lemma unreturned_wake [simp]: "filter unreturned (map wake cs) = map wake (filter unreturned cs)"
  by (induction cs) (auto simp: unreturned_def wake_def split: stop_stage.splits)

lemma unreturned_simps [simp]: "unreturned StopRuns" "unreturned StopSleeps" "unreturned (StopWorks t)" "\<not> unreturned (StopReturned r)"
  by (simp_all add: unreturned_def)

lemma send_works: "send_step g h \<Longrightarrow> work_left h < work_left g"
proof (induction rule: send_step.induct)
  case (told g tid)
  have "count_list (map wake (pg_calls g)) StopRuns \<le> length (pg_calls g)" using count_le_length [of "map wake (pg_calls g)"] by simp
  then show ?case using told by (simp add: work_left_def send_left_def notices_left_def enter_phase_def gate_registered_def)
next
  case (failed g)
  have "count_list (map wake (pg_calls g)) StopRuns \<le> length (pg_calls g)" using count_le_length [of "map wake (pg_calls g)"] by simp
  then show ?case using failed by (simp add: work_left_def send_left_def notices_left_def enter_phase_def gate_failed_def)
qed (simp_all add: work_left_def send_left_def notices_left_def)

lemma returned_works:
  assumes "i < length (pg_calls g)" and "pg_calls g ! i = StopWorks t"
    and h: "pg_calls h = (map wake (pg_calls g))[i := StopReturned r]" "pg_send h = pg_send g"
  shows "work_left h < work_left g"
proof -
  let ?cs = "pg_calls g" and ?ds = "(map wake (pg_calls g))[i := StopReturned r]"
  have 1: "length (filter unreturned ?cs) = length (filter unreturned ?ds) + 1"
    using unreturned_update [of i "map wake ?cs" "StopReturned r"] assms(1,2) by simp
  have 2: "count_list ?ds StopRuns \<le> length ?cs" using count_le_length [of ?ds StopRuns] by simp
  show ?thesis
  proof -
    let ?n = "length ?cs" and ?k = "if pg_send g = SendOver then 0 else 1 :: nat" and ?a = "length (filter unreturned ?ds)"
    have "?n * (?k + (?a + 1)) = ?n + ?n * (?k + ?a)" by (simp add: algebra_simps)
    moreover have "work_left h = send_left g + ?a + count_list ?ds StopRuns + ?n * (?k + ?a)"
      by (simp only: work_left_def send_left_def notices_left_def h length_list_update length_map)
    moreover have "work_left g = send_left g + (?a + 1) + count_list ?cs StopRuns + ?n * (?k + (?a + 1))"
      unfolding work_left_def notices_left_def 1 ..
    ultimately show ?thesis using 2 by linarith
  qed
qed

lemma run_works:
  assumes "i < length (pg_calls g)" and "pg_calls g ! i = StopRuns"
  shows "work_left (stop_call i g) < work_left g"
proof -
  obtain y where y: "pg_calls (stop_call i g) = (pg_calls g)[i := y]" "y \<noteq> StopRuns" "pg_send (stop_call i g) = pg_send g"
    by (cases "fst (stop_target (pg_phase g))") (auto simp: stop_call_def case_prod_beta that)
  have "count_list ((pg_calls g)[i := y]) StopRuns + 1 = count_list (pg_calls g) StopRuns"
    using count_update [OF assms(1), of StopRuns y] assms(2) y(2) by simp
  moreover have "length (filter unreturned ((pg_calls g)[i := y])) \<le> length (filter unreturned (pg_calls g))"
    using unreturned_update [OF assms(1), of y] assms(2) by simp
  moreover from calculation(2) have "length (pg_calls g) * length (filter unreturned ((pg_calls g)[i := y]))
      \<le> length (pg_calls g) * length (filter unreturned (pg_calls g))" by (rule mult_le_mono2)
  ultimately show ?thesis
    unfolding work_left_def send_left_def notices_left_def y(1,3) length_list_update add_mult_distrib2 by linarith
qed

lemma work_decreases: "work_step g h \<Longrightarrow> work_left h < work_left g"
proof (erule work_stepE)
  fix i assume i: "i < length (pg_calls g)" and "stopper_step i g h"
  then show ?thesis
    by (elim stopper_stepE) (auto intro: run_works returned_works simp: enter_phase_def gate_finish_def stop_failed_def)
qed (rule send_works)

lemma works_end: "(work_step ^^ n) g h \<Longrightarrow> n + work_left h \<le> work_left g"
proof (induction n arbitrary: h)
  case (Suc n)
  then obtain k where "(work_step ^^ n) g k" "work_step k h" by auto
  with Suc.IH work_decreases show ?case by fastforce
qed simp

text \<open>While a call of \<open>stop\<close> has not returned, some call can go on.\<close>

lemma sleeper_is_served:
  assumes "gate_ok g" and "StopSleeps \<in> set (pg_calls g)"
  shows "(\<exists>h. send_step g h) \<or> (\<exists>i t. i < length (pg_calls g) \<and> pg_calls g ! i = StopWorks t)"
proof -
  have w: "stop_waits (pg_phase g)" using assms by (simp add: gate_ok_def)
  show ?thesis
  proof (cases "pg_send g")
    case SendOver
    then obtain t where "workers g = [StopWorks t]"
      using assms(1) w by (auto simp: gate_ok_def stop_waits_def stop_target_def split: list.splits PreparationPhase.splits)
    then have "StopWorks t \<in> set (pg_calls g)" by (metis filter_is_subset list.set_intros(1) subsetD)
    then show ?thesis by (metis in_set_conv_nth)
  qed (use assms(1) w in \<open>auto simp: gate_ok_def stop_waits_def stop_target_def intro: send_step.intros\<close>)
qed

lemma progress:
  assumes "gate_ok g" and "c \<in> set (pg_calls g)" and "unreturned c"
  shows "\<exists>h. work_step g h"
proof -
  obtain i where i: "i < length (pg_calls g)" "pg_calls g ! i = c" using assms(2) by (metis in_set_conv_nth)
  have worker: "\<exists>h. work_step g h" if "j < length (pg_calls g)" "pg_calls g ! j = StopWorks t" for j t
    using work_step.stops [OF that(1) stopper_step.stop_error [OF that(2)]] by blast
  show ?thesis
  proof (cases c)
    case StopRuns
    then show ?thesis using work_step.stops [OF i(1) stopper_step.runs] i(2) by blast
  next
    case StopSleeps
    then show ?thesis using sleeper_is_served [OF assms(1)] assms(2) worker work_step.sends by blast
  next
    case (StopWorks t)
    then show ?thesis using worker i by blast
  qed (use assms(3) in simp)
qed

definition stuck :: "preparation \<Rightarrow> bool" where
  "stuck g \<longleftrightarrow> (\<nexists>h. work_step g h)"

lemma works_reach: "gate_reachable g \<Longrightarrow> work_step\<^sup>*\<^sup>* g h \<Longrightarrow> gate_reachable h"
proof (erule reachable_more)
  assume "work_step\<^sup>*\<^sup>* g h"
  then show "gate_step\<^sup>*\<^sup>* g h" by (rule rtranclp_mono [THEN predicate2D, rotated]) (auto intro: gate_step.works)
qed

section \<open>The properties\<close>

text \<open>
  C8: a stop is honest. Once a call of \<open>stop\<close> has answered that the preparation was stopped, or a stop has been
  requested before the transfer is registered, no transfer is ever offered to the receiver by this preparation, in
  whatever order the parts of \<open>send\<close> and of other calls of \<open>stop\<close> run, and no call of \<open>stop\<close> gets another answer.
\<close>

theorem stopped_preparations_offer_nothing:
  assumes "gate_reachable g"
    and "PreparationStopped \<in> set (pg_answers g) \<or> pg_phase g = StopRequested"
    and "gate_step\<^sup>*\<^sup>* g h"
  shows "pg_negotiated h = [] \<and> set (pg_answers h) \<subseteq> {PreparationStopped}"
proof -
  have "called_off g" using assms(2) answered_called_off [OF reachable_ok [OF assms(1)]] by (auto simp: called_off_def)
  then show ?thesis
    using called_off_quiet [OF reachable_ok [OF reachable_more [OF assms(1,3)]]] called_off_run [OF assms(1) _ assms(3)]
    by blast
qed

definition ref_stopping :: preparation where
  "ref_stopping = \<lparr>pg_phase = StopRequested, pg_send = SendImporting, pg_negotiated = [], pg_calls = [StopSleeps], pg_answers = []\<rparr>"

definition ref_stopped :: preparation where
  "ref_stopped = \<lparr>pg_phase = Finished PreparationStopped, pg_send = SendOver, pg_negotiated = [],
     pg_calls = [StopReturned (Some PreparationStopped)], pg_answers = [PreparationStopped]\<rparr>"

lemma ref_stopping_reachable: "gate_reachable ref_stopping"
proof -
  let ?a = "new_preparation\<lparr>pg_phase := PhasePreparing, pg_send := SendImporting\<rparr>"
  have "gate_step new_preparation ?a"
    by (intro gate_step.works work_step.sends send_step.start) (simp_all add: gate_start_def new_preparation_def)
  moreover have "gate_step ?a (?a\<lparr>pg_calls := [StopRuns]\<rparr>)"
    using gate_step.arrives [of ?a] by (simp add: new_preparation_def)
  moreover have "gate_step (?a\<lparr>pg_calls := [StopRuns]\<rparr>) ref_stopping"
    using gate_step.works [OF work_step.stops [OF _ stopper_step.runs, of 0 "?a\<lparr>pg_calls := [StopRuns]\<rparr>"]]
    by (simp add: stop_call_def stop_target_def ref_stopping_def new_preparation_def)
  ultimately show ?thesis
    unfolding gate_reachable_def by (blast intro: rtranclp.rtrancl_into_rtrancl)
qed

lemma ref_stopping_stopped: "work_step\<^sup>*\<^sup>* ref_stopping ref_stopped"
proof -
  let ?a = "ref_stopping\<lparr>pg_send := SendFailing\<rparr>"
  let ?b = "ref_stopping\<lparr>pg_phase := Finished PreparationStopped, pg_send := SendOver, pg_calls := [StopRuns]\<rparr>"
  have "work_step ref_stopping ?a"
    using work_step.sends [OF send_step.refused [of ref_stopping StopRequested]]
    by (simp add: ref_stopping_def begin_registration_def)
  moreover have "work_step ?a ?b"
    using work_step.sends [OF send_step.failed [of ?a]]
    by (simp add: ref_stopping_def gate_failed_def enter_phase_def wake_def)
  moreover have "work_step ?b ref_stopped"
    using work_step.stops [OF _ stopper_step.runs, of 0 ?b]
    by (simp add: stop_call_def stop_target_def ref_stopping_def ref_stopped_def)
  ultimately show ?thesis by (blast intro: rtranclp.rtrancl_into_rtrancl)
qed

theorem stopped_preparations_offer_nothing_witness:
  "pg_negotiated ref_stopped = [] \<and> set (pg_answers ref_stopped) \<subseteq> {PreparationStopped}"
proof (rule stopped_preparations_offer_nothing [OF ref_stopping_reachable])
  show "PreparationStopped \<in> set (pg_answers ref_stopping) \<or> pg_phase ref_stopping = StopRequested"
    by (simp add: ref_stopping_def)
  show "gate_step\<^sup>*\<^sup>* ref_stopping ref_stopped" by (rule rtranclp_mono [THEN predicate2D, OF _ ref_stopping_stopped]) (auto intro: gate_step.works)
qed


text \<open>
  C9: every call of \<open>stop\<close> returns. From any reachable state, with any number of calls of \<open>stop\<close> running, asleep on
  the condition variable or at work, the parts of \<open>send\<close> and of these calls can make only boundedly many steps, in
  whatever order they are scheduled and without any spurious wake-up; and when none of them can make a step any more,
  each call has returned an outcome or an error. So no call is left asleep: whatever leaves a phase in which a call
  may sleep notifies it.
\<close>

theorem waiting_stops_are_answered:
  assumes "gate_reachable g"
  shows "{n. \<exists>h. (work_step ^^ n) g h} \<subseteq> {..work_left g}
    \<and> {h. work_step\<^sup>*\<^sup>* g h \<and> stuck h} \<subseteq> {h. set (pg_calls h) \<subseteq> range StopReturned}"
proof
  show "{n. \<exists>h. (work_step ^^ n) g h} \<subseteq> {..work_left g}" using works_end by fastforce
  have "set (pg_calls h) \<subseteq> range StopReturned" if "work_step\<^sup>*\<^sup>* g h" "stuck h" for h
  proof
    fix c assume "c \<in> set (pg_calls h)"
    then have "\<not> unreturned c" using progress [OF reachable_ok [OF works_reach [OF assms that(1)]]] that(2) by (auto simp: stuck_def)
    then show "c \<in> range StopReturned" by (cases c) simp_all
  qed
  then show "{h. work_step\<^sup>*\<^sup>* g h \<and> stuck h} \<subseteq> {h. set (pg_calls h) \<subseteq> range StopReturned}" by blast
qed

theorem waiting_stops_are_answered_witness:
  "{n. \<exists>h. (work_step ^^ n) ref_stopping h} \<subseteq> {..7} \<and> work_step\<^sup>*\<^sup>* ref_stopping ref_stopped
    \<and> {h. work_step\<^sup>*\<^sup>* ref_stopping h \<and> stuck h} \<subseteq> {h. set (pg_calls h) \<subseteq> range StopReturned}"
proof -
  have "work_left ref_stopping \<le> 7"
    by (simp add: work_left_def send_left_def notices_left_def ref_stopping_def)
  then show ?thesis using waiting_stops_are_answered [OF ref_stopping_reachable] ref_stopping_stopped by auto
qed

end
