(* ===== verification/Spec2Isabelle.thy ===== *)
theory Spec2Isabelle
  imports Custody_Properties Inbox_Properties Run_Properties Pairing_Refinement Output_Properties Share_Runs Targeted_Preparation
begin

text \<open>
  A verification development of the core of vnidrop, a peer-to-peer file transfer program
  (\<^verbatim>\<open>src/crates/vnidrop/src\<close>). A device shares files with anyone who holds an invitation ticket and
  whom the user lets in, or sends them to a saved device (a targeted transfer) after the user of that
  device accepted an offer. The development models the part that decides who may do what: the
  relationships between devices and how they are made and ended, invitations and their approval,
  offers and capabilities for targeted transfers, which bytes are served to whom, what a received
  file may be called and when it appears, what the database and the credential store keep across
  crashes, and the checks on tickets and events.

  \<^bold>\<open>How the program is modelled.\<close> A fallible call is a procedure \<open>'s \<Rightarrow> (vnidrop_error + 'a) \<times> 's\<close>
  (\<open>Vnidrop_Prelude\<close>): \<open>Inl\<close> is Rust's \<open>Err\<close>, and the state it leaves is kept whether or not it
  fails. \<open>bind\<close> is the \<open>?\<close> operator, \<open>attempt\<close> a \<open>match\<close> on a result. A SQLite table is a list of
  rows; \<open>transact\<close> is a transaction, rolled back on an error, and the state carries a schedule of
  database faults, one entry per statement or transaction, so every operation can fail at every
  database call. The credential store and the blob store's tags have such a schedule too. Integers
  keep their width (\<open>u64\<close>, \<open>u32\<close>, \<open>u16\<close> are words; \<open>sint\<close> gives the value SQLite stores), times are
  \<open>int\<close>s and the clock, UUIDs and random bytes are arguments of the call that draws them. Byte strings
  and text are \<open>string\<close>s, except where characters are inspected.

  The states are nested records: \<open>db\<close> (transfer tables), \<open>vault\<close> (adds secret metadata and the
  credential store), \<open>relations\<close> (adds device relationships), \<open>pairing\<close> (adds eligibilities and the deny
  list), \<open>world\<close> (adds the inbox, the running transfers, the payload registrations and the access
  policy), \<open>host\<close> (adds the invitation tables), \<open>approvals\<close> (adds pending approvals and waiting calls),
  \<open>runtime\<close> (adds connections, active shares and transfers) and, beside it, \<open>receiver\<close> (\<open>host\<close> with the
  files of a file system). A component's operations work on the scheme of its record, so the components
  above use them as they are.

  \<^bold>\<open>Theories and code.\<close>
    \<^item> \<open>Vnidrop_Prelude\<close>: \<^verbatim>\<open>error.rs\<close>, procedures, tables, relations kept by procedures.
    \<^item> \<open>Transfer_State\<close>: \<^verbatim>\<open>transfer_state.rs\<close>, \<^verbatim>\<open>targeted_transfer/state.rs\<close>.
    \<^item> \<open>Targeted_Auth\<close>: capabilities, \<^verbatim>\<open>targeted_transfer/auth.rs\<close>.
    \<^item> \<open>Targeted_Store\<close>, \<open>Targeted_Store_Facts\<close>, \<open>Store_Properties\<close>:
      \<^verbatim>\<open>targeted_transfer/store.rs\<close>, \<^verbatim>\<open>store_outbox.rs\<close>, \<^verbatim>\<open>schema.rs\<close>.
    \<^item> \<open>Secret_Custody\<close>, \<open>Secret_Custody_Facts\<close>, \<open>Custody_Properties\<close>: \<^verbatim>\<open>secure_secret.rs\<close>.
    \<^item> \<open>Relationship_Store\<close>, \<open>Relationship_Service\<close>, \<open>Relationship_Facts\<close>, \<open>Relationship_Properties\<close>:
      \<^verbatim>\<open>device_relationship/store.rs\<close>, the grants, proofs, generations and rotation of \<^verbatim>\<open>service.rs\<close>,
      \<^verbatim>\<open>crypto.rs\<close>, \<^verbatim>\<open>grant.rs\<close>.
    \<^item> \<open>Pairing_Eligibility\<close>, \<open>Eligibility_Properties\<close>: \<^verbatim>\<open>pairing_eligibility/\<close>, \<^verbatim>\<open>blocked_devices.rs\<close>.
    \<^item> \<open>Pairing\<close>, \<open>Pairing_Facts\<close>, \<open>Pairing_Runs\<close>, \<open>Pairing_Properties\<close>, \<open>Pairing_Refinement\<close>: the pairing
      dialogue, forgetting and blocking of \<^verbatim>\<open>device_relationship/service.rs\<close>, \<^verbatim>\<open>lifecycle.rs\<close>,
      \<^verbatim>\<open>protocol.rs\<close>; the abstract life cycle of a relationship, with the events each command may cause, and the
      simulation.
    \<^item> \<open>Control_Plane\<close>: \<^verbatim>\<open>control_plane.rs\<close>; \<open>Access_Policy\<close>: \<^verbatim>\<open>access_policy.rs\<close>; \<open>Ticket\<close>: \<^verbatim>\<open>ticket.rs\<close>
      and the limits and relay checks of \<^verbatim>\<open>api.rs\<close>.
    \<^item> \<open>Targeted_Inbox\<close>, \<open>Targeted_Inbox_Facts\<close>, \<open>Inbox_Properties\<close>: \<^verbatim>\<open>targeted_transfer/inbox.rs\<close>.
    \<^item> \<open>Targeted_Module\<close>, \<open>Targeted_Module_Facts\<close>, \<open>Targeted_Runs\<close>, \<open>Module_Properties\<close>,
      \<open>Peer_Properties\<close>, \<open>Run_Properties\<close>: \<^verbatim>\<open>targeted_transfer/module.rs\<close>,
      \<^verbatim>\<open>authorization_custody.rs\<close>, \<^verbatim>\<open>protocol.rs\<close>, the user's answer in \<^verbatim>\<open>runtime/targeted.rs\<close>, the row
      of \<^verbatim>\<open>runtime/targeted_create.rs\<close> and the cleanup closure of \<^verbatim>\<open>runtime/mod.rs\<close>.
    \<^item> \<open>Targeted_Preparation\<close>: \<^verbatim>\<open>runtime/targeted_preparation.rs\<close>, the gate between sending and stopping.
    \<^item> \<open>Invitation_Store\<close>, \<open>Approval\<close>, \<open>Approval_Runs\<close>, \<open>Approval_Reference\<close>, \<open>Approval_Properties\<close>,
      \<open>Approval_Decisions\<close>: \<^verbatim>\<open>invitation/mod.rs\<close>, \<^verbatim>\<open>approval.rs\<close>, \<^verbatim>\<open>handshake.rs\<close>.
    \<^item> \<open>File_Paths\<close>, \<open>Path_Properties\<close>, \<open>Output_Files\<close>, \<open>Output_Properties\<close>: \<^verbatim>\<open>filesystem.rs\<close> and the
      export of a blob into a directory in \<^verbatim>\<open>runtime/receive.rs\<close>.
    \<^item> \<open>Share_Runtime\<close>, \<open>Share_Properties\<close>, \<open>Share_Runs\<close>: \<^verbatim>\<open>runtime/share.rs\<close>, \<^verbatim>\<open>lifecycle.rs\<close>,
      \<^verbatim>\<open>provider.rs\<close>, \<^verbatim>\<open>delivery.rs\<close>, \<^verbatim>\<open>receive.rs\<close>, the cancellation in \<^verbatim>\<open>facade.rs\<close> and the restoring of
      shares in \<^verbatim>\<open>runtime/mod.rs\<close>.

  \<^bold>\<open>Concurrency.\<close> A call that does not wait is one step. A call that waits for the user, for a
  capability or for the network is split at the wait. Submitting and accepting an offer end with a
  handle on a watch channel, and \<open>finish_offer\<close> and \<open>finish_respond\<close> are the part after it; a request for
  approval leaves a waiter and \<open>finish_decision\<close> is its continuation; the pairing dialogue, a share and a
  receive are split into the parts between their network calls. Steps of other calls may come in
  between; \<open>dialogue\<close> runs a later part of the pairing dialogue only when an earlier one left it due. Submitting
  an offer is split at its critical sections too (\<open>inbox_step\<close>), the gate of a preparation at every round of
  its condition variable (\<open>gate_step\<close>, with sleeping calls, \<open>notify_all\<close> and spurious wake-ups), and the
  writing of a file at the moments where other processes may change the directory (\<open>os_others\<close>, \<open>os_race\<close>).
  Elsewhere a part between two waits is one step although the code suspends at database calls inside it: the
  handlers of relationships, whose locks are per peer or missing (so the limit of saved devices is no property
  here, see \<open>overlapping_calls_exceed_the_slots\<close>), the deletion of a share, a decline and a discard in the inbox. Channels keep their last value, whether the sender lives and how many receivers there are.
  \<open>inbox_step\<close>, \<open>module_step\<close> and \<open>gate_step\<close> are step relations; \<open>pair_command\<close>, \<open>host_command\<close> and
  \<open>runtime_command\<close> list the commands of a run of the pairing services, of the approval service and of
  the runtime. Runs interleave commands, messages of peers, continuations and restarts (which keep the
  database and empty the memory) in any order.

  \<^bold>\<open>What the lemmas show.\<close> \<open>stable R m\<close> says that a call keeps a two-state relation whatever the
  start and whether or not it fails. The locales are the interfaces such relations satisfy:
  \<open>state_preorder\<close>, \<open>db_state\<close>, \<open>db_preorder\<close> for the transfer tables, \<open>module_state\<close>, \<open>module_commands\<close>,
  \<open>module_tables\<close> for the targeted module, \<open>eligibility_preorder\<close>, \<open>activation_preorder\<close> for pairing, and
  \<open>requests_preorder\<close>, \<open>updates_preorder\<close>, \<open>repository_preorder\<close>, \<open>decision_preorder\<close>,
  \<open>approval_preorder\<close> for invitations. They are interpreted for the transition graph (\<open>evolves\<close>), the
  keys (\<open>keys_kept\<close>), consent (\<open>consented\<close>), revocations (\<open>revoked_kept\<close>), the life of invitation rows
  (\<open>rows_follow\<close>), well-formed tables (\<open>keeps_host\<close>), granted access (\<open>memory_within\<close>), ended shares
  (\<open>keeps_ended\<close>) and frames of what an operation leaves alone, and give each a lemma per operation and
  per run. The properties are labelled \<open>C1\<close> to \<open>C40\<close> in the theories above: the user's consent behind
  every received file and every download, exactly who is served bytes, shares that stay ended, names and
  files that stay in their directory, binding and round trips of capabilities, what peers' messages
  cannot do, the life cycle of relationships and its refinement, erasure on termination, recovery after a
  restart or a crash, bounds on offers and files, redaction as non-interference. Every property with a
  hypothesis is followed by a witness that applies it to concrete data (\<open>ref_...\<close>).

  \<^bold>\<open>Parameters.\<close> Third-party code is an argument: keyed hashing, hex, base64 and JSON codecs
  (\<open>ext\<close> with the laws \<open>ext_ok\<close>, instantiated by \<open>ref_ext\<close>), URL parsing, blob tickets, \<open>blake3\<close> and
  the public key of an identity; the answers of the operating system about files (\<open>fs_env\<close>, \<open>os_env\<close>); the
  collections the blob store holds (\<open>runtime_env\<close>). No cryptographic strength is assumed: the properties
  say which bytes are compared, not that they cannot be guessed.

  \<^bold>\<open>Bounds and fuel.\<close> No definition needs fuel: loops run over lists, and the recursive functions are
  structural or have a measure. Faults are finite schedules; after the schedule every call succeeds.

  \<^bold>\<open>Not modelled.\<close> The threads, streams and sockets between two operations (iroh, QUIC, reading and
  writing of file contents); output sinks supplied by the host application; the negotiation, download and
  reconciliation loops of targeted transfers in \<^verbatim>\<open>runtime/targeted_*.rs\<close> and the restoring of their access
  at start; the wrappers of \<^verbatim>\<open>runtime/facade.rs\<close> and \<^verbatim>\<open>saved_devices.rs\<close>; the migration, recovery and
  reset of the endpoint identity; the platform credential services; event delivery and logging; the
  applications. Column upgrades of old databases are not modelled either, except the one-time migration
  of the delivery outbox.
\<close>

end
